(* ===== verification/Prelude.thy ===== *)
theory Prelude
  imports Main "HOL-Library.Code_Target_Nat"
begin

text \<open>
  Shared vocabulary of the development: JavaScript strings as lists of UTF-16 code units with
  the string methods the frontend calls, the generic list and option lemmas the components
  share, and the theorem collections their proofs use.
\<close>

named_theorems js_eval \<open>definitions that a closed instance evaluates by\<close>
named_theorems width_intros \<open>rows of a printed document that fit the paper\<close>

section \<open>JavaScript strings\<close>

text \<open>
  A JavaScript string is a sequence of 16-bit code units, which \<open>length\<close> and \<open>slice\<close> count;
  a literal of the source is written \<open>js ''...''\<close>, and the characters beyond ASCII that the
  source prints (the euro sign, the dashes, accented vowels) are given by their code unit.
\<close>

type_synonym jsstring = "nat list"

definition js :: "string \<Rightarrow> jsstring" where
  "js s = map of_char s"

lemma length_js [simp]: "length (js s) = length s"
  by (simp add: js_def)

lemma js_Nil [simp]: "js [] = []"
  by (simp add: js_def)

lemma js_append: "js (s @ t) = js s @ js t"
  by (simp add: js_def)

lemma js_eq_Nil [simp]: "js s = [] \<longleftrightarrow> s = []"
  by (simp add: js_def)

lemma js_inject [simp]: "js s = js t \<longleftrightarrow> s = t"
  by (simp add: js_def inj_map_eq_map inj_of_char)

text \<open>Code units of the source's characters: space, comma, full stop, line feed, euro sign.\<close>

abbreviation (input) cu_space :: nat where "cu_space \<equiv> 32"
abbreviation (input) cu_comma :: nat where "cu_comma \<equiv> 44"
abbreviation (input) cu_dash :: nat where "cu_dash \<equiv> 45"
abbreviation (input) cu_dot :: nat where "cu_dot \<equiv> 46"
abbreviation (input) cu_lf :: nat where "cu_lf \<equiv> 10"
abbreviation (input) cu_euro :: nat where "cu_euro \<equiv> 8364"

text \<open>The white space and line terminators that \<open>trim\<close> and \<open>\s\<close> skip.\<close>

definition js_ws :: "nat \<Rightarrow> bool" where
  "js_ws c \<longleftrightarrow> c \<in> set [9, 10, 11, 12, 13, 32, 160, 5760, 8232, 8233, 8239, 8287, 12288, 65279]
     \<or> (8192 \<le> c \<and> c \<le> 8202)"

definition js_line_terminator :: "nat \<Rightarrow> bool" where
  "js_line_terminator c \<longleftrightarrow> c = 10 \<or> c = 13 \<or> c = 8232 \<or> c = 8233"

definition js_trim_end :: "jsstring \<Rightarrow> jsstring" where
  "js_trim_end s = rev (dropWhile js_ws (rev s))"

definition js_trim :: "jsstring \<Rightarrow> jsstring" where
  "js_trim s = js_trim_end (dropWhile js_ws s)"

text \<open>\<open>slice(start, end)\<close>: a negative position counts from the end, both are clamped.\<close>

definition js_position :: "int \<Rightarrow> 'a list \<Rightarrow> nat" where
  "js_position i s = (if i < 0 then nat (int (length s) + i) else min (nat i) (length s))"

definition js_slice :: "int \<Rightarrow> int \<Rightarrow> 'a list \<Rightarrow> 'a list" where
  "js_slice a b s = drop (js_position a s) (take (js_position b s) s)"

definition js_slice_from :: "int \<Rightarrow> 'a list \<Rightarrow> 'a list" where
  "js_slice_from a s = drop (js_position a s) s"

definition js_repeat :: "nat \<Rightarrow> jsstring \<Rightarrow> jsstring" where
  "js_repeat n s = concat (replicate n s)"

definition js_pad_start :: "nat \<Rightarrow> jsstring \<Rightarrow> jsstring" where
  "js_pad_start n s = replicate (n - length s) cu_space @ s"

definition js_pad_end :: "nat \<Rightarrow> jsstring \<Rightarrow> jsstring" where
  "js_pad_end n s = s @ replicate (n - length s) cu_space"

definition js_starts_with :: "jsstring \<Rightarrow> jsstring \<Rightarrow> bool" where
  "js_starts_with p s \<longleftrightarrow> take (length p) s = p"

fun js_includes :: "jsstring \<Rightarrow> jsstring \<Rightarrow> bool" where
  "js_includes p [] = (p = [])"
| "js_includes p (c # s) = (js_starts_with p (c # s) \<or> js_includes p s)"

text \<open>\<open>split\<close> with a separator of one code unit; \<open>join\<close>.\<close>

fun js_split :: "nat \<Rightarrow> jsstring \<Rightarrow> jsstring list" where
  "js_split sep [] = [[]]"
| "js_split sep (c # s) =
     (if c = sep then [] # js_split sep s
      else (case js_split sep s of [] \<Rightarrow> [[c]] | r # rs \<Rightarrow> (c # r) # rs))"

fun js_join :: "jsstring \<Rightarrow> jsstring list \<Rightarrow> jsstring" where
  "js_join sep [] = []"
| "js_join sep [r] = r"
| "js_join sep (r # rs) = r @ sep @ js_join sep rs"

text \<open>
  \<open>replace\<close> with a one-unit string pattern changes the first occurrence only, \<open>replaceAll\<close>
  changes every one.
\<close>

fun js_replace :: "nat \<Rightarrow> jsstring \<Rightarrow> jsstring \<Rightarrow> jsstring" where
  "js_replace c r [] = []"
| "js_replace c r (x # s) = (if x = c then r @ s else x # js_replace c r s)"

definition js_replace_all :: "nat \<Rightarrow> jsstring \<Rightarrow> jsstring \<Rightarrow> jsstring" where
  "js_replace_all c r s = concat (map (\<lambda>x. if x = c then r else [x]) s)"

definition js_digit :: "nat \<Rightarrow> bool" where
  "js_digit c \<longleftrightarrow> 48 \<le> c \<and> c \<le> 57"

text \<open>The regular expression \<open>/\D/g\<close> (or \<open>/[^0-9]/g\<close>) replaced by the empty string.\<close>

definition js_only_digits :: "jsstring \<Rightarrow> jsstring" where
  "js_only_digits s = filter js_digit s"

lemmas js_string_defs = js_trim_def js_trim_end_def js_position_def js_slice_def
  js_slice_from_def js_repeat_def js_pad_start_def js_pad_end_def js_starts_with_def
  js_replace_all_def js_digit_def js_only_digits_def js_ws_def js_line_terminator_def

declare js_string_defs [js_eval] js_def [js_eval]

subsection \<open>Slicing and padding\<close>

lemma js_slice_take [simp]: "0 \<le> n \<Longrightarrow> js_slice 0 n s = take (nat n) s"
  by (simp add: js_slice_def js_position_def min_def)

lemma js_slice_butlast [simp]: "js_slice 0 (- 1) s = butlast s"
  by (simp add: js_slice_def js_position_def butlast_conv_take nat_diff_distrib')

lemma length_js_slice_from_end:
  "0 < n \<Longrightarrow> length (js_slice_from (- int n) s) = min n (length s)"
  by (auto simp: js_slice_from_def js_position_def)

lemma length_js_repeat [simp]: "length (js_repeat n s) = n * length s"
  by (induction n) (auto simp: js_repeat_def)

lemma js_repeat_unit [simp]: "js_repeat n [c] = replicate n c"
  by (induction n) (auto simp: js_repeat_def)

lemma length_js_pad_start [simp]: "length (js_pad_start n s) = max n (length s)"
  by (simp add: js_pad_start_def max_def)

lemma length_js_pad_end [simp]: "length (js_pad_end n s) = max n (length s)"
  by (simp add: js_pad_end_def max_def)

subsection \<open>Trimming\<close>

lemma length_js_trim_end: "length (js_trim_end s) \<le> length s"
  by (metis js_trim_end_def length_dropWhile_le length_rev)

lemma length_js_trim: "length (js_trim s) \<le> length s"
  unfolding js_trim_def
  by (meson length_js_trim_end length_dropWhile_le le_trans)

lemma set_js_trim_end: "set (js_trim_end s) \<subseteq> set s"
  by (metis js_trim_end_def set_dropWhileD set_rev subsetI)

lemma set_js_trim: "set (js_trim s) \<subseteq> set s"
  unfolding js_trim_def using set_js_trim_end set_dropWhileD by fast

lemma js_trim_no_ws: "\<forall>c \<in> set s. \<not> js_ws c \<Longrightarrow> js_trim s = s"
proof -
  assume *: "\<forall>c \<in> set s. \<not> js_ws c"
  then have "dropWhile js_ws s = s" and "dropWhile js_ws (rev s) = rev s"
    unfolding dropWhile_eq_self_iff by (auto dest: hd_in_set simp: hd_rev)
  then show ?thesis by (simp add: js_trim_def js_trim_end_def)
qed

subsection \<open>Splitting and joining\<close>

lemma js_split_not_Nil [simp]: "js_split sep s \<noteq> []"
  by (cases s) (auto split: list.splits)

lemma js_join_split [simp]: "js_join [sep] (js_split sep s) = s"
proof (induction s)
  case Nil
  show ?case by simp
next
  case (Cons c s)
  obtain r rs where *: "js_split sep s = r # rs"
    by (cases "js_split sep s") auto
  with Cons show ?case by (cases rs) auto
qed

lemma js_split_parts: "r \<in> set (js_split sep s) \<Longrightarrow> sep \<notin> set r"
proof (induction s arbitrary: r)
  case Nil
  then show ?case by simp
next
  case (Cons c s)
  then show ?case by (auto split: if_splits list.splits)
qed

lemma js_split_no_sep: "sep \<notin> set s \<Longrightarrow> js_split sep s = [s]"
  by (induction s) auto

lemma js_split_append:
  "sep \<notin> set r \<Longrightarrow> js_split sep (r @ sep # s) = r # js_split sep s"
  by (induction r) (auto split: list.splits)

lemma js_split_join:
  assumes "rs \<noteq> []" and "\<forall>r \<in> set rs. sep \<notin> set r"
  shows "js_split sep (js_join [sep] rs) = rs"
  using assms by (induction "[sep]" rs rule: js_join.induct)
    (auto simp: js_split_no_sep js_split_append)

text \<open>Splitting a joined document gives back pieces of its rows.\<close>

lemma js_split_append_gen:
  "js_split sep (s @ sep # t) = js_split sep s @ js_split sep t"
proof (induction s)
  case Nil
  show ?case by simp
next
  case (Cons c s)
  obtain r rs where "js_split sep s = r # rs"
    by (cases "js_split sep s") auto
  with Cons show ?case by auto
qed

lemma js_split_join_gen:
  "rs \<noteq> [] \<Longrightarrow> js_split sep (js_join [sep] rs) = concat (map (js_split sep) rs)"
  by (induction "[sep]" rs rule: js_join.induct) (auto simp: js_split_append_gen)

lemma length_js_split_part: "r \<in> set (js_split sep s) \<Longrightarrow> length r \<le> length s"
proof (induction s arbitrary: r)
  case Nil
  then show ?case by simp
next
  case (Cons c s)
  then show ?case by (fastforce split: if_splits list.splits intro: le_SucI)
qed

text \<open>
  A document fits the paper when none of its lines is longer than the width: the rows it is
  joined from need not be lines themselves.
\<close>

definition fits_width :: "nat \<Rightarrow> jsstring \<Rightarrow> bool" where
  "fits_width w doc \<longleftrightarrow> (\<forall>line \<in> set (js_split cu_lf doc). length line \<le> w)"

lemma fits_width_join:
  assumes "\<And>r. r \<in> set rs \<Longrightarrow> length r \<le> w"
  shows "fits_width w (js_join [cu_lf] rs)"
proof (cases "rs = []")
  case True
  then show ?thesis by (simp add: fits_width_def)
next
  case False
  then show ?thesis
    using assms length_js_split_part
    by (fastforce simp: fits_width_def js_split_join_gen intro: le_trans)
qed

subsection \<open>Substrings\<close>

lemma js_starts_with_append: "js_starts_with p s \<longleftrightarrow> (\<exists>t. s = p @ t)"
  by (metis append_eq_conv_conj append_take_drop_id js_starts_with_def)

lemma js_includes_iff: "js_includes p s \<longleftrightarrow> (\<exists>a b. s = a @ p @ b)"
proof (induction s)
  case Nil
  show ?case by auto
next
  case (Cons c s)
  show ?case
  proof
    assume "js_includes p (c # s)"
    then consider "js_starts_with p (c # s)" | "js_includes p s" by auto
    then show "\<exists>a b. c # s = a @ p @ b"
      by cases (metis append_Nil js_starts_with_append, metis Cons.IH append_Cons)
  next
    assume "\<exists>a b. c # s = a @ p @ b"
    then obtain a b where ab: "c # s = a @ p @ b" by blast
    show "js_includes p (c # s)"
    proof (cases a)
      case Nil
      with ab have "js_starts_with p (c # s)" by (auto simp: js_starts_with_append)
      then show ?thesis by simp
    next
      case (Cons d a')
      with ab have "s = a' @ p @ b" by simp
      then show ?thesis using Cons.IH by auto
    qed
  qed
qed

lemma set_js_only_digits: "c \<in> set (js_only_digits s) \<Longrightarrow> js_digit c"
  by (simp add: js_only_digits_def)

lemma js_only_digits_id: "\<forall>c \<in> set s. js_digit c \<Longrightarrow> js_only_digits s = s"
  by (simp add: js_only_digits_def filter_id_conv)

section \<open>Decimal numerals\<close>

text \<open>The decimal digits of a natural number, and the number a digit string denotes.\<close>

fun nat_digits :: "nat \<Rightarrow> jsstring" where
  "nat_digits n = (if n < 10 then [48 + n] else nat_digits (n div 10) @ [48 + n mod 10])"

declare nat_digits.simps [simp del]

definition digits_nat :: "jsstring \<Rightarrow> nat" where
  "digits_nat s = foldl (\<lambda>n c. 10 * n + (c - 48)) 0 s"

definition int_string :: "int \<Rightarrow> jsstring" where
  "int_string i = (if i < 0 then cu_dash # nat_digits (nat (- i)) else nat_digits (nat i))"

lemma digits_nat_snoc [simp]: "digits_nat (s @ [c]) = 10 * digits_nat s + (c - 48)"
  by (simp add: digits_nat_def)

lemma digits_nat_Nil [simp]: "digits_nat [] = 0"
  by (simp add: digits_nat_def)

lemma digits_nat_append:
  "digits_nat (s @ t) = digits_nat s * 10 ^ length t + digits_nat t"
proof (induction t rule: rev_induct)
  case Nil
  show ?case by simp
next
  case (snoc c t)
  then show ?case by (simp flip: append_assoc add: algebra_simps)
qed

lemma digits_nat_zeros [simp]: "digits_nat (replicate n 48) = 0"
  by (induction n) (auto simp: replicate_append_same [symmetric])

lemma nat_digits_not_Nil [simp]: "nat_digits n \<noteq> []"
  by (subst nat_digits.simps) simp

lemma nat_digits_digit: "c \<in> set (nat_digits n) \<Longrightarrow> js_digit c"
proof (induction n rule: nat_digits.induct)
  case (1 n)
  then show ?case
    by (cases "n < 10") (auto simp: nat_digits.simps [of n] js_digit_def)
qed

lemma digits_nat_nat_digits [simp]: "digits_nat (nat_digits n) = n"
proof (induction n rule: nat_digits.induct)
  case (1 n)
  then show ?case
    by (cases "n < 10") (auto simp: nat_digits.simps [of n] digits_nat_def)
qed

lemma length_nat_digits_le: "n < 10 ^ k \<Longrightarrow> 0 < k \<Longrightarrow> length (nat_digits n) \<le> k"
proof (induction n arbitrary: k rule: nat_digits.induct)
  case (1 n)
  show ?case
  proof (cases "n < 10")
    case True
    with "1.prems" show ?thesis by (simp add: nat_digits.simps [of n])
  next
    case False
    then obtain j where k: "k = Suc j" and "0 < j"
      using "1.prems" by (cases k; cases "k - 1") auto
    have "n div 10 < 10 ^ j"
      using "1.prems"(1) k by (simp add: less_mult_imp_div_less mult.commute)
    with "1.IH" False \<open>0 < j\<close> have "length (nat_digits (n div 10)) \<le> j" by simp
    with False k show ?thesis by (simp add: nat_digits.simps [of n])
  qed
qed

lemma digits_nat_less: "\<forall>c \<in> set s. js_digit c \<Longrightarrow> digits_nat s < 10 ^ length s"
proof (induction s rule: rev_induct)
  case Nil
  show ?case by simp
next
  case (snoc c s)
  then have "digits_nat s + 1 \<le> 10 ^ length s" and "c - 48 \<le> 9"
    by (auto simp: js_digit_def)
  then have "10 * (digits_nat s + 1) \<le> 10 * 10 ^ length s" and "c - 48 \<le> 9"
    by (auto simp del: mult_Suc_right)
  then show ?case by simp
qed

lemma inj_nat_digits: "nat_digits m = nat_digits n \<longleftrightarrow> m = n"
  by (metis digits_nat_nat_digits)

lemma nat_digits_no_sign [simp]: "nat_digits n \<noteq> cu_dash # s" "cu_dash # s \<noteq> nat_digits n"
proof -
  show "nat_digits n \<noteq> cu_dash # s"
    using nat_digits_digit [of cu_dash n] by (auto simp: js_digit_def)
  then show "cu_dash # s \<noteq> nat_digits n" by metis
qed

lemma int_string_inject [simp]: "int_string i = int_string j \<longleftrightarrow> i = j"
  by (auto simp: int_string_def inj_nat_digits)

lemma int_string_not_Nil [simp]: "int_string i \<noteq> []"
  by (simp add: int_string_def)

lemma int_string_char: "c \<in> set (int_string i) \<Longrightarrow> js_digit c \<or> c = cu_dash"
  by (auto simp: int_string_def split: if_splits dest: nat_digits_digit)

section \<open>Generic lemmas\<close>

lemma find_map_of_id:
  "find P xs = Some x \<Longrightarrow> P x \<and> x \<in> set xs"
  by (auto simp: find_Some_iff)

lemma map_update_ids:
  "(\<And>x. P x \<Longrightarrow> f y = f x) \<Longrightarrow> map f (map (\<lambda>x. if P x then y else x) xs) = map f xs"
  by (induction xs) auto

lemma foldl_invariant:
  assumes "P s" and "\<And>s x. P s \<Longrightarrow> x \<in> set xs \<Longrightarrow> P (f s x)"
  shows "P (foldl f s xs)"
  using assms by (induction xs arbitrary: s) auto

section \<open>Screens as event machines\<close>

text \<open>
  A screen is a state with one transition per event; an event the screen does not offer (a button
  that is disabled or not drawn) does not occur. The states it can be in are those reached from
  the initial one by enabled events.
\<close>

inductive reached :: "('s \<Rightarrow> 'e \<Rightarrow> bool) \<Rightarrow> ('s \<Rightarrow> 'e \<Rightarrow> 's) \<Rightarrow> 's \<Rightarrow> 's \<Rightarrow> bool"
  for enabled :: "'s \<Rightarrow> 'e \<Rightarrow> bool" and move :: "'s \<Rightarrow> 'e \<Rightarrow> 's" and init :: 's where
  reached_init: "reached enabled move init init"
| reached_move: "reached enabled move init s \<Longrightarrow> enabled s e \<Longrightarrow> reached enabled move init (move s e)"

locale event_machine =
  fixes enabled :: "'s \<Rightarrow> 'e \<Rightarrow> bool" and move :: "'s \<Rightarrow> 'e \<Rightarrow> 's" and init :: 's and inv :: "'s \<Rightarrow> bool"
  assumes inv_init: "inv init"
    and inv_move: "inv s \<Longrightarrow> enabled s e \<Longrightarrow> inv (move s e)"
begin

lemma inv_reached: "reached enabled move init s \<Longrightarrow> inv s"
  by (induction rule: reached.induct) (auto intro: inv_init inv_move)

end

text \<open>A state is reached by the events that lead to it.\<close>

fun run_ok :: "('s \<Rightarrow> 'e \<Rightarrow> bool) \<Rightarrow> ('s \<Rightarrow> 'e \<Rightarrow> 's) \<Rightarrow> 's \<Rightarrow> 'e list \<Rightarrow> bool" where
  "run_ok enabled move s [] = True"
| "run_ok enabled move s (e # es) = (enabled s e \<and> run_ok enabled move (move s e) es)"

lemma run_ok_snoc:
  "run_ok enabled move s (es @ [e]) \<longleftrightarrow> run_ok enabled move s es \<and> enabled (foldl move s es) e"
  by (induction es arbitrary: s) auto

lemma run_ok_within:
  "run_ok enabled move s es \<Longrightarrow> set es \<subseteq> E \<Longrightarrow> run_ok (\<lambda>s e. enabled s e \<and> e \<in> E) move s es"
  by (induction es arbitrary: s) auto

lemma reached_run_from:
  "reached enabled move init s \<Longrightarrow> run_ok enabled move s es \<Longrightarrow> reached enabled move init (foldl move s es)"
  by (induction es arbitrary: s) (auto intro: reached_move)

lemma reached_run: "run_ok enabled move s es \<Longrightarrow> reached enabled move s (foldl move s es)"
  by (rule reached_run_from [OF reached_init])

end
