(* ===== verification/Js_Number.thy ===== *)
theory Js_Number
  imports Prelude Complex_Main
begin

text \<open>
  JavaScript numbers: IEEE 754 double precision, with the rounding written out. A finite number
  is a rational; every operation computes the exact result and rounds it to 53 significant bits,
  ties to even (\<open>rnd\<close>). The two zeros are one value here: no modelled code tells them apart.
  The lemmas bound the rounding error and decide comparisons of numbers that lie on a decimal
  grid, which is what makes the frontend's money arithmetic exact.
\<close>

section \<open>Rounding to double precision\<close>

datatype jsnum = JsNaN | JsInf bool | JsNum rat

text \<open>\<open>JsInf True\<close> is minus infinity.\<close>

fun ilog2 :: "nat \<Rightarrow> nat" where
  "ilog2 n = (if n < 2 then 0 else Suc (ilog2 (n div 2)))"

declare ilog2.simps [simp del]

text \<open>The binade of a positive rational: the exponent \<open>b\<close> with \<open>2 ^ b \<le> x < 2 ^ (b + 1)\<close>.\<close>

definition binade :: "rat \<Rightarrow> int" where
  "binade x =
     (if 1 \<le> x then int (ilog2 (nat \<lfloor>x\<rfloor>)) else - int (Suc (ilog2 (nat (\<lceil>1 / x\<rceil> - 1)))))"

text \<open>The exponent of the unit in the last place: 53 bits, and no finer than the subnormals.\<close>

definition ulp_exp :: "rat \<Rightarrow> int" where
  "ulp_exp x = max (- 1074) (binade \<bar>x\<bar> - 52)"

definition round_half_even :: "rat \<Rightarrow> int" where
  "round_half_even q =
     (let f = \<lfloor>q\<rfloor>; r = q - of_int f in
      if r < 1 / 2 then f else if 1 / 2 < r then f + 1 else if even f then f else f + 1)"

definition rnd_rat :: "rat \<Rightarrow> rat" where
  "rnd_rat x =
     (if x = 0 then 0 else of_int (round_half_even (x / 2 powi ulp_exp x)) * 2 powi ulp_exp x)"

definition rnd :: "rat \<Rightarrow> jsnum" where
  "rnd x =
     (let y = rnd_rat x in if y \<noteq> 0 \<and> 1024 \<le> binade \<bar>y\<bar> then JsInf (y < 0) else JsNum y)"

subsection \<open>The rounding error\<close>

lemma ilog2_bounds: "0 < n \<Longrightarrow> 2 ^ ilog2 n \<le> n \<and> n < 2 ^ Suc (ilog2 n)"
proof (induction n rule: ilog2.induct)
  case (1 n)
  show ?case
  proof (cases "n < 2")
    case True
    with "1.prems" show ?thesis by (simp add: ilog2.simps [of n])
  next
    case False
    then have "2 ^ ilog2 (n div 2) \<le> n div 2 \<and> n div 2 < 2 ^ Suc (ilog2 (n div 2))"
      using "1.IH" by simp
    with False show ?thesis by (simp add: ilog2.simps [of n]) arith
  qed
qed

lemma ilog2_bounds_rat:
  assumes "0 < n"
  shows "2 ^ ilog2 n \<le> (of_nat n :: rat)" and "of_nat n + 1 \<le> (2 ^ Suc (ilog2 n) :: rat)"
proof -
  have "2 ^ ilog2 n \<le> n" and "Suc n \<le> 2 ^ Suc (ilog2 n)"
    using ilog2_bounds [OF assms] by auto
  then have "(of_nat (2 ^ ilog2 n) :: rat) \<le> of_nat n"
    and "(of_nat (Suc n) :: rat) \<le> of_nat (2 ^ Suc (ilog2 n))"
    by (simp_all only: of_nat_le_iff)
  then show "2 ^ ilog2 n \<le> (of_nat n :: rat)" and "of_nat n + 1 \<le> (2 ^ Suc (ilog2 n) :: rat)"
    by (simp_all add: add.commute)
qed

lemma powi_ge_1: "2 powi (- int n) = 1 / (2 ^ n :: rat)"
  by (simp add: power_int_minus divide_inverse)

lemma binade_bounds:
  assumes "0 < x"
  shows "2 powi binade x \<le> x \<and> x < 2 powi (binade x + 1)"
proof (cases "1 \<le> x")
  case True
  let ?n = "nat \<lfloor>x\<rfloor>"
  have n: "0 < ?n" "of_nat ?n \<le> x" "x < of_nat ?n + 1"
    using True by (auto simp: floor_le_iff not_less of_nat_nat) linarith+
  have "2 ^ ilog2 ?n \<le> x" and "x < 2 ^ Suc (ilog2 ?n)"
    using n ilog2_bounds_rat [OF n(1)] by linarith+
  moreover have "2 powi (int (ilog2 ?n) + 1) = (2 ^ Suc (ilog2 ?n) :: rat)"
    by (simp add: power_int_add_1')
  ultimately show ?thesis
    using True by (simp add: binade_def)
next
  case False
  let ?m = "nat (\<lceil>1 / x\<rceil> - 1)" and ?j = "ilog2 (nat (\<lceil>1 / x\<rceil> - 1))"
  have inv: "1 < 1 / x" using assms False by simp
  then have "1 < \<lceil>1 / x\<rceil>" by (simp add: less_ceiling_iff)
  then have m: "0 < ?m" "of_nat ?m < 1 / x" "1 / x \<le> of_nat ?m + 1"
    by (auto simp: of_nat_nat) linarith+
  have lo: "1 / x \<le> 2 ^ Suc ?j" and hi: "2 ^ ?j < 1 / x"
    using m ilog2_bounds_rat [OF m(1)] by linarith+
  have "1 / 2 ^ Suc ?j \<le> x" using lo assms by (simp add: field_simps)
  moreover have "x < 1 / 2 ^ ?j" using hi assms by (simp add: field_simps)
  moreover have "binade x = - int (Suc ?j)" using False by (simp add: binade_def)
  moreover have "binade x + 1 = - int ?j" using False by (simp add: binade_def)
  ultimately show ?thesis by (simp only: powi_ge_1)
qed

lemma round_half_even_error: "\<bar>of_int (round_half_even q) - q\<bar> \<le> 1 / 2"
proof -
  have "of_int \<lfloor>q\<rfloor> \<le> q" "q < of_int \<lfloor>q\<rfloor> + 1" by linarith+
  then show ?thesis by (auto simp: round_half_even_def Let_def abs_le_iff)
qed

lemma rnd_rat_0 [simp]: "rnd_rat 0 = 0"
  by (simp add: rnd_rat_def)

lemma rnd_rat_error: "\<bar>rnd_rat x - x\<bar> \<le> 2 powi ulp_exp x / 2"
proof (cases "x = 0")
  case False
  let ?u = "2 powi ulp_exp x :: rat"
  have "rnd_rat x - x = (of_int (round_half_even (x / ?u)) - x / ?u) * ?u"
    using False by (simp add: rnd_rat_def algebra_simps)
  then have "\<bar>rnd_rat x - x\<bar> = \<bar>of_int (round_half_even (x / ?u)) - x / ?u\<bar> * ?u"
    by (simp add: abs_mult)
  also have "\<dots> \<le> 1 / 2 * ?u"
    by (intro mult_right_mono round_half_even_error) simp
  finally show ?thesis by simp
qed simp

lemma binade_less:
  assumes "0 < x" and "x < 2 powi k"
  shows "binade x < k"
proof -
  have "(2::rat) powi binade x < 2 powi k"
    using binade_bounds [OF assms(1)] assms(2) by linarith
  moreover have "k \<le> binade x \<Longrightarrow> (2::rat) powi k \<le> 2 powi binade x"
    by (intro power_int_increasing) auto
  ultimately show ?thesis by (meson not_le)
qed

lemma rnd_rat_error_bound:
  assumes "\<bar>x\<bar> < 2 powi k" and "- 1021 \<le> k"
  shows "\<bar>rnd_rat x - x\<bar> \<le> 2 powi (k - 54)"
proof (cases "x = 0")
  case False
  then have "binade \<bar>x\<bar> < k" using assms by (intro binade_less) auto
  then have "ulp_exp x \<le> k - 53" using assms(2) by (simp add: ulp_exp_def)
  then have "(2::rat) powi ulp_exp x \<le> 2 powi (k - 53)"
    by (intro power_int_increasing) auto
  also have "\<dots> = 2 powi (k - 54) * 2"
    using power_int_add_1 [of "2::rat" "k - 54"] by simp
  finally show ?thesis using rnd_rat_error [of x] by linarith
qed simp

lemma rnd_small:
  assumes "\<bar>x\<bar> < 2 powi k" and "- 1021 \<le> k" and "k \<le> 1023"
  shows "rnd x = JsNum (rnd_rat x)"
proof -
  have "(2::rat) powi (k - 54) \<le> 2 powi k" by (intro power_int_increasing) auto
  then have "\<bar>rnd_rat x\<bar> < 2 powi k + 2 powi k"
    using rnd_rat_error_bound [OF assms(1,2)] assms(1) by linarith
  also have "\<dots> = 2 powi (k + 1)" by (simp add: power_int_add_1)
  also have "\<dots> \<le> (2::rat) powi 1024" using assms(3) by (intro power_int_increasing) auto
  finally have "\<bar>rnd_rat x\<bar> < 2 powi 1024" .
  then show ?thesis
    using binade_less [of "\<bar>rnd_rat x\<bar>" 1024] by (auto simp: rnd_def Let_def)
qed


section \<open>Arithmetic and comparison\<close>

text \<open>
  The operators of the language on numbers, NaN and the infinities included; \<open><\<close> and \<open>\<le>\<close> are
  false when an operand is NaN, as in JavaScript.
\<close>

fun js_add :: "jsnum \<Rightarrow> jsnum \<Rightarrow> jsnum" where
  "js_add (JsNum a) (JsNum b) = rnd (a + b)"
| "js_add (JsInf s) (JsNum b) = JsInf s"
| "js_add (JsNum a) (JsInf s) = JsInf s"
| "js_add (JsInf s) (JsInf t) = (if s = t then JsInf s else JsNaN)"
| "js_add _ _ = JsNaN"

fun js_neg :: "jsnum \<Rightarrow> jsnum" where
  "js_neg (JsNum a) = JsNum (- a)"
| "js_neg (JsInf s) = JsInf (\<not> s)"
| "js_neg JsNaN = JsNaN"

fun js_mult :: "jsnum \<Rightarrow> jsnum \<Rightarrow> jsnum" where
  "js_mult (JsNum a) (JsNum b) = rnd (a * b)"
| "js_mult (JsInf s) (JsNum b) = (if b = 0 then JsNaN else JsInf (s \<noteq> (b < 0)))"
| "js_mult (JsNum a) (JsInf s) = (if a = 0 then JsNaN else JsInf (s \<noteq> (a < 0)))"
| "js_mult (JsInf s) (JsInf t) = JsInf (s \<noteq> t)"
| "js_mult _ _ = JsNaN"

fun js_div :: "jsnum \<Rightarrow> jsnum \<Rightarrow> jsnum" where
  "js_div (JsNum a) (JsNum b) =
     (if b = 0 then (if a = 0 then JsNaN else JsInf (a < 0)) else rnd (a / b))"
| "js_div (JsInf s) (JsNum b) = JsInf (s \<noteq> (b < 0))"
| "js_div (JsNum a) (JsInf s) = JsNum 0"
| "js_div _ _ = JsNaN"

fun js_less :: "jsnum \<Rightarrow> jsnum \<Rightarrow> bool" where
  "js_less (JsNum a) (JsNum b) = (a < b)"
| "js_less (JsNum a) (JsInf s) = (\<not> s)"
| "js_less (JsInf s) (JsNum b) = s"
| "js_less (JsInf s) (JsInf t) = (s \<and> \<not> t)"
| "js_less _ _ = False"

fun js_less_eq :: "jsnum \<Rightarrow> jsnum \<Rightarrow> bool" where
  "js_less_eq (JsNum a) (JsNum b) = (a \<le> b)"
| "js_less_eq (JsNum a) (JsInf s) = (\<not> s)"
| "js_less_eq (JsInf s) (JsNum b) = s"
| "js_less_eq (JsInf s) (JsInf t) = (s \<or> \<not> t)"
| "js_less_eq _ _ = False"

instantiation jsnum :: "{zero, one, plus, minus, uminus, times, inverse, ord}"
begin

definition "(0 :: jsnum) = JsNum 0"
definition "(1 :: jsnum) = JsNum 1"
definition "(a :: jsnum) + b = js_add a b"
definition "- (a :: jsnum) = js_neg a"
definition "(a :: jsnum) - b = js_add a (js_neg b)"
definition "(a :: jsnum) * b = js_mult a b"
definition "(a :: jsnum) div b = js_div a b"
definition "inverse (a :: jsnum) = js_div (JsNum 1) a"
definition "(a :: jsnum) < b \<longleftrightarrow> js_less a b"
definition "(a :: jsnum) \<le> b \<longleftrightarrow> js_less_eq a b"

instance ..

end

lemmas jsnum_ops = zero_jsnum_def one_jsnum_def plus_jsnum_def uminus_jsnum_def minus_jsnum_def
  times_jsnum_def divide_jsnum_def less_jsnum_def less_eq_jsnum_def

declare jsnum_ops [js_eval]

text \<open>A number literal of the source that denotes the integer or the decimal \<open>q\<close>.\<close>

definition js_num :: "rat \<Rightarrow> jsnum" where
  "js_num q = rnd q"

fun js_max :: "jsnum \<Rightarrow> jsnum \<Rightarrow> jsnum" where
  "js_max a b = (if a = JsNaN \<or> b = JsNaN then JsNaN else if a < b then b else a)"

fun js_min :: "jsnum \<Rightarrow> jsnum \<Rightarrow> jsnum" where
  "js_min a b = (if a = JsNaN \<or> b = JsNaN then JsNaN else if b < a then b else a)"

fun js_floor :: "jsnum \<Rightarrow> jsnum" where
  "js_floor (JsNum a) = JsNum (of_int \<lfloor>a\<rfloor>)"
| "js_floor x = x"

fun js_ceil :: "jsnum \<Rightarrow> jsnum" where
  "js_ceil (JsNum a) = JsNum (of_int \<lceil>a\<rceil>)"
| "js_ceil x = x"

fun js_round :: "jsnum \<Rightarrow> jsnum" where
  "js_round (JsNum a) = JsNum (of_int \<lfloor>a + 1 / 2\<rfloor>)"
| "js_round x = x"

fun js_is_finite :: "jsnum \<Rightarrow> bool" where
  "js_is_finite (JsNum a) = True"
| "js_is_finite _ = False"

fun js_is_integer :: "jsnum \<Rightarrow> bool" where
  "js_is_integer (JsNum a) = (of_int \<lfloor>a\<rfloor> = a)"
| "js_is_integer _ = False"

fun js_is_safe_integer :: "jsnum \<Rightarrow> bool" where
  "js_is_safe_integer (JsNum a) = (of_int \<lfloor>a\<rfloor> = a \<and> \<bar>a\<bar> \<le> 2 ^ 53 - 1)"
| "js_is_safe_integer _ = False"

text \<open>The integer a finite number holds, for counts and positions that come out of arithmetic.\<close>

fun js_int :: "jsnum \<Rightarrow> int" where
  "js_int (JsNum a) = \<lfloor>a\<rfloor>"
| "js_int _ = 0"

section \<open>Numbers on a decimal grid\<close>

text \<open>
  Two multiples of \<open>1 / D\<close> compare after rounding as they do before it, as long as the rounding
  error at their magnitude is below half a grid step.
\<close>

definition fine_grid :: "int \<Rightarrow> int \<Rightarrow> bool" where
  "fine_grid D k \<longleftrightarrow> 0 < D \<and> - 1021 \<le> k \<and> k \<le> 1023 \<and> 2 powi (k - 53) < 1 / (of_int D :: rat)"

lemma rnd_grid_le:
  assumes g: "fine_grid D k"
    and i: "\<bar>of_int i / of_int D :: rat\<bar> < 2 powi k"
    and j: "\<bar>of_int j / of_int D :: rat\<bar> < 2 powi k"
  shows "rnd_rat (of_int i / of_int D) \<le> rnd_rat (of_int j / of_int D) \<longleftrightarrow> i \<le> j"
proof -
  let ?a = "of_int i / of_int D :: rat" and ?b = "of_int j / of_int D :: rat"
  have D: "0 < (of_int D :: rat)" and k: "- 1021 \<le> k"
    using g by (auto simp: fine_grid_def)
  have step: "2 powi (k - 54) + 2 powi (k - 54) < 1 / (of_int D :: rat)"
    using g power_int_add_1 [of "2::rat" "k - 54"] by (simp add: fine_grid_def)
  have err: "\<bar>rnd_rat ?a - ?a\<bar> \<le> 2 powi (k - 54)" "\<bar>rnd_rat ?b - ?b\<bar> \<le> 2 powi (k - 54)"
    using rnd_rat_error_bound [OF i k] rnd_rat_error_bound [OF j k] by simp_all
  have gap: "of_int m / of_int D + 1 / of_int D \<le> (of_int n / of_int D :: rat)"
    if "m < n" for m n
  proof -
    have "(of_int (m + 1) :: rat) \<le> of_int n" using that by (simp only: of_int_le_iff)
    then have "of_int (m + 1) / of_int D \<le> (of_int n / of_int D :: rat)"
      using D by (simp only: divide_right_mono)
    then show ?thesis by (simp add: add_divide_distrib)
  qed
  show ?thesis
  proof (cases i j rule: linorder_cases)
    case less
    then show ?thesis using gap [OF less] err step by linarith
  next
    case greater
    then show ?thesis using gap [OF greater] err step by linarith
  qed simp
qed

lemma rnd_grid:
  assumes g: "fine_grid D k" and i: "\<bar>of_int i / of_int D :: rat\<bar> < 2 powi k"
  shows "rnd (of_int i / of_int D) = JsNum (rnd_rat (of_int i / of_int D))"
  using assms by (intro rnd_small) (auto simp: fine_grid_def)


section \<open>Exact values\<close>

lemma round_half_even_of_int [simp]: "round_half_even (of_int i) = i"
  by (simp add: round_half_even_def)

lemma rnd_rat_dyadic:
  assumes m: "\<bar>m\<bar> < 2 ^ 53" and e: "- 1074 \<le> e"
  shows "rnd_rat (of_int m * 2 powi e) = of_int m * 2 powi e"
proof (cases "m = 0")
  case False
  let ?x = "of_int m * 2 powi e :: rat"
  have pos: "0 < \<bar>?x\<bar>" using False by simp
  have "(of_int \<bar>m\<bar> :: rat) < of_int (2 ^ 53)" using m by (simp only: of_int_less_iff)
  then have "\<bar>?x\<bar> < 2 powi (53 + e)"
    by (simp add: abs_mult power_int_add)
  then have "ulp_exp ?x \<le> e"
    using binade_less [OF pos, of "53 + e"] e by (simp add: ulp_exp_def)
  then obtain j where j: "e = ulp_exp ?x + int j"
    using zle_iff_zadd by blast
  define u where "u = (2::rat) powi ulp_exp ?x"
  have u: "u \<noteq> 0" by (simp add: u_def)
  have pe: "(2::rat) powi e = u * 2 ^ j"
    unfolding u_def by (subst j) (simp add: power_int_add)
  then have "?x / u = of_int (m * 2 ^ j)" using u by simp
  then have "round_half_even (?x / u) = m * 2 ^ j" by (simp only: round_half_even_of_int)
  then have "rnd_rat ?x = of_int (m * 2 ^ j) * u"
    using False by (simp add: rnd_rat_def u_def)
  also have "\<dots> = ?x" by (simp add: pe)
  finally show ?thesis .
qed simp

lemma rnd_rat_of_int: "\<bar>m\<bar> < 2 ^ 53 \<Longrightarrow> rnd_rat (of_int m) = of_int m"
  using rnd_rat_dyadic [of m 0] by simp

lemma rnd_of_int:
  assumes "\<bar>m\<bar> < 2 ^ 53"
  shows "rnd (of_int m) = JsNum (of_int m)"
proof -
  have "(of_int \<bar>m\<bar> :: rat) < of_int (2 ^ 53)" using assms by (simp only: of_int_less_iff)
  then have "\<bar>of_int m :: rat\<bar> < 2 powi 53" by simp
  from rnd_small [OF this] show ?thesis using assms by (simp add: rnd_rat_of_int)
qed

lemma rnd_of_nat: "n < 2 ^ 53 \<Longrightarrow> rnd (of_nat n) = JsNum (of_nat n)"
  using rnd_of_int [of "int n"] by simp

lemma rnd_numeral:
  assumes "(numeral k :: int) < 2 ^ 53"
  shows "rnd (numeral k) = JsNum (numeral k)"
  using rnd_of_int [of "numeral k"] assms by simp

lemma rnd_0 [simp]: "rnd 0 = JsNum 0"
  by (simp add: rnd_def)

lemma rnd_1 [simp]: "rnd 1 = JsNum 1"
  using rnd_of_int [of 1] by simp

text \<open>Rounding keeps the sign.\<close>

lemma round_half_even_nonneg: "0 \<le> q \<Longrightarrow> 0 \<le> round_half_even q"
  by (auto simp: round_half_even_def Let_def)

lemma rnd_rat_nonneg: "0 \<le> x \<Longrightarrow> 0 \<le> rnd_rat x"
  by (auto simp: rnd_rat_def intro!: mult_nonneg_nonneg round_half_even_nonneg)

end
