(* ===== verification/Js_Decimal.thy ===== *)
theory Js_Decimal
  imports Js_Number
begin

text \<open>
  Conversions between numbers and strings: \<open>Number(s)\<close>, \<open>toFixed\<close> and \<open>String(n)\<close>, as the
  language defines them, with the theorems that make them exact on the decimal amounts the
  frontend handles.
\<close>

section \<open>Decimal strings\<close>

text \<open>The decimal expansion of \<open>n / 10 ^ f\<close> with exactly \<open>f\<close> decimals.\<close>

definition digits_pad :: "nat \<Rightarrow> nat \<Rightarrow> jsstring" where
  "digits_pad k n = replicate (k - length (nat_digits n)) 48 @ nat_digits n"

definition fixed_string :: "nat \<Rightarrow> nat \<Rightarrow> jsstring" where
  "fixed_string f n =
     (if f = 0 then nat_digits n
      else let m = digits_pad (Suc f) n; k = length m
           in take (k - f) m @ cu_dot # drop (k - f) m)"

section \<open>\<open>Number(s)\<close>\<close>

definition parse_exponent :: "jsstring \<Rightarrow> int option" where
  "parse_exponent e =
     (let (neg, ds) = (case e of [] \<Rightarrow> (False, []) | c # r \<Rightarrow>
        if c = 43 then (False, r) else if c = cu_dash then (True, r) else (False, e))
      in if ds = [] \<or> \<not> list_all js_digit ds then None
         else Some (if neg then - int (digits_nat ds) else int (digits_nat ds)))"

definition parse_unsigned :: "jsstring \<Rightarrow> rat option" where
  "parse_unsigned s =
     (let ip = takeWhile js_digit s; r1 = dropWhile js_digit s;
          (fp, r2) = (case r1 of [] \<Rightarrow> ([], []) | c # r \<Rightarrow>
             if c = cu_dot then (takeWhile js_digit r, dropWhile js_digit r) else ([], r1));
          v = of_nat (digits_nat (ip @ fp)) / 10 ^ length fp
      in if ip @ fp = [] then None
         else case r2 of [] \<Rightarrow> Some v
              | c # e \<Rightarrow> if c = 101 \<or> c = 69
                  then map_option (\<lambda>x. v * 10 powi x) (parse_exponent e) else None)"

definition digit_value :: "nat \<Rightarrow> nat" where
  "digit_value c =
     (if 48 \<le> c \<and> c \<le> 57 then c - 48 else if 97 \<le> c \<and> c \<le> 122 then c - 87
      else if 65 \<le> c \<and> c \<le> 90 then c - 55 else 99)"

definition parse_radix :: "nat \<Rightarrow> jsstring \<Rightarrow> rat option" where
  "parse_radix b s =
     (if s = [] \<or> (\<exists>c \<in> set s. b \<le> digit_value c) then None
      else Some (of_nat (foldl (\<lambda>n c. b * n + digit_value c) 0 s)))"

definition parse_signed :: "bool \<Rightarrow> jsstring \<Rightarrow> jsnum" where
  "parse_signed neg u =
     (if u = js ''Infinity'' then JsInf neg
      else case parse_unsigned u of None \<Rightarrow> JsNaN | Some q \<Rightarrow> rnd (if neg then - q else q))"

definition radix_prefix :: "jsstring \<Rightarrow> nat option" where
  "radix_prefix t =
     (case t of c # d # _ \<Rightarrow>
        if c \<noteq> 48 then None
        else if d = 120 \<or> d = 88 then Some 16 else if d = 111 \<or> d = 79 then Some 8
        else if d = 98 \<or> d = 66 then Some 2 else None
      | _ \<Rightarrow> None)"

definition js_Number :: "jsstring \<Rightarrow> jsnum" where
  "js_Number s =
     (let t = js_trim s in
      case t of [] \<Rightarrow> JsNum 0
      | c # u \<Rightarrow>
        (case radix_prefix t of
           Some b \<Rightarrow> (case parse_radix b (drop 2 t) of None \<Rightarrow> JsNaN | Some q \<Rightarrow> rnd q)
         | None \<Rightarrow> if c = 43 then parse_signed False u
                   else if c = cu_dash then parse_signed True u
                   else parse_signed False t))"

section \<open>\<open>String(n)\<close> and \<open>toFixed\<close>\<close>

text \<open>The exponent \<open>n\<close> with \<open>10 ^ (n - 1) \<le> x < 10 ^ n\<close>, for positive \<open>x\<close>.\<close>

definition decimal_exp :: "rat \<Rightarrow> int" where
  "decimal_exp x =
     (if 1 \<le> x then int (length (nat_digits (nat \<lfloor>x\<rfloor>)))
      else 1 - int (length (nat_digits (nat (\<lceil>1 / x\<rceil> - 1)))))"

text \<open>
  The shortest digits that round to \<open>x\<close>: the first count \<open>k\<close> for which one of the two
  neighbouring \<open>k\<close>-digit decimals does, the closer one when both do. Seventeen digits always
  suffice for a double, so the search is given the counts \<open>1..17\<close>.
\<close>

fun shortest_digits :: "nat list \<Rightarrow> rat \<Rightarrow> int \<Rightarrow> nat \<times> int" where
  "shortest_digits [] x n = (nat \<lfloor>x / 10 powi (n - 17)\<rfloor>, n - 17)"
| "shortest_digits (k # ks) x n =
     (let e = n - int k; lo = \<lfloor>x / 10 powi e\<rfloor>; hi = lo + 1;
          lo_ok = (rnd (of_int lo * 10 powi e) = JsNum x);
          hi_ok = (rnd (of_int hi * 10 powi e) = JsNum x);
          d = 2 * (x / 10 powi e) - of_int (lo + hi)
      in if lo_ok \<and> hi_ok
         then (nat (if d < 0 \<or> (d = 0 \<and> even lo) then lo else hi), e)
         else if lo_ok then (nat lo, e)
         else if hi_ok then (nat hi, e)
         else shortest_digits ks x n)"

definition strip_zeros :: "jsstring \<Rightarrow> jsstring" where
  "strip_zeros ds = rev (dropWhile (\<lambda>c. c = 48) (rev ds))"

definition positive_string :: "rat \<Rightarrow> jsstring" where
  "positive_string x =
     (let (s, e) = shortest_digits [1..<18] x (decimal_exp x);
          full = nat_digits s; n = int (length full) + e;
          ds = strip_zeros full; k = length ds
      in if int k \<le> n \<and> n \<le> 21 then ds @ replicate (nat n - k) 48
         else if 0 < n \<and> n \<le> 21 then take (nat n) ds @ cu_dot # drop (nat n) ds
         else if - 6 < n \<and> n \<le> 0 then js ''0.'' @ replicate (nat (- n)) 48 @ ds
         else (if k = 1 then ds else take 1 ds @ cu_dot # drop 1 ds)
              @ js ''e'' @ (if n \<le> 0 then js ''-'' else js ''+'') @ nat_digits (nat \<bar>n - 1\<bar>))"

fun js_String :: "jsnum \<Rightarrow> jsstring" where
  "js_String JsNaN = js ''NaN''"
| "js_String (JsInf neg) = (if neg then js ''-Infinity'' else js ''Infinity'')"
| "js_String (JsNum x) =
     (if x = 0 then js ''0'' else if x < 0 then cu_dash # positive_string (- x)
      else positive_string x)"

text \<open>
  \<open>toFixed(f)\<close>: the integer \<open>n\<close> with \<open>n / 10 ^ f\<close> closest to the exact value, the larger one
  on a tie, printed with \<open>f\<close> decimals; from \<open>10 ^ 21\<close> on it is \<open>String\<close>.
\<close>

definition fixed_of_rat :: "nat \<Rightarrow> rat \<Rightarrow> jsstring" where
  "fixed_of_rat f x = fixed_string f (nat \<lfloor>x * 10 ^ f + 1 / 2\<rfloor>)"

fun js_toFixed :: "nat \<Rightarrow> jsnum \<Rightarrow> jsstring" where
  "js_toFixed f (JsNum x) =
     (if 10 ^ 21 \<le> \<bar>x\<bar> then js_String (JsNum x)
      else if x < 0 then cu_dash # fixed_of_rat f (- x) else fixed_of_rat f x)"
| "js_toFixed f x = js_String x"


section \<open>Decimal strings and numbers\<close>

lemma length_digits_pad: "length (digits_pad k n) = max k (length (nat_digits n))"
  by (simp add: digits_pad_def max_def)

lemma digits_nat_digits_pad [simp]: "digits_nat (digits_pad k n) = n"
  by (simp add: digits_pad_def digits_nat_append)

lemma digits_pad_digit: "c \<in> set (digits_pad k n) \<Longrightarrow> js_digit c"
  by (auto simp: digits_pad_def js_digit_def dest: nat_digits_digit)

lemma js_digit_not_ws: "js_digit c \<Longrightarrow> \<not> js_ws c"
  by (auto simp: js_digit_def js_ws_def)

lemma js_dot_not_ws: "\<not> js_ws cu_dot"
  by (simp add: js_ws_def)

lemma takeWhile_all: "\<forall>x \<in> set xs. P x \<Longrightarrow> takeWhile P xs = xs"
  by (simp add: takeWhile_eq_all_conv)

lemma dropWhile_all: "\<forall>x \<in> set xs. P x \<Longrightarrow> dropWhile P xs = []"
  by simp

lemma parse_unsigned_digits:
  assumes "ds \<noteq> []" and "\<forall>c \<in> set ds. js_digit c"
  shows "parse_unsigned ds = Some (of_nat (digits_nat ds))"
  using assms by (simp add: parse_unsigned_def Let_def takeWhile_all dropWhile_all)

lemma parse_unsigned_decimal:
  assumes "ip @ fp \<noteq> []" and "\<forall>c \<in> set (ip @ fp). js_digit c"
  shows "parse_unsigned (ip @ cu_dot # fp) = Some (of_nat (digits_nat (ip @ fp)) / 10 ^ length fp)"
proof -
  have "\<not> js_digit cu_dot" by (simp add: js_digit_def)
  then have "takeWhile js_digit (ip @ cu_dot # fp) = ip"
    and "dropWhile js_digit (ip @ cu_dot # fp) = cu_dot # fp"
    using assms(2) by (auto simp: takeWhile_append dropWhile_append)
  moreover have "takeWhile js_digit fp = fp" and "dropWhile js_digit fp = []"
    using assms(2) by (auto intro: takeWhile_all)
  ultimately show ?thesis using assms(1)
    by (simp add: parse_unsigned_def Let_def takeWhile_all dropWhile_all)
qed

lemma js_Number_digit_head:
  assumes "js_digit c" and "\<forall>x \<in> set s. \<not> js_ws x" and "s = [] \<or> js_digit (hd s) \<or> hd s = cu_dot"
  shows "js_Number (c # s) =
    (case parse_unsigned (c # s) of None \<Rightarrow> JsNaN | Some q \<Rightarrow> rnd q)"
proof -
  have "js_trim (c # s) = c # s"
    using assms by (intro js_trim_no_ws) (auto dest: js_digit_not_ws)
  moreover have "radix_prefix (c # s) = None"
    using assms by (cases s) (auto simp: radix_prefix_def js_digit_def)
  moreover have "c # s \<noteq> js ''Infinity''"
    using assms(1) by (auto simp: js_def js_digit_def)
  ultimately show ?thesis
    using assms(1) by (simp add: js_Number_def parse_signed_def js_digit_def split: option.splits)
qed

lemma js_Number_Nil [simp]: "js_Number [] = JsNum 0"
  by (simp add: js_Number_def js_trim_def js_trim_end_def)

lemma js_Number_digits:
  assumes "ds \<noteq> []" and "\<forall>c \<in> set ds. js_digit c"
  shows "js_Number ds = rnd (of_nat (digits_nat ds))"
proof (cases ds)
  case (Cons c s)
  then have "js_Number (c # s) = (case parse_unsigned (c # s) of None \<Rightarrow> JsNaN | Some q \<Rightarrow> rnd q)"
    using assms by (intro js_Number_digit_head) (auto dest: js_digit_not_ws simp: hd_in_set)
  then show ?thesis using parse_unsigned_digits [OF assms] Cons by simp
qed (use assms in simp)

lemma js_Number_nat_digits: "js_Number (nat_digits n) = rnd (of_nat n)"
  using js_Number_digits [of "nat_digits n"] nat_digits_digit by simp

text \<open>Identifiers are the server's: positive and below \<open>2 ^ 53\<close>, exact as JavaScript numbers.\<close>

definition server_id :: "int \<Rightarrow> bool" where
  "server_id i \<longleftrightarrow> 0 < i \<and> i < 2 ^ 53"

lemma js_Number_server_id [simp]: "server_id i \<Longrightarrow> js_Number (int_string i) = JsNum (of_int i)"
  using rnd_of_int [of i] by (auto simp: server_id_def int_string_def js_Number_nat_digits)

lemma js_Number_fixed: "js_Number (fixed_string f n) = rnd (of_nat n / 10 ^ f)"
proof (cases "f = 0")
  case True
  then show ?thesis by (simp add: fixed_string_def js_Number_nat_digits)
next
  case False
  let ?m = "digits_pad (Suc f) n"
  let ?ip = "take (length ?m - f) ?m" and ?fp = "drop (length ?m - f) ?m"
  have len: "Suc f \<le> length ?m" by (simp add: length_digits_pad)
  then obtain c s where cs: "?ip = c # s"
    by (cases ?ip) auto
  have dig: "\<forall>x \<in> set (?ip @ ?fp). js_digit x" using digits_pad_digit by simp
  have split: "fixed_string f n = ?ip @ cu_dot # ?fp"
    using False by (simp add: fixed_string_def Let_def)
  have "js_Number (fixed_string f n) =
      (case parse_unsigned (?ip @ cu_dot # ?fp) of None \<Rightarrow> JsNaN | Some q \<Rightarrow> rnd q)"
    unfolding split cs append_Cons
  proof (rule js_Number_digit_head)
    show "js_digit c" using dig cs by simp
    show "\<forall>x \<in> set (s @ cu_dot # ?fp). \<not> js_ws x"
      using dig cs js_dot_not_ws by (auto dest: js_digit_not_ws)
    show "s @ cu_dot # ?fp = [] \<or> js_digit (hd (s @ cu_dot # ?fp)) \<or> hd (s @ cu_dot # ?fp) = cu_dot"
      using dig cs by (cases s) auto
  qed
  also have "parse_unsigned (?ip @ cu_dot # ?fp) = Some (of_nat n / 10 ^ f)"
  proof -
    have "?ip @ ?fp \<noteq> []" using cs by simp
    then have "parse_unsigned (?ip @ cu_dot # ?fp) =
        Some (of_nat (digits_nat (?ip @ ?fp)) / 10 ^ length ?fp)"
      using dig by (rule parse_unsigned_decimal)
    moreover have "?ip @ ?fp = ?m" by (rule append_take_drop_id)
    moreover have "length ?fp = f" using len by simp
    ultimately show ?thesis by (simp only: digits_nat_digits_pad)
  qed
  finally show ?thesis by simp
qed

section \<open>\<open>toFixed\<close> is exact near a decimal\<close>

lemma floor_near:
  fixes x :: rat
  assumes "\<bar>x - of_nat n / 10 ^ f\<bar> < 1 / (2 * 10 ^ f)"
  shows "\<lfloor>x * 10 ^ f + 1 / 2\<rfloor> = int n"
proof -
  have p: "0 < (10 ^ f :: rat)" by simp
  have "x * 10 ^ f - of_nat n = (x - of_nat n / 10 ^ f) * 10 ^ f"
    by (simp add: left_diff_distrib)
  then have "\<bar>x * 10 ^ f - of_nat n\<bar> = \<bar>x - of_nat n / 10 ^ f\<bar> * 10 ^ f"
    by (simp add: abs_mult)
  also have "\<dots> < 1 / (2 * 10 ^ f) * 10 ^ f"
    using assms p by (intro mult_strict_right_mono)
  finally have "\<bar>x * 10 ^ f - of_nat n\<bar> < 1 / 2" by simp
  then have "of_int (int n) \<le> x * 10 ^ f + 1 / 2" "x * 10 ^ f + 1 / 2 < of_int (int n) + 1"
    unfolding of_int_of_nat_eq by linarith+
  then show ?thesis by (rule floor_unique)
qed

lemma fixed_of_rat_near:
  "\<bar>x - of_nat n / 10 ^ f\<bar> < 1 / (2 * 10 ^ f) \<Longrightarrow> fixed_of_rat f x = fixed_string f n"
  by (simp add: fixed_of_rat_def floor_near)

lemma js_toFixed_near:
  assumes "\<bar>x - of_nat n / 10 ^ f\<bar> < 1 / (2 * 10 ^ f)" and "0 \<le> x" and "x < 10 ^ 21"
  shows "js_toFixed f (JsNum x) = fixed_string f n"
  using assms by (simp add: fixed_of_rat_near)

text \<open>
  A decimal with \<open>f\<close> digits that is parsed (or computed as a quotient by a power of ten) and
  printed again with \<open>f\<close> digits comes back unchanged.
\<close>

lemma js_toFixed_rnd:
  assumes g: "fine_grid (10 ^ f) k" and n: "(of_nat n / 10 ^ f :: rat) < 2 powi k" and k: "k \<le> 60"
  shows "js_toFixed f (rnd (of_nat n / 10 ^ f)) = fixed_string f n"
proof -
  let ?x = "of_nat n / 10 ^ f :: rat"
  have k': "- 1021 \<le> k" "k \<le> 1023" using g by (auto simp: fine_grid_def)
  have abs: "\<bar>?x\<bar> < 2 powi k" using n by simp
  have err: "\<bar>rnd_rat ?x - ?x\<bar> \<le> 2 powi (k - 54)"
    by (rule rnd_rat_error_bound [OF abs k'(1)])
  also have "(2::rat) powi (k - 54) = 2 powi (k - 53) / 2"
    using power_int_add_1 [of "2::rat" "k - 54"] by simp
  also have "\<dots> < 1 / (2 * 10 ^ f)" using g by (simp add: fine_grid_def)
  finally have near: "\<bar>rnd_rat ?x - ?x\<bar> < 1 / (2 * 10 ^ f)" .
  have "(1::rat) \<le> 2 * 10 ^ f" using one_le_power [of "10::rat" f] by linarith
  then have "1 / (2 * 10 ^ f) \<le> (1::rat)" by (simp add: field_simps)
  moreover have "(2::rat) powi k \<le> 2 powi 60" using k by (intro power_int_increasing) auto
  moreover have "(2::rat) powi 60 + 1 < 10 ^ 21" by simp
  ultimately have "rnd_rat ?x < 10 ^ 21" using near n by linarith
  then show ?thesis
    using rnd_small [OF abs k'] js_toFixed_near [OF near] rnd_rat_nonneg [of ?x] by simp
qed

lemma positive_string_chars:
  "c \<in> set (positive_string x) \<Longrightarrow> js_digit c \<or> c \<in> {cu_dot, cu_dash, 43, 101}"
proof -
  have zero: "js_digit 48" by (simp add: js_digit_def)
  show "c \<in> set (positive_string x) \<Longrightarrow> ?thesis"
    using zero
    by (auto simp: positive_string_def Let_def strip_zeros_def js_def split: prod.splits if_splits
        dest!: in_set_takeD in_set_dropD set_dropWhileD nat_digits_digit)
qed

end
