(* ===== verification/Api_Client.thy ===== *)
theory Api_Client
  imports Js_Decimal "HOL-Library.AList"
begin

text \<open>
  The typed HTTP client of \<open>frontend/src/lib/api.ts\<close>, the retry policy of
  \<open>lib/queryClient.ts\<close> and the vocabulary of the API modules built on them: a request is the
  data handed to \<open>fetch\<close>, an answer is what the network gave back. \<open>fetch\<close>, \<open>response.json()\<close>
  and the Zod schemas are parameters: the answer of the network and the parser of the body.
\<close>

section \<open>Requests\<close>

text \<open>\<open>JDec\<close> is a number that is not an integer, by its literal.\<close>

datatype json =
    JNull
  | JBool bool
  | JInt int
  | JDec jsstring
  | JStr jsstring
  | JArr "json list"
  | JObj "(jsstring \<times> json) list"

datatype http_method = GET | POST | PUT | PATCH | DELETE

type_synonym headers = "(jsstring \<times> jsstring) list"

text \<open>What a caller passes to \<open>apiFetch\<close> besides the schema (\<open>RequestOptions\<close>).\<close>

record request_options =
  opt_method :: http_method
  opt_headers :: headers
  opt_body :: "json option"

record http_request =
  rq_method :: http_method
  rq_url :: jsstring
  rq_headers :: headers
  rq_body :: "json option"

definition API_V1 :: jsstring where
  "API_V1 = js ''/api/v1''"

definition get_request :: request_options where
  "get_request = \<lparr>opt_method = GET, opt_headers = [], opt_body = None\<rparr>"

text \<open>Object spread: the keys of the second object are written over those of the first.\<close>

definition spread :: "headers \<Rightarrow> headers \<Rightarrow> headers" where
  "spread old new = foldl (\<lambda>acc (k, v). AList.update k v acc) old new"

definition surface_header :: jsstring where
  "surface_header = js ''X-OpenERP-Session-Surface''"

text \<open>
  The argument list \<open>apiFetch\<close> builds for \<open>fetch\<close>: \<open>base\<close> is \<open>API_BASE_URL\<close> and \<open>pathname\<close> is
  \<open>window.location.pathname\<close>, absent where there is no \<open>window\<close>.
\<close>

definition build_request ::
  "jsstring \<Rightarrow> jsstring option \<Rightarrow> jsstring \<Rightarrow> request_options \<Rightarrow> http_request" where
  "build_request base pathname path opts =
     \<lparr>rq_method = opt_method opts,
      rq_url = base @ path,
      rq_headers =
        spread
          ([(js ''Accept'', js ''application/json'')]
           @ (case pathname of
                Some p \<Rightarrow> if js_starts_with (js ''/pos'') p then [(surface_header, js ''pos'')] else []
              | None \<Rightarrow> [])
           @ (if opt_body opts = None then []
              else [(js ''Content-Type'', js ''application/json'')]))
          (opt_headers opts),
      rq_body = opt_body opts\<rparr>"

text \<open>
  A call an API module makes (the path and options of its \<open>apiFetch\<close>), and the options a query
  is registered with: its cache key, its call and whether it runs at all. (The abort signal and the
  cache's stale times are the query library's, and are left out.)
\<close>

record api_call =
  call_path :: jsstring
  call_options :: request_options

datatype query_key = KStr jsstring | KNum int | KBool bool | KNull | KObj "(jsstring \<times> query_key) list"

record query_options =
  q_key :: "query_key list"
  q_call :: api_call
  q_enabled :: bool

definition get_call :: "jsstring \<Rightarrow> api_call" where
  "get_call path = \<lparr>call_path = API_V1 @ path, call_options = get_request\<rparr>"

definition send_call :: "http_method \<Rightarrow> jsstring \<Rightarrow> headers \<Rightarrow> json option \<Rightarrow> api_call" where
  "send_call m path hs body = \<lparr>call_path = API_V1 @ path,
     call_options = \<lparr>opt_method = m, opt_headers = hs, opt_body = body\<rparr>\<rparr>"

definition num_or_null :: "int option \<Rightarrow> jsstring" where
  "num_or_null n = (case n of None \<Rightarrow> js ''null'' | Some i \<Rightarrow> int_string i)"

definition key_or_null :: "int option \<Rightarrow> query_key" where
  "key_or_null n = (case n of None \<Rightarrow> KNull | Some i \<Rightarrow> KNum i)"

definition bool_string :: "bool \<Rightarrow> jsstring" where
  "bool_string b = (if b then js ''true'' else js ''false'')"

text \<open>An object literal that spreads an optional field: the field is left out when absent.\<close>

definition opt_field :: "jsstring \<Rightarrow> ('a \<Rightarrow> 'b) \<Rightarrow> 'a option \<Rightarrow> (jsstring \<times> 'b) list" where
  "opt_field k f v = (case v of None \<Rightarrow> [] | Some x \<Rightarrow> [(k, f x)])"

section \<open>Answers and errors\<close>

record api_error =
  ae_status :: int
  ae_code :: jsstring
  ae_message :: jsstring
  ae_details :: "(jsstring \<times> json) list"
  ae_request_id :: "jsstring option"

text \<open>Whatever a call can throw: an \<open>ApiError\<close>, or any other exception with its message.\<close>

datatype failure = ApiFailure api_error | OtherFailure jsstring

record response =
  rs_status :: int
  rs_status_text :: jsstring
  rs_request_id :: "jsstring option"
  rs_json :: "json option"

text \<open>\<open>rs_json\<close> is \<open>None\<close> when \<open>response.json()\<close> rejects because the body is not JSON.\<close>

datatype network_answer = NetworkError jsstring | Answered response

record error_envelope =
  env_code :: jsstring
  env_message :: jsstring
  env_details :: "(jsstring \<times> json) list"
  env_request_id :: "jsstring option"

definition rs_ok :: "response \<Rightarrow> bool" where
  "rs_ok r \<longleftrightarrow> 200 \<le> rs_status r \<and> rs_status r \<le> 299"

definition isUnauthenticated :: "api_error \<Rightarrow> bool" where
  "isUnauthenticated e \<longleftrightarrow> ae_status e = 401"

definition isForbidden :: "api_error \<Rightarrow> bool" where
  "isForbidden e \<longleftrightarrow> ae_status e = 403"

definition readErrorBody :: "(json \<Rightarrow> error_envelope option) \<Rightarrow> response \<Rightarrow> api_error" where
  "readErrorBody parse_envelope r =
     (case rs_json r of
        None \<Rightarrow> \<lparr>ae_status = rs_status r, ae_code = js ''invalid_response'',
                 ae_message = (if rs_status_text r = [] then js ''Request failed.'' else rs_status_text r),
                 ae_details = [], ae_request_id = rs_request_id r\<rparr>
      | Some payload \<Rightarrow>
        (case parse_envelope payload of
           None \<Rightarrow> \<lparr>ae_status = rs_status r, ae_code = js ''invalid_response'',
                    ae_message = js ''The server returned an unrecognised error payload.'',
                    ae_details = [], ae_request_id = rs_request_id r\<rparr>
         | Some env \<Rightarrow> \<lparr>ae_status = rs_status r, ae_code = env_code env,
                        ae_message = env_message env, ae_details = env_details env,
                        ae_request_id = (case env_request_id env of
                           Some i \<Rightarrow> Some i | None \<Rightarrow> rs_request_id r)\<rparr>))"

text \<open>
  \<open>apiFetch\<close> after the request has been answered: \<open>parse\<close> is \<open>schema.safeParse\<close>, with the
  message of its error on the left.
\<close>

definition apiFetch ::
  "(json \<Rightarrow> error_envelope option) \<Rightarrow> (json \<Rightarrow> jsstring + 'a) \<Rightarrow> network_answer \<Rightarrow> failure + 'a"
  where
  "apiFetch parse_envelope parse ans =
     (case ans of
        NetworkError m \<Rightarrow> Inl (OtherFailure m)
      | Answered r \<Rightarrow>
          if \<not> rs_ok r then Inl (ApiFailure (readErrorBody parse_envelope r))
          else case (if rs_status r = 204 then Some JNull else rs_json r) of
                 None \<Rightarrow> Inl (OtherFailure (js ''invalid JSON''))
               | Some payload \<Rightarrow>
                   (case parse payload of
                      Inr v \<Rightarrow> Inr v
                    | Inl m \<Rightarrow> Inl (ApiFailure
                        \<lparr>ae_status = rs_status r, ae_code = js ''invalid_response'',
                         ae_message = js ''Response did not match the expected shape: '' @ m,
                         ae_details = [], ae_request_id = rs_request_id r\<rparr>)))"

section \<open>The retry policy\<close>

text \<open>\<open>defaultOptions.queries.retry\<close> and \<open>mutations.retry\<close> of \<open>createQueryClient\<close>.\<close>

definition query_retry :: "nat \<Rightarrow> failure \<Rightarrow> bool" where
  "query_retry failureCount error =
     (case error of
        ApiFailure e \<Rightarrow> if ae_status e < 500 then False else failureCount < 2
      | OtherFailure _ \<Rightarrow> failureCount < 2)"

definition mutation_retry :: "nat \<Rightarrow> failure \<Rightarrow> bool" where
  "mutation_retry failureCount error = False"

text \<open>
  How the client uses a policy: attempt \<open>n\<close> is made, and after a failure the policy is asked
  with the number of failures before it. The result carries the number of attempts made.
\<close>

function attempts_from ::
  "(nat \<Rightarrow> failure \<Rightarrow> bool) \<Rightarrow> (nat \<Rightarrow> failure + 'a) \<Rightarrow> nat \<Rightarrow> nat \<Rightarrow> (failure + 'a) \<times> nat" where
  "attempts_from policy attempt limit n =
     (case attempt n of
        Inr v \<Rightarrow> (Inr v, Suc n)
      | Inl e \<Rightarrow> if policy n e \<and> n < limit then attempts_from policy attempt limit (Suc n)
                 else (Inl e, Suc n))"
  by pat_completeness auto
termination
  by (relation "measure (\<lambda>(p, a, limit, n). limit - n)") auto

declare attempts_from.simps [simp del]

text \<open>The bound 2 is the policy's own: \<open>query_retry\<close> never allows a retry past it.\<close>

definition run_query :: "(nat \<Rightarrow> failure + 'a) \<Rightarrow> (failure + 'a) \<times> nat" where
  "run_query attempt = attempts_from query_retry attempt 2 0"

definition run_mutation :: "(nat \<Rightarrow> failure + 'a) \<Rightarrow> (failure + 'a) \<times> nat" where
  "run_mutation attempt = attempts_from mutation_retry attempt 2 0"

section \<open>Lemmas\<close>

lemma query_retry_bound: "query_retry n e \<Longrightarrow> n < 2"
  by (auto simp: query_retry_def split: failure.splits if_splits)

lemma attempts_from_limit:
  assumes "\<And>n e. policy n e \<Longrightarrow> n < limit"
  shows "attempts_from policy attempt limit n =
    (case attempt n of
       Inr v \<Rightarrow> (Inr v, Suc n)
     | Inl e \<Rightarrow> if policy n e then attempts_from policy attempt limit (Suc n) else (Inl e, Suc n))"
  using assms by (subst attempts_from.simps) (auto split: sum.splits)

lemma map_of_spread:
  "distinct (map fst new) \<Longrightarrow>
     map_of (spread old new) k = (case map_of new k of Some v \<Rightarrow> Some v | None \<Rightarrow> map_of old k)"
proof (induction new arbitrary: old)
  case Nil
  then show ?case by (simp add: spread_def)
next
  case (Cons kv new)
  obtain k' v where kv: "kv = (k', v)" by (cases kv)
  have "spread old (kv # new) = spread (AList.update k' v old) new"
    by (simp add: spread_def kv)
  with Cons show ?case
    by (auto simp: kv update_conv' map_of_eq_None_iff image_iff split: option.splits)
qed

lemma apiFetch_error_status:
  "apiFetch pe p (Answered r) = Inl (ApiFailure e) \<Longrightarrow> ae_status e = rs_status r"
  by (auto simp: apiFetch_def readErrorBody_def split: if_splits option.splits sum.splits)

lemma apiFetch_Inr:
  "apiFetch pe p ans = Inr v \<Longrightarrow>
     \<exists>r payload. ans = Answered r \<and> rs_ok r \<and> p payload = Inr v
       \<and> (if rs_status r = 204 then payload = JNull else rs_json r = Some payload)"
  by (auto simp: apiFetch_def split: network_answer.splits if_splits option.splits sum.splits)


lemma attempts_from_trace:
  assumes "\<And>n e. policy n e \<Longrightarrow> n < limit" and "attempts_from policy attempt limit m = (r, n)"
  shows "m < n \<and> n \<le> Suc (max m limit) \<and> r = attempt (n - 1)
    \<and> (\<forall>i \<in> {m..<n - 1}. \<exists>e. attempt i = Inl e \<and> policy i e)
    \<and> (\<forall>e. r = Inl e \<longrightarrow> \<not> policy (n - 1) e)"
  using assms(2)
proof (induction "limit - m" arbitrary: m rule: less_induct)
  case less
  have unfold: "attempts_from policy attempt limit m =
    (case attempt m of
       Inr v \<Rightarrow> (Inr v, Suc m)
     | Inl e \<Rightarrow> if policy m e then attempts_from policy attempt limit (Suc m) else (Inl e, Suc m))"
    using assms(1) by (rule attempts_from_limit)
  show ?case
  proof (cases "\<exists>e. attempt m = Inl e \<and> policy m e")
    case True
    then obtain e where e: "attempt m = Inl e" "policy m e" by blast
    then have "attempts_from policy attempt limit (Suc m) = (r, n)" and "m < limit"
      using less.prems assms(1) by (auto simp: unfold)
    then have IH: "Suc m < n \<and> n \<le> Suc (max (Suc m) limit) \<and> r = attempt (n - 1)
        \<and> (\<forall>i \<in> {Suc m..<n - 1}. \<exists>e. attempt i = Inl e \<and> policy i e)
        \<and> (\<forall>e. r = Inl e \<longrightarrow> \<not> policy (n - 1) e)" and "max (Suc m) limit = max m limit"
      using less.hyps [of "Suc m"] by auto
    moreover have "{m..<n - 1} \<subseteq> insert m {Suc m..<n - 1}" by auto
    ultimately show ?thesis using e by (simp only:) (blast intro: Suc_lessD)
  next
    case False
    then have "r = attempt m \<and> n = Suc m"
      using less.prems by (auto simp: unfold split: sum.splits if_splits)
    with False show ?thesis by auto
  qed
qed

section \<open>Properties\<close>

text \<open>A query is attempted at most three times; each attempt before the last failed with an
  error that is not a client error, the answer is that of the last attempt, and a query that
  fails for good has either used its three attempts or met an \<open>ApiError\<close> below 500.\<close>

lemma query_attempts:
  assumes "run_query attempt = (r, n)"
  shows "1 \<le> n \<and> n \<le> 3 \<and> r = attempt (n - 1)
    \<and> (\<forall>i < n - 1. \<exists>e. attempt i = Inl e \<and> (\<forall>a. e = ApiFailure a \<longrightarrow> 500 \<le> ae_status a))
    \<and> (\<forall>e. r = Inl e \<longrightarrow> n = 3 \<or> (\<exists>a. e = ApiFailure a \<and> ae_status a < 500))"
proof -
  have tr: "0 < n \<and> n \<le> Suc (max 0 2) \<and> r = attempt (n - 1)
      \<and> (\<forall>i \<in> {0..<n - 1}. \<exists>e. attempt i = Inl e \<and> query_retry i e)
      \<and> (\<forall>e. r = Inl e \<longrightarrow> \<not> query_retry (n - 1) e)"
    by (rule attempts_from_trace) (use query_retry_bound assms in \<open>auto simp: run_query_def\<close>)
  have "\<exists>e. attempt i = Inl e \<and> (\<forall>a. e = ApiFailure a \<longrightarrow> 500 \<le> ae_status a)" if "i < n - 1" for i
    using tr that by (fastforce simp: query_retry_def split: failure.splits if_splits)
  moreover have "n = 3 \<or> (\<exists>a. e = ApiFailure a \<and> ae_status a < 500)" if "r = Inl e" for e
  proof (cases e)
    case (ApiFailure a)
    then show ?thesis using tr that by (cases "ae_status a < 500") (auto simp: query_retry_def)
  next
    case (OtherFailure x)
    then show ?thesis using tr that by (auto simp: query_retry_def)
  qed
  ultimately show ?thesis using tr by simp
qed

definition flaky :: "nat \<Rightarrow> failure + nat" where
  "flaky n = (if n = 0 then Inl (OtherFailure (js ''offline'')) else Inr n)"

lemma query_attempts_witness: "run_query flaky = (Inr 1, 2) \<and> flaky (2 - 1) = Inr 1"
proof -
  have run: "run_query flaky = (Inr 1, 2)"
    by (simp add: run_query_def attempts_from.simps flaky_def query_retry_def)
  with query_attempts [OF run] show ?thesis by simp
qed

text \<open>C11: A call returns a value only when the answer has a status of 200 to 299 and its body (or
  null, for 204) satisfies the schema; any other answered request throws an \<open>ApiError\<close> that
  carries the status of the answer, except for a successful answer whose body is not JSON.\<close>

theorem apiFetch_outcome:
  "case apiFetch pe p (Answered r) of
     Inr v \<Rightarrow> rs_ok r \<and> (\<exists>payload. p payload = Inr v
       \<and> (if rs_status r = 204 then payload = JNull else rs_json r = Some payload))
   | Inl (ApiFailure e) \<Rightarrow> ae_status e = rs_status r
       \<and> (rs_ok r \<longrightarrow> ae_code e = js ''invalid_response'' \<and> ae_details e = [])
   | Inl (OtherFailure m) \<Rightarrow> rs_ok r \<and> rs_status r \<noteq> 204 \<and> rs_json r = None"
  by (auto simp: apiFetch_def readErrorBody_def split: sum.splits failure.splits option.splits if_splits)

definition gone :: response where
  "gone = \<lparr>rs_status = 404, rs_status_text = js ''Not Found'', rs_request_id = None, rs_json = None\<rparr>"

lemma apiFetch_outcome_witness:
  "\<exists>e. apiFetch (\<lambda>_. None) Inr (Answered gone) = Inl (ApiFailure e)
     \<and> ae_status e = 404 \<and> ae_message e = js ''Not Found''"
proof -
  have "apiFetch (\<lambda>_. None) Inr (Answered gone) = Inl (ApiFailure (readErrorBody (\<lambda>_. None) gone))"
    by (simp add: apiFetch_def gone_def rs_ok_def)
  with apiFetch_outcome [where pe = "\<lambda>_. None" and p = Inr and r = gone] show ?thesis
    by (simp add: gone_def readErrorBody_def)
qed

text \<open>The request a call makes: the session-surface header is set exactly for calls from a page
  under \<open>/pos\<close>, the content type exactly when there is a body, and the caller's own headers win
  over both.\<close>

lemma request_headers:
  assumes "distinct (map fst (opt_headers opts))"
  shows "map_of (rq_headers (build_request base pathname path opts)) k =
    (case map_of (opt_headers opts) k of
       Some v \<Rightarrow> Some v
     | None \<Rightarrow>
         if k = js ''Accept'' then Some (js ''application/json'')
         else if k = surface_header
         then (if (case pathname of Some p \<Rightarrow> js_starts_with (js ''/pos'') p | None \<Rightarrow> False)
               then Some (js ''pos'') else None)
         else if k = js ''Content-Type''
         then (if opt_body opts = None then None else Some (js ''application/json''))
         else None)"
  using assms
  by (auto simp: build_request_def map_of_spread surface_header_def split: option.splits)

lemma request_headers_witness:
  "map_of (rq_headers (build_request [] (Some (js ''/pos/sales'')) (js ''/api/v1/sales'') get_request))
     surface_header = Some (js ''pos'')"
  using request_headers [of get_request "[]" "Some (js ''/pos/sales'')" "js ''/api/v1/sales''" surface_header]
  by (simp add: get_request_def surface_header_def js_starts_with_def js_def)

end
