(* ===== verification/Url_Encoding.thy ===== *)
theory Url_Encoding
  imports Prelude "HOL-Library.AList"
begin

text \<open>
  What the API modules put in a URL: \<open>encodeURIComponent\<close> for a path segment and
  \<open>URLSearchParams\<close> for a query string, as the language and the URL standard define them, with the
  theorems that a server decoding the URL gets back exactly what was encoded.
\<close>

section \<open>Code points and UTF-8\<close>

definition high_surrogate :: "nat \<Rightarrow> bool" where
  "high_surrogate c \<longleftrightarrow> 55296 \<le> c \<and> c \<le> 56319"

definition low_surrogate :: "nat \<Rightarrow> bool" where
  "low_surrogate c \<longleftrightarrow> 56320 \<le> c \<and> c \<le> 57343"

text \<open>A surrogate without its partner stays as it is.\<close>

fun code_points :: "jsstring \<Rightarrow> nat list" where
  "code_points [] = []"
| "code_points [c] = [c]"
| "code_points (c # d # s) =
     (if high_surrogate c \<and> low_surrogate d
      then (65536 + (c - 55296) * 1024 + (d - 56320)) # code_points s
      else c # code_points (d # s))"

definition lone_surrogate :: "nat \<Rightarrow> bool" where
  "lone_surrogate c \<longleftrightarrow> 55296 \<le> c \<and> c \<le> 57343"

definition utf8 :: "nat \<Rightarrow> nat list" where
  "utf8 c =
     (if c < 128 then [c]
      else if c < 2048 then [192 + c div 64, 128 + c mod 64]
      else if c < 65536 then [224 + c div 4096, 128 + c div 64 mod 64, 128 + c mod 64]
      else [240 + c div 262144, 128 + c div 4096 mod 64, 128 + c div 64 mod 64, 128 + c mod 64])"

definition utf8_string :: "jsstring \<Rightarrow> nat list" where
  "utf8_string s = concat (map utf8 (code_points s))"

text \<open>\<open>URLSearchParams\<close> replaces a lone surrogate by U+FFFD before encoding it.\<close>

definition scalar_values :: "jsstring \<Rightarrow> nat list" where
  "scalar_values s = map (\<lambda>c. if lone_surrogate c then 65533 else c) (code_points s)"

section \<open>Percent encoding\<close>

definition hex_digit :: "nat \<Rightarrow> nat" where
  "hex_digit d = (if d < 10 then 48 + d else 55 + d)"

definition percent :: "nat \<Rightarrow> jsstring" where
  "percent b = [37, hex_digit (b div 16), hex_digit (b mod 16)]"

definition js_alnum :: "nat \<Rightarrow> bool" where
  "js_alnum c \<longleftrightarrow> (48 \<le> c \<and> c \<le> 57) \<or> (65 \<le> c \<and> c \<le> 90) \<or> (97 \<le> c \<and> c \<le> 122)"

text \<open>The marks \<open>- _ . ! ~ * ' ( )\<close> that \<open>encodeURIComponent\<close> leaves alone.\<close>

definition uri_unreserved :: "nat \<Rightarrow> bool" where
  "uri_unreserved c \<longleftrightarrow> js_alnum c \<or> c \<in> set [45, 95, 46, 33, 126, 42, 39, 40, 41]"

text \<open>The marks \<open>* - . _\<close> that the form encoding leaves alone.\<close>

definition form_unreserved :: "nat \<Rightarrow> bool" where
  "form_unreserved c \<longleftrightarrow> js_alnum c \<or> c \<in> set [42, 45, 46, 95]"

definition encode_with :: "(nat \<Rightarrow> bool) \<Rightarrow> nat list \<Rightarrow> jsstring" where
  "encode_with keep cs = concat (map (\<lambda>c. if keep c then [c] else concat (map percent (utf8 c))) cs)"

text \<open>\<open>None\<close> is the \<open>URIError\<close> a lone surrogate raises.\<close>

definition encodeURIComponent :: "jsstring \<Rightarrow> jsstring option" where
  "encodeURIComponent s =
     (if \<exists>c \<in> set (code_points s). lone_surrogate c then None
      else Some (encode_with uri_unreserved (code_points s)))"

definition form_encode :: "jsstring \<Rightarrow> jsstring" where
  "form_encode s =
     concat (map (\<lambda>c. if c = 32 then [43] else encode_with form_unreserved [c]) (scalar_values s))"

type_synonym params = "(jsstring \<times> jsstring) list"

definition params_set :: "jsstring \<Rightarrow> jsstring \<Rightarrow> params \<Rightarrow> params" where
  "params_set k v ps = AList.update k v ps"

definition params_string :: "params \<Rightarrow> jsstring" where
  "params_string ps = js_join [38] (map (\<lambda>(k, v). form_encode k @ 61 # form_encode v) ps)"

section \<open>What a server decodes\<close>

definition hex_value :: "nat \<Rightarrow> nat" where
  "hex_value c = (if c \<le> 57 then c - 48 else if c \<le> 70 then c - 55 else c - 87)"

fun percent_decode :: "jsstring \<Rightarrow> nat list" where
  "percent_decode [] = []"
| "percent_decode (c # s) =
     (if c = 37 then (case s of
          a # b # r \<Rightarrow> (16 * hex_value a + hex_value b) # percent_decode r
        | _ \<Rightarrow> c # percent_decode s)
      else c # percent_decode s)"

definition form_decode :: "jsstring \<Rightarrow> nat list" where
  "form_decode s = percent_decode (map (\<lambda>c. if c = 43 then 32 else c) s)"

text \<open>A query string: pairs separated by \<open>&\<close>, each split at its first \<open>=\<close>.\<close>

definition query_parse :: "jsstring \<Rightarrow> (nat list \<times> nat list) list" where
  "query_parse q =
     (if q = [] then []
      else map (\<lambda>s. (form_decode (takeWhile (\<lambda>c. c \<noteq> 61) s),
                     form_decode (drop 1 (dropWhile (\<lambda>c. c \<noteq> 61) s)))) (js_split 38 q))"

section \<open>Lemmas\<close>

lemma hex_value_digit [simp]: "d < 16 \<Longrightarrow> hex_value (hex_digit d) = d"
  by (simp add: hex_value_def hex_digit_def)

lemma hex_digit_alnum: "d < 16 \<Longrightarrow> js_alnum (hex_digit d)"
  by (auto simp: hex_digit_def js_alnum_def)

lemma percent_decode_percent: "b < 256 \<Longrightarrow> percent_decode (percent b @ s) = b # percent_decode s"
proof -
  assume "b < 256"
  then have "b div 16 < 16" and "b mod 16 < 16" by auto
  then show ?thesis by (simp add: percent_def)
qed

lemma percent_decode_percents:
  "\<forall>b \<in> set bs. b < 256 \<Longrightarrow> percent_decode (concat (map percent bs) @ s) = bs @ percent_decode s"
  by (induction bs) (auto simp: percent_decode_percent)

lemma utf8_byte: "c < 1114112 \<Longrightarrow> b \<in> set (utf8 c) \<Longrightarrow> b < 256"
proof -
  assume c: "c < 1114112" and b: "b \<in> set (utf8 c)"
  have "c div 64 mod 64 < 64" "c mod 64 < 64" "c div 4096 mod 64 < 64" by simp_all
  moreover have "c < 2048 \<Longrightarrow> c div 64 < 32" "c < 65536 \<Longrightarrow> c div 4096 < 16" "c div 262144 < 5"
    using c by auto
  ultimately show "b < 256" using b by (auto simp: utf8_def split: if_splits)
qed

lemma code_points_range: "\<forall>c \<in> set s. c < 65536 \<Longrightarrow> \<forall>c \<in> set (code_points s). c < 1114112"
proof (induction s rule: code_points.induct)
  case (3 c d s)
  then show ?case
  proof (cases "high_surrogate c \<and> low_surrogate d")
    case True
    then have "(c - 55296) * 1024 \<le> 1023 * 1024" and "d - 56320 \<le> 1023"
      by (auto simp: high_surrogate_def low_surrogate_def)
    with True 3 show ?thesis by auto
  next
    case False
    with 3 show ?thesis by auto
  qed
qed auto

lemma unreserved_utf8:
  "uri_unreserved c \<Longrightarrow> c \<noteq> 37 \<and> utf8 c = [c]" "form_unreserved c \<Longrightarrow> c \<noteq> 37 \<and> utf8 c = [c]"
  by (auto simp: uri_unreserved_def form_unreserved_def js_alnum_def utf8_def)

lemma percent_decode_encode:
  assumes "\<And>c. keep c \<Longrightarrow> c \<noteq> 37 \<and> utf8 c = [c]" and "\<forall>c \<in> set cs. c < 1114112"
  shows "percent_decode (encode_with keep cs @ s) = concat (map utf8 cs) @ percent_decode s"
  using assms(2)
proof (induction cs)
  case Nil
  show ?case by (simp add: encode_with_def)
next
  case (Cons c cs)
  have *: "encode_with keep (c # cs) @ s = encode_with keep [c] @ (encode_with keep cs @ s)"
    by (simp add: encode_with_def)
  show ?case
  proof (cases "keep c")
    case True
    with Cons assms(1) [of c] show ?thesis by (simp add: * encode_with_def)
  next
    case False
    then have "percent_decode (encode_with keep [c] @ t) = utf8 c @ percent_decode t" for t
      using Cons.prems utf8_byte [of c] by (simp add: encode_with_def percent_decode_percents)
    with Cons show ?thesis by (simp add: *)
  qed
qed

lemma percent_units:
  assumes "x \<in> set (concat (map percent (utf8 c)))" and "c < 1114112"
  shows "x = 37 \<or> js_alnum x"
proof -
  obtain b where "b \<in> set (utf8 c)" and x: "x \<in> set (percent b)" using assms(1) by auto
  then have "b div 16 < 16" and "b mod 16 < 16" using utf8_byte [OF assms(2)] by fastforce+
  with x show ?thesis using hex_digit_alnum by (auto simp: percent_def)
qed

lemma encode_with_units:
  assumes "x \<in> set (encode_with keep cs)" and "\<forall>c \<in> set cs. c < 1114112"
  shows "keep x \<or> x = 37 \<or> js_alnum x"
proof -
  obtain c where "c \<in> set cs" and "x \<in> set (if keep c then [c] else concat (map percent (utf8 c)))"
    using assms(1) unfolding encode_with_def set_concat set_map by blast
  then show ?thesis using percent_units assms(2) by (auto split: if_splits)
qed

lemma scalar_values_range:
  "\<forall>c \<in> set s. c < 65536 \<Longrightarrow> \<forall>c \<in> set (scalar_values s). c < 1114112"
  using code_points_range by (auto simp: scalar_values_def)

lemma form_encode_units:
  assumes "\<forall>c \<in> set s. c < 65536" and "x \<in> set (form_encode s)"
  shows "x = 43 \<or> x = 37 \<or> form_unreserved x"
proof -
  obtain c where "c \<in> set (scalar_values s)"
    and x: "x \<in> set (if c = 32 then [43] else encode_with form_unreserved [c])"
    using assms(2) unfolding form_encode_def set_concat set_map by blast
  then have "c < 1114112" using assms(1) scalar_values_range by blast
  with x show ?thesis
    using encode_with_units [of x form_unreserved "[c]"]
    by (auto simp: form_unreserved_def split: if_splits)
qed

lemma form_decode_append_encode:
  assumes "\<forall>c \<in> set cs. c < 1114112"
  shows "form_decode (concat (map (\<lambda>c. if c = 32 then [43] else encode_with form_unreserved [c]) cs))
    = concat (map utf8 cs)"
  using assms
proof (induction cs)
  case Nil
  show ?case by (simp add: form_decode_def)
next
  case (Cons c cs)
  let ?plus = "map (\<lambda>c::nat. if c = 43 then 32 else c)"
  have no_plus: "?plus (encode_with form_unreserved [c]) = encode_with form_unreserved [c]"
    using encode_with_units [of _ form_unreserved "[c]"] Cons.prems
    by (intro map_idI) (fastforce simp: form_unreserved_def js_alnum_def)
  have "percent_decode (?plus (encode_with form_unreserved [c]) @ t) = utf8 c @ percent_decode t" for t
    using percent_decode_encode [of form_unreserved "[c]" t] unreserved_utf8(2) Cons.prems
    by (simp add: no_plus)
  with Cons show ?case by (simp add: form_decode_def utf8_def)
qed

lemma form_decode_encode:
  "\<forall>c \<in> set s. c < 65536 \<Longrightarrow> form_decode (form_encode s) = concat (map utf8 (scalar_values s))"
  unfolding form_encode_def by (rule form_decode_append_encode) (rule scalar_values_range)

lemma query_parse_pair:
  assumes "\<forall>c \<in> set k. c < 65536" and "\<forall>c \<in> set v. c < 65536"
  shows "form_decode (takeWhile (\<lambda>c. c \<noteq> 61) (form_encode k @ 61 # form_encode v))
      = concat (map utf8 (scalar_values k))"
    and "form_decode (drop 1 (dropWhile (\<lambda>c. c \<noteq> 61) (form_encode k @ 61 # form_encode v)))
      = concat (map utf8 (scalar_values v))"
proof -
  have "\<forall>c \<in> set (form_encode k). c \<noteq> 61"
    using form_encode_units [OF assms(1)] by (fastforce simp: form_unreserved_def js_alnum_def)
  then have "takeWhile (\<lambda>c. c \<noteq> 61) (form_encode k @ 61 # form_encode v) = form_encode k"
    and "dropWhile (\<lambda>c. c \<noteq> 61) (form_encode k @ 61 # form_encode v) = 61 # form_encode v"
    by (simp_all add: takeWhile_append2 dropWhile_append2)
  then show "form_decode (takeWhile (\<lambda>c. c \<noteq> 61) (form_encode k @ 61 # form_encode v))
      = concat (map utf8 (scalar_values k))"
    and "form_decode (drop 1 (dropWhile (\<lambda>c. c \<noteq> 61) (form_encode k @ 61 # form_encode v)))
      = concat (map utf8 (scalar_values v))"
    using form_decode_encode assms by simp_all
qed

section \<open>Round trips\<close>

lemma encodeURIComponent_roundtrip:
  assumes "encodeURIComponent s = Some u" and "\<forall>c \<in> set s. c < 65536"
  shows "percent_decode u = utf8_string s \<and> (\<forall>c \<in> set u. uri_unreserved c \<or> c = 37)"
proof -
  have u: "u = encode_with uri_unreserved (code_points s)"
    using assms(1) by (auto simp: encodeURIComponent_def split: if_splits)
  note range = code_points_range [OF assms(2)]
  have "percent_decode u = utf8_string s"
    using percent_decode_encode [of uri_unreserved "code_points s" "[]"] unreserved_utf8(1) range
    by (simp add: u utf8_string_def)
  moreover have "uri_unreserved c \<or> c = 37" if "c \<in> set u" for c
    using encode_with_units [OF that [unfolded u] range] by (auto simp: uri_unreserved_def)
  ultimately show ?thesis by blast
qed

lemma params_roundtrip:
  assumes "\<forall>(k, v) \<in> set ps. (\<forall>c \<in> set k. c < 65536) \<and> (\<forall>c \<in> set v. c < 65536)"
  shows "query_parse (params_string ps) =
    map (\<lambda>(k, v). (concat (map utf8 (scalar_values k)), concat (map utf8 (scalar_values v)))) ps"
proof (cases "ps = []")
  case True
  then show ?thesis by (simp add: params_string_def query_parse_def)
next
  case False
  let ?row = "\<lambda>(k, v). form_encode k @ 61 # form_encode v"
  have "38 \<notin> set (?row kv)" if "kv \<in> set ps" for kv
    using form_encode_units assms that by (fastforce simp: form_unreserved_def js_alnum_def)
  then have split: "js_split 38 (params_string ps) = map ?row ps"
    unfolding params_string_def using False by (intro js_split_join) auto
  have "params_string ps \<noteq> []"
    using split False by (cases ps; cases "tl ps") (auto simp: params_string_def)
  then show ?thesis
    using assms by (auto simp: query_parse_def split query_parse_pair(1)
      query_parse_pair(2) [simplified] intro!: map_cong)
qed

end
