(* ===== verification/Pos_Model.thy ===== *)
theory Pos_Model
  imports Api_Client Url_Encoding
begin

text \<open>
  The data and the calls of the till, \<open>frontend/src/features/pos/api.ts\<close>: one record per Zod
  schema, with the schema's fields, and one definition per exported function, giving the call it
  makes. Identifiers are integers; money and quantities are the decimal strings the API sends.
  The parsing of the answers is the schema's, a parameter of \<open>apiFetch\<close>.
\<close>

section \<open>Terminals, warehouses, locations\<close>

record pos_terminal =
  pt_id :: int
  pt_name :: jsstring
  pt_warehouse_id :: int
  pt_warehouse_name :: jsstring
  pt_is_active :: bool
  pt_show_product_search :: bool
  pt_created_at :: jsstring

text \<open>\<open>.optional().default(true)\<close>\<close>

definition show_product_search_default :: "bool option \<Rightarrow> bool" where
  "show_product_search_default field = (case field of None \<Rightarrow> True | Some b \<Rightarrow> b)"

definition posTerminalsQuery :: "bool \<Rightarrow> query_options" where
  "posTerminalsQuery activeOnly =
     \<lparr>q_key = [KStr (js ''pos''), KStr (js ''terminals''), KBool activeOnly],
      q_call = get_call (js ''/pos-terminals?active_only='' @ bool_string activeOnly),
      q_enabled = True\<rparr>"

definition createPosTerminal :: "jsstring \<Rightarrow> int \<Rightarrow> api_call" where
  "createPosTerminal name warehouseId = send_call POST (js ''/pos-terminals'') []
     (Some (JObj [(js ''name'', JStr name), (js ''warehouse_id'', JInt warehouseId)]))"

record terminal_changes =
  ch_name :: "jsstring option"
  ch_is_active :: "bool option"
  ch_show_product_search :: "bool option"

definition updatePosTerminal :: "int \<Rightarrow> terminal_changes \<Rightarrow> api_call" where
  "updatePosTerminal terminalId changes =
     send_call PATCH (js ''/pos-terminals/'' @ int_string terminalId) []
       (Some (JObj (opt_field (js ''name'') JStr (ch_name changes)
                    @ opt_field (js ''is_active'') JBool (ch_is_active changes)
                    @ opt_field (js ''show_product_search'') JBool (ch_show_product_search changes))))"

definition terminalHeaders :: "int \<Rightarrow> headers" where
  "terminalHeaders terminalId = [(js ''X-POS-Terminal-ID'', int_string terminalId)]"

record warehouse =
  wh_id :: int
  wh_name :: jsstring
  wh_is_active :: bool

record stock_location =
  loc_id :: int
  loc_warehouse_id :: int
  loc_name :: jsstring
  loc_is_active :: bool

definition warehousesQuery :: query_options where
  "warehousesQuery = \<lparr>q_key = [KStr (js ''pos''), KStr (js ''warehouses'')],
     q_call = get_call (js ''/warehouses''), q_enabled = True\<rparr>"

text \<open>\<open>None\<close> is the \<open>NaN\<close> the till passes while no terminal is chosen.\<close>

definition locationsQuery :: "int option \<Rightarrow> query_options" where
  "locationsQuery warehouseId =
     (let s = (case warehouseId of None \<Rightarrow> js ''NaN'' | Some i \<Rightarrow> int_string i) in
      \<lparr>q_key = [KStr (js ''pos''), KStr (js ''warehouses''), key_or_null warehouseId,
                KStr (js ''locations'')],
       q_call = get_call (js ''/warehouses/'' @ s @ js ''/locations''),
       q_enabled = (warehouseId \<noteq> None)\<rparr>)"

section \<open>Categories and products\<close>

record pos_category =
  pc_id :: int
  pc_name :: jsstring
  pc_color :: jsstring
  pc_display_order :: int
  pc_is_default :: "bool option"
  pc_is_active :: bool

definition posCategoriesQuery :: query_options where
  "posCategoriesQuery = \<lparr>q_key = [KStr (js ''pos''), KStr (js ''categories'')],
     q_call = get_call (js ''/pos-categories''), q_enabled = True\<rparr>"

record product_package =
  pk_id :: int
  pk_name :: jsstring
  pk_factor :: jsstring
  pk_is_base :: bool
  pk_barcodes :: "(int \<times> jsstring) list"

record product =
  pr_id :: int
  pr_sku :: jsstring
  pr_name :: jsstring
  pr_pos_category_id :: "int option"
  pr_pos_category_name :: "jsstring option"
  pr_is_open_price :: "bool option"
  pr_is_sold_by_weight :: "bool option"
  pr_base_unit_name :: jsstring
  pr_list_price :: jsstring
  pr_final_price :: "jsstring option"
  pr_manual_price_is_set :: "bool option"
  pr_tax_rate :: jsstring
  pr_is_active :: bool
  pr_packages :: "product_package list"

text \<open>An absent flag is falsy.\<close>

definition truthy :: "bool option \<Rightarrow> bool" where
  "truthy b \<longleftrightarrow> b = Some True"

definition finalProductPrice :: "product \<Rightarrow> jsstring" where
  "finalProductPrice p = (case pr_final_price p of Some price \<Rightarrow> price | None \<Rightarrow> pr_list_price p)"

definition basePackage :: "product \<Rightarrow> failure + product_package" where
  "basePackage p =
     (case find pk_is_base (pr_packages p) of
        None \<Rightarrow> Inl (OtherFailure (js ''Product '' @ pr_name p @ js '' has no base package.''))
      | Some base \<Rightarrow> Inr base)"

record product_filters =
  pf_posCategoryId :: "int option"
  pf_search :: "jsstring option"

definition productsParams :: "product_filters \<Rightarrow> params" where
  "productsParams filters =
     (let p0 = [(js ''active_only'', js ''true'')];
          p1 = (case pf_posCategoryId filters of None \<Rightarrow> p0
                | Some i \<Rightarrow> params_set (js ''pos_category_id'') (int_string i) p0)
      in case pf_search filters of None \<Rightarrow> p1
         | Some s \<Rightarrow> if s = [] then p1 else params_set (js ''search'') s p1)"

definition productsQuery :: "product_filters \<Rightarrow> query_options" where
  "productsQuery filters =
     \<lparr>q_key = [KStr (js ''pos''), KStr (js ''products''), key_or_null (pf_posCategoryId filters),
               KStr (case pf_search filters of None \<Rightarrow> [] | Some s \<Rightarrow> s)],
      q_call = get_call (js ''/products?'' @ params_string (productsParams filters)),
      q_enabled = True\<rparr>"

section \<open>Sales\<close>

datatype payment_method = CASH | CARD | OTHER

fun method_name :: "payment_method \<Rightarrow> jsstring" where
  "method_name CASH = js ''CASH''"
| "method_name CARD = js ''CARD''"
| "method_name OTHER = js ''OTHER''"

record payment =
  pay_id :: int
  pay_method :: payment_method
  pay_amount :: jsstring
  pay_created_at :: jsstring

record sale_line =
  sl_id :: int
  sl_product_id :: int
  sl_product_sku :: jsstring
  sl_product_name :: jsstring
  sl_package_id :: int
  sl_package_name :: jsstring
  sl_package_factor :: jsstring
  sl_quantity_packages :: jsstring
  sl_quantity_base :: jsstring
  sl_quantity_refunded :: jsstring
  sl_quantity_physically_returned :: jsstring
  sl_tracks_stock :: bool
  sl_track_lots :: bool
  sl_package_price :: jsstring
  sl_unit_price :: jsstring
  sl_cold_drink_surcharge :: "jsstring option"
  sl_pos_surcharge_label :: "jsstring option"
  sl_tax_rate :: jsstring
  sl_discount_rate :: jsstring
  sl_subtotal :: jsstring
  sl_discount_amount :: jsstring
  sl_tax_amount :: jsstring
  sl_total :: jsstring

datatype sale_status = DRAFT | COMPLETED | CANCELLED

record sale =
  sa_id :: int
  sa_number :: "int option"
  sa_warehouse_id :: int
  sa_location_id :: int
  sa_terminal_id :: "int option"
  sa_terminal_name :: "jsstring option"
  sa_status :: sale_status
  sa_notes :: jsstring
  sa_prices_include_tax :: "bool option"
  sa_cashier_name :: "jsstring option"
  sa_completed_at :: "jsstring option"
  sa_created_at :: jsstring
  sa_lines :: "sale_line list"
  sa_total :: jsstring
  sa_payments :: "payment list"
  sa_change_due :: jsstring

definition sale_path :: "int \<Rightarrow> jsstring \<Rightarrow> jsstring" where
  "sale_path saleId rest = js ''/sales/'' @ int_string saleId @ rest"

definition saleQuery :: "int option \<Rightarrow> query_options" where
  "saleQuery saleId =
     \<lparr>q_key = [KStr (js ''pos''), KStr (js ''sales''), key_or_null saleId],
      q_call = get_call (js ''/sales/'' @ num_or_null saleId),
      q_enabled = (saleId \<noteq> None)\<rparr>"

definition draftSalesKey :: "int option \<Rightarrow> query_key list" where
  "draftSalesKey terminalId =
     [KStr (js ''pos''), KStr (js ''sales''), KStr (js ''draft''), key_or_null terminalId]"

definition draftSalesQuery :: "int option \<Rightarrow> int option \<Rightarrow> query_options" where
  "draftSalesQuery terminalId warehouseId =
     \<lparr>q_key = draftSalesKey terminalId,
      q_call = send_call GET (js ''/sales?status=DRAFT&warehouse_id='' @ num_or_null warehouseId
          @ js ''&terminal_id='' @ num_or_null terminalId)
        [(js ''X-POS-Terminal-ID'', num_or_null terminalId)] None,
      q_enabled = (warehouseId \<noteq> None \<and> terminalId \<noteq> None)\<rparr>"

record sales_filters =
  sf_day :: "jsstring option"
  sf_status :: "sale_status option"
  sf_terminalId :: "int option"

definition saleByNumberQuery :: "int option \<Rightarrow> query_options" where
  "saleByNumberQuery number =
     \<lparr>q_key = [KStr (js ''sales''), KStr (js ''by-number''), key_or_null number],
      q_call = get_call (js ''/sales?number='' @ num_or_null number),
      q_enabled = (number \<noteq> None)\<rparr>"

text \<open>What its query function makes of the answer: the first sale found, if any.\<close>

definition first_or_null :: "'a list \<Rightarrow> 'a option" where
  "first_or_null found = (case found of [] \<Rightarrow> None | s # _ \<Rightarrow> Some s)"

fun status_name :: "sale_status \<Rightarrow> jsstring" where
  "status_name DRAFT = js ''DRAFT''"
| "status_name COMPLETED = js ''COMPLETED''"
| "status_name CANCELLED = js ''CANCELLED''"

definition salesParams :: "sales_filters \<Rightarrow> params" where
  "salesParams filters =
     (let p0 = [(js ''limit'', js ''500'')];
          p1 = (case sf_day filters of None \<Rightarrow> p0
                | Some d \<Rightarrow> if d = [] then p0 else params_set (js ''business_date'') d p0);
          p2 = (case sf_status filters of None \<Rightarrow> p1
                | Some s \<Rightarrow> params_set (js ''status'') (status_name s) p1)
      in case sf_terminalId filters of None \<Rightarrow> p2
         | Some t \<Rightarrow> params_set (js ''terminal_id'') (int_string t) p2)"

definition salesQuery :: "sales_filters \<Rightarrow> query_options" where
  "salesQuery filters =
     \<lparr>q_key = [KStr (js ''sales''), KStr (js ''list''),
        KObj (opt_field (js ''day'') KStr (sf_day filters)
              @ opt_field (js ''status'') (\<lambda>s. KStr (status_name s)) (sf_status filters)
              @ opt_field (js ''terminalId'') KNum (sf_terminalId filters))],
      q_call = get_call (js ''/sales?'' @ params_string (salesParams filters)),
      q_enabled = True\<rparr>"

text \<open>\<open>Inl\<close> is the exception \<open>encodeURIComponent\<close> throws before any request is made.\<close>

definition findProductByBarcode :: "jsstring \<Rightarrow> failure + api_call" where
  "findProductByBarcode barcode =
     (case encodeURIComponent barcode of
        None \<Rightarrow> Inl (OtherFailure (js ''URI malformed''))
      | Some seg \<Rightarrow> Inr (get_call (js ''/products/barcode/'' @ seg)))"

definition createSale :: "int \<Rightarrow> int \<Rightarrow> int \<Rightarrow> api_call" where
  "createSale terminalId warehouseId locationId = send_call POST (js ''/sales'') []
     (Some (JObj [(js ''warehouse_id'', JInt warehouseId), (js ''location_id'', JInt locationId),
                  (js ''terminal_id'', JInt terminalId)]))"

datatype pos_surcharge = COLD_DRINK

definition surcharge_name :: "pos_surcharge \<Rightarrow> jsstring" where
  "surcharge_name s = (case s of COLD_DRINK \<Rightarrow> js ''COLD_DRINK'')"

record new_line =
  nl_product_id :: int
  nl_package_id :: int
  nl_quantity_packages :: jsstring
  nl_open_price_total :: "jsstring option"
  nl_cold_drink :: "bool option"
  nl_pos_surcharge :: "pos_surcharge option"

definition surcharge_field :: "pos_surcharge option \<Rightarrow> (jsstring \<times> json) list" where
  "surcharge_field s = opt_field (js ''pos_surcharge'') (\<lambda>c. JStr (surcharge_name c)) s"

definition addLine :: "int \<Rightarrow> int \<Rightarrow> new_line \<Rightarrow> api_call" where
  "addLine saleId terminalId line =
     send_call POST (sale_path saleId (js ''/lines'')) (terminalHeaders terminalId)
       (Some (JObj ([(js ''product_id'', JInt (nl_product_id line)),
                     (js ''package_id'', JInt (nl_package_id line)),
                     (js ''quantity_packages'', JStr (nl_quantity_packages line))]
                    @ opt_field (js ''open_price_total'') JStr (nl_open_price_total line)
                    @ opt_field (js ''cold_drink'') JBool (nl_cold_drink line)
                    @ surcharge_field (nl_pos_surcharge line))))"

record new_barcode_line =
  nb_barcode :: jsstring
  nb_quantity_packages :: jsstring
  nb_cold_drink :: "bool option"
  nb_pos_surcharge :: "pos_surcharge option"

definition addLineByBarcode :: "int \<Rightarrow> int \<Rightarrow> new_barcode_line \<Rightarrow> api_call" where
  "addLineByBarcode saleId terminalId line =
     send_call POST (sale_path saleId (js ''/lines/by-barcode'')) (terminalHeaders terminalId)
       (Some (JObj ([(js ''barcode'', JStr (nb_barcode line)),
                     (js ''quantity_packages'', JStr (nb_quantity_packages line))]
                    @ opt_field (js ''cold_drink'') JBool (nb_cold_drink line)
                    @ surcharge_field (nb_pos_surcharge line))))"

definition removeLine :: "int \<Rightarrow> int \<Rightarrow> int \<Rightarrow> api_call" where
  "removeLine saleId lineId terminalId =
     send_call DELETE (sale_path saleId (js ''/lines/'' @ int_string lineId))
       (terminalHeaders terminalId) None"

definition cancelSale :: "int \<Rightarrow> int \<Rightarrow> api_call" where
  "cancelSale saleId terminalId =
     send_call POST (sale_path saleId (js ''/cancel'')) (terminalHeaders terminalId) None"

definition validateSaleStock :: "int \<Rightarrow> int \<Rightarrow> api_call" where
  "validateSaleStock saleId terminalId =
     send_call POST (sale_path saleId (js ''/stock-availability'')) (terminalHeaders terminalId) None"

text \<open>At run time the method is a string: the screens cast a stored setting to it unchecked.\<close>

record tender =
  td_method :: jsstring
  td_amount :: jsstring

definition tender_json :: "tender \<Rightarrow> json" where
  "tender_json t = JObj [(js ''method'', JStr (td_method t)),
                         (js ''amount'', JStr (td_amount t))]"

definition checkout :: "int \<Rightarrow> tender list \<Rightarrow> jsstring \<Rightarrow> int \<Rightarrow> api_call" where
  "checkout saleId payments idempotencyKey terminalId =
     send_call POST (sale_path saleId (js ''/checkout''))
       (spread (terminalHeaders terminalId) [(js ''Idempotency-Key'', idempotencyKey)])
       (Some (JObj [(js ''payments'', JArr (map tender_json payments))]))"

section \<open>Tickets\<close>

datatype font_family = COURIER_NEW | LIBERATION_MONO | DEJAVU_SANS_MONO
datatype font_weight = NORMAL | BOLD

record ticket =
  tk_id :: int
  tk_sale_id :: int
  tk_template_id :: "int option"
  tk_printable_width_mm :: jsnum
  tk_margin_left_mm :: jsnum
  tk_margin_right_mm :: jsnum
  tk_font_family :: font_family
  tk_font_size_px :: jsnum
  tk_line_height_px :: jsnum
  tk_font_weight :: font_weight
  tk_margin_top_mm :: jsnum
  tk_margin_bottom_mm :: jsnum
  tk_rendered_text :: jsstring
  tk_created_at :: jsstring

definition generateTicket :: "int \<Rightarrow> api_call" where
  "generateTicket saleId = send_call POST (sale_path saleId (js ''/tickets'')) [] None"

section \<open>The X summary and the Z closing\<close>

record z_tax_row =
  zt_rate :: jsstring
  zt_taxable_base :: jsstring
  zt_tax_amount :: jsstring
  zt_total :: jsstring

record z_payment_row =
  zp_method :: jsstring
  zp_collected_total :: jsstring
  zp_refunded_total :: jsstring
  zp_net_total :: jsstring

record z_terminal_row =
  ztm_terminal_id :: "int option"
  ztm_terminal_name :: jsstring
  ztm_sales_count :: int
  ztm_gross_total :: jsstring

record z_cashier_row =
  zc_cashier_user_id :: "int option"
  zc_cashier_name :: jsstring
  zc_sales_count :: int
  zc_gross_total :: jsstring

record z_report =
  z_id :: int
  z_warehouse_id :: int
  z_warehouse_name :: jsstring
  z_number :: int
  z_business_date :: jsstring
  z_covers_from :: "jsstring option"
  z_closed_at :: jsstring
  z_is_final :: bool
  z_finalized_at :: "jsstring option"
  z_store_name :: jsstring
  z_store_tax_id :: jsstring
  z_store_address :: jsstring
  z_closed_by_name :: "jsstring option"
  z_sales_count :: int
  z_gross_total :: jsstring
  z_tax_total :: jsstring
  z_discount_total :: jsstring
  z_cash_total :: jsstring
  z_card_total :: jsstring
  z_other_total :: jsstring
  z_returns_count :: int
  z_returns_total :: jsstring
  z_first_sale_number :: "int option"
  z_last_sale_number :: "int option"
  z_tax_breakdown :: "z_tax_row list"
  z_payment_breakdown :: "z_payment_row list"
  z_terminal_breakdown :: "z_terminal_row list"
  z_cashier_breakdown :: "z_cashier_row list"
  z_closed_by_user_id :: "int option"

record open_sale_row =
  os_id :: int
  os_lines_count :: int
  os_total :: jsstring

record x_report_preview =
  x_warehouse_id :: int
  x_warehouse_name :: jsstring
  x_business_date :: jsstring
  x_generated_at :: jsstring
  x_covers_from :: "jsstring option"
  x_sales_count :: int
  x_gross_total :: jsstring
  x_tax_total :: jsstring
  x_discount_total :: jsstring
  x_cash_total :: jsstring
  x_card_total :: jsstring
  x_other_total :: jsstring
  x_returns_count :: int
  x_returns_total :: jsstring
  x_first_sale_number :: "int option"
  x_last_sale_number :: "int option"
  x_tax_breakdown :: "z_tax_row list"
  x_payment_breakdown :: "z_payment_row list"
  x_terminal_breakdown :: "z_terminal_row list"
  x_cashier_breakdown :: "z_cashier_row list"
  x_open_sales :: "open_sale_row list"
  x_final_report :: "z_report option"

definition xReportPreviewQuery :: "int option \<Rightarrow> query_options" where
  "xReportPreviewQuery warehouseId =
     \<lparr>q_key = [KStr (js ''pos''), KStr (js ''x-report''), KStr (js ''preview''), key_or_null warehouseId],
      q_call = get_call (js ''/x-reports/preview?warehouse_id='' @ num_or_null warehouseId),
      q_enabled = (warehouseId \<noteq> None)\<rparr>"

definition closeZReport :: "int \<Rightarrow> jsstring \<Rightarrow> api_call" where
  "closeZReport warehouseId idempotencyKey =
     send_call POST (js ''/z-reports?warehouse_id='' @ int_string warehouseId)
       [(js ''Idempotency-Key'', idempotencyKey)] None"

section \<open>Lemmas\<close>

lemma basePackage_Inr: "basePackage p = Inr b \<Longrightarrow> b \<in> set (pr_packages p) \<and> pk_is_base b"
  by (auto simp: basePackage_def dest: find_map_of_id split: option.splits)

lemma basePackage_total:
  "\<exists>b \<in> set (pr_packages p). pk_is_base b \<Longrightarrow> \<exists>b. basePackage p = Inr b"
  by (cases "find pk_is_base (pr_packages p)") (auto simp: basePackage_def find_None_iff)

lemma checkout_key:
  "map_of (opt_headers (call_options (checkout saleId payments key terminalId)))
     (js ''Idempotency-Key'') = Some key"
  by (simp add: checkout_def send_call_def map_of_spread)


text \<open>The calls that write to a sale of this terminal.\<close>

inductive sale_write :: "int \<Rightarrow> int \<Rightarrow> api_call \<Rightarrow> bool" where
  "sale_write saleId terminalId (addLine saleId terminalId line)"
| "sale_write saleId terminalId (addLineByBarcode saleId terminalId bline)"
| "sale_write saleId terminalId (removeLine saleId lineId terminalId)"
| "sale_write saleId terminalId (cancelSale saleId terminalId)"
| "sale_write saleId terminalId (validateSaleStock saleId terminalId)"
| "sale_write saleId terminalId (checkout saleId payments key terminalId)"

lemma sale_write_headers:
  assumes "sale_write saleId terminalId c"
  shows "map_of (opt_headers (call_options c)) (js ''X-POS-Terminal-ID'') = Some (int_string terminalId)
    \<and> map_of (opt_headers (call_options c)) surface_header = None
    \<and> distinct (map fst (opt_headers (call_options c)))"
  using assms
  by cases (simp_all add: addLine_def addLineByBarcode_def removeLine_def cancelSale_def
    validateSaleStock_def checkout_def send_call_def terminalHeaders_def surface_header_def spread_def)

section \<open>Properties\<close>

text \<open>Every write to a sale made from a page under \<open>/pos\<close> goes to that sale's own path and is sent
  with the terminal's identity and the POS session surface.\<close>

lemma sale_write_request:
  assumes "sale_write saleId terminalId c" and "js_starts_with (js ''/pos'') page"
  shows "let rq = build_request base (Some page) (call_path c) (call_options c) in
    js_starts_with (base @ API_V1 @ js ''/sales/'' @ int_string saleId) (rq_url rq)
    \<and> map_of (rq_headers rq) (js ''X-POS-Terminal-ID'') = Some (int_string terminalId)
    \<and> map_of (rq_headers rq) surface_header = Some (js ''pos'')"
proof -
  have path: "\<exists>rest. call_path c = API_V1 @ js ''/sales/'' @ int_string saleId @ rest"
    using assms(1)
    by cases (simp_all add: addLine_def addLineByBarcode_def removeLine_def cancelSale_def
      validateSaleStock_def checkout_def send_call_def sale_path_def)
  note headers = sale_write_headers [OF assms(1)]
  then show ?thesis
    using assms(2) path
    by (auto simp: build_request_def map_of_spread surface_header_def js_starts_with_append)
qed

lemma sale_write_request_witness:
  "map_of (rq_headers (build_request [] (Some (js ''/pos'')) (call_path (cancelSale 7 3))
     (call_options (cancelSale 7 3)))) (js ''X-POS-Terminal-ID'') = Some (int_string 3)"
proof -
  have "js_starts_with (js ''/pos'') (js ''/pos'')" by (simp add: js_starts_with_def)
  from sale_write_request [OF sale_write.intros(4) [of 7 3] this, of "[]"] show ?thesis
    by (simp add: Let_def)
qed

text \<open>C9: The code a scanner reads reaches the product lookup whole: it is the last segment of the
  path, holds no character that delimits a URL, and decodes to the code's UTF-8 bytes; only a code
  with an unpaired surrogate is refused, before any request.\<close>

theorem findProductByBarcode_path:
  assumes "\<forall>c \<in> set code. c < 65536"
  shows "case findProductByBarcode code of
      Inr c \<Rightarrow> \<exists>seg. call_path c = API_V1 @ js ''/products/barcode/'' @ seg
        \<and> percent_decode seg = utf8_string code \<and> (\<forall>u \<in> set seg. uri_unreserved u \<or> u = 37)
    | Inl _ \<Rightarrow> \<exists>c \<in> set (code_points code). lone_surrogate c"
proof (cases "encodeURIComponent code")
  case None
  then show ?thesis by (auto simp: findProductByBarcode_def encodeURIComponent_def split: if_splits)
next
  case (Some seg)
  from encodeURIComponent_roundtrip [OF this assms] Some show ?thesis
    by (simp add: findProductByBarcode_def get_call_def)
qed

lemma findProductByBarcode_path_witness:
  "\<exists>c seg. findProductByBarcode (js ''84/1 %'') = Inr c
     \<and> call_path c = API_V1 @ js ''/products/barcode/'' @ seg \<and> percent_decode seg = js ''84/1 %''"
proof -
  have units: "\<forall>c \<in> set (js ''84/1 %''). c < 65536"
    and u8: "utf8_string (js ''84/1 %'') = js ''84/1 %''"
    and "isl (findProductByBarcode (js ''84/1 %'')) = False"
    by code_simp+
  with findProductByBarcode_path [OF units] show ?thesis
    by (auto split: sum.splits)
qed

text \<open>The product query the catalogue is loaded with parses, on the server, into exactly the
  active filter, the category when one is chosen and the search text when there is one: no text a
  cashier types adds or changes a parameter.\<close>

lemma productsQuery_parameters:
  assumes "case pf_search f of None \<Rightarrow> True | Some s \<Rightarrow> \<forall>c \<in> set s. c < 65536"
  defines "decoded \<equiv> \<lambda>s. concat (map utf8 (scalar_values s))"
  shows "\<exists>q. call_path (q_call (productsQuery f)) = API_V1 @ js ''/products?'' @ q
    \<and> query_parse q = map (\<lambda>(k, v). (decoded k, decoded v))
      ([(js ''active_only'', js ''true'')]
       @ (case pf_posCategoryId f of None \<Rightarrow> [] | Some i \<Rightarrow> [(js ''pos_category_id'', int_string i)])
       @ (case pf_search f of Some s \<Rightarrow> if s = [] then [] else [(js ''search'', s)] | None \<Rightarrow> []))"
proof -
  have "c < 65536" if "c \<in> set (nat_digits n)" for c n
    using nat_digits_digit [OF that] by (simp add: js_digit_def)
  then have int: "\<forall>c \<in> set (int_string i). c < 65536" for i
    by (simp add: int_string_def)
  have lit: "\<forall>c \<in> set (js ''active_only''). c < 65536" "\<forall>c \<in> set (js ''true''). c < 65536"
    "\<forall>c \<in> set (js ''pos_category_id''). c < 65536" "\<forall>c \<in> set (js ''search''). c < 65536"
    by code_simp+
  have params: "productsParams f = [(js ''active_only'', js ''true'')]
       @ (case pf_posCategoryId f of None \<Rightarrow> [] | Some i \<Rightarrow> [(js ''pos_category_id'', int_string i)])
       @ (case pf_search f of Some s \<Rightarrow> if s = [] then [] else [(js ''search'', s)] | None \<Rightarrow> [])"
    by (simp add: productsParams_def params_set_def Let_def split: option.splits)
  have "\<forall>(k, v) \<in> set (productsParams f). (\<forall>c \<in> set k. c < 65536) \<and> (\<forall>c \<in> set v. c < 65536)"
    using assms(1) lit int by (auto simp: params split: option.splits if_splits)
  from params_roundtrip [OF this] show ?thesis
    by (simp add: productsQuery_def get_call_def params decoded_def)
qed

lemma productsQuery_parameters_witness:
  "\<exists>q. call_path (q_call (productsQuery \<lparr>pf_posCategoryId = None, pf_search = Some (js ''a&b'')\<rparr>))
      = API_V1 @ js ''/products?'' @ q
    \<and> query_parse q = [(js ''active_only'', js ''true''), (js ''search'', js ''a&b'')]"
proof -
  have dec: "concat (map utf8 (scalar_values (js ''active_only''))) = js ''active_only''"
    "concat (map utf8 (scalar_values (js ''true''))) = js ''true''"
    "concat (map utf8 (scalar_values (js ''search''))) = js ''search''"
    "concat (map utf8 (scalar_values (js ''a&b''))) = js ''a&b''"
    and units: "\<forall>c \<in> set (js ''a&b''). c < 65536"
    by code_simp+
  with productsQuery_parameters [of "\<lparr>pf_posCategoryId = None, pf_search = Some (js ''a&b'')\<rparr>"]
  show ?thesis by simp
qed

end
