(* ===== verification/Settings.thy ===== *)
theory Settings
  imports Api_Client
begin

text \<open>
  The shop settings as the screens read them: \<open>settings/optionsApi.ts\<close> and
  \<open>settings/useShopSettings.ts\<close>, and the settings that are applied to the document or to the
  printer connection, each with the guard that replaces an unusable value by the factory one:
  \<open>settings/useBaseFontSize.ts\<close>, \<open>pos/usePosAppearance.ts\<close>, \<open>settings/useButtonColors.ts\<close> with
  \<open>lib/oklch.ts\<close>, and \<open>tickets/qzConfig.ts\<close>.
\<close>

section \<open>Stores of named values\<close>

text \<open>
  The interface of a store of named values (the inline style of the document, the browser's local
  storage): what a lookup gives after a write and after a removal. \<open>kept v\<close> holds of the values
  the store can hold at all.
\<close>

locale named_store =
  fixes lookup :: "'s \<Rightarrow> 'k \<Rightarrow> 'v option"
    and put :: "'k \<Rightarrow> 'v \<Rightarrow> 's \<Rightarrow> 's"
    and erase :: "'k \<Rightarrow> 's \<Rightarrow> 's"
    and kept :: "'v \<Rightarrow> bool"
  assumes lookup_put: "kept v \<Longrightarrow> lookup (put k v s) k' = (if k' = k then Some v else lookup s k')"
    and lookup_erase: "lookup (erase k s) k' = (if k' = k then None else lookup s k')"
begin

lemma lookup_puts:
  "\<forall>(k, v) \<in> set kvs. kept v \<Longrightarrow> distinct (map fst kvs) \<Longrightarrow>
     lookup (foldl (\<lambda>s (k, v). put k v s) s kvs) k =
     (case map_of kvs k of Some v \<Rightarrow> Some v | None \<Rightarrow> lookup s k)"
proof (induction kvs arbitrary: s)
  case Nil
  then show ?case by simp
next
  case (Cons kv kvs)
  obtain k' v where kv: "kv = (k', v)" by (cases kv)
  have "map_of kvs k' = None"
    using Cons.prems by (simp add: kv map_of_eq_None_iff)
  moreover have "lookup (foldl (\<lambda>s (k, v). put k v s) (put k' v s) kvs) k =
      (case map_of kvs k of Some v \<Rightarrow> Some v | None \<Rightarrow> lookup (put k' v s) k)"
    using Cons by (simp add: kv)
  ultimately show ?case
    using Cons.prems by (cases "k = k'") (auto simp: kv lookup_put split: option.splits)
qed

lemma lookup_erases:
  "lookup (foldl (\<lambda>s k. erase k s) s ks) k = (if k \<in> set ks then None else lookup s k)"
  by (induction ks arbitrary: s) (auto simp: lookup_erase)

lemma puts_then_erases:
  assumes "\<forall>(k, v) \<in> set kvs. kept v" and "distinct (map fst kvs)"
  shows "lookup (foldl (\<lambda>s k. erase k s) (foldl (\<lambda>s (k, v). put k v s) s kvs) (map fst kvs)) k =
    (if k \<in> set (map fst kvs) then None else lookup s k)"
  using assms
  by (cases "k \<in> set (map fst kvs)")
    (simp_all add: lookup_erases lookup_puts map_of_eq_None_iff [THEN iffD2])

end

text \<open>
  The inline style of the document's root element: its declared properties. Setting a property
  to the empty string removes it.
\<close>

type_synonym style = "(jsstring \<times> jsstring) list"

definition removeProperty :: "jsstring \<Rightarrow> style \<Rightarrow> style" where
  "removeProperty k st = AList.delete k st"

definition setProperty :: "jsstring \<Rightarrow> jsstring \<Rightarrow> style \<Rightarrow> style" where
  "setProperty k v st = (if v = [] then removeProperty k st else AList.update k v st)"

definition set_properties :: "(jsstring \<times> jsstring) list \<Rightarrow> style \<Rightarrow> style" where
  "set_properties kvs st = foldl (\<lambda>st (k, v). setProperty k v st) st kvs"

definition remove_properties :: "jsstring list \<Rightarrow> style \<Rightarrow> style" where
  "remove_properties ks st = foldl (\<lambda>st k. removeProperty k st) st ks"

interpretation document_style: named_store map_of setProperty removeProperty "\<lambda>v. v \<noteq> []"
  by unfold_locales (auto simp: setProperty_def removeProperty_def update_conv' delete_conv')

section \<open>Reading a setting\<close>

datatype setting_type = BOOL | INT | DECIMAL | STRING | HOST | TEXT | ENUM | TIMEZONE | COLOR | SECRET

record setting_choice =
  sc_value :: jsstring
  sc_label :: jsstring

record setting_definition =
  sd_key :: jsstring
  sd_group :: jsstring
  sd_label :: jsstring
  sd_help :: jsstring
  sd_type :: setting_type
  sd_value :: jsstring
  sd_is_set :: bool
  sd_default :: jsstring
  sd_choices :: "setting_choice list"
  sd_minimum :: "jsstring option"
  sd_maximum :: "jsstring option"
  sd_caution :: "jsstring option"

record settings_options =
  so_groups :: "jsstring list"
  so_settings :: "setting_definition list"

definition settingsOptionsQuery :: query_options where
  "settingsOptionsQuery = \<lparr>q_key = [KStr (js ''settings''), KStr (js ''options'')],
     q_call = get_call (js ''/settings/options''), q_enabled = True\<rparr>"

definition updateSettingsOptions :: "(jsstring \<times> jsstring) list \<Rightarrow> api_call" where
  "updateSettingsOptions values = send_call PUT (js ''/settings/options'') []
     (Some (JObj [(js ''values'', JObj (map (\<lambda>(k, v). (k, JStr v)) values))]))"

definition settingsValuesQuery :: query_options where
  "settingsValuesQuery = \<lparr>q_key = [KStr (js ''settings''), KStr (js ''values'')],
     q_call = get_call (js ''/settings/values''), q_enabled = True\<rparr>"

definition coldDrinkSurchargeQuery :: query_options where
  "coldDrinkSurchargeQuery =
     \<lparr>q_key = [KStr (js ''settings''), KStr (js ''pos''), KStr (js ''cold-drink-surcharge'')],
      q_call = get_call (js ''/settings/pos/cold-drink-surcharge''), q_enabled = True\<rparr>"

definition updateColdDrinkSurcharge :: "jsstring \<Rightarrow> api_call" where
  "updateColdDrinkSurcharge amount =
     send_call PUT (js ''/settings/pos/cold-drink-surcharge'') []
       (Some (JObj [(js ''amount'', JStr amount)]))"

text \<open>
  What the settings query holds: nothing yet, the values, or an error (then its data is absent
  too). \<open>None\<close> as \<open>data\<close> is \<open>undefined\<close>.
\<close>

type_synonym setting_values = "(jsstring \<times> jsstring) list"

record settings_query =
  sq_pending :: bool
  sq_data :: "setting_values option"

definition useShopSetting :: "setting_values option \<Rightarrow> jsstring \<Rightarrow> jsstring \<Rightarrow> jsstring" where
  "useShopSetting data key fallback =
     (case data of None \<Rightarrow> fallback
      | Some values \<Rightarrow> (case map_of values key of None \<Rightarrow> fallback | Some v \<Rightarrow> v))"

definition useShopFlag :: "setting_values option \<Rightarrow> jsstring \<Rightarrow> bool \<Rightarrow> bool" where
  "useShopFlag data key fallback \<longleftrightarrow> useShopSetting data key (bool_string fallback) = js ''true''"

definition DEFAULT_BUSINESS_TIMEZONE :: jsstring where
  "DEFAULT_BUSINESS_TIMEZONE = js ''Europe/Madrid''"

definition useBusinessTimezone :: "setting_values option \<Rightarrow> jsstring" where
  "useBusinessTimezone data = useShopSetting data (js ''business.timezone'') DEFAULT_BUSINESS_TIMEZONE"

text \<open>\<open>None\<close> means that it is not known yet: nothing irreversible may be done on it.\<close>

definition useSettledShopFlag :: "settings_query \<Rightarrow> jsstring \<Rightarrow> bool \<Rightarrow> bool option" where
  "useSettledShopFlag q key fallback =
     (if sq_pending q then None
      else Some (useShopSetting (sq_data q) key (bool_string fallback) = js ''true''))"

section \<open>Font sizes\<close>

definition BROWSER_DEFAULT_PX :: jsnum where
  "BROWSER_DEFAULT_PX = JsNum 16"

definition between :: "jsnum \<Rightarrow> jsnum \<Rightarrow> jsnum \<Rightarrow> bool" where
  "between lo x hi \<longleftrightarrow> js_is_finite x \<and> lo \<le> x \<and> x \<le> hi"

definition base_font_size :: "setting_values option \<Rightarrow> jsnum" where
  "base_font_size data =
     (let px = js_Number (useShopSetting data (js ''ui.base_font_px'') (js_String BROWSER_DEFAULT_PX))
      in if between (JsNum 10) px (JsNum 40) then px else BROWSER_DEFAULT_PX)"

text \<open>The effect and its clean-up.\<close>

definition useBaseFontSize :: "setting_values option \<Rightarrow> style \<Rightarrow> style" where
  "useBaseFontSize data st =
     setProperty (js ''font-size'') (js_String (base_font_size data) @ js ''px'') st"

definition useBaseFontSize_cleanup :: "style \<Rightarrow> style" where
  "useBaseFontSize_cleanup st = setProperty (js ''font-size'') [] st"

section \<open>The appearance of the till\<close>

definition js_hex :: "nat \<Rightarrow> bool" where
  "js_hex c \<longleftrightarrow> (48 \<le> c \<and> c \<le> 57) \<or> (97 \<le> c \<and> c \<le> 102) \<or> (65 \<le> c \<and> c \<le> 70)"

text \<open>The regular expression \<open>/^#[0-9a-f]{6}$/i\<close>.\<close>

fun is_colour :: "jsstring \<Rightarrow> bool" where
  "is_colour [] = False"
| "is_colour (c # s) = (c = 35 \<and> length s = 6 \<and> list_all js_hex s)"

definition safeColour :: "jsstring \<Rightarrow> jsstring \<Rightarrow> jsstring" where
  "safeColour v fallback = (if is_colour v then v else fallback)"

definition DEFAULT_FONT_SIZE_PX :: jsnum where
  "DEFAULT_FONT_SIZE_PX = JsNum 18"

text \<open>Each CSS variable of the till with its setting and its factory colour.\<close>

definition pos_appearance_table :: "(jsstring \<times> jsstring \<times> jsstring) list" where
  "pos_appearance_table =
     [(js ''--pos-surface-color'', js ''pos.surface_color'', js ''#0f172a''),
      (js ''--pos-panel-color'', js ''pos.panel_color'', js ''#1e293b''),
      (js ''--pos-border-color'', js ''pos.border_color'', js ''#475569''),
      (js ''--pos-text-color'', js ''pos.text_color'', js ''#f8fafc''),
      (js ''--pos-muted-text-color'', js ''pos.muted_text_color'', js ''#cbd5e1''),
      (js ''--pos-amount-color'', js ''pos.amount_color'', js ''#34d399''),
      (js ''--pos-input-background-color'', js ''pos.input_background_color'', js ''#0f172a''),
      (js ''--pos-input-text-color'', js ''pos.input_text_color'', js ''#f8fafc'')]"

definition pos_variables :: "setting_values option \<Rightarrow> (jsstring \<times> jsstring) list" where
  "pos_variables data =
     map (\<lambda>(variable, key, factory). (variable, safeColour (useShopSetting data key factory) factory))
       pos_appearance_table"

definition pos_font_size :: "setting_values option \<Rightarrow> jsnum" where
  "pos_font_size data =
     (let configuredSize =
        js_Number (useShopSetting data (js ''pos.font_size_px'') (js_String DEFAULT_FONT_SIZE_PX))
      in if between (JsNum 14) configuredSize (JsNum 28) then configuredSize
         else DEFAULT_FONT_SIZE_PX)"

text \<open>
  Mounting applies the size and the variables and remembers the size there was; unmounting puts
  that size back and removes the variables.
\<close>

definition usePosAppearance :: "setting_values option \<Rightarrow> style \<Rightarrow> jsstring \<times> style" where
  "usePosAppearance data st =
     (let previous = (case map_of st (js ''font-size'') of None \<Rightarrow> [] | Some v \<Rightarrow> v);
          st1 = setProperty (js ''font-size'') (js_String (pos_font_size data) @ js ''px'') st
      in (previous, set_properties (pos_variables data) st1))"

definition usePosAppearance_cleanup ::
  "setting_values option \<Rightarrow> jsstring \<Rightarrow> style \<Rightarrow> style" where
  "usePosAppearance_cleanup data previous st =
     remove_properties (map fst (pos_variables data)) (setProperty (js ''font-size'') previous st)"

section \<open>Colours of the buttons\<close>

text \<open>The functions of \<open>Math\<close> that are not determined to the last bit are parameters.\<close>

record math =
  math_pow :: "jsnum \<Rightarrow> jsnum \<Rightarrow> jsnum"
  math_cbrt :: "jsnum \<Rightarrow> jsnum"
  math_atan2 :: "jsnum \<Rightarrow> jsnum \<Rightarrow> jsnum"
  math_hypot :: "jsnum \<Rightarrow> jsnum \<Rightarrow> jsnum"

definition math_pi :: jsnum where
  "math_pi = js_num (884279719003555 / 281474976710656)"

record oklch =
  ok_l :: jsnum
  ok_c :: jsnum
  ok_h :: jsnum

definition toLinear :: "math \<Rightarrow> jsnum \<Rightarrow> jsnum" where
  "toLinear m channel =
     (if channel \<le> js_num (4045 / 100000) then channel div js_num (1292 / 100)
      else math_pow m ((channel + js_num (55 / 1000)) div js_num (1055 / 1000)) (js_num (24 / 10)))"

text \<open>The regular expression \<open>/^#?([0-9a-f]{6})$/i\<close> and its group.\<close>

definition match_hex :: "jsstring \<Rightarrow> jsstring option" where
  "match_hex s =
     (let v = (case s of [] \<Rightarrow> [] | c # r \<Rightarrow> if c = 35 then r else s)
      in if length v = 6 \<and> list_all js_hex v then Some v else None)"

definition hex_channel :: "jsstring \<Rightarrow> int \<Rightarrow> int \<Rightarrow> jsnum" where
  "hex_channel v a b =
     (case parse_radix 16 (js_slice a b v) of None \<Rightarrow> JsNaN | Some q \<Rightarrow> rnd q) div JsNum 255"

definition hexToOklch :: "math \<Rightarrow> jsstring \<Rightarrow> oklch option" where
  "hexToOklch m hex =
     (case match_hex (js_trim hex) of
        None \<Rightarrow> None
      | Some v \<Rightarrow>
        let r = toLinear m (hex_channel v 0 2);
            g = toLinear m (hex_channel v 2 4);
            b = toLinear m (hex_channel v 4 6);
            l' = math_cbrt m (js_num (4122214708 / 10000000000) * r
                   + js_num (5363325363 / 10000000000) * g + js_num (514459929 / 10000000000) * b);
            m' = math_cbrt m (js_num (2119034982 / 10000000000) * r
                   + js_num (6806995451 / 10000000000) * g + js_num (1073969566 / 10000000000) * b);
            s' = math_cbrt m (js_num (883024619 / 10000000000) * r
                   + js_num (2817188376 / 10000000000) * g + js_num (6299787005 / 10000000000) * b);
            lightness = js_num (2104542553 / 10000000000) * l'
                   + js_num (793617785 / 1000000000) * m' - js_num (40720468 / 10000000000) * s';
            a = js_num (19779984951 / 10000000000) * l'
                   - js_num (2428592205 / 1000000000) * m' + js_num (4505937099 / 10000000000) * s';
            bb = js_num (259040371 / 10000000000) * l'
                   + js_num (7827717662 / 10000000000) * m' - js_num (808675766 / 1000000000) * s';
            hue = (math_atan2 m bb a * JsNum 180) div math_pi
        in Some \<lparr>ok_l = lightness, ok_c = math_hypot m a bb,
                 ok_h = (if hue < JsNum 0 then hue + JsNum 360 else hue)\<rparr>)"

definition oklchString :: "oklch \<Rightarrow> jsstring" where
  "oklchString o' = js ''oklch('' @ js_toFixed 3 (ok_l o') @ [cu_space] @ js_toFixed 3 (ok_c o')
     @ [cu_space] @ js_toFixed 1 (ok_h o') @ js '')''"

definition PANEL_RAMP :: "(jsstring \<times> jsnum \<times> jsnum) list" where
  "PANEL_RAMP =
     [(js ''--color-brand-50'', js_num (97 / 100), js_num (2 / 100)),
      (js ''--color-brand-100'', js_num (93 / 100), js_num (5 / 100)),
      (js ''--color-brand-200'', js_num (88 / 100), js_num (7 / 100)),
      (js ''--color-brand-500'', js_num (58 / 100), js_num (16 / 100)),
      (js ''--color-brand-600'', js_num (51 / 100), js_num (16 / 100)),
      (js ''--color-brand-700'', js_num (44 / 100), js_num (14 / 100))]"

text \<open>\<open>None\<close> is the exception raised when not even the fallback is a colour.\<close>

definition applyRamp ::
  "math \<Rightarrow> (jsstring \<times> jsnum \<times> jsnum) list \<Rightarrow> jsstring \<Rightarrow> jsstring \<Rightarrow> style \<Rightarrow> style option" where
  "applyRamp m ramp hex fallback st =
     (case (case hexToOklch m hex of Some o' \<Rightarrow> Some o' | None \<Rightarrow> hexToOklch m fallback) of
        None \<Rightarrow> None
      | Some chosen \<Rightarrow>
          Some (set_properties
            (map (\<lambda>(variable, l, c). (variable,
               oklchString \<lparr>ok_l = l, ok_c = js_min c (ok_c chosen), ok_h = ok_h chosen\<rparr>)) ramp) st))"

definition exactColour :: "jsstring \<Rightarrow> jsstring \<Rightarrow> jsstring" where
  "exactColour v fallback = (if is_colour v then v else fallback)"

text \<open>The literal button colours of the till: variable, setting, factory colour.\<close>

definition button_colour_table :: "(jsstring \<times> jsstring \<times> jsstring) list" where
  "button_colour_table =
     [(js ''--color-till-600'', js ''ui.pos_button_color'', js ''#059669''),
      (js ''--color-till-500'', js ''ui.pos_button_hover_color'', js ''#10b981''),
      (js ''--color-till-text'', js ''ui.pos_button_text_color'', js ''#ffffff''),
      (js ''--color-pos-secondary-600'', js ''ui.pos_secondary_button_color'', js ''#334155''),
      (js ''--color-pos-secondary-500'', js ''ui.pos_secondary_button_hover_color'', js ''#475569''),
      (js ''--color-pos-secondary-text'', js ''ui.pos_secondary_button_text_color'', js ''#f8fafc''),
      (js ''--color-pos-danger-600'', js ''ui.pos_danger_button_color'', js ''#b91c1c''),
      (js ''--color-pos-danger-500'', js ''ui.pos_danger_button_hover_color'', js ''#dc2626''),
      (js ''--color-pos-danger-text'', js ''ui.pos_danger_button_text_color'', js ''#ffffff'')]"

definition DEFAULT_PANEL :: jsstring where
  "DEFAULT_PANEL = js ''#2b5bb5''"

definition button_colours :: "setting_values option \<Rightarrow> (jsstring \<times> jsstring) list" where
  "button_colours data =
     map (\<lambda>(variable, key, factory). (variable, exactColour (useShopSetting data key factory) factory))
       button_colour_table"

definition useButtonColors :: "math \<Rightarrow> setting_values option \<Rightarrow> style \<Rightarrow> style option" where
  "useButtonColors m data st =
     map_option (set_properties (button_colours data))
       (applyRamp m PANEL_RAMP (useShopSetting data (js ''ui.button_color'') DEFAULT_PANEL)
          DEFAULT_PANEL st)"

definition useButtonColors_cleanup :: "style \<Rightarrow> style" where
  "useButtonColors_cleanup st =
     remove_properties (map fst PANEL_RAMP @ map fst button_colour_table) st"

section \<open>The printer connection\<close>

record qz_print_config =
  qz_host :: jsstring
  qz_securePort :: int
  qz_printerName :: jsstring

definition DEFAULT_QZ_PRINT_CONFIG :: qz_print_config where
  "DEFAULT_QZ_PRINT_CONFIG =
     \<lparr>qz_host = js ''localhost'', qz_securePort = 8181, qz_printerName = js ''POSPrinter POS-80''\<rparr>"

definition qz_ports :: "int list" where
  "qz_ports = [8181, 8282, 8383, 8484]"

text \<open>An absent or blank text falls back to the default.\<close>

definition trimmed_or :: "jsstring option \<Rightarrow> jsstring \<Rightarrow> jsstring" where
  "trimmed_or v d = (case v of None \<Rightarrow> d | Some s \<Rightarrow> if js_trim s = [] then d else js_trim s)"

definition setting_value :: "setting_values option \<Rightarrow> jsstring \<Rightarrow> jsstring option" where
  "setting_value data key = (case data of None \<Rightarrow> None | Some values \<Rightarrow> map_of values key)"

definition qzPrintConfigFromValues :: "setting_values option \<Rightarrow> qz_print_config" where
  "qzPrintConfigFromValues data =
     (let configuredPort = (case setting_value data (js ''pos.qz_secure_port'') of
            None \<Rightarrow> JsNaN | Some s \<Rightarrow> js_Number s);
          securePort = (case find (\<lambda>p. configuredPort = JsNum (of_int p)) qz_ports of
            Some p \<Rightarrow> p | None \<Rightarrow> qz_securePort DEFAULT_QZ_PRINT_CONFIG)
      in \<lparr>qz_host = trimmed_or (setting_value data (js ''pos.qz_host''))
                      (qz_host DEFAULT_QZ_PRINT_CONFIG),
          qz_securePort = securePort,
          qz_printerName = trimmed_or (setting_value data (js ''pos.qz_printer_name''))
                      (qz_printerName DEFAULT_QZ_PRINT_CONFIG)\<rparr>)"

definition useSettledQzPrintConfig :: "settings_query \<Rightarrow> qz_print_config option" where
  "useSettledQzPrintConfig q =
     (if sq_pending q then None else Some (qzPrintConfigFromValues (sq_data q)))"

section \<open>Lemmas\<close>

lemma js_String_not_Nil: "0 < x \<Longrightarrow> js_String (JsNum x) @ js ''px'' \<noteq> []"
  by (simp add: js_def)

lemma factory_colours:
  "list_all (\<lambda>(v, k, factory). is_colour factory) pos_appearance_table"
  "list_all (\<lambda>(v, k, factory). is_colour factory) button_colour_table"
  by code_simp+

lemma is_colour_not_Nil: "is_colour v \<Longrightarrow> v \<noteq> []"
  by auto

lemma pos_variables_colour: "(k, v) \<in> set (pos_variables data) \<Longrightarrow> is_colour v"
  using factory_colours(1) by (auto simp: pos_variables_def safeColour_def list_all_iff)

lemma button_colours_colour: "(k, v) \<in> set (button_colours data) \<Longrightarrow> is_colour v"
  using factory_colours(2) by (auto simp: button_colours_def exactColour_def list_all_iff)

lemma pos_variables_names:
  "map fst (pos_variables data) = map fst pos_appearance_table"
  by (simp add: pos_variables_def case_prod_beta comp_def)

lemma distinct_pos_variables: "distinct (map fst pos_appearance_table)"
  by code_simp

lemma font_size_not_variable: "js ''font-size'' \<notin> set (map fst pos_appearance_table)"
  by code_simp

lemma hexToOklch_colour: "is_colour c \<Longrightarrow> \<exists>o'. hexToOklch m c = Some o'"
proof (cases c)
  case (Cons h s)
  assume col: "is_colour c"
  have "\<forall>x \<in> set c. \<not> js_ws x"
    using col Cons by (auto simp: list_all_iff js_hex_def js_ws_def)
  then have "match_hex (js_trim c) = Some s"
    using col Cons by (simp add: js_trim_no_ws match_hex_def)
  then show ?thesis by (simp add: hexToOklch_def Let_def)
qed simp


lemma between_finite: "between lo x hi \<Longrightarrow> x \<noteq> JsNaN \<and> js_is_finite x"
  by (auto simp: between_def)

lemma base_font_size_between: "between (JsNum 10) (base_font_size data) (JsNum 40)"
  by (simp add: base_font_size_def Let_def BROWSER_DEFAULT_PX_def between_def jsnum_ops)

lemma pos_font_size_between: "between (JsNum 14) (pos_font_size data) (JsNum 28)"
  by (simp add: pos_font_size_def Let_def DEFAULT_FONT_SIZE_PX_def between_def jsnum_ops)

lemma qz_securePort_cases: "qz_securePort (qzPrintConfigFromValues data) \<in> set qz_ports"
  by (auto simp: qzPrintConfigFromValues_def Let_def DEFAULT_QZ_PRINT_CONFIG_def qz_ports_def
    split: option.splits dest: find_map_of_id)

lemma js_trim_end_idem: "js_trim_end (js_trim_end s) = js_trim_end s"
  by (simp add: js_trim_end_def)

lemma trimmed_or_not_Nil: "d \<noteq> [] \<Longrightarrow> trimmed_or v d \<noteq> []"
  by (simp add: trimmed_or_def split: option.splits)

section \<open>Properties\<close>

text \<open>Whatever the stored settings are, the document's letter size stays between 10 and 40
  pixels, the till's between 14 and 28, and every colour applied to the till or its buttons is a
  six-digit hexadecimal colour.\<close>

lemma appearance_legible:
  "between (JsNum 10) (base_font_size data) (JsNum 40)
   \<and> between (JsNum 14) (pos_font_size data) (JsNum 28)
   \<and> list_all (\<lambda>(variable, colour). is_colour colour) (pos_variables data @ button_colours data)
   \<and> useButtonColors m data st \<noteq> None"
proof -
  have "hexToOklch m DEFAULT_PANEL \<noteq> None"
    using hexToOklch_colour [of DEFAULT_PANEL m] by (auto simp: DEFAULT_PANEL_def js_def list_all_iff js_hex_def)
  then have "useButtonColors m data st \<noteq> None"
    by (auto simp: useButtonColors_def applyRamp_def split: option.splits)
  then show ?thesis
    using base_font_size_between pos_font_size_between pos_variables_colour button_colours_colour
    by (auto simp: list_all_iff)
qed

text \<open>Leaving the till puts the document back as it was: after mounting and unmounting the
  appearance, every style property has the value it had before, provided the till's own variables
  were not set by anyone else.\<close>

lemma pos_appearance_restored:
  assumes "\<forall>k \<in> set (map fst pos_appearance_table). map_of st k = None"
    and "map_of st (js ''font-size'') \<noteq> Some []"
  shows "let (previous, mounted) = usePosAppearance data st in
    map_of (usePosAppearance_cleanup data previous mounted) = map_of st"
proof -
  let ?fs = "js ''font-size''"
  let ?prev = "case map_of st ?fs of None \<Rightarrow> [] | Some v \<Rightarrow> v"
  let ?size = "js_String (pos_font_size data) @ js ''px''"
  let ?mounted = "set_properties (pos_variables data) (setProperty ?fs ?size st)"
  have size: "?size \<noteq> []" by simp
  have mounted: "map_of ?mounted k = (case map_of (pos_variables data) k of
      Some v \<Rightarrow> Some v | None \<Rightarrow> if k = ?fs then Some ?size else map_of st k)" for k
  proof -
    have "\<forall>(k, v) \<in> set (pos_variables data). v \<noteq> []"
      using pos_variables_colour is_colour_not_Nil by blast
    then show ?thesis
      unfolding set_properties_def using distinct_pos_variables
      by (subst document_style.lookup_puts)
        (auto simp: pos_variables_names document_style.lookup_put [OF size] split: option.splits)
  qed
  have restore: "map_of (setProperty ?fs ?prev M) k =
      (if k = ?fs then map_of st k else map_of M k)" for k M
  proof (cases "map_of st ?fs")
    case None
    then show ?thesis by (simp add: setProperty_def document_style.lookup_erase)
  next
    case (Some v)
    with assms(2) show ?thesis by (simp add: document_style.lookup_put)
  qed
  have "map_of (usePosAppearance_cleanup data ?prev ?mounted) k = map_of st k" for k
  proof (cases "k \<in> set (map fst pos_appearance_table)")
    case True
    with assms(1) show ?thesis
      unfolding usePosAppearance_cleanup_def remove_properties_def document_style.lookup_erases
        pos_variables_names by metis
  next
    case False
    then have "map_of (pos_variables data) k = None"
      unfolding map_of_eq_None_iff list.set_map [symmetric] pos_variables_names .
    with False show ?thesis
      unfolding usePosAppearance_cleanup_def remove_properties_def document_style.lookup_erases
        pos_variables_names restore mounted by simp
  qed
  then show ?thesis by (auto simp: usePosAppearance_def Let_def)
qed

lemma pos_appearance_restored_witness:
  "map_of (usePosAppearance_cleanup None (fst (usePosAppearance None [(js ''font-size'', js ''16px'')]))
     (snd (usePosAppearance None [(js ''font-size'', js ''16px'')])))
   = map_of [(js ''font-size'', js ''16px'')]"
proof -
  have "\<forall>k \<in> set (map fst pos_appearance_table). map_of [(js ''font-size'', js ''16px'')] k = None"
    using font_size_not_variable by (auto simp: image_iff)
  from pos_appearance_restored [OF this, of None] show ?thesis
    by (simp add: case_prod_beta Let_def)
qed

text \<open>The connection to the print service always has one of its four ports, a host and a printer
  name that are not blank; a saved value is used only once the settings have arrived.\<close>

lemma qz_config_usable:
  "case useSettledQzPrintConfig q of
     None \<Rightarrow> sq_pending q
   | Some c \<Rightarrow> \<not> sq_pending q \<and> qz_securePort c \<in> {8181, 8282, 8383, 8484}
       \<and> qz_host c \<noteq> [] \<and> qz_printerName c \<noteq> []
       \<and> (sq_data q = None \<longrightarrow> c = DEFAULT_QZ_PRINT_CONFIG)"
proof -
  have "qz_host (qzPrintConfigFromValues d) \<noteq> [] \<and> qz_printerName (qzPrintConfigFromValues d) \<noteq> []" for d
    by (simp add: qzPrintConfigFromValues_def Let_def trimmed_or_not_Nil DEFAULT_QZ_PRINT_CONFIG_def)
  moreover have "qzPrintConfigFromValues None = DEFAULT_QZ_PRINT_CONFIG"
    by (simp add: qzPrintConfigFromValues_def setting_value_def trimmed_or_def qz_ports_def
      DEFAULT_QZ_PRINT_CONFIG_def)
  ultimately show ?thesis
    using qz_securePort_cases by (auto simp: useSettledQzPrintConfig_def qz_ports_def)
qed

lemma qz_config_usable_witness:
  "useSettledQzPrintConfig \<lparr>sq_pending = False, sq_data = None\<rparr> = Some DEFAULT_QZ_PRINT_CONFIG"
  using qz_config_usable [of "\<lparr>sq_pending = False, sq_data = None\<rparr>"]
  by (auto simp: useSettledQzPrintConfig_def)

end
