(* ===== verification/Lib_Formats.thy ===== *)
theory Lib_Formats
  imports Js_Decimal
begin

text \<open>
  The formatting and form helpers of \<open>frontend/src/lib\<close>: \<open>format.ts\<close> (money, quantities and
  rates as the screens show them), \<open>decimal.ts\<close> (what a person may type for a decimal),
  \<open>unsaved.ts\<close> (the questions asked before losing a form) and \<open>businessTime.ts\<close>. The Spanish
  number format is written out (decimal comma, groups of three separated by a full stop from five
  integer digits on); the calendar formats depend on the time-zone database and are parameters.
\<close>

section \<open>Amounts as shown\<close>

text \<open>Groups of three from the right, when there are at least five digits.\<close>

fun group_rev :: "jsstring \<Rightarrow> jsstring" where
  "group_rev (a # b # c # d # s) = a # b # c # cu_dot # group_rev (d # s)"
| "group_rev s = s"

definition group_digits :: "jsstring \<Rightarrow> jsstring" where
  "group_digits ds = (if length ds < 5 then ds else rev (group_rev (rev ds)))"

text \<open>
  \<open>Intl.NumberFormat('es-ES', ...)\<close> on a non-negative value: round to \<open>maxf\<close> decimals, half up,
  then drop trailing zeros down to \<open>minf\<close> decimals.
\<close>

definition drop_zeros :: "nat \<Rightarrow> jsstring \<Rightarrow> jsstring" where
  "drop_zeros keep fs =
     take keep fs @ rev (dropWhile (\<lambda>c. c = 48) (rev (drop keep fs)))"

definition intl_unsigned :: "nat \<Rightarrow> nat \<Rightarrow> rat \<Rightarrow> jsstring" where
  "intl_unsigned minf maxf x =
     (let n = nat \<lfloor>x * 10 ^ maxf + 1 / 2\<rfloor>;
          m = digits_pad (Suc maxf) n;
          ip = take (length m - maxf) m;
          fp = drop_zeros minf (drop (length m - maxf) m)
      in group_digits ip @ (if fp = [] then [] else cu_comma # fp))"

fun intl_format :: "nat \<Rightarrow> nat \<Rightarrow> jsnum \<Rightarrow> jsstring" where
  "intl_format minf maxf JsNaN = js ''NaN''"
| "intl_format minf maxf (JsInf neg) = (if neg then [cu_dash, 8734] else [8734])"
| "intl_format minf maxf (JsNum x) =
     (if x < 0 then cu_dash # intl_unsigned minf maxf (- x) else intl_unsigned minf maxf x)"

definition formatMoney :: "jsstring \<Rightarrow> jsstring" where
  "formatMoney v = intl_format 2 2 (js_Number v) @ [cu_space, cu_euro]"

definition formatQuantity :: "jsstring \<Rightarrow> jsstring" where
  "formatQuantity v = intl_format 0 3 (js_Number v)"

definition formatRate :: "jsstring \<Rightarrow> jsstring" where
  "formatRate v = intl_format 0 2 (js_Number v)"

section \<open>Decimals as typed\<close>

definition decimalInputValue :: "jsstring \<Rightarrow> jsstring" where
  "decimalInputValue v = js_replace cu_dot [cu_comma] (js_String (js_Number v))"

text \<open>The regular expression \<open>/^\d+(\.\d{1,6})?$/\<close>.\<close>

definition is_decimal6 :: "jsstring \<Rightarrow> bool" where
  "is_decimal6 s =
     (let ip = takeWhile js_digit s; r = dropWhile js_digit s in
      ip \<noteq> [] \<and> (case r of [] \<Rightarrow> True
        | c # fp \<Rightarrow> c = cu_dot \<and> 1 \<le> length fp \<and> length fp \<le> 6 \<and> list_all js_digit fp))"

datatype decimal_issue = NotADecimal | BelowMinimum

definition decimal_transform :: "jsstring \<Rightarrow> jsstring" where
  "decimal_transform s = js_replace cu_comma [cu_dot] (js_trim s)"

text \<open>Both refinements run: the issues found, or the transformed text.\<close>

definition decimalString :: "jsnum option \<Rightarrow> jsstring \<Rightarrow> decimal_issue list + jsstring" where
  "decimalString minimum s =
     (let v = decimal_transform s;
          issues = (if is_decimal6 v then [] else [NotADecimal])
            @ (case minimum of None \<Rightarrow> [] | Some m \<Rightarrow> if m \<le> js_Number v then [] else [BelowMinimum])
      in if issues = [] then Inr v else Inl issues)"

section \<open>Unsaved changes\<close>

text \<open>
  \<open>confirmDiscard\<close> asks the user: the answer is a parameter. What happens to a form is one of
  these outcomes; \<open>asked\<close> tells whether the question was put.
\<close>

datatype form_outcome = StayOnForm | LeaveForm

definition cancelWithConfirm :: "bool \<Rightarrow> bool \<Rightarrow> form_outcome" where
  "cancelWithConfirm isDirty answer = (if isDirty \<and> \<not> answer then StayOnForm else LeaveForm)"

text \<open>Whether the browser's own question is raised when the tab closes or reloads.\<close>

definition useUnsavedWarning :: "bool \<Rightarrow> bool" where
  "useUnsavedWarning isDirty = isDirty"

definition navigation_blocked :: "jsstring \<Rightarrow> jsstring \<Rightarrow> bool \<Rightarrow> bool option \<Rightarrow> bool" where
  "navigation_blocked current next_path isDirty bypass \<longleftrightarrow>
     current \<noteq> next_path \<and> isDirty \<and> bypass \<noteq> Some True"

definition useUnsavedNavigationWarning ::
  "jsstring \<Rightarrow> jsstring \<Rightarrow> bool \<Rightarrow> bool option \<Rightarrow> bool \<Rightarrow> form_outcome" where
  "useUnsavedNavigationWarning current next_path isDirty bypass answer =
     (if navigation_blocked current next_path isDirty bypass \<and> \<not> answer
      then StayOnForm else LeaveForm)"

section \<open>Business calendar\<close>

text \<open>
  \<open>Intl.DateTimeFormat\<close> in a time zone is a parameter: \<open>dt_format fields zone instant\<close> for the
  Spanish formats and \<open>dt_parts zone instant\<close> for the parts of the English one.
\<close>

datatype date_part = Year | Month | Day | Hour | Minute | Literal_Part

record date_time_format =
  dt_format :: "date_part list \<Rightarrow> jsstring \<Rightarrow> jsstring \<Rightarrow> jsstring"
  dt_parts :: "jsstring \<Rightarrow> jsstring \<Rightarrow> (date_part \<times> jsstring) list"

definition formatBusinessDateTime :: "date_time_format \<Rightarrow> jsstring \<Rightarrow> jsstring \<Rightarrow> jsstring" where
  "formatBusinessDateTime dt v zone = dt_format dt [Day, Month, Year, Hour, Minute] zone v"

definition formatBusinessDate :: "date_time_format \<Rightarrow> jsstring \<Rightarrow> jsstring \<Rightarrow> jsstring" where
  "formatBusinessDate dt v zone = dt_format dt [Day, Month, Year] zone v"

definition formatBusinessTime :: "date_time_format \<Rightarrow> jsstring \<Rightarrow> jsstring \<Rightarrow> jsstring" where
  "formatBusinessTime dt v zone = dt_format dt [Hour, Minute] zone v"

definition businessDateAt :: "date_time_format \<Rightarrow> jsstring \<Rightarrow> jsstring \<Rightarrow> jsstring" where
  "businessDateAt dt zone now =
     (let part = (\<lambda>p. case find (\<lambda>(q, v). q = p) (dt_parts dt zone now) of
            None \<Rightarrow> js ''undefined'' | Some (q, v) \<Rightarrow> v)
      in part Year @ [cu_dash] @ part Month @ [cu_dash] @ part Day)"

section \<open>Lemmas\<close>

text \<open>
  The interface of exact decimal amounts: with \<open>f\<close> decimals and below \<open>2 ^ k\<close>, numbers are so
  dense that parsing keeps the order of the amounts and printing gives back the text.
\<close>

locale decimal_amounts =
  fixes f :: nat and k :: int
  assumes fine: "fine_grid (10 ^ f) k" and small: "k \<le> 60"
begin

lemma parse_print:
  "(of_nat n / 10 ^ f :: rat) < 2 powi k \<Longrightarrow> js_toFixed f (js_Number (fixed_string f n)) = fixed_string f n"
  by (simp add: js_Number_fixed js_toFixed_rnd [OF fine _ small])

lemma parse_rnd:
  assumes "(of_nat n / 10 ^ f :: rat) < 2 powi k"
  shows "js_Number (fixed_string f n) = JsNum (rnd_rat (of_nat n / 10 ^ f))"
  using rnd_grid [OF fine, of "int n"] assms by (simp add: js_Number_fixed)

lemma parse_order:
  assumes "(of_nat m / 10 ^ f :: rat) < 2 powi k" and "(of_nat n / 10 ^ f :: rat) < 2 powi k"
  shows "js_Number (fixed_string f m) \<le> js_Number (fixed_string f n) \<longleftrightarrow> m \<le> n"
  using rnd_grid_le [OF fine, of "int m" "int n"] assms by (simp add: parse_rnd jsnum_ops)

lemma parse_error:
  assumes "(of_nat n / 10 ^ f :: rat) < 2 powi k"
  shows "\<bar>rnd_rat (of_nat n / 10 ^ f) - of_nat n / 10 ^ f\<bar> \<le> 2 powi (k - 54)"
  using assms fine by (intro rnd_rat_error_bound) (auto simp: fine_grid_def)

end

interpretation cents: decimal_amounts 2 46
  by unfold_locales (simp_all add: fine_grid_def power_int_minus)

interpretation grams: decimal_amounts 3 43
  by unfold_locales (simp_all add: fine_grid_def power_int_minus)

interpretation micros: decimal_amounts 6 33
  by unfold_locales (simp_all add: fine_grid_def power_int_minus)

interpretation till_micros: decimal_amounts 6 20
  by unfold_locales (simp_all add: fine_grid_def power_int_minus)

lemma is_decimal6_cases:
  assumes "is_decimal6 v"
  obtains ip where "ip \<noteq> []" "\<forall>c \<in> set ip. js_digit c" "v = ip"
  | ip fp where "ip \<noteq> []" "\<forall>c \<in> set (ip @ fp). js_digit c" "1 \<le> length fp" "length fp \<le> 6"
      "v = ip @ cu_dot # fp"
proof (cases "dropWhile js_digit v")
  case Nil
  then have "v = takeWhile js_digit v" by (metis append_Nil2 takeWhile_dropWhile_id)
  moreover have "\<forall>c \<in> set v. js_digit c" using Nil by (simp add: dropWhile_eq_Nil_conv)
  ultimately show thesis
    using assms that(1) [of v] by (auto simp: is_decimal6_def Let_def)
next
  case (Cons c fp)
  then have "v = takeWhile js_digit v @ c # fp" by (metis takeWhile_dropWhile_id)
  with assms Cons that(2) [of "takeWhile js_digit v" fp] show thesis
    by (auto simp: is_decimal6_def Let_def list_all_iff dest: set_takeWhileD)
qed


lemma group_rev_dots: "cu_dot \<notin> set s \<Longrightarrow> filter (\<lambda>c. c \<noteq> cu_dot) (group_rev s) = s"
  by (induction s rule: group_rev.induct) auto

lemma group_digits_dots:
  assumes "cu_dot \<notin> set ds"
  shows "filter (\<lambda>c. c \<noteq> cu_dot) (group_digits ds) = ds"
proof -
  have "filter (\<lambda>c. c \<noteq> cu_dot) (group_rev (rev ds)) = rev ds"
    using assms by (intro group_rev_dots) simp
  moreover have "filter (\<lambda>c. c \<noteq> cu_dot) ds = ds"
    using assms by (auto simp: filter_id_conv)
  ultimately show ?thesis by (simp add: group_digits_def rev_filter [symmetric])
qed

lemma fixed_string_parts:
  assumes "0 < f"
  shows "fixed_string f n = take (length (digits_pad (Suc f) n) - f) (digits_pad (Suc f) n)
      @ cu_dot # drop (length (digits_pad (Suc f) n) - f) (digits_pad (Suc f) n)"
  using assms by (simp add: fixed_string_def Let_def)

lemma intl_unsigned_money:
  assumes "\<bar>x - of_nat c / 10 ^ 2\<bar> < 1 / (2 * 10 ^ 2)"
  shows "\<exists>ip fp. fixed_string 2 c = ip @ cu_dot # fp \<and> length fp = 2
    \<and> filter (\<lambda>c. c \<noteq> cu_dot) (group_digits ip) = ip
    \<and> intl_unsigned 2 2 x = group_digits ip @ cu_comma # fp"
proof -
  let ?m = "digits_pad (Suc 2) c"
  let ?ip = "take (length ?m - 2) ?m" and ?fp = "drop (length ?m - 2) ?m"
  have len: "length ?fp = 2" by (simp add: length_digits_pad)
  have "cu_dot \<notin> set ?ip"
    using digits_pad_digit [of _ "Suc 2" c] by (fastforce simp: js_digit_def dest: in_set_takeD)
  moreover have "drop_zeros 2 ?fp = ?fp" using len by (simp add: drop_zeros_def)
  ultimately show ?thesis
    using len floor_near [OF assms] fixed_string_parts [of 2 c]
    by (intro exI [of _ ?ip] exI [of _ ?fp])
      (simp add: intl_unsigned_def Let_def group_digits_dots del: take_append drop_append)
qed

section \<open>Properties\<close>

text \<open>C10: An amount of whole cents, as the API sends it with six decimals, is shown exactly: the same
  digits with a decimal comma, two decimals, and full stops only between groups of the integer
  part.\<close>

theorem formatMoney_exact:
  assumes "(of_nat c / 100 :: rat) < 2 powi 33"
  shows "\<exists>ip fp. fixed_string 2 c = ip @ cu_dot # fp \<and> length fp = 2
    \<and> filter (\<lambda>c. c \<noteq> cu_dot) (group_digits ip) = ip
    \<and> formatMoney (fixed_string 6 (10000 * c)) = group_digits ip @ [cu_comma] @ fp @ [cu_space, cu_euro]"
proof -
  let ?x = "of_nat (10000 * c) / 10 ^ 6 :: rat"
  have x: "?x = of_nat c / 10 ^ 2" and lt: "?x < 2 powi 33" using assms by simp_all
  have "\<bar>rnd_rat ?x - ?x\<bar> \<le> 2 powi (33 - 54)" by (rule micros.parse_error [OF lt])
  also have "\<dots> < (1 / (2 * 10 ^ 2) :: rat)" by (simp add: power_int_minus)
  finally have near: "\<bar>rnd_rat ?x - of_nat c / 10 ^ 2\<bar> < 1 / (2 * 10 ^ 2)" by (simp only: x)
  have "0 \<le> rnd_rat ?x" by (intro rnd_rat_nonneg) simp
  then have "formatMoney (fixed_string 6 (10000 * c)) = intl_unsigned 2 2 (rnd_rat ?x) @ [cu_space, cu_euro]"
    using micros.parse_rnd [OF lt] by (simp add: formatMoney_def)
  with intl_unsigned_money [OF near] show ?thesis by auto
qed

lemma formatMoney_exact_witness:
  "\<exists>ip fp. fixed_string 2 1234567 = ip @ cu_dot # fp \<and> length fp = 2
    \<and> formatMoney (fixed_string 6 (10000 * 1234567)) = group_digits ip @ [cu_comma] @ fp @ [cu_space, cu_euro]"
proof -
  have "(of_nat 1234567 / 100 :: rat) < 2 powi 33" by simp
  from formatMoney_exact [OF this] show ?thesis by blast
qed

text \<open>What a decimal field accepts is a plain decimal of at most six decimals with a full stop,
  not below the field's minimum, and its numeric value is that decimal correctly rounded; anything
  else yields at least one message.\<close>

lemma decimalString_accepts:
  "case decimalString minimum s of
     Inl issues \<Rightarrow> issues \<noteq> []
   | Inr v \<Rightarrow> v = decimal_transform s \<and> (\<exists>ip fp. ip \<noteq> [] \<and> length fp \<le> 6 \<and> list_all js_digit (ip @ fp)
            \<and> v = (if fp = [] then ip else ip @ cu_dot # fp)
            \<and> js_Number v = rnd (of_nat (digits_nat (ip @ fp)) / 10 ^ length fp))
       \<and> (case minimum of None \<Rightarrow> True | Some m \<Rightarrow> m \<le> js_Number v)"
proof (cases "decimalString minimum s")
  case (Inl issues)
  then show ?thesis by (auto simp: decimalString_def Let_def split: if_splits)
next
  case (Inr v)
  then have v: "v = decimal_transform s" "is_decimal6 v"
    "case minimum of None \<Rightarrow> True | Some m \<Rightarrow> m \<le> js_Number v"
    by (auto simp: decimalString_def Let_def split: if_splits option.splits)
  have "\<exists>ip fp. ip \<noteq> [] \<and> length fp \<le> 6 \<and> list_all js_digit (ip @ fp)
      \<and> v = (if fp = [] then ip else ip @ cu_dot # fp)
      \<and> js_Number v = rnd (of_nat (digits_nat (ip @ fp)) / 10 ^ length fp)"
    using v(2)
  proof (cases rule: is_decimal6_cases)
    case (1 ip)
    then show ?thesis
      using js_Number_digits [of ip] by (intro exI [of _ ip] exI [of _ "[]"]) (auto simp: list_all_iff)
  next
    case (2 ip fp)
    obtain d ds where ip: "ip = d # ds" using 2(1) by (cases ip) auto
    have "js_Number (d # ds @ cu_dot # fp) = (case parse_unsigned (d # ds @ cu_dot # fp) of
        None \<Rightarrow> JsNaN | Some q \<Rightarrow> rnd q)"
      using 2(2) ip js_digit_not_ws js_dot_not_ws
      by (intro js_Number_digit_head) (auto simp: neq_Nil_conv hd_append)
    moreover have "parse_unsigned (ip @ cu_dot # fp) = Some (of_nat (digits_nat (ip @ fp)) / 10 ^ length fp)"
      using 2 by (intro parse_unsigned_decimal) auto
    ultimately have "js_Number v = rnd (of_nat (digits_nat (ip @ fp)) / 10 ^ length fp)"
      by (simp add: ip 2(5))
    then show ?thesis
      using 2 by (intro exI [of _ ip] exI [of _ fp]) (auto simp: list_all_iff)
  qed
  with v(1,3) Inr show ?thesis by (cases minimum) auto
qed

end
