(* ===== verification/Pos_Pads.thy ===== *)
theory Pos_Pads
  imports Pos_Model Settings Lib_Formats
begin

text \<open>
  The touch pads and dialogs of the till that turn taps into amounts: \<open>Keypad.tsx\<close>,
  \<open>QuantityPad.tsx\<close>, \<open>WeightPrompt.tsx\<close>, \<open>OpenPricePrompt.tsx\<close> and \<open>Checkout.tsx\<close>. Each is a state
  with one step per event of the screen, and the theorems are about the amounts it hands on: what
  is sent to the server is exactly what was typed, although it goes through binary numbers.
\<close>

section \<open>The keypad\<close>

text \<open>\<open>KeyDigit\<close> carries the code unit of its digit.\<close>

datatype keypad_key = KeyDigit nat | KeyClear | KeyBack | KeyDecimal

record keypad_props =
  kp_maxLength :: nat
  kp_allowDecimal :: bool
  kp_clearOnFirstInput :: bool

definition keypad_defaults :: keypad_props where
  "keypad_defaults = \<lparr>kp_maxLength = 6, kp_allowDecimal = False, kp_clearOnFirstInput = False\<rparr>"

definition DIGITS :: jsstring where
  "DIGITS = js ''789456123''"

text \<open>The buttons drawn, in order.\<close>

definition keypad_buttons :: "keypad_props \<Rightarrow> keypad_key list" where
  "keypad_buttons p = map KeyDigit DIGITS @ [KeyClear, KeyDigit 48, KeyBack]
     @ (if kp_allowDecimal p then [KeyDecimal] else [])"

definition keypad_current :: "keypad_props \<Rightarrow> jsstring \<Rightarrow> jsstring" where
  "keypad_current p v = (if kp_clearOnFirstInput p then [] else v)"

definition keypad_press :: "keypad_props \<Rightarrow> jsstring \<Rightarrow> nat \<Rightarrow> jsstring option" where
  "keypad_press p v digit =
     (let current = keypad_current p v;
          next_value = (if current = js ''0'' then [digit] else current @ [digit])
      in if kp_maxLength p < length next_value then None else Some next_value)"

definition keypad_pressDecimal :: "keypad_props \<Rightarrow> jsstring \<Rightarrow> jsstring option" where
  "keypad_pressDecimal p v =
     (let current = keypad_current p v in
      if \<not> kp_allowDecimal p \<or> js_includes [cu_comma] current \<or> js_includes [cu_dot] current then None
      else Some (if current = [] then js ''0,'' else current @ [cu_comma]))"

text \<open>The argument \<open>onChange\<close> is called with, if it is called.\<close>

fun keypad_click :: "keypad_props \<Rightarrow> jsstring \<Rightarrow> keypad_key \<Rightarrow> jsstring option" where
  "keypad_click p v (KeyDigit d) = keypad_press p v d"
| "keypad_click p v KeyClear = Some []"
| "keypad_click p v KeyBack = Some (js_slice 0 (- 1) v)"
| "keypad_click p v KeyDecimal = keypad_pressDecimal p v"

section \<open>The quantity pad\<close>

definition QUANTITIES :: "jsstring list" where
  "QUANTITIES = map (\<lambda>i. nat_digits (i + 1)) [0..<10]"

definition pad_quantity :: "jsstring \<Rightarrow> jsnum" where
  "pad_quantity v = (if v = [] then JsNum 1 else js_Number v)"

definition pad_selected :: "jsstring \<Rightarrow> jsstring \<Rightarrow> bool" where
  "pad_selected v nextQuantity \<longleftrightarrow> pad_quantity v = js_Number nextQuantity"

definition pad_click :: "jsstring \<Rightarrow> jsstring" where
  "pad_click nextQuantity = (if nextQuantity = js ''1'' then [] else nextQuantity)"

section \<open>The weight prompt\<close>

definition gramsToKilos :: "jsnum \<Rightarrow> jsstring" where
  "gramsToKilos grams = js_toFixed 3 (grams div JsNum 1000)"

definition weight_parsed :: "jsstring \<Rightarrow> jsnum" where
  "weight_parsed grams = js_Number (js_replace cu_comma [cu_dot] grams)"

definition weight_isValid :: "jsstring \<Rightarrow> bool" where
  "weight_isValid grams \<longleftrightarrow>
     js_trim grams \<noteq> [] \<and> js_is_finite (weight_parsed grams) \<and> JsNum 0 < weight_parsed grams"

definition weight_amount :: "product \<Rightarrow> jsstring \<Rightarrow> jsnum" where
  "weight_amount p grams =
     (if weight_isValid grams
      then (weight_parsed grams div JsNum 1000) * js_Number (finalProductPrice p) else JsNum 0)"

definition weight_amount_shown :: "product \<Rightarrow> jsstring \<Rightarrow> jsstring" where
  "weight_amount_shown p grams = formatMoney (js_toFixed 2 (weight_amount p grams))"

text \<open>What a prompt tells its parent.\<close>

datatype prompt_result = PromptConfirm jsstring | PromptCancel

definition weight_keypad :: keypad_props where
  "weight_keypad = keypad_defaults\<lparr>kp_maxLength := 5\<rparr>"

datatype weight_event =
    WeightInput jsstring | WeightEnter | WeightEscape | WeightKey keypad_key | WeightAdd | WeightCancel

definition weight_confirm :: "bool \<Rightarrow> jsstring \<Rightarrow> prompt_result option" where
  "weight_confirm isPending grams =
     (if \<not> weight_isValid grams \<or> isPending then None
      else Some (PromptConfirm (gramsToKilos (weight_parsed grams))))"

text \<open>The state is the text of the field; \<open>isPending\<close> is the prompt's property at the event.\<close>

fun weight_step ::
  "bool \<Rightarrow> jsstring \<Rightarrow> weight_event \<Rightarrow> jsstring \<times> prompt_result option" where
  "weight_step isPending grams (WeightInput v) = (js_only_digits v, None)"
| "weight_step isPending grams WeightEnter = (grams, weight_confirm isPending grams)"
| "weight_step isPending grams WeightEscape = (grams, Some PromptCancel)"
| "weight_step isPending grams (WeightKey k) =
     (case keypad_click weight_keypad grams k of None \<Rightarrow> (grams, None) | Some v \<Rightarrow> (v, None))"
| "weight_step isPending grams WeightAdd =
     (if \<not> weight_isValid grams \<or> isPending then (grams, None)
      else (grams, weight_confirm isPending grams))"
| "weight_step isPending grams WeightCancel = (grams, Some PromptCancel)"

section \<open>The open-price prompt\<close>

text \<open>Cents as typed; an empty text counts as zero.\<close>

definition centsToAmount :: "jsstring \<Rightarrow> jsstring" where
  "centsToAmount cents =
     js_toFixed 2 (js_Number (if cents = [] then js ''0'' else cents) div JsNum 100)"

definition all_digits :: "jsstring \<Rightarrow> bool" where
  "all_digits s \<longleftrightarrow> s \<noteq> [] \<and> list_all js_digit s"

definition price_isValid :: "jsstring \<Rightarrow> bool" where
  "price_isValid cents \<longleftrightarrow> all_digits cents \<and> JsNum 0 < js_Number cents"

definition setCentsInput :: "jsstring \<Rightarrow> jsstring \<Rightarrow> jsstring" where
  "setCentsInput cents next_value =
     (let digits = js_only_digits next_value in if length digits \<le> 8 then digits else cents)"

definition cents_keypad :: keypad_props where
  "cents_keypad = keypad_defaults\<lparr>kp_maxLength := 8\<rparr>"

datatype price_event =
    PriceDigit nat | PriceBackspace | PriceEnter | PriceEscape | PriceKey keypad_key | PriceAdd | PriceCancel

definition price_confirm :: "bool \<Rightarrow> jsstring \<Rightarrow> prompt_result option" where
  "price_confirm isPending cents =
     (if \<not> price_isValid cents \<or> isPending then None else Some (PromptConfirm (centsToAmount cents)))"

fun price_step :: "bool \<Rightarrow> jsstring \<Rightarrow> price_event \<Rightarrow> jsstring \<times> prompt_result option" where
  "price_step isPending cents (PriceDigit d) =
     (if js_digit d then setCentsInput cents (cents @ [d]) else cents, None)"
| "price_step isPending cents PriceBackspace = (js_slice 0 (- 1) cents, None)"
| "price_step isPending cents PriceEnter = (cents, price_confirm isPending cents)"
| "price_step isPending cents PriceEscape = (cents, Some PromptCancel)"
| "price_step isPending cents (PriceKey k) =
     (case keypad_click cents_keypad cents k of
        None \<Rightarrow> (cents, None) | Some v \<Rightarrow> (setCentsInput cents v, None))"
| "price_step isPending cents PriceAdd =
     (if \<not> price_isValid cents \<or> isPending then (cents, None)
      else (cents, price_confirm isPending cents))"
| "price_step isPending cents PriceCancel =
     (if isPending then (cents, None) else (cents, Some PromptCancel))"

section \<open>Checkout\<close>

record checkout_state =
  co_method :: jsstring
  co_cashPromptOpen :: bool
  co_tenderedCents :: jsstring

text \<open>The stored default is cast to a payment method without a check.\<close>

definition default_method :: "setting_values option \<Rightarrow> jsstring" where
  "default_method data = useShopSetting data (js ''pos.default_payment_method'') (js ''CASH'')"

definition checkout_init :: "setting_values option \<Rightarrow> checkout_state" where
  "checkout_init data = \<lparr>co_method = default_method data, co_cashPromptOpen = False, co_tenderedCents = []\<rparr>"

definition co_total :: "sale \<Rightarrow> jsnum" where
  "co_total s = js_Number (sa_total s)"

definition enteredTenderedAmount :: "checkout_state \<Rightarrow> jsnum" where
  "enteredTenderedAmount c = js_Number (co_tenderedCents c) div JsNum 100"

definition isTenderedValid :: "checkout_state \<Rightarrow> bool" where
  "isTenderedValid c \<longleftrightarrow> co_tenderedCents c = []
     \<or> (js_is_finite (enteredTenderedAmount c) \<and> JsNum 0 < js_Number (co_tenderedCents c))"

definition tenderedAmount :: "sale \<Rightarrow> checkout_state \<Rightarrow> jsnum" where
  "tenderedAmount s c = (if co_tenderedCents c = [] then co_total s else enteredTenderedAmount c)"

definition change_due :: "sale \<Rightarrow> checkout_state \<Rightarrow> jsnum" where
  "change_due s c =
     (if co_tenderedCents c \<noteq> [] \<and> isTenderedValid c
      then js_max (JsNum 0) (tenderedAmount s c - co_total s) else JsNum 0)"

definition coversTotal :: "sale \<Rightarrow> checkout_state \<Rightarrow> bool" where
  "coversTotal s c \<longleftrightarrow> isTenderedValid c \<and> co_total s \<le> tenderedAmount s c"

definition change_shown :: "sale \<Rightarrow> checkout_state \<Rightarrow> jsstring option" where
  "change_shown s c =
     (if JsNum 0 < change_due s c then Some (formatMoney (js_toFixed 6 (change_due s c))) else None)"

text \<open>The buttons of the payment methods.\<close>

definition shown_methods :: "setting_values option \<Rightarrow> payment_method list" where
  "shown_methods data =
     [CASH, CARD] @ (if useShopFlag data (js ''pos.show_other_payment'') False then [OTHER] else [])"

datatype checkout_event =
    SelectMethod payment_method | BackButton | ConfirmButton
  | CashDigit nat | CashBackspace | CashEscape | CashKey keypad_key | CashCancel | CashConfirm

datatype checkout_result = CheckoutConfirm "tender list" | CheckoutBack

definition selectMethod :: "payment_method \<Rightarrow> checkout_state \<Rightarrow> checkout_state" where
  "selectMethod m c =
     (if m = CASH then c\<lparr>co_method := method_name m, co_tenderedCents := [], co_cashPromptOpen := True\<rparr>
      else c\<lparr>co_method := method_name m, co_cashPromptOpen := False\<rparr>)"

definition handleConfirm :: "sale \<Rightarrow> checkout_state \<Rightarrow> checkout_state \<times> checkout_result option" where
  "handleConfirm s c =
     (if co_method c = method_name CASH then (c\<lparr>co_cashPromptOpen := True\<rparr>, None)
      else (c, Some (CheckoutConfirm
                [\<lparr>td_method = co_method c, td_amount = js_toFixed 2 (co_total s)\<rparr>])))"

definition confirmCash :: "sale \<Rightarrow> checkout_state \<Rightarrow> checkout_result option" where
  "confirmCash s c =
     (if \<not> coversTotal s c then None
      else Some (CheckoutConfirm [\<lparr>td_method = method_name CASH, td_amount = js_toFixed 2 (tenderedAmount s c)\<rparr>]))"

definition set_cents :: "jsstring \<Rightarrow> checkout_state \<Rightarrow> checkout_state" where
  "set_cents v c = c\<lparr>co_tenderedCents := setCentsInput (co_tenderedCents c) v\<rparr>"

text \<open>
  A disabled button or field gives no event: the buttons of the step while a payment is in flight,
  the amount field likewise. The keypad is not disabled. The events of the cash prompt exist only
  while it is open.
\<close>

definition checkout_enabled :: "sale \<Rightarrow> setting_values option \<Rightarrow> bool \<Rightarrow> checkout_state \<Rightarrow> checkout_event \<Rightarrow> bool" where
  "checkout_enabled s data isPending c e =
     (case e of
        SelectMethod m \<Rightarrow> \<not> isPending \<and> m \<in> set (shown_methods data)
      | BackButton \<Rightarrow> \<not> isPending
      | ConfirmButton \<Rightarrow> \<not> isPending
      | CashDigit d \<Rightarrow> co_cashPromptOpen c \<and> \<not> isPending \<and> js_digit d
      | CashBackspace \<Rightarrow> co_cashPromptOpen c \<and> \<not> isPending
      | CashEscape \<Rightarrow> co_cashPromptOpen c \<and> \<not> isPending
      | CashKey k \<Rightarrow> co_cashPromptOpen c \<and> k \<in> set (keypad_buttons cents_keypad)
      | CashCancel \<Rightarrow> co_cashPromptOpen c \<and> \<not> isPending
      | CashConfirm \<Rightarrow> co_cashPromptOpen c \<and> \<not> isPending \<and> coversTotal s c)"

fun checkout_step ::
  "sale \<Rightarrow> checkout_state \<Rightarrow> checkout_event \<Rightarrow> checkout_state \<times> checkout_result option" where
  "checkout_step s c (SelectMethod m) = (selectMethod m c, None)"
| "checkout_step s c BackButton =
     (if co_cashPromptOpen c then (c\<lparr>co_cashPromptOpen := False\<rparr>, None) else (c, Some CheckoutBack))"
| "checkout_step s c ConfirmButton = handleConfirm s c"
| "checkout_step s c (CashDigit d) = (set_cents (co_tenderedCents c @ [d]) c, None)"
| "checkout_step s c CashBackspace =
     (c\<lparr>co_tenderedCents := js_slice 0 (- 1) (co_tenderedCents c)\<rparr>, None)"
| "checkout_step s c CashEscape = (c\<lparr>co_cashPromptOpen := False\<rparr>, None)"
| "checkout_step s c (CashKey k) =
     (case keypad_click cents_keypad (co_tenderedCents c) k of
        None \<Rightarrow> (c, None) | Some v \<Rightarrow> (set_cents v c, None))"
| "checkout_step s c CashCancel = (c\<lparr>co_cashPromptOpen := False\<rparr>, None)"
| "checkout_step s c CashConfirm = (c, confirmCash s c)"


section \<open>Lemmas\<close>

lemma keypad_digit: "KeyDigit d \<in> set (keypad_buttons p) \<Longrightarrow> js_digit d"
proof -
  have "list_all js_digit DIGITS" by code_simp
  moreover have "js_digit 48" by (simp add: js_digit_def)
  ultimately show "KeyDigit d \<in> set (keypad_buttons p) \<Longrightarrow> js_digit d"
    by (auto simp: keypad_buttons_def list_all_iff)
qed

lemma keypad_click_digits:
  assumes "keypad_click p v k = Some v'" and "k \<in> set (keypad_buttons p)" and "list_all js_digit v"
    and "\<not> kp_allowDecimal p"
  shows "list_all js_digit v' \<and> (length v \<le> kp_maxLength p \<longrightarrow> length v' \<le> kp_maxLength p)"
proof (cases k)
  case (KeyDigit d)
  with assms keypad_digit [of d p] show ?thesis
    by (auto simp: keypad_press_def keypad_current_def Let_def split: if_splits)
next
  case KeyDecimal
  with assms show ?thesis by (simp add: keypad_pressDecimal_def Let_def split: if_splits)
qed (use assms in \<open>auto simp: list_all_iff dest: in_set_butlastD\<close>)

lemma js_digits_no_ws: "list_all js_digit s \<Longrightarrow> js_trim s = s"
  by (auto simp: list_all_iff intro!: js_trim_no_ws dest: js_digit_not_ws)

lemma js_digits_no_comma: "list_all js_digit s \<Longrightarrow> js_replace cu_comma r s = s"
  by (induction s) (auto simp: js_digit_def)

lemma digits_small:
  assumes "list_all js_digit s" and "length s \<le> k"
  shows "digits_nat s < 10 ^ k"
proof -
  have "digits_nat s < 10 ^ length s" using assms(1) by (simp add: list_all_iff digits_nat_less)
  also have "\<dots> \<le> 10 ^ k" using assms(2) by (intro power_increasing) auto
  finally show ?thesis .
qed

lemma js_Number_digits_exact:
  assumes "list_all js_digit s" and "length s \<le> 15"
  shows "js_Number s = JsNum (of_nat (digits_nat s))"
proof (cases "s = []")
  case False
  have "digits_nat s < 2 ^ 53" using digits_small [OF assms] by simp
  then show ?thesis
    using js_Number_digits [OF False] assms(1) rnd_of_nat by (simp add: list_all_iff)
qed simp

lemma all_digits_only: "list_all js_digit (js_only_digits s)"
  by (simp add: js_only_digits_def list_all_iff)


text \<open>A whole number of cents, as typed, and the same amount as the server writes it.\<close>

lemma cents_as_micros: "rnd (of_nat n / 10 ^ 2) = js_Number (fixed_string 6 (10000 * n))"
  by (simp add: js_Number_fixed)

subsection \<open>The weight prompt\<close>

definition weight_enabled :: "jsstring \<Rightarrow> bool \<times> weight_event \<Rightarrow> bool" where
  "weight_enabled grams e = (case snd e of WeightKey k \<Rightarrow> k \<in> set (keypad_buttons weight_keypad) | _ \<Rightarrow> True)"

definition weight_move :: "jsstring \<Rightarrow> bool \<times> weight_event \<Rightarrow> jsstring" where
  "weight_move grams e = fst (weight_step (fst e) grams (snd e))"

interpretation weight_prompt: event_machine weight_enabled weight_move "[]" "list_all js_digit"
proof unfold_locales
  fix grams e
  assume *: "list_all js_digit grams" "weight_enabled grams e"
  then show "list_all js_digit (weight_move grams e)"
    by (cases "snd e") (auto simp: weight_move_def weight_enabled_def all_digits_only
      weight_keypad_def keypad_defaults_def dest: keypad_click_digits split: option.splits)
qed simp

lemma weight_parsed_digits:
  "list_all js_digit g \<Longrightarrow> length g \<le> 15 \<Longrightarrow> weight_parsed g = JsNum (of_nat (digits_nat g))"
  by (simp add: weight_parsed_def js_digits_no_comma js_Number_digits_exact)

lemma weight_isValid_digits:
  "list_all js_digit g \<Longrightarrow> length g \<le> 15 \<Longrightarrow> weight_isValid g \<longleftrightarrow> 0 < digits_nat g"
  by (auto simp: weight_isValid_def js_digits_no_ws weight_parsed_digits jsnum_ops intro: ccontr)

lemma gramsToKilos_exact:
  assumes "n < 10 ^ 15"
  shows "gramsToKilos (JsNum (of_nat n)) = fixed_string 3 n"
proof -
  have "(of_nat n :: rat) < of_nat (10 ^ 15)" using assms by (simp only: of_nat_less_iff)
  then have "(of_nat n / 10 ^ 3 :: rat) < 2 powi 43" by simp
  from grams.parse_print [OF this] show ?thesis
    by (simp add: gramsToKilos_def jsnum_ops js_Number_fixed)
qed

subsection \<open>The open-price prompt\<close>

definition price_enabled :: "jsstring \<Rightarrow> bool \<times> price_event \<Rightarrow> bool" where
  "price_enabled cents e = (case snd e of PriceKey k \<Rightarrow> k \<in> set (keypad_buttons cents_keypad) | _ \<Rightarrow> True)"

definition price_move :: "jsstring \<Rightarrow> bool \<times> price_event \<Rightarrow> jsstring" where
  "price_move cents e = fst (price_step (fst e) cents (snd e))"

definition cents_typed :: "jsstring \<Rightarrow> bool" where
  "cents_typed cents \<longleftrightarrow> list_all js_digit cents \<and> length cents \<le> 8"

lemma setCentsInput_typed: "cents_typed cents \<Longrightarrow> cents_typed (setCentsInput cents v)"
  by (simp add: cents_typed_def setCentsInput_def Let_def all_digits_only)

lemma cents_typed_butlast: "cents_typed cents \<Longrightarrow> cents_typed (js_slice 0 (- 1) cents)"
  by (auto simp: cents_typed_def list_all_iff dest: in_set_butlastD)

interpretation price_prompt: event_machine price_enabled price_move "[]" cents_typed
proof unfold_locales
  fix cents e
  assume *: "cents_typed cents" "price_enabled cents e"
  then show "cents_typed (price_move cents e)"
    by (cases "snd e") (auto simp: price_move_def setCentsInput_typed cents_typed_butlast
      simp del: js_slice_butlast split: option.splits)
qed (simp add: cents_typed_def)

lemma cents_typed_less: "cents_typed cents \<Longrightarrow> digits_nat cents < 10 ^ 8"
  unfolding cents_typed_def by (intro digits_small) auto

lemma cents_typed_Number: "cents_typed cents \<Longrightarrow> js_Number cents = JsNum (of_nat (digits_nat cents))"
  by (simp add: cents_typed_def js_Number_digits_exact)

lemma cents_amount:
  "cents_typed cents \<Longrightarrow> js_Number cents div JsNum 100 = rnd (of_nat (digits_nat cents) / 10 ^ 2)"
  by (simp add: cents_typed_Number jsnum_ops)

lemma print_cents:
  assumes "(of_nat n / 10 ^ 2 :: rat) < 2 powi 46"
  shows "js_toFixed 2 (rnd (of_nat n / 10 ^ 2)) = fixed_string 2 n"
  using cents.parse_print [OF assms] by (simp only: js_Number_fixed)

lemma centsToAmount_exact:
  assumes "cents_typed cents"
  shows "centsToAmount cents = fixed_string 2 (digits_nat cents)"
proof -
  have "(of_nat (digits_nat cents) :: rat) < of_nat (10 ^ 8)"
    using cents_typed_less [OF assms] by (simp only: of_nat_less_iff)
  then have lt: "(of_nat (digits_nat cents) / 10 ^ 2 :: rat) < 2 powi 46" by simp
  have "js_Number (if cents = [] then js ''0'' else cents) = js_Number cents"
    using js_Number_digits_exact [of "js ''0''"]
    by (auto simp: js_def js_digit_def digits_nat_def)
  then show ?thesis by (simp only: centsToAmount_def cents_amount [OF assms] print_cents [OF lt])
qed

lemma price_isValid_typed:
  "cents_typed cents \<Longrightarrow> price_isValid cents \<longleftrightarrow> 0 < digits_nat cents"
  by (auto simp: price_isValid_def all_digits_def cents_typed_Number jsnum_ops cents_typed_def
    intro: ccontr)

subsection \<open>Checkout\<close>

definition checkout_move :: "sale \<Rightarrow> checkout_state \<Rightarrow> bool \<times> checkout_event \<Rightarrow> checkout_state" where
  "checkout_move s c e = fst (checkout_step s c (snd e))"

definition checkout_can :: "sale \<Rightarrow> setting_values option \<Rightarrow> checkout_state \<Rightarrow> bool \<times> checkout_event \<Rightarrow> bool" where
  "checkout_can s data c e = checkout_enabled s data (fst e) c (snd e)"

definition checkout_typed :: "checkout_state \<Rightarrow> bool" where
  "checkout_typed c \<longleftrightarrow> cents_typed (co_tenderedCents c)"

interpretation checkout_screen: event_machine "checkout_can s data" "checkout_move s"
  "checkout_init data" checkout_typed
proof unfold_locales
  fix c e
  assume "checkout_typed c" "checkout_can s data c e"
  then show "checkout_typed (checkout_move s c e)"
    by (cases "snd e") (auto simp: checkout_move_def checkout_typed_def set_cents_def
      setCentsInput_typed cents_typed_butlast selectMethod_def handleConfirm_def
      cents_typed_def [of "[]"] simp del: js_slice_butlast split: option.splits)
qed (simp add: checkout_init_def checkout_typed_def cents_typed_def)

lemma tenders_compare:
  assumes "cents_typed cents" and "sa_total s = fixed_string 6 (10000 * t)"
    and "(of_nat t / 100 :: rat) < 2 powi 33"
  shows "co_total s \<le> js_Number cents div JsNum 100 \<longleftrightarrow> t \<le> digits_nat cents"
proof -
  have "(of_nat (digits_nat cents) :: rat) < of_nat (10 ^ 8)"
    using cents_typed_less [OF assms(1)] by (simp only: of_nat_less_iff)
  then have "(of_nat (10000 * digits_nat cents) / 10 ^ 6 :: rat) < 2 powi 33" by simp
  moreover have "(of_nat (10000 * t) / 10 ^ 6 :: rat) < 2 powi 33" using assms(3) by simp
  ultimately show ?thesis
    using micros.parse_order [of "10000 * t" "10000 * digits_nat cents"]
    by (simp add: co_total_def assms(2) cents_amount [OF assms(1)] cents_as_micros del: power_numeral)
qed

lemma coversTotal_exact:
  assumes "checkout_typed c" and "sa_total s = fixed_string 6 (10000 * t)"
    and "(of_nat t / 100 :: rat) < 2 powi 33"
  shows "coversTotal s c \<longleftrightarrow> co_tenderedCents c = []
    \<or> (0 < digits_nat (co_tenderedCents c) \<and> t \<le> digits_nat (co_tenderedCents c))"
proof -
  have typed: "cents_typed (co_tenderedCents c)" using assms(1) by (simp add: checkout_typed_def)
  have "js_is_finite (enteredTenderedAmount c)"
  proof -
    have "(of_nat (digits_nat (co_tenderedCents c)) :: rat) < of_nat (10 ^ 8)"
      using cents_typed_less [OF typed] by (simp only: of_nat_less_iff)
    then have "(of_nat (10000 * digits_nat (co_tenderedCents c)) / 10 ^ 6 :: rat) < 2 powi 33" by simp
    from micros.parse_rnd [OF this] show ?thesis
      by (simp add: enteredTenderedAmount_def cents_amount [OF typed] cents_as_micros del: power_numeral)
  qed
  moreover have "co_total s \<le> co_total s"
  proof -
    have "(of_nat (10000 * t) / 10 ^ 6 :: rat) < 2 powi 33" using assms(3) by simp
    from micros.parse_order [OF this this] show ?thesis by (simp add: co_total_def assms(2))
  qed
  ultimately show ?thesis
    using tenders_compare [OF typed assms(2,3)]
    by (auto simp: coversTotal_def isTenderedValid_def tenderedAmount_def enteredTenderedAmount_def
      cents_typed_Number [OF typed] jsnum_ops intro: ccontr)
qed


text \<open>
  The change: the difference of two rounded amounts, itself rounded, is nearest to the exact
  difference on the grid of millionths.
\<close>

lemma difference_error:
  fixes A B :: rat
  assumes "0 \<le> A" "A < 2 powi 20" "0 \<le> B" "B < 2 powi 20"
  shows "\<exists>d. rnd (rnd_rat A - rnd_rat B) = JsNum d \<and> \<bar>d - (A - B)\<bar> < 1 / (2 * 10 ^ 6)"
proof -
  let ?a = "rnd_rat A" and ?b = "rnd_rat B"
  have a: "\<bar>?a - A\<bar> \<le> 2 powi (20 - 54)" and b: "\<bar>?b - B\<bar> \<le> 2 powi (20 - 54)"
    using assms rnd_rat_error_bound [of A 20] rnd_rat_error_bound [of B 20] by simp_all
  then have ab: "\<bar>(?a - ?b) - (A - B)\<bar> \<le> 2 * 2 powi (20 - 54)" by linarith
  have "\<bar>A - B\<bar> < 2 powi 20" using assms by linarith
  moreover have "(2 * 2 powi (20 - 54) :: rat) \<le> 1" by (simp add: power_int_minus)
  moreover have "(1 + 2 powi 20 :: rat) \<le> 2 powi 21" by simp
  ultimately have range: "\<bar>?a - ?b\<bar> < 2 powi 21" using ab by linarith
  have d: "\<bar>rnd_rat (?a - ?b) - (?a - ?b)\<bar> \<le> 2 powi (21 - 54)"
    using range by (intro rnd_rat_error_bound) auto
  have "2 * 2 powi (20 - 54) + 2 powi (21 - 54) < (1 / (2 * 10 ^ 6) :: rat)"
    by (simp add: power_int_minus)
  then have "\<bar>rnd_rat (?a - ?b) - (A - B)\<bar> < 1 / (2 * 10 ^ 6)" using ab d by linarith
  then show ?thesis using range rnd_small [of "?a - ?b" 21] by auto
qed

lemma change_exact:
  assumes "checkout_typed c" and "co_tenderedCents c \<noteq> []" and "0 < digits_nat (co_tenderedCents c)"
    and "sa_total s = fixed_string 6 (10000 * t)" and "t < 10 ^ 8"
  shows "change_shown s c = (if t < digits_nat (co_tenderedCents c)
    then Some (formatMoney (fixed_string 6 (10000 * (digits_nat (co_tenderedCents c) - t)))) else None)"
proof -
  let ?n = "digits_nat (co_tenderedCents c)"
  let ?A = "of_nat ?n / 10 ^ 2 :: rat" and ?B = "of_nat t / 10 ^ 2 :: rat"
  have typed: "cents_typed (co_tenderedCents c)" using assms(1) by (simp add: checkout_typed_def)
  have "(of_nat ?n :: rat) < of_nat (10 ^ 8)" "(of_nat t :: rat) < of_nat (10 ^ 8)"
    using cents_typed_less [OF typed] assms(5) by (simp_all only: of_nat_less_iff)
  then have range: "0 \<le> ?A" "?A < 2 powi 20" "0 \<le> ?B" "?B < 2 powi 20" by simp_all
  then have lt33: "?A < 2 powi 33" "?B < 2 powi 33" by simp_all
  have A: "js_Number (co_tenderedCents c) div JsNum 100 = JsNum (rnd_rat ?A)"
    using micros.parse_rnd [of "10000 * ?n"] lt33
    by (simp add: cents_amount [OF typed] cents_as_micros del: power_numeral) (simp add: divide_simps)
  have B: "co_total s = JsNum (rnd_rat ?B)"
    using micros.parse_rnd [of "10000 * t"] lt33 by (simp add: co_total_def assms(4))
  have "js_is_finite (enteredTenderedAmount c)" by (simp add: enteredTenderedAmount_def A)
  then have valid: "isTenderedValid c"
    using assms(3) by (simp add: isTenderedValid_def cents_typed_Number [OF typed] less_jsnum_def)
  obtain d where d: "rnd (rnd_rat ?A - rnd_rat ?B) = JsNum d" "\<bar>d - (?A - ?B)\<bar> < 1 / (2 * 10 ^ 6)"
    using difference_error [OF range] by blast
  have diff: "change_due s c = js_max (JsNum 0) (JsNum d)"
    using valid assms(2) d(1)
    by (simp add: change_due_def tenderedAmount_def enteredTenderedAmount_def A B minus_jsnum_def)
  have max: "js_max (JsNum 0) (JsNum d) = JsNum (if 0 < d then d else 0)"
    by (simp add: less_jsnum_def)
  show ?thesis
  proof (cases "t < ?n")
    case True
    then have amount: "?A - ?B = of_nat (10000 * (?n - t)) / 10 ^ 6"
      by (simp add: of_nat_diff diff_divide_distrib)
    have "1 \<le> 10000 * (?n - t)" using True by linarith
    then have "(of_nat 1 :: rat) \<le> of_nat (10000 * (?n - t))" by (simp only: of_nat_le_iff)
    then have "(1 :: rat) \<le> of_nat (10000 * (?n - t))" by (simp only: of_nat_1)
    then have "1 / 10 ^ 6 \<le> ?A - ?B" unfolding amount by (rule divide_right_mono) simp
    moreover have "1 / (2 * 10 ^ 6) < (1 / 10 ^ 6 :: rat)" by simp
    ultimately have pos: "0 < d" using d(2) by linarith
    have "(2 powi 20 + 1 :: rat) < 10 ^ 21" and "1 / (2 * 10 ^ 6) < (1 :: rat)" by simp_all
    then have "d < 10 ^ 21" using d(2) range by linarith
    with pos have "js_toFixed 6 (JsNum d) = fixed_string 6 (10000 * (?n - t))"
      using d(2) unfolding amount by (intro js_toFixed_near) auto
    with pos True show ?thesis by (simp add: change_shown_def diff max less_jsnum_def)
  next
    case False
    then have "?A \<le> ?B" by (simp add: divide_right_mono)
    have "\<not> 0 < d"
    proof (cases "t = ?n")
      case True
      then show ?thesis using d(1) by simp
    next
      case False
      with \<open>\<not> t < ?n\<close> have "?n + 1 \<le> t" by simp
      then have "(of_nat ?n + 1 :: rat) \<le> of_nat t" by (metis of_nat_1 of_nat_add of_nat_le_iff)
      then have "?A - ?B \<le> - (1 / 10 ^ 2)" by (simp add: field_simps)
      moreover have "1 / (2 * 10 ^ 6) < (1 / 10 ^ 2 :: rat)" by simp
      ultimately show ?thesis using d(2) by linarith
    qed
    with False show ?thesis by (simp add: change_shown_def diff max less_jsnum_def)
  qed
qed

section \<open>Properties\<close>

text \<open>C8: The kilos a weight prompt hands on are exactly the grams typed: in every state of the dialog
  with at most fifteen digits, Enter in the field and the button of the keypad hand on the decimal
  with three places that denotes the typed number of grams, and nothing while an answer is pending
  or when that number is zero; no other key or button hands on a quantity.\<close>

theorem weight_exact:
  assumes "reached weight_enabled weight_move [] g" and "length g \<le> 15"
  shows "snd (weight_step isPending g e) =
    (if e \<in> {WeightEnter, WeightAdd}
     then (if \<not> isPending \<and> 0 < digits_nat g then Some (PromptConfirm (fixed_string 3 (digits_nat g))) else None)
     else if e \<in> {WeightEscape, WeightCancel} then Some PromptCancel else None)"
proof -
  have digits: "list_all js_digit g" by (rule weight_prompt.inv_reached [OF assms(1)])
  have "digits_nat g < 10 ^ 15" by (rule digits_small [OF digits assms(2)])
  then have "weight_confirm isPending g =
      (if \<not> isPending \<and> 0 < digits_nat g then Some (PromptConfirm (fixed_string 3 (digits_nat g))) else None)"
    using weight_isValid_digits [OF digits assms(2)]
    by (simp add: weight_confirm_def weight_parsed_digits [OF digits assms(2)] gramsToKilos_exact)
  then show ?thesis
    using weight_isValid_digits [OF digits assms(2)] by (cases e) (auto split: option.split)
qed

lemma weight_exact_witness:
  "snd (weight_step False (js ''1005'') WeightAdd) = Some (PromptConfirm (js ''1.005''))"
proof -
  have move: "weight_move [] (False, WeightInput (js ''1005'')) = js ''1005''"
    and vals: "digits_nat (js ''1005'') = 1005" "fixed_string 3 1005 = js ''1.005''"
    by code_simp+
  have "reached weight_enabled weight_move [] (js ''1005'')"
    using reached_move [OF reached_init, of weight_enabled "[]" "(False, WeightInput (js ''1005''))" weight_move]
    by (simp only: move) (simp add: weight_enabled_def)
  from weight_exact [OF this, of False WeightAdd] vals show ?thesis by simp
qed

text \<open>The amount an open-price prompt hands on is exactly the cents typed, and is never zero: at
  every state of the dialog, accepting it yields the decimal with two places that denotes the typed
  number of cents.\<close>

lemma open_price_exact:
  assumes "reached price_enabled price_move [] cents"
  shows "price_step False cents PriceEnter =
    (cents, if 0 < digits_nat cents then Some (PromptConfirm (fixed_string 2 (digits_nat cents))) else None)"
proof -
  have typed: "cents_typed cents" by (rule price_prompt.inv_reached [OF assms])
  show ?thesis
    using price_isValid_typed [OF typed] by (simp add: price_confirm_def centsToAmount_exact [OF typed])
qed

lemma open_price_exact_witness:
  "price_step False (js ''5'') PriceEnter = (js ''5'', Some (PromptConfirm (js ''0.05'')))"
proof -
  have move: "price_move [] (False, PriceDigit 53) = js ''5''"
    and vals: "digits_nat (js ''5'') = 5" "fixed_string 2 5 = js ''0.05''"
    by code_simp+
  have "reached price_enabled price_move [] (js ''5'')"
    using reached_move [OF reached_init, of price_enabled "[]" "(False, PriceDigit 53)" price_move]
    by (simp only: move) (simp add: price_enabled_def)
  from open_price_exact [OF this] vals show ?thesis by simp
qed

text \<open>In the payment step, for a total of whole cents, cash covers the total exactly when nothing
  was typed or the typed cents are positive and at least the total; the payment sent is then one
  cash tender of exactly the typed cents, or of exactly the total when nothing was typed.\<close>

lemma cash_payment_exact:
  assumes "reached (checkout_can s data) (checkout_move s) (checkout_init data) c"
    and "sa_total s = fixed_string 6 (10000 * t)" and "(of_nat t / 100 :: rat) < 2 powi 33"
  shows "let n = digits_nat (co_tenderedCents c) in
    confirmCash s c =
      (if co_tenderedCents c = []
       then Some (CheckoutConfirm [\<lparr>td_method = js ''CASH'', td_amount = fixed_string 2 t\<rparr>])
       else if 0 < n \<and> t \<le> n
       then Some (CheckoutConfirm [\<lparr>td_method = js ''CASH'', td_amount = fixed_string 2 n\<rparr>])
       else None)"
proof -
  have typed: "checkout_typed c" by (rule checkout_screen.inv_reached [OF assms(1)])
  then have cents: "cents_typed (co_tenderedCents c)" by (simp add: checkout_typed_def)
  have "(of_nat (digits_nat (co_tenderedCents c)) :: rat) < of_nat (10 ^ 8)"
    using cents_typed_less [OF cents] by (simp only: of_nat_less_iff)
  then have n: "(of_nat (digits_nat (co_tenderedCents c)) / 10 ^ 2 :: rat) < 2 powi 46" by simp
  have t: "(of_nat t / 10 ^ 2 :: rat) < 2 powi 46" using assms(3) by simp
  have total: "js_toFixed 2 (co_total s) = fixed_string 2 t"
    using print_cents [OF t] by (simp add: co_total_def assms(2) cents_as_micros del: power_numeral)
  show ?thesis
    using coversTotal_exact [OF typed assms(2,3)] total print_cents [OF n]
    by (simp add: confirmCash_def tenderedAmount_def enteredTenderedAmount_def
      cents_amount [OF cents] Let_def del: power_numeral)
qed

definition sample_sale :: "nat \<Rightarrow> sale" where
  "sample_sale t = \<lparr>sa_id = 1, sa_number = None, sa_warehouse_id = 1, sa_location_id = 1,
     sa_terminal_id = Some 1, sa_terminal_name = None, sa_status = DRAFT, sa_notes = [],
     sa_prices_include_tax = None, sa_cashier_name = None, sa_completed_at = None, sa_created_at = [],
     sa_lines = [], sa_total = fixed_string 6 (10000 * t), sa_payments = [], sa_change_due = js ''0''\<rparr>"

lemma cash_payment_exact_witness:
  "confirmCash (sample_sale 3630) (checkout_init None)
    = Some (CheckoutConfirm [\<lparr>td_method = js ''CASH'', td_amount = fixed_string 2 3630\<rparr>])"
  using cash_payment_exact [OF reached_init, of "sample_sale 3630" 3630 None]
  by (simp add: sample_sale_def checkout_init_def Let_def)

text \<open>The change shown is exact: below a million euros, it is the typed cents minus the total,
  and no change is shown when they are equal or do not cover it.\<close>

lemma change_shown_exact:
  assumes "reached (checkout_can s data) (checkout_move s) (checkout_init data) c"
    and "sa_total s = fixed_string 6 (10000 * t)" and "t < 10 ^ 8"
    and "0 < digits_nat (co_tenderedCents c)"
  shows "change_shown s c = (if t < digits_nat (co_tenderedCents c)
    then Some (formatMoney (fixed_string 6 (10000 * (digits_nat (co_tenderedCents c) - t)))) else None)"
proof (rule change_exact)
  show "checkout_typed c" by (rule checkout_screen.inv_reached [OF assms(1)])
  show "co_tenderedCents c \<noteq> []" using assms(4) by auto
qed (use assms in auto)

lemma change_shown_exact_witness:
  "change_shown (sample_sale 3) \<lparr>co_method = js ''CASH'', co_cashPromptOpen = True, co_tenderedCents = js ''5''\<rparr>
    = Some (formatMoney (fixed_string 6 (10000 * 2)))"
proof -
  let ?c = "\<lparr>co_method = js ''CASH'', co_cashPromptOpen = True, co_tenderedCents = js ''5''\<rparr>"
  let ?R = "reached (checkout_can (sample_sale 3) None) (checkout_move (sample_sale 3)) (checkout_init None)"
  have open_prompt: "checkout_move (sample_sale 3) (checkout_init None) (False, SelectMethod CASH)
      = \<lparr>co_method = js ''CASH'', co_cashPromptOpen = True, co_tenderedCents = []\<rparr>" (is "?m = ?o")
    by (simp add: checkout_move_def selectMethod_def checkout_init_def)
  have "?R ?o"
    using reached_move [OF reached_init, of "checkout_can (sample_sale 3) None" "checkout_init None"
        "(False, SelectMethod CASH)" "checkout_move (sample_sale 3)"]
    by (simp only: open_prompt) (simp add: checkout_can_def checkout_enabled_def shown_methods_def)
  from reached_move [OF this, of "(False, CashDigit 53)"]
  have "?R (checkout_move (sample_sale 3) ?o (False, CashDigit 53))"
    by (simp add: checkout_can_def checkout_enabled_def js_digit_def)
  moreover have "checkout_move (sample_sale 3) ?o (False, CashDigit 53) = ?c"
    by (simp add: checkout_move_def set_cents_def setCentsInput_def js_only_digits_def js_digit_def js_def)
  ultimately have r: "?R ?c" by simp
  have n: "digits_nat (js ''5'') = 5" by code_simp
  from change_shown_exact [OF r, of 3] n show ?thesis by (simp add: sample_sale_def)
qed

text \<open>C7: No payment below the total leaves the payment step: whatever events led there, a payment it
  emits is a single tender whose amount is a whole number of cents not below the total, and exactly
  the total unless the method is cash.\<close>

theorem checkout_never_short:
  assumes "reached (checkout_can s data) (checkout_move s) (checkout_init data) c"
    and "sa_total s = fixed_string 6 (10000 * t)" and "(of_nat t / 100 :: rat) < 2 powi 33"
    and "checkout_step s c e = (c', Some (CheckoutConfirm ps))"
  shows "\<exists>td a. ps = [td] \<and> td_amount td = fixed_string 2 a \<and> t \<le> a
    \<and> (td_method td \<noteq> js ''CASH'' \<longrightarrow> a = t \<and> td_method td = co_method c)"
proof -
  have typed: "checkout_typed c" by (rule checkout_screen.inv_reached [OF assms(1)])
  then have cents: "cents_typed (co_tenderedCents c)" by (simp add: checkout_typed_def)
  have t: "(of_nat t / 10 ^ 2 :: rat) < 2 powi 46" using assms(3) by simp
  have total: "js_toFixed 2 (co_total s) = fixed_string 2 t"
    using print_cents [OF t] by (simp add: co_total_def assms(2) cents_as_micros del: power_numeral)
  have "(of_nat (digits_nat (co_tenderedCents c)) :: rat) < of_nat (10 ^ 8)"
    using cents_typed_less [OF cents] by (simp only: of_nat_less_iff)
  then have n: "(of_nat (digits_nat (co_tenderedCents c)) / 10 ^ 2 :: rat) < 2 powi 46" by simp
  have tendered: "\<exists>a. js_toFixed 2 (tenderedAmount s c) = fixed_string 2 a \<and> t \<le> a" if "coversTotal s c"
    using that coversTotal_exact [OF typed assms(2,3)] total print_cents [OF n]
    by (auto simp: tenderedAmount_def enteredTenderedAmount_def cents_amount [OF cents]
      simp del: power_numeral)
  from assms(4) show ?thesis
    using total tendered
    by (cases e) (auto simp: confirmCash_def handleConfirm_def split: if_splits option.splits)
qed

lemma checkout_never_short_witness:
  "\<exists>td a. [\<lparr>td_method = js ''CASH'', td_amount = fixed_string 2 3630\<rparr>] = [td]
    \<and> td_amount td = fixed_string 2 a \<and> 3630 \<le> a"
proof -
  have "confirmCash (sample_sale 3630) (checkout_init None)
      = Some (CheckoutConfirm [\<lparr>td_method = js ''CASH'', td_amount = fixed_string 2 3630\<rparr>])"
    by code_simp
  then have "checkout_step (sample_sale 3630) (checkout_init None) CashConfirm
      = (checkout_init None, Some (CheckoutConfirm [\<lparr>td_method = js ''CASH'', td_amount = fixed_string 2 3630\<rparr>]))"
    by simp
  from checkout_never_short [OF reached_init _ _ this, of 3630] show ?thesis
    by (simp add: sample_sale_def)
qed

end
