(* ===== verification/Pos_Home.thy ===== *)
theory Pos_Home
  imports Pos_Pads
begin

text \<open>
  The till screen, \<open>pages/pos/PosHomePage.tsx\<close>, with the components it draws (\<open>Cart.tsx\<close>,
  \<open>OpenSalesBar.tsx\<close>): its state, one definition per handler and per mutation callback, the
  effects that run after every change, and the events its elements offer. An event is one
  handler or one answer of the server; several requests may be in flight at a time and their
  answers arrive in any order, between any two gestures of the cashier.
\<close>

section \<open>State\<close>

text \<open>
  A query of the cache, as the screen sees it: no data yet, data, or an error, which keeps the data
  there was.
\<close>

datatype 'a query = QPending | QLoaded 'a | QErrored "'a option"

fun q_data :: "'a query \<Rightarrow> 'a option" where
  "q_data QPending = None"
| "q_data (QLoaded x) = Some x"
| "q_data (QErrored d) = d"

definition q_isPending :: "'a query \<Rightarrow> bool" where
  "q_isPending q \<longleftrightarrow> (case q of QPending \<Rightarrow> True | _ \<Rightarrow> False)"

definition q_isError :: "'a query \<Rightarrow> bool" where
  "q_isError q \<longleftrightarrow> (case q of QErrored _ \<Rightarrow> True | _ \<Rightarrow> False)"

text \<open>The mutations of the screen with the variables they are called with.\<close>

datatype mutation =
    OpenSaleM | AddLineM | ResolveM jsstring | AddBarcodeM jsstring | RemoveLineM
  | CancelM int | StockM | CheckoutM int "tender list" jsstring

datatype mutation_kind =
    OpenSaleK | AddLineK | ResolveK | AddBarcodeK | RemoveLineK | CancelK | StockK | CheckoutK

fun kind_of :: "mutation \<Rightarrow> mutation_kind" where
  "kind_of OpenSaleM = OpenSaleK"
| "kind_of AddLineM = AddLineK"
| "kind_of (ResolveM c) = ResolveK"
| "kind_of (AddBarcodeM c) = AddBarcodeK"
| "kind_of RemoveLineM = RemoveLineK"
| "kind_of (CancelM i) = CancelK"
| "kind_of StockM = StockK"
| "kind_of (CheckoutM i ps k) = CheckoutK"

text \<open>
  A mutation hook follows the last call made through it (the documented behaviour of
  \<open>useMutation\<close>): it is pending until that call is answered, and an error until the next call.
  The callbacks of every call run, followed or not.
\<close>

datatype observed = Idle | Running nat | Succeeded | Errored

record flight =
  fl_id :: nat
  fl_mutation :: mutation
  fl_request :: "failure + api_call"

datatype view = CartView | CheckoutView

record weighing =
  we_product :: product
  we_barcode :: "jsstring option"
  we_surcharge :: "pos_surcharge option"

record home =
  h_locations :: "stock_location list query"
  h_drafts :: "sale list query"
  h_categories :: "pos_category list query"
  h_categoryId :: "int option"
  h_categoryResolved :: bool
  h_barcode :: jsstring
  h_searchOpen :: bool
  h_search :: jsstring
  h_sale :: "sale option"
  h_lineError :: "jsstring option"
  h_surcharge :: "pos_surcharge option"
  h_cancelOpen :: bool
  h_stockError :: "jsstring option"
  h_view :: view
  h_checkoutError :: "jsstring option"
  h_attempt :: "(int \<times> jsstring) option"
  h_receipt :: "sale option"
  h_weighing :: "weighing option"
  h_openPrice :: "(product \<times> pos_surcharge option) option"
  h_pendingQuantity :: jsstring
  h_flights :: "flight list"
  h_observed :: "mutation_kind \<Rightarrow> observed"
  h_next :: nat
  h_uuids :: nat
  h_sent :: "(mutation \<times> api_call) list"
  h_lastTickets :: "int list"

text \<open>
  What the screen is given: the terminal selected (identity and warehouse), whether it offers the
  search dialog, the shop settings, and \<open>crypto.randomUUID\<close> as the sequence of the values it returns.
\<close>

record home_env =
  he_terminal :: "int option"
  he_warehouse :: "int option"
  he_showSearch :: bool
  he_settings :: "setting_values option"
  he_uuid :: "nat \<Rightarrow> jsstring"

definition home_init :: home where
  "home_init =
     \<lparr>h_locations = QPending, h_drafts = QPending, h_categories = QPending, h_categoryId = None,
      h_categoryResolved = False, h_barcode = [], h_searchOpen = False, h_search = [],
      h_sale = None, h_lineError = None, h_surcharge = None, h_cancelOpen = False,
      h_stockError = None, h_view = CartView, h_checkoutError = None, h_attempt = None,
      h_receipt = None, h_weighing = None, h_openPrice = None, h_pendingQuantity = [],
      h_flights = [], h_observed = (\<lambda>k. Idle), h_next = 0, h_uuids = 0, h_sent = [],
      h_lastTickets = []\<rparr>"

definition isPending :: "home \<Rightarrow> mutation_kind \<Rightarrow> bool" where
  "isPending s k \<longleftrightarrow> (case h_observed s k of Running _ \<Rightarrow> True | _ \<Rightarrow> False)"

definition failedToOpenSale :: "home \<Rightarrow> bool" where
  "failedToOpenSale s \<longleftrightarrow> h_observed s OpenSaleK = Errored"

definition locationId :: "home \<Rightarrow> int option" where
  "locationId s = (case q_data (h_locations s) of Some (l # _) \<Rightarrow> Some (loc_id l) | _ \<Rightarrow> None)"

definition busy :: "home \<Rightarrow> bool" where
  "busy s \<longleftrightarrow> isPending s AddLineK \<or> isPending s ResolveK \<or> isPending s AddBarcodeK
     \<or> isPending s RemoveLineK \<or> isPending s CancelK \<or> isPending s StockK"

text \<open>The surcharge buttons drawn, and the product queries of the catalogue and the search dialog.\<close>

definition enabledSurcharges :: "setting_values option \<Rightarrow> pos_surcharge list" where
  "enabledSurcharges data =
     filter (\<lambda>c. JsNum 0 < js_Number (case c of COLD_DRINK \<Rightarrow>
       useShopSetting data (js ''pos.cold_drink_surcharge_amount'') (js ''0''))) [COLD_DRINK]"

definition catalogue_query :: "home \<Rightarrow> query_options" where
  "catalogue_query s = productsQuery \<lparr>pf_posCategoryId = h_categoryId s, pf_search = None\<rparr>"

definition search_query :: "home \<Rightarrow> query_options" where
  "search_query s =
     (productsQuery \<lparr>pf_posCategoryId = None, pf_search = Some (js_trim (h_search s))\<rparr>)
       \<lparr>q_enabled := h_searchOpen s \<and> js_trim (h_search s) \<noteq> []\<rparr>"

definition describeError :: "failure \<Rightarrow> jsstring" where
  "describeError e = (case e of ApiFailure a \<Rightarrow> ae_message a
     | OtherFailure _ \<Rightarrow> js ''Ha ocurrido un error inesperado.'')"

definition unknown_code_message :: "jsstring \<Rightarrow> jsstring" where
  "unknown_code_message code = js ''El c'' @ [243] @ js ''digo '' @ code @ js '' no est'' @ [225]
     @ js '' dado de alta en ning'' @ [250] @ js ''n producto.''"

definition code_error :: "jsstring \<Rightarrow> failure \<Rightarrow> jsstring" where
  "code_error code e =
     (case e of
        ApiFailure a \<Rightarrow> if ae_status a = 404 then unknown_code_message code else describeError e
      | OtherFailure _ \<Rightarrow> describeError e)"

section \<open>Calling a mutation\<close>

text \<open>
  \<open>mutate\<close>: the call is in flight and the hook follows it. A mutation function that throws before
  any request (\<open>Inl\<close>) is answered with that failure.
\<close>

definition mutate :: "mutation \<Rightarrow> failure + api_call \<Rightarrow> home \<Rightarrow> home" where
  "mutate m req s = s\<lparr>h_flights := h_flights s @ [\<lparr>fl_id = h_next s, fl_mutation = m, fl_request = req\<rparr>],
     h_observed := (h_observed s)(kind_of m := Running (h_next s)),
     h_next := Suc (h_next s),
     h_sent := h_sent s @ (case req of Inl _ \<Rightarrow> [] | Inr c \<Rightarrow> [(m, c)])\<rparr>"

text \<open>
  A request on the current sale: \<open>sale!.id\<close> throws when there is none. (A sale is only ever present
  with a terminal.)
\<close>

definition on_sale :: "home_env \<Rightarrow> home \<Rightarrow> (int \<Rightarrow> int \<Rightarrow> failure + api_call) \<Rightarrow> failure + api_call" where
  "on_sale env s f =
     (case (h_sale s, he_terminal env) of
        (Some sale, Some terminalId) \<Rightarrow> f (sa_id sale) terminalId
      | _ \<Rightarrow> Inl (OtherFailure (js ''TypeError'')))"

definition openSale :: "home_env \<Rightarrow> home \<Rightarrow> home" where
  "openSale env s = mutate OpenSaleM
     (case (he_terminal env, he_warehouse env, locationId s) of
        (Some t, Some w, Some l) \<Rightarrow> Inr (createSale t w l)
      | _ \<Rightarrow> Inl (OtherFailure (js ''TypeError''))) s"

definition mutateAddLine ::
  "home_env \<Rightarrow> product \<Rightarrow> jsstring \<Rightarrow> jsstring option \<Rightarrow> pos_surcharge option \<Rightarrow> home \<Rightarrow> home" where
  "mutateAddLine env p quantity openPriceTotal surcharge s = mutate AddLineM
     (on_sale env s (\<lambda>saleId terminalId.
        case basePackage p of
          Inl e \<Rightarrow> Inl e
        | Inr base \<Rightarrow> Inr (addLine saleId terminalId
            \<lparr>nl_product_id = pr_id p, nl_package_id = pk_id base, nl_quantity_packages = quantity,
             nl_open_price_total = openPriceTotal, nl_cold_drink = None,
             nl_pos_surcharge = surcharge\<rparr>))) s"

definition mutateAddBarcode ::
  "home_env \<Rightarrow> jsstring \<Rightarrow> jsstring \<Rightarrow> pos_surcharge option \<Rightarrow> home \<Rightarrow> home" where
  "mutateAddBarcode env code quantity surcharge s = mutate (AddBarcodeM code)
     (on_sale env s (\<lambda>saleId terminalId. Inr (addLineByBarcode saleId terminalId
        \<lparr>nb_barcode = code, nb_quantity_packages = quantity, nb_cold_drink = None,
         nb_pos_surcharge = surcharge\<rparr>))) s"

definition mutateResolve :: "jsstring \<Rightarrow> home \<Rightarrow> home" where
  "mutateResolve code s = mutate (ResolveM code) (findProductByBarcode code) s"

definition mutateRemoveLine :: "home_env \<Rightarrow> sale_line \<Rightarrow> home \<Rightarrow> home" where
  "mutateRemoveLine env line s = mutate RemoveLineM
     (on_sale env s (\<lambda>saleId terminalId. Inr (removeLine saleId (sl_id line) terminalId))) s"

definition mutateCancel :: "home_env \<Rightarrow> home \<Rightarrow> home" where
  "mutateCancel env s =
     (case (h_sale s, he_terminal env) of
        (Some sale, Some terminalId) \<Rightarrow> mutate (CancelM (sa_id sale)) (Inr (cancelSale (sa_id sale) terminalId)) s
      | _ \<Rightarrow> s)"

definition mutateStock :: "home_env \<Rightarrow> home \<Rightarrow> home" where
  "mutateStock env s = mutate StockM
     (on_sale env s (\<lambda>saleId terminalId. Inr (validateSaleStock saleId terminalId))) s"

section \<open>The open sales\<close>

text \<open>\<open>setQueryData\<close> with an updater: the data becomes present.\<close>

definition update_drafts :: "home_env \<Rightarrow> (sale list \<Rightarrow> sale list) \<Rightarrow> home \<Rightarrow> home" where
  "update_drafts env f s =
     (if he_warehouse env = None then s
      else s\<lparr>h_drafts := QLoaded (f (case q_data (h_drafts s) of None \<Rightarrow> [] | Some ds \<Rightarrow> ds))\<rparr>)"

definition replace_sale :: "sale \<Rightarrow> sale list \<Rightarrow> sale list" where
  "replace_sale updated ds = map (\<lambda>d. if sa_id d = sa_id updated then updated else d) ds"

definition syncSale :: "home_env \<Rightarrow> sale \<Rightarrow> home \<Rightarrow> home" where
  "syncSale env updated s =
     update_drafts env (replace_sale updated) (s\<lparr>h_sale := Some updated, h_stockError := None\<rparr>)"

definition without_sale :: "int \<Rightarrow> sale list \<Rightarrow> sale list" where
  "without_sale closedId ds = filter (\<lambda>d. sa_id d \<noteq> closedId) ds"

definition closeSale :: "home_env \<Rightarrow> int \<Rightarrow> home \<Rightarrow> home" where
  "closeSale env closedId s =
     (let s1 = update_drafts env (without_sale closedId) s;
          remaining = (if he_warehouse env = None then []
            else case q_data (h_drafts s1) of None \<Rightarrow> [] | Some ds \<Rightarrow> ds)
      in s1\<lparr>h_sale := first_or_null remaining, h_stockError := None\<rparr>)"

text \<open>
  The effect that resumes the newest open sale of this terminal or opens a new one, and the effect
  that chooses the initial category. They run after every change of the state.
\<close>

definition resume :: "home_env \<Rightarrow> home \<Rightarrow> home" where
  "resume env s =
     (if h_sale s \<noteq> None \<or> he_terminal env = None \<or> he_warehouse env = None \<or> locationId s = None then s
      else case q_data (h_drafts s) of
          None \<Rightarrow> s
        | Some (existing # _) \<Rightarrow> s\<lparr>h_sale := Some existing\<rparr>
        | Some [] \<Rightarrow> if \<not> isPending s OpenSaleK \<and> \<not> failedToOpenSale s then openSale env s else s)"

definition choose_category :: "home \<Rightarrow> home" where
  "choose_category s =
     (if h_categoryResolved s then s
      else case q_data (h_categories s) of
          None \<Rightarrow> s
        | Some cs \<Rightarrow> s\<lparr>h_categoryId := map_option pc_id (find (\<lambda>c. truthy (pc_is_default c)) cs),
                         h_categoryResolved := True\<rparr>)"

definition effects :: "home_env \<Rightarrow> home \<Rightarrow> home" where
  "effects env s = resume env (choose_category s)"

section \<open>Handlers\<close>

definition next_quantity :: "home \<Rightarrow> jsstring" where
  "next_quantity s = (if h_pendingQuantity s = [] then js ''1'' else h_pendingQuantity s)"

definition pickProduct :: "home_env \<Rightarrow> product \<Rightarrow> home \<Rightarrow> home" where
  "pickProduct env p s =
     (let surcharge = h_surcharge s; quantity = next_quantity s;
          s1 = s\<lparr>h_pendingQuantity := []\<rparr>
      in if truthy (pr_is_open_price p)
         then s1\<lparr>h_openPrice := Some (p, surcharge), h_surcharge := None\<rparr>
         else if truthy (pr_is_sold_by_weight p)
         then s1\<lparr>h_weighing := Some \<lparr>we_product = p, we_barcode = None, we_surcharge = surcharge\<rparr>,
                 h_surcharge := None\<rparr>
         else (mutateAddLine env p quantity None surcharge s1)\<lparr>h_surcharge := None\<rparr>)"

definition confirmCheckout :: "home_env \<Rightarrow> tender list \<Rightarrow> home \<Rightarrow> home" where
  "confirmCheckout env payments s =
     (case h_sale s of
        None \<Rightarrow> s
      | Some sale \<Rightarrow>
          if isPending s CheckoutK then s
          else
            let (attempt, uuids) = (case h_attempt s of
                  Some (saleId, key) \<Rightarrow>
                    if saleId = sa_id sale then ((saleId, key), h_uuids s)
                    else ((sa_id sale, he_uuid env (h_uuids s)), Suc (h_uuids s))
                | None \<Rightarrow> ((sa_id sale, he_uuid env (h_uuids s)), Suc (h_uuids s)))
            in mutate (CheckoutM (sa_id sale) payments (snd attempt))
                 (case he_terminal env of
                    Some t \<Rightarrow> Inr (checkout (sa_id sale) payments (snd attempt) t)
                  | None \<Rightarrow> Inl (OtherFailure (js ''TypeError'')))
                 (s\<lparr>h_attempt := Some attempt, h_uuids := uuids\<rparr>))"

definition leaveCheckout :: "home \<Rightarrow> home" where
  "leaveCheckout s = s\<lparr>h_attempt := None, h_view := CartView\<rparr>"

definition selectSale :: "sale \<Rightarrow> home \<Rightarrow> home" where
  "selectSale picked s =
     s\<lparr>h_attempt := None, h_sale := Some picked, h_lineError := None, h_stockError := None\<rparr>"

definition startCheckout :: "home_env \<Rightarrow> home \<Rightarrow> home" where
  "startCheckout env s =
     mutateStock env (s\<lparr>h_attempt := None, h_stockError := None, h_checkoutError := None\<rparr>)"

definition handleBarcodeSubmit :: "home \<Rightarrow> home" where
  "handleBarcodeSubmit s =
     (let code = js_trim (h_barcode s) in
      if code \<noteq> [] \<and> h_sale s \<noteq> None then mutateResolve code s else s)"

section \<open>Answers\<close>

datatype answer = GotSale sale | GotProduct product | GotNothing | Failed failure

definition line_added :: "home_env \<Rightarrow> sale \<Rightarrow> home \<Rightarrow> home" where
  "line_added env updated s =
     (syncSale env updated (s\<lparr>h_lineError := None\<rparr>))\<lparr>h_weighing := None, h_openPrice := None\<rparr>"

definition barcode_line_added :: "home_env \<Rightarrow> sale \<Rightarrow> home \<Rightarrow> home" where
  "barcode_line_added env updated s =
     (syncSale env updated (s\<lparr>h_lineError := None\<rparr>))\<lparr>h_weighing := None\<rparr>"

definition code_resolved :: "home_env \<Rightarrow> jsstring \<Rightarrow> product \<Rightarrow> home \<Rightarrow> home" where
  "code_resolved env code p s =
     (let s0 = s\<lparr>h_lineError := None, h_barcode := []\<rparr>;
          surcharge = h_surcharge s0; quantity = next_quantity s0;
          s1 = s0\<lparr>h_pendingQuantity := []\<rparr>
      in if truthy (pr_is_sold_by_weight p)
         then s1\<lparr>h_weighing := Some \<lparr>we_product = p, we_barcode = Some code, we_surcharge = surcharge\<rparr>,
                 h_surcharge := None\<rparr>
         else (mutateAddBarcode env code quantity surcharge s1)\<lparr>h_surcharge := None\<rparr>)"

definition sale_opened :: "home_env \<Rightarrow> sale \<Rightarrow> home \<Rightarrow> home" where
  "sale_opened env created s = (update_drafts env (\<lambda>ds. ds @ [created]) s)\<lparr>h_sale := Some created\<rparr>"

definition checkout_done :: "home_env \<Rightarrow> sale \<Rightarrow> home \<Rightarrow> home" where
  "checkout_done env completed s =
     (closeSale env (sa_id completed)
       (s\<lparr>h_attempt := None, h_checkoutError := None,
          h_lastTickets := h_lastTickets s @ [sa_id completed], h_receipt := Some completed\<rparr>))
       \<lparr>h_view := CartView\<rparr>"

definition insufficient_stock :: "failure \<Rightarrow> bool" where
  "insufficient_stock e \<longleftrightarrow> (case e of
      ApiFailure a \<Rightarrow> map_of (ae_details a) (js ''reason'') = Some (JStr (js ''insufficient_stock''))
    | OtherFailure _ \<Rightarrow> False)"

definition checkout_failed :: "failure \<Rightarrow> home \<Rightarrow> home" where
  "checkout_failed e s =
     (if insufficient_stock e
      then s\<lparr>h_attempt := None, h_stockError := Some (describeError e), h_view := CartView\<rparr>
      else s\<lparr>h_checkoutError := Some (describeError e)\<rparr>)"

text \<open>The callback of each mutation for each answer; \<open>None\<close> is an answer of the wrong kind.\<close>

fun answered :: "home_env \<Rightarrow> mutation \<Rightarrow> answer \<Rightarrow> home \<Rightarrow> home option" where
  "answered env OpenSaleM (GotSale created) s = Some (sale_opened env created s)"
| "answered env OpenSaleM (Failed e) s = Some s"
| "answered env AddLineM (GotSale updated) s = Some (line_added env updated s)"
| "answered env AddLineM (Failed e) s = Some (s\<lparr>h_lineError := Some (describeError e)\<rparr>)"
| "answered env (AddBarcodeM code) (GotSale updated) s = Some (barcode_line_added env updated s)"
| "answered env (AddBarcodeM code) (Failed e) s =
     Some (s\<lparr>h_barcode := [], h_weighing := None, h_lineError := Some (code_error code e)\<rparr>)"
| "answered env (ResolveM code) (GotProduct p) s = Some (code_resolved env code p s)"
| "answered env (ResolveM code) (Failed e) s =
     Some (s\<lparr>h_barcode := [], h_lineError := Some (code_error code e)\<rparr>)"
| "answered env RemoveLineM (GotSale updated) s = Some (syncSale env updated (s\<lparr>h_lineError := None\<rparr>))"
| "answered env RemoveLineM (Failed e) s = Some (s\<lparr>h_lineError := Some (describeError e)\<rparr>)"
| "answered env (CancelM saleId) GotNothing s = Some (closeSale env saleId (s\<lparr>h_cancelOpen := False\<rparr>))"
| "answered env (CancelM saleId) (Failed e) s = Some (s\<lparr>h_lineError := Some (describeError e)\<rparr>)"
| "answered env StockM GotNothing s =
     Some (s\<lparr>h_stockError := None, h_checkoutError := None, h_view := CheckoutView\<rparr>)"
| "answered env StockM (Failed e) s = Some (s\<lparr>h_stockError := Some (describeError e)\<rparr>)"
| "answered env (CheckoutM saleId payments key) (GotSale completed) s = Some (checkout_done env completed s)"
| "answered env (CheckoutM saleId payments key) (Failed e) s = Some (checkout_failed e s)"
| "answered env _ _ s = None"

text \<open>
  Settling a call: it is no longer in flight, its hook (if it still follows it) reports the
  outcome, and the callback runs.
\<close>

definition outcome :: "answer \<Rightarrow> observed" where
  "outcome a = (case a of Failed _ \<Rightarrow> Errored | _ \<Rightarrow> Succeeded)"

definition landed :: "flight \<Rightarrow> answer \<Rightarrow> home \<Rightarrow> home" where
  "landed fl a s = s\<lparr>h_flights := filter (\<lambda>g. fl_id g \<noteq> fl_id fl) (h_flights s),
     h_observed := (\<lambda>k. if h_observed s k = Running (fl_id fl) then outcome a else h_observed s k)\<rparr>"

definition settle :: "home_env \<Rightarrow> nat \<Rightarrow> answer \<Rightarrow> home \<Rightarrow> home" where
  "settle env i a s =
     (case find (\<lambda>fl. fl_id fl = i) (h_flights s) of
        None \<Rightarrow> s
      | Some fl \<Rightarrow> (case answered env (fl_mutation fl) a (landed fl a s) of None \<Rightarrow> s | Some s' \<Rightarrow> s'))"

section \<open>Events\<close>

datatype home_event =
    Mount | LocationsAre "stock_location list query" | DraftsAre "sale list query"
  | CategoriesAre "pos_category list query" | Settle nat answer
  | RetryOpen | NewSale | SelectSale sale | BarcodeInput jsstring | BarcodeClick | BarcodeSubmit
  | ScanCode jsstring | QuantityClick jsstring | ToggleSurcharge pos_surcharge | SelectCategory "int option"
  | PickProduct product | RemoveLineClick sale_line | CancelClick | CobrarClick
  | ConfirmPayments "tender list" | LeaveCheckout
  | WeighConfirm jsstring | WeighCancel | PriceConfirm jsstring | PriceCancelled
  | CancelKeep | CancelYes | SearchInput jsstring | SearchPick product | SearchClose | DismissReceipt

text \<open>Which parts of the screen are drawn.\<close>

definition till_shown :: "home_env \<Rightarrow> home \<Rightarrow> bool" where
  "till_shown env s \<longleftrightarrow> he_warehouse env \<noteq> None \<and> locationId s \<noteq> None
     \<and> \<not> (q_isPending (h_locations s) \<or> q_isPending (h_drafts s))
     \<and> \<not> (q_isError (h_locations s) \<or> q_isError (h_drafts s))"

definition checkout_shown :: "home_env \<Rightarrow> home \<Rightarrow> bool" where
  "checkout_shown env s \<longleftrightarrow> till_shown env s \<and> h_receipt s = None \<and> h_sale s \<noteq> None \<and> h_view s = CheckoutView"

definition cart_shown :: "home_env \<Rightarrow> home \<Rightarrow> bool" where
  "cart_shown env s \<longleftrightarrow> till_shown env s \<and> h_receipt s = None
     \<and> \<not> (h_sale s \<noteq> None \<and> h_view s = CheckoutView)
     \<and> (h_sale s \<noteq> None \<or> (\<not> failedToOpenSale s \<and> isPending s OpenSaleK))"

definition scanner_on :: "home \<Rightarrow> bool" where
  "scanner_on s \<longleftrightarrow> h_sale s \<noteq> None \<and> \<not> busy s \<and> h_view s = CartView \<and> h_weighing s = None
     \<and> h_openPrice s = None \<and> \<not> h_searchOpen s"

definition open_sales_bar :: "home \<Rightarrow> sale list" where
  "open_sales_bar s =
     (case q_data (h_drafts s) of None \<Rightarrow> [] | Some ds \<Rightarrow> if length ds \<le> 1 then [] else ds)"

definition cart_lines :: "home \<Rightarrow> sale_line list" where
  "cart_lines s = (case h_sale s of None \<Rightarrow> [] | Some sale \<Rightarrow> rev (sa_lines sale))"

definition home_enabled :: "home_env \<Rightarrow> home \<Rightarrow> home_event \<Rightarrow> bool" where
  "home_enabled env s e =
     (case e of
        Mount \<Rightarrow> True
      | LocationsAre q \<Rightarrow> he_warehouse env \<noteq> None
      | DraftsAre q \<Rightarrow> he_warehouse env \<noteq> None \<and> he_terminal env \<noteq> None
      | CategoriesAre q \<Rightarrow> True
      | Settle i a \<Rightarrow> (\<exists>fl \<in> set (h_flights s). fl_id fl = i
          \<and> (case fl_request fl of Inl f \<Rightarrow> a = Failed f | Inr c \<Rightarrow> True))
      | RetryOpen \<Rightarrow> till_shown env s \<and> h_receipt s = None \<and> failedToOpenSale s \<and> h_sale s = None
      | NewSale \<Rightarrow> h_sale s \<noteq> None \<and> h_view s = CartView \<and> h_receipt s = None
          \<and> \<not> (busy s \<or> isPending s OpenSaleK)
      | SelectSale picked \<Rightarrow> cart_shown env s \<and> picked \<in> set (open_sales_bar s)
      | BarcodeInput v \<Rightarrow> cart_shown env s \<and> h_sale s \<noteq> None \<and> \<not> busy s
      | BarcodeClick \<Rightarrow> cart_shown env s \<and> h_sale s \<noteq> None \<and> \<not> busy s
      | BarcodeSubmit \<Rightarrow> cart_shown env s \<and> h_sale s \<noteq> None \<and> \<not> busy s
      | ScanCode code \<Rightarrow> scanner_on s
      | QuantityClick q \<Rightarrow> cart_shown env s \<and> q \<in> set QUANTITIES
      | ToggleSurcharge c \<Rightarrow> cart_shown env s \<and> \<not> busy s
          \<and> c \<in> set (enabledSurcharges (he_settings env))
      | SelectCategory c \<Rightarrow> cart_shown env s
      | PickProduct p \<Rightarrow> cart_shown env s \<and> h_sale s \<noteq> None \<and> \<not> busy s
      | RemoveLineClick line \<Rightarrow> cart_shown env s \<and> \<not> busy s \<and> line \<in> set (cart_lines s)
      | CancelClick \<Rightarrow> cart_shown env s \<and> \<not> busy s \<and> h_sale s \<noteq> None
      | CobrarClick \<Rightarrow> cart_shown env s \<and> \<not> busy s \<and> cart_lines s \<noteq> []
      | ConfirmPayments ps \<Rightarrow> checkout_shown env s
      | LeaveCheckout \<Rightarrow> checkout_shown env s \<and> \<not> isPending s CheckoutK
      | WeighConfirm q \<Rightarrow> h_weighing s \<noteq> None \<and> \<not> (isPending s AddLineK \<or> isPending s AddBarcodeK)
      | WeighCancel \<Rightarrow> h_weighing s \<noteq> None
      | PriceConfirm t \<Rightarrow> h_openPrice s \<noteq> None \<and> \<not> isPending s AddLineK
      | PriceCancelled \<Rightarrow> h_openPrice s \<noteq> None
      | CancelKeep \<Rightarrow> h_cancelOpen s \<and> h_sale s \<noteq> None \<and> \<not> isPending s CancelK
      | CancelYes \<Rightarrow> h_cancelOpen s \<and> h_sale s \<noteq> None \<and> \<not> isPending s CancelK
      | SearchInput v \<Rightarrow> h_searchOpen s
      | SearchPick p \<Rightarrow> h_searchOpen s \<and> h_sale s \<noteq> None \<and> \<not> busy s
      | SearchClose \<Rightarrow> h_searchOpen s
      | DismissReceipt \<Rightarrow> till_shown env s \<and> h_receipt s \<noteq> None)"

fun handle :: "home_env \<Rightarrow> home \<Rightarrow> home_event \<Rightarrow> home" where
  "handle env s Mount = s"
| "handle env s (LocationsAre q) = s\<lparr>h_locations := q\<rparr>"
| "handle env s (DraftsAre q) = s\<lparr>h_drafts := q\<rparr>"
| "handle env s (CategoriesAre q) = s\<lparr>h_categories := q\<rparr>"
| "handle env s (Settle i a) = settle env i a s"
| "handle env s RetryOpen = openSale env s"
| "handle env s NewSale = openSale env s"
| "handle env s (SelectSale picked) = selectSale picked s"
| "handle env s (BarcodeInput v) = s\<lparr>h_barcode := v\<rparr>"
| "handle env s BarcodeClick =
     (if \<not> he_showSearch env \<or> h_sale s = None \<or> busy s then s else s\<lparr>h_searchOpen := True\<rparr>)"
| "handle env s BarcodeSubmit = handleBarcodeSubmit s"
| "handle env s (ScanCode code) = mutateResolve code s"
| "handle env s (QuantityClick q) = s\<lparr>h_pendingQuantity := pad_click q\<rparr>"
| "handle env s (ToggleSurcharge c) =
     s\<lparr>h_surcharge := (if h_surcharge s = Some c then None else Some c)\<rparr>"
| "handle env s (SelectCategory c) = s\<lparr>h_categoryId := c\<rparr>"
| "handle env s (PickProduct p) = pickProduct env p s"
| "handle env s (RemoveLineClick line) = mutateRemoveLine env line s"
| "handle env s CancelClick = s\<lparr>h_cancelOpen := True\<rparr>"
| "handle env s CobrarClick = startCheckout env s"
| "handle env s (ConfirmPayments ps) = confirmCheckout env ps s"
| "handle env s LeaveCheckout = leaveCheckout s"
| "handle env s (WeighConfirm quantity) =
     (case h_weighing s of
        None \<Rightarrow> s
      | Some w \<Rightarrow> (case we_barcode w of
            None \<Rightarrow> mutateAddLine env (we_product w) quantity None (we_surcharge w) s
          | Some code \<Rightarrow> mutateAddBarcode env code quantity (we_surcharge w) s))"
| "handle env s WeighCancel = s\<lparr>h_weighing := None\<rparr>"
| "handle env s (PriceConfirm amount) =
     (case h_openPrice s of
        None \<Rightarrow> s
      | Some (p, surcharge) \<Rightarrow> mutateAddLine env p (js ''1'') (Some amount) surcharge s)"
| "handle env s PriceCancelled = s\<lparr>h_openPrice := None\<rparr>"
| "handle env s CancelKeep = s\<lparr>h_cancelOpen := False\<rparr>"
| "handle env s CancelYes = mutateCancel env s"
| "handle env s (SearchInput v) = s\<lparr>h_search := v\<rparr>"
| "handle env s (SearchPick p) = pickProduct env p (s\<lparr>h_searchOpen := False, h_search := []\<rparr>)"
| "handle env s SearchClose = s\<lparr>h_searchOpen := False, h_search := []\<rparr>"
| "handle env s DismissReceipt = s\<lparr>h_receipt := None\<rparr>"

text \<open>One event and the effects it leads to.\<close>

definition home_move :: "home_env \<Rightarrow> home \<Rightarrow> home_event \<Rightarrow> home" where
  "home_move env s e = effects env (handle env s e)"


section \<open>Which steps touch what\<close>

text \<open>
  The bookkeeping of the requests: what is in flight, what the hooks follow, what was sent. Most
  steps leave it alone; \<open>mutate\<close> and \<open>landed\<close> are the ones that change it.
\<close>

definition net :: "home \<Rightarrow> flight list \<times> (mutation_kind \<Rightarrow> observed) \<times> nat \<times> (mutation \<times> api_call) list \<times> nat" where
  "net s = (h_flights s, h_observed s, h_next s, h_sent s, h_uuids s)"

named_theorems net_simps \<open>steps that leave the bookkeeping alone\<close>

lemma net_update_drafts [net_simps]: "net (update_drafts env f s) = net s"
  by (simp add: update_drafts_def net_def)

lemma net_syncSale [net_simps]: "net (syncSale env u s) = net s"
  by (simp add: syncSale_def net_simps) (simp add: net_def)

lemma net_closeSale [net_simps]: "net (closeSale env i s) = net s"
  by (simp add: closeSale_def Let_def net_def update_drafts_def)

lemma net_choose_category [net_simps]: "net (choose_category s) = net s"
  by (simp add: choose_category_def net_def split: option.splits)

lemma net_line_added [net_simps]: "net (line_added env u s) = net s"
  by (simp add: line_added_def syncSale_def update_drafts_def net_def)

lemma net_barcode_line_added [net_simps]: "net (barcode_line_added env u s) = net s"
  by (simp add: barcode_line_added_def syncSale_def update_drafts_def net_def)

lemma net_sale_opened [net_simps]: "net (sale_opened env u s) = net s"
  by (simp add: sale_opened_def update_drafts_def net_def)

lemma net_checkout_done [net_simps]: "net (checkout_done env u s) = net s"
  by (simp add: checkout_done_def closeSale_def Let_def update_drafts_def net_def)

lemma net_checkout_failed [net_simps]: "net (checkout_failed e s) = net s"
  by (simp add: checkout_failed_def net_def)

text \<open>The attempt that holds the idempotency key.\<close>

named_theorems attempt_simps \<open>what a step does to the checkout attempt\<close>

lemma attempt_update_drafts [attempt_simps]: "h_attempt (update_drafts env f s) = h_attempt s"
  by (simp add: update_drafts_def)

lemma attempt_syncSale [attempt_simps]: "h_attempt (syncSale env u s) = h_attempt s"
  by (simp add: syncSale_def attempt_simps)

lemma attempt_closeSale [attempt_simps]: "h_attempt (closeSale env i s) = h_attempt s"
  by (simp add: closeSale_def Let_def attempt_simps)

lemma attempt_choose_category [attempt_simps]: "h_attempt (choose_category s) = h_attempt s"
  by (simp add: choose_category_def split: option.splits)

lemma attempt_mutate [attempt_simps]: "h_attempt (mutate m r s) = h_attempt s"
  by (simp add: mutate_def)

lemmas mutators = openSale_def mutateAddLine_def mutateAddBarcode_def mutateResolve_def
  mutateRemoveLine_def mutateStock_def

lemma attempt_resume [attempt_simps]: "h_attempt (resume env s) = h_attempt s"
  by (simp add: resume_def openSale_def attempt_simps split: option.splits list.splits)

lemma attempt_landed [attempt_simps]: "h_attempt (landed fl a s) = h_attempt s"
  by (simp add: landed_def)

section \<open>The bookkeeping invariant\<close>

text \<open>
  Calls in flight have identifiers of their own; a hook is pending only on a call of its kind that
  is in flight; calls that open or charge a sale are in flight only while their hook follows them.
\<close>

definition exclusive :: "mutation_kind \<Rightarrow> bool" where
  "exclusive k \<longleftrightarrow> k = CheckoutK \<or> k = OpenSaleK"

definition net_ok :: "home \<Rightarrow> bool" where
  "net_ok s \<longleftrightarrow> distinct (map fl_id (h_flights s)) \<and> (\<forall>fl \<in> set (h_flights s). fl_id fl < h_next s)
     \<and> (\<forall>k i. h_observed s k = Running i \<longrightarrow>
          (\<exists>fl \<in> set (h_flights s). fl_id fl = i \<and> kind_of (fl_mutation fl) = k))
     \<and> (\<forall>fl \<in> set (h_flights s). exclusive (kind_of (fl_mutation fl)) \<longrightarrow>
          h_observed s (kind_of (fl_mutation fl)) = Running (fl_id fl))"

lemma net_ok_cong: "net s' = net s \<Longrightarrow> net_ok s' = net_ok s"
  by (simp add: net_ok_def net_def)

lemma net_ok_mutate:
  assumes "net_ok s" and "exclusive (kind_of m) \<Longrightarrow> \<not> isPending s (kind_of m)"
  shows "net_ok (mutate m r s)"
proof -
  have fresh: "fl_id fl \<noteq> h_next s" if "fl \<in> set (h_flights s)" for fl
    using assms(1) that by (auto simp: net_ok_def)
  have "kind_of (fl_mutation fl) \<noteq> kind_of m"
    if "fl \<in> set (h_flights s)" "exclusive (kind_of (fl_mutation fl))" for fl
    using assms that by (auto simp: net_ok_def isPending_def)
  with fresh assms(1) show ?thesis
    unfolding net_ok_def mutate_def
    by (auto simp: less_Suc_eq dest: fresh)
qed

lemma net_ok_landed:
  assumes "net_ok s" and "fl \<in> set (h_flights s)"
  shows "net_ok (landed fl a s)"
proof -
  have "outcome a \<noteq> Running i" for i by (simp add: outcome_def split: answer.splits)
  then show ?thesis
    using assms unfolding net_ok_def landed_def
    by (auto simp: distinct_map_filter) fastforce
qed

lemma at_most_one:
  assumes "net_ok s" and "exclusive k"
  shows "length (filter (\<lambda>fl. kind_of (fl_mutation fl) = k) (h_flights s)) \<le> 1"
proof (rule ccontr)
  let ?fs = "filter (\<lambda>fl. kind_of (fl_mutation fl) = k) (h_flights s)"
  assume "\<not> length ?fs \<le> 1"
  then obtain a b r where fs: "?fs = a # b # r" by (cases ?fs; cases "tl ?fs") auto
  have "a \<in> set ?fs" and "b \<in> set ?fs" unfolding fs by simp_all
  then have "h_observed s k = Running (fl_id a)" and "h_observed s k = Running (fl_id b)"
    using assms by (auto simp: net_ok_def)
  then have "fl_id a = fl_id b" by simp
  moreover have "distinct (map fl_id ?fs)" using assms(1) by (simp add: net_ok_def distinct_map_filter)
  ultimately show False by (simp add: fs)
qed


lemma net_ok_resume: "net_ok s \<Longrightarrow> net_ok (resume env s)"
proof -
  assume *: "net_ok s"
  have "net_ok (s\<lparr>h_sale := x\<rparr>)" for x using * by (simp add: net_ok_def)
  then show ?thesis
    using * by (auto simp: resume_def openSale_def intro!: net_ok_mutate split: option.splits list.splits)
qed

lemma net_ok_effects: "net_ok s \<Longrightarrow> net_ok (effects env s)"
  by (simp add: effects_def net_ok_resume net_ok_cong [OF net_choose_category])

text \<open>
  Every step leaves the bookkeeping as it is or adds one call to it (and settling a call first
  lands it).
\<close>

lemma net_update_eq: "net s = net (s\<lparr>h_lineError := a\<rparr>)"
  by (simp add: net_def)

lemma net_mutate_cong: "net t = net s \<Longrightarrow> net (mutate m r t) = net (mutate m r s)"
  by (simp add: net_def mutate_def)

lemma net_code_resolved:
  "net (code_resolved env code p s) = net s
   \<or> (\<exists>r. net (code_resolved env code p s) = net (mutate (AddBarcodeM code) r s))"
proof (cases "truthy (pr_is_sold_by_weight p)")
  case True
  then show ?thesis by (simp add: code_resolved_def Let_def net_def)
next
  case False
  then show ?thesis
    by (intro disjI2 exI) (simp add: code_resolved_def Let_def mutateAddBarcode_def net_def mutate_def)
qed

lemmas callbacks = sale_opened_def line_added_def barcode_line_added_def syncSale_def
  update_drafts_def closeSale_def Let_def checkout_done_def checkout_failed_def

lemma net_answered:
  assumes "answered env m a s = Some s'"
  shows "net s' = net s \<or> (\<exists>c r. net s' = net (mutate (AddBarcodeM c) r s))"
proof (cases "\<exists>code. m = ResolveM code")
  case True
  then obtain code where m: "m = ResolveM code" by blast
  show ?thesis
  proof (cases a)
    case (GotProduct p)
    with assms m have s': "s' = code_resolved env code p s" by simp
    show ?thesis unfolding s' using net_code_resolved [of env code p s] by blast
  next
    case (Failed f)
    with assms m have "net s' = net s" by (auto simp: net_def)
    then show ?thesis ..
  qed (use assms m in simp_all)
next
  case False
  with assms have "net s' = net s" by (cases m; cases a) (auto simp: net_def callbacks)
  then show ?thesis ..
qed

lemma net_ok_answered:
  assumes "net_ok s" and "answered env m a s = Some s'"
  shows "net_ok s'"
proof -
  have "net_ok (mutate (AddBarcodeM c) r s)" for c r
    by (rule net_ok_mutate [OF assms(1)]) (simp add: exclusive_def)
  with net_answered [OF assms(2)] net_ok_cong assms(1) show ?thesis by metis
qed

lemma net_ok_settle: "net_ok s \<Longrightarrow> net_ok (settle env i a s)"
  using net_ok_landed net_ok_answered
  by (fastforce simp: settle_def dest: find_map_of_id split: option.splits)

lemma net_ok_update [simp]:
  "net_ok (s\<lparr>h_barcode := a\<rparr>) = net_ok s" "net_ok (s\<lparr>h_searchOpen := b\<rparr>) = net_ok s"
  "net_ok (s\<lparr>h_search := c\<rparr>) = net_ok s" "net_ok (s\<lparr>h_stockError := d\<rparr>) = net_ok s"
  "net_ok (s\<lparr>h_checkoutError := e\<rparr>) = net_ok s" "net_ok (s\<lparr>h_attempt := f\<rparr>) = net_ok s"
  "net_ok (s\<lparr>h_uuids := g\<rparr>) = net_ok s"
  by (simp_all add: net_ok_def)

lemma net_ok_confirmCheckout: "net_ok s \<Longrightarrow> net_ok (confirmCheckout env ps s)"
  by (auto simp: confirmCheckout_def Let_def isPending_def intro!: net_ok_mutate
    split: option.splits prod.splits)

lemma net_ok_pickProduct: "net_ok s \<Longrightarrow> net_ok (pickProduct env p s)"
proof -
  assume *: "net_ok s"
  have "net_ok (mutate AddLineM r (s\<lparr>h_pendingQuantity := x\<rparr>))" for r x
    using * by (intro net_ok_mutate) (simp_all add: net_ok_def exclusive_def)
  with * show ?thesis
    by (simp add: pickProduct_def Let_def mutateAddLine_def net_ok_def)
qed

lemma net_ok_mutate_plain: "net_ok s \<Longrightarrow> \<not> exclusive (kind_of m) \<Longrightarrow> net_ok (mutate m r s)"
  by (rule net_ok_mutate) auto

lemma net_ok_handle:
  assumes "net_ok s" and "home_enabled env s e"
  shows "net_ok (handle env s e)"
proof (cases e)
  case RetryOpen
  with assms show ?thesis
    by (auto simp: openSale_def home_enabled_def failedToOpenSale_def isPending_def intro!: net_ok_mutate)
next
  case NewSale
  with assms show ?thesis by (auto simp: openSale_def home_enabled_def intro!: net_ok_mutate)
next
  case CobrarClick
  with assms show ?thesis
    by (simp add: startCheckout_def mutateStock_def net_ok_mutate_plain exclusive_def)
next
  case (SearchPick p)
  with assms show ?thesis by (simp add: net_ok_pickProduct)
qed (use assms in \<open>auto simp: net_ok_settle net_ok_confirmCheckout net_ok_pickProduct mutators
    mutateCancel_def handleBarcodeSubmit_def Let_def net_ok_mutate_plain exclusive_def
    split: option.splits\<close>, (use assms in \<open>auto simp: net_ok_def selectSale_def leaveCheckout_def\<close>)?)

interpretation home_net: event_machine "home_enabled env" "home_move env" home_init net_ok
proof unfold_locales
  show "net_ok home_init" by (simp add: net_ok_def home_init_def)
  show "net_ok (home_move env s e)" if "net_ok s" "home_enabled env s e" for s e
    using that by (simp add: home_move_def net_ok_effects net_ok_handle)
qed


section \<open>Idempotency keys\<close>

text \<open>A request that charges sale \<open>i\<close> with key \<open>k\<close> has been sent.\<close>

definition charged :: "home \<Rightarrow> int \<Rightarrow> jsstring \<Rightarrow> api_call \<Rightarrow> bool" where
  "charged s i k c \<longleftrightarrow> (\<exists>ps. (CheckoutM i ps k, c) \<in> set (h_sent s))"

text \<open>What the keys depend on, and the steps that can only drop the current attempt.\<close>

definition keeps_keys :: "home \<Rightarrow> home \<Rightarrow> bool" where
  "keeps_keys s s' \<longleftrightarrow> charged s' = charged s \<and> h_uuids s' = h_uuids s
     \<and> (h_attempt s' = h_attempt s \<or> h_attempt s' = None)"

lemma keeps_keys_refl [simp]: "keeps_keys s s"
  by (simp add: keeps_keys_def)

lemma keeps_keys_trans: "keeps_keys a b \<Longrightarrow> keeps_keys b c \<Longrightarrow> keeps_keys a c"
  by (auto simp: keeps_keys_def)

lemma keeps_keys_net:
  "net s' = net s \<Longrightarrow> h_attempt s' = h_attempt s \<or> h_attempt s' = None \<Longrightarrow> keeps_keys s s'"
  by (simp add: keeps_keys_def net_def charged_def fun_eq_iff)

lemma keeps_keys_mutate: "kind_of m \<noteq> CheckoutK \<Longrightarrow> keeps_keys s (mutate m r s)"
  by (cases m) (auto simp: keeps_keys_def mutate_def charged_def fun_eq_iff split: sum.splits)

lemma keeps_keys_resume: "keeps_keys s (resume env s)"
  by (auto simp: resume_def openSale_def keeps_keys_net net_def intro!: keeps_keys_mutate
    split: option.splits list.splits)

lemma keeps_keys_effects: "keeps_keys s (effects env s)"
  unfolding effects_def
  by (rule keeps_keys_trans [OF keeps_keys_net keeps_keys_resume]) (simp_all add: net_simps attempt_simps)

lemma attempt_answered:
  "answered env m a s = Some s' \<Longrightarrow> h_attempt s' = h_attempt s \<or> h_attempt s' = None"
  by (cases m; cases a)
    (auto simp: callbacks code_resolved_def mutateAddBarcode_def mutate_def split: if_splits)

lemma keeps_keys_answered:
  assumes "answered env m a s = Some s'"
  shows "keeps_keys s s'"
proof -
  have "charged s' = charged s \<and> h_uuids s' = h_uuids s"
    using net_answered [OF assms]
  proof (elim disjE exE)
    assume "net s' = net s"
    then show ?thesis by (simp add: net_def charged_def fun_eq_iff)
  next
    fix c r
    assume "net s' = net (mutate (AddBarcodeM c) r s)"
    moreover have "keeps_keys s (mutate (AddBarcodeM c) r s)" by (simp add: keeps_keys_mutate)
    ultimately show ?thesis by (simp add: net_def charged_def keeps_keys_def fun_eq_iff)
  qed
  with attempt_answered [OF assms] show ?thesis by (simp add: keeps_keys_def)
qed

lemma keeps_keys_settle: "keeps_keys s (settle env i a s)"
proof -
  have landed: "keeps_keys s (landed fl a s)" for fl
    by (simp add: keeps_keys_def landed_def charged_def fun_eq_iff)
  show ?thesis
    by (auto simp: settle_def split: option.splits
      intro: keeps_keys_trans [OF landed keeps_keys_answered])
qed

lemma keeps_keys_via:
  "keeps_keys s' (mutate m r s') \<Longrightarrow> net s' = net s \<Longrightarrow> h_attempt s' = h_attempt s \<or> h_attempt s' = None
     \<Longrightarrow> keeps_keys s (mutate m r s')"
  by (rule keeps_keys_trans [OF keeps_keys_net])

lemma keeps_keys_pickProduct: "keeps_keys s (pickProduct env p s)"
proof -
  have "keeps_keys s (mutate AddLineM r (s\<lparr>h_pendingQuantity := x\<rparr>))" for r x
    by (rule keeps_keys_via) (simp_all add: keeps_keys_mutate net_def)
  then have "keeps_keys s ((mutate AddLineM r (s\<lparr>h_pendingQuantity := x\<rparr>))\<lparr>h_surcharge := y\<rparr>)" for r x y
    by (simp add: keeps_keys_def charged_def fun_eq_iff)
  then show ?thesis
    by (auto simp: pickProduct_def Let_def mutateAddLine_def intro: keeps_keys_net simp: net_def)
qed

lemma keeps_keys_handle:
  assumes "\<forall>ps. e \<noteq> ConfirmPayments ps"
  shows "keeps_keys s (handle env s e)"
proof (cases e)
  case CobrarClick
  then show ?thesis
    by (simp add: startCheckout_def mutateStock_def keeps_keys_via keeps_keys_mutate net_def)
next
  case (SearchPick p)
  have "keeps_keys s (s\<lparr>h_searchOpen := False, h_search := []\<rparr>)"
    by (rule keeps_keys_net) (simp_all add: net_def)
  with SearchPick keeps_keys_pickProduct keeps_keys_trans show ?thesis by simp
next
  case BarcodeSubmit
  then show ?thesis by (simp add: handleBarcodeSubmit_def Let_def mutateResolve_def keeps_keys_mutate)
qed (use assms in \<open>auto simp: keeps_keys_settle keeps_keys_pickProduct mutators mutateCancel_def
    keeps_keys_mutate net_def selectSale_def leaveCheckout_def intro: keeps_keys_net
    split: option.splits\<close>)

text \<open>
  Every key sent is one of the values drawn so far and belongs to one sale; so does the key of the
  attempt at hand.
\<close>

definition key_ok :: "home_env \<Rightarrow> home \<Rightarrow> bool" where
  "key_ok env s \<longleftrightarrow>
     (\<forall>i k c. charged s i k c \<longrightarrow> k \<in> he_uuid env ` {..<h_uuids s} \<and> (\<forall>j c'. charged s j k c' \<longrightarrow> j = i))
     \<and> (\<forall>i k. h_attempt s = Some (i, k) \<longrightarrow>
          k \<in> he_uuid env ` {..<h_uuids s} \<and> (\<forall>j c. charged s j k c \<longrightarrow> j = i))"

lemma key_ok_keeps: "key_ok env s \<Longrightarrow> keeps_keys s s' \<Longrightarrow> key_ok env s'"
  unfolding key_ok_def keeps_keys_def by (elim conjE disjE) (simp_all only:, blast+)

lemma charged_mutate_checkout:
  "charged (mutate (CheckoutM i ps k) (Inr c) s) j k' c' \<longleftrightarrow>
     charged s j k' c' \<or> (j = i \<and> k' = k \<and> c' = c)"
  "charged (mutate (CheckoutM i ps k) (Inl e) s) = charged s"
  by (auto simp: charged_def mutate_def fun_eq_iff)

lemma key_okD:
  assumes "key_ok env s"
  shows "charged s i k c \<Longrightarrow> k \<in> he_uuid env ` {..<h_uuids s}"
    and "charged s i k c \<Longrightarrow> charged s j k c' \<Longrightarrow> j = i"
    and "h_attempt s = Some (i, k) \<Longrightarrow> k \<in> he_uuid env ` {..<h_uuids s}"
    and "h_attempt s = Some (i, k) \<Longrightarrow> charged s j k c \<Longrightarrow> j = i"
  using assms unfolding key_ok_def by blast+

lemma key_okI:
  assumes "\<And>i k c. charged s i k c \<Longrightarrow> k \<in> he_uuid env ` {..<h_uuids s}"
    and "\<And>i j k c c'. charged s i k c \<Longrightarrow> charged s j k c' \<Longrightarrow> j = i"
    and "\<And>i k. h_attempt s = Some (i, k) \<Longrightarrow> k \<in> he_uuid env ` {..<h_uuids s}"
    and "\<And>i j k c. h_attempt s = Some (i, k) \<Longrightarrow> charged s j k c \<Longrightarrow> j = i"
  shows "key_ok env s"
  using assms unfolding key_ok_def by blast

lemma key_ok_charge:
  assumes "key_ok env s" and "h_attempt s = Some (i, k)"
  shows "key_ok env (mutate (CheckoutM i ps k) r s)"
proof -
  note ok = key_okD [OF assms(1)]
  have same: "h_uuids (mutate m r s) = h_uuids s" for m by (simp add: mutate_def)
  have split: "charged (mutate (CheckoutM i ps k) r s) j k' c' \<Longrightarrow> charged s j k' c' \<or> (j = i \<and> k' = k)" for j k' c'
    by (cases r) (auto simp: charged_mutate_checkout)
  show ?thesis
  proof (rule key_okI, unfold same attempt_simps)
    fix j j' k' c c'
    assume "charged (mutate (CheckoutM i ps k) r s) j k' c"
    then have 1: "charged s j k' c \<or> (j = i \<and> k' = k)" by (rule split)
    then show "k' \<in> he_uuid env ` {..<h_uuids s}" using ok(1,3) assms(2) by blast
    assume "charged (mutate (CheckoutM i ps k) r s) j' k' c'"
    then have "charged s j' k' c' \<or> (j' = i \<and> k' = k)" by (rule split)
    with 1 ok(2) ok(4) [OF assms(2)] show "j' = j" by blast
  next
    fix j j' k' c
    assume att: "h_attempt s = Some (j, k')"
    then show "k' \<in> he_uuid env ` {..<h_uuids s}" by (rule ok(3))
    assume "charged (mutate (CheckoutM i ps k) r s) j' k' c"
    then have "charged s j' k' c \<or> j' = i" using split by blast
    moreover have "j = i" using att assms(2) by simp
    ultimately show "j' = j" using ok(4) [OF att] by blast
  qed
qed

lemma key_ok_draw:
  assumes "key_ok env s" and "inj (he_uuid env)"
  shows "key_ok env (s\<lparr>h_attempt := Some (i, he_uuid env (h_uuids s)), h_uuids := Suc (h_uuids s)\<rparr>)"
proof -
  have "\<not> charged s j (he_uuid env (h_uuids s)) c" for j c
  proof
    assume "charged s j (he_uuid env (h_uuids s)) c"
    then have "he_uuid env (h_uuids s) \<in> he_uuid env ` {..<h_uuids s}"
      using assms(1) unfolding key_ok_def by blast
    then obtain n where "n < h_uuids s" "he_uuid env (h_uuids s) = he_uuid env n" by auto
    with assms(2) show False by (metis injD less_irrefl)
  qed
  moreover have "charged (s\<lparr>h_attempt := a, h_uuids := b\<rparr>) = charged s" for a b
    by (simp add: charged_def fun_eq_iff)
  ultimately show ?thesis
    using assms(1) by (auto simp: key_ok_def lessThan_Suc)
qed

lemma key_ok_confirmCheckout:
  assumes "key_ok env s" and "inj (he_uuid env)"
  shows "key_ok env (confirmCheckout env ps s)"
proof (cases "h_sale s = None \<or> isPending s CheckoutK")
  case True
  with assms show ?thesis by (auto simp: confirmCheckout_def split: option.splits)
next
  case False
  then obtain sale where sale: "h_sale s = Some sale" and idle: "\<not> isPending s CheckoutK" by auto
  have fresh: "key_ok env (mutate (CheckoutM (sa_id sale) ps k) r
      (s\<lparr>h_attempt := Some (sa_id sale, k), h_uuids := Suc (h_uuids s)\<rparr>))"
    if "k = he_uuid env (h_uuids s)" for k r
    using key_ok_draw [OF assms] that by (intro key_ok_charge) auto
  have again: "key_ok env (mutate (CheckoutM (sa_id sale) ps k) r
      (s\<lparr>h_attempt := Some (sa_id sale, k), h_uuids := h_uuids s\<rparr>))"
    if "h_attempt s = Some (sa_id sale, k)" for k r
  proof -
    have "s\<lparr>h_attempt := Some (sa_id sale, k), h_uuids := h_uuids s\<rparr> = s" using that by simp
    then show ?thesis using key_ok_charge [OF assms(1) that] by simp
  qed
  show ?thesis
    using sale idle fresh again
    by (auto simp: confirmCheckout_def Let_def split: option.splits prod.splits if_splits)
qed

lemma home_keys: "inj (he_uuid env) \<Longrightarrow>
  event_machine (home_enabled env) (home_move env) home_init (key_ok env)"
proof unfold_locales
  assume inj: "inj (he_uuid env)"
  show "key_ok env home_init" by (simp add: key_ok_def home_init_def charged_def)
  show "key_ok env (home_move env s e)" if "key_ok env s" "home_enabled env s e" for s e
  proof (cases "\<exists>ps. e = ConfirmPayments ps")
    case True
    then show ?thesis
      using key_ok_keeps [OF key_ok_confirmCheckout [OF that(1) inj] keeps_keys_effects]
      by (auto simp: home_move_def)
  next
    case False
    then show ?thesis
      using key_ok_keeps [OF that(1)] keeps_keys_trans [OF keeps_keys_handle keeps_keys_effects]
      by (simp add: home_move_def)
  qed
qed


text \<open>Every checkout sent is the checkout call of its sale, with its key.\<close>

definition wire_ok :: "home \<Rightarrow> bool" where
  "wire_ok s \<longleftrightarrow> (\<forall>i k c. charged s i k c \<longrightarrow> (\<exists>ps t. c = checkout i ps k t))"

lemma wire_ok_keeps: "wire_ok s \<Longrightarrow> keeps_keys s s' \<Longrightarrow> wire_ok s'"
  by (simp add: wire_ok_def keeps_keys_def)

text \<open>What \<open>confirmCheckout\<close> sends.\<close>

definition attempt_key :: "home_env \<Rightarrow> home \<Rightarrow> sale \<Rightarrow> jsstring" where
  "attempt_key env s sale =
     (case h_attempt s of
        Some (i, k) \<Rightarrow> if i = sa_id sale then k else he_uuid env (h_uuids s)
      | None \<Rightarrow> he_uuid env (h_uuids s))"

lemma confirmCheckout_sent:
  assumes "h_sale s = Some sale" and "\<not> isPending s CheckoutK"
  shows "h_sent (confirmCheckout env ps s) = h_sent s @ (case he_terminal env of
      Some t \<Rightarrow> [(CheckoutM (sa_id sale) ps (attempt_key env s sale),
                  checkout (sa_id sale) ps (attempt_key env s sale) t)]
    | None \<Rightarrow> [])"
    and "h_attempt (confirmCheckout env ps s) = Some (sa_id sale, attempt_key env s sale)"
  using assms
  by (auto simp: confirmCheckout_def attempt_key_def Let_def mutate_def split: option.splits prod.splits)

lemma confirmCheckout_idle:
  "h_sale s = None \<or> isPending s CheckoutK \<Longrightarrow> confirmCheckout env ps s = s"
  by (auto simp: confirmCheckout_def split: option.splits)

lemma charged_confirmCheckout:
  assumes "charged (confirmCheckout env ps s) i k c"
  shows "charged s i k c \<or> (\<exists>t. c = checkout i ps k t)"
proof (cases "h_sale s = None \<or> isPending s CheckoutK")
  case True
  with assms show ?thesis by (simp add: confirmCheckout_idle)
next
  case False
  then obtain sale where sale: "h_sale s = Some sale" and idle: "\<not> isPending s CheckoutK" by auto
  then show ?thesis
    using assms by (auto simp: charged_def confirmCheckout_sent split: option.splits)
qed

interpretation home_wire: event_machine "home_enabled env" "home_move env" home_init wire_ok
proof unfold_locales
  show "wire_ok home_init" by (simp add: wire_ok_def charged_def home_init_def)
  fix s e
  assume ok: "wire_ok s"
  show "wire_ok (home_move env s e)"
  proof (cases "\<exists>ps. e = ConfirmPayments ps")
    case True
    then obtain ps where e: "e = ConfirmPayments ps" by blast
    have "wire_ok (confirmCheckout env ps s)"
      using ok charged_confirmCheckout unfolding wire_ok_def by blast
    then show ?thesis
      unfolding home_move_def e handle.simps by (rule wire_ok_keeps [OF _ keeps_keys_effects])
  next
    case False
    then show ?thesis
      unfolding home_move_def
      by (intro wire_ok_keeps [OF wire_ok_keeps [OF ok keeps_keys_handle] keeps_keys_effects]) blast
  qed
qed

section \<open>The attempt survives a retry\<close>

text \<open>
  The events that end a payment intention for sale \<open>i\<close>: leaving the payment step, choosing another
  sale, starting again from the cart, paying another sale, and an answer that completes a sale or
  reports missing stock.
\<close>

definition ends_attempt :: "int \<Rightarrow> home \<Rightarrow> home_event \<Rightarrow> bool" where
  "ends_attempt i s e \<longleftrightarrow>
     (case e of
        LeaveCheckout \<Rightarrow> True
      | SelectSale _ \<Rightarrow> True
      | CobrarClick \<Rightarrow> True
      | ConfirmPayments _ \<Rightarrow> \<not> isPending s CheckoutK \<and> (\<exists>x. h_sale s = Some x \<and> sa_id x \<noteq> i)
      | Settle j a \<Rightarrow> (case find (\<lambda>fl. fl_id fl = j) (h_flights s) of
            None \<Rightarrow> False
          | Some fl \<Rightarrow> kind_of (fl_mutation fl) = CheckoutK
              \<and> (case a of GotSale _ \<Rightarrow> True | Failed f \<Rightarrow> insufficient_stock f | _ \<Rightarrow> False))
      | _ \<Rightarrow> False)"

text \<open>No event of a run ends it.\<close>

fun intention_lives :: "home_env \<Rightarrow> int \<Rightarrow> home \<Rightarrow> home_event list \<Rightarrow> bool" where
  "intention_lives env i s [] = True"
| "intention_lives env i s (e # es) = (\<not> ends_attempt i s e \<and> intention_lives env i (home_move env s e) es)"

lemma attempt_answered_other:
  assumes "answered env m a s = Some s'"
    and "kind_of m = CheckoutK \<longrightarrow> (\<exists>f. a = Failed f \<and> \<not> insufficient_stock f)"
  shows "h_attempt s' = h_attempt s"
  using assms
  by (cases m; cases a)
    (auto simp: callbacks code_resolved_def mutateAddBarcode_def mutate_def split: if_splits)

lemma attempt_settle:
  assumes "\<not> ends_attempt i s (Settle j a)"
  shows "h_attempt (settle env j a s) = h_attempt s"
proof (cases "find (\<lambda>fl. fl_id fl = j) (h_flights s)")
  case None
  then show ?thesis by (simp add: settle_def)
next
  case (Some fl)
  show ?thesis
  proof (cases "answered env (fl_mutation fl) a (landed fl a s)")
    case None
    with Some show ?thesis by (simp add: settle_def)
  next
    case (Some s')
    have "kind_of (fl_mutation fl) = CheckoutK \<longrightarrow> (\<exists>f. a = Failed f \<and> \<not> insufficient_stock f)"
      using assms \<open>find _ _ = Some fl\<close> Some
      by (cases "fl_mutation fl"; cases a) (auto simp: ends_attempt_def)
    from attempt_answered_other [OF Some this] Some \<open>find _ _ = Some fl\<close> show ?thesis
      by (simp add: settle_def attempt_simps)
  qed
qed

lemma attempt_pickProduct [attempt_simps]: "h_attempt (pickProduct env p s) = h_attempt s"
  by (simp add: pickProduct_def Let_def mutateAddLine_def mutate_def)

lemma attempt_effects [attempt_simps]: "h_attempt (effects env s) = h_attempt s"
  by (simp add: effects_def attempt_simps)

lemma attempt_move:
  assumes "\<not> ends_attempt i s e" and "h_attempt s = Some (i, k)"
  shows "h_attempt (home_move env s e) = Some (i, k)"
proof (cases e)
  case (Settle j a)
  with assms attempt_settle [of i s j a env] show ?thesis by (simp add: home_move_def attempt_simps)
next
  case (ConfirmPayments ps)
  show ?thesis
  proof (cases "h_sale s = None \<or> isPending s CheckoutK")
    case True
    with assms ConfirmPayments show ?thesis
      by (simp add: home_move_def attempt_simps confirmCheckout_idle)
  next
    case False
    then obtain sale where "h_sale s = Some sale" "\<not> isPending s CheckoutK" by auto
    with assms ConfirmPayments show ?thesis
      by (auto simp: home_move_def attempt_simps confirmCheckout_sent attempt_key_def ends_attempt_def)
  qed
qed (use assms in \<open>auto simp: home_move_def attempt_simps mutators mutateCancel_def
    ends_attempt_def handleBarcodeSubmit_def Let_def split: option.splits\<close>)

lemma attempt_kept:
  "intention_lives env i s es \<Longrightarrow> h_attempt s = Some (i, k) \<Longrightarrow> h_attempt (foldl (home_move env) s es) = Some (i, k)"
  by (induction es arbitrary: s) (auto intro: attempt_move)

text \<open>After the end of an intention every key is one drawn since.\<close>

definition fresh_since :: "home_env \<Rightarrow> nat \<Rightarrow> home \<Rightarrow> bool" where
  "fresh_since env n s \<longleftrightarrow> n \<le> h_uuids s
     \<and> (\<forall>j k. h_attempt s = Some (j, k) \<longrightarrow> (\<exists>m \<ge> n. k = he_uuid env m))"

lemma fresh_earlier: "fresh_since env n s \<Longrightarrow> m \<le> n \<Longrightarrow> fresh_since env m s"
  unfolding fresh_since_def by (meson le_trans)

lemma fresh_since_key:
  assumes "fresh_since env n s"
  obtains m where "attempt_key env s sale = he_uuid env m" "n \<le> m"
proof (cases "attempt_key env s sale = he_uuid env (h_uuids s)")
  case False
  then have "h_attempt s = Some (sa_id sale, attempt_key env s sale)"
    by (auto simp: attempt_key_def split: option.splits if_splits)
  then show ?thesis using assms that unfolding fresh_since_def by blast
qed (use assms that in \<open>simp add: fresh_since_def\<close>)

lemma fresh_keeps: "fresh_since env n s \<Longrightarrow> keeps_keys s s' \<Longrightarrow> fresh_since env n s'"
  by (auto simp: fresh_since_def keeps_keys_def)

lemma confirmCheckout_uuids: "h_uuids s \<le> h_uuids (confirmCheckout env ps s)"
  by (auto simp: confirmCheckout_def Let_def mutate_def split: option.splits prod.splits)

lemma fresh_confirmCheckout: "fresh_since env n s \<Longrightarrow> fresh_since env n (confirmCheckout env ps s)"
proof (cases "h_sale s = None \<or> isPending s CheckoutK")
  case False
  assume fresh: "fresh_since env n s"
  obtain sale where "h_sale s = Some sale" "\<not> isPending s CheckoutK" using False by auto
  then have "h_attempt (confirmCheckout env ps s) = Some (sa_id sale, attempt_key env s sale)"
    by (rule confirmCheckout_sent)
  with fresh confirmCheckout_uuids [of s env ps] show ?thesis
    by (fastforce simp: fresh_since_def attempt_key_def split: option.splits)
qed (simp add: confirmCheckout_idle)

lemma fresh_move: "fresh_since env n s \<Longrightarrow> fresh_since env n (home_move env s e)"
proof (cases "\<exists>ps. e = ConfirmPayments ps")
  case True
  assume "fresh_since env n s"
  with True show ?thesis
    using fresh_keeps [OF fresh_confirmCheckout keeps_keys_effects] by (auto simp: home_move_def)
next
  case False
  assume "fresh_since env n s"
  with False show ?thesis
    unfolding home_move_def by (intro fresh_keeps [OF fresh_keeps [OF _ keeps_keys_handle] keeps_keys_effects]) auto
qed

lemma uuids_move: "h_uuids s \<le> h_uuids (home_move env s e)"
proof (cases "\<exists>ps. e = ConfirmPayments ps")
  case True
  then show ?thesis
    using confirmCheckout_uuids [of s env] keeps_keys_effects by (auto simp: home_move_def keeps_keys_def)
next
  case False
  then show ?thesis
    using keeps_keys_handle [of e s env] keeps_keys_effects by (auto simp: home_move_def keeps_keys_def)
qed

lemma attempt_ended:
  assumes "ends_attempt i s e" and "h_attempt s = Some (i, k)"
  shows "fresh_since env (h_uuids s) (home_move env s e)"
proof -
  have none: "fresh_since env (h_uuids s) (handle env s e)"
    if "h_attempt (handle env s e) = None" and "keeps_keys s (handle env s e)"
    using that by (simp add: fresh_since_def keeps_keys_def)
  have "fresh_since env (h_uuids s) (handle env s e)"
  proof (cases e)
    case (ConfirmPayments ps)
    then obtain x where x: "h_sale s = Some x" "\<not> isPending s CheckoutK" "sa_id x \<noteq> i"
      using assms(1) by (auto simp: ends_attempt_def)
    then show ?thesis
      using assms(2) confirmCheckout_uuids [of s env ps] ConfirmPayments
      by (auto simp: fresh_since_def confirmCheckout_sent attempt_key_def)
  next
    case (Settle j a)
    then obtain fl where fl: "find (\<lambda>fl. fl_id fl = j) (h_flights s) = Some fl"
        "kind_of (fl_mutation fl) = CheckoutK"
        "case a of GotSale _ \<Rightarrow> True | Failed f \<Rightarrow> insufficient_stock f | _ \<Rightarrow> False"
      using assms(1) by (auto simp: ends_attempt_def split: option.splits)
    then have "h_attempt (handle env s e) = None"
      using Settle by (cases "fl_mutation fl"; cases a)
        (auto simp: settle_def checkout_done_def checkout_failed_def attempt_simps)
    then show ?thesis by (rule none) (simp add: Settle keeps_keys_settle)
  next
    case CobrarClick
    then show ?thesis
      using keeps_keys_handle [of e s env]
      by (intro none) (simp_all add: startCheckout_def mutateStock_def attempt_simps)
  qed (use assms(1) in \<open>simp_all add: ends_attempt_def fresh_since_def leaveCheckout_def selectSale_def\<close>)
  then show ?thesis unfolding home_move_def by (rule fresh_keeps [OF _ keeps_keys_effects])
qed

lemma intention_ended:
  assumes "\<not> intention_lives env i s es" and "h_attempt s = Some (i, k)"
  shows "fresh_since env (h_uuids s) (foldl (home_move env) s es)"
  using assms
proof (induction es arbitrary: s)
  case (Cons e es)
  have run: "fresh_since env n t \<Longrightarrow> fresh_since env n (foldl (home_move env) t es)" for n t
    by (induction es arbitrary: t) (simp_all add: fresh_move)
  show ?case
  proof (cases "ends_attempt i s e")
    case True
    then show ?thesis using run [OF attempt_ended [OF True Cons.prems(2)]] by simp
  next
    case False
    then have "h_attempt (home_move env s e) = Some (i, k)" using Cons.prems(2) by (rule attempt_move)
    then have "fresh_since env (h_uuids (home_move env s e)) (foldl (home_move env) (home_move env s e) es)"
      using Cons.IH Cons.prems(1) False by simp
    then show ?thesis using fresh_earlier [OF _ uuids_move [of s env e]] by simp
  qed
qed simp


section \<open>A sale to work on\<close>

definition till_ready :: "home_env \<Rightarrow> home \<Rightarrow> bool" where
  "till_ready env s \<longleftrightarrow> he_terminal env \<noteq> None \<and> he_warehouse env \<noteq> None \<and> locationId s \<noteq> None
     \<and> q_data (h_drafts s) \<noteq> None"

lemma mutate_pending: "isPending (mutate m r s) (kind_of m)"
  by (simp add: mutate_def isPending_def)

lemma resume_resumed:
  "till_ready env (resume env s) \<Longrightarrow>
     h_sale (resume env s) \<noteq> None \<or> isPending (resume env s) OpenSaleK \<or> failedToOpenSale (resume env s)"
  using mutate_pending [of OpenSaleM]
  by (auto simp: resume_def till_ready_def openSale_def split: option.splits list.splits if_splits)

lemma resumed_without_sale:
  assumes "reached (home_enabled env) (home_move env) home_init s" and "till_ready env s" and "h_sale s = None"
  shows "(isPending s OpenSaleK \<or> failedToOpenSale s) \<and> q_data (h_drafts s) = Some []"
  using assms(1)
proof (cases rule: reached.cases)
  case reached_init
  with assms(2) show ?thesis by (simp add: till_ready_def home_init_def)
next
  case (reached_move s' e)
  then obtain r where r: "s = resume env r" by (auto simp: home_move_def effects_def)
  then have "till_ready env (resume env r)" "h_sale (resume env r) = None" using assms(2,3) by auto
  then show ?thesis
    using resume_resumed [of env r] unfolding r
    by (auto simp: resume_def till_ready_def openSale_def mutate_def split: option.splits list.splits if_splits)
qed

lemma pending_flight:
  "net_ok s \<Longrightarrow> isPending s k \<Longrightarrow>
     \<exists>fl \<in> set (h_flights s). kind_of (fl_mutation fl) = k \<and> h_observed s k = Running (fl_id fl)"
  by (fastforce simp: net_ok_def isPending_def split: observed.splits)

text \<open>With no sale at all, opening one and trying again.\<close>

lemma find_by_id:
  "distinct (map f xs) \<Longrightarrow> x \<in> set xs \<Longrightarrow> find (\<lambda>y. f y = f x) xs = Some x"
  by (induction xs) (auto simp: image_iff)

lemma effects_resume: "till_ready env s \<Longrightarrow> h_sale s = None \<Longrightarrow> failedToOpenSale s \<or> isPending s OpenSaleK
    \<Longrightarrow> q_data (h_drafts s) = Some [] \<Longrightarrow> effects env s = choose_category s"
  by (auto simp: effects_def resume_def choose_category_def failedToOpenSale_def isPending_def split: option.splits)

lemma choose_category_rest [simp]:
  "h_sale (choose_category s) = h_sale s" "h_receipt (choose_category s) = h_receipt s"
  "till_shown env (choose_category s) = till_shown env s"
  "failedToOpenSale (choose_category s) = failedToOpenSale s" "h_sent (choose_category s) = h_sent s"
  by (auto simp: choose_category_def till_shown_def failedToOpenSale_def locationId_def split: option.splits)

lemma retry_opens:
  assumes "till_ready env s" and "till_shown env s" and "h_receipt s = None" and "h_sale s = None"
    and "failedToOpenSale s" and "q_data (h_drafts s) = Some []"
  shows "home_enabled env s RetryOpen \<and> (\<exists>t w l. he_terminal env = Some t \<and> he_warehouse env = Some w
    \<and> locationId s = Some l \<and> h_sent (home_move env s RetryOpen) = h_sent s @ [(OpenSaleM, createSale t w l)])"
proof -
  obtain t w l where place: "he_terminal env = Some t" "he_warehouse env = Some w" "locationId s = Some l"
    using assms(1) by (auto simp: till_ready_def)
  let ?o = "openSale env s"
  have "till_ready env ?o" "h_sale ?o = None" "isPending ?o OpenSaleK" "q_data (h_drafts ?o) = Some []"
    using assms(1,4,6) mutate_pending [of OpenSaleM]
    by (auto simp: till_ready_def openSale_def mutate_def locationId_def)
  then have "effects env ?o = choose_category ?o" by (intro effects_resume) auto
  with place show ?thesis
    using assms by (simp add: home_enabled_def home_move_def) (simp add: openSale_def mutate_def)
qed

lemma open_answered:
  assumes net: "net_ok s" and fl: "fl \<in> set (h_flights s)" "fl_mutation fl = OpenSaleM"
    "h_observed s OpenSaleK = Running (fl_id fl)"
    and till: "till_ready env s" "till_shown env s" "h_receipt s = None" "h_sale s = None"
      "q_data (h_drafts s) = Some []"
  shows "h_sale (home_move env s (Settle (fl_id fl) (GotSale created))) = Some created"
    and "home_enabled env (home_move env s (Settle (fl_id fl) (Failed f))) RetryOpen"
proof -
  have found: "find (\<lambda>g. fl_id g = fl_id fl) (h_flights s) = Some fl"
    using net fl(1) by (intro find_by_id) (auto simp: net_ok_def)
  show "h_sale (home_move env s (Settle (fl_id fl) (GotSale created))) = Some created"
    using found fl(2) by (simp add: home_move_def settle_def effects_def resume_def sale_opened_def)
  let ?f = "landed fl (Failed f) s"
  have failed: "failedToOpenSale ?f" using fl(3) by (simp add: landed_def failedToOpenSale_def outcome_def)
  have same: "till_ready env ?f" "till_shown env ?f" "h_receipt ?f = None" "h_sale ?f = None"
      "q_data (h_drafts ?f) = Some []"
    using till by (auto simp: landed_def till_ready_def till_shown_def locationId_def)
  then have "effects env ?f = choose_category ?f" using failed by (intro effects_resume) auto
  then show "home_enabled env (home_move env s (Settle (fl_id fl) (Failed f))) RetryOpen"
    using found fl(2) failed same by (simp add: home_move_def settle_def home_enabled_def)
qed

text \<open>Closing a sale, and the effects after it.\<close>

lemma closeSale_drafts:
  "he_warehouse env \<noteq> None \<Longrightarrow>
     q_data (h_drafts (closeSale env i s)) =
       Some (without_sale i (case q_data (h_drafts s) of None \<Rightarrow> [] | Some ds \<Rightarrow> ds))
     \<and> h_sale (closeSale env i s) =
       first_or_null (without_sale i (case q_data (h_drafts s) of None \<Rightarrow> [] | Some ds \<Rightarrow> ds))"
  by (auto simp: closeSale_def Let_def update_drafts_def)

lemma first_or_null_Some: "first_or_null xs = Some x \<Longrightarrow> x \<in> set xs"
  by (simp add: first_or_null_def split: list.splits)

lemma effects_fields:
  "q_data (h_drafts (effects env s)) = q_data (h_drafts s)" "h_receipt (effects env s) = h_receipt s"
  "h_view (effects env s) = h_view s" "h_stockError (effects env s) = h_stockError s"
  by (simp_all add: effects_def resume_def choose_category_def openSale_def mutate_def
    split: option.splits list.splits)

lemma effects_sale:
  "h_sale (effects env s) = Some x \<Longrightarrow>
     h_sale s = Some x \<or> (\<exists>ds. q_data (h_drafts s) = Some ds \<and> x \<in> set ds)"
  by (auto simp: effects_def resume_def choose_category_def openSale_def mutate_def
    split: option.splits list.splits if_splits)

lemma replace_sale_ids: "map sa_id (replace_sale u ds) = map sa_id ds"
  unfolding replace_sale_def by (rule map_update_ids) simp

section \<open>Properties\<close>

text \<open>C1: An idempotency key charges one sale only: in every state the till can be in, whatever events
  and answers led there, two checkout requests sent with the same key are for the same sale, and
  each is the checkout call of its sale and carries its key in the header, provided
  \<open>randomUUID\<close> never repeats a value.\<close>

theorem one_key_one_sale:
  assumes "inj (he_uuid env)" and "reached (home_enabled env) (home_move env) home_init s"
    and "charged s i k c" and "charged s j k c'"
  shows "j = i \<and> (\<exists>ps t. c = checkout i ps k t)
    \<and> map_of (opt_headers (call_options c)) (js ''Idempotency-Key'') = Some k"
proof -
  have "key_ok env s"
    by (rule event_machine.inv_reached [OF home_keys [OF assms(1)] assms(2)])
  then have "j = i" using key_okD(2) assms(3,4) by blast
  moreover have "\<exists>ps t. c = checkout i ps k t"
    using home_wire.inv_reached [OF assms(2)] assms(3) unfolding wire_ok_def by blast
  ultimately show ?thesis using checkout_key by auto
qed

text \<open>C2: A retry repeats the key, and nothing else does: from a state whose payment intention for sale
  \<open>i\<close> holds key \<open>k\<close>, after any events and answers, confirming a payment of that sale again sends one
  checkout of it, and its key is \<open>k\<close> exactly if no event has ended the intention. The events that end
  it are leaving the payment step, choosing or paying another sale, starting again from the cart, and
  an answer that completes a sale or reports missing stock; time-outs and server errors do not.\<close>

theorem retry_repeats_key:
  assumes "inj (he_uuid env)" and "reached (home_enabled env) (home_move env) home_init s0"
    and "h_attempt s0 = Some (i, k)" and "s = foldl (home_move env) s0 es"
    and "h_sale s = Some sale" and "sa_id sale = i" and "\<not> isPending s CheckoutK"
    and "he_terminal env = Some t"
  shows "\<exists>k'. h_sent (confirmCheckout env ps s) = h_sent s @ [(CheckoutM i ps k', checkout i ps k' t)]
    \<and> (k' = k \<longleftrightarrow> intention_lives env i s0 es)"
proof -
  have "key_ok env s0" by (rule event_machine.inv_reached [OF home_keys [OF assms(1)] assms(2)])
  then obtain m0 where m0: "k = he_uuid env m0" "m0 < h_uuids s0"
    using assms(3) by (auto simp: key_ok_def)
  have "attempt_key env s sale = k \<longleftrightarrow> intention_lives env i s0 es"
  proof (cases "intention_lives env i s0 es")
    case True
    then show ?thesis using attempt_kept [OF True assms(3)] assms(4,6) by (simp add: attempt_key_def)
  next
    case False
    have "fresh_since env (h_uuids s0) s" using intention_ended [OF False assms(3)] assms(4) by simp
    then obtain m where "attempt_key env s sale = he_uuid env m" "h_uuids s0 \<le> m"
      by (rule fresh_since_key)
    moreover have "he_uuid env m \<noteq> he_uuid env m0"
      using m0(2) \<open>h_uuids s0 \<le> m\<close> injD [OF assms(1), of m m0] by linarith
    ultimately show ?thesis using False m0(1) by simp
  qed
  then show ?thesis using confirmCheckout_sent(1) [OF assms(5,7)] assms(6,8) by simp
qed

text \<open>A new intention gets a new key: when the attempt at hand is not for the current sale, the key
  of the next checkout has never been sent, provided \<open>randomUUID\<close> never repeats a value.\<close>

lemma new_intention_new_key:
  assumes "inj (he_uuid env)" and "reached (home_enabled env) (home_move env) home_init s"
    and "h_sale s = Some sale" and "\<not> isPending s CheckoutK"
    and "\<forall>k. h_attempt s \<noteq> Some (sa_id sale, k)"
  shows "\<exists>k. h_attempt (confirmCheckout env ps s) = Some (sa_id sale, k) \<and> (\<forall>i c. \<not> charged s i k c)"
proof -
  have ok: "key_ok env s"
    by (rule event_machine.inv_reached [OF home_keys [OF assms(1)] assms(2)])
  have key: "attempt_key env s sale = he_uuid env (h_uuids s)"
    using assms(5) by (auto simp: attempt_key_def split: option.splits)
  have "he_uuid env (h_uuids s) \<notin> he_uuid env ` {..<h_uuids s}"
    using assms(1) by (auto dest: injD)
  then have "\<not> charged s i (he_uuid env (h_uuids s)) c" for i c using key_okD(1) [OF ok] by blast
  then show ?thesis using confirmCheckout_sent(2) [OF assms(3,4)] key by simp
qed

text \<open>C3: Never two payments, and never two openings of a sale, at a time: in every reachable state at
  most one checkout request and at most one request that opens a sale are in flight.\<close>

theorem one_payment_in_flight:
  assumes "reached (home_enabled env) (home_move env) home_init s" and "k \<in> {CheckoutK, OpenSaleK}"
  shows "length (filter (\<lambda>fl. kind_of (fl_mutation fl) = k) (h_flights s)) \<le> 1"
  by (rule at_most_one [OF home_net.inv_reached [OF assms(1)]]) (use assms(2) in \<open>auto simp: exclusive_def\<close>)

text \<open>C4: The till is never left without something to do: in every reachable state whose screen is drawn
  and whose terminal, location and open sales are known, a receipt is shown and can be dismissed; or
  there is a current sale; or a request that opens one is in flight, whose answer gives the sale, or,
  when it fails, enables the button that tries again; or that button is enabled, and pressing it
  asks for a sale of this terminal.\<close>

theorem till_has_sale:
  assumes "reached (home_enabled env) (home_move env) home_init s" and "till_ready env s"
    and "till_shown env s"
  shows "(h_receipt s \<noteq> None \<and> home_enabled env s DismissReceipt)
    \<or> h_sale s \<noteq> None
    \<or> (\<exists>fl \<in> set (h_flights s). fl_mutation fl = OpenSaleM \<and> h_observed s OpenSaleK = Running (fl_id fl)
        \<and> (\<forall>created. h_sale (home_move env s (Settle (fl_id fl) (GotSale created))) = Some created)
        \<and> (\<forall>f. home_enabled env (home_move env s (Settle (fl_id fl) (Failed f))) RetryOpen))
    \<or> (home_enabled env s RetryOpen
        \<and> (\<exists>t w l. he_terminal env = Some t \<and> he_warehouse env = Some w \<and> locationId s = Some l
            \<and> h_sent (home_move env s RetryOpen) = h_sent s @ [(OpenSaleM, createSale t w l)]))"
proof (cases "h_receipt s = None \<and> h_sale s = None")
  case False
  then show ?thesis using assms(3) by (auto simp: home_enabled_def)
next
  case True
  have net: "net_ok s" by (rule home_net.inv_reached [OF assms(1)])
  have op: "isPending s OpenSaleK \<or> failedToOpenSale s" and none: "q_data (h_drafts s) = Some []"
    using resumed_without_sale [OF assms(1,2)] True by auto
  show ?thesis
  proof (cases "isPending s OpenSaleK")
    case pending: True
    then obtain fl where fl: "fl \<in> set (h_flights s)" "kind_of (fl_mutation fl) = OpenSaleK"
        "h_observed s OpenSaleK = Running (fl_id fl)"
      using pending_flight [OF net] by blast
    then have m: "fl_mutation fl = OpenSaleM" by (cases "fl_mutation fl") auto
    note answers = open_answered [OF net fl(1) m fl(3) assms(2,3) conjunct1 [OF True] conjunct2 [OF True] none]
    have "\<exists>fl \<in> set (h_flights s). fl_mutation fl = OpenSaleM \<and> h_observed s OpenSaleK = Running (fl_id fl)
        \<and> (\<forall>created. h_sale (home_move env s (Settle (fl_id fl) (GotSale created))) = Some created)
        \<and> (\<forall>f. home_enabled env (home_move env s (Settle (fl_id fl) (Failed f))) RetryOpen)"
      using fl(1) m fl(3) answers by (intro bexI [OF _ fl(1)] conjI allI)
    then show ?thesis by (intro disjI2 disjI1)
  next
    case False
    with op have "failedToOpenSale s" by simp
    from retry_opens [OF assms(2,3) conjunct1 [OF True] conjunct2 [OF True] this none] show ?thesis by (intro disjI2)
  qed
qed

text \<open>A screen that waits is answered: whenever a control is disabled because an operation is
  pending, that operation's request is in flight, so that its answer enables the control again.\<close>

lemma pending_is_in_flight:
  assumes "reached (home_enabled env) (home_move env) home_init s" and "busy s"
  shows "\<exists>fl \<in> set (h_flights s). isPending s (kind_of (fl_mutation fl))
    \<and> h_observed s (kind_of (fl_mutation fl)) = Running (fl_id fl)
    \<and> (\<forall>a. answered env (fl_mutation fl) a (landed fl a s) \<noteq> None \<longrightarrow>
         \<not> isPending (landed fl a s) (kind_of (fl_mutation fl)))"
proof -
  have ok: "net_ok s" by (rule home_net.inv_reached [OF assms(1)])
  obtain k where "isPending s k" using assms(2) by (auto simp: busy_def)
  then obtain fl where fl: "fl \<in> set (h_flights s)" "kind_of (fl_mutation fl) = k"
    "h_observed s k = Running (fl_id fl)"
    using pending_flight [OF ok] by blast
  have "\<not> isPending (landed fl a s) k" for a
    using fl by (simp add: isPending_def landed_def outcome_def split: answer.splits)
  with fl \<open>isPending s k\<close> show ?thesis by blast
qed


text \<open>The bar of open sales and the cart never disagree about a sale just changed: when the answer
  to adding or removing a line arrives, the changed sale is the current one, every entry of the bar
  with its number is that very sale, and the others keep their place and content.\<close>

lemma line_answer_everywhere:
  assumes "m \<in> {AddLineM, AddBarcodeM code, RemoveLineM}" and "he_warehouse env \<noteq> None"
    and "answered env m (GotSale u) s = Some s'" and "q_data (h_drafts s) = Some ds"
  shows "h_sale s' = Some u \<and> (\<exists>ds'. q_data (h_drafts s') = Some ds' \<and> map sa_id ds' = map sa_id ds
    \<and> (\<forall>n < length ds. ds' ! n = (if sa_id (ds ! n) = sa_id u then u else ds ! n)))"
proof -
  have "h_sale s' = Some u \<and> q_data (h_drafts s') = Some (replace_sale u ds)"
    using assms by (auto simp: line_added_def barcode_line_added_def syncSale_def update_drafts_def)
  then show ?thesis using replace_sale_ids by (simp add: replace_sale_def)
qed

text \<open>A charged or cancelled sale is gone: once its answer has been handled, no open sale of the bar
  and no current sale is the closed one; a charged sale is shown as the receipt, in the cart view,
  with no attempt left.\<close>

lemma closed_sale_gone:
  assumes "find (\<lambda>fl. fl_id fl = i) (h_flights s) = Some fl" and "he_warehouse env \<noteq> None"
    and "(\<exists>j ps k. fl_mutation fl = CheckoutM j ps k \<and> a = GotSale completed \<and> sa_id completed = goneId)
      \<or> (fl_mutation fl = CancelM goneId \<and> a = GotNothing)"
  shows "let s' = home_move env s (Settle i a) in
    (\<forall>ds. q_data (h_drafts s') = Some ds \<longrightarrow> goneId \<notin> sa_id ` set ds)
    \<and> (\<forall>x. h_sale s' = Some x \<longrightarrow> sa_id x \<noteq> goneId)
    \<and> (a = GotSale completed \<longrightarrow> h_receipt s' = Some completed \<and> h_view s' = CartView \<and> h_attempt s' = None)"
proof -
  let ?t = "handle env s (Settle i a)"
  let ?ds = "case q_data (h_drafts s) of None \<Rightarrow> [] | Some ds \<Rightarrow> ds"
  have "q_data (h_drafts ?t) = Some (without_sale goneId ?ds)
      \<and> h_sale ?t = first_or_null (without_sale goneId ?ds)
      \<and> (a = GotSale completed \<longrightarrow> h_receipt ?t = Some completed \<and> h_view ?t = CartView \<and> h_attempt ?t = None)"
    using assms closeSale_drafts [OF assms(2)]
    by (auto simp: settle_def checkout_done_def landed_def attempt_simps)
      (auto simp: closeSale_def Let_def update_drafts_def)
  moreover have "goneId \<notin> sa_id ` set (without_sale goneId ?ds)" by (auto simp: without_sale_def)
  ultimately show ?thesis
    using effects_sale [of env ?t] first_or_null_Some
    by (fastforce simp: home_move_def effects_fields attempt_simps Let_def)
qed

text \<open>The multiplier and the surcharge count for one product: picking a product sold by units sends
  one line with exactly the multiplier shown (one unit if none) and the surcharge chosen, and
  clears both; picking a weighed or open-price product sends nothing, keeps the surcharge with the
  dialog it opens, and clears both too.\<close>

lemma multiplier_used_once:
  assumes "h_sale s = Some sale" and "he_terminal env = Some t" and "basePackage p = Inr base"
  defines "s' \<equiv> pickProduct env p s"
  shows "h_pendingQuantity s' = [] \<and> h_surcharge s' = None
    \<and> (if truthy (pr_is_open_price p)
       then h_sent s' = h_sent s \<and> h_openPrice s' = Some (p, h_surcharge s)
       else if truthy (pr_is_sold_by_weight p)
       then h_sent s' = h_sent s \<and> map_option we_surcharge (h_weighing s') = Some (h_surcharge s)
       else h_sent s' = h_sent s @ [(AddLineM, addLine (sa_id sale) t
         \<lparr>nl_product_id = pr_id p, nl_package_id = pk_id base,
          nl_quantity_packages = (if h_pendingQuantity s = [] then js ''1'' else h_pendingQuantity s),
          nl_open_price_total = None, nl_cold_drink = None, nl_pos_surcharge = h_surcharge s\<rparr>)])"
  using assms(1-3)
  by (auto simp: s'_def pickProduct_def Let_def mutateAddLine_def mutate_def on_sale_def next_quantity_def)


section \<open>Concrete runs\<close>

text \<open>A till with one open sale: the payment times out once.\<close>

definition sample_line :: sale_line where
  "sample_line = \<lparr>sl_id = 1, sl_product_id = 1, sl_product_sku = [], sl_product_name = [],
     sl_package_id = 1, sl_package_name = [], sl_package_factor = js ''1'', sl_quantity_packages = js ''1'',
     sl_quantity_base = js ''1'', sl_quantity_refunded = js ''0'', sl_quantity_physically_returned = js ''0'',
     sl_tracks_stock = True, sl_track_lots = False, sl_package_price = js ''5'', sl_unit_price = js ''5'',
     sl_cold_drink_surcharge = None, sl_pos_surcharge_label = None, sl_tax_rate = js ''21'',
     sl_discount_rate = js ''0'', sl_subtotal = js ''5'', sl_discount_amount = js ''0'',
     sl_tax_amount = js ''0'', sl_total = js ''5''\<rparr>"

definition cart_of :: "int \<Rightarrow> sale" where
  "cart_of i = (sample_sale 500)\<lparr>sa_id := i, sa_lines := [sample_line]\<rparr>"

definition sample_env :: home_env where
  "sample_env = \<lparr>he_terminal = Some 1, he_warehouse = Some 1, he_showSearch = True, he_settings = None, he_uuid = nat_digits\<rparr>"

definition here :: home_event where
  "here = LocationsAre (QLoaded [\<lparr>loc_id = 1, loc_warehouse_id = 1, loc_name = [], loc_is_active = True\<rparr>])"

definition pay_events :: "home_event list" where
  "pay_events = [here, DraftsAre (QLoaded [cart_of 7]), CobrarClick, Settle 0 GotNothing, ConfirmPayments [],
     Settle 1 (Failed (OtherFailure (js ''timeout'')))]"

abbreviation run :: "home_event list \<Rightarrow> home" where
  "run es \<equiv> foldl (home_move sample_env) home_init es"

lemma sample_env_fields: "he_terminal sample_env = Some 1" "he_warehouse sample_env = Some 1"
  by (simp_all add: sample_env_def)

lemma pay_run: "reached (home_enabled sample_env) (home_move sample_env) home_init (run pay_events)"
proof (rule reached_run)
  show "run_ok (home_enabled sample_env) (home_move sample_env) home_init pay_events" by code_simp
qed

lemma pay_facts:
  "h_sent (run pay_events) = [(StockM, validateSaleStock 7 1), (CheckoutM 7 [] (js ''0''), checkout 7 [] (js ''0'') 1)]"
  "h_attempt (run pay_events) = Some (7, js ''0'')"
  "h_sale (run pay_events) = Some (cart_of 7)"
  "isPending (run pay_events) CheckoutK = False"
  by code_simp+

lemma sample_env_inj: "inj (he_uuid sample_env)"
  by (simp add: sample_env_def inj_def inj_nat_digits)

lemma one_key_one_sale_witness:
  "map_of (opt_headers (call_options (checkout 7 [] (js ''0'') 1))) (js ''Idempotency-Key'') = Some (js ''0'')"
proof -
  have "charged (run pay_events) 7 (js ''0'') (checkout 7 [] (js ''0'') 1)"
    by (auto simp: charged_def pay_facts)
  from one_key_one_sale [OF sample_env_inj pay_run this this] show ?thesis by blast
qed

definition pay_again :: "home_event list" where
  "pay_again = pay_events @ [LeaveCheckout, CobrarClick, Settle 2 GotNothing]"

lemma retry_repeats_key_witness:
  "\<exists>k. h_sent (confirmCheckout sample_env [] (run pay_events)) = h_sent (run pay_events)
     @ [(CheckoutM 7 [] (js ''0''), checkout 7 [] (js ''0'') 1)]
   \<and> h_sent (confirmCheckout sample_env [] (run pay_again)) = h_sent (run pay_again)
     @ [(CheckoutM 7 [] k, checkout 7 [] k 1)] \<and> k \<noteq> js ''0''"
proof -
  have again: "run pay_again = foldl (home_move sample_env) (run pay_events) [LeaveCheckout, CobrarClick, Settle 2 GotNothing]"
    by (simp add: pay_again_def)
  have sale: "h_sale (run pay_again) = Some (cart_of 7)" "isPending (run pay_again) CheckoutK = False" by code_simp+
  note key = retry_repeats_key [OF sample_env_inj pay_run pay_facts(2)]
  show ?thesis
    using key [of "run pay_events" "[]" "cart_of 7" 1 "[]"]
      key [OF again sale(1), of 1 "[]"] pay_facts(3,4) sale(2)
    by (auto simp: cart_of_def sample_env_fields ends_attempt_def)
qed

lemma new_intention_new_key_witness:
  "\<exists>k. h_attempt (confirmCheckout sample_env [] (run pay_again)) = Some (7, k)
     \<and> (\<forall>i c. \<not> charged (run pay_again) i k c)"
proof -
  have "run_ok (home_enabled sample_env) (home_move sample_env) home_init pay_again" by code_simp
  then have "reached (home_enabled sample_env) (home_move sample_env) home_init (run pay_again)"
    by (rule reached_run)
  moreover have "h_sale (run pay_again) = Some (cart_of 7)" "isPending (run pay_again) CheckoutK = False"
    "h_attempt (run pay_again) = None"
    by code_simp+
  ultimately show ?thesis
    using new_intention_new_key [OF sample_env_inj, of "run pay_again" "cart_of 7" "[]"]
    by (simp add: cart_of_def)
qed

lemma one_payment_in_flight_witness:
  "length (filter (\<lambda>fl. kind_of (fl_mutation fl) = CheckoutK) (h_flights (run pay_events))) \<le> 1"
  using one_payment_in_flight [OF pay_run, of CheckoutK] by simp

lemma till_has_sale_witness:
  "home_enabled sample_env (home_move sample_env (run [here, DraftsAre (QLoaded [])])
     (Settle 0 (Failed (OtherFailure [])))) RetryOpen"
proof -
  let ?s = "run [here, DraftsAre (QLoaded [])]"
  have "run_ok (home_enabled sample_env) (home_move sample_env) home_init [here, DraftsAre (QLoaded [])]"
    by code_simp
  then have r: "reached (home_enabled sample_env) (home_move sample_env) home_init ?s" by (rule reached_run)
  have facts: "till_ready sample_env ?s" "till_shown sample_env ?s" "h_sale ?s = None" "h_receipt ?s = None"
    "home_enabled sample_env ?s RetryOpen = False" "map fl_id (h_flights ?s) = [0]"
    by code_simp+
  have "fl_id fl = 0" if "fl \<in> set (h_flights ?s)" for fl using facts(6) that by auto
  then show ?thesis using till_has_sale [OF r facts(1,2)] facts(3-5) by auto
qed

lemma pending_is_in_flight_witness:
  "\<exists>fl \<in> set (h_flights (run [here, DraftsAre (QLoaded [cart_of 7]), CobrarClick])).
     isPending (run [here, DraftsAre (QLoaded [cart_of 7]), CobrarClick]) (kind_of (fl_mutation fl))"
proof -
  let ?es = "[here, DraftsAre (QLoaded [cart_of 7]), CobrarClick]"
  have "run_ok (home_enabled sample_env) (home_move sample_env) home_init ?es" by code_simp
  then have "reached (home_enabled sample_env) (home_move sample_env) home_init (run ?es)" by (rule reached_run)
  moreover have "busy (run ?es)" by code_simp
  ultimately show ?thesis using pending_is_in_flight [of sample_env "run ?es"] by blast
qed

lemma line_answer_everywhere_witness:
  "\<exists>s'. answered sample_env AddLineM (GotSale (cart_of 7)) (run pay_events) = Some s'
    \<and> h_sale s' = Some (cart_of 7)"
proof -
  have drafts: "q_data (h_drafts (run pay_events)) = Some [cart_of 7]" by code_simp
  have "answered sample_env AddLineM (GotSale (cart_of 7)) (run pay_events)
      = Some (line_added sample_env (cart_of 7) (run pay_events))" by simp
  from line_answer_everywhere [OF _ _ this drafts] show ?thesis by (simp add: sample_env_def)
qed

lemma closed_sale_gone_witness:
  "h_receipt (home_move sample_env (run (pay_events @ [ConfirmPayments []])) (Settle 2 (GotSale (cart_of 7))))
    = Some (cart_of 7)"
proof -
  let ?s = "run (pay_events @ [ConfirmPayments []])"
  have "map fl_id (h_flights ?s) = [2]" and "map fl_mutation (h_flights ?s) = [CheckoutM 7 [] (js ''0'')]"
    by code_simp+
  then obtain fl where "h_flights ?s = [fl]" "fl_id fl = 2" "fl_mutation fl = CheckoutM 7 [] (js ''0'')"
    by (cases "h_flights ?s") auto
  then have "find (\<lambda>fl. fl_id fl = 2) (h_flights ?s) = Some fl"
    "(\<exists>j ps k. fl_mutation fl = CheckoutM j ps k \<and> GotSale (cart_of 7) = GotSale (cart_of 7) \<and> sa_id (cart_of 7) = 7)
      \<or> (fl_mutation fl = CancelM 7 \<and> GotSale (cart_of 7) = GotNothing)"
    by (simp_all add: cart_of_def)
  from closed_sale_gone [OF this(1) _ this(2)] show ?thesis
    by (simp add: sample_env_def Let_def)
qed

definition sample_product :: product where
  "sample_product = \<lparr>pr_id = 3, pr_sku = [], pr_name = js ''Pan'', pr_pos_category_id = None,
     pr_pos_category_name = None, pr_is_open_price = None, pr_is_sold_by_weight = None,
     pr_base_unit_name = [], pr_list_price = js ''1.000000'', pr_final_price = None,
     pr_manual_price_is_set = None, pr_tax_rate = [], pr_is_active = True,
     pr_packages = [\<lparr>pk_id = 4, pk_name = [], pk_factor = js ''1'', pk_is_base = True, pk_barcodes = []\<rparr>]\<rparr>"

lemma multiplier_used_once_witness:
  "h_pendingQuantity (pickProduct sample_env sample_product ((run pay_events)\<lparr>h_pendingQuantity := js ''3''\<rparr>)) = []"
proof -
  have "h_sale ((run pay_events)\<lparr>h_pendingQuantity := js ''3''\<rparr>) = Some (cart_of 7)"
    and "he_terminal sample_env = Some 1"
    and "basePackage sample_product = Inr (hd (pr_packages sample_product))"
    by (simp_all add: pay_facts sample_env_fields basePackage_def sample_product_def)
  from multiplier_used_once [OF this] show ?thesis by blast
qed

text \<open>
  A scan belongs to whichever sale is current when its lookup is answered: the bar of open sales
  stays usable while the lookup is pending, and choosing another sale in between adds the scanned
  product to that other sale.
\<close>

definition scan_race_events :: "home_event list" where
  "scan_race_events = [here, DraftsAre (QLoaded [cart_of 7, cart_of 8]), ScanCode (js ''8410''),
     SelectSale (cart_of 8), Settle 0 (GotProduct sample_product)]"

lemma scan_race:
  "run_ok (home_enabled sample_env) (home_move sample_env) home_init scan_race_events
   \<and> map_option sa_id (h_sale (run (take 3 scan_race_events))) = Some 7
   \<and> snd (last (h_sent (run scan_race_events))) = addLineByBarcode 8 1
       \<lparr>nb_barcode = js ''8410'', nb_quantity_packages = js ''1'', nb_cold_drink = None, nb_pos_surcharge = None\<rparr>"
proof (intro conjI)
  show "run_ok (home_enabled sample_env) (home_move sample_env) home_init scan_race_events" by code_simp
  show "map_option sa_id (h_sale (run (take 3 scan_race_events))) = Some 7" by code_simp
  show "snd (last (h_sent (run scan_race_events))) = addLineByBarcode 8 1
      \<lparr>nb_barcode = js ''8410'', nb_quantity_packages = js ''1'', nb_cold_drink = None, nb_pos_surcharge = None\<rparr>"
    by code_simp
qed

end
