(* ===== verification/Barcode_Scanner.thy ===== *)
theory Barcode_Scanner
  imports Prelude "HOL-Library.Sublist"
begin

text \<open>
  The barcode reader listener of \<open>pos/useBarcodeScanner.ts\<close>: keys arrive with the time the
  listener reads and what it looks at in the event; the idle timer is the pending call of
  \<open>flush\<close>. The theorems say which key sequences are taken for a scan and which never are.
\<close>

definition MAX_GAP_MS :: int where "MAX_GAP_MS = 120"
definition MIN_LENGTH :: nat where "MIN_LENGTH = 4"
definition IDLE_FLUSH_MS :: int where "IDLE_FLUSH_MS = 400"

text \<open>The target of a key event: no element, or an element with its tag.\<close>

record target =
  tg_is_element :: bool
  tg_tag :: jsstring
  tg_editable :: bool

definition isTyping :: "target \<Rightarrow> bool" where
  "isTyping t \<longleftrightarrow> tg_is_element t
     \<and> (tg_tag t = js ''INPUT'' \<or> tg_tag t = js ''TEXTAREA'' \<or> tg_tag t = js ''SELECT'' \<or> tg_editable t)"

record key_event =
  ke_target :: target
  ke_ctrl :: bool
  ke_meta :: bool
  ke_alt :: bool
  ke_at :: int
  ke_key :: jsstring

record scanner =
  sc_buffer :: jsstring
  sc_lastKeyAt :: int
  sc_idle :: "int option"

definition scanner_init :: scanner where
  "scanner_init = \<lparr>sc_buffer = [], sc_lastKeyAt = 0, sc_idle = None\<rparr>"

text \<open>The new state, the code handed to \<open>onScan\<close> if there is one.\<close>

definition flush :: "scanner \<Rightarrow> scanner \<times> jsstring option" where
  "flush s = (s\<lparr>sc_buffer := [], sc_idle := None\<rparr>,
     if MIN_LENGTH \<le> length (sc_buffer s) then Some (sc_buffer s) else None)"

definition heard :: "key_event \<Rightarrow> bool" where
  "heard e \<longleftrightarrow> \<not> isTyping (ke_target e) \<and> \<not> (ke_ctrl e \<or> ke_meta e \<or> ke_alt e)"

definition terminator :: "key_event \<Rightarrow> bool" where
  "terminator e \<longleftrightarrow> ke_key e = js ''Enter'' \<or> ke_key e = js ''Tab''"

text \<open>The key is also kept from its default action exactly when a code is handed on.\<close>

definition scanner_key :: "key_event \<Rightarrow> scanner \<Rightarrow> scanner \<times> jsstring option" where
  "scanner_key e s =
     (if isTyping (ke_target e) then (s, None)
      else if ke_ctrl e \<or> ke_meta e \<or> ke_alt e then (s, None)
      else
        let now = ke_at e;
            s1 = (if MAX_GAP_MS < now - sc_lastKeyAt s then s\<lparr>sc_buffer := []\<rparr> else s);
            s2 = s1\<lparr>sc_lastKeyAt := now\<rparr>
        in if terminator e then flush s2
           else if length (ke_key e) \<noteq> 1 then (s2, None)
           else (s2\<lparr>sc_buffer := sc_buffer s2 @ ke_key e, sc_idle := Some (now + IDLE_FLUSH_MS)\<rparr>, None))"

text \<open>
  What can happen to the listener: a key, the idle timer going off, and the effect being set up
  again after having been disabled.
\<close>

datatype scan_event = ScanKey key_event | ScanIdle | ScanMount

definition scanner_enabled :: "scanner \<Rightarrow> scan_event \<Rightarrow> bool" where
  "scanner_enabled s e = (case e of ScanIdle \<Rightarrow> sc_idle s \<noteq> None | _ \<Rightarrow> True)"

fun scanner_step :: "scan_event \<Rightarrow> scanner \<Rightarrow> scanner \<times> jsstring option" where
  "scanner_step (ScanKey e) s = scanner_key e s"
| "scanner_step ScanIdle s = (if sc_idle s = None then (s, None) else flush s)"
| "scanner_step ScanMount s = (scanner_init, None)"

text \<open>A run: the final state and the codes scanned, in order.\<close>

fun scanner_run :: "scan_event list \<Rightarrow> scanner \<Rightarrow> scanner \<times> jsstring list" where
  "scanner_run [] s = (s, [])"
| "scanner_run (e # es) s =
     (let (s1, out) = scanner_step e s; (s2, outs) = scanner_run es s1
      in (s2, (case out of None \<Rightarrow> outs | Some c \<Rightarrow> c # outs)))"

section \<open>Lemmas\<close>

lemma scanner_run_append:
  "scanner_run (es @ es') s =
    (let (s1, o1) = scanner_run es s; (s2, o2) = scanner_run es' s1 in (s2, o1 @ o2))"
  by (induction es arbitrary: s) (auto simp: Let_def case_prod_beta split: option.splits)

text \<open>The keys the listener reacts to, the characters among them, and keys in quick succession.\<close>

definition keys_of :: "scan_event list \<Rightarrow> key_event list" where
  "keys_of es = filter heard (List.map_filter (\<lambda>e. case e of ScanKey k \<Rightarrow> Some k | _ \<Rightarrow> None) es)"

definition typed_chars :: "key_event list \<Rightarrow> jsstring" where
  "typed_chars ks = concat (map ke_key (filter (\<lambda>k. length (ke_key k) = 1) ks))"

definition quick :: "key_event list \<Rightarrow> bool" where
  "quick ks = successively (\<lambda>a b. ke_at b - ke_at a \<le> MAX_GAP_MS) ks"

lemma keys_of_snoc:
  "keys_of (es @ [ScanKey k]) = keys_of es @ (if heard k then [k] else [])"
  "keys_of (es @ [ScanIdle]) = keys_of es" "keys_of (es @ [ScanMount]) = keys_of es"
  by (simp_all add: keys_of_def List.map_filter_def)

lemma typed_chars_snoc:
  "typed_chars (ks @ [k]) = typed_chars ks @ (if length (ke_key k) = 1 then ke_key k else [])"
  by (simp add: typed_chars_def)

lemma terminator_length: "terminator k \<Longrightarrow> length (ke_key k) \<noteq> 1"
  by (auto simp: terminator_def)

lemma quick_snoc: "quick (ks @ [k]) \<longleftrightarrow> quick ks \<and> (ks = [] \<or> ke_at k - ke_at (last ks) \<le> MAX_GAP_MS)"
  by (auto simp: quick_def successively_append_iff)

text \<open>
  The buffer holds the characters of a burst: the last keys heard, in quick succession.
\<close>

definition burst :: "key_event list \<Rightarrow> scanner \<Rightarrow> bool" where
  "burst ks s \<longleftrightarrow> (\<exists>b. suffix b ks \<and> quick b \<and> sc_buffer s = typed_chars b
     \<and> (b \<noteq> [] \<longrightarrow> sc_lastKeyAt s = ke_at (last ks)))"

lemma burst_empty: "sc_buffer s = [] \<Longrightarrow> burst ks s"
  by (auto simp: burst_def quick_def typed_chars_def intro!: exI [of _ "[]"])

lemma burst_flush: "burst ks (fst (flush s))"
  by (simp add: flush_def burst_empty)

lemma burst_key:
  assumes "burst ks s" and "heard k"
  shows "burst (ks @ [k]) (fst (scanner_key k s))"
    and "snd (scanner_key k s) = Some c \<Longrightarrow>
      \<exists>b. suffix b (ks @ [k]) \<and> quick b \<and> c = typed_chars b \<and> MIN_LENGTH \<le> length c"
proof -
  let ?s1 = "if MAX_GAP_MS < ke_at k - sc_lastKeyAt s then s\<lparr>sc_buffer := []\<rparr> else s"
  have key: "scanner_key k s = (let s2 = ?s1\<lparr>sc_lastKeyAt := ke_at k\<rparr> in
      if terminator k then flush s2
      else if length (ke_key k) \<noteq> 1 then (s2, None)
      else (s2\<lparr>sc_buffer := sc_buffer s2 @ ke_key k, sc_idle := Some (ke_at k + IDLE_FLUSH_MS)\<rparr>, None))"
    using assms(2) by (simp add: scanner_key_def heard_def Let_def)
  obtain b where b: "suffix b (ks @ [k])" "quick b" "b \<noteq> []"
    "typed_chars b = sc_buffer ?s1 @ (if length (ke_key k) = 1 then ke_key k else [])"
  proof -
    obtain b0 where b0: "suffix b0 ks" "quick b0" "sc_buffer s = typed_chars b0"
      "b0 \<noteq> [] \<longrightarrow> sc_lastKeyAt s = ke_at (last ks)"
      using assms(1) by (auto simp: burst_def)
    define b where "b = (if MAX_GAP_MS < ke_at k - sc_lastKeyAt s then [] else b0) @ [k]"
    have "last b0 = last ks" if "b0 \<noteq> []" using b0(1) that by (auto simp: suffix_def)
    then have "quick b" using b0
      by (cases "b0 = []") (auto simp: b_def quick_snoc quick_def [of "[]"])
    moreover have "suffix b (ks @ [k])" using b0(1) by (auto simp: b_def suffix_def)
    moreover have "typed_chars b = sc_buffer ?s1 @ (if length (ke_key k) = 1 then ke_key k else [])"
      using b0(3) unfolding b_def typed_chars_snoc by (simp add: typed_chars_def)
    ultimately show thesis by (intro that [of b]) (auto simp: b_def)
  qed
  show "burst (ks @ [k]) (fst (scanner_key k s))"
  proof (cases "terminator k")
    case True
    then show ?thesis by (simp add: key Let_def burst_flush)
  next
    case False
    then have "sc_buffer (fst (scanner_key k s)) = typed_chars b"
      and "sc_lastKeyAt (fst (scanner_key k s)) = ke_at k"
      by (simp_all add: key Let_def b(4))
    with b(1,2) show ?thesis unfolding burst_def by (intro exI [of _ b] conjI) simp_all
  qed
  show "\<exists>b. suffix b (ks @ [k]) \<and> quick b \<and> c = typed_chars b \<and> MIN_LENGTH \<le> length c"
    if "snd (scanner_key k s) = Some c"
  proof -
    have "terminator k" and "c = sc_buffer ?s1" and len: "MIN_LENGTH \<le> length c"
      using that by (auto simp: key Let_def flush_def split: if_splits)
    then have "c = typed_chars b" using b(4) terminator_length [of k] by simp
    with b(1,2) len show ?thesis by blast
  qed
qed

lemma burst_run:
  "burst (keys_of es) (fst (scanner_run es scanner_init))
   \<and> (\<forall>c \<in> set (snd (scanner_run es scanner_init)).
        MIN_LENGTH \<le> length c \<and> (\<exists>b. sublist b (keys_of es) \<and> quick b \<and> c = typed_chars b))"
proof (induction es rule: rev_induct)
  case Nil
  show ?case by (simp add: burst_empty scanner_init_def)
next
  case (snoc e es)
  let ?s = "fst (scanner_run es scanner_init)"
  have run: "scanner_run (es @ [e]) scanner_init = (fst (scanner_step e ?s),
      snd (scanner_run es scanner_init) @ (case snd (scanner_step e ?s) of None \<Rightarrow> [] | Some c \<Rightarrow> [c]))"
    by (auto simp: scanner_run_append Let_def case_prod_beta split: option.splits)
  have grow: "sublist b (keys_of es) \<Longrightarrow> sublist b (keys_of (es @ [e]))" for b
    by (cases e) (auto simp: keys_of_snoc intro: sublist_order.order_trans)
  have step: "burst (keys_of (es @ [e])) (fst (scanner_step e ?s))
      \<and> (\<forall>c. snd (scanner_step e ?s) = Some c \<longrightarrow>
          MIN_LENGTH \<le> length c \<and> (\<exists>b. sublist b (keys_of (es @ [e])) \<and> quick b \<and> c = typed_chars b))"
  proof (cases e)
    case (ScanKey k)
    show ?thesis
    proof (cases "heard k")
      case True
      have keys: "keys_of (es @ [e]) = keys_of es @ [k]" using True ScanKey by (simp add: keys_of_snoc)
      show ?thesis
        unfolding keys using burst_key [of "keys_of es" ?s k] snoc True ScanKey
        by (simp only: scanner_step.simps) (blast intro: suffix_imp_sublist)
    next
      case False
      with snoc ScanKey show ?thesis
        by (auto simp: keys_of_snoc scanner_key_def heard_def)
    qed
  next
    case ScanIdle
    have origin: "\<exists>b. sublist b (keys_of es) \<and> quick b \<and> sc_buffer ?s = typed_chars b"
      using snoc suffix_imp_sublist unfolding burst_def by blast
    show ?thesis
    proof (cases "sc_idle ?s = None")
      case True
      with snoc ScanIdle show ?thesis by (simp add: keys_of_snoc)
    next
      case False
      with origin ScanIdle show ?thesis
        by (auto simp: keys_of_snoc flush_def intro!: burst_empty)
    qed
  next
    case ScanMount
    then show ?thesis by (simp add: burst_empty scanner_init_def)
  qed
  have "\<forall>c \<in> set (snd (scanner_run es scanner_init)).
      MIN_LENGTH \<le> length c \<and> (\<exists>b. sublist b (keys_of (es @ [e])) \<and> quick b \<and> c = typed_chars b)"
    using snoc grow by blast
  with step show ?case unfolding run by (auto split: option.splits)
qed


lemma quick_spaced:
  assumes "quick b" and "successively (\<lambda>a b. MAX_GAP_MS < ke_at b - ke_at a) ks" and "sublist b ks"
  shows "length b \<le> 1"
proof -
  have "successively (\<lambda>a b. MAX_GAP_MS < ke_at b - ke_at a) b"
    using assms(2,3) by (auto simp: sublist_def successively_append_iff)
  with assms(1) show ?thesis
    by (cases b rule: remdups_adj.cases) (auto simp: quick_def)
qed

lemma length_typed_chars: "length (typed_chars ks) \<le> length ks"
  by (induction ks) (auto simp: typed_chars_def)

definition plain_key :: "key_event \<Rightarrow> bool" where
  "plain_key k \<longleftrightarrow> heard k \<and> length (ke_key k) = 1"

text \<open>While a reader types, the buffer grows by each character and nothing is handed on.\<close>

lemma reader_types:
  assumes "\<forall>k \<in> set ks. plain_key k" and "quick ks" and "ks \<noteq> []"
    and "sc_buffer s = [] \<or> MAX_GAP_MS < ke_at (hd ks) - sc_lastKeyAt s"
  shows "snd (scanner_run (map ScanKey ks) s) = []
    \<and> sc_buffer (fst (scanner_run (map ScanKey ks) s)) = concat (map ke_key ks)
    \<and> sc_lastKeyAt (fst (scanner_run (map ScanKey ks) s)) = ke_at (last ks)
    \<and> sc_idle (fst (scanner_run (map ScanKey ks) s)) = Some (ke_at (last ks) + IDLE_FLUSH_MS)"
  using assms
proof (induction ks rule: rev_induct)
  case Nil
  then show ?case by simp
next
  case (snoc k ks)
  have k: "heard k" "length (ke_key k) = 1" "\<not> terminator k"
    using snoc.prems(1) terminator_length [of k] by (auto simp: plain_key_def)
  show ?case
  proof (cases "ks = []")
    case True
    with snoc.prems k show ?thesis
      by (auto simp: scanner_key_def heard_def Let_def)
  next
    case False
    then have "quick ks" and gap: "ke_at k - ke_at (last ks) \<le> MAX_GAP_MS"
      using snoc.prems(2) by (auto simp: quick_snoc)
    with snoc False have IH: "snd (scanner_run (map ScanKey ks) s) = []"
      "sc_buffer (fst (scanner_run (map ScanKey ks) s)) = concat (map ke_key ks)"
      "sc_lastKeyAt (fst (scanner_run (map ScanKey ks) s)) = ke_at (last ks)"
      by auto
    with k gap show ?thesis
      by (auto simp: scanner_run_append scanner_key_def heard_def Let_def case_prod_beta)
  qed
qed

section \<open>Properties\<close>

text \<open>Whatever is scanned was typed by the reader: every code handed on has at least four
  characters and is the text of keys pressed outside any field and without a modifier, one right
  after another, with at most 120 ms between them.\<close>

lemma scan_origin:
  assumes "c \<in> set (snd (scanner_run es scanner_init))"
  shows "4 \<le> length c \<and> (\<exists>b. sublist b (keys_of es) \<and> quick b \<and> c = typed_chars b)"
  using burst_run [of es] assms by (auto simp: MIN_LENGTH_def)

text \<open>C6: Typing by hand is never taken for a scan: if more than 120 ms pass between any two keys
  pressed one after the other, no code is ever handed on.\<close>

theorem slow_typing_never_scans:
  assumes "successively (\<lambda>a b. 120 < ke_at b - ke_at a) (keys_of es)"
  shows "snd (scanner_run es scanner_init) = []"
proof (rule ccontr)
  assume "snd (scanner_run es scanner_init) \<noteq> []"
  then obtain c where "c \<in> set (snd (scanner_run es scanner_init))"
    by (cases "snd (scanner_run es scanner_init)") auto
  then obtain b where b: "MIN_LENGTH \<le> length c" "sublist b (keys_of es)" "quick b" "c = typed_chars b"
    using burst_run [of es] by blast
  have "length b \<le> 1" using quick_spaced [OF b(3) _ b(2)] assms by (simp add: MAX_GAP_MS_def)
  with b(1,4) length_typed_chars [of b] show False by (simp add: MIN_LENGTH_def)
qed

text \<open>C5: A reader is heard: four or more characters typed outside any field with at most 120 ms between
  them, starting afresh, then Enter or Tab within 120 ms or the idle timer, hand on exactly the
  characters typed, once.\<close>

theorem reader_is_heard:
  assumes "\<forall>k \<in> set ks. plain_key k" and "quick ks" and "4 \<le> length ks"
    and "sc_buffer s = [] \<or> 120 < ke_at (hd ks) - sc_lastKeyAt s"
    and "finish = ScanIdle \<or> (\<exists>e. finish = ScanKey e \<and> heard e \<and> terminator e \<and> ke_at e - ke_at (last ks) \<le> 120)"
  shows "snd (scanner_run (map ScanKey ks @ [finish]) s) = [concat (map ke_key ks)]"
proof -
  have "ks \<noteq> []" using assms(3) by auto
  note types = reader_types [OF assms(1,2) this assms(4) [folded MAX_GAP_MS_def]]
  have "length (concat (map ke_key ks)) = length ks"
    using assms(1) by (induction ks) (auto simp: plain_key_def)
  then have "MIN_LENGTH \<le> length (concat (map ke_key ks))" using assms(3) by (simp add: MIN_LENGTH_def)
  with types assms(5) show ?thesis
    by (auto simp: scanner_run_append Let_def case_prod_beta flush_def scanner_key_def heard_def
      MAX_GAP_MS_def)
qed

definition key_at :: "int \<Rightarrow> jsstring \<Rightarrow> key_event" where
  "key_at t k = \<lparr>ke_target = \<lparr>tg_is_element = True, tg_tag = js ''BODY'', tg_editable = False\<rparr>,
     ke_ctrl = False, ke_meta = False, ke_alt = False, ke_at = t, ke_key = k\<rparr>"

lemma key_at_sel [simp]: "ke_at (key_at t k) = t" "ke_key (key_at t k) = k" "heard (key_at t k)"
  by (simp_all add: key_at_def heard_def isTyping_def)

definition sample_code :: "key_event list" where
  "sample_code = [key_at 1000 (js ''8''), key_at 1020 (js ''4''), key_at 1100 (js ''1''), key_at 1190 (js ''0'')]"

lemma reader_is_heard_witness:
  "snd (scanner_run (map ScanKey sample_code @ [ScanIdle]) scanner_init) = [js ''8410'']"
proof -
  have code: "concat (map ke_key sample_code) = js ''8410''"
    by (simp add: sample_code_def js_def)
  show ?thesis
    by (subst reader_is_heard)
      (auto simp: code, auto simp: sample_code_def plain_key_def quick_def MAX_GAP_MS_def scanner_init_def)
qed

lemma scan_origin_witness:
  "4 \<le> length (js ''8410'') \<and> (\<exists>b. sublist b (keys_of (map ScanKey sample_code @ [ScanIdle])) \<and> quick b
     \<and> js ''8410'' = typed_chars b)"
proof -
  have "js ''8410'' \<in> set (snd (scanner_run (map ScanKey sample_code @ [ScanIdle]) scanner_init))"
    by code_simp
  from scan_origin [OF this] show ?thesis .
qed

lemma slow_typing_never_scans_witness:
  "snd (scanner_run [ScanKey (key_at 1000 (js ''1'')), ScanKey (key_at 1200 (js ''2'')), ScanIdle] scanner_init) = []"
  by (rule slow_typing_never_scans) (simp add: keys_of_def List.map_filter_def)

end
