(* ===== verification/Print_Profile.thy ===== *)
theory Print_Profile
  imports Pos_Model
begin

text \<open>
  The physical side of a ticket: the templates and their print profile (\<open>tickets/api.ts\<close>), the
  number of characters that fit the paper (\<open>tickets/printProfile.ts\<close>) and the raster document sent
  to preview and printer (\<open>tickets/ticketRaster.ts\<close>).
\<close>

section \<open>Templates and profiles\<close>

datatype tax_display = TAX_NONE | TAX_NOTE | TAX_BREAKDOWN
datatype layout_mode = STANDARD | CUSTOM

record print_profile =
  pp_printable_width_mm :: jsnum
  pp_margin_left_mm :: jsnum
  pp_margin_right_mm :: jsnum
  pp_font_family :: font_family
  pp_font_size_px :: jsnum
  pp_line_height_px :: jsnum
  pp_font_weight :: font_weight
  pp_margin_top_mm :: jsnum
  pp_margin_bottom_mm :: jsnum

record template_fields =
  tf_profile :: print_profile
  tf_layout_template :: jsstring
  tf_layout_mode :: layout_mode
  tf_header_text :: jsstring
  tf_footer_text :: jsstring
  tf_tax_display :: tax_display
  tf_show_line_discounts :: bool
  tf_store_name :: jsstring
  tf_store_tax_id :: jsstring
  tf_store_address :: jsstring
  tf_store_phone :: jsstring
  tf_sale_number_prefix :: jsstring
  tf_date_format :: jsstring
  tf_show_unit_price :: bool
  tf_show_cashier :: bool
  tf_label_total :: jsstring
  tf_label_change :: jsstring
  tf_label_cash :: jsstring
  tf_label_card :: jsstring
  tf_label_other :: jsstring
  tf_label_discount :: jsstring
  tf_tax_note :: jsstring

record ticket_template = template_fields +
  tt_id :: int
  tt_name :: jsstring
  tt_is_active :: bool

text \<open>The limits of the schema: whole millimetres and pixels in these ranges.\<close>

definition int_between :: "int \<Rightarrow> int \<Rightarrow> jsnum \<Rightarrow> bool" where
  "int_between lo hi x =
     (case x of JsNum q \<Rightarrow> of_int \<lfloor>q\<rfloor> = q \<and> lo \<le> \<lfloor>q\<rfloor> \<and> \<lfloor>q\<rfloor> \<le> hi | _ \<Rightarrow> False)"

definition profile_schema :: "print_profile \<Rightarrow> bool" where
  "profile_schema p \<longleftrightarrow> int_between 25 80 (pp_printable_width_mm p)
     \<and> int_between 0 55 (pp_margin_left_mm p) \<and> int_between 0 55 (pp_margin_right_mm p)
     \<and> int_between 6 16 (pp_font_size_px p) \<and> int_between 8 24 (pp_line_height_px p)
     \<and> int_between 0 20 (pp_margin_top_mm p) \<and> int_between 0 20 (pp_margin_bottom_mm p)"

definition template_schema :: "ticket_template \<Rightarrow> bool" where
  "template_schema t \<longleftrightarrow> profile_schema (tf_profile t) \<and> length (tf_layout_template t) \<le> 8000"

fun font_family_name :: "font_family \<Rightarrow> jsstring" where
  "font_family_name COURIER_NEW = js ''COURIER_NEW''"
| "font_family_name LIBERATION_MONO = js ''LIBERATION_MONO''"
| "font_family_name DEJAVU_SANS_MONO = js ''DEJAVU_SANS_MONO''"

fun font_weight_name :: "font_weight \<Rightarrow> jsstring" where
  "font_weight_name NORMAL = js ''NORMAL''"
| "font_weight_name BOLD = js ''BOLD''"

fun layout_mode_name :: "layout_mode \<Rightarrow> jsstring" where
  "layout_mode_name STANDARD = js ''STANDARD''"
| "layout_mode_name CUSTOM = js ''CUSTOM''"

fun tax_display_name :: "tax_display \<Rightarrow> jsstring" where
  "tax_display_name TAX_NONE = js ''NONE''"
| "tax_display_name TAX_NOTE = js ''NOTE''"
| "tax_display_name TAX_BREAKDOWN = js ''BREAKDOWN''"

definition ticketTemplatesQuery :: query_options where
  "ticketTemplatesQuery = \<lparr>q_key = [KStr (js ''tickets''), KStr (js ''templates'')],
     q_call = get_call (js ''/ticket-templates''), q_enabled = True\<rparr>"

definition activeTicketTemplateQuery :: query_options where
  "activeTicketTemplateQuery =
     \<lparr>q_key = [KStr (js ''tickets''), KStr (js ''templates''), KStr (js ''active'')],
      q_call = get_call (js ''/ticket-templates/active''), q_enabled = True\<rparr>"

definition activeTicketPrintProfileQuery :: query_options where
  "activeTicketPrintProfileQuery =
     \<lparr>q_key = [KStr (js ''tickets''), KStr (js ''templates''), KStr (js ''active''), KStr (js ''print-profile'')],
      q_call = get_call (js ''/ticket-templates/active/print-profile''), q_enabled = True\<rparr>"

text \<open>The body a template is saved with; the numbers are the whole ones of the schema.\<close>

definition template_json :: "template_fields \<Rightarrow> jsstring \<Rightarrow> json" where
  "template_json t name =
     (let p = tf_profile t; num = (\<lambda>x. JInt (js_int x)) in
      JObj [(js ''printable_width_mm'', num (pp_printable_width_mm p)),
        (js ''margin_left_mm'', num (pp_margin_left_mm p)),
        (js ''margin_right_mm'', num (pp_margin_right_mm p)),
        (js ''font_family'', JStr (font_family_name (pp_font_family p))),
        (js ''font_size_px'', num (pp_font_size_px p)),
        (js ''line_height_px'', num (pp_line_height_px p)),
        (js ''font_weight'', JStr (font_weight_name (pp_font_weight p))),
        (js ''margin_top_mm'', num (pp_margin_top_mm p)),
        (js ''margin_bottom_mm'', num (pp_margin_bottom_mm p)),
        (js ''layout_template'', JStr (tf_layout_template t)),
        (js ''layout_mode'', JStr (layout_mode_name (tf_layout_mode t))),
        (js ''header_text'', JStr (tf_header_text t)), (js ''footer_text'', JStr (tf_footer_text t)),
        (js ''tax_display'', JStr (tax_display_name (tf_tax_display t))),
        (js ''show_line_discounts'', JBool (tf_show_line_discounts t)),
        (js ''store_name'', JStr (tf_store_name t)), (js ''store_tax_id'', JStr (tf_store_tax_id t)),
        (js ''store_address'', JStr (tf_store_address t)), (js ''store_phone'', JStr (tf_store_phone t)),
        (js ''sale_number_prefix'', JStr (tf_sale_number_prefix t)),
        (js ''date_format'', JStr (tf_date_format t)),
        (js ''show_unit_price'', JBool (tf_show_unit_price t)),
        (js ''show_cashier'', JBool (tf_show_cashier t)),
        (js ''label_total'', JStr (tf_label_total t)), (js ''label_change'', JStr (tf_label_change t)),
        (js ''label_cash'', JStr (tf_label_cash t)), (js ''label_card'', JStr (tf_label_card t)),
        (js ''label_other'', JStr (tf_label_other t)), (js ''label_discount'', JStr (tf_label_discount t)),
        (js ''tax_note'', JStr (tf_tax_note t)), (js ''name'', JStr name)])"

definition createTemplate :: "template_fields \<Rightarrow> jsstring \<Rightarrow> api_call" where
  "createTemplate t name = send_call POST (js ''/ticket-templates'') [] (Some (template_json t name))"

definition activateTemplate :: "int \<Rightarrow> api_call" where
  "activateTemplate templateId =
     send_call POST (js ''/ticket-templates/'' @ int_string templateId @ js ''/activate'') [] None"

definition updateTemplate :: "int \<Rightarrow> template_fields \<Rightarrow> jsstring \<Rightarrow> api_call" where
  "updateTemplate templateId t name =
     send_call PUT (js ''/ticket-templates/'' @ int_string templateId) [] (Some (template_json t name))"

definition deleteTemplate :: "int \<Rightarrow> api_call" where
  "deleteTemplate templateId =
     send_call DELETE (js ''/ticket-templates/'' @ int_string templateId) [] None"

section \<open>Characters per line\<close>

text \<open>The quotes of the CSS font names are code unit 39.\<close>

definition quoted :: "string \<Rightarrow> jsstring" where
  "quoted s = 39 # js s @ [39]"

fun ticketFontStack :: "font_family \<Rightarrow> jsstring" where
  "ticketFontStack COURIER_NEW =
     quoted ''Courier New'' @ js '', '' @ quoted ''Liberation Mono'' @ js '', monospace''"
| "ticketFontStack LIBERATION_MONO =
     quoted ''Liberation Mono'' @ js '', '' @ quoted ''Courier New'' @ js '', monospace''"
| "ticketFontStack DEJAVU_SANS_MONO =
     quoted ''DejaVu Sans Mono'' @ js '', '' @ quoted ''Liberation Mono'' @ js '', monospace''"

definition THERMAL_PAPER_WIDTH_MM :: jsnum where "THERMAL_PAPER_WIDTH_MM = JsNum 80"
definition THERMAL_HEAD_WIDTH_MM :: jsnum where "THERMAL_HEAD_WIDTH_MM = JsNum 72"

definition printableWidthFromMargins :: "jsnum \<Rightarrow> jsnum \<Rightarrow> jsnum" where
  "printableWidthFromMargins leftMm rightMm = THERMAL_HEAD_WIDTH_MM - leftMm - rightMm"

definition printableCharacters :: "print_profile \<Rightarrow> jsnum" where
  "printableCharacters p =
     js_max (JsNum 16)
       (js_floor
         (js_min (pp_printable_width_mm p)
            (printableWidthFromMargins (pp_margin_left_mm p) (pp_margin_right_mm p))
          div ((pp_font_size_px p * js_num (61 / 100) * js_num (254 / 10)) div JsNum 96)))"

text \<open>The same count for the text functions, where it is a finite number of characters.\<close>

definition paper_width :: "print_profile \<Rightarrow> nat" where
  "paper_width p = nat (js_int (printableCharacters p))"

section \<open>The raster\<close>

definition THERMAL_PRINTER_DPI :: jsnum where "THERMAL_PRINTER_DPI = JsNum 203"
definition THERMAL_PRINTABLE_DOTS :: jsnum where "THERMAL_PRINTABLE_DOTS = JsNum 576"
definition THERMAL_PRINTABLE_WIDTH_MM :: jsnum where "THERMAL_PRINTABLE_WIDTH_MM = JsNum 72"

definition THERMAL_HARDWARE_GUTTER_MM :: jsnum where
  "THERMAL_HARDWARE_GUTTER_MM = (THERMAL_PAPER_WIDTH_MM - THERMAL_PRINTABLE_WIDTH_MM) div JsNum 2"

definition DOTS_PER_MM :: jsnum where
  "DOTS_PER_MM = THERMAL_PRINTER_DPI div js_num (254 / 10)"

definition PRINT_DOTS_PER_CSS_PIXEL :: jsnum where
  "PRINT_DOTS_PER_CSS_PIXEL = THERMAL_PRINTER_DPI div JsNum 96"

record raster_geometry =
  rg_widthDots :: jsnum
  rg_heightDots :: jsnum
  rg_contentLeftDots :: jsnum
  rg_contentWidthDots :: jsnum
  rg_fontSizeDots :: jsnum
  rg_lineHeightDots :: jsnum
  rg_topDots :: jsnum
  rg_bottomDots :: jsnum

definition dotsFromMm :: "jsnum \<Rightarrow> jsnum" where
  "dotsFromMm v = js_max (JsNum 0) (js_round (v * DOTS_PER_MM))"

definition ticketRasterGeometry :: "print_profile \<Rightarrow> nat \<Rightarrow> raster_geometry" where
  "ticketRasterGeometry p lineCount =
     (let contentLeftDots = dotsFromMm (pp_margin_left_mm p);
          contentRightDots = dotsFromMm (pp_margin_right_mm p);
          contentWidthDots = js_max (JsNum 1) (THERMAL_PRINTABLE_DOTS - contentLeftDots - contentRightDots);
          configuredWidthDots = dotsFromMm (pp_printable_width_mm p);
          historicalScale = js_min (JsNum 1) (contentWidthDots div configuredWidthDots);
          fontSizeDots = js_max (JsNum 1)
            (pp_font_size_px p * PRINT_DOTS_PER_CSS_PIXEL * historicalScale);
          lineHeightDots = js_max (js_ceil fontSizeDots)
            (js_round (pp_line_height_px p * PRINT_DOTS_PER_CSS_PIXEL * historicalScale));
          topDots = dotsFromMm (pp_margin_top_mm p);
          bottomDots = dotsFromMm (pp_margin_bottom_mm p);
          heightDots = js_max (JsNum 1)
            (topDots + js_max (JsNum 1) (JsNum (of_nat lineCount)) * lineHeightDots + bottomDots)
      in \<lparr>rg_widthDots = THERMAL_PRINTABLE_DOTS, rg_heightDots = heightDots,
          rg_contentLeftDots = contentLeftDots, rg_contentWidthDots = contentWidthDots,
          rg_fontSizeDots = fontSizeDots, rg_lineHeightDots = lineHeightDots,
          rg_topDots = topDots, rg_bottomDots = bottomDots\<rparr>)"

definition escapeXml :: "jsstring \<Rightarrow> jsstring" where
  "escapeXml v =
     js_replace_all 39 (js ''&apos;'') (js_replace_all 34 (js ''&quot;'')
       (js_replace_all 62 (js ''&gt;'') (js_replace_all 60 (js ''&lt;'')
         (js_replace_all 38 (js ''&amp;'') v))))"

text \<open>\<open>text.replace(/\n$/, '').split('\n')\<close>\<close>

definition ticket_lines :: "jsstring \<Rightarrow> jsstring list" where
  "ticket_lines t =
     js_split cu_lf (if t \<noteq> [] \<and> last t = cu_lf then butlast t else t)"

definition attr :: "string \<Rightarrow> jsstring \<Rightarrow> jsstring" where
  "attr name v = cu_space # js name @ [61, 34] @ v @ [34]"

definition text_node :: "raster_geometry \<Rightarrow> nat \<Rightarrow> jsstring \<Rightarrow> jsstring" where
  "text_node g index line =
     (let baseline = rg_topDots g + rg_fontSizeDots g + JsNum (of_nat index) * rg_lineHeightDots g in
      js ''<text'' @ attr ''x'' (js_String (rg_contentLeftDots g)) @ attr ''y'' (js_String baseline)
      @ attr ''xml:space'' (js ''preserve'') @ js ''>'' @ escapeXml line @ js ''</text>'')"

definition rasterSvg :: "jsstring \<Rightarrow> print_profile \<Rightarrow> bool \<Rightarrow> jsstring" where
  "rasterSvg t p contentOnly =
     (let lines = ticket_lines t;
          g = ticketRasterGeometry p (length lines);
          fontFamily = escapeXml (ticketFontStack (pp_font_family p));
          fontWeight = (if pp_font_weight p = BOLD then js ''700'' else js ''400'');
          contentClip = js ''<defs><clipPath'' @ attr ''id'' (js ''ticket-content'') @ js ''><rect''
            @ attr ''x'' (js_String (rg_contentLeftDots g)) @ attr ''y'' (js ''0'')
            @ attr ''width'' (js_String (rg_contentWidthDots g))
            @ attr ''height'' (js_String (rg_heightDots g)) @ js ''/></clipPath></defs>'';
          textNodes = concat (map (\<lambda>(i, line). text_node g i line) (enumerate 0 lines));
          imageWidth = js_String (if contentOnly then rg_contentWidthDots g else rg_widthDots g);
          viewBoxX = js_String (if contentOnly then rg_contentLeftDots g else JsNum 0);
          height = js_String (rg_heightDots g)
      in js ''<svg'' @ attr ''xmlns'' (js ''http://www.w3.org/2000/svg'') @ attr ''width'' imageWidth
         @ attr ''height'' height
         @ attr ''viewBox'' (viewBoxX @ js '' 0 '' @ imageWidth @ [cu_space] @ height)
         @ js ''>'' @ contentClip @ js ''<rect'' @ attr ''width'' (js ''100%'')
         @ attr ''height'' (js ''100%'') @ attr ''fill'' (js ''white'') @ js ''/><g''
         @ attr ''clip-path'' (js ''url(#ticket-content)'') @ attr ''fill'' (js ''black'')
         @ attr ''font-family'' fontFamily @ attr ''font-size'' (js_String (rg_fontSizeDots g))
         @ attr ''font-weight'' fontWeight @ attr ''font-variant-ligatures'' (js ''none'')
         @ js ''>'' @ textNodes @ js ''</g></svg>'')"

definition ticketRasterSvg :: "jsstring \<Rightarrow> print_profile \<Rightarrow> jsstring" where
  "ticketRasterSvg t p = rasterSvg t p False"

definition ticketRasterSvgUrl :: "jsstring \<Rightarrow> print_profile \<Rightarrow> jsstring option" where
  "ticketRasterSvgUrl t p = map_option (\<lambda>u. js ''data:image/svg+xml;charset=utf-8,'' @ u)
     (encodeURIComponent (ticketRasterSvg t p))"

text \<open>
  Drawing the document on a canvas. The browser is the parameter: whether an image source loads,
  whether the canvas has a 2d context, and the PNG it gives for the canvas.
\<close>

record raster_canvas =
  cv_width :: jsnum
  cv_height :: jsnum
  cv_fill :: jsstring
  cv_image :: jsstring

definition rasterPngUrl ::
  "(jsstring \<Rightarrow> bool) \<Rightarrow> bool \<Rightarrow> (raster_canvas \<Rightarrow> jsstring) \<Rightarrow> jsstring \<Rightarrow> print_profile \<Rightarrow> bool
    \<Rightarrow> jsstring + jsstring" where
  "rasterPngUrl loads has_2d toDataURL t p contentOnly =
     (let g = ticketRasterGeometry p (length (ticket_lines t)) in
      case encodeURIComponent (rasterSvg t p contentOnly) of
        None \<Rightarrow> Inl (js ''URI malformed'')
      | Some u \<Rightarrow>
          (let src = js ''data:image/svg+xml;charset=utf-8,'' @ u in
           if \<not> loads src then Inl (js ''No se ha podido rasterizar el ticket.'')
           else if \<not> has_2d
           then Inl (js ''El navegador no permite preparar la impresi'' @ [243] @ js ''n.'')
           else Inr (toDataURL
             \<lparr>cv_width = (if contentOnly then rg_contentWidthDots g else rg_widthDots g),
              cv_height = rg_heightDots g, cv_fill = js ''#fff'', cv_image = src\<rparr>)))"

definition ticketRasterPngUrl ::
  "(jsstring \<Rightarrow> bool) \<Rightarrow> bool \<Rightarrow> (raster_canvas \<Rightarrow> jsstring) \<Rightarrow> jsstring \<Rightarrow> print_profile
    \<Rightarrow> jsstring + jsstring" where
  "ticketRasterPngUrl loads has_2d toDataURL t p = rasterPngUrl loads has_2d toDataURL t p False"

definition ticketRasterContentPngUrl ::
  "(jsstring \<Rightarrow> bool) \<Rightarrow> bool \<Rightarrow> (raster_canvas \<Rightarrow> jsstring) \<Rightarrow> jsstring \<Rightarrow> print_profile
    \<Rightarrow> jsstring + jsstring" where
  "ticketRasterContentPngUrl loads has_2d toDataURL t p = rasterPngUrl loads has_2d toDataURL t p True"

section \<open>Lemmas\<close>

text \<open>The five replacements in a row are one substitution, character by character.\<close>

definition esc_unit :: "nat \<Rightarrow> jsstring" where
  "esc_unit c = (if c = 38 then js ''&amp;'' else if c = 60 then js ''&lt;''
     else if c = 62 then js ''&gt;'' else if c = 34 then js ''&quot;''
     else if c = 39 then js ''&apos;'' else [c])"

lemma js_replace_all_append: "js_replace_all c r (s @ t) = js_replace_all c r s @ js_replace_all c r t"
  by (simp add: js_replace_all_def)

lemma escapeXml_append: "escapeXml (s @ t) = escapeXml s @ escapeXml t"
  by (simp add: escapeXml_def js_replace_all_append)

lemma escapeXml_unit: "escapeXml [c] = esc_unit c"
  by (simp add: escapeXml_def esc_unit_def js_replace_all_def js_def)

lemma escapeXml_units: "escapeXml s = concat (map esc_unit s)"
proof (induction s)
  case Nil
  show ?case by (simp add: escapeXml_def js_replace_all_def)
next
  case (Cons c s)
  have "escapeXml ([c] @ s) = escapeXml [c] @ escapeXml s" by (rule escapeXml_append)
  with Cons show ?case by (simp add: escapeXml_unit)
qed

text \<open>What an XML reader makes of character data.\<close>

fun xml_decode :: "jsstring \<Rightarrow> jsstring" where
  "xml_decode [] = []"
| "xml_decode (c # s) =
     (if c \<noteq> 38 then c # xml_decode s
      else if js_starts_with (js ''amp;'') s then 38 # xml_decode (drop 4 s)
      else if js_starts_with (js ''lt;'') s then 60 # xml_decode (drop 3 s)
      else if js_starts_with (js ''gt;'') s then 62 # xml_decode (drop 3 s)
      else if js_starts_with (js ''quot;'') s then 34 # xml_decode (drop 5 s)
      else if js_starts_with (js ''apos;'') s then 39 # xml_decode (drop 5 s)
      else c # xml_decode s)"

lemma xml_decode_unit: "xml_decode (esc_unit c @ s) = c # xml_decode s"
  by (simp add: esc_unit_def js_def js_starts_with_def)

lemma xml_decode_escapeXml: "xml_decode (escapeXml s) = s"
  by (induction s) (simp_all add: escapeXml_units xml_decode_unit)

lemma esc_unit_markup: "c \<in> set (esc_unit d) \<Longrightarrow> c \<notin> {60, 62, 34, 39}"
  by (auto simp: esc_unit_def js_def split: if_splits)

text \<open>
  How an XML reader splits the document: the tags, with their attribute values between quotes, and
  the character data between them. A less-than sign inside a tag, or a tag that does not end, is no
  document.
\<close>

datatype xml_token = Tag jsstring | Chars jsstring

definition flush_chars :: "jsstring \<Rightarrow> xml_token list \<Rightarrow> xml_token list" where
  "flush_chars acc toks = (if acc = [] then toks else toks @ [Chars (xml_decode acc)])"

fun xml_text :: "jsstring \<Rightarrow> xml_token list \<Rightarrow> jsstring \<Rightarrow> xml_token list option"
  and xml_tag :: "jsstring \<Rightarrow> xml_token list \<Rightarrow> jsstring \<Rightarrow> xml_token list option"
  and xml_value :: "jsstring \<Rightarrow> xml_token list \<Rightarrow> jsstring \<Rightarrow> xml_token list option" where
  "xml_text acc toks [] = Some (flush_chars acc toks)"
| "xml_text acc toks (c # s) =
     (if c = 60 then xml_tag [] (flush_chars acc toks) s else xml_text (acc @ [c]) toks s)"
| "xml_tag acc toks [] = None"
| "xml_tag acc toks (c # s) =
     (if c = 62 then xml_text [] (toks @ [Tag acc]) s else if c = 60 then None
      else if c = 34 then xml_value (acc @ [c]) toks s else xml_tag (acc @ [c]) toks s)"
| "xml_value acc toks [] = None"
| "xml_value acc toks (c # s) =
     (if c = 60 then None else if c = 34 then xml_tag (acc @ [c]) toks s else xml_value (acc @ [c]) toks s)"

text \<open>The character data, and what the text elements hold.\<close>

definition character_data :: "xml_token list \<Rightarrow> jsstring list" where
  "character_data toks = concat (map (\<lambda>k. case k of Chars c \<Rightarrow> [c] | Tag _ \<Rightarrow> []) toks)"

fun text_elements :: "xml_token list \<Rightarrow> jsstring list" where
  "text_elements [] = []"
| "text_elements (Chars c # ks) = text_elements ks"
| "text_elements (Tag t # ks) =
     (if js_starts_with (js ''text '') t
      then (case ks of Chars c # _ \<Rightarrow> c | _ \<Rightarrow> []) # text_elements ks else text_elements ks)"

definition plain :: "jsstring \<Rightarrow> bool" where
  "plain s \<longleftrightarrow> set s \<inter> {34, 60, 62} = {}"

lemma plain_append [simp]: "plain (s @ t) \<longleftrightarrow> plain s \<and> plain t"
  by (auto simp: plain_def)

lemma plain_Cons [simp]: "plain (c # s) \<longleftrightarrow> c \<notin> {34, 60, 62} \<and> plain s"
  by (auto simp: plain_def)

lemma plain_Nil [simp]: "plain []"
  by (simp add: plain_def)

lemma plain_js [simp]: "plain (js s) \<longleftrightarrow> list_all (\<lambda>c. (of_char c :: nat) \<notin> {34, 60, 62}) s"
  by (auto simp: plain_def js_def list_all_iff)

lemma plain_String [simp]: "plain (js_String x)"
proof -
  have "c \<notin> {34, 60, 62}" if "c \<in> set (js_String x)" for c
    using that positive_string_chars [of c]
    by (cases x) (auto simp: js_digit_def js_def split: if_splits)
  then show ?thesis by (auto simp: plain_def)
qed

lemma plain_escapeXml [simp]: "plain (escapeXml s)"
  using esc_unit_markup by (auto simp: plain_def escapeXml_units)

lemma xml_tag_plain [simp]: "plain s \<Longrightarrow> xml_tag acc toks (s @ r) = xml_tag (acc @ s) toks r"
  by (induction s arbitrary: acc) auto

lemma xml_value_plain: "plain v \<Longrightarrow> xml_value acc toks (v @ 34 # r) = xml_tag (acc @ v @ [34]) toks r"
  by (induction v arbitrary: acc) auto

lemma xml_text_plain [simp]: "plain s \<Longrightarrow> xml_text acc toks (s @ r) = xml_text (acc @ s) toks r"
  by (induction s arbitrary: acc) auto

lemma xml_tag_attr [simp]:
  assumes "plain (js n)" and "plain v"
  shows "xml_tag acc toks (attr n v @ r) = xml_tag (acc @ attr n v) toks r"
proof -
  have "xml_tag acc toks (attr n v @ r) = xml_value (acc @ cu_space # js n @ [61, 34]) toks (v @ 34 # r)"
    using xml_tag_plain [OF assms(1)] by (simp add: attr_def)
  then show ?thesis using xml_value_plain [OF assms(2)] by (simp add: attr_def)
qed

lemma flush_escaped: "flush_chars (escapeXml line) toks = (if line = [] then toks else toks @ [Chars line])"
  using xml_decode_escapeXml [of line] escapeXml_units [of "[]"] by (auto simp: flush_chars_def)

definition text_tag :: "raster_geometry \<Rightarrow> nat \<Rightarrow> jsstring" where
  "text_tag g index = js ''text'' @ attr ''x'' (js_String (rg_contentLeftDots g))
     @ attr ''y'' (js_String (rg_topDots g + rg_fontSizeDots g + JsNum (of_nat index) * rg_lineHeightDots g))
     @ attr ''xml:space'' (js ''preserve'')"

definition text_tokens :: "raster_geometry \<Rightarrow> nat \<times> jsstring \<Rightarrow> xml_token list" where
  "text_tokens g il = (case il of (i, line) \<Rightarrow>
     Tag (text_tag g i) # (if line = [] then [] else [Chars line]) @ [Tag (js ''/text'')])"

lemma xml_text_node:
  "xml_text [] toks (text_node g i line @ r) = xml_text [] (toks @ text_tokens g (i, line)) r"
proof -
  have "xml_text [] toks (text_node g i line @ r)
      = xml_text [] (toks @ [Tag (text_tag g i)]) (escapeXml line @ js ''</text>'' @ r)"
    by (simp add: text_node_def text_tag_def Let_def flush_chars_def js_def)
  also have "\<dots> = xml_text [] (toks @ text_tokens g (i, line)) r"
    by (simp add: text_tokens_def flush_escaped) (simp add: js_def flush_escaped)
  finally show ?thesis .
qed

lemma xml_text_nodes:
  "xml_text [] toks (concat (map (\<lambda>(i, line). text_node g i line) ils) @ r)
     = xml_text [] (toks @ concat (map (text_tokens g) ils)) r"
  by (induction ils arbitrary: toks) (auto simp: xml_text_node)

lemma text_tokens_read:
  "text_elements (concat (map (text_tokens g) ils) @ ks) = map snd ils @ text_elements ks"
  "character_data (concat (map (text_tokens g) ils) @ ks)
     = filter (\<lambda>l. l \<noteq> []) (map snd ils) @ character_data ks"
  by (induction ils) (auto simp: text_tokens_def text_tag_def attr_def js_starts_with_def js_def character_data_def)

text \<open>The tags before the lines, read one by one.\<close>

definition tag_reads :: "jsstring \<Rightarrow> bool" where
  "tag_reads b \<longleftrightarrow> (\<forall>acc toks r. xml_tag acc toks (b @ r) = xml_tag (acc @ b) toks r)"

lemma tag_reads_parts [simp]:
  "plain b \<Longrightarrow> tag_reads b"
  "plain (js n) \<Longrightarrow> plain v \<Longrightarrow> tag_reads (attr n v)"
  "tag_reads b \<Longrightarrow> tag_reads c \<Longrightarrow> tag_reads (b @ c)"
  by (simp_all add: tag_reads_def)

lemma xml_tags:
  "\<forall>b \<in> set bs. tag_reads b \<Longrightarrow>
     xml_text [] toks (concat (map (\<lambda>b. 60 # b @ [62]) bs) @ r) = xml_text [] (toks @ map Tag bs) r"
proof (induction bs arbitrary: toks)
  case (Cons b bs)
  then have "xml_text [] toks ((60 # b @ [62]) @ concat (map (\<lambda>b. 60 # b @ [62]) bs) @ r)
      = xml_text [] (toks @ [Tag b]) (concat (map (\<lambda>b. 60 # b @ [62]) bs) @ r)"
    by (simp add: tag_reads_def flush_chars_def)
  with Cons show ?case by simp
qed simp

lemma other_tags_read:
  "\<forall>b \<in> set bs. \<not> js_starts_with (js ''text '') b \<Longrightarrow> text_elements (map Tag bs @ ks) = text_elements ks"
  "character_data (map Tag bs @ ks) = character_data ks"
  by (induction bs) (auto simp: character_data_def)

definition raster_tags :: "raster_geometry \<Rightarrow> print_profile \<Rightarrow> bool \<Rightarrow> jsstring list" where
  "raster_tags g p contentOnly =
     (let imageWidth = js_String (if contentOnly then rg_contentWidthDots g else rg_widthDots g);
          viewBoxX = js_String (if contentOnly then rg_contentLeftDots g else JsNum 0);
          height = js_String (rg_heightDots g)
      in [js ''svg'' @ attr ''xmlns'' (js ''http://www.w3.org/2000/svg'') @ attr ''width'' imageWidth
            @ attr ''height'' height
            @ attr ''viewBox'' (viewBoxX @ js '' 0 '' @ imageWidth @ [cu_space] @ height),
          js ''defs'', js ''clipPath'' @ attr ''id'' (js ''ticket-content''),
          js ''rect'' @ attr ''x'' (js_String (rg_contentLeftDots g)) @ attr ''y'' (js ''0'')
            @ attr ''width'' (js_String (rg_contentWidthDots g)) @ attr ''height'' height @ js ''/'',
          js ''/clipPath'', js ''/defs'',
          js ''rect'' @ attr ''width'' (js ''100%'') @ attr ''height'' (js ''100%'')
            @ attr ''fill'' (js ''white'') @ js ''/'',
          js ''g'' @ attr ''clip-path'' (js ''url(#ticket-content)'') @ attr ''fill'' (js ''black'')
            @ attr ''font-family'' (escapeXml (ticketFontStack (pp_font_family p)))
            @ attr ''font-size'' (js_String (rg_fontSizeDots g))
            @ attr ''font-weight'' (if pp_font_weight p = BOLD then js ''700'' else js ''400'')
            @ attr ''font-variant-ligatures'' (js ''none'')])"

lemma rasterSvg_tags:
  "rasterSvg t p contentOnly =
     (let g = ticketRasterGeometry p (length (ticket_lines t)) in
      concat (map (\<lambda>b. 60 # b @ [62]) (raster_tags g p contentOnly))
      @ concat (map (\<lambda>(i, line). text_node g i line) (enumerate 0 (ticket_lines t)))
      @ js ''</g></svg>'')"
  unfolding rasterSvg_def raster_tags_def Let_def by (simp add: js_def)

lemma raster_tags_read: "\<forall>b \<in> set (raster_tags g p contentOnly). tag_reads b"
  unfolding raster_tags_def Let_def by simp

lemma raster_tags_other: "\<forall>b \<in> set (raster_tags g p contentOnly). \<not> js_starts_with (js ''text '') b"
  unfolding raster_tags_def Let_def by (simp add: js_def js_starts_with_def)


subsection \<open>Dots\<close>

text \<open>A number between zero and a small bound: products of such numbers stay finite.\<close>

definition fin_le :: "rat \<Rightarrow> jsnum \<Rightarrow> bool" where
  "fin_le B x \<longleftrightarrow> (\<exists>q. x = JsNum q \<and> 0 \<le> q \<and> q \<le> B)"

lemma fin_leI: "0 \<le> q \<Longrightarrow> q \<le> B \<Longrightarrow> fin_le B (JsNum q)"
  by (simp add: fin_le_def)

lemma rnd_fin_le:
  assumes "0 \<le> q" "q \<le> B" "B < 2 ^ 20"
  shows "fin_le (B + 1) (rnd q)"
proof -
  have q: "\<bar>q\<bar> < 2 powi 20" using assms by simp
  have "\<bar>rnd_rat q - q\<bar> \<le> 2 powi (20 - 54)" using rnd_rat_error_bound [OF q] by simp
  moreover have "(2::rat) powi (20 - 54) \<le> 1" by (simp add: power_int_minus)
  ultimately have "rnd_rat q \<le> B + 1" using assms(2) by linarith
  moreover have "rnd q = JsNum (rnd_rat q)" using rnd_small [OF q] by simp
  ultimately show ?thesis using rnd_rat_nonneg [OF assms(1)] by (simp add: fin_le_def)
qed

lemma fin_le_mult:
  assumes "fin_le A x" "fin_le B y" "A * B < 2 ^ 20"
  shows "fin_le (A * B + 1) (x * y)"
proof -
  obtain p q where *: "x = JsNum p" "y = JsNum q" "0 \<le> p" "p \<le> A" "0 \<le> q" "q \<le> B"
    using assms(1,2) by (auto simp: fin_le_def)
  then have "0 \<le> p * q" "p * q \<le> A * B" by (auto intro: mult_mono)
  with rnd_fin_le [of "p * q" "A * B"] assms(3) * show ?thesis by (simp add: times_jsnum_def)
qed

lemma DOTS_PER_MM_val: "DOTS_PER_MM = JsNum (4499166950571903 / 562949953421312)"
  by code_simp

lemma PRINT_DOTS_val: "PRINT_DOTS_PER_CSS_PIXEL = JsNum (4761618356021931 / 2251799813685248)"
  by code_simp

text \<open>The rounding of whole millimetres: 203 dots in 25.4 mm.\<close>

definition mm_dots :: "int \<Rightarrow> int" where
  "mm_dots i = (2030 * i + 127) div 254"

lemma mm_dots_bounds: "0 \<le> i \<Longrightarrow> i \<le> 80 \<Longrightarrow> 0 \<le> mm_dots i \<and> mm_dots i \<le> 639"
  by (auto simp: mm_dots_def)

lemma rnd_close:
  assumes "\<bar>q\<bar> < 2 ^ 20"
  shows "rnd q = JsNum (rnd_rat q)" and "\<bar>rnd_rat q - q\<bar> \<le> 1 / 1000"
proof -
  have q: "\<bar>q\<bar> < 2 powi 20" using assms by simp
  show "rnd q = JsNum (rnd_rat q)" using rnd_small [OF q] by simp
  have "\<bar>rnd_rat q - q\<bar> \<le> 2 powi (20 - 54)" using rnd_rat_error_bound [OF q] by simp
  then show "\<bar>rnd_rat q - q\<bar> \<le> 1 / 1000" by (rule order_trans) (simp add: power_int_minus)
qed

text \<open>No whole number of millimetres is near half a dot, so a small error does not change it.\<close>

lemma mm_dots_near:
  fixes x :: rat
  assumes "\<bar>x - of_int i * (1015 / 127)\<bar> \<le> 1 / 500"
  shows "\<lfloor>x + 1 / 2\<rfloor> = mm_dots i"
proof -
  let ?n = "2030 * i + 127"
  define r where "r = ?n mod 254"
  have n: "?n = 254 * mm_dots i + r" by (simp add: mm_dots_def r_def)
  have "odd r" by (simp add: r_def dvd_mod_iff)
  then have "r \<noteq> 0" by auto
  then have "1 \<le> r" "r \<le> 253"
    using pos_mod_bound [of 254 ?n] pos_mod_sign [of 254 ?n] by (simp_all add: r_def)
  then have "254 * mm_dots i + 1 \<le> ?n" "?n + 1 \<le> 254 * (mm_dots i + 1)"
    unfolding n by simp_all
  then have "(of_int (254 * mm_dots i + 1) :: rat) \<le> of_int ?n"
    "(of_int (?n + 1) :: rat) \<le> of_int (254 * (mm_dots i + 1))"
    by (simp_all only: of_int_le_iff)
  then have "254 * of_int (mm_dots i) + 1 \<le> 2030 * (of_int i :: rat) + 127"
    "2030 * (of_int i :: rat) + 128 \<le> 254 * (of_int (mm_dots i) + 1)"
    by simp_all
  moreover have "m \<le> x + 1 / 2 \<and> x + 1 / 2 < m + 1"
    if "254 * m + 1 \<le> 2030 * y + 127" "2030 * y + 128 \<le> 254 * (m + 1)"
      "x - y * (1015 / 127) \<le> 1 / 500" "y * (1015 / 127) - x \<le> 1 / 500" for y m :: rat
    using that by (simp add: field_simps)
  moreover have "x - of_int i * (1015 / 127) \<le> 1 / 500" "of_int i * (1015 / 127) - x \<le> 1 / 500"
    using assms unfolding abs_le_iff by auto
  ultimately have "of_int (mm_dots i) \<le> x + 1 / 2" "x + 1 / 2 < of_int (mm_dots i) + 1" by blast+
  then show ?thesis by (rule floor_unique)
qed

lemma dotsFromMm_int:
  assumes "0 \<le> i" and "i \<le> 80"
  shows "dotsFromMm (JsNum (of_int i)) = JsNum (of_int (mm_dots i))"
proof -
  let ?c = "4499166950571903 / 562949953421312 :: rat"
  have i: "0 \<le> (of_int i :: rat)" "(of_int i :: rat) \<le> 80" using assms by (auto simp flip: of_int_le_iff)
  then have b: "\<bar>of_int i * ?c\<bar> < 2 ^ 20" by simp
  have "\<bar>x - y * (1015 / 127)\<bar> \<le> 1 / 500"
    if "\<bar>x - y * ?c\<bar> \<le> 1 / 1000" "0 \<le> y" "y \<le> 80" for x y :: rat
    using that unfolding abs_le_iff by (intro conjI) (simp_all add: field_simps)
  then have "\<lfloor>rnd_rat (of_int i * ?c) + 1 / 2\<rfloor> = mm_dots i"
    using rnd_close(2) [OF b] i by (intro mm_dots_near) blast
  then show ?thesis
    using rnd_close(1) [OF b] mm_dots_bounds [OF assms]
    by (simp add: dotsFromMm_def DOTS_PER_MM_val times_jsnum_def less_jsnum_def)
qed

text \<open>What the schema lets a whole number be.\<close>

lemma int_betweenE:
  assumes "int_between lo hi x"
  obtains i where "x = JsNum (of_int i)" "lo \<le> i" "i \<le> hi"
proof (cases x)
  case (JsNum q)
  then show ?thesis using assms that [of "\<lfloor>q\<rfloor>"] by (auto simp: int_between_def)
qed (use assms in \<open>simp_all add: int_between_def\<close>)

lemma js_max_1_ge:
  assumes "fin_le B x" "1 \<le> B"
  shows "\<exists>q. js_max (JsNum 1) x = JsNum q \<and> 1 \<le> q \<and> q \<le> B"
  using assms by (auto simp: fin_le_def less_jsnum_def)

text \<open>
  The scale for tickets stored with the former page margins: between 0 and 1, whatever the
  configured width.
\<close>

lemma historical_scale_fin:
  assumes "1 \<le> w" "w \<le> 576" "200 \<le> c"
  shows "fin_le 1 (js_min (JsNum 1) (JsNum (of_int w) div JsNum (of_int c)))"
proof -
  have w: "1 \<le> (of_int w :: rat)" "(of_int w :: rat) \<le> 576" and c: "200 \<le> (of_int c :: rat)"
    using assms by (auto simp flip: of_int_le_iff)
  then have "0 \<le> of_int w / (of_int c :: rat)" "of_int w / (of_int c :: rat) \<le> 576"
    by (auto simp: field_simps)
  then have "fin_le 577 (rnd (of_int w / of_int c))"
    using rnd_fin_le [of "of_int w / of_int c" 576] by simp
  then show ?thesis using c
    by (auto simp: fin_le_def divide_jsnum_def less_jsnum_def)
qed

text \<open>Character size and line height come out finite, the line at least as high as the character.\<close>

lemma font_dots:
  assumes "1 \<le> w" "w \<le> 576" "200 \<le> c" "6 \<le> i" "i \<le> 16"
  shows "\<exists>q. js_max (JsNum 1) (JsNum (of_int i) * PRINT_DOTS_PER_CSS_PIXEL
      * js_min (JsNum 1) (JsNum (of_int w) div JsNum (of_int c))) = JsNum q \<and> 1 \<le> q \<and> q \<le> 50"
proof -
  have i: "0 \<le> (of_int i :: rat)" "(of_int i :: rat) \<le> 16"
    using assms by (auto simp flip: of_int_le_iff)
  have "fin_le 3 PRINT_DOTS_PER_CSS_PIXEL" unfolding PRINT_DOTS_val by (rule fin_leI) simp_all
  from fin_le_mult [OF fin_leI [OF i] this]
  have "fin_le 49 (JsNum (of_int i) * PRINT_DOTS_PER_CSS_PIXEL)" by simp
  from fin_le_mult [OF this historical_scale_fin [OF assms(1-3)]]
  have "fin_le 50 (JsNum (of_int i) * PRINT_DOTS_PER_CSS_PIXEL
      * js_min (JsNum 1) (JsNum (of_int w) div JsNum (of_int c)))" by simp
  from js_max_1_ge [OF this] show ?thesis by simp
qed

lemma js_max_ceil_ge:
  assumes "js_is_finite y" "1 \<le> q"
  shows "\<exists>l. js_max (js_ceil (JsNum q)) y = JsNum l \<and> q \<le> l"
proof -
  have "q \<le> of_int \<lceil>q\<rceil>" by simp
  then have "of_int \<lceil>q\<rceil> < x \<Longrightarrow> q \<le> x" for x by linarith
  with assms show ?thesis by (cases y) (auto simp: less_jsnum_def)
qed

lemma content_width:
  assumes "0 \<le> l" "l \<le> 440" "0 \<le> r" "r \<le> 440"
  shows "js_max (JsNum 1) (JsNum 576 - JsNum (of_int l) - JsNum (of_int r))
     = JsNum (of_int (max 1 (576 - l - r)))"
proof -
  have "rnd (of_int (576 - l)) = JsNum (of_int (576 - l))"
    "rnd (of_int (576 - l - r)) = JsNum (of_int (576 - l - r))"
    using assms by (intro rnd_of_int; simp)+
  then show ?thesis by (auto simp: minus_jsnum_def less_jsnum_def max_def)
qed

lemma mm_dots_margin: "0 \<le> i \<Longrightarrow> i \<le> 55 \<Longrightarrow> 0 \<le> mm_dots i \<and> mm_dots i \<le> 440"
  by (auto simp: mm_dots_def)

lemma mm_dots_width: "25 \<le> i \<Longrightarrow> i \<le> 80 \<Longrightarrow> 200 \<le> mm_dots i"
  by (auto simp: mm_dots_def)

lemma geometry_content:
  assumes "profile_schema p"
  shows "\<exists>l w. rg_contentLeftDots (ticketRasterGeometry p n) = JsNum (of_int l)
     \<and> rg_contentWidthDots (ticketRasterGeometry p n) = JsNum (of_int w)
     \<and> 0 \<le> l \<and> 1 \<le> w \<and> l + w \<le> 576"
proof -
  obtain l where l: "pp_margin_left_mm p = JsNum (of_int l)" "0 \<le> l" "l \<le> 55"
    using assms by (auto simp: profile_schema_def elim: int_betweenE)
  obtain r where r: "pp_margin_right_mm p = JsNum (of_int r)" "0 \<le> r" "r \<le> 55"
    using assms by (auto simp: profile_schema_def elim: int_betweenE)
  have dots: "dotsFromMm (JsNum (of_int l)) = JsNum (of_int (mm_dots l))"
    "dotsFromMm (JsNum (of_int r)) = JsNum (of_int (mm_dots r))"
    using l r by (auto intro: dotsFromMm_int)
  have b: "0 \<le> mm_dots l" "mm_dots l \<le> 440" "0 \<le> mm_dots r" "mm_dots r \<le> 440"
    using mm_dots_margin l r by auto
  let ?w = "max 1 (576 - mm_dots l - mm_dots r)"
  have "rg_contentLeftDots (ticketRasterGeometry p n) = JsNum (of_int (mm_dots l))"
    by (simp add: ticketRasterGeometry_def Let_def l dots)
  moreover have "rg_contentWidthDots (ticketRasterGeometry p n) = JsNum (of_int ?w)"
    using content_width [OF b]
    by (simp add: ticketRasterGeometry_def Let_def l r dots THERMAL_PRINTABLE_DOTS_def
        del: js_max.simps js_min.simps)
  moreover have "mm_dots l + ?w \<le> 576" using b by auto
  ultimately show ?thesis using b by (meson max.cobounded1)
qed

lemma geometry_font:
  assumes "profile_schema p"
  shows "\<exists>q h. rg_fontSizeDots (ticketRasterGeometry p n) = JsNum q
     \<and> rg_lineHeightDots (ticketRasterGeometry p n) = JsNum h \<and> 1 \<le> q \<and> q \<le> h"
proof -
  obtain i where i: "pp_font_size_px p = JsNum (of_int i)" "6 \<le> i" "i \<le> 16"
    using assms by (auto simp: profile_schema_def elim: int_betweenE)
  obtain h where h: "pp_line_height_px p = JsNum (of_int h)" "8 \<le> h" "h \<le> 24"
    using assms by (auto simp: profile_schema_def elim: int_betweenE)
  obtain c where c: "pp_printable_width_mm p = JsNum (of_int c)" "25 \<le> c" "c \<le> 80"
    using assms by (auto simp: profile_schema_def elim: int_betweenE)
  obtain w where w: "rg_contentWidthDots (ticketRasterGeometry p n) = JsNum (of_int w)" "1 \<le> w" "w \<le> 576"
    using geometry_content [OF assms, of n] by auto
  let ?scale = "js_min (JsNum 1) (JsNum (of_int w) div JsNum (of_int (mm_dots c)))"
  have dc: "dotsFromMm (JsNum (of_int c)) = JsNum (of_int (mm_dots c))"
    using c by (auto intro: dotsFromMm_int)
  obtain q where q: "js_max (JsNum 1) (JsNum (of_int i) * PRINT_DOTS_PER_CSS_PIXEL * ?scale) = JsNum q" "1 \<le> q"
    using font_dots [OF w(2,3) mm_dots_width [OF c(2,3)] i(2,3)] by blast
  have "fin_le 3 PRINT_DOTS_PER_CSS_PIXEL" unfolding PRINT_DOTS_val by (rule fin_leI) simp_all
  moreover have "fin_le 24 (JsNum (of_int h))" using h by (intro fin_leI) auto
  ultimately have "fin_le 73 (JsNum (of_int h) * PRINT_DOTS_PER_CSS_PIXEL)"
    using fin_le_mult [of 24 _ 3] by fastforce
  from fin_le_mult [OF this historical_scale_fin [OF w(2,3) mm_dots_width [OF c(2,3)]]]
  have "js_is_finite (js_round (JsNum (of_int h) * PRINT_DOTS_PER_CSS_PIXEL * ?scale))"
    by (auto simp: fin_le_def)
  from js_max_ceil_ge [OF this q(2)] obtain l where
    l: "js_max (js_ceil (JsNum q)) (js_round (JsNum (of_int h) * PRINT_DOTS_PER_CSS_PIXEL * ?scale)) = JsNum l"
    "q \<le> l" by blast
  have "rg_fontSizeDots (ticketRasterGeometry p n) = JsNum q"
    using w(1) q(1) by (simp add: ticketRasterGeometry_def Let_def i c dc del: js_max.simps js_min.simps)
  moreover have "rg_lineHeightDots (ticketRasterGeometry p n) = JsNum l"
    using w(1) q(1) l(1)
    by (simp add: ticketRasterGeometry_def Let_def i c dc h del: js_max.simps js_min.simps js_ceil.simps)
  ultimately show ?thesis using q l by blast
qed

text \<open>C12: Whatever template the server accepts, the printed area of its raster lies within the
  576 dots of the thermal head and is at least one dot wide, and consecutive lines of text are at
  least one character height apart, so they do not overlap.\<close>

theorem raster_in_head:
  assumes "profile_schema p"
  shows "\<exists>l w q h. rg_contentLeftDots (ticketRasterGeometry p n) = JsNum (of_int l)
     \<and> rg_contentWidthDots (ticketRasterGeometry p n) = JsNum (of_int w)
     \<and> rg_fontSizeDots (ticketRasterGeometry p n) = JsNum q
     \<and> rg_lineHeightDots (ticketRasterGeometry p n) = JsNum h
     \<and> 0 \<le> l \<and> 1 \<le> w \<and> l + w \<le> 576 \<and> 1 \<le> q \<and> q \<le> h"
  using geometry_content [OF assms, of n] geometry_font [OF assms, of n] by blast

definition sample_profile :: print_profile where
  "sample_profile = \<lparr>pp_printable_width_mm = JsNum 72, pp_margin_left_mm = JsNum 4,
     pp_margin_right_mm = JsNum 4, pp_font_family = COURIER_NEW, pp_font_size_px = JsNum 12,
     pp_line_height_px = JsNum 16, pp_font_weight = NORMAL, pp_margin_top_mm = JsNum 2,
     pp_margin_bottom_mm = JsNum 3\<rparr>"

lemma sample_profile_schema: "profile_schema sample_profile"
  by (simp add: profile_schema_def sample_profile_def int_between_def)

lemma raster_in_head_witness:
  "\<exists>l w q h. rg_contentLeftDots (ticketRasterGeometry sample_profile 5) = JsNum (of_int l)
     \<and> rg_contentWidthDots (ticketRasterGeometry sample_profile 5) = JsNum (of_int w)
     \<and> rg_fontSizeDots (ticketRasterGeometry sample_profile 5) = JsNum q
     \<and> rg_lineHeightDots (ticketRasterGeometry sample_profile 5) = JsNum h
     \<and> 0 \<le> l \<and> 1 \<le> w \<and> l + w \<le> 576 \<and> 1 \<le> q \<and> q \<le> h"
  by (rule raster_in_head [OF sample_profile_schema])

subsection \<open>Characters per line\<close>

lemma rnd_between:
  assumes "a \<le> q" "q \<le> b" "- 1000 \<le> a" "b \<le> 1000"
  shows "\<exists>r. rnd q = JsNum r \<and> a - 1 / 1000 \<le> r \<and> r \<le> b + 1 / 1000"
proof -
  have q: "\<bar>q\<bar> < 2 ^ 20" using assms by (simp add: abs_less_iff)
  have "a - 1 / 1000 \<le> rnd_rat q" "rnd_rat q \<le> b + 1 / 1000"
    using abs_le_D1 [OF rnd_close(2) [OF q]] abs_le_D2 [OF rnd_close(2) [OF q]] assms by linarith+
  with rnd_close(1) [OF q] show ?thesis by blast
qed

lemma character_width:
  assumes "6 \<le> i" "i \<le> 16"
  shows "\<exists>d. (JsNum (of_int i) * js_num (61 / 100) * js_num (254 / 10)) div JsNum 96 = JsNum d
    \<and> 9 / 10 \<le> d \<and> d \<le> 3"
proof -
  have i: "6 \<le> (of_int i :: rat)" "(of_int i :: rat) \<le> 16" using assms by (auto simp flip: of_int_le_iff)
  obtain a where a: "js_num (61 / 100) = JsNum a" "609 / 1000 \<le> a" "a \<le> 611 / 1000"
    using rnd_between [of "61 / 100" "61 / 100" "61 / 100"] by (auto simp: js_num_def)
  obtain c where c: "js_num (254 / 10) = JsNum c" "25399 / 1000 \<le> c" "c \<le> 25401 / 1000"
    using rnd_between [of "254 / 10" "254 / 10" "254 / 10"] by (auto simp: js_num_def)
  have "6 * (609 / 1000) \<le> of_int i * a" "of_int i * a \<le> 16 * (611 / 1000)"
    using mult_mono [of 6 "of_int i" "609 / 1000" a] mult_mono [of "of_int i" 16 a "611 / 1000"] i a
    by simp_all
  from rnd_between [OF this] obtain b where
    b: "rnd (of_int i * a) = JsNum b" "365 / 100 \<le> b" "b \<le> 98 / 10" by auto
  have "365 / 100 * (25399 / 1000) \<le> b * c" "b * c \<le> 98 / 10 * (25401 / 1000)"
    using mult_mono [of "365 / 100" b "25399 / 1000" c] mult_mono [of b "98 / 10" c "25401 / 1000"] b c
    by simp_all
  from rnd_between [OF this] obtain e where
    e: "rnd (b * c) = JsNum e" "92 \<le> e" "e \<le> 250" by auto
  have "92 / 96 \<le> e / 96" "e / 96 \<le> 250 / 96" using e by auto
  from rnd_between [OF this] obtain d where "rnd (e / 96) = JsNum d" "9 / 10 \<le> d" "d \<le> 3" by auto
  then show ?thesis unfolding times_jsnum_def divide_jsnum_def a(1) c(1) by (simp add: b e)
qed

lemma js_min_of_int: "js_min (JsNum (of_int a)) (JsNum (of_int b)) = JsNum (of_int (min a b))"
  by (simp add: less_jsnum_def min_def)

lemma js_max_floor_16:
  "\<exists>n. js_max (JsNum 16) (js_floor (JsNum x)) = JsNum (of_nat n) \<and> 16 \<le> n"
proof (cases "16 < \<lfloor>x\<rfloor>")
  case True
  then have "16 \<le> nat \<lfloor>x\<rfloor>" by linarith
  with True show ?thesis by (intro exI [of _ "nat \<lfloor>x\<rfloor>"]) (auto simp: less_jsnum_def)
next
  case False
  then show ?thesis by (intro exI [of _ 16]) (auto simp: less_jsnum_def)
qed

text \<open>Every template the server accepts has a whole number of columns, sixteen or more.\<close>

lemma printableCharacters_nat:
  assumes "profile_schema p"
  shows "\<exists>n. printableCharacters p = JsNum (of_nat n) \<and> 16 \<le> n"
proof -
  obtain w where w: "pp_printable_width_mm p = JsNum (of_int w)" "25 \<le> w" "w \<le> 80"
    using assms by (auto simp: profile_schema_def elim: int_betweenE)
  obtain l where l: "pp_margin_left_mm p = JsNum (of_int l)" "0 \<le> l" "l \<le> 55"
    using assms by (auto simp: profile_schema_def elim: int_betweenE)
  obtain r where r: "pp_margin_right_mm p = JsNum (of_int r)" "0 \<le> r" "r \<le> 55"
    using assms by (auto simp: profile_schema_def elim: int_betweenE)
  obtain i where i: "pp_font_size_px p = JsNum (of_int i)" "6 \<le> i" "i \<le> 16"
    using assms by (auto simp: profile_schema_def elim: int_betweenE)
  obtain d where d: "(JsNum (of_int i) * js_num (61 / 100) * js_num (254 / 10)) div JsNum 96 = JsNum d"
    "9 / 10 \<le> d" using character_width [OF i(2,3)] by blast
  have "rnd (of_int (72 - l)) = JsNum (of_int (72 - l))" "rnd (of_int (72 - l - r)) = JsNum (of_int (72 - l - r))"
    using l r by (intro rnd_of_int; simp)+
  then have pw: "printableWidthFromMargins (JsNum (of_int l)) (JsNum (of_int r)) = JsNum (of_int (72 - l - r))"
    by (simp add: printableWidthFromMargins_def THERMAL_HEAD_WIDTH_MM_def minus_jsnum_def)
  define m where "m = min w (72 - l - r)"
  then have m: "js_min (JsNum (of_int w)) (printableWidthFromMargins (JsNum (of_int l)) (JsNum (of_int r)))
      = JsNum (of_int m)" "- 38 \<le> m" "m \<le> 80"
    unfolding pw js_min_of_int using w l r by simp_all
  have "- 38 \<le> (of_int m :: rat)" "(of_int m :: rat) \<le> 80" using m(2,3) by (auto simp flip: of_int_le_iff)
  then have "- 50 \<le> of_int m / d" "of_int m / d \<le> 100" using d(2) by (auto simp: field_simps)
  from rnd_between [OF this] obtain x where "rnd (of_int m / d) = JsNum x" by auto
  then have "JsNum (of_int m) div JsNum d = JsNum x" using d(2) by (simp add: divide_jsnum_def)
  then show ?thesis
    using js_max_floor_16 [of x] unfolding printableCharacters_def w l r i d m by simp
qed

lemma paper_width_16: "profile_schema p \<Longrightarrow> 16 \<le> paper_width p"
  using printableCharacters_nat by (fastforce simp: paper_width_def)

end
