(* ===== verification/Layout_Template.thy ===== *)
theory Layout_Template
  imports Api_Client
begin

text \<open>
  The template language of custom tickets (\<open>tickets/layoutTemplate.ts\<close>): variables between double
  braces, loops between percent tags, and the wrapping of the result to the paper. The three
  regular expressions that find tags are written out as scanners. The expansion loop of the source
  may run forever, so it is a partial function: \<open>None\<close> is the call that does not return.
\<close>

section \<open>Tags\<close>

abbreviation (input) cu_open :: nat where "cu_open \<equiv> 123"
abbreviation (input) cu_close :: nat where "cu_close \<equiv> 125"
abbreviation (input) cu_percent :: nat where "cu_percent \<equiv> 37"

text \<open>The text before and after the first occurrence of a pattern.\<close>

fun split_first :: "jsstring \<Rightarrow> jsstring \<Rightarrow> (jsstring \<times> jsstring) option" where
  "split_first p [] = (if p = [] then Some ([], []) else None)"
| "split_first p (c # s) =
     (if js_starts_with p (c # s) then Some ([], drop (length p) (c # s))
      else map_option (\<lambda>(a, b). (c # a, b)) (split_first p s))"

text \<open>\<open>w\<close> at the front of the text, and one or more white spaces there.\<close>

definition strip_word :: "jsstring \<Rightarrow> jsstring \<Rightarrow> jsstring option" where
  "strip_word w s = (if js_starts_with w s then Some (drop (length w) s) else None)"

definition skip_ws1 :: "jsstring \<Rightarrow> jsstring option" where
  "skip_ws1 s = (case s of c # _ \<Rightarrow> if js_ws c then Some (dropWhile js_ws s) else None | [] \<Rightarrow> None)"

definition VARIABLE :: "jsstring \<Rightarrow> bool" where
  "VARIABLE s \<longleftrightarrow> (\<forall>seg \<in> set (js_split cu_dot s).
     seg \<noteq> [] \<and> (\<forall>c \<in> set seg. (97 \<le> c \<and> c \<le> 122) \<or> c = 95))"

datatype align = Left | Right | Center

definition align_of :: "jsstring \<Rightarrow> align option" where
  "align_of s = (if s = js ''left'' then Some Left else if s = js ''right'' then Some Right
     else if s = js ''center'' then Some Center else None)"

definition filter_width :: "jsstring \<Rightarrow> nat option" where
  "filter_width d =
     (if d \<noteq> [] \<and> hd d \<noteq> 48 \<and> length d \<le> 3 \<and> (\<forall>c \<in> set d. js_digit c) then Some (digits_nat d) else None)"

definition FILTER :: "jsstring \<Rightarrow> (align \<times> nat option) option" where
  "FILTER s =
     (case js_split 58 s of
        [a] \<Rightarrow> map_option (\<lambda>x. (x, None)) (align_of a)
      | [a, d] \<Rightarrow> (case (align_of a, filter_width d) of
            (Some x, Some w) \<Rightarrow> Some (x, Some w)
          | _ \<Rightarrow> None)
      | _ \<Rightarrow> None)"

definition loop_items :: "jsstring list" where
  "loop_items = [js ''line'', js ''payment'', js ''tax'']"

definition loop_collections :: "jsstring list" where
  "loop_collections = [js ''sale.lines'', js ''sale.payments'', js ''sale.taxes'']"

text \<open>The loop statement: item and collection.\<close>

definition LOOP :: "jsstring \<Rightarrow> (jsstring \<times> jsstring) option" where
  "LOOP s =
     Option.bind (Option.bind (strip_word (js ''for'') s) skip_ws1) (\<lambda>s1.
     Option.bind (find (\<lambda>i. js_starts_with i s1) loop_items) (\<lambda>item.
     Option.bind (Option.bind (strip_word item s1) skip_ws1) (\<lambda>s2.
     Option.bind (Option.bind (strip_word (js ''in'') s2) skip_ws1) (\<lambda>s3.
     if s3 \<in> set loop_collections then Some (item, s3) else None))))"

definition ALLOWED_VARIABLES :: "jsstring list" where
  "ALLOWED_VARIABLES = map js
     [''separator'', ''store.name'', ''store.tax_id'', ''store.address'', ''store.phone'',
      ''template.header'', ''template.footer'', ''sale.number'', ''sale.date'', ''sale.cashier'',
      ''totals.subtotal'', ''totals.tax'', ''totals.total'', ''totals.tendered'', ''totals.change'',
      ''labels.total'', ''labels.change'', ''labels.cash'', ''labels.card'', ''labels.other'',
      ''labels.tax_note'', ''line.name'', ''line.quantity'', ''line.unit_price'', ''line.total'',
      ''line.discount'', ''line.tax_rate'', ''payment.label'', ''payment.amount'', ''tax.rate'',
      ''tax.base'', ''tax.amount'']"

section \<open>Values\<close>

type_synonym layout_context = "(jsstring \<times> json) list"

text \<open>A \<open>TicketLayoutTemplateError\<close> is its message.\<close>

type_synonym 'a layout_result = "jsstring + 'a"

fun layout_bind :: "'a layout_result \<Rightarrow> ('a \<Rightarrow> 'b layout_result) \<Rightarrow> 'b layout_result" where
  "layout_bind (Inl e) f = Inl e"
| "layout_bind (Inr x) f = f x"

fun read_path :: "jsstring list \<Rightarrow> json \<Rightarrow> json option" where
  "read_path [] v = Some v"
| "read_path (k # ks) (JObj kvs) = (case map_of kvs k of Some v \<Rightarrow> read_path ks v | None \<Rightarrow> None)"
| "read_path (k # ks) _ = None"

definition readValue :: "jsstring \<Rightarrow> layout_context \<Rightarrow> jsstring layout_result" where
  "readValue path ctx =
     (case read_path (js_split cu_dot path) (JObj ctx) of
        Some (JStr s) \<Rightarrow> Inr s
      | _ \<Rightarrow> Inl (js ''Variable no disponible: '' @ path))"

text \<open>The widths are natural numbers; \<open>Math.ceil\<close> of a half is the rounded-up half.\<close>

fun apply_align :: "align \<Rightarrow> nat \<Rightarrow> jsstring \<Rightarrow> jsstring" where
  "apply_align Left w v = js_pad_end w (js_slice 0 (int w) v)"
| "apply_align Right w v = js_pad_start w (js_slice_from (- int w) v)"
| "apply_align Center w v =
     js_pad_end w (js_pad_start ((w + length v + 1) div 2) (js_slice 0 (int w) v))"

fun apply_filters :: "nat \<Rightarrow> jsstring list \<Rightarrow> jsstring \<Rightarrow> jsstring layout_result" where
  "apply_filters width [] v = Inr v"
| "apply_filters width (f # fs) v =
     (case FILTER f of
        None \<Rightarrow> Inl (js ''Filtro no permitido: '' @ f)
      | Some (a, w) \<Rightarrow>
          apply_filters width fs (apply_align a (case w of Some n \<Rightarrow> n | None \<Rightarrow> width) v))"

definition renderExpression :: "jsstring \<Rightarrow> layout_context \<Rightarrow> nat \<Rightarrow> jsstring layout_result" where
  "renderExpression expression ctx width =
     (let parts = map js_trim (js_split 124 expression); path = hd parts in
      if \<not> VARIABLE path \<or> path \<notin> set ALLOWED_VARIABLES
      then Inl (js ''Variable no permitida: '' @ [cu_open, cu_open] @ expression @ [cu_close, cu_close])
      else layout_bind (readValue path ctx) (apply_filters width (tl parts)))"

lemma split_first_length:
  "split_first p s = Some (a, b) \<Longrightarrow> length s = length a + length p + length b"
proof (induction s arbitrary: a)
  case Nil
  then show ?case by (auto split: if_splits)
next
  case (Cons c s)
  show ?case
  proof (cases "js_starts_with p (c # s)")
    case True
    then have "length p \<le> length (c # s)"
      unfolding js_starts_with_def by (metis length_take min.cobounded1)
    with True Cons.prems show ?thesis by auto
  next
    case False
    with Cons show ?thesis by auto
  qed
qed

text \<open>\<open>source.replace(/{{(.*?)}}/gs, ...)\<close>: the first closing pair ends the expression.\<close>

function (sequential) renderValues :: "jsstring \<Rightarrow> layout_context \<Rightarrow> nat \<Rightarrow> jsstring layout_result" where
  "renderValues [] ctx width = Inr []"
| "renderValues (c # s) ctx width =
     (case (if js_starts_with [cu_open, cu_open] (c # s)
            then split_first [cu_close, cu_close] (drop 1 s) else None) of
        Some (e, rest) \<Rightarrow>
          layout_bind (renderExpression (js_trim e) ctx width)
            (\<lambda>v. layout_bind (renderValues rest ctx width) (\<lambda>r. Inr (v @ r)))
      | None \<Rightarrow> layout_bind (renderValues s ctx width) (\<lambda>r. Inr (c # r)))"
  by pat_completeness auto
termination
  by (relation "measure (\<lambda>(s, _, _). length s)") (auto split: if_splits dest!: split_first_length)

section \<open>Loops\<close>

definition collectionFor :: "jsstring \<Rightarrow> layout_context \<Rightarrow> json list layout_result" where
  "collectionFor path ctx =
     (case js_split cu_dot path of
        base # key # _ \<Rightarrow>
          (case map_of ctx base of
             Some (JObj kvs) \<Rightarrow>
               (case map_of kvs key of
                  Some (JArr xs) \<Rightarrow> Inr xs
                | _ \<Rightarrow> Inl (js ''Colecci'' @ [243] @ js ''n no disponible: '' @ path))
           | _ \<Rightarrow> Inl (js ''Colecci'' @ [243] @ js ''n no disponible: '' @ path))
      | _ \<Rightarrow> Inl (js ''Colecci'' @ [243] @ js ''n no disponible: '' @ path))"

text \<open>The text up to the first \<open>{% endfor %}\<close> tag, and the text after it.\<close>

definition endfor_tag :: "jsstring \<Rightarrow> jsstring option" where
  "endfor_tag s =
     Option.bind (strip_word [cu_open, cu_percent] s) (\<lambda>s1.
     Option.bind (strip_word (js ''endfor'') (dropWhile js_ws s1)) (\<lambda>s2.
     strip_word [cu_percent, cu_close] (dropWhile js_ws s2)))"

fun split_endfor :: "jsstring \<Rightarrow> (jsstring \<times> jsstring) option" where
  "split_endfor [] = None"
| "split_endfor (c # s) =
     (case endfor_tag (c # s) of
        Some rest \<Rightarrow> Some ([], rest)
      | None \<Rightarrow> map_option (\<lambda>(a, b). (c # a, b)) (split_endfor s))"

text \<open>
  A block at the front of the text: \<open>/{%\s*(.*?)\s*%}([\s\S]*?){%\s*endfor\s*%}/\<close>. The dot does not
  match line terminators. Going past the first \<open>%}\<close> cannot help the match: an \<open>endfor\<close> tag that
  follows a later \<open>%}\<close> follows the first one too.
\<close>

definition match_block :: "jsstring \<Rightarrow> (jsstring \<times> jsstring \<times> jsstring) option" where
  "match_block s =
     Option.bind (strip_word [cu_open, cu_percent] s) (\<lambda>s1.
     Option.bind (split_first [cu_percent, cu_close] s1) (\<lambda>(inner, after).
     if \<exists>c \<in> set (js_trim inner). js_line_terminator c then None
     else map_option (\<lambda>(body, rest). (js_trim inner, body, rest)) (split_endfor after)))"

lemma strip_word_length: "strip_word w s = Some t \<Longrightarrow> length s = length w + length t"
  by (auto simp: strip_word_def js_starts_with_append split: if_splits)

lemma endfor_tag_length:
  assumes "endfor_tag s = Some t"
  shows "length t < length s"
proof -
  obtain s1 s2 where "strip_word [cu_open, cu_percent] s = Some s1"
    and "strip_word (js ''endfor'') (dropWhile js_ws s1) = Some s2"
    and "strip_word [cu_percent, cu_close] (dropWhile js_ws s2) = Some t"
    using assms by (auto simp: endfor_tag_def Option.bind_eq_Some_conv)
  from this [THEN strip_word_length] show ?thesis
    using length_dropWhile_le [of js_ws s1] length_dropWhile_le [of js_ws s2] by simp
qed

lemma split_endfor_length: "split_endfor s = Some (a, b) \<Longrightarrow> length b < length s"
proof (induction s arbitrary: a)
  case (Cons c s)
  then show ?case
    using endfor_tag_length [of "c # s"] by (auto split: option.splits intro: less_SucI)
qed simp

lemma match_block_length:
  assumes "match_block s = Some (st, body, rest)"
  shows "length rest < length s"
proof -
  obtain s1 inner s2 where 1: "strip_word [cu_open, cu_percent] s = Some s1"
    and 2: "split_first [cu_percent, cu_close] s1 = Some (inner, s2)"
    and 3: "split_endfor s2 = Some (body, rest)"
    using assms by (auto simp: match_block_def Option.bind_eq_Some_conv split: if_splits)
  show ?thesis
    using strip_word_length [OF 1] split_first_length [OF 2] split_endfor_length [OF 3] by simp
qed

definition render_block :: "layout_context \<Rightarrow> nat \<Rightarrow> jsstring \<Rightarrow> jsstring \<Rightarrow> jsstring layout_result" where
  "render_block ctx width statement body =
     (case LOOP (js_trim statement) of
        Some (item, collection) \<Rightarrow>
          if js_includes [cu_open, cu_percent] body
          then Inl (js ''Bloque no permitido o bucle anidado.'')
          else layout_bind (collectionFor collection ctx) (\<lambda>xs.
            foldr (\<lambda>x acc. layout_bind (renderValues body (AList.update item x ctx) width)
                (\<lambda>v. layout_bind acc (\<lambda>r. Inr (v @ r)))) xs (Inr []))
      | None \<Rightarrow> Inl (js ''Bloque no permitido o bucle anidado.''))"

text \<open>One pass of \<open>replace\<close> over the text, and whether a loop was rendered.\<close>

function (sequential) replace_blocks ::
  "layout_context \<Rightarrow> nat \<Rightarrow> jsstring \<Rightarrow> (jsstring \<times> bool) layout_result" where
  "replace_blocks ctx width [] = Inr ([], False)"
| "replace_blocks ctx width (c # s) =
     (case match_block (c # s) of
        Some (statement, body, rest) \<Rightarrow>
          layout_bind (render_block ctx width statement body) (\<lambda>v.
          layout_bind (replace_blocks ctx width rest) (\<lambda>(r, _). Inr (v @ r, True)))
      | None \<Rightarrow> layout_bind (replace_blocks ctx width s) (\<lambda>(r, b). Inr (c # r, b)))"
  by pat_completeness auto
termination
  by (relation "measure (\<lambda>(_, _, s). length s)") (auto dest: match_block_length)

partial_function (option) expand ::
  "layout_context \<Rightarrow> nat \<Rightarrow> jsstring \<Rightarrow> jsstring layout_result option" where
  "expand ctx width source =
     (if js_includes [cu_open, cu_percent] source
      then (case replace_blocks ctx width source of
              Inl e \<Rightarrow> Some (Inl e)
            | Inr (out, renderedLoop) \<Rightarrow>
                if renderedLoop then expand ctx width out
                else Some (Inl (js ''Bloque de plantilla sin cerrar o no permitido.'')))
      else Some (Inr source))"

declare expand.simps [code]

section \<open>The whole template\<close>

text \<open>A line longer than the paper continues on the next row; a width of zero would never end.\<close>

fun paper_rows :: "nat \<Rightarrow> jsstring \<Rightarrow> jsstring list" where
  "paper_rows w s =
     (if s = [] \<or> w = 0 then [] else js_trim_end (take w s) # paper_rows w (drop w s))"

declare paper_rows.simps [simp del]

definition fitThermalLines :: "jsstring \<Rightarrow> nat \<Rightarrow> jsstring option" where
  "fitThermalLines source width =
     (if width = 0 \<and> (\<exists>line \<in> set (js_split cu_lf source). line \<noteq> []) then None
      else Some (js_join [cu_lf] (concat (map (\<lambda>line. if line = [] then [[]] else paper_rows width line)
        (js_split cu_lf source)))))"

definition renderTicketLayoutTemplate ::
  "jsstring \<Rightarrow> layout_context \<Rightarrow> nat \<Rightarrow> jsstring layout_result option" where
  "renderTicketLayoutTemplate source ctx width =
     Option.bind (expand ctx width source) (\<lambda>r. case r of
       Inl e \<Rightarrow> Some (Inl e)
     | Inr expanded \<Rightarrow>
         if js_includes [cu_percent, cu_close] expanded
         then Some (Inl (js ''Etiqueta de plantilla sin cerrar.''))
         else (case renderValues expanded ctx width of
             Inl e \<Rightarrow> Some (Inl e)
           | Inr rendered \<Rightarrow>
               if js_includes [cu_open, cu_open] rendered \<or> js_includes [cu_close, cu_close] rendered
               then Some (Inl (js ''Etiqueta de plantilla sin cerrar.''))
               else map_option Inr (fitThermalLines rendered width)))"

record preview_values =
  pv_store_name :: jsstring
  pv_store_tax_id :: jsstring
  pv_store_address :: jsstring
  pv_store_phone :: jsstring
  pv_header_text :: jsstring
  pv_footer_text :: jsstring
  pv_label_total :: jsstring
  pv_label_change :: jsstring
  pv_label_cash :: jsstring
  pv_label_card :: jsstring
  pv_label_other :: jsstring
  pv_tax_note :: jsstring

definition obj :: "(string \<times> json) list \<Rightarrow> json" where
  "obj kvs = JObj (map (\<lambda>(k, v). (js k, v)) kvs)"

definition lit :: "string \<Rightarrow> json" where
  "lit s = JStr (js s)"

definition ticketLayoutPreviewContext :: "preview_values \<Rightarrow> nat \<Rightarrow> layout_context" where
  "ticketLayoutPreviewContext v width =
     [(js ''separator'', JStr (js_repeat width [cu_dash])),
      (js ''store'', obj [(''name'', JStr (pv_store_name v)), (''tax_id'', JStr (pv_store_tax_id v)),
         (''address'', JStr (pv_store_address v)), (''phone'', JStr (pv_store_phone v))]),
      (js ''template'', obj [(''header'', JStr (pv_header_text v)), (''footer'', JStr (pv_footer_text v))]),
      (js ''sale'', obj [(''number'', lit ''0001''), (''date'', lit ''28/08/2026 12:00''),
         (''cashier'', JStr (js ''Mar'' @ [237] @ js ''a'')),
         (''lines'', JArr [obj [(''name'', lit ''Agua mineral 1.5L''), (''quantity'', lit ''2''),
            (''unit_price'', lit ''0.95''), (''total'', lit ''1.90''), (''discount'', lit ''0.00''),
            (''tax_rate'', lit ''10'')]]),
         (''payments'', JArr [obj [(''label'', JStr (pv_label_cash v)), (''amount'', lit ''2.00'')]]),
         (''taxes'', JArr [obj [(''rate'', lit ''10''), (''base'', lit ''1.73''), (''amount'', lit ''0.17'')]])]),
      (js ''totals'', obj [(''subtotal'', lit ''1.73''), (''tax'', lit ''0.17''), (''total'', lit ''1.90''),
         (''tendered'', lit ''2.00''), (''change'', lit ''0.10'')]),
      (js ''labels'', obj [(''total'', JStr (pv_label_total v)), (''change'', JStr (pv_label_change v)),
         (''cash'', JStr (pv_label_cash v)), (''card'', JStr (pv_label_card v)),
         (''other'', JStr (pv_label_other v)), (''tax_note'', JStr (pv_tax_note v))])]"

end
