(* ===== verification/Layout_Reference.thy ===== *)
theory Layout_Reference
  imports Layout_Template
begin

text \<open>
  What a ticket template means, by structure: a template is a list of texts, variables and loops.
  The text engine of \<open>Layout_Template\<close> is shown to compute this meaning and to return, as long as
  the values it inserts hold no braces; where they do, it may not return (\<open>expand_injection\<close>).
\<close>

section \<open>Templates by structure\<close>

datatype piece = Text jsstring | Var jsstring

datatype segment = Piece piece | Loop jsstring jsstring "piece list"

fun piece_source :: "piece \<Rightarrow> jsstring" where
  "piece_source (Text t) = t"
| "piece_source (Var e) = [cu_open, cu_open] @ e @ [cu_close, cu_close]"

definition pieces_source :: "piece list \<Rightarrow> jsstring" where
  "pieces_source ps = concat (map piece_source ps)"

lemma pieces_source_simps [simp]:
  "pieces_source [] = []"
  "pieces_source (p # ps) = piece_source p @ pieces_source ps"
  by (simp_all add: pieces_source_def)

definition loop_statement :: "jsstring \<Rightarrow> jsstring \<Rightarrow> jsstring" where
  "loop_statement item collection = js ''for '' @ item @ js '' in '' @ collection"

fun segment_source :: "segment \<Rightarrow> jsstring" where
  "segment_source (Piece p) = piece_source p"
| "segment_source (Loop item collection body) =
     js ''{% '' @ loop_statement item collection @ js '' %}'' @ pieces_source body @ js ''{% endfor %}''"

definition template_source :: "segment list \<Rightarrow> jsstring" where
  "template_source segs = concat (map segment_source segs)"

definition no_braces :: "jsstring \<Rightarrow> bool" where
  "no_braces s \<longleftrightarrow> cu_open \<notin> set s \<and> cu_close \<notin> set s"

fun wf_piece :: "piece \<Rightarrow> bool" where
  "wf_piece (Text t) = no_braces t"
| "wf_piece (Var e) = (no_braces e \<and> cu_percent \<notin> set e)"

fun wf_segment :: "segment \<Rightarrow> bool" where
  "wf_segment (Piece p) = wf_piece p"
| "wf_segment (Loop item collection body) =
     (item \<in> set loop_items \<and> collection \<in> set loop_collections \<and> list_all wf_piece body)"

text \<open>The values of the context hold no braces.\<close>

fun json_plain :: "json \<Rightarrow> bool" where
  "json_plain (JStr s) = no_braces s"
| "json_plain (JArr xs) = list_all json_plain xs"
| "json_plain (JObj kvs) = list_all (\<lambda>(_, v). json_plain v) kvs"
| "json_plain _ = True"

section \<open>Meaning\<close>

fun piece_value :: "layout_context \<Rightarrow> nat \<Rightarrow> piece \<Rightarrow> jsstring layout_result" where
  "piece_value ctx width (Text t) = Inr t"
| "piece_value ctx width (Var e) = renderExpression (js_trim e) ctx width"

text \<open>The values of a list, in order, up to the first error.\<close>

fun collect :: "('a \<Rightarrow> jsstring layout_result) \<Rightarrow> 'a list \<Rightarrow> jsstring layout_result" where
  "collect f [] = Inr []"
| "collect f (x # xs) = layout_bind (f x) (\<lambda>v. layout_bind (collect f xs) (\<lambda>r. Inr (v @ r)))"

definition pieces_value :: "layout_context \<Rightarrow> nat \<Rightarrow> piece list \<Rightarrow> jsstring layout_result" where
  "pieces_value ctx width = collect (piece_value ctx width)"

text \<open>First every loop becomes the text of its rounds, then every variable its value.\<close>

fun unroll :: "layout_context \<Rightarrow> nat \<Rightarrow> segment list \<Rightarrow> piece list layout_result" where
  "unroll ctx width [] = Inr []"
| "unroll ctx width (Piece p # segs) = layout_bind (unroll ctx width segs) (\<lambda>ps. Inr (p # ps))"
| "unroll ctx width (Loop item collection body # segs) =
     layout_bind (layout_bind (collectionFor collection ctx)
         (collect (\<lambda>x. pieces_value (AList.update item x ctx) width body)))
       (\<lambda>t. layout_bind (unroll ctx width segs) (\<lambda>ps. Inr (Text t # ps)))"

definition template_meaning :: "layout_context \<Rightarrow> nat \<Rightarrow> segment list \<Rightarrow> jsstring layout_result" where
  "template_meaning ctx width segs =
     layout_bind (unroll ctx width segs) (\<lambda>ps.
     layout_bind (pieces_value ctx width ps) (\<lambda>t. Inr (the (fitThermalLines t width))))"

section \<open>Adjacent characters\<close>

lemma js_includes_pair_append:
  "js_includes [a, b] (s @ t) \<longleftrightarrow>
     js_includes [a, b] s \<or> js_includes [a, b] t \<or> (s \<noteq> [] \<and> t \<noteq> [] \<and> last s = a \<and> hd t = b)"
proof (induction s)
  case Nil
  show ?case by (cases t) auto
next
  case (Cons c s)
  show ?case
    using Cons by (cases s; cases t) (auto simp: js_starts_with_def)
qed

lemma js_includes_pair_absent:
  "a \<notin> set s \<or> b \<notin> set s \<Longrightarrow> \<not> js_includes [a, b] s"
  unfolding js_includes_iff by auto

text \<open>The source of well-formed pieces holds no percent tag and does not end or start inside one.\<close>

definition tag_free :: "jsstring \<Rightarrow> bool" where
  "tag_free s \<longleftrightarrow> \<not> js_includes [cu_open, cu_percent] s \<and> \<not> js_includes [cu_percent, cu_close] s
     \<and> (s \<noteq> [] \<longrightarrow> last s \<noteq> cu_open \<and> hd s \<noteq> cu_close)"

lemma tag_free_Nil [simp]: "tag_free []"
  by (simp add: tag_free_def)

lemma tag_free_append: "tag_free s \<Longrightarrow> tag_free t \<Longrightarrow> tag_free (s @ t)"
  by (auto simp: tag_free_def js_includes_pair_append hd_append last_append split: if_splits)

lemma no_braces_tag_free: "no_braces s \<Longrightarrow> tag_free s"
  using hd_in_set [of s] last_in_set [of s]
  by (auto simp: no_braces_def tag_free_def js_includes_pair_absent simp del: hd_in_set last_in_set)

lemma tag_free_Var:
  assumes "no_braces e" "cu_percent \<notin> set e"
  shows "tag_free ([cu_open, cu_open] @ e @ [cu_close, cu_close])"
proof -
  let ?t = "e @ [cu_close, cu_close]"
  have "\<not> js_includes [cu_open, cu_percent] ?t" "\<not> js_includes [cu_percent, cu_close] ?t"
    "\<not> js_includes [cu_open, cu_percent] [cu_open, cu_open]"
    "\<not> js_includes [cu_percent, cu_close] [cu_open, cu_open]"
    using assms by (auto simp: js_includes_pair_absent no_braces_def simp del: js_includes.simps)
  moreover have "hd ?t \<noteq> cu_percent" using assms(2) by (cases e) auto
  ultimately show ?thesis
    unfolding tag_free_def js_includes_pair_append [of _ _ "[cu_open, cu_open]"]
    by (simp del: js_includes.simps)
qed

lemma tag_free_piece: "wf_piece p \<Longrightarrow> tag_free (piece_source p)"
  using tag_free_Var by (cases p) (auto simp: no_braces_tag_free simp del: append.simps)

lemma tag_free_pieces: "list_all wf_piece ps \<Longrightarrow> tag_free (pieces_source ps)"
  by (induction ps) (auto simp: pieces_source_def intro: tag_free_append tag_free_piece)

section \<open>Variables\<close>

lemma split_first_close:
  "cu_close \<notin> set e \<Longrightarrow> split_first [cu_close, cu_close] (e @ [cu_close, cu_close] @ s) = Some (e, s)"
  by (induction e) (auto simp: js_starts_with_def)

lemma renderValues_text:
  "cu_open \<notin> set t \<Longrightarrow>
   renderValues (t @ s) ctx w = layout_bind (renderValues s ctx w) (\<lambda>r. Inr (t @ r))"
proof (induction t)
  case Nil
  show ?case by (cases "renderValues s ctx w") auto
next
  case (Cons c t)
  then show ?case by (cases "renderValues s ctx w") (auto simp: js_starts_with_def)
qed

lemma renderValues_var:
  "no_braces e \<Longrightarrow> renderValues ([cu_open, cu_open] @ e @ [cu_close, cu_close] @ s) ctx w =
   layout_bind (renderExpression (js_trim e) ctx w)
     (\<lambda>v. layout_bind (renderValues s ctx w) (\<lambda>r. Inr (v @ r)))"
  using split_first_close [of e s] by (simp add: no_braces_def js_starts_with_def)

lemma renderValues_pieces:
  "list_all wf_piece ps \<Longrightarrow> renderValues (pieces_source ps) ctx w = pieces_value ctx w ps"
proof (induction ps)
  case Nil
  show ?case by (simp add: pieces_source_def pieces_value_def)
next
  case (Cons p ps)
  then show ?case
    using renderValues_var
    by (cases p) (auto simp: pieces_source_def pieces_value_def renderValues_text no_braces_def
        simp del: append.simps)
qed

section \<open>Loops\<close>

lemma loop_statement_parsed:
  assumes "item \<in> set loop_items" "collection \<in> set loop_collections"
  shows "js_trim (cu_space # loop_statement item collection @ [cu_space]) = loop_statement item collection"
    and "js_trim (loop_statement item collection) = loop_statement item collection"
    and "LOOP (loop_statement item collection) = Some (item, collection)"
    and "\<forall>c \<in> set (loop_statement item collection). c \<noteq> cu_percent \<and> \<not> js_line_terminator c"
proof -
  have "\<forall>i \<in> set loop_items. \<forall>c \<in> set loop_collections.
      js_trim (cu_space # loop_statement i c @ [cu_space]) = loop_statement i c
      \<and> js_trim (loop_statement i c) = loop_statement i c
      \<and> LOOP (loop_statement i c) = Some (i, c)
      \<and> (\<forall>x \<in> set (loop_statement i c). x \<noteq> cu_percent \<and> \<not> js_line_terminator x)"
    by code_simp
  with assms show "js_trim (cu_space # loop_statement item collection @ [cu_space])
      = loop_statement item collection"
    and "js_trim (loop_statement item collection) = loop_statement item collection"
    and "LOOP (loop_statement item collection) = Some (item, collection)"
    and "\<forall>c \<in> set (loop_statement item collection). c \<noteq> cu_percent \<and> \<not> js_line_terminator c"
    by auto
qed

lemma split_first_percent:
  "cu_percent \<notin> set t \<Longrightarrow> split_first [cu_percent, cu_close] (t @ [cu_percent, cu_close] @ s) = Some (t, s)"
  by (induction t) (auto simp: js_starts_with_def)

lemma endfor_tag_here: "endfor_tag (js ''{% endfor %}'' @ s) = Some s"
  by (simp add: endfor_tag_def strip_word_def js_starts_with_def js_def js_ws_def)

lemma endfor_tag_none: "\<not> js_starts_with [cu_open, cu_percent] s \<Longrightarrow> endfor_tag s = None"
  by (simp add: endfor_tag_def strip_word_def)

lemma tag_free_tl: "tag_free (c # s) \<Longrightarrow> \<not> js_includes [cu_open, cu_percent] s \<and> (s \<noteq> [] \<longrightarrow> last s \<noteq> cu_open)"
  by (auto simp: tag_free_def)

lemma not_starts_tag:
  assumes "\<not> js_includes [cu_open, cu_percent] (c # s)" "last (c # s) \<noteq> cu_open"
  shows "\<not> js_starts_with [cu_open, cu_percent] (c # s @ t)"
  using assms by (cases s) (auto simp: js_starts_with_def)

lemma split_endfor_body:
  assumes "\<not> js_includes [cu_open, cu_percent] body" "body \<noteq> [] \<longrightarrow> last body \<noteq> cu_open"
  shows "split_endfor (body @ js ''{% endfor %}'' @ s) = Some (body, s)"
  using assms
proof (induction body)
  case Nil
  have "js ''{% endfor %}'' @ s = 123 # tl (js ''{% endfor %}'') @ s" by (simp add: js_def)
  then show ?case
    using endfor_tag_here [of s] by (metis append_Nil split_endfor.simps(2) option.simps(5))
next
  case (Cons c body)
  have "\<not> js_starts_with [cu_open, cu_percent] (c # body @ js ''{% endfor %}'' @ s)"
    using Cons.prems by (intro not_starts_tag) auto
  moreover have "split_endfor (body @ js ''{% endfor %}'' @ s) = Some (body, s)"
    using Cons by (cases "body = []") auto
  ultimately show ?case by (simp add: endfor_tag_none)
qed

lemma match_block_loop:
  assumes "item \<in> set loop_items" "collection \<in> set loop_collections" "tag_free body"
  shows "match_block (js ''{% '' @ loop_statement item collection @ js '' %}'' @ body @ js ''{% endfor %}'' @ s)
    = Some (loop_statement item collection, body, s)"
proof -
  let ?in = "cu_space # loop_statement item collection @ [cu_space]"
  let ?rest = "body @ js ''{% endfor %}'' @ s"
  note st = loop_statement_parsed [OF assms(1,2)]
  have eq: "js ''{% '' @ loop_statement item collection @ js '' %}'' @ ?rest
      = [cu_open, cu_percent] @ ?in @ [cu_percent, cu_close] @ ?rest"
    by (simp add: js_def)
  have "split_first [cu_percent, cu_close] (?in @ [cu_percent, cu_close] @ ?rest) = Some (?in, ?rest)"
    using st(4) by (intro split_first_percent) auto
  moreover have "split_endfor ?rest = Some (body, s)"
    using assms(3) by (intro split_endfor_body) (auto simp: tag_free_def)
  ultimately show ?thesis
    unfolding eq using st by (auto simp: match_block_def strip_word_def js_starts_with_def)
qed

lemma match_block_none: "\<not> js_starts_with [cu_open, cu_percent] s \<Longrightarrow> match_block s = None"
  by (simp add: match_block_def strip_word_def)

lemma replace_blocks_text:
  assumes "\<not> js_includes [cu_open, cu_percent] t" "t \<noteq> [] \<longrightarrow> last t \<noteq> cu_open"
  shows "replace_blocks ctx w (t @ s)
    = layout_bind (replace_blocks ctx w s) (\<lambda>(r, b). Inr (t @ r, b))"
  using assms
proof (induction t)
  case Nil
  show ?case by (cases "replace_blocks ctx w s") auto
next
  case (Cons c t)
  have "\<not> js_starts_with [cu_open, cu_percent] (c # t @ s)"
    using Cons.prems by (intro not_starts_tag) auto
  moreover have "replace_blocks ctx w (t @ s)
      = layout_bind (replace_blocks ctx w s) (\<lambda>(r, b). Inr (t @ r, b))"
    using Cons by (cases "t = []") auto
  ultimately show ?case
    by (cases "replace_blocks ctx w s") (auto simp: match_block_none)
qed

lemma render_block_loop:
  assumes "item \<in> set loop_items" "collection \<in> set loop_collections" "list_all wf_piece body"
  shows "render_block ctx w (loop_statement item collection) (pieces_source body)
    = layout_bind (collectionFor collection ctx)
        (collect (\<lambda>x. pieces_value (AList.update item x ctx) w body))"
proof -
  have "foldr (\<lambda>x acc. layout_bind (f x) (\<lambda>v. layout_bind acc (\<lambda>r. Inr (v @ r)))) xs (Inr []) = collect f xs"
    for f :: "json \<Rightarrow> jsstring layout_result" and xs by (induction xs) auto
  moreover have "\<not> js_includes [cu_open, cu_percent] (pieces_source body)"
    using tag_free_pieces [OF assms(3)] by (simp add: tag_free_def)
  ultimately show ?thesis
    using loop_statement_parsed [OF assms(1,2)] assms(3)
    by (simp add: render_block_def renderValues_pieces)
qed

fun is_loop :: "segment \<Rightarrow> bool" where
  "is_loop (Piece p) = False"
| "is_loop (Loop item collection body) = True"

text \<open>One pass of the engine unrolls every loop.\<close>

lemma replace_blocks_segments:
  "list_all wf_segment segs \<Longrightarrow> replace_blocks ctx w (template_source segs)
    = layout_bind (unroll ctx w segs) (\<lambda>ps. Inr (pieces_source ps, list_ex is_loop segs))"
proof (induction ctx w segs rule: unroll.induct)
  case (1 ctx w)
  show ?case by (simp add: template_source_def pieces_source_def)
next
  case (2 ctx w p segs)
  then have "tag_free (piece_source p)" by (simp add: tag_free_piece)
  then have "replace_blocks ctx w (piece_source p @ template_source segs)
      = layout_bind (replace_blocks ctx w (template_source segs)) (\<lambda>(r, b). Inr (piece_source p @ r, b))"
    by (intro replace_blocks_text) (auto simp: tag_free_def)
  with 2 show ?case
    by (cases "unroll ctx w segs") (auto simp: template_source_def pieces_source_def)
next
  case (3 ctx w item collection body segs)
  let ?loop = "segment_source (Loop item collection body)" and ?s = "template_source segs"
  have wf: "item \<in> set loop_items" "collection \<in> set loop_collections" "list_all wf_piece body"
    using "3.prems" by auto
  obtain s where s: "?loop @ ?s = 123 # s" by (simp add: js_def)
  have "match_block (?loop @ ?s) = Some (loop_statement item collection, pieces_source body, ?s)"
    using match_block_loop [OF wf(1,2) tag_free_pieces [OF wf(3)]] by simp
  then have "replace_blocks ctx w (?loop @ ?s)
      = layout_bind (render_block ctx w (loop_statement item collection) (pieces_source body)) (\<lambda>v.
          layout_bind (replace_blocks ctx w ?s) (\<lambda>(r, _). Inr (v @ r, True)))"
    unfolding s by simp
  moreover have "template_source (Loop item collection body # segs) = ?loop @ ?s"
    by (simp add: template_source_def)
  moreover have "replace_blocks ctx w ?s
      = layout_bind (unroll ctx w segs) (\<lambda>ps. Inr (pieces_source ps, list_ex is_loop segs))"
    if "layout_bind (collectionFor collection ctx) (collect (\<lambda>x. pieces_value (AList.update item x ctx) w body)) = Inr t"
    for t using 3 that by simp
  ultimately show ?case
    by (cases "layout_bind (collectionFor collection ctx) (collect (\<lambda>x. pieces_value (AList.update item x ctx) w body))";
        cases "unroll ctx w segs")
      (auto simp: render_block_loop [OF wf])
qed

section \<open>The values inserted\<close>

lemma no_braces_set: "set s \<subseteq> insert cu_space (set t) \<Longrightarrow> no_braces t \<Longrightarrow> no_braces s"
  by (auto simp: no_braces_def)

lemma set_js_slices: "set (js_slice a b s) \<subseteq> set s" "set (js_slice_from a s) \<subseteq> set s"
  unfolding js_slice_def js_slice_from_def using set_drop_subset set_take_subset by fastforce+

lemma set_pads:
  "set (js_pad_start n s) \<subseteq> insert cu_space (set s)"
  "set (js_pad_end n s) \<subseteq> insert cu_space (set s)"
  by (auto simp: js_pad_start_def js_pad_end_def)

lemma set_apply_align: "set (apply_align a w v) \<subseteq> insert cu_space (set v)"
proof (cases a)
  case Center
  then show ?thesis
    using set_pads(2) [of w "js_pad_start ((w + length v + 1) div 2) (js_slice 0 (int w) v)"]
      set_pads(1) [of "(w + length v + 1) div 2" "js_slice 0 (int w) v"]
      set_js_slices(1) [of 0 "int w" v] by auto
next
  case Left
  then show ?thesis using set_pads(2) [of w "js_slice 0 (int w) v"] set_js_slices(1) [of 0 "int w" v] by auto
next
  case Right
  then show ?thesis
    using set_pads(1) [of w "js_slice_from (- int w) v"] set_js_slices(2) [of "- int w" v] by auto
qed

lemma apply_filters_no_braces:
  "apply_filters w fs v = Inr t \<Longrightarrow> no_braces v \<Longrightarrow> no_braces t"
proof (induction fs arbitrary: v)
  case (Cons f fs)
  obtain a n where "FILTER f = Some (a, n)"
    using Cons.prems by (cases "FILTER f") auto
  with Cons show ?case by (auto intro: no_braces_set [OF set_apply_align] split: option.splits)
qed simp

lemma json_plain_lookup: "json_plain (JObj kvs) \<Longrightarrow> map_of kvs k = Some v \<Longrightarrow> json_plain v"
  by (auto simp: list_all_iff dest!: map_of_SomeD)

lemma read_path_plain: "read_path ks v = Some u \<Longrightarrow> json_plain v \<Longrightarrow> json_plain u"
proof (induction ks v rule: read_path.induct)
  case (2 k ks kvs)
  then show ?case using json_plain_lookup [of kvs k] by (auto split: option.splits simp del: json_plain.simps)
qed auto

lemma renderExpression_no_braces:
  assumes "renderExpression e ctx w = Inr t" "json_plain (JObj ctx)"
  shows "no_braces t"
proof -
  obtain path fs v where "readValue path ctx = Inr v" and t: "apply_filters w fs v = Inr t"
    using assms(1) unfolding renderExpression_def Let_def
    by (metis Inl_Inr_False layout_bind.elims)
  then have "read_path (js_split cu_dot path) (JObj ctx) = Some (JStr v)"
    by (auto simp: readValue_def split: option.splits json.splits)
  from read_path_plain [OF this assms(2)] have "no_braces v" by simp
  with t show ?thesis by (rule apply_filters_no_braces)
qed

lemma collect_no_braces:
  "collect f xs = Inr t \<Longrightarrow> (\<And>x v. x \<in> set xs \<Longrightarrow> f x = Inr v \<Longrightarrow> no_braces v) \<Longrightarrow> no_braces t"
proof (induction xs arbitrary: t)
  case Nil
  then show ?case by (simp add: no_braces_def)
next
  case (Cons x xs)
  then obtain v r where "f x = Inr v" "collect f xs = Inr r" "t = v @ r"
    by (cases "f x"; cases "collect f xs") auto
  with Cons have "no_braces v" "no_braces r" by auto
  with \<open>t = v @ r\<close> show ?case by (simp add: no_braces_def)
qed

lemma pieces_value_no_braces:
  assumes "pieces_value ctx w ps = Inr t" "list_all wf_piece ps" "json_plain (JObj ctx)"
  shows "no_braces t"
  using assms(1) unfolding pieces_value_def
proof (rule collect_no_braces)
  fix p v
  assume "p \<in> set ps" "piece_value ctx w p = Inr v"
  with assms(2,3) show "no_braces v"
    by (cases p) (auto simp: list_all_iff intro: renderExpression_no_braces)
qed

lemma plain_update: "json_plain x \<Longrightarrow> json_plain (JObj ctx) \<Longrightarrow> json_plain (JObj (AList.update k x ctx))"
  by (induction ctx) auto

lemma collectionFor_plain:
  assumes "collectionFor c ctx = Inr xs" "json_plain (JObj ctx)"
  shows "list_all json_plain xs"
proof -
  obtain r k kvs where "map_of ctx r = Some (JObj kvs)" "map_of kvs k = Some (JArr xs)"
    using assms(1) by (auto simp: collectionFor_def split: list.splits option.splits json.splits)
  then show ?thesis using json_plain_lookup assms(2) by (metis json_plain.simps(2))
qed

lemma unroll_wf:
  "unroll ctx w segs = Inr ps \<Longrightarrow> list_all wf_segment segs \<Longrightarrow> json_plain (JObj ctx) \<Longrightarrow> list_all wf_piece ps"
proof (induction ctx w segs arbitrary: ps rule: unroll.induct)
  case (2 ctx w p segs)
  then show ?case by (cases "unroll ctx w segs") auto
next
  case (3 ctx w item collection body segs)
  let ?f = "\<lambda>x. pieces_value (AList.update item x ctx) w body"
  obtain xs t qs where xs: "collectionFor collection ctx = Inr xs" and t: "collect ?f xs = Inr t"
    and qs: "unroll ctx w segs = Inr qs" and ps: "ps = Text t # qs"
    using "3.prems"(1)
    by (cases "collectionFor collection ctx"; cases "collect ?f (projr (collectionFor collection ctx))";
        cases "unroll ctx w segs") auto
  have "no_braces t"
  proof (rule collect_no_braces [OF t])
    fix x v
    assume "x \<in> set xs" "?f x = Inr v"
    moreover have "json_plain x" using collectionFor_plain [OF xs "3.prems"(3)] \<open>x \<in> set xs\<close>
      by (simp add: list_all_iff)
    ultimately show "no_braces v"
      using "3.prems"(2,3) by (auto intro!: pieces_value_no_braces plain_update simp del: json_plain.simps)
  qed
  then show ?case using 3 xs t qs ps by auto
qed simp

section \<open>The engine computes the meaning\<close>

lemma template_source_tag:
  assumes "list_all wf_segment segs"
  shows "js_includes [cu_open, cu_percent] (template_source segs) \<longleftrightarrow> list_ex is_loop segs"
proof (cases "list_ex is_loop segs")
  case True
  then obtain item collection body where "Loop item collection body \<in> set segs"
    by (auto simp: list_ex_iff elim: is_loop.elims)
  then obtain as bs where segs: "segs = as @ Loop item collection body # bs" by (meson split_list)
  have "js ''{% '' = [cu_open, cu_percent] @ [cu_space]" by (simp add: js_def)
  then show ?thesis using True unfolding js_includes_iff segs
    by (auto simp: template_source_def)
next
  case False
  with assms have "tag_free (template_source segs)"
  proof (induction segs)
    case Nil
    show ?case by (simp add: template_source_def)
  next
    case (Cons s segs)
    then show ?case by (cases s) (auto simp: template_source_def intro: tag_free_append tag_free_piece)
  qed
  with False show ?thesis by (simp add: tag_free_def)
qed

lemma unroll_no_loop:
  "\<not> list_ex is_loop segs \<Longrightarrow> \<exists>ps. unroll ctx w segs = Inr ps \<and> pieces_source ps = template_source segs"
proof (induction segs)
  case Nil
  show ?case by (simp add: template_source_def)
next
  case (Cons s segs)
  then show ?case by (cases s) (auto simp: template_source_def)
qed

lemma expand_segments:
  assumes "list_all wf_segment segs" "json_plain (JObj ctx)"
  shows "expand ctx w (template_source segs)
    = Some (layout_bind (unroll ctx w segs) (\<lambda>ps. Inr (pieces_source ps)))"
proof (cases "list_ex is_loop segs")
  case True
  show ?thesis
  proof (cases "unroll ctx w segs")
    case (Inr ps)
    then have "tag_free (pieces_source ps)"
      using assms by (intro tag_free_pieces unroll_wf)
    then have "expand ctx w (pieces_source ps) = Some (Inr (pieces_source ps))"
      by (subst expand.simps) (simp add: tag_free_def)
    with True Inr show ?thesis
      by (subst expand.simps) (simp add: template_source_tag replace_blocks_segments assms)
  qed (use True in \<open>subst expand.simps, simp add: template_source_tag replace_blocks_segments assms\<close>)
next
  case False
  then obtain ps where "unroll ctx w segs = Inr ps" "pieces_source ps = template_source segs"
    using unroll_no_loop by blast
  with False show ?thesis
    by (subst expand.simps) (simp add: template_source_tag assms)
qed

lemma fitThermalLines_total: "0 < w \<Longrightarrow> \<exists>t. fitThermalLines s w = Some t"
  by (simp add: fitThermalLines_def)

text \<open>C14: The engine computes the meaning of every well-formed template and returns, errors
  included: its repeated search-and-replace over the whole text is the structural evaluation, as
  long as the values it inserts hold no braces.\<close>

theorem layout_engine_correct:
  assumes "list_all wf_segment segs" and "json_plain (JObj ctx)" and "0 < w"
  shows "renderTicketLayoutTemplate (template_source segs) ctx w = Some (template_meaning ctx w segs)"
proof (cases "unroll ctx w segs")
  case (Inr ps)
  then have wf: "list_all wf_piece ps" using assms by (intro unroll_wf)
  then have "\<not> js_includes [cu_percent, cu_close] (pieces_source ps)"
    using tag_free_pieces by (auto simp: tag_free_def)
  moreover have "\<not> js_includes [cu_open, cu_open] t" "\<not> js_includes [cu_close, cu_close] t"
    if "pieces_value ctx w ps = Inr t" for t
    using pieces_value_no_braces [OF that wf assms(2)] by (auto simp: no_braces_def js_includes_pair_absent)
  ultimately show ?thesis
    using fitThermalLines_total [OF assms(3)]
    by (cases "pieces_value ctx w ps")
      (auto simp: renderTicketLayoutTemplate_def template_meaning_def expand_segments [OF assms(1,2)] Inr
        renderValues_pieces [OF wf])
qed (simp add: renderTicketLayoutTemplate_def template_meaning_def expand_segments [OF assms(1,2)])

text \<open>A template that exercises texts, filters and a loop.\<close>

definition sample_segments :: "segment list" where
  "sample_segments =
     [Piece (Var (js '' store.name | center'')), Piece (Text [cu_lf]),
      Loop (js ''line'') (js ''sale.lines'')
        [Var (js ''line.name|left:9''), Var (js ''line.total|right:7''), Text [cu_lf]],
      Piece (Var (js ''separator''))]"

definition sample_values :: preview_values where
  "sample_values = \<lparr>pv_store_name = js ''Tienda'', pv_store_tax_id = js ''B1'', pv_store_address = [],
     pv_store_phone = [], pv_header_text = [], pv_footer_text = [], pv_label_total = js ''TOTAL'',
     pv_label_change = js ''Cambio'', pv_label_cash = js ''Efectivo'', pv_label_card = js ''Tarjeta'',
     pv_label_other = js ''Otro'', pv_tax_note = js ''IVA incluido''\<rparr>"

lemma layout_engine_correct_witness:
  "renderTicketLayoutTemplate (template_source sample_segments)
      (ticketLayoutPreviewContext sample_values 16) 16
    = Some (Inr (js_join [cu_lf] (map js [''     Tienda'', ''Agua mine   1.90'', ''----------------''])))"
proof -
  have "list_all wf_segment sample_segments" by code_simp
  moreover have "json_plain (JObj (ticketLayoutPreviewContext sample_values 16))" by code_simp
  moreover have "template_meaning (ticketLayoutPreviewContext sample_values 16) 16 sample_segments
    = Inr (js_join [cu_lf] (map js [''     Tienda'', ''Agua mine   1.90'', ''----------------'']))"
    by code_simp
  ultimately show ?thesis
    using layout_engine_correct [of sample_segments "ticketLayoutPreviewContext sample_values 16" 16] by simp
qed

section \<open>Rows on paper\<close>

lemma set_js_trim_end_drop: "filter (\<lambda>c. \<not> js_ws c) (js_trim_end s) = filter (\<lambda>c. \<not> js_ws c) s"
proof -
  have "filter (\<lambda>c. \<not> js_ws c) (dropWhile js_ws t) = filter (\<lambda>c. \<not> js_ws c) t" for t
    by (induction t) auto
  from this [of "rev s"] show ?thesis by (simp add: js_trim_end_def flip: rev_filter)
qed

lemma paper_rows_length: "r \<in> set (paper_rows w s) \<Longrightarrow> length r \<le> w"
proof (induction w s rule: paper_rows.induct)
  case (1 w s)
  have "length (js_trim_end (take w s)) \<le> w"
    using length_js_trim_end [of "take w s"] by simp
  with 1 show ?case by (subst (asm) (2) paper_rows.simps) (auto split: if_splits)
qed

lemma paper_rows_content:
  "0 < w \<Longrightarrow> filter (\<lambda>c. \<not> js_ws c) (concat (paper_rows w s)) = filter (\<lambda>c. \<not> js_ws c) s"
proof (induction w s rule: paper_rows.induct)
  case (1 w s)
  have "filter P (take w s) @ filter P (drop w s) = filter P s" for P :: "nat \<Rightarrow> bool"
    by (metis append_take_drop_id filter_append)
  with 1 show ?case by (subst paper_rows.simps) (auto simp: set_js_trim_end_drop)
qed

lemma filter_js_join: "js_ws c \<Longrightarrow>
  filter (\<lambda>c. \<not> js_ws c) (js_join [c] rs) = concat (map (filter (\<lambda>c. \<not> js_ws c)) rs)"
  by (induction "[c]" rs rule: js_join.induct) auto

lemma js_ws_lf: "js_ws cu_lf" by (simp add: js_ws_def)

text \<open>The rows of a rendered layout fit the paper, and wrapping them keeps every character that
  is not white space, in order.\<close>

lemma thermal_lines:
  assumes "0 < w"
  shows "\<exists>out. fitThermalLines s w = Some out \<and> fits_width w out
    \<and> filter (\<lambda>c. \<not> js_ws c) out = filter (\<lambda>c. \<not> js_ws c) s"
proof -
  let ?ink = "filter (\<lambda>c. \<not> js_ws c)"
  let ?rows = "\<lambda>line. if line = [] then [[]] else paper_rows w line"
  let ?all = "concat (map ?rows (js_split cu_lf s))"
  have "fits_width w (js_join [cu_lf] ?all)"
    by (rule fits_width_join) (auto split: if_splits dest: paper_rows_length)
  moreover have "concat (map ?ink (?rows line)) = ?ink line" for line
    using paper_rows_content [OF assms, of line] by (simp add: filter_concat)
  then have "concat (map ?ink (concat (map ?rows ls))) = concat (map ?ink ls)" for ls
    by (induction ls) simp_all
  then have "?ink (js_join [cu_lf] ?all) = ?ink (js_join [cu_lf] (js_split cu_lf s))"
    by (simp only: filter_js_join js_ws_lf)
  then have "?ink (js_join [cu_lf] ?all) = ?ink s" by simp
  ultimately show ?thesis using assms by (simp add: fitThermalLines_def)
qed

lemma thermal_lines_witness:
  "\<exists>out. fitThermalLines (js ''a long line of twenty  '') 16 = Some out \<and> fits_width 16 out
    \<and> filter (\<lambda>c. \<not> js_ws c) out = filter (\<lambda>c. \<not> js_ws c) (js ''a long line of twenty  '')"
  by (rule thermal_lines) simp

lemma length_apply_align_Center: "length (apply_align Center w v) = max w ((w + length v + 1) div 2)"
  by auto

text \<open>An alignment filter makes its value exactly as wide as asked, except that \<open>center\<close> on a
  value longer than the width overflows it.\<close>

lemma align_width:
  assumes "0 < w"
  shows "length (apply_align a w v) = w \<longleftrightarrow> a \<noteq> Center \<or> length v \<le> w"
proof (cases a)
  case Center
  then show ?thesis unfolding Center length_apply_align_Center by auto
qed (use assms in \<open>simp_all add: length_js_slice_from_end\<close>)

lemma align_width_witness:
  "length (apply_align Center 4 (js ''abcdef'')) \<noteq> 4 \<and> length (apply_align Right 4 (js ''abcdef'')) = 4"
  using align_width [of 4 Center "js ''abcdef''"] align_width [of 4 Right "js ''abcdef''"] by simp

section \<open>Where the values hold tags\<close>

text \<open>
  A label of the template that is itself a loop over the payments: the engine expands the text it
  has just inserted, again and again.
\<close>

definition injected_label :: jsstring where
  "injected_label = js ''{% for payment in sale.payments %}{{payment.label}}{% endfor %}''"

lemma expand_diverges:
  assumes "js_includes [cu_open, cu_percent] s" "replace_blocks ctx w s = Inr (s, True)"
  shows "expand ctx w s = None"
proof -
  have "expand ctx w s \<noteq> Some r" for r
  proof
    assume *: "expand ctx w s = Some r"
    have "\<not> (ctx = ctx \<and> w = w \<and> s = s)"
    proof (rule expand.raw_induct [OF _ *, where P = "\<lambda>c v t r. \<not> (c = ctx \<and> v = w \<and> t = s)"])
      fix f c v t r
      assume "\<And>c v t r. f c v t = Some r \<Longrightarrow> \<not> (c = ctx \<and> v = w \<and> t = s)"
        and "(if js_includes [cu_open, cu_percent] t
          then case replace_blocks c v t of Inl e \<Rightarrow> Some (Inl e)
            | Inr (out, renderedLoop) \<Rightarrow> if renderedLoop then f c v out
                else Some (Inl (js ''Bloque de plantilla sin cerrar o no permitido.''))
          else Some (Inr t)) = Some r"
      then show "\<not> (c = ctx \<and> v = w \<and> t = s)" using assms by (auto, blast)
    qed
    then show False by simp
  qed
  then show ?thesis by (cases "expand ctx w s") auto
qed

lemma preview_label_inserted:
  "replace_blocks (ticketLayoutPreviewContext v w) w injected_label = Inr (pv_label_cash v, True)"
  by (code_simp, simp)

lemma preview_injection_diverges:
  assumes "pv_label_cash v = injected_label"
  shows "renderTicketLayoutTemplate injected_label (ticketLayoutPreviewContext v w) w = None"
proof -
  have "js_includes [cu_open, cu_percent] injected_label" by code_simp
  then have "expand (ticketLayoutPreviewContext v w) w injected_label = None"
    by (rule expand_diverges) (simp add: preview_label_inserted assms)
  then show ?thesis by (simp add: renderTicketLayoutTemplate_def)
qed

end
