(* ===== verification/Z_Report.thy ===== *)
theory Z_Report
  imports Print_Profile Lib_Formats "HOL-Library.Sublist"
begin

text \<open>
  The thermal receipts of the X summary and the Z closing (\<open>pos/zReportTicket.ts\<close>): rows of label
  and amount, cut to the paper. The characters beyond ASCII are the dash 8212, the minus sign 8722,
  the ordinal 186 and the accented vowels.
\<close>

section \<open>Rows\<close>

record report_totals =
  rt_sales_count :: int
  rt_gross_total :: jsstring
  rt_tax_total :: jsstring
  rt_discount_total :: jsstring
  rt_returns_count :: int
  rt_returns_total :: jsstring
  rt_first_sale_number :: "int option"
  rt_last_sale_number :: "int option"
  rt_tax_breakdown :: "z_tax_row list"
  rt_payment_breakdown :: "z_payment_row list"
  rt_terminal_breakdown :: "z_terminal_row list"
  rt_cashier_breakdown :: "z_cashier_row list"

definition fit :: "jsstring \<Rightarrow> nat \<Rightarrow> jsstring" where
  "fit line width = (if width < length line then js_slice 0 (int width) line else line)"

definition ticketRow :: "jsstring \<Rightarrow> jsstring \<Rightarrow> nat \<Rightarrow> jsstring list" where
  "ticketRow label v width =
     (let available = int width - int (length v) - 1 in
      if int (length label) \<le> available
      then [label @ js_repeat (nat (available - int (length label))) [cu_space] @ [cu_space] @ v]
      else [fit label width, js_repeat (nat (max 0 (int width - int (length v)))) [cu_space] @ v])"

definition centered :: "jsstring \<Rightarrow> nat \<Rightarrow> jsstring" where
  "centered line width =
     (let trimmed = fit line width in
      js_repeat (nat (max 0 ((int width - int (length trimmed)) div 2))) [cu_space] @ trimmed)"

definition paymentLabel :: "jsstring \<Rightarrow> jsstring" where
  "paymentLabel method =
     (case map_of [(js ''CASH'', js ''Efectivo''), (js ''CARD'', js ''Tarjeta''),
         (js ''OTHER'', js ''Otros''), (js ''UNKNOWN'', js ''Sin identificar'')] method of
        Some l \<Rightarrow> l | None \<Rightarrow> method)"

definition number_or_dash :: "int option \<Rightarrow> jsstring" where
  "number_or_dash n = (case n of Some i \<Rightarrow> int_string i | None \<Rightarrow> [8212])"

definition positive :: "jsstring \<Rightarrow> bool" where
  "positive v \<longleftrightarrow> JsNum 0 < js_Number v"

definition minus_amount :: "jsstring \<Rightarrow> jsstring" where
  "minus_amount v = [8722, cu_space] @ formatMoney v"

definition expected_cash :: "report_totals \<Rightarrow> jsstring" where
  "expected_cash r =
     (case find (\<lambda>p. zp_method p = js ''CASH'') (rt_payment_breakdown r) of
        Some p \<Rightarrow> zp_net_total p | None \<Rightarrow> js ''0'')"

definition counted :: "jsstring \<Rightarrow> int \<Rightarrow> jsstring" where
  "counted name n = name @ js '' ('' @ int_string n @ js '')''"

definition tax_rows :: "report_totals \<Rightarrow> nat \<Rightarrow> jsstring list" where
  "tax_rows r width =
     (if rt_tax_breakdown r = [] then []
      else [js ''IVA (tipo / base / cuota)'']
        @ map (\<lambda>t. fit (intl_format 0 3 (js_Number (zt_rate t)) @ js ''%  ''
            @ formatMoney (zt_taxable_base t) @ js ''  '' @ formatMoney (zt_tax_amount t)) width)
            (rt_tax_breakdown r)
        @ ticketRow (js ''IVA total'') (formatMoney (rt_tax_total r)) width)"

definition payment_rows :: "nat \<Rightarrow> z_payment_row \<Rightarrow> jsstring list" where
  "payment_rows width p =
     ticketRow (paymentLabel (zp_method p)) (formatMoney (zp_collected_total p)) width
     @ (if positive (zp_refunded_total p)
        then ticketRow (js ''Devuelto '' @ paymentLabel (zp_method p))
          (minus_amount (zp_refunded_total p)) width
        else [])"

definition totalsRows :: "report_totals \<Rightarrow> nat \<Rightarrow> jsstring list" where
  "totalsRows r width =
     (let separator = js_repeat width [cu_dash] in
      ticketRow (js ''Ventas cobradas'') (int_string (rt_sales_count r)) width
      @ ticketRow (js ''Tickets'')
          (number_or_dash (rt_first_sale_number r) @ js '' - '' @ number_or_dash (rt_last_sale_number r)) width
      @ (if positive (rt_discount_total r)
         then ticketRow (js ''Descuentos'') (minus_amount (rt_discount_total r)) width else [])
      @ [separator] @ ticketRow (js ''VENTAS BRUTAS'') (formatMoney (rt_gross_total r)) width
      @ tax_rows r width
      @ [separator, js ''COBROS Y DEVOLUCIONES'']
      @ concat (map (payment_rows width) (rt_payment_breakdown r))
      @ (if positive (rt_returns_total r)
         then ticketRow (counted (js ''Devoluciones'') (rt_returns_count r))
           (minus_amount (rt_returns_total r)) width
         else [])
      @ ticketRow (js ''EFECTIVO ESPERADO'') (formatMoney (expected_cash r)) width
      @ (if rt_terminal_breakdown r = [] then []
         else [separator, js ''POR TERMINAL'']
           @ concat (map (\<lambda>t. ticketRow (counted (ztm_terminal_name t) (ztm_sales_count t))
               (formatMoney (ztm_gross_total t)) width) (rt_terminal_breakdown r)))
      @ (if rt_cashier_breakdown r = [] then []
         else [separator, js ''POR CAJERO'']
           @ concat (map (\<lambda>c. ticketRow (counted (zc_cashier_name c) (zc_sales_count c))
               (formatMoney (zc_gross_total c)) width) (rt_cashier_breakdown r))))"

definition render :: "jsstring list \<Rightarrow> print_profile \<Rightarrow> jsstring" where
  "render lines p = js_join [cu_lf] (map (\<lambda>line. fit line (paper_width p)) lines)"

section \<open>The two receipts\<close>

definition x_totals :: "x_report_preview \<Rightarrow> report_totals" where
  "x_totals x =
     \<lparr>rt_sales_count = x_sales_count x, rt_gross_total = x_gross_total x, rt_tax_total = x_tax_total x,
      rt_discount_total = x_discount_total x, rt_returns_count = x_returns_count x,
      rt_returns_total = x_returns_total x, rt_first_sale_number = x_first_sale_number x,
      rt_last_sale_number = x_last_sale_number x, rt_tax_breakdown = x_tax_breakdown x,
      rt_payment_breakdown = x_payment_breakdown x, rt_terminal_breakdown = x_terminal_breakdown x,
      rt_cashier_breakdown = x_cashier_breakdown x\<rparr>"

definition z_totals :: "z_report \<Rightarrow> report_totals" where
  "z_totals z =
     \<lparr>rt_sales_count = z_sales_count z, rt_gross_total = z_gross_total z, rt_tax_total = z_tax_total z,
      rt_discount_total = z_discount_total z, rt_returns_count = z_returns_count z,
      rt_returns_total = z_returns_total z, rt_first_sale_number = z_first_sale_number z,
      rt_last_sale_number = z_last_sale_number z, rt_tax_breakdown = z_tax_breakdown z,
      rt_payment_breakdown = z_payment_breakdown z, rt_terminal_breakdown = z_terminal_breakdown z,
      rt_cashier_breakdown = z_cashier_breakdown z\<rparr>"

definition renderXReportTicket :: "x_report_preview \<Rightarrow> jsstring \<Rightarrow> print_profile \<Rightarrow> jsstring" where
  "renderXReportTicket x generatedAtLabel p =
     (let width = paper_width p in
      render
        ([centered (js ''RESUMEN X '' @ [8212] @ js '' NO FISCAL'') width,
          centered (x_warehouse_name x) width,
          js ''Jornada: '' @ x_business_date x,
          js ''Generado: '' @ generatedAtLabel,
          js_repeat width [cu_dash]]
         @ totalsRows (x_totals x) width) p)"

definition renderZReportTicket :: "z_report \<Rightarrow> jsstring \<Rightarrow> print_profile \<Rightarrow> bool \<Rightarrow> jsstring" where
  "renderZReportTicket z closedAtLabel p reprint =
     (let width = paper_width p in
      render
        (([centered (if z_store_name z = [] then js ''CIERRE DE CAJA'' else z_store_name z) width]
         @ (if z_store_tax_id z = [] then [] else [centered (z_store_tax_id z) width])
         @ (if z_store_address z = [] then [] else [centered (z_store_address z) width])
         @ [js_repeat width [cu_dash],
            centered (js ''CIERRE Z DEFINITIVO N'' @ [186, cu_space] @ int_string (z_number z)) width]
         @ (if reprint then [centered (js ''REIMPRESI'' @ [211] @ js ''N'') width] else [])
         @ [js ''Jornada: '' @ z_business_date z,
            js ''Cerrado: '' @ closedAtLabel,
            js ''Almac'' @ [233] @ js ''n: '' @ z_warehouse_name z]
         @ (case z_closed_by_name z of
              Some n \<Rightarrow> if n = [] then [] else [js ''Cajero cierre: '' @ n]
            | None \<Rightarrow> [])
         @ [js_repeat width [cu_dash]])
         @ totalsRows (z_totals z) width) p)"

section \<open>Lemmas\<close>

lemma length_fit: "length (fit line w) \<le> w"
  by (simp add: fit_def)

lemma fit_id [simp]: "length line \<le> w \<Longrightarrow> fit line w = line"
  by (simp add: fit_def)

lemma fits_width_render: "fits_width (paper_width p) (render lines p)"
  unfolding render_def by (rule fits_width_join) (auto simp: length_fit)

text \<open>
  Where a report states an amount: after its label and at least one space, or, when both do not fit a
  row, alone in the row below its label; either way it ends where the paper ends.
\<close>

definition states_amount :: "nat \<Rightarrow> jsstring list \<Rightarrow> jsstring \<times> jsstring \<Rightarrow> bool" where
  "states_amount w rows la \<longleftrightarrow> (case la of (label, a) \<Rightarrow>
     \<exists>n before after.
       (length label + Suc n + length a = w
        \<and> rows = before @ [label @ replicate (Suc n) cu_space @ a] @ after)
     \<or> (n + length a = w \<and> rows = before @ [fit label w, replicate n cu_space @ a] @ after))"

lemma ticketRow_states:
  assumes "length a \<le> w"
  shows "states_amount w (before @ ticketRow label a w @ after) (label, a)"
proof (cases "int (length label) \<le> int w - int (length a) - 1")
  case True
  let ?n = "nat (int w - int (length a) - 1 - int (length label))"
  have "label @ replicate ?n cu_space @ [cu_space] @ a = label @ replicate (Suc ?n) cu_space @ a"
    using replicate_append_same [of ?n cu_space] by simp
  then have "ticketRow label a w = [label @ replicate (Suc ?n) cu_space @ a]"
    using True by (simp add: ticketRow_def)
  moreover have "length label + Suc ?n + length a = w" using True by simp
  ultimately show ?thesis
    unfolding states_amount_def prod.case
    by (intro exI [of _ ?n] exI [of _ before] exI [of _ after] disjI1 conjI) simp_all
next
  case False
  let ?n = "nat (max 0 (int w - int (length a)))"
  have "ticketRow label a w = [fit label w, replicate ?n cu_space @ a]"
    using False by (simp add: ticketRow_def)
  moreover have "?n + length a = w" using assms by simp
  ultimately show ?thesis
    unfolding states_amount_def prod.case
    by (intro exI [of _ ?n] exI [of _ before] exI [of _ after] disjI2 conjI) simp_all
qed

lemma states_amount_fit:
  assumes "states_amount w rows (label, a)"
  shows "states_amount w (map (\<lambda>row. fit row w) rows) (label, a)"
proof -
  let ?f = "map (\<lambda>row. fit row w)"
  obtain n before after where
    "(length label + Suc n + length a = w \<and> rows = before @ [label @ replicate (Suc n) cu_space @ a] @ after)
     \<or> (n + length a = w \<and> rows = before @ [fit label w, replicate n cu_space @ a] @ after)"
    using assms unfolding states_amount_def prod.case by blast
  then show ?thesis
    unfolding states_amount_def prod.case
    by (intro exI [of _ n] exI [of _ "?f before"] exI [of _ "?f after"]) (auto simp: length_fit)
qed

text \<open>Everything a report states, with its label: the counts, the amounts and the taxes.\<close>

definition payment_entries :: "z_payment_row \<Rightarrow> (jsstring \<times> jsstring) list" where
  "payment_entries p = (paymentLabel (zp_method p), formatMoney (zp_collected_total p))
     # (if positive (zp_refunded_total p)
        then [(js ''Devuelto '' @ paymentLabel (zp_method p), minus_amount (zp_refunded_total p))] else [])"

definition report_entries :: "report_totals \<Rightarrow> (jsstring \<times> jsstring) list" where
  "report_entries r =
     [(js ''Ventas cobradas'', int_string (rt_sales_count r)),
      (js ''Tickets'', number_or_dash (rt_first_sale_number r) @ js '' - '' @ number_or_dash (rt_last_sale_number r)),
      (js ''VENTAS BRUTAS'', formatMoney (rt_gross_total r)),
      (js ''EFECTIVO ESPERADO'', formatMoney (expected_cash r))]
     @ (if positive (rt_discount_total r)
        then [(js ''Descuentos'', minus_amount (rt_discount_total r))] else [])
     @ (if rt_tax_breakdown r = [] then [] else [(js ''IVA total'', formatMoney (rt_tax_total r))])
     @ concat (map payment_entries (rt_payment_breakdown r))
     @ (if positive (rt_returns_total r)
        then [(counted (js ''Devoluciones'') (rt_returns_count r), minus_amount (rt_returns_total r))] else [])
     @ map (\<lambda>t. (counted (ztm_terminal_name t) (ztm_sales_count t), formatMoney (ztm_gross_total t)))
         (rt_terminal_breakdown r)
     @ map (\<lambda>c. (counted (zc_cashier_name c) (zc_sales_count c), formatMoney (zc_gross_total c)))
         (rt_cashier_breakdown r)"

definition tax_line :: "z_tax_row \<Rightarrow> jsstring" where
  "tax_line t = intl_format 0 3 (js_Number (zt_rate t)) @ js ''%  ''
     @ formatMoney (zt_taxable_base t) @ js ''  '' @ formatMoney (zt_tax_amount t)"

text \<open>The rows of a report in the groups they are made of: one group for each entry.\<close>

definition payment_groups :: "nat \<Rightarrow> z_payment_row \<Rightarrow> jsstring list list" where
  "payment_groups w p = map (\<lambda>(label, a). ticketRow label a w) (payment_entries p)"

definition row_groups :: "report_totals \<Rightarrow> nat \<Rightarrow> jsstring list list" where
  "row_groups r w =
     (let row = (\<lambda>label a. ticketRow label a w); separator = js_repeat w [cu_dash] in
      [row (js ''Ventas cobradas'') (int_string (rt_sales_count r)),
       row (js ''Tickets'')
         (number_or_dash (rt_first_sale_number r) @ js '' - '' @ number_or_dash (rt_last_sale_number r))]
      @ (if positive (rt_discount_total r) then [row (js ''Descuentos'') (minus_amount (rt_discount_total r))] else [])
      @ [[separator], row (js ''VENTAS BRUTAS'') (formatMoney (rt_gross_total r))]
      @ (if rt_tax_breakdown r = [] then []
         else [[js ''IVA (tipo / base / cuota)''], map (\<lambda>t. fit (tax_line t) w) (rt_tax_breakdown r),
           row (js ''IVA total'') (formatMoney (rt_tax_total r))])
      @ [[separator, js ''COBROS Y DEVOLUCIONES'']]
      @ concat (map (payment_groups w) (rt_payment_breakdown r))
      @ (if positive (rt_returns_total r)
         then [row (counted (js ''Devoluciones'') (rt_returns_count r)) (minus_amount (rt_returns_total r))] else [])
      @ [row (js ''EFECTIVO ESPERADO'') (formatMoney (expected_cash r))]
      @ (if rt_terminal_breakdown r = [] then []
         else [separator, js ''POR TERMINAL'']
           # map (\<lambda>t. row (counted (ztm_terminal_name t) (ztm_sales_count t)) (formatMoney (ztm_gross_total t)))
               (rt_terminal_breakdown r))
      @ (if rt_cashier_breakdown r = [] then []
         else [separator, js ''POR CAJERO'']
           # map (\<lambda>c. row (counted (zc_cashier_name c) (zc_sales_count c)) (formatMoney (zc_gross_total c)))
               (rt_cashier_breakdown r)))"

lemma payment_rows_groups: "payment_rows w = (\<lambda>p. concat (payment_groups w p))"
  by (simp add: payment_rows_def payment_groups_def payment_entries_def fun_eq_iff)

lemma concat_concat_map: "concat (concat (map f xs)) = concat (map (\<lambda>x. concat (f x)) xs)"
  by (induction xs) auto

lemma totalsRows_groups: "totalsRows r w = concat (row_groups r w)"
  by (simp add: totalsRows_def row_groups_def tax_rows_def tax_line_def payment_rows_groups concat_concat_map Let_def)

lemma in_set_if: "x \<in> set (if b then xs else ys) \<longleftrightarrow> b \<and> x \<in> set xs \<or> \<not> b \<and> x \<in> set ys"
  by simp

lemma entry_group: "(label, a) \<in> set (report_entries r) \<Longrightarrow> ticketRow label a w \<in> set (row_groups r w)"
  unfolding report_entries_def row_groups_def Let_def set_append Un_iff in_set_if
  by (elim disjE) (auto simp: in_set_if payment_groups_def)

lemma totalsRows_states:
  assumes "(label, a) \<in> set (report_entries r)" and "length a \<le> w"
  shows "states_amount w (heading @ totalsRows r w) (label, a)"
proof -
  obtain gs hs where "row_groups r w = gs @ ticketRow label a w # hs"
    using split_list [OF entry_group [OF assms(1)]] by blast
  then show ?thesis
    using ticketRow_states [OF assms(2), of "heading @ concat gs" label "concat hs"]
    by (simp add: totalsRows_groups)
qed

lemma tax_line_row: "t \<in> set (rt_tax_breakdown r) \<Longrightarrow> fit (tax_line t) w \<in> set (totalsRows r w)"
  by (auto simp: totalsRows_def tax_rows_def tax_line_def Let_def)

definition states_report :: "report_totals \<Rightarrow> nat \<Rightarrow> jsstring \<Rightarrow> bool" where
  "states_report r w out \<longleftrightarrow> (\<exists>rows. out = js_join [cu_lf] rows
     \<and> (\<forall>(label, a) \<in> set (report_entries r). length a \<le> w \<longrightarrow> states_amount w rows (label, a))
     \<and> (\<forall>t \<in> set (rt_tax_breakdown r). fit (tax_line t) w \<in> set rows))"

lemma states_report_render:
  assumes "out = render (heading @ totalsRows r (paper_width p)) p"
  shows "states_report r (paper_width p) out"
proof -
  let ?w = "paper_width p"
  let ?rows = "map (\<lambda>row. fit row ?w) (heading @ totalsRows r ?w)"
  have entries: "states_amount ?w ?rows (label, a)" if "(label, a) \<in> set (report_entries r)" "length a \<le> ?w" for label a
    by (rule states_amount_fit [OF totalsRows_states [OF that]])
  have taxes: "fit (tax_line t) ?w \<in> set ?rows" if "t \<in> set (rt_tax_breakdown r)" for t
  proof -
    have "fit (fit (tax_line t) ?w) ?w \<in> set ?rows" using tax_line_row [OF that, of ?w] by (auto simp del: fit_id)
    then show ?thesis by (simp add: length_fit)
  qed
  have "\<forall>(label, a) \<in> set (report_entries r). length a \<le> ?w \<longrightarrow> states_amount ?w ?rows (label, a)"
    using entries by blast
  moreover have "\<forall>t \<in> set (rt_tax_breakdown r). fit (tax_line t) ?w \<in> set ?rows"
    using taxes by blast
  ultimately show ?thesis
    unfolding states_report_def assms render_def by (intro exI [of _ ?rows] conjI refl)
qed


definition sample_z :: z_report where
  "sample_z =
     \<lparr>z_id = 1, z_warehouse_id = 1, z_warehouse_name = js ''Tienda'', z_number = 12,
      z_business_date = js ''2026-08-28'', z_covers_from = None, z_closed_at = js ''2026-08-28T20:00:00Z'',
      z_is_final = True, z_finalized_at = None, z_store_name = js ''Ultramarinos'', z_store_tax_id = [],
      z_store_address = [], z_closed_by_name = None, z_sales_count = 2, z_gross_total = js ''1234.500000'',
      z_tax_total = js ''214.250000'', z_discount_total = js ''0.000000'', z_cash_total = js ''1234.500000'',
      z_card_total = js ''0.000000'', z_other_total = js ''0.000000'', z_returns_count = 0,
      z_returns_total = js ''0.000000'', z_first_sale_number = Some 1, z_last_sale_number = Some 2,
      z_tax_breakdown = [], z_payment_breakdown = [], z_terminal_breakdown = [],
      z_cashier_breakdown = [], z_closed_by_user_id = None\<rparr>"


end
