(* ===== verification/Qz_Printer.thy ===== *)
theory Qz_Printer
  imports Print_Profile Settings
begin

text \<open>
  Printing through QZ Tray (\<open>tickets/qzPrinter.ts\<close>, \<open>tickets/qzSecurityApi.ts\<close>). QZ Tray itself is
  a parameter: each call to it answers, fails with a message, or stays silent for longer than anyone
  waits. The model keeps the module's memory (the security promise), the connection QZ reports and
  the jobs handed to it; a computation that waits on a silent answer is itself silent, unless it
  waits through \<open>qzWithin\<close>.
\<close>

section \<open>Answers of QZ Tray\<close>

datatype 'a settled = Answer 'a | Fails jsstring | Silent

datatype qz_data = Raw jsstring | RasterImage jsstring

text \<open>What is handed to \<open>qz.print\<close>: the connection, the printer, the job's name and its data. The
  encoding is always ISO-8859-1 and images are always ESC/POS \<open>gs_v_0\<close> rasters of double density.\<close>

record qz_job =
  qj_connection :: "jsstring \<times> int"
  qj_printer :: jsstring
  qj_name :: jsstring
  qj_data :: "qz_data list"

record qz_state =
  qs_security :: "bool option"
  qs_certificate :: "jsstring option"
  qs_algorithm :: "jsstring option"
  qs_connection :: "(jsstring \<times> int) option"
  qs_sent :: "qz_job list"

datatype found_printers = OnePrinter jsstring | ManyPrinters "jsstring list"

text \<open>What the outside answers during one operation.\<close>

record qz_env =
  qe_security :: "(bool \<times> jsstring option) settled"
  qe_disconnect :: "unit settled"
  qe_connect :: "unit settled"
  qe_find :: "found_printers settled"
  qe_print :: "unit settled"
  qe_raster :: "jsstring \<Rightarrow> print_profile \<Rightarrow> jsstring settled"

definition getQzSecurity :: api_call where
  "getQzSecurity = get_call (js ''/printing/qz/security'')"

definition signQzDigest :: "jsstring \<Rightarrow> api_call" where
  "signQzDigest digest =
     send_call POST (js ''/printing/qz/sign'') [] (Some (JObj [(js ''digest'', JStr digest)]))"

type_synonym 'a qz_action = "qz_state \<Rightarrow> 'a settled \<times> qz_state"

definition qz_bind :: "'a qz_action \<Rightarrow> ('a \<Rightarrow> 'b qz_action) \<Rightarrow> 'b qz_action" where
  "qz_bind m f s =
     (case m s of
        (Answer x, s') \<Rightarrow> f x s'
      | (Fails e, s') \<Rightarrow> (Fails e, s')
      | (Silent, s') \<Rightarrow> (Silent, s'))"

definition qz_return :: "'a \<Rightarrow> 'a qz_action" where
  "qz_return x s = (Answer x, s)"

definition qz_wait :: "'a settled \<Rightarrow> 'a qz_action" where
  "qz_wait a s = (a, s)"

text \<open>\<open>try ... catch\<close> that rethrows another message.\<close>

definition qz_catch :: "'a qz_action \<Rightarrow> (jsstring \<Rightarrow> jsstring) \<Rightarrow> 'a qz_action" where
  "qz_catch m f s = (case m s of (Fails e, s') \<Rightarrow> (Fails (f e), s') | r \<Rightarrow> r)"

section \<open>Time limit and queue\<close>

definition errorMessage :: "jsstring \<Rightarrow> jsstring" where
  "errorMessage e = (if e \<noteq> [] then e else js ''Error'')"

definition timeout_message :: "jsstring \<Rightarrow> jsstring" where
  "timeout_message action =
     js ''QZ Tray no ha respondido al '' @ action @ js '' en 12 segundos. ''
     @ js ''Comprueba su ventana, la autorizaci'' @ [243] @ js ''n y la conexi'' @ [243] @ js ''n.''"

definition qzWithin :: "'a settled \<Rightarrow> jsstring \<Rightarrow> 'a settled" where
  "qzWithin operation action =
     (case operation of Silent \<Rightarrow> Fails (timeout_message action) | r \<Rightarrow> r)"

text \<open>
  \<open>queuePrintJob\<close>: a job starts when the one before it has settled, well or badly; behind a silent
  job nothing starts.
\<close>

fun run_queue :: "unit qz_action list \<Rightarrow> qz_state \<Rightarrow> unit settled list \<times> qz_state" where
  "run_queue [] s = ([], s)"
| "run_queue (job # jobs) s =
     (case job s of
        (Silent, s') \<Rightarrow> (Silent # map (\<lambda>_. Silent) jobs, s')
      | (r, s') \<Rightarrow> (let (rs, s'') = run_queue jobs s' in (r # rs, s'')))"

section \<open>Printer commands\<close>

definition ESC_POS_MAX_FEED_DOTS :: jsnum where "ESC_POS_MAX_FEED_DOTS = JsNum 255"
definition MILLIMETRES_PER_INCH :: jsnum where "MILLIMETRES_PER_INCH = js_num (254 / 10)"
definition CASH_DRAWER_PULSE :: jsstring where "CASH_DRAWER_PULSE = [16, 20, 1, 0, 5]"

definition char_code :: "jsnum \<Rightarrow> nat" where
  "char_code x = nat (js_int x)"

definition verticalMarginFeed :: "jsnum \<Rightarrow> jsstring option" where
  "verticalMarginFeed millimetres =
     (let dots = js_min ESC_POS_MAX_FEED_DOTS
            (js_max (JsNum 0) (js_round ((millimetres * THERMAL_PRINTER_DPI) div MILLIMETRES_PER_INCH)))
      in if dots = JsNum 0 then None else Some [27, 74, char_code dots])"

definition escPosUnsigned16 :: "jsstring \<Rightarrow> jsnum \<Rightarrow> jsstring" where
  "escPosUnsigned16 command v =
     (let safeValue = char_code (js_min (JsNum 65535) (js_max (JsNum 0) (js_round v)))
      in command @ [safeValue mod 256, safeValue div 256])"

text \<open>The commands of a ticket: the physical page, the feeds, the image and the cut.\<close>

definition raw_feed :: "jsstring option \<Rightarrow> qz_data list" where
  "raw_feed f = (case f of Some c \<Rightarrow> [Raw c] | None \<Rightarrow> [])"

definition ticket_commands :: "print_profile \<Rightarrow> jsstring \<Rightarrow> qz_data list" where
  "ticket_commands p raster =
     (let printProfile = p\<lparr>pp_margin_top_mm := JsNum 0, pp_margin_bottom_mm := JsNum 0\<rparr>;
          g = ticketRasterGeometry printProfile 1
      in [Raw [27, 64], Raw [29, 80, 203, 203],
          Raw (escPosUnsigned16 [29, 76] (rg_contentLeftDots g)),
          Raw (escPosUnsigned16 [29, 87] (rg_contentWidthDots g))]
         @ raw_feed (verticalMarginFeed (pp_margin_top_mm p))
         @ [RasterImage raster]
         @ raw_feed (verticalMarginFeed (pp_margin_bottom_mm p))
         @ [Raw [29, 86, 0]])"

section \<open>Operations\<close>

definition wrapped :: "jsstring \<Rightarrow> jsstring \<Rightarrow> jsstring" where
  "wrapped message e = message @ js '' ('' @ errorMessage e @ js '')''"

definition quote_name :: "jsstring \<Rightarrow> jsstring" where
  "quote_name s = [171] @ s @ [187]"

definition configureQzSecurity :: "qz_env \<Rightarrow> bool qz_action" where
  "configureQzSecurity env s =
     (case qs_security s of
        Some enabled \<Rightarrow> (Answer enabled, s)
      | None \<Rightarrow>
          (case qzWithin (qe_security env) (js ''preparar la firma segura'') of
             Answer (enabled, certificate) \<Rightarrow>
               if \<not> enabled \<or> certificate = None
               then (Answer False, s\<lparr>qs_security := Some False\<rparr>)
               else (Answer True, s\<lparr>qs_security := Some True, qs_certificate := certificate,
                       qs_algorithm := Some (js ''SHA512'')\<rparr>)
           | Fails e \<Rightarrow>
               (Fails (wrapped (js ''No se ha podido preparar la firma segura de QZ.'') e),
                s\<lparr>qs_security := None\<rparr>)
           | Silent \<Rightarrow> (Silent, s)))"

definition host_port :: "qz_print_config \<Rightarrow> jsstring" where
  "host_port config = qz_host config @ [58] @ int_string (qz_securePort config)"

definition qz_connect :: "qz_env \<Rightarrow> qz_print_config \<Rightarrow> unit qz_action" where
  "qz_connect env config s =
     (case qzWithin (qe_connect env) (js ''conectar con '' @ host_port config) of
        Answer u \<Rightarrow> (Answer u, s\<lparr>qs_connection := Some (qz_host config, qz_securePort config)\<rparr>)
      | r \<Rightarrow> (r, s))"

definition qz_disconnect :: "qz_env \<Rightarrow> unit qz_action" where
  "qz_disconnect env s =
     (case qe_disconnect env of Answer u \<Rightarrow> (Answer u, s\<lparr>qs_connection := None\<rparr>) | r \<Rightarrow> (r, s))"

definition connectToQz :: "qz_env \<Rightarrow> qz_print_config \<Rightarrow> unit qz_action" where
  "connectToQz env config =
     qz_bind (configureQzSecurity env) (\<lambda>_ s.
       if qs_connection s = Some (qz_host config, qz_securePort config) then (Answer (), s)
       else qz_bind (if qs_connection s \<noteq> None then qz_disconnect env else qz_return ()) (\<lambda>_.
         qz_catch (qz_connect env config)
           (wrapped (js ''No se puede conectar con QZ Tray en '' @ host_port config
             @ js ''. Comprueba QZ, el certificado y el firewall de Windows.''))) s)"

definition findPrinter :: "qz_env \<Rightarrow> qz_print_config \<Rightarrow> jsstring qz_action" where
  "findPrinter env config =
     qz_catch
       (qz_bind (qz_wait (qzWithin (qe_find env)
           (js ''consultar la impresora '' @ quote_name (qz_printerName config)))) (\<lambda>result.
          (let names = (case result of OnePrinter n \<Rightarrow> [n] | ManyPrinters ns \<Rightarrow> ns) in
           case find (\<lambda>n. n = qz_printerName config) names of
             Some exact \<Rightarrow> qz_return exact
           | None \<Rightarrow> qz_wait (Fails (js ''No aparece '' @ qz_printerName config
               @ js '' entre las impresoras de Windows.'')))))
       (wrapped (js ''No se encuentra la impresora '' @ quote_name (qz_printerName config) @ js ''.''))"

definition testQzPrinterConnection :: "qz_env \<Rightarrow> qz_print_config \<Rightarrow> (jsstring \<times> bool) qz_action" where
  "testQzPrinterConnection env config =
     qz_bind (configureQzSecurity env) (\<lambda>signingEnabled.
     qz_bind (connectToQz env config) (\<lambda>_.
     qz_bind (findPrinter env config) (\<lambda>name. qz_return (name, signingEnabled))))"

text \<open>Handing a job to QZ: it is on its way from here on, whatever the answer.\<close>

definition qz_print :: "qz_env \<Rightarrow> jsstring \<Rightarrow> jsstring \<Rightarrow> qz_data list \<Rightarrow> jsstring \<Rightarrow> unit qz_action" where
  "qz_print env printer name data action s =
     (qzWithin (qe_print env) action,
      s\<lparr>qs_sent := qs_sent s @ [\<lparr>qj_connection = the (qs_connection s), qj_printer = printer,
          qj_name = name, qj_data = data\<rparr>]\<rparr>)"

definition drawer_job_name :: jsstring where
  "drawer_job_name = js ''OpenERP abrir caj'' @ [243] @ js ''n''"

definition openCashDrawer :: "qz_env \<Rightarrow> qz_print_config \<Rightarrow> unit qz_action" where
  "openCashDrawer env config =
     qz_bind (connectToQz env config) (\<lambda>_.
     qz_bind (findPrinter env config) (\<lambda>printer.
       qz_catch
         (qz_print env printer drawer_job_name [Raw CASH_DRAWER_PULSE]
            (js ''abrir el caj'' @ [243] @ js ''n mediante '' @ quote_name printer))
         (wrapped (js ''QZ Tray no ha podido abrir el caj'' @ [243] @ js ''n mediante ''
            @ quote_name printer @ js ''.''))))"

definition printThermalTicket ::
  "qz_env \<Rightarrow> jsstring \<Rightarrow> print_profile \<Rightarrow> qz_print_config \<Rightarrow> unit qz_action" where
  "printThermalTicket env t p config =
     qz_bind (connectToQz env config) (\<lambda>_.
     qz_bind (findPrinter env config) (\<lambda>printer.
     qz_bind (qz_wait (qe_raster env t
         (p\<lparr>pp_margin_top_mm := JsNum 0, pp_margin_bottom_mm := JsNum 0\<rparr>))) (\<lambda>raster.
       qz_catch
         (qz_print env printer (js ''OpenERP ticket'') (ticket_commands p raster)
            (js ''enviar el ticket a '' @ quote_name printer))
         (wrapped (js ''QZ Tray no ha podido imprimir en '' @ quote_name printer @ js ''.'')))))"

lemmas qz_defs = qz_bind_def qz_return_def qz_wait_def qz_catch_def

section \<open>What a job hands to QZ\<close>

definition at_config :: "qz_print_config \<Rightarrow> jsstring \<times> int" where
  "at_config config = (qz_host config, qz_securePort config)"

lemma configureQzSecurity_keeps:
  "configureQzSecurity env s = (r, s') \<Longrightarrow> qs_sent s' = qs_sent s \<and> qs_connection s' = qs_connection s \<and> r \<noteq> Silent"
  by (auto simp: configureQzSecurity_def qzWithin_def split: option.splits settled.splits if_splits prod.splits)

lemma connectToQz_sent: "connectToQz env config s = (r, s') \<Longrightarrow> qs_sent s' = qs_sent s"
  using configureQzSecurity_keeps
  by (fastforce simp: connectToQz_def qz_defs qz_connect_def qz_disconnect_def qzWithin_def
      split: settled.splits prod.splits if_splits)

lemma connectToQz_connected:
  "connectToQz env config s = (Answer u, s') \<Longrightarrow> qs_connection s' = Some (at_config config)"
  by (auto simp: connectToQz_def qz_defs qz_connect_def qzWithin_def at_config_def
      split: settled.splits prod.splits if_splits)

lemma findPrinter_state: "findPrinter env config s = (r, s') \<Longrightarrow> s' = s \<and> r \<noteq> Silent"
  by (auto simp: findPrinter_def qz_defs qzWithin_def Let_def
      split: settled.splits prod.splits option.splits found_printers.splits)

lemma findPrinter_exact: "findPrinter env config s = (Answer n, s') \<Longrightarrow> n = qz_printerName config"
  by (auto simp: findPrinter_def qz_defs qzWithin_def Let_def
      dest!: find_map_of_id split: settled.splits prod.splits option.splits)

text \<open>A job and the one thing it may hand to QZ.\<close>

datatype print_job = Drawer qz_print_config | Ticket jsstring print_profile qz_print_config

fun run_job :: "qz_env \<times> print_job \<Rightarrow> unit qz_action" where
  "run_job (env, Drawer config) = openCashDrawer env config"
| "run_job (env, Ticket t p config) = printThermalTicket env t p config"

fun answered_raster :: "jsstring settled \<Rightarrow> jsstring" where
  "answered_raster (Answer r) = r"
| "answered_raster _ = []"

fun job_entry :: "qz_env \<times> print_job \<Rightarrow> qz_job" where
  "job_entry (env, Drawer config) =
     \<lparr>qj_connection = at_config config, qj_printer = qz_printerName config,
      qj_name = drawer_job_name, qj_data = [Raw CASH_DRAWER_PULSE]\<rparr>"
| "job_entry (env, Ticket t p config) =
     \<lparr>qj_connection = at_config config, qj_printer = qz_printerName config,
      qj_name = js ''OpenERP ticket'', qj_data = ticket_commands p (answered_raster
        (qe_raster env t (p\<lparr>pp_margin_top_mm := JsNum 0, pp_margin_bottom_mm := JsNum 0\<rparr>)))\<rparr>"

definition handed_over :: "qz_job \<Rightarrow> unit settled \<Rightarrow> qz_state \<Rightarrow> qz_state \<Rightarrow> bool \<Rightarrow> bool" where
  "handed_over entry r s s' sent \<longleftrightarrow>
     qs_sent s' = qs_sent s @ (if sent then [entry] else []) \<and> (\<forall>u. r = Answer u \<longrightarrow> sent)"

lemma run_job_sent: "run_job ej s = (r, s') \<Longrightarrow> \<exists>sent. handed_over (job_entry ej) r s s' sent"
proof (induction ej rule: run_job.induct)
  case (1 env config)
  obtain rc s1 where c: "connectToQz env config s = (rc, s1)" by fastforce
  obtain rf s2 where f: "findPrinter env config s1 = (rf, s2)" by fastforce
  note facts = connectToQz_sent [OF c] findPrinter_state [OF f]
  show ?case
  proof (cases "\<exists>u n. rc = Answer u \<and> rf = Answer n")
    case True
    then show ?thesis
      using 1 c f facts connectToQz_connected findPrinter_exact
      by (intro exI [of _ True]) (fastforce simp: handed_over_def openCashDrawer_def qz_defs qz_print_def
          qzWithin_def split: settled.splits)
  next
    case False
    then show ?thesis
      using 1 c f facts
      by (intro exI [of _ False]) (auto simp: handed_over_def openCashDrawer_def qz_defs split: settled.splits)
  qed
next
  case (2 env t p config)
  let ?raster = "qe_raster env t (p\<lparr>pp_margin_top_mm := JsNum 0, pp_margin_bottom_mm := JsNum 0\<rparr>)"
  obtain rc s1 where c: "connectToQz env config s = (rc, s1)" by fastforce
  obtain rf s2 where f: "findPrinter env config s1 = (rf, s2)" by fastforce
  note facts = connectToQz_sent [OF c] findPrinter_state [OF f]
  show ?case
  proof (cases "\<exists>u n x. rc = Answer u \<and> rf = Answer n \<and> ?raster = Answer x")
    case True
    then show ?thesis
      using 2 c f facts connectToQz_connected findPrinter_exact
      by (intro exI [of _ True]) (fastforce simp: handed_over_def printThermalTicket_def qz_defs qz_print_def
          qzWithin_def split: settled.splits)
  next
    case False
    then show ?thesis
      using 2 c f facts
      by (intro exI [of _ False]) (auto simp: handed_over_def printThermalTicket_def qz_defs split: settled.splits)
  qed
qed

section \<open>The queue\<close>

definition entries_of :: "(qz_env \<times> print_job) list \<Rightarrow> bool list \<Rightarrow> qz_job list" where
  "entries_of jobs sent = map (\<lambda>(j, b). job_entry j) (filter snd (zip jobs sent))"

lemma entries_of_simps [simp]:
  "entries_of [] sent = []"
  "entries_of (j # jobs) (b # sent) = (if b then [job_entry j] else []) @ entries_of jobs sent"
  by (simp_all add: entries_of_def)

lemma entries_of_none [simp]: "entries_of jobs (replicate n False) = []"
  by (auto simp: entries_of_def filter_empty_conv dest!: set_zip_rightD)

text \<open>
  What has to answer for a job to be done, whatever state the jobs before it have left: QZ Tray and the
  server answer, the printer of the job is among those found, and the image of a ticket is drawn.
\<close>

definition all_answers :: "qz_env \<Rightarrow> qz_print_config \<Rightarrow> bool" where
  "all_answers env config \<longleftrightarrow> (\<exists>x. qe_security env = Answer x) \<and> qe_disconnect env = Answer ()
     \<and> qe_connect env = Answer () \<and> qe_print env = Answer ()
     \<and> (case qe_find env of Answer (OnePrinter n) \<Rightarrow> n = qz_printerName config
          | Answer (ManyPrinters ns) \<Rightarrow> qz_printerName config \<in> set ns | _ \<Rightarrow> False)"

fun job_works :: "qz_env \<times> print_job \<Rightarrow> bool" where
  "job_works (env, Drawer config) = all_answers env config"
| "job_works (env, Ticket t p config) = (all_answers env config \<and> (\<exists>r. qe_raster env t
     (p\<lparr>pp_margin_top_mm := JsNum 0, pp_margin_bottom_mm := JsNum 0\<rparr>) = Answer r))"

lemma connectToQz_works: "all_answers env config \<Longrightarrow> \<exists>s'. connectToQz env config s = (Answer (), s')"
  by (auto simp: all_answers_def connectToQz_def configureQzSecurity_def qz_connect_def qz_disconnect_def
      qzWithin_def qz_defs split: option.splits)

lemma findPrinter_works:
  assumes "all_answers env config"
  shows "findPrinter env config s = (Answer (qz_printerName config), s)"
proof -
  have "find (\<lambda>n. n = qz_printerName config) ns = Some (qz_printerName config)" if "qz_printerName config \<in> set ns" for ns
    using that by (induction ns) auto
  then show ?thesis
    using assms by (auto simp: all_answers_def findPrinter_def qzWithin_def qz_defs split: settled.splits found_printers.splits)
qed

lemma run_job_works: "job_works ej \<Longrightarrow> fst (run_job ej s) = Answer ()"
proof (induction ej rule: run_job.induct)
  case (1 env config)
  then have w: "all_answers env config" by simp
  then obtain s' where "connectToQz env config s = (Answer (), s')" using connectToQz_works by blast
  with w findPrinter_works [OF w] show ?case
    by (simp add: openCashDrawer_def qz_print_def qzWithin_def qz_defs all_answers_def)
next
  case (2 env t p config)
  then have w: "all_answers env config" by simp
  then obtain s' where "connectToQz env config s = (Answer (), s')" using connectToQz_works by blast
  with 2 w findPrinter_works [OF w] show ?case
    by (auto simp: printThermalTicket_def qz_print_def qzWithin_def qz_defs all_answers_def)
qed

text \<open>C16: Print jobs reach QZ in the order they were asked for, each at most once, as the job's own
  commands, at the configured computer and port and for exactly the configured printer; every job
  reported as done was handed over; and a job that fails does not stop the ones behind it: a job
  for which everything answers is done, whatever became of the jobs before it, unless one of
  them is still waiting for an answer.\<close>

theorem queue_in_order:
  assumes "run_queue (map run_job jobs) s = (rs, s')"
  shows "\<exists>sent. length sent = length jobs \<and> length rs = length jobs
    \<and> qs_sent s' = qs_sent s @ entries_of jobs sent
    \<and> (\<forall>i < length jobs. rs ! i = Answer () \<longrightarrow> sent ! i)
    \<and> (\<forall>i < length jobs. job_works (jobs ! i) \<and> (\<forall>j < i. rs ! j \<noteq> Silent) \<longrightarrow> rs ! i = Answer ())"
  using assms
proof (induction jobs arbitrary: s rs)
  case Nil
  then show ?case by simp
next
  case (Cons j jobs)
  obtain r s1 where j: "run_job j s = (r, s1)" by fastforce
  obtain b where b: "handed_over (job_entry j) r s s1 b" using run_job_sent [OF j] by blast
  have works: "job_works j \<Longrightarrow> r = Answer ()" using run_job_works [of j s] j by simp
  show ?case
  proof (cases "r = Silent")
    case True
    with Cons.prems j have *: "s' = s1" "rs = Silent # map (\<lambda>_. Silent) jobs" by auto
    have "\<forall>i < length (j # jobs). rs ! i = Answer () \<longrightarrow> (b # replicate (length jobs) False) ! i"
      unfolding * by (auto simp: nth_Cons split: nat.splits)
    moreover have "\<forall>i < length (j # jobs). job_works ((j # jobs) ! i) \<and> (\<forall>k < i. rs ! k \<noteq> Silent) \<longrightarrow> rs ! i = Answer ()"
      unfolding * using works True by (auto simp: nth_Cons split: nat.splits)
    ultimately show ?thesis using b *
      by (intro exI [of _ "b # replicate (length jobs) False"]) (simp add: handed_over_def)
  next
    case False
    obtain qs where qs: "run_queue (map run_job jobs) s1 = (qs, s')" and rs: "rs = r # qs"
      using Cons.prems j False by (auto split: settled.splits prod.splits)
    from Cons.IH [OF qs] obtain sent where ih: "length sent = length jobs" "length qs = length jobs"
      "qs_sent s' = qs_sent s1 @ entries_of jobs sent"
      "\<forall>i < length jobs. qs ! i = Answer () \<longrightarrow> sent ! i"
      "\<forall>i < length jobs. job_works (jobs ! i) \<and> (\<forall>k < i. qs ! k \<noteq> Silent) \<longrightarrow> qs ! i = Answer ()" by blast
    have handed: "\<forall>i < length (j # jobs). rs ! i = Answer () \<longrightarrow> (b # sent) ! i"
      using b rs ih(4) by (auto simp: handed_over_def nth_Cons split: nat.splits)
    have "\<forall>i < length (j # jobs). job_works ((j # jobs) ! i) \<and> (\<forall>k < i. rs ! k \<noteq> Silent) \<longrightarrow> rs ! i = Answer ()"
    proof (intro allI impI, elim conjE)
      fix i assume i: "i < length (j # jobs)" "job_works ((j # jobs) ! i)" "\<forall>k < i. rs ! k \<noteq> Silent"
      show "rs ! i = Answer ()"
      proof (cases i)
        case (Suc n)
        then have "\<forall>k < n. qs ! k \<noteq> Silent" using i(3) rs by auto
        with Suc ih(5) i(1,2) rs show ?thesis by simp
      qed (use works i(2) rs in simp)
    qed
    with handed show ?thesis
      by (intro exI [of _ "b # sent"] conjI) (use b rs ih(1-3) in \<open>simp_all add: handed_over_def\<close>)
  qed
qed

definition idle_state :: qz_state where
  "idle_state = \<lparr>qs_security = None, qs_certificate = None, qs_algorithm = None,
     qs_connection = None, qs_sent = []\<rparr>"

definition good_env :: qz_env where
  "good_env = \<lparr>qe_security = Answer (False, None), qe_disconnect = Answer (), qe_connect = Answer (),
     qe_find = Answer (OnePrinter (js ''POSPrinter POS-80'')), qe_print = Answer (),
     qe_raster = (\<lambda>_ _. Answer (js ''data:image/png''))\<rparr>"

definition busy_day :: "(qz_env \<times> print_job) list" where
  "busy_day = [(good_env, Drawer DEFAULT_QZ_PRINT_CONFIG),
     (good_env\<lparr>qe_find := Silent\<rparr>, Drawer DEFAULT_QZ_PRINT_CONFIG),
     (good_env, Ticket (js ''hola'') sample_profile DEFAULT_QZ_PRINT_CONFIG)]"

lemma busy_day_runs:
  "fst (run_queue (map run_job busy_day) idle_state) ! 0 \<noteq> Silent"
  "fst (run_queue (map run_job busy_day) idle_state) ! 1 \<noteq> Silent"
  "fst (run_queue (map run_job busy_day) idle_state) ! 1 \<noteq> Answer ()"
  by (simp_all add: busy_day_def good_env_def idle_state_def openCashDrawer_def printThermalTicket_def connectToQz_def
    configureQzSecurity_def qz_connect_def findPrinter_def qz_print_def qzWithin_def qz_defs
    split: prod.splits settled.splits)

lemma queue_in_order_witness:
  "fst (run_queue (map run_job busy_day) idle_state) ! 1 \<noteq> Answer ()
   \<and> fst (run_queue (map run_job busy_day) idle_state) ! 2 = Answer ()"
proof -
  obtain rs s' where run: "run_queue (map run_job busy_day) idle_state = (rs, s')" by fastforce
  have "length busy_day = 3" by (simp add: busy_day_def)
  moreover have "job_works (busy_day ! 2)"
    by (auto simp: busy_day_def good_env_def all_answers_def DEFAULT_QZ_PRINT_CONFIG_def)
  moreover have "\<forall>j < 2. rs ! j \<noteq> Silent"
    using busy_day_runs(1,2) by (simp add: run less_2_cases_iff)
  ultimately show ?thesis using queue_in_order [OF run] busy_day_runs(3) by (auto simp: run)
qed

section \<open>Every operation settles\<close>

definition settles :: "'a qz_action \<Rightarrow> qz_state \<Rightarrow> bool" where
  "settles m s \<longleftrightarrow> fst (m s) \<noteq> Silent"

lemma qz_bind_settles:
  "settles m s \<Longrightarrow> (\<And>x t. m s = (Answer x, t) \<Longrightarrow> settles (f x) t) \<Longrightarrow> settles (qz_bind m f) s"
  by (auto simp: settles_def qz_bind_def split: prod.splits settled.splits)

lemma qz_catch_settles: "settles m s \<Longrightarrow> settles (qz_catch m g) s"
  by (auto simp: settles_def qz_catch_def split: prod.splits settled.splits)

lemma qzWithin_settles [simp]: "qzWithin a action \<noteq> Silent"
  by (auto simp: qzWithin_def split: settled.splits)

lemma qz_step_settles:
  "settles (qz_return x) s"
  "settles (qz_connect env config) s"
  "settles (configureQzSecurity env) s"
  "settles (findPrinter env config) s"
  "settles (qz_print env printer name data action) s"
  "a \<noteq> Silent \<Longrightarrow> settles (qz_wait a) s"
  "qe_disconnect env \<noteq> Silent \<Longrightarrow> settles (qz_disconnect env) s"
  using configureQzSecurity_keeps [of env s] findPrinter_state [of env config s]
  by (auto simp: settles_def qz_return_def qz_connect_def qz_print_def qz_wait_def qz_disconnect_def
      qzWithin_def split: settled.splits prod.splits)
    (metis prod.collapse)+

lemma connectToQz_settles:
  assumes "qe_disconnect env \<noteq> Silent"
  shows "settles (connectToQz env config) s"
  unfolding connectToQz_def
proof (rule qz_bind_settles)
  show "settles (configureQzSecurity env) s" by (rule qz_step_settles)
next
  fix x t
  have "settles (if b then qz_disconnect env else qz_return ()) t" for b
    using assms by (simp add: qz_step_settles)
  then have "settles (qz_bind (if qs_connection t \<noteq> None then qz_disconnect env else qz_return ())
      (\<lambda>_. qz_catch (qz_connect env config) m)) t" for m
    by (intro qz_bind_settles qz_catch_settles qz_step_settles)
  then show "settles (\<lambda>s. if qs_connection s = Some (qz_host config, qz_securePort config) then (Answer (), s)
      else qz_bind (if qs_connection s \<noteq> None then qz_disconnect env else qz_return ())
        (\<lambda>_. qz_catch (qz_connect env config)
          (wrapped (js ''No se puede conectar con QZ Tray en '' @ host_port config
             @ js ''. Comprueba QZ, el certificado y el firewall de Windows.''))) s) t"
    unfolding settles_def by simp
qed

text \<open>C17: A print job always settles, even when QZ Tray answers nothing at all, as long as closing a
  former connection and drawing the image do: those two waits have no time limit.\<close>

theorem print_job_settles:
  assumes "qe_disconnect env \<noteq> Silent" and "\<forall>t p. qe_raster env t p \<noteq> Silent"
  shows "fst (run_job (env, job) s) \<noteq> Silent"
  unfolding settles_def [symmetric]
  by (cases job)
    (use assms in \<open>auto intro!: qz_bind_settles qz_catch_settles connectToQz_settles qz_step_settles
      simp: openCashDrawer_def printThermalTicket_def\<close>)

definition silent_env :: qz_env where
  "silent_env = \<lparr>qe_security = Silent, qe_disconnect = Answer (), qe_connect = Silent, qe_find = Silent,
     qe_print = Silent, qe_raster = (\<lambda>_ _. Fails [])\<rparr>"

lemma print_job_settles_witness:
  "fst (run_job (silent_env, Ticket [] sample_profile DEFAULT_QZ_PRINT_CONFIG) idle_state) \<noteq> Silent"
  by (rule print_job_settles) (simp_all add: silent_env_def)

text \<open>A change of computer while the former connection does not close leaves the job and every job
  behind it waiting.\<close>

lemma disconnect_blocks_queue:
  assumes "qs_security s = Some b" "qs_connection s = Some c" "c \<noteq> at_config config"
    and "qe_disconnect env = Silent"
  shows "run_queue (map run_job ((env, Drawer config) # jobs)) s
    = (Silent # map (\<lambda>_. Silent) (map run_job jobs), s)"
  using assms
  by (simp add: openCashDrawer_def connectToQz_def configureQzSecurity_def qz_disconnect_def qz_defs at_config_def)

text \<open>A failed preparation of the signature is forgotten: the next operation asks again.\<close>

lemma security_retried:
  "configureQzSecurity env s = (Fails e, s') \<Longrightarrow> qs_security s' = None"
  by (auto simp: configureQzSecurity_def split: option.splits settled.splits if_splits prod.splits)

section \<open>The bytes of a ticket\<close>

lemma MILLIMETRES_val: "MILLIMETRES_PER_INCH = JsNum (3574732204225331 / 140737488355328)"
  by code_simp

lemma feed_dots:
  assumes "0 \<le> i" "i \<le> 20"
  shows "verticalMarginFeed (JsNum (of_int i)) = (if i = 0 then None else Some [27, 74, nat (mm_dots i)])"
proof -
  let ?d = "3574732204225331 / 140737488355328 :: rat"
  have i: "0 \<le> (of_int i :: rat)" "(of_int i :: rat) \<le> 20" using assms by (auto simp flip: of_int_le_iff)
  have m: "rnd (of_int i * 203) = JsNum (of_int i * 203)"
    using rnd_of_int [of "i * 203"] assms by simp
  have b: "\<bar>of_int i * 203 / ?d\<bar> < 2 ^ 20" using i by simp
  have "\<bar>x - y * (1015 / 127)\<bar> \<le> 1 / 500"
    if "\<bar>x - y * 203 / ?d\<bar> \<le> 1 / 1000" "0 \<le> y" "y \<le> 20" for x y :: rat
    using that unfolding abs_le_iff by (intro conjI) (simp_all add: field_simps)
  then have r: "\<lfloor>rnd_rat (of_int i * 203 / ?d) + 1 / 2\<rfloor> = mm_dots i"
    using rnd_close(2) [OF b] i by (intro mm_dots_near) blast
  have d: "0 \<le> mm_dots i" "mm_dots i \<le> 160" "mm_dots i = 0 \<longleftrightarrow> i = 0"
    using assms by (auto simp: mm_dots_def)
  have "js_round ((JsNum (of_int i) * THERMAL_PRINTER_DPI) div MILLIMETRES_PER_INCH) = JsNum (of_int (mm_dots i))"
  proof -
    have "JsNum (of_int i) * THERMAL_PRINTER_DPI = JsNum (of_int i * 203)"
      unfolding THERMAL_PRINTER_DPI_def times_jsnum_def js_mult.simps by (rule m)
    moreover have "JsNum (of_int i * 203) div MILLIMETRES_PER_INCH = JsNum (rnd_rat (of_int i * 203 / ?d))"
      unfolding MILLIMETRES_val divide_jsnum_def js_div.simps rnd_close(1) [OF b] by (subst if_not_P) simp_all
    ultimately show ?thesis by (simp only: js_round.simps r)
  qed
  moreover have "js_min (JsNum 255) (js_max (JsNum 0) (JsNum (of_int (mm_dots i)))) = JsNum (of_int (mm_dots i))"
    using d(1,2) by (simp add: less_jsnum_def)
  ultimately show ?thesis
    unfolding verticalMarginFeed_def ESC_POS_MAX_FEED_DOTS_def Let_def using d by (simp add: char_code_def)
qed

text \<open>A 16-bit parameter is two bytes, and reads back as the number of dots.\<close>

lemma unsigned16:
  assumes "0 \<le> i" "i \<le> 65535"
  shows "escPosUnsigned16 command (JsNum (of_int i)) = command @ [nat i mod 256, nat i div 256]"
proof -
  have "\<lfloor>(of_int i :: rat) + 1 / 2\<rfloor> = i" by linarith
  moreover have "js_min (JsNum 65535) (js_max (JsNum 0) (JsNum (of_int i))) = JsNum (of_int i)"
    using assms by (simp add: less_jsnum_def)
  ultimately show ?thesis
    unfolding escPosUnsigned16_def Let_def by (simp add: char_code_def del: js_min.simps js_max.simps)
qed

definition raw_bytes :: "qz_data \<Rightarrow> bool" where
  "raw_bytes d = (case d of Raw s \<Rightarrow> (\<forall>c \<in> set s. c < 256) | RasterImage _ \<Rightarrow> True)"

lemma profile_schema_margins:
  "profile_schema p \<Longrightarrow> profile_schema (p\<lparr>pp_margin_top_mm := JsNum 0, pp_margin_bottom_mm := JsNum 0\<rparr>)"
  by (simp add: profile_schema_def int_between_def)

text \<open>The raw commands of a ticket are bytes, the paper is reset first and cut last, the image
  stands between the margin feeds, and the print area announced to the printer is the left margin
  and width of the raster, inside the 576 dots of the head, low byte first.\<close>

lemma ticket_commands_bytes:
  assumes "profile_schema p"
  shows "\<exists>l w. l + w \<le> 576 \<and> 1 \<le> w
    \<and> rg_contentLeftDots (ticketRasterGeometry p n) = JsNum (of_nat l)
    \<and> rg_contentWidthDots (ticketRasterGeometry p n) = JsNum (of_nat w)
    \<and> ticket_commands p raster = [Raw [27, 64], Raw [29, 80, 203, 203],
        Raw [29, 76, l mod 256, l div 256], Raw [29, 87, w mod 256, w div 256]]
        @ raw_feed (verticalMarginFeed (pp_margin_top_mm p)) @ [RasterImage raster]
        @ raw_feed (verticalMarginFeed (pp_margin_bottom_mm p)) @ [Raw [29, 86, 0]]
    \<and> list_all raw_bytes (ticket_commands p raster)"
proof -
  let ?p = "p\<lparr>pp_margin_top_mm := JsNum 0, pp_margin_bottom_mm := JsNum 0\<rparr>"
  obtain i w where g: "rg_contentLeftDots (ticketRasterGeometry ?p 1) = JsNum (of_int i)"
    "rg_contentWidthDots (ticketRasterGeometry ?p 1) = JsNum (of_int w)" "0 \<le> i" "1 \<le> w" "i + w \<le> 576"
    using geometry_content [OF profile_schema_margins [OF assms], of 1] by blast
  have same: "rg_contentLeftDots (ticketRasterGeometry p n) = rg_contentLeftDots (ticketRasterGeometry ?p 1)"
    "rg_contentWidthDots (ticketRasterGeometry p n) = rg_contentWidthDots (ticketRasterGeometry ?p 1)"
    by (simp_all add: ticketRasterGeometry_def Let_def)
  obtain t where t: "pp_margin_top_mm p = JsNum (of_int t)" "0 \<le> t" "t \<le> 20"
    using assms by (auto simp: profile_schema_def elim: int_betweenE)
  obtain b where b: "pp_margin_bottom_mm p = JsNum (of_int b)" "0 \<le> b" "b \<le> 20"
    using assms by (auto simp: profile_schema_def elim: int_betweenE)
  have c: "ticket_commands p raster = [Raw [27, 64], Raw [29, 80, 203, 203],
        Raw [29, 76, nat i mod 256, nat i div 256], Raw [29, 87, nat w mod 256, nat w div 256]]
        @ raw_feed (verticalMarginFeed (pp_margin_top_mm p)) @ [RasterImage raster]
        @ raw_feed (verticalMarginFeed (pp_margin_bottom_mm p)) @ [Raw [29, 86, 0]]"
    using g by (simp add: ticket_commands_def Let_def unsigned16)
  have feed: "list_all raw_bytes (raw_feed (verticalMarginFeed (JsNum (of_int k))))"
    if "0 \<le> k" "k \<le> 20" for k
    using that mm_dots_bounds [of k]
    by (auto simp: feed_dots raw_feed_def raw_bytes_def mm_dots_def)
  have "nat i div 256 < 256" "nat w div 256 < 256" using g by auto
  then have "list_all raw_bytes (ticket_commands p raster)"
    unfolding c using feed [OF t(2,3)] feed [OF b(2,3)] by (simp add: t b raw_bytes_def)
  with g c show ?thesis unfolding same
    by (intro exI [of _ "nat i"] exI [of _ "nat w"] conjI) auto
qed

lemma ticket_commands_bytes_witness:
  "\<exists>l w. l + w \<le> 576 \<and> 1 \<le> w
    \<and> rg_contentLeftDots (ticketRasterGeometry sample_profile 1) = JsNum (of_nat l)
    \<and> rg_contentWidthDots (ticketRasterGeometry sample_profile 1) = JsNum (of_nat w)
    \<and> ticket_commands sample_profile [] = [Raw [27, 64], Raw [29, 80, 203, 203],
        Raw [29, 76, l mod 256, l div 256], Raw [29, 87, w mod 256, w div 256]]
        @ raw_feed (verticalMarginFeed (pp_margin_top_mm sample_profile)) @ [RasterImage []]
        @ raw_feed (verticalMarginFeed (pp_margin_bottom_mm sample_profile)) @ [Raw [29, 86, 0]]
    \<and> list_all raw_bytes (ticket_commands sample_profile [])"
  by (rule ticket_commands_bytes [OF sample_profile_schema])

end
