(* ===== verification/Live_Catalog.thy ===== *)
theory Live_Catalog
  imports Settings
begin

text \<open>
  How a till notices changes made in the back office: the notice between tabs of one browser
  (\<open>lib/changeBroadcast.ts\<close>) and the periodic question for the catalogue's fingerprint
  (\<open>pos/useLiveCatalog.ts\<close>).
\<close>

section \<open>The notice between tabs\<close>

text \<open>
  A tab has at most one channel, opened on first use where the browser has \<open>BroadcastChannel\<close>; the
  browser hands a message to every open channel of that name but the sender's. The world maps tabs
  to their module state; a listener is known by a number.
\<close>

record tab =
  tab_supported :: bool
  tab_bus :: bool
  tab_listeners :: "nat list"

definition CHANNEL_NAME :: jsstring where
  "CHANNEL_NAME = js ''openerp-changes''"

definition open_bus :: "tab \<Rightarrow> tab" where
  "open_bus t = (if tab_supported t then t\<lparr>tab_bus := True\<rparr> else t)"

definition broadcastChange :: "nat \<Rightarrow> tab list \<Rightarrow> tab list \<times> (nat \<times> nat) list" where
  "broadcastChange i tabs =
     (let tabs' = tabs[i := open_bus (tabs ! i)] in
      if \<not> tab_supported (tabs ! i) then (tabs', [])
      else (tabs', concat (map (\<lambda>(j, t). if j \<noteq> i \<and> tab_bus t then map (Pair j) (tab_listeners t) else [])
        (enumerate 0 tabs'))))"

definition onChangeBroadcast :: "nat \<Rightarrow> nat \<Rightarrow> tab list \<Rightarrow> tab list" where
  "onChangeBroadcast i listener tabs =
     (let t = open_bus (tabs ! i) in
      tabs[i := if tab_supported t then t\<lparr>tab_listeners := List.insert listener (tab_listeners t)\<rparr> else t])"

definition stopListening :: "nat \<Rightarrow> nat \<Rightarrow> tab list \<Rightarrow> tab list" where
  "stopListening i listener tabs =
     tabs[i := (tabs ! i)\<lparr>tab_listeners := removeAll listener (tab_listeners (tabs ! i))\<rparr>]"

section \<open>The fingerprint\<close>

definition LIVE_KEYS :: "query_key list list" where
  "LIVE_KEYS =
     [[KStr (js ''pos''), KStr (js ''products'')], [KStr (js ''pos''), KStr (js ''categories'')],
      [KStr (js ''images'')], [KStr (js ''settings''), KStr (js ''values'')],
      [KStr (js ''tickets''), KStr (js ''templates'')]]"

definition catalogVersionQuery :: query_options where
  "catalogVersionQuery = \<lparr>q_key = [KStr (js ''pos''), KStr (js ''catalog-version'')],
     q_call = get_call (js ''/catalog-version''), q_enabled = True\<rparr>"

text \<open>Milliseconds between two questions, from the text of the setting.\<close>

definition refresh_interval :: "jsstring \<Rightarrow> jsnum" where
  "refresh_interval setting =
     (let seconds = js_Number setting;
          interval = (if js_is_finite seconds \<and> JsNum 1 \<le> seconds then seconds else JsNum 3)
      in interval * JsNum 1000)"

text \<open>What happens in the till: an answer to the question, and the three reasons to ask at once.\<close>

datatype live_event = VersionAnswer "jsstring option" | OtherTabSaved | BecameVisible bool | WindowFocused

record live_state =
  lv_seen :: "jsstring option"
  lv_refreshed :: "query_key list list list"
  lv_asked :: nat

definition live_init :: live_state where
  "live_init = \<lparr>lv_seen = None, lv_refreshed = [], lv_asked = 0\<rparr>"

definition version_effect :: "jsstring option \<Rightarrow> live_state \<Rightarrow> live_state" where
  "version_effect version s =
     (case version of
        None \<Rightarrow> s
      | Some v \<Rightarrow>
          (case lv_seen s of
             None \<Rightarrow> s\<lparr>lv_seen := Some v\<rparr>
           | Some seen \<Rightarrow>
               if seen = v then s
               else s\<lparr>lv_seen := Some v, lv_refreshed := lv_refreshed s @ [LIVE_KEYS]\<rparr>))"

definition live_check :: "live_state \<Rightarrow> live_state" where
  "live_check s = s\<lparr>lv_asked := Suc (lv_asked s)\<rparr>"

fun live_step :: "live_state \<Rightarrow> live_event \<Rightarrow> live_state" where
  "live_step s (VersionAnswer v) = version_effect v s"
| "live_step s OtherTabSaved = live_check s"
| "live_step s (BecameVisible visible) = (if visible then live_check s else s)"
| "live_step s WindowFocused = live_check s"

section \<open>Lemmas\<close>

lemma broadcast_call_iff:
  "(j, l) \<in> set (snd (broadcastChange i tabs)) \<longleftrightarrow>
     tab_supported (tabs ! i) \<and> j < length tabs \<and> j \<noteq> i \<and> tab_bus (tabs ! j)
       \<and> l \<in> set (tab_listeners (tabs ! j))"
  by (auto simp: broadcastChange_def Let_def in_set_enumerate_eq nth_list_update)
    (intro bexI [of _ "(j, tabs ! j)"], auto simp: in_set_enumerate_eq nth_list_update)

text \<open>Saving in one tab makes every other tab that listens ask again, and never the tab itself.\<close>

lemma broadcast_reaches_others:
  assumes "tab_supported (tabs ! i)" and "tab_supported (tabs ! j)" and "j < length tabs" and "j \<noteq> i"
  shows "(j, l) \<in> set (snd (broadcastChange i (onChangeBroadcast j l tabs)))
    \<and> (i, k) \<notin> set (snd (broadcastChange i (onChangeBroadcast j l tabs)))"
  using assms by (simp add: broadcast_call_iff onChangeBroadcast_def Let_def open_bus_def)

definition two_tabs :: "tab list" where
  "two_tabs = replicate 2 \<lparr>tab_supported = True, tab_bus = False, tab_listeners = []\<rparr>"

lemma broadcast_reaches_others_witness:
  "(1, 7) \<in> set (snd (broadcastChange 0 (onChangeBroadcast 1 7 two_tabs)))
    \<and> (0, 7) \<notin> set (snd (broadcastChange 0 (onChangeBroadcast 1 7 two_tabs)))"
  by (rule broadcast_reaches_others) (simp_all add: two_tabs_def)

text \<open>The fingerprints the till has been told, in order.\<close>

fun versions :: "live_event list \<Rightarrow> jsstring list" where
  "versions [] = []"
| "versions (VersionAnswer (Some v) # es) = v # versions es"
| "versions (_ # es) = versions es"

lemma live_run_seen:
  "lv_seen s = Some v \<Longrightarrow>
   lv_refreshed (foldl live_step s es) = lv_refreshed s @ replicate (length (remdups_adj (v # versions es)) - 1) LIVE_KEYS"
proof (induction es arbitrary: s v rule: versions.induct)
  case (2 u es)
  show ?case
  proof (cases "u = v")
    case True
    with 2 show ?thesis by (simp add: version_effect_def)
  next
    case False
    let ?s = "s\<lparr>lv_seen := Some u, lv_refreshed := lv_refreshed s @ [LIVE_KEYS]\<rparr>"
    have "lv_refreshed (foldl live_step ?s es)
        = lv_refreshed ?s @ replicate (length (remdups_adj (u # versions es)) - 1) LIVE_KEYS"
      by (rule "2.IH") simp
    moreover obtain n where "length (remdups_adj (u # versions es)) = Suc n"
      by (cases "length (remdups_adj (u # versions es))") auto
    ultimately show ?thesis using 2 False by (simp add: version_effect_def)
  qed
qed (simp_all add: version_effect_def live_check_def)

text \<open>C18: The till reloads what it shows exactly once per change of the fingerprint: as many times as
  the sequence of answers changes value, however often it asks and whatever makes it ask.\<close>

theorem refresh_once_per_change:
  "lv_refreshed (foldl live_step live_init es) = replicate (length (remdups_adj (versions es)) - 1) LIVE_KEYS"
proof -
  have "lv_seen s = None \<Longrightarrow> lv_refreshed s = [] \<Longrightarrow>
      lv_refreshed (foldl live_step s es) = replicate (length (remdups_adj (versions es)) - 1) LIVE_KEYS" for s
  proof (induction es arbitrary: s rule: versions.induct)
    case (2 u es)
    then show ?case using live_run_seen [of "version_effect (Some u) s" u es]
      by (simp add: version_effect_def)
  qed (simp_all add: version_effect_def live_check_def)
  then show ?thesis by (simp add: live_init_def)
qed

text \<open>The interval is never below a second and never undefined.\<close>

lemma refresh_interval_default: "refresh_interval (js ''cada rato'') = JsNum 3000"
  by code_simp

end
