(* ===== verification/Print_Surface.thy ===== *)
theory Print_Surface
  imports Qz_Printer Z_Report
begin

text \<open>
  The screens around a printed document: the print overlay (\<open>tickets/TicketPrintSurface.tsx\<close>), the
  receipt shown after a checkout (\<open>pos/Receipt.tsx\<close>) and the two reprint buttons
  (\<open>tickets/TicketReprintButton.tsx\<close>, \<open>pos/ZReportReprintButton.tsx\<close>). Each is an event machine:
  its state, what can happen to it, and the calls it has made.
\<close>

section \<open>The print overlay\<close>

datatype surface_status = SLoading | SPrinting | SOpeningDrawer | SError

datatype surface_op = PrintOp | DrawerOp

text \<open>
  \<open>sf_flight\<close> is the operation being awaited, with the configuration the run was started with;
  \<open>sf_finished\<close> counts the calls of \<open>onPrinted\<close>.
\<close>

record surface =
  sf_config :: "qz_print_config option"
  sf_status :: surface_status
  sf_error :: "jsstring option"
  sf_started :: bool
  sf_ticketSent :: bool
  sf_flight :: "(surface_op \<times> qz_print_config) option"
  sf_calls :: "(surface_op \<times> qz_print_config) list"
  sf_finished :: nat

definition surface_init :: surface where
  "surface_init = \<lparr>sf_config = None, sf_status = SLoading, sf_error = None, sf_started = False,
     sf_ticketSent = False, sf_flight = None, sf_calls = [], sf_finished = 0\<rparr>"

definition surface_call :: "surface_op \<Rightarrow> qz_print_config \<Rightarrow> surface \<Rightarrow> surface" where
  "surface_call op c s = s\<lparr>sf_flight := Some (op, c), sf_calls := sf_calls s @ [(op, c)]\<rparr>"

text \<open>The part of \<open>printWithQz\<close> after the ticket, for a surface that opens the drawer or not.\<close>

definition after_ticket :: "bool \<Rightarrow> qz_print_config \<Rightarrow> surface \<Rightarrow> surface" where
  "after_ticket drawer c s =
     (if drawer then surface_call DrawerOp c (s\<lparr>sf_status := SOpeningDrawer\<rparr>)
      else s\<lparr>sf_flight := None, sf_finished := Suc (sf_finished s)\<rparr>)"

definition printWithQz :: "bool \<Rightarrow> surface \<Rightarrow> surface" where
  "printWithQz drawer s =
     (case sf_config s of
        None \<Rightarrow> s
      | Some c \<Rightarrow>
          (let s1 = s\<lparr>sf_status := SPrinting, sf_error := None\<rparr> in
           if \<not> sf_ticketSent s then surface_call PrintOp c s1 else after_ticket drawer c s1))"

definition surface_effect :: "bool \<Rightarrow> surface \<Rightarrow> surface" where
  "surface_effect drawer s =
     (if sf_config s = None \<or> sf_started s then s else printWithQz drawer (s\<lparr>sf_started := True\<rparr>))"

datatype surface_event = ConfigIs "qz_print_config option" | Settled "jsstring + unit" | RetryPressed

fun surface_step :: "bool \<Rightarrow> surface \<Rightarrow> surface_event \<Rightarrow> surface" where
  "surface_step drawer s (ConfigIs c) = surface_effect drawer (s\<lparr>sf_config := c\<rparr>)"
| "surface_step drawer s (Settled (Inl e)) = s\<lparr>sf_flight := None, sf_status := SError, sf_error := Some e\<rparr>"
| "surface_step drawer s (Settled (Inr u)) =
     (case sf_flight s of
        Some (PrintOp, c) \<Rightarrow> after_ticket drawer c (s\<lparr>sf_ticketSent := True\<rparr>)
      | Some (DrawerOp, c) \<Rightarrow> s\<lparr>sf_flight := None, sf_finished := Suc (sf_finished s)\<rparr>
      | None \<Rightarrow> s)"
| "surface_step drawer s RetryPressed = printWithQz drawer s"

fun surface_enabled :: "surface \<Rightarrow> surface_event \<Rightarrow> bool" where
  "surface_enabled s (ConfigIs c) = True"
| "surface_enabled s (Settled r) = (sf_flight s \<noteq> None)"
| "surface_enabled s RetryPressed = (sf_status s = SError)"

definition retry_label :: "surface \<Rightarrow> jsstring" where
  "retry_label s = (if sf_ticketSent s then js ''Reintentar abrir el caj'' @ [243] @ js ''n''
     else js ''Reintentar con QZ Tray'')"

section \<open>The receipt\<close>

text \<open>
  Requests for the ticket are numbered; the hook follows the last one. The ticket, once there, shows
  the overlay instead of the receipt. \<open>rc_dismissed\<close> counts the calls of \<open>onDismiss\<close>.
\<close>

record receipt =
  rc_ticket :: "ticket option"
  rc_drawerError :: "jsstring option"
  rc_flag :: "bool option"
  rc_qz :: "qz_print_config option"
  rc_printed :: bool
  rc_drawerAttempted :: bool
  rc_flights :: "nat list"
  rc_next :: nat
  rc_error :: "failure option"
  rc_requests :: "api_call list"
  rc_drawerFlights :: nat
  rc_drawerCalls :: "qz_print_config list"
  rc_dismissed :: nat

definition receipt_init :: receipt where
  "receipt_init = \<lparr>rc_ticket = None, rc_drawerError = None, rc_flag = None, rc_qz = None,
     rc_printed = False, rc_drawerAttempted = False, rc_flights = [], rc_next = 0, rc_error = None,
     rc_requests = [], rc_drawerFlights = 0, rc_drawerCalls = [], rc_dismissed = 0\<rparr>"

definition isCashSale :: "sale \<Rightarrow> bool" where
  "isCashSale sale \<longleftrightarrow> (\<exists>p \<in> set (sa_payments sale). pay_method p = CASH)"

definition receipt_isPending :: "receipt \<Rightarrow> bool" where
  "receipt_isPending s \<longleftrightarrow> 0 < rc_next s \<and> rc_next s - 1 \<in> set (rc_flights s)"

definition receipt_print :: "sale \<Rightarrow> receipt \<Rightarrow> receipt" where
  "receipt_print sale s =
     s\<lparr>rc_flights := rc_flights s @ [rc_next s], rc_next := Suc (rc_next s), rc_error := None,
       rc_requests := rc_requests s @ [generateTicket (sa_id sale)]\<rparr>"

definition openDrawer :: "receipt \<Rightarrow> receipt" where
  "openDrawer s =
     (case rc_qz s of
        None \<Rightarrow> s
      | Some c \<Rightarrow> s\<lparr>rc_drawerAttempted := True, rc_drawerError := None,
          rc_drawerFlights := Suc (rc_drawerFlights s), rc_drawerCalls := rc_drawerCalls s @ [c]\<rparr>)"

definition drawer_effect :: "sale \<Rightarrow> receipt \<Rightarrow> receipt" where
  "drawer_effect sale s =
     (if \<not> isCashSale sale \<or> rc_qz s = None \<or> rc_drawerAttempted s then s else openDrawer s)"

definition print_effect :: "sale \<Rightarrow> receipt \<Rightarrow> receipt" where
  "print_effect sale s =
     (if rc_flag s \<noteq> Some True \<or> rc_printed s then s else receipt_print sale (s\<lparr>rc_printed := True\<rparr>))"

datatype receipt_event =
    SettingsAre bool qz_print_config
  | TicketAnswer nat "failure + ticket"
  | DrawerAnswer "jsstring + unit"
  | PressPrintTicket
  | PressRetryDrawer
  | PressNewSale
  | SurfacePrinted
  | SurfaceDismissed

fun receipt_step :: "sale \<Rightarrow> receipt \<Rightarrow> receipt_event \<Rightarrow> receipt" where
  "receipt_step sale s (SettingsAre flag c) =
     print_effect sale (drawer_effect sale (s\<lparr>rc_flag := Some flag, rc_qz := Some c\<rparr>))"
| "receipt_step sale s (TicketAnswer i (Inr t)) =
     s\<lparr>rc_flights := removeAll i (rc_flights s), rc_ticket := Some t\<rparr>"
| "receipt_step sale s (TicketAnswer i (Inl e)) =
     s\<lparr>rc_flights := removeAll i (rc_flights s),
       rc_error := (if Suc i = rc_next s then Some e else rc_error s)\<rparr>"
| "receipt_step sale s (DrawerAnswer r) =
     s\<lparr>rc_drawerFlights := rc_drawerFlights s - 1,
       rc_drawerError := (case r of Inl e \<Rightarrow> Some e | Inr u \<Rightarrow> rc_drawerError s)\<rparr>"
| "receipt_step sale s PressPrintTicket = receipt_print sale s"
| "receipt_step sale s PressRetryDrawer = openDrawer (s\<lparr>rc_drawerAttempted := False\<rparr>)"
| "receipt_step sale s PressNewSale = s\<lparr>rc_dismissed := Suc (rc_dismissed s)\<rparr>"
| "receipt_step sale s SurfacePrinted =
     s\<lparr>rc_ticket := None,
       rc_dismissed := (if rc_flag s = Some True then Suc (rc_dismissed s) else rc_dismissed s)\<rparr>"
| "receipt_step sale s SurfaceDismissed = s\<lparr>rc_ticket := None\<rparr>"

fun receipt_enabled :: "receipt \<Rightarrow> receipt_event \<Rightarrow> bool" where
  "receipt_enabled s (SettingsAre flag c) = True"
| "receipt_enabled s (TicketAnswer i r) = (i \<in> set (rc_flights s))"
| "receipt_enabled s (DrawerAnswer r) = (0 < rc_drawerFlights s)"
| "receipt_enabled s PressPrintTicket = (rc_ticket s = None \<and> \<not> receipt_isPending s)"
| "receipt_enabled s PressRetryDrawer = (rc_ticket s = None \<and> rc_drawerError s \<noteq> None)"
| "receipt_enabled s PressNewSale = (rc_ticket s = None)"
| "receipt_enabled s SurfacePrinted = (rc_ticket s \<noteq> None)"
| "receipt_enabled s SurfaceDismissed = (rc_ticket s \<noteq> None)"

text \<open>What the receipt says: how each payment is named, the change, and the errors.\<close>

definition payment_caption :: "payment \<Rightarrow> jsstring \<times> jsstring" where
  "payment_caption p = (if pay_method p = CASH then js ''Efectivo'' else js ''Tarjeta'', formatMoney (pay_amount p))"

definition change_caption :: "sale \<Rightarrow> jsstring option" where
  "change_caption sale = (if JsNum 0 < js_Number (sa_change_due sale) then Some (formatMoney (sa_change_due sale)) else None)"

definition receipt_error :: "failure \<Rightarrow> jsstring" where
  "receipt_error e = (case e of ApiFailure a \<Rightarrow> ae_message a
     | OtherFailure m \<Rightarrow> js ''No se ha podido generar el ticket.'')"

definition ticket_profile :: "ticket \<Rightarrow> print_profile" where
  "ticket_profile t =
     \<lparr>pp_printable_width_mm = tk_printable_width_mm t, pp_margin_left_mm = tk_margin_left_mm t,
      pp_margin_right_mm = tk_margin_right_mm t, pp_font_family = tk_font_family t,
      pp_font_size_px = tk_font_size_px t, pp_line_height_px = tk_line_height_px t,
      pp_font_weight = tk_font_weight t, pp_margin_top_mm = tk_margin_top_mm t,
      pp_margin_bottom_mm = tk_margin_bottom_mm t\<rparr>"

text \<open>The overlay of the receipt prints the frozen text of the ticket with its own profile.\<close>

definition receipt_overlay :: "receipt \<Rightarrow> (jsstring \<times> print_profile) option" where
  "receipt_overlay s = map_option (\<lambda>t. (tk_rendered_text t, ticket_profile t)) (rc_ticket s)"

section \<open>Reprint buttons\<close>

record reprint =
  rp_ticket :: "ticket option"
  rp_pending :: bool
  rp_error :: "failure option"
  rp_requests :: "api_call list"

datatype reprint_event = PressReprint | ReprintAnswer "failure + ticket" | ReprintDismissed

fun reprint_step :: "int \<Rightarrow> reprint \<Rightarrow> reprint_event \<Rightarrow> reprint" where
  "reprint_step saleId s PressReprint =
     s\<lparr>rp_pending := True, rp_error := None, rp_requests := rp_requests s @ [generateTicket saleId]\<rparr>"
| "reprint_step saleId s (ReprintAnswer (Inr t)) = s\<lparr>rp_pending := False, rp_ticket := Some t\<rparr>"
| "reprint_step saleId s (ReprintAnswer (Inl e)) = s\<lparr>rp_pending := False, rp_error := Some e\<rparr>"
| "reprint_step saleId s ReprintDismissed = s\<lparr>rp_ticket := None\<rparr>"

fun reprint_enabled :: "reprint \<Rightarrow> reprint_event \<Rightarrow> bool" where
  "reprint_enabled s PressReprint = (rp_ticket s = None \<and> \<not> rp_pending s)"
| "reprint_enabled s (ReprintAnswer r) = rp_pending s"
| "reprint_enabled s ReprintDismissed = (rp_ticket s \<noteq> None)"

definition z_reprint_text :: "z_report \<Rightarrow> jsstring \<Rightarrow> print_profile option \<Rightarrow> jsstring option" where
  "z_reprint_text report closedAtLabel profile =
     map_option (\<lambda>p. renderZReportTicket report closedAtLabel p True) profile"

text \<open>The overlay of a reprinted Z: shown once the button was pressed with a profile at hand.\<close>

definition z_reprint_overlay ::
  "z_report \<Rightarrow> jsstring \<Rightarrow> print_profile option \<Rightarrow> bool \<Rightarrow> (jsstring \<times> print_profile) option" where
  "z_reprint_overlay report closedAtLabel profile isPrintActive =
     (case profile of
        Some p \<Rightarrow> if isPrintActive then Some (renderZReportTicket report closedAtLabel p True, p) else None
      | None \<Rightarrow> None)"

section \<open>Lemmas\<close>

definition print_calls :: "surface \<Rightarrow> (surface_op \<times> qz_print_config) list" where
  "print_calls s = filter (\<lambda>(o', c). o' = PrintOp) (sf_calls s)"

definition surface_ok :: "bool \<Rightarrow> surface \<Rightarrow> bool" where
  "surface_ok drawer s \<longleftrightarrow>
     (\<forall>c. (DrawerOp, c) \<in> set (sf_calls s) \<longrightarrow> drawer \<and> sf_ticketSent s)
     \<and> (\<forall>f. sf_flight s = Some f \<longrightarrow> f \<in> set (sf_calls s))
     \<and> (0 < sf_finished s \<longrightarrow> sf_ticketSent s)"

lemma after_ticket_ok:
  assumes "surface_ok drawer s" "sf_ticketSent s"
  shows "surface_ok drawer (after_ticket drawer c s)"
  using assms by (auto simp: surface_ok_def after_ticket_def surface_call_def)

lemma printWithQz_ok:
  assumes "surface_ok drawer s"
  shows "surface_ok drawer (printWithQz drawer s)"
proof (cases "sf_config s")
  case (Some c)
  let ?s = "s\<lparr>sf_status := SPrinting, sf_error := None\<rparr>"
  have ok: "surface_ok drawer ?s" using assms by (simp add: surface_ok_def)
  show ?thesis
  proof (cases "sf_ticketSent s")
    case True
    with ok have "surface_ok drawer (after_ticket drawer c ?s)" by (intro after_ticket_ok) auto
    with True Some show ?thesis by (simp add: printWithQz_def)
  next
    case False
    with ok Some show ?thesis by (auto simp: printWithQz_def surface_ok_def surface_call_def)
  qed
qed (simp add: printWithQz_def assms)

lemma surface_step_ok:
  assumes "surface_ok drawer s" "surface_enabled s e"
  shows "surface_ok drawer (surface_step drawer s e)"
  using assms
proof (cases "(drawer, s, e)" rule: surface_step.cases)
  case (1 drawer' s' c)
  then have "surface_ok drawer (s\<lparr>sf_config := c, sf_started := True\<rparr>)"
    "surface_ok drawer (s\<lparr>sf_config := c\<rparr>)" using assms by (simp_all add: surface_ok_def)
  with 1 show ?thesis using printWithQz_ok by (simp add: surface_effect_def)
next
  case (2 drawer' s' x)
  then show ?thesis using assms by (simp add: surface_ok_def)
next
  case (3 drawer' s' u)
  from assms(2) 3 obtain op c where f: "sf_flight s = Some (op, c)" by auto
  show ?thesis
  proof (cases op)
    case PrintOp
    have "surface_ok drawer (s\<lparr>sf_ticketSent := True\<rparr>)" using assms(1) by (simp add: surface_ok_def)
    with 3 f PrintOp show ?thesis using after_ticket_ok by simp
  next
    case DrawerOp
    with f assms(1) have "sf_ticketSent s" by (auto simp: surface_ok_def)
    with 3 f DrawerOp assms(1) show ?thesis by (simp add: surface_ok_def)
  qed
qed (use printWithQz_ok in simp)

interpretation print_overlay: event_machine surface_enabled "surface_step drawer" surface_init "surface_ok drawer"
  for drawer
proof unfold_locales
  show "surface_ok drawer surface_init" by (simp add: surface_ok_def surface_init_def)
qed (rule surface_step_ok)

lemma after_ticket_prints: "print_calls (after_ticket drawer c s) = print_calls s"
  by (simp add: print_calls_def after_ticket_def surface_call_def)

lemma sent_no_print:
  assumes "sf_ticketSent s"
  shows "sf_ticketSent (surface_step drawer s e) \<and> print_calls (surface_step drawer s e) = print_calls s"
proof -
  have sent: "sf_ticketSent (after_ticket drawer c t) = sf_ticketSent t" for c t
    by (simp add: after_ticket_def surface_call_def)
  have run: "sf_ticketSent (printWithQz drawer t) \<and> print_calls (printWithQz drawer t) = print_calls t"
    if "sf_ticketSent t" for t
    using that sent after_ticket_prints
    by (cases "sf_config t") (simp_all add: printWithQz_def Let_def print_calls_def)
  show ?thesis
  proof (cases "(drawer, s, e)" rule: surface_step.cases)
    case (1 drawer' s' c)
    then show ?thesis
      using assms run [of "s\<lparr>sf_config := c, sf_started := True\<rparr>"]
      by (simp add: surface_effect_def print_calls_def)
  next
    case (3 drawer' s' u)
    then show ?thesis
      using assms sent after_ticket_prints
      by (auto simp: print_calls_def split: option.splits surface_op.splits)
  qed (use assms run in \<open>simp_all add: print_calls_def\<close>)
qed

lemma sent_no_print_run:
  "sf_ticketSent s \<Longrightarrow> print_calls (foldl (surface_step drawer) s es) = print_calls s"
  by (induction es arbitrary: s) (simp_all add: sent_no_print)

text \<open>C20: Once the printer has taken the ticket, the overlay never sends it again, whatever is retried;
  the drawer is only asked to open for a document that asks for it and after its ticket was taken,
  and the document only counts as printed then.\<close>

theorem ticket_sent_once:
  assumes "run_ok surface_enabled (surface_step drawer) surface_init es"
    and "s = foldl (surface_step drawer) surface_init es"
  shows "(sf_ticketSent s \<longrightarrow> print_calls (foldl (surface_step drawer) s later) = print_calls s)
    \<and> ((DrawerOp, c) \<in> set (sf_calls s) \<longrightarrow> drawer \<and> sf_ticketSent s)
    \<and> (0 < sf_finished s \<longrightarrow> sf_ticketSent s)"
  using sent_no_print_run [of s drawer later]
    print_overlay.inv_reached [OF reached_run [OF assms(1)]] assms(2)
  by (auto simp: surface_ok_def)

text \<open>The ticket goes out, the drawer fails, the person retries: one ticket, two drawer pulses.\<close>

definition drawer_fails :: "surface_event list" where
  "drawer_fails = [ConfigIs (Some DEFAULT_QZ_PRINT_CONFIG), Settled (Inr ()), Settled (Inl (js ''cerrado'')),
     RetryPressed, Settled (Inr ())]"

lemma ticket_sent_once_witness:
  "(let s = foldl (surface_step True) surface_init drawer_fails in
    sf_ticketSent s \<and> sf_finished s = 1 \<and> length (print_calls s) = 1 \<and> length (sf_calls s) = 3
    \<and> print_calls (foldl (surface_step True) s [RetryPressed]) = print_calls s)"
proof -
  let ?s = "foldl (surface_step True) surface_init drawer_fails"
  have "run_ok surface_enabled (surface_step True) surface_init drawer_fails" by code_simp
  from ticket_sent_once [OF this refl, of "[RetryPressed]"]
  have "sf_ticketSent ?s \<longrightarrow> print_calls (foldl (surface_step True) ?s [RetryPressed]) = print_calls ?s" by simp
  moreover have "sf_ticketSent ?s \<and> sf_finished ?s = 1 \<and> length (print_calls ?s) = 1 \<and> length (sf_calls ?s) = 3"
    by code_simp
  ultimately show ?thesis by (simp add: Let_def)
qed

section \<open>The receipt prints once\<close>

definition settings_known :: "receipt_event list \<Rightarrow> bool" where
  "settings_known es \<longleftrightarrow> (\<exists>f c. SettingsAre f c \<in> set es)"

definition auto_print :: "receipt_event list \<Rightarrow> bool" where
  "auto_print es \<longleftrightarrow> (\<exists>c. SettingsAre True c \<in> set es)"

definition receipt_ok :: "sale \<Rightarrow> receipt_event list \<Rightarrow> receipt \<Rightarrow> bool" where
  "receipt_ok sale es s \<longleftrightarrow>
     (rc_qz s \<noteq> None \<longleftrightarrow> settings_known es)
     \<and> (0 < rc_drawerFlights s \<or> rc_drawerError s \<noteq> None \<longrightarrow> rc_qz s \<noteq> None)
     \<and> (isCashSale sale \<and> settings_known es \<longrightarrow> rc_drawerAttempted s)
     \<and> (rc_drawerAttempted s \<longrightarrow> settings_known es)
     \<and> (rc_printed s \<longleftrightarrow> auto_print es)
     \<and> set (rc_requests s) \<subseteq> {generateTicket (sa_id sale)}
     \<and> length (rc_requests s) = count_list es PressPrintTicket + (if auto_print es then 1 else 0)
     \<and> length (rc_drawerCalls s) = count_list es PressRetryDrawer
         + (if isCashSale sale \<and> settings_known es then 1 else 0)"

lemma known_snoc [simp]:
  "settings_known (es @ [e]) \<longleftrightarrow> settings_known es \<or> (\<exists>f c. e = SettingsAre f c)"
  "auto_print (es @ [e]) \<longleftrightarrow> auto_print es \<or> (\<exists>c. e = SettingsAre True c)"
  "count_list (es @ [e]) x = count_list es x + (if e = x then 1 else 0)"
  by (auto simp: settings_known_def auto_print_def)

lemma receipt_step_ok:
  assumes "receipt_ok sale es s" "receipt_enabled s e"
  shows "receipt_ok sale (es @ [e]) (receipt_step sale s e)"
proof (cases e)
  case (SettingsAre flag c)
  have "receipt_ok sale es s \<Longrightarrow> ?thesis"
    by (cases "isCashSale sale"; cases "rc_drawerAttempted s"; cases "rc_printed s"; cases flag)
      (auto simp: SettingsAre receipt_ok_def print_effect_def drawer_effect_def openDrawer_def receipt_print_def)
  with assms(1) show ?thesis by blast
next
  case (TicketAnswer i r)
  then show ?thesis using assms by (cases r) (auto simp: receipt_ok_def)
next
  case (DrawerAnswer r)
  then show ?thesis using assms by (cases r) (auto simp: receipt_ok_def)
next
  case PressRetryDrawer
  then show ?thesis using assms by (auto simp: receipt_ok_def openDrawer_def split: option.splits)
qed (use assms in \<open>auto simp: receipt_ok_def receipt_print_def\<close>)

lemma receipt_run_ok:
  "run_ok receipt_enabled (receipt_step sale) receipt_init es \<Longrightarrow>
   receipt_ok sale es (foldl (receipt_step sale) receipt_init es)"
proof (induction es rule: rev_induct)
  case Nil
  show ?case by (simp add: receipt_ok_def receipt_init_def settings_known_def auto_print_def)
next
  case (snoc e es)
  then show ?case by (simp add: run_ok_snoc receipt_step_ok)
qed

text \<open>After a checkout the ticket is asked for exactly once by itself when the shop wants it, once
  more for every press of the button and never otherwise, always for the sale charged; and the
  drawer is opened exactly once by itself for a sale paid in cash, once more for every retry.\<close>

lemma receipt_prints_once:
  assumes "run_ok receipt_enabled (receipt_step sale) receipt_init es"
    and "s = foldl (receipt_step sale) receipt_init es"
  shows "length (rc_requests s) = count_list es PressPrintTicket + (if auto_print es then 1 else 0)
    \<and> set (rc_requests s) \<subseteq> {generateTicket (sa_id sale)}
    \<and> length (rc_drawerCalls s) = count_list es PressRetryDrawer
        + (if isCashSale sale \<and> settings_known es then 1 else 0)"
  using receipt_run_ok [OF assms(1)] assms(2) by (simp add: receipt_ok_def)

definition cash_sale :: sale where
  "cash_sale = \<lparr>sa_id = 5, sa_number = Some 9, sa_warehouse_id = 1, sa_location_id = 1,
     sa_terminal_id = None, sa_terminal_name = None, sa_status = COMPLETED, sa_notes = [],
     sa_prices_include_tax = None, sa_cashier_name = None, sa_completed_at = None, sa_created_at = [],
     sa_lines = [], sa_total = js ''3.50'', sa_payments = [\<lparr>pay_id = 1, pay_method = CASH,
       pay_amount = js ''5.00'', pay_created_at = []\<rparr>], sa_change_due = js ''1.50''\<rparr>"

definition receipt_day :: "receipt_event list" where
  "receipt_day = [SettingsAre True DEFAULT_QZ_PRINT_CONFIG, DrawerAnswer (Inl (js ''cerrado'')),
     SettingsAre True DEFAULT_QZ_PRINT_CONFIG, TicketAnswer 0 (Inl (OtherFailure [])),
     PressRetryDrawer, PressPrintTicket]"

lemma receipt_prints_once_witness:
  "length (rc_requests (foldl (receipt_step cash_sale) receipt_init receipt_day)) = 2
   \<and> length (rc_drawerCalls (foldl (receipt_step cash_sale) receipt_init receipt_day)) = 2"
proof -
  have "run_ok receipt_enabled (receipt_step cash_sale) receipt_init receipt_day" by code_simp
  from receipt_prints_once [OF this refl] show ?thesis
    by (auto simp: receipt_day_def auto_print_def settings_known_def isCashSale_def cash_sale_def)
qed

end
