(* ===== verification/Close_Till.thy ===== *)
theory Close_Till
  imports Print_Surface
begin

text \<open>
  The dialog that shows the X summary and emits the Z closing (\<open>pos/CloseTillDialog.tsx\<close>), as an
  event machine: answers of the server, presses of its buttons, and the overlay that prints the
  document it shows.
\<close>

section \<open>The dialog\<close>

datatype till_mode = ModeX | ModeZ

record close_env =
  ce_warehouse :: "int option"
  ce_mode :: till_mode
  ce_uuid :: "nat \<Rightarrow> jsstring"
  ce_zone :: jsstring
  ce_dates :: date_time_format

record close_till =
  ct_preview_pending :: bool
  ct_preview :: "x_report_preview option"
  ct_profile :: "print_profile option"
  ct_profile_failed :: bool
  ct_closed :: "z_report option"
  ct_printActive :: bool
  ct_error :: "jsstring option"
  ct_attempt :: "jsstring option"
  ct_uuids :: nat
  ct_flight :: "jsstring option"
  ct_sent :: "api_call list"
  ct_open :: bool

definition close_init :: close_till where
  "close_init = \<lparr>ct_preview_pending = True, ct_preview = None, ct_profile = None,
     ct_profile_failed = False, ct_closed = None, ct_printActive = False, ct_error = None,
     ct_attempt = None, ct_uuids = 0, ct_flight = None, ct_sent = [], ct_open = True\<rparr>"

definition finalReport :: "close_till \<Rightarrow> z_report option" where
  "finalReport s = Option.bind (ct_preview s) x_final_report"

definition till_report :: "close_till \<Rightarrow> z_report option" where
  "till_report s = (case ct_closed s of Some z \<Rightarrow> Some z | None \<Rightarrow> finalReport s)"

definition till_openSales :: "close_till \<Rightarrow> open_sale_row list" where
  "till_openSales s = (case ct_preview s of Some x \<Rightarrow> x_open_sales x | None \<Rightarrow> [])"

definition canFinalize :: "close_till \<Rightarrow> bool" where
  "canFinalize s \<longleftrightarrow> till_report s = None \<and> till_openSales s = []"

text \<open>The document on screen: the live X, or the Z as emitted or as found already emitted.\<close>

definition documentText :: "close_env \<Rightarrow> close_till \<Rightarrow> jsstring option" where
  "documentText env s =
     (case ct_profile s of
        None \<Rightarrow> None
      | Some p \<Rightarrow>
          (case ce_mode env of
             ModeX \<Rightarrow> map_option (\<lambda>x. renderXReportTicket x
               (formatBusinessDateTime (ce_dates env) (x_generated_at x) (ce_zone env)) p) (ct_preview s)
           | ModeZ \<Rightarrow> map_option (\<lambda>z. renderZReportTicket z
               (formatBusinessDateTime (ce_dates env) (z_closed_at z) (ce_zone env)) p
               (finalReport s \<noteq> None \<and> ct_closed s = None)) (till_report s)))"

definition till_title :: "close_env \<Rightarrow> close_till \<Rightarrow> jsstring" where
  "till_title env s =
     (case ce_mode env of
        ModeX \<Rightarrow> js ''Resumen X de caja''
      | ModeZ \<Rightarrow> (case till_report s of
            Some z \<Rightarrow> js ''Cierre Z definitivo n'' @ [186, cu_space] @ int_string (z_number z)
          | None \<Rightarrow> js ''Cerrar jornada (Z definitiva)''))"

text \<open>The figures shown: those of the Z once there is one, else those of the X.\<close>

definition till_totals :: "close_env \<Rightarrow> close_till \<Rightarrow> report_totals option" where
  "till_totals env s =
     (case (ce_mode env, till_report s) of
        (ModeZ, Some z) \<Rightarrow> Some (z_totals z)
      | _ \<Rightarrow> map_option x_totals (ct_preview s))"

definition printCurrent :: "close_env \<Rightarrow> close_till \<Rightarrow> close_till" where
  "printCurrent env s = (if documentText env s \<noteq> None then s\<lparr>ct_printActive := True\<rparr> else s)"

definition finalize :: "close_env \<Rightarrow> close_till \<Rightarrow> close_till" where
  "finalize env s =
     (let (key, uuids) = (case ct_attempt s of
            Some k \<Rightarrow> (k, ct_uuids s)
          | None \<Rightarrow> (ce_uuid env (ct_uuids s), Suc (ct_uuids s)))
      in s\<lparr>ct_attempt := Some key, ct_uuids := uuids, ct_flight := Some key,
           ct_sent := ct_sent s @ (case ce_warehouse env of
             Some w \<Rightarrow> [closeZReport w key] | None \<Rightarrow> [])\<rparr>)"

definition close_error :: "failure \<Rightarrow> jsstring" where
  "close_error e = (case e of ApiFailure a \<Rightarrow> ae_message a
     | OtherFailure m \<Rightarrow> js ''No se ha podido emitir la Z definitiva.'')"

datatype close_event =
    PreviewIs x_report_preview
  | PreviewFails
  | ProfileIs print_profile
  | ProfileFails
  | PressFinalize
  | CloseAnswer "failure + z_report"
  | PressPrint
  | PressCancel
  | PressBack
  | PrintDismissed

fun close_step :: "close_env \<Rightarrow> close_till \<Rightarrow> close_event \<Rightarrow> close_till" where
  "close_step env s (PreviewIs x) = s\<lparr>ct_preview_pending := False, ct_preview := Some x\<rparr>"
| "close_step env s PreviewFails = s\<lparr>ct_preview_pending := False\<rparr>"
| "close_step env s (ProfileIs p) = s\<lparr>ct_profile := Some p, ct_profile_failed := False\<rparr>"
| "close_step env s ProfileFails = s\<lparr>ct_profile_failed := True\<rparr>"
| "close_step env s PressFinalize = finalize env s"
| "close_step env s (CloseAnswer (Inr z)) =
     s\<lparr>ct_flight := None, ct_attempt := None, ct_printActive := True, ct_closed := Some z, ct_error := None\<rparr>"
| "close_step env s (CloseAnswer (Inl e)) = s\<lparr>ct_flight := None, ct_error := Some (close_error e)\<rparr>"
| "close_step env s PressPrint = printCurrent env s"
| "close_step env s PressCancel =
     s\<lparr>ct_attempt := (if ce_mode env = ModeZ then None else ct_attempt s), ct_open := False\<rparr>"
| "close_step env s PressBack = s\<lparr>ct_open := False\<rparr>"
| "close_step env s PrintDismissed = s\<lparr>ct_printActive := False\<rparr>"

text \<open>The preview is only asked for when the warehouse is known.\<close>

fun close_enabled :: "close_env \<Rightarrow> close_till \<Rightarrow> close_event \<Rightarrow> bool" where
  "close_enabled env s (PreviewIs x) = (ct_open s \<and> q_enabled (xReportPreviewQuery (ce_warehouse env)))"
| "close_enabled env s PreviewFails = (ct_open s \<and> q_enabled (xReportPreviewQuery (ce_warehouse env)))"
| "close_enabled env s (ProfileIs p) = ct_open s"
| "close_enabled env s ProfileFails = ct_open s"
| "close_enabled env s PressFinalize =
     (ct_open s \<and> ce_mode env = ModeZ \<and> till_report s = None
      \<and> \<not> (\<not> canFinalize s \<or> ct_flight s \<noteq> None \<or> ct_preview_pending s))"
| "close_enabled env s (CloseAnswer r) = (ct_open s \<and> ct_flight s \<noteq> None)"
| "close_enabled env s PressPrint =
     (ct_open s \<and> (ce_mode env = ModeX \<or> till_report s \<noteq> None) \<and> documentText env s \<noteq> None)"
| "close_enabled env s PressCancel =
     (ct_open s \<and> (ce_mode env = ModeX \<or> till_report s = None))"
| "close_enabled env s PressBack = (ct_open s \<and> ce_mode env = ModeZ \<and> till_report s \<noteq> None)"
| "close_enabled env s PrintDismissed = (ct_open s \<and> ct_printActive s)"

text \<open>The overlay: its document, its profile, and whether the drawer opens after it.\<close>

definition till_overlay :: "close_env \<Rightarrow> close_till \<Rightarrow> (jsstring \<times> print_profile \<times> bool) option" where
  "till_overlay env s =
     (case (documentText env s, ct_profile s) of
        (Some t, Some p) \<Rightarrow> if ct_printActive s then Some (t, p, ce_mode env = ModeZ) else None
      | _ \<Rightarrow> None)"

section \<open>One closing, one key\<close>

definition close_ok :: "close_env \<Rightarrow> close_till \<Rightarrow> bool" where
  "close_ok env s \<longleftrightarrow>
     (\<exists>k. set (ct_sent s) \<subseteq> {closeZReport (the (ce_warehouse env)) k}
        \<and> (ct_sent s \<noteq> [] \<longrightarrow> ct_open s \<longrightarrow> ct_closed s = None \<longrightarrow> ct_attempt s = Some k))
     \<and> (ct_sent s \<noteq> [] \<longrightarrow> ce_mode env = ModeZ)
     \<and> (ct_attempt s \<noteq> None \<longrightarrow> ct_closed s = None)
     \<and> (ct_flight s \<noteq> None \<longrightarrow> ct_closed s = None)
     \<and> (\<not> ct_preview_pending s \<longrightarrow> ce_warehouse env \<noteq> None)"

lemma close_step_ok:
  assumes "close_ok env s" "close_enabled env s e"
  shows "close_ok env (close_step env s e)"
proof (cases "(env, s, e)" rule: close_step.cases)
  case (5 env' s')
  then have "ct_closed s = None" and w: "ce_warehouse env \<noteq> None"
    using assms by (auto simp: till_report_def close_ok_def split: option.splits)
  then show ?thesis
    using 5 assms by (auto simp: close_ok_def finalize_def Let_def split: option.splits)
qed (use assms in \<open>auto simp: close_ok_def printCurrent_def xReportPreviewQuery_def\<close>)

interpretation close_dialog: event_machine "close_enabled env" "close_step env" close_init "close_ok env"
  for env
proof unfold_locales
  show "close_ok env close_init" by (simp add: close_ok_def close_init_def)
qed (rule close_step_ok)

text \<open>C19: One opening of the closing dialog sends at most one Z: however often emission fails and is
  retried every request carries the same idempotency key, the X summary sends none, and once the Z
  is emitted, or known to have been, the dialog offers no other emission.\<close>

theorem one_z_per_dialog:
  assumes "run_ok (close_enabled env) (close_step env) close_init es"
    and "s = foldl (close_step env) close_init es"
  shows "(\<exists>k. set (ct_sent s) \<subseteq> {closeZReport (the (ce_warehouse env)) k})
    \<and> (ct_sent s \<noteq> [] \<longrightarrow> ce_mode env = ModeZ \<and> ce_warehouse env \<noteq> None)
    \<and> (till_report s \<noteq> None \<or> till_openSales s \<noteq> [] \<longrightarrow> \<not> close_enabled env s PressFinalize)"
proof -
  have "close_ok env s"
    using close_dialog.inv_reached [OF reached_run [OF assms(1)]] assms(2) by simp
  moreover have "ct_sent s \<noteq> [] \<Longrightarrow> ce_warehouse env \<noteq> None"
    using assms(1) unfolding assms(2)
  proof (induction es rule: rev_induct)
    case Nil
    then show ?case by (simp add: close_init_def)
  next
    case (snoc e es)
    then show ?case
      by (cases "(env, foldl (close_step env) close_init es, e)" rule: close_step.cases)
        (auto simp: run_ok_snoc finalize_def Let_def printCurrent_def split: option.splits if_splits)
  qed
  ultimately show ?thesis by (auto simp: close_ok_def canFinalize_def)
qed

definition sample_close_env :: close_env where
  "sample_close_env = \<lparr>ce_warehouse = Some 3, ce_mode = ModeZ, ce_uuid = nat_digits,
     ce_zone = js ''Europe/Madrid'',
     ce_dates = \<lparr>dt_format = (\<lambda>_ _ v. v), dt_parts = (\<lambda>_ _. [])\<rparr>\<rparr>"

definition sample_x :: x_report_preview where
  "sample_x = \<lparr>x_warehouse_id = 3, x_warehouse_name = js ''Tienda'', x_business_date = js ''2026-08-28'',
     x_generated_at = [], x_covers_from = None, x_sales_count = 2, x_gross_total = js ''10.000000'',
     x_tax_total = js ''1.740000'', x_discount_total = js ''0.000000'', x_cash_total = js ''10.000000'',
     x_card_total = js ''0.000000'', x_other_total = js ''0.000000'', x_returns_count = 0,
     x_returns_total = js ''0.000000'', x_first_sale_number = Some 1, x_last_sale_number = Some 2,
     x_tax_breakdown = [], x_payment_breakdown = [], x_terminal_breakdown = [],
     x_cashier_breakdown = [], x_open_sales = [], x_final_report = None\<rparr>"

definition close_day :: "close_event list" where
  "close_day = [PreviewIs sample_x, PressFinalize, CloseAnswer (Inl (OtherFailure [])), PressFinalize,
     CloseAnswer (Inr sample_z)]"

lemma one_z_per_dialog_witness:
  "(let s = foldl (close_step sample_close_env) close_init close_day in
    length (ct_sent s) = 2 \<and> (\<exists>k. set (ct_sent s) \<subseteq> {closeZReport 3 k})
    \<and> \<not> close_enabled sample_close_env s PressFinalize)"
proof -
  let ?s = "foldl (close_step sample_close_env) close_init close_day"
  have "run_ok (close_enabled sample_close_env) (close_step sample_close_env) close_init close_day"
    by (simp add: close_day_def close_init_def sample_close_env_def sample_x_def till_report_def
        finalReport_def canFinalize_def till_openSales_def finalize_def xReportPreviewQuery_def)
  note one = one_z_per_dialog [OF this refl]
  have "length (ct_sent ?s) = 2" "till_report ?s \<noteq> None"
    by (simp_all add: close_day_def close_init_def sample_close_env_def sample_x_def till_report_def
        finalize_def)
  with one show ?thesis by (simp add: Let_def sample_close_env_def)
qed

end
