(* ===== verification/Returns.thy ===== *)
theory Returns
  imports Pos_Model Lib_Formats
begin

text \<open>
  Returns of sold goods: the records and calls of \<open>returns/api.ts\<close> and the form that prepares a
  return (\<open>returns/CreateReturnForm.tsx\<close>) as an event machine. Quantities are decimal texts the
  form computes with as JavaScript numbers, roundings included.
\<close>

section \<open>Records and calls\<close>

record return_sale_line =
  rl_id :: int
  rl_product_id :: int
  rl_product_sku :: jsstring
  rl_product_name :: jsstring
  rl_package_id :: int
  rl_package_name :: jsstring
  rl_package_factor :: jsstring
  rl_quantity_packages :: jsstring
  rl_quantity_base :: jsstring
  rl_quantity_refunded :: jsstring
  rl_quantity_physically_returned :: jsstring
  rl_tracks_stock :: bool
  rl_track_lots :: bool
  rl_unit_price :: jsstring
  rl_total :: jsstring

record return_sale =
  rs_id :: int
  rs_status :: jsstring
  rs_created_at :: jsstring
  rs_completed_at :: "jsstring option"
  rs_lines :: "return_sale_line list"
  rs_total :: jsstring

record return_line_input =
  ri_sale_line_id :: int
  ri_refund_quantity_packages :: jsstring
  ri_stock_return_quantity_packages :: jsstring
  ri_lot_number :: "jsstring option"

record return_input =
  rin_notes :: jsstring
  rin_lines :: "return_line_input list"
  rin_refund_method :: "payment_method option"

record return_line =
  rtl_id :: int
  rtl_sale_line_id :: int
  rtl_product_id :: int
  rtl_product_sku :: jsstring
  rtl_product_name :: jsstring
  rtl_package_id :: int
  rtl_package_name :: jsstring
  rtl_refund_quantity_packages :: jsstring
  rtl_refund_quantity_base :: jsstring
  rtl_stock_return_quantity_packages :: jsstring
  rtl_stock_return_quantity_base :: jsstring
  rtl_refund_amount :: jsstring
  rtl_lot_id :: "int option"
  rtl_lot_number :: "jsstring option"
  rtl_stock_movement_id :: "int option"

record refund =
  rfd_id :: int
  rfd_return_id :: int
  rfd_amount :: jsstring
  rfd_method :: "payment_method option"
  rfd_processed_by_user_id :: "int option"
  rfd_created_at :: jsstring
  rfd_completed_at :: jsstring

record return_record =
  ret_id :: int
  ret_sale_id :: int
  ret_notes :: jsstring
  ret_processed_by_user_id :: "int option"
  ret_created_at :: jsstring
  ret_lines :: "return_line list"
  ret_refund :: "refund option"
  ret_total_refund :: jsstring

definition return_saleQuery :: "int \<Rightarrow> query_options" where
  "return_saleQuery saleId =
     \<lparr>q_key = [KStr (js ''returns''), KStr (js ''sale''), KNum saleId],
      q_call = get_call (js ''/sales/'' @ int_string saleId), q_enabled = True\<rparr>"

definition saleReturnsQuery :: "int \<Rightarrow> query_options" where
  "saleReturnsQuery saleId =
     \<lparr>q_key = [KStr (js ''returns''), KStr (js ''by-sale''), KNum saleId],
      q_call = get_call (js ''/sales/'' @ int_string saleId @ js ''/returns''), q_enabled = True\<rparr>"

definition return_line_json :: "return_line_input \<Rightarrow> json" where
  "return_line_json l = JObj [(js ''sale_line_id'', JInt (ri_sale_line_id l)),
     (js ''refund_quantity_packages'', JStr (ri_refund_quantity_packages l)),
     (js ''stock_return_quantity_packages'', JStr (ri_stock_return_quantity_packages l)),
     (js ''lot_number'', case ri_lot_number l of Some s \<Rightarrow> JStr s | None \<Rightarrow> JNull)]"

definition return_input_json :: "return_input \<Rightarrow> json" where
  "return_input_json payload = JObj ([(js ''notes'', JStr (rin_notes payload)),
     (js ''lines'', JArr (map return_line_json (rin_lines payload)))]
     @ opt_field (js ''refund_method'') (\<lambda>m. JStr (method_name m)) (rin_refund_method payload))"

definition createReturn :: "int \<Rightarrow> return_input \<Rightarrow> jsstring \<Rightarrow> api_call" where
  "createReturn saleId payload idempotencyKey =
     send_call POST (js ''/sales/'' @ int_string saleId @ js ''/returns'')
       [(js ''Idempotency-Key'', idempotencyKey)] (Some (return_input_json payload))"

section \<open>Quantities\<close>

definition decimalNumber :: "jsstring \<Rightarrow> jsnum" where
  "decimalNumber v =
     (let parsed = js_Number (js_replace cu_comma [cu_dot] v)
      in if js_is_finite parsed then parsed else JsNum 0)"

definition remainingPackages :: "return_sale_line \<Rightarrow> jsstring \<Rightarrow> jsnum" where
  "remainingPackages line returned =
     (decimalNumber (rl_quantity_base line) - decimalNumber returned) div decimalNumber (rl_package_factor line)"

abbreviation refundable :: "return_sale_line \<Rightarrow> jsnum" where
  "refundable line \<equiv> remainingPackages line (rl_quantity_refunded line)"

abbreviation returnableToStock :: "return_sale_line \<Rightarrow> jsnum" where
  "returnableToStock line \<equiv> remainingPackages line (rl_quantity_physically_returned line)"

definition estimatedRefundAmount :: "return_sale_line \<Rightarrow> jsnum \<Rightarrow> jsnum" where
  "estimatedRefundAmount line quantityPackages =
     (let boughtPackages = decimalNumber (rl_quantity_packages line) in
      if boughtPackages \<le> JsNum 0 \<or> quantityPackages \<le> JsNum 0 then JsNum 0
      else (decimalNumber (rl_total line) * quantityPackages) div boughtPackages)"

text \<open>
  The regular expression \<open>/\b(?:KG|G|L|ML)\b|KILOGRAM|LITRO/i\<close>: a whole word of one of the short
  units, or one of the long ones anywhere.
\<close>

definition upper_unit :: "nat \<Rightarrow> nat" where
  "upper_unit c = (if 97 \<le> c \<and> c \<le> 122 then c - 32 else c)"

definition word_unit :: "nat \<Rightarrow> bool" where
  "word_unit c \<longleftrightarrow> js_digit c \<or> (65 \<le> c \<and> c \<le> 90) \<or> (97 \<le> c \<and> c \<le> 122) \<or> c = 95"

definition js_words :: "jsstring \<Rightarrow> jsstring list" where
  "js_words s = js_split cu_space (map (\<lambda>c. if word_unit c then c else cu_space) s)"

definition measured_unit :: "jsstring \<Rightarrow> bool" where
  "measured_unit name \<longleftrightarrow>
     (let s = map upper_unit name in
      (\<exists>w \<in> set (js_words s). w \<in> set [js ''KG'', js ''G'', js ''L'', js ''ML''])
      \<or> js_includes (js ''KILOGRAM'') s \<or> js_includes (js ''LITRO'') s)"

definition quantityStep :: "return_sale_line \<Rightarrow> jsnum" where
  "quantityStep line =
     (if measured_unit (rl_package_name line) then js_num (1 / 1000)
      else if js_is_integer (decimalNumber (rl_quantity_packages line)) then JsNum 1 else js_num (1 / 1000))"

definition decimalForInput :: "jsnum \<Rightarrow> jsstring" where
  "decimalForInput v = js_String (js_round (v * JsNum 1000000) div JsNum 1000000)"

text \<open>The stepper: whether its two buttons can be pressed, and the text they put.\<close>

definition stepper_current :: "jsstring \<Rightarrow> jsnum \<Rightarrow> jsnum" where
  "stepper_current v max_v = js_max (JsNum 0) (js_min max_v (decimalNumber v))"

definition stepper_update :: "jsnum \<Rightarrow> jsnum \<Rightarrow> jsstring" where
  "stepper_update max_v next_v = decimalForInput (js_max (JsNum 0) (js_min max_v next_v))"

definition stepper_minus :: "jsstring \<Rightarrow> jsnum \<Rightarrow> jsnum \<Rightarrow> jsstring option" where
  "stepper_minus v max_v step =
     (let current = stepper_current v max_v in
      if current \<le> JsNum 0 then None else Some (stepper_update max_v (current - step)))"

definition stepper_plus :: "jsstring \<Rightarrow> jsnum \<Rightarrow> jsnum \<Rightarrow> jsstring option" where
  "stepper_plus v max_v step =
     (let current = stepper_current v max_v in
      if max_v \<le> current then None else Some (stepper_update max_v (current + step)))"

section \<open>The form\<close>

record staged_line = return_line_input +
  st_label :: jsstring

record return_form =
  rf_notes :: jsstring
  rf_method :: payment_method
  rf_staged :: "staged_line list"
  rf_confirming :: bool
  rf_manual :: bool
  rf_line :: jsstring
  rf_refund :: jsstring
  rf_stock :: jsstring
  rf_lot :: jsstring
  rf_errors :: "jsstring list"
  rf_submitted :: "return_input list"

definition return_form_init :: return_form where
  "return_form_init = \<lparr>rf_notes = [], rf_method = CASH, rf_staged = [], rf_confirming = False,
     rf_manual = False, rf_line = [], rf_refund = js ''1'', rf_stock = js ''1'', rf_lot = [],
     rf_errors = [], rf_submitted = []\<rparr>"

definition reset_fields :: "return_form \<Rightarrow> return_form" where
  "reset_fields s = s\<lparr>rf_line := [], rf_refund := js ''1'', rf_stock := js ''1'', rf_lot := [], rf_errors := []\<rparr>"

definition line_of :: "return_sale \<Rightarrow> jsstring \<Rightarrow> return_sale_line option" where
  "line_of sale v = find (\<lambda>l. JsNum (of_int (rl_id l)) = js_Number v) (rs_lines sale)"

definition stagedIds :: "return_form \<Rightarrow> int set" where
  "stagedIds s = ri_sale_line_id ` set (rf_staged s)"

definition pendingLines :: "return_sale \<Rightarrow> return_form \<Rightarrow> return_sale_line list" where
  "pendingLines sale s =
     filter (\<lambda>l. rl_id l \<notin> stagedIds s \<and> (JsNum 0 < refundable l \<or> JsNum 0 < returnableToStock l))
       (rs_lines sale)"

definition hasEconomicEffect :: "return_form \<Rightarrow> bool" where
  "hasEconomicEffect s \<longleftrightarrow> (\<exists>l \<in> set (rf_staged s). JsNum 0 < decimalNumber (ri_refund_quantity_packages l))"

definition stagedRefundTotal :: "return_sale \<Rightarrow> return_form \<Rightarrow> jsnum" where
  "stagedRefundTotal sale s =
     foldl (\<lambda>total_v staged.
         case find (\<lambda>l. rl_id l = ri_sale_line_id staged) (rs_lines sale) of
           None \<Rightarrow> total_v
         | Some l \<Rightarrow> total_v + estimatedRefundAmount l (decimalNumber (ri_refund_quantity_packages staged)))
       (JsNum 0) (rf_staged s)"

text \<open>
  The rows of the sale's lines (article, package, bought, returned, left, amount left), and of the
  lines to be returned (label, money, stock, amount).
\<close>

definition sale_line_row :: "return_sale_line \<Rightarrow> jsstring list" where
  "sale_line_row line =
     (let pendingRefund = js_max (JsNum 0) (refundable line) in
      [rl_product_name line, rl_package_name line, formatQuantity (rl_quantity_packages line),
       formatQuantity (rl_quantity_refunded line), formatQuantity (js_String pendingRefund),
       formatMoney (js_String (estimatedRefundAmount line pendingRefund))])"

definition staged_row :: "return_sale \<Rightarrow> staged_line \<Rightarrow> jsstring list" where
  "staged_row sale staged =
     [st_label staged, formatQuantity (ri_refund_quantity_packages staged),
      formatQuantity (ri_stock_return_quantity_packages staged),
      formatMoney (js_String
        (case find (\<lambda>l. rl_id l = ri_sale_line_id staged) (rs_lines sale) of
           None \<Rightarrow> JsNum 0
         | Some l \<Rightarrow> estimatedRefundAmount l (decimalNumber (ri_refund_quantity_packages staged))))]"

text \<open>The schema of the line form: the two decimals as they leave it, or the fields at fault.\<close>

definition addLineSchema :: "return_form \<Rightarrow> jsstring list + jsstring \<times> jsstring" where
  "addLineSchema s =
     (let r = decimalString (Some (JsNum 0)) (rf_refund s); t = decimalString (Some (JsNum 0)) (rf_stock s);
          issues = (if rf_line s = [] then [js ''sale_line_id''] else [])
            @ (if isl r then [js ''refund_quantity_packages''] else [])
            @ (if isl t then [js ''stock_return_quantity_packages''] else [])
            @ (if 100 < length (rf_lot s) then [js ''lot_number''] else [])
      in case (r, t) of
           (Inr rv, Inr tv) \<Rightarrow>
             if issues \<noteq> [] then Inl issues
             else if js_Number rv = JsNum 0 \<and> js_Number tv = JsNum 0 then Inl [js ''refund_quantity_packages'']
             else Inr (rv, tv)
         | _ \<Rightarrow> Inl issues)"

definition return_label :: "return_sale_line \<Rightarrow> jsstring" where
  "return_label l = rl_product_name l @ [cu_space, 8212, cu_space] @ rl_package_name l"

definition return_addLine :: "return_sale \<Rightarrow> return_form \<Rightarrow> return_form" where
  "return_addLine sale s =
     (case addLineSchema s of
        Inl issues \<Rightarrow> s\<lparr>rf_errors := issues\<rparr>
      | Inr (r, t) \<Rightarrow>
          (case line_of sale (rf_line s) of
             None \<Rightarrow> s\<lparr>rf_errors := []\<rparr>
           | Some line \<Rightarrow>
               if refundable line < decimalNumber r
               then s\<lparr>rf_errors := [js ''refund_quantity_packages'']\<rparr>
               else if returnableToStock line < decimalNumber t
               then s\<lparr>rf_errors := [js ''stock_return_quantity_packages'']\<rparr>
               else (reset_fields (s\<lparr>rf_staged := rf_staged s @
                 [\<lparr>ri_sale_line_id = rl_id line, ri_refund_quantity_packages = r,
                   ri_stock_return_quantity_packages = t,
                   ri_lot_number = (if JsNum 0 < js_Number t \<and> rf_lot s \<noteq> [] then Some (rf_lot s) else None),
                   st_label = return_label line\<rparr>]\<rparr>))\<lparr>rf_manual := False\<rparr>))"

definition return_payload :: "return_form \<Rightarrow> return_input" where
  "return_payload s =
     \<lparr>rin_notes = rf_notes s, rin_lines = map return_line_input.truncate (rf_staged s),
      rin_refund_method = (if hasEconomicEffect s then Some (rf_method s) else None)\<rparr>"

definition return_submit :: "return_form \<Rightarrow> return_form" where
  "return_submit s =
     (if rf_staged s = [] then s
      else s\<lparr>rf_confirming := False, rf_submitted := rf_submitted s @ [return_payload s]\<rparr>)"

datatype return_event =
    SelectLine jsstring
  | RefundIs jsstring
  | StockIs jsstring
  | LotIs jsstring
  | PressAdd
  | RemoveStaged nat
  | NotesAre jsstring
  | MethodIs payment_method
  | PressRegister
  | PressConfirm
  | PressDontConfirm
  | SubmissionSucceeded

fun return_step :: "return_sale \<Rightarrow> return_form \<Rightarrow> return_event \<Rightarrow> return_form" where
  "return_step sale s (SelectLine v) =
     (let s1 = s\<lparr>rf_line := v, rf_manual := False\<rparr> in
      case line_of sale v of
        None \<Rightarrow> s1
      | Some line \<Rightarrow> s1\<lparr>rf_refund := decimalForInput (js_min (JsNum 1) (refundable line)),
                       rf_stock := decimalForInput (js_min (JsNum 1) (returnableToStock line))\<rparr>)"
| "return_step sale s (RefundIs v) =
     s\<lparr>rf_refund := v, rf_stock := (if rf_manual s then rf_stock s else v)\<rparr>"
| "return_step sale s (StockIs v) = s\<lparr>rf_manual := True, rf_stock := v\<rparr>"
| "return_step sale s (LotIs v) = s\<lparr>rf_lot := v\<rparr>"
| "return_step sale s PressAdd = return_addLine sale s"
| "return_step sale s (RemoveStaged i) =
     s\<lparr>rf_staged := take i (rf_staged s) @ drop (Suc i) (rf_staged s)\<rparr>"
| "return_step sale s (NotesAre v) = s\<lparr>rf_notes := v\<rparr>"
| "return_step sale s (MethodIs m) = s\<lparr>rf_method := m\<rparr>"
| "return_step sale s PressRegister = (if rf_staged s = [] then s else s\<lparr>rf_confirming := True\<rparr>)"
| "return_step sale s PressConfirm = return_submit s"
| "return_step sale s PressDontConfirm = s\<lparr>rf_confirming := False\<rparr>"
| "return_step sale s SubmissionSucceeded =
     reset_fields (s\<lparr>rf_notes := [], rf_staged := [], rf_confirming := False, rf_manual := False\<rparr>)"

text \<open>
  Whether the screen offers an event; the select lists the pending lines. \<open>isPending\<close> tells whether
  the page is sending a return.
\<close>

fun return_enabled :: "return_sale \<Rightarrow> bool \<Rightarrow> return_form \<Rightarrow> return_event \<Rightarrow> bool" where
  "return_enabled sale isPending s (SelectLine v) =
     (v = [] \<or> (\<exists>l \<in> set (pendingLines sale s). v = int_string (rl_id l)))"
| "return_enabled sale isPending s (RefundIs v) = (pendingLines sale s \<noteq> [])"
| "return_enabled sale isPending s (StockIs v) = (pendingLines sale s \<noteq> [])"
| "return_enabled sale isPending s (LotIs v) =
     (pendingLines sale s \<noteq> [] \<and> JsNum 0 < decimalNumber (rf_stock s)
      \<and> (case line_of sale (rf_line s) of Some l \<Rightarrow> rl_track_lots l | None \<Rightarrow> False))"
| "return_enabled sale isPending s PressAdd = (pendingLines sale s \<noteq> [])"
| "return_enabled sale isPending s (RemoveStaged i) = (i < length (rf_staged s))"
| "return_enabled sale isPending s (MethodIs m) = hasEconomicEffect s"
| "return_enabled sale isPending s PressRegister = (\<not> isPending \<and> rf_staged s \<noteq> [])"
| "return_enabled sale isPending s PressConfirm = (rf_confirming s \<and> \<not> isPending)"
| "return_enabled sale isPending s PressDontConfirm = rf_confirming s"
| "return_enabled sale isPending s e = True"

text \<open>
  The form in its page: at each event it has the properties the page gives it then, the sale shown
  and whether a return is being sent. The page may show another sale, or the same one with newer
  quantities, while lines are staged.
\<close>

type_synonym form_props = "return_sale \<times> bool"

definition form_move :: "return_form \<Rightarrow> form_props \<times> return_event \<Rightarrow> return_form" where
  "form_move s pe = return_step (fst (fst pe)) s (snd pe)"

definition form_enabled :: "return_form \<Rightarrow> form_props \<times> return_event \<Rightarrow> bool" where
  "form_enabled s pe = return_enabled (fst (fst pe)) (snd (fst pe)) s (snd pe)"

section \<open>What a form submits\<close>

lemma rnd_not_NaN [simp]: "rnd q \<noteq> JsNaN"
  by (simp add: rnd_def Let_def)

lemma not_less_jsnum: "a \<noteq> JsNaN \<Longrightarrow> b \<noteq> JsNaN \<Longrightarrow> \<not> a < b \<Longrightarrow> b \<le> a" for a b :: jsnum
  by (cases a; cases b) (auto simp: jsnum_ops)

lemma decimalNumber_finite: "\<exists>q. decimalNumber v = JsNum q"
  by (cases "js_Number (js_replace cu_comma [cu_dot] v)") (auto simp: decimalNumber_def Let_def)

lemma remainingPackages_number:
  assumes "JsNum 0 < decimalNumber (rl_package_factor l)"
  shows "remainingPackages l v \<noteq> JsNaN"
proof -
  obtain a b c where "decimalNumber (rl_quantity_base l) = JsNum a" "decimalNumber v = JsNum b"
    "decimalNumber (rl_package_factor l) = JsNum c"
    using decimalNumber_finite by metis
  then show ?thesis
    using assms by (cases "rnd (a - b)") (auto simp: remainingPackages_def jsnum_ops dest: sym)
qed

text \<open>What one staged line promises about its line of the sale.\<close>

definition return_line_ok :: "return_sale \<Rightarrow> 'a return_line_input_scheme \<Rightarrow> bool" where
  "return_line_ok sale i \<longleftrightarrow>
     (\<exists>l \<in> set (rs_lines sale). rl_id l = ri_sale_line_id i
        \<and> \<not> refundable l < decimalNumber (ri_refund_quantity_packages i)
        \<and> \<not> returnableToStock l < decimalNumber (ri_stock_return_quantity_packages i))
     \<and> JsNum 0 \<le> js_Number (ri_refund_quantity_packages i)
     \<and> JsNum 0 \<le> js_Number (ri_stock_return_quantity_packages i)
     \<and> \<not> (js_Number (ri_refund_quantity_packages i) = JsNum 0
          \<and> js_Number (ri_stock_return_quantity_packages i) = JsNum 0)
     \<and> (ri_lot_number i \<noteq> None \<longrightarrow> JsNum 0 < js_Number (ri_stock_return_quantity_packages i))"

lemma return_line_truncate [simp]:
  "ri_sale_line_id (return_line_input.truncate i) = ri_sale_line_id i"
  "ri_refund_quantity_packages (return_line_input.truncate i) = ri_refund_quantity_packages i"
  "ri_stock_return_quantity_packages (return_line_input.truncate i) = ri_stock_return_quantity_packages i"
  "ri_lot_number (return_line_input.truncate i) = ri_lot_number i"
  by (simp_all add: return_line_input.truncate_def)

lemma return_line_ok_truncate [simp]:
  "return_line_ok sale (return_line_input.truncate i) = return_line_ok sale i"
  by (simp add: return_line_ok_def)

text \<open>Lines within the limits of one of the sales \<open>S\<close>.\<close>

definition line_within :: "return_sale set \<Rightarrow> 'a return_line_input_scheme \<Rightarrow> bool" where
  "line_within S i \<longleftrightarrow> (\<exists>sale \<in> S. return_line_ok sale i)"

lemma line_within_truncate [simp]: "line_within S (return_line_input.truncate i) = line_within S i"
  by (simp add: line_within_def)

definition submission_ok :: "return_sale set \<Rightarrow> return_input \<Rightarrow> bool" where
  "submission_ok S p \<longleftrightarrow> rin_lines p \<noteq> [] \<and> distinct (map ri_sale_line_id (rin_lines p))
     \<and> list_all (line_within S) (rin_lines p)
     \<and> (rin_refund_method p \<noteq> None
          \<longleftrightarrow> (\<exists>i \<in> set (rin_lines p). JsNum 0 < decimalNumber (ri_refund_quantity_packages i)))"

text \<open>The line selected is none of the staged ones, whatever sale is shown.\<close>

definition return_form_ok :: "return_sale set \<Rightarrow> return_form \<Rightarrow> bool" where
  "return_form_ok S s \<longleftrightarrow>
     distinct (map ri_sale_line_id (rf_staged s)) \<and> list_all (line_within S) (rf_staged s)
     \<and> (\<forall>i. rf_line s \<noteq> [] \<longrightarrow> js_Number (rf_line s) = JsNum (of_int i) \<longrightarrow> i \<notin> stagedIds s)
     \<and> list_all (submission_ok S) (rf_submitted s)"

lemma line_id_number:
  assumes "\<forall>l \<in> set (rs_lines sale). 0 \<le> rl_id l \<and> rl_id l < 2 ^ 53" and "l \<in> set (rs_lines sale)"
  shows "js_Number (int_string (rl_id l)) = JsNum (of_int (rl_id l))"
proof -
  have l: "0 \<le> rl_id l" "rl_id l < 2 ^ 53" using assms by auto
  then show ?thesis using rnd_of_int [of "rl_id l"] by (simp add: int_string_def js_Number_nat_digits)
qed

lemma line_of_number: "line_of sale v = Some l \<Longrightarrow> js_Number v = JsNum (of_int (rl_id l))"
  by (auto simp: line_of_def find_Some_iff)

lemma line_of_member: "line_of sale v = Some l \<Longrightarrow> l \<in> set (rs_lines sale)"
  using find_map_of_id by (fastforce simp: line_of_def)

lemma return_addLine_cases:
  obtains (refused) errors where "return_addLine sale s = s\<lparr>rf_errors := errors\<rparr>"
  | (staged) l i where "rf_line s \<noteq> []" "line_of sale (rf_line s) = Some l"
      "ri_sale_line_id i = rl_id l" "return_line_ok sale i"
      "return_addLine sale s = (reset_fields (s\<lparr>rf_staged := rf_staged s @ [i]\<rparr>))\<lparr>rf_manual := False\<rparr>"
proof (cases "addLineSchema s")
  case (Inl issues)
  then show ?thesis by (intro refused) (simp add: return_addLine_def)
next
  case (Inr rt)
  obtain r t where rt: "rt = (r, t)" by (cases rt)
  from Inr have ne: "rf_line s \<noteq> []"
    and dec: "decimalString (Some (JsNum 0)) (rf_refund s) = Inr r"
      "decimalString (Some (JsNum 0)) (rf_stock s) = Inr t"
    and nz: "\<not> (js_Number r = JsNum 0 \<and> js_Number t = JsNum 0)"
    unfolding rt by (auto simp: addLineSchema_def Let_def split: sum.splits if_splits)
  have pos: "JsNum 0 \<le> js_Number r" "JsNum 0 \<le> js_Number t"
    using dec by (auto simp: decimalString_def Let_def split: if_splits)
  show ?thesis
  proof (cases "line_of sale (rf_line s)")
    case None
    then show ?thesis using Inr by (intro refused) (simp add: return_addLine_def rt)
  next
    case (Some l)
    consider "refundable l < decimalNumber r" | "returnableToStock l < decimalNumber t"
      | "\<not> refundable l < decimalNumber r" "\<not> returnableToStock l < decimalNumber t" by blast
    then show ?thesis
    proof cases
      case 2
      then show ?thesis
        using Inr Some by (cases "refundable l < decimalNumber r")
          (auto intro: refused simp: return_addLine_def rt)
    next
      case 3
      let ?i = "\<lparr>ri_sale_line_id = rl_id l, ri_refund_quantity_packages = r,
        ri_stock_return_quantity_packages = t,
        ri_lot_number = (if JsNum 0 < js_Number t \<and> rf_lot s \<noteq> [] then Some (rf_lot s) else None),
        st_label = return_label l\<rparr>"
      have "return_line_ok sale ?i"
        using 3 pos nz line_of_member [OF Some] by (auto simp: return_line_ok_def)
      then show ?thesis
        using 3 by (intro staged [OF ne Some, of ?i]) (simp_all add: return_addLine_def Inr rt Some)
    qed (use Inr Some in \<open>auto intro: refused simp: return_addLine_def rt\<close>)
  qed
qed

lemma return_payload_ok:
  assumes "return_form_ok S s" and "rf_staged s \<noteq> []"
  shows "submission_ok S (return_payload s)"
  using assms by (auto simp: return_form_ok_def submission_ok_def return_payload_def hasEconomicEffect_def
      list_all_iff comp_def)

lemma distinct_without:
  "distinct (map f xs) \<Longrightarrow> distinct (map f (take i xs @ drop (Suc i) xs))"
  using set_take_disj_set_drop_if_distinct [of "map f xs" i "Suc i"] by (simp flip: take_map drop_map)

lemma return_form_ok_fewer:
  assumes "return_form_ok S s" and "set xs \<subseteq> set (rf_staged s)" and "distinct (map ri_sale_line_id xs)"
  shows "return_form_ok S (s\<lparr>rf_staged := xs\<rparr>)"
  using assms by (fastforce simp: return_form_ok_def stagedIds_def list_all_iff)

lemma return_step_ok:
  assumes ids: "\<forall>l \<in> set (rs_lines sale). 0 \<le> rl_id l \<and> rl_id l < 2 ^ 53"
    and ok: "return_form_ok S s" and en: "return_enabled sale isPending s e"
    and shown: "e = PressAdd \<Longrightarrow> sale \<in> S"
  shows "return_form_ok S (return_step sale s e)"
proof (cases e)
  case (SelectLine v)
  have "i \<notin> stagedIds s" if ne: "v \<noteq> []" and i: "js_Number v = JsNum (of_int i)" for i
  proof -
    obtain m where m: "m \<in> set (pendingLines sale s)" "v = int_string (rl_id m)"
      using en ne SelectLine by auto
    then have "i = rl_id m"
      using line_id_number [OF ids, of m] i by (simp add: pendingLines_def)
    then show ?thesis using m by (simp add: pendingLines_def)
  qed
  with ok SelectLine show ?thesis
    by (auto simp: return_form_ok_def stagedIds_def Let_def split: option.splits)
next
  case PressAdd
  show ?thesis
  proof (cases rule: return_addLine_cases [of sale s])
    case (staged l i)
    have "rl_id l \<notin> stagedIds s"
      using ok staged(1) line_of_number [OF staged(2)] by (simp add: return_form_ok_def)
    moreover have "line_within S i" using staged(4) shown PressAdd by (auto simp: line_within_def)
    ultimately show ?thesis
      using ok PressAdd staged by (auto simp: return_form_ok_def stagedIds_def reset_fields_def)
  qed (use ok PressAdd in \<open>simp add: return_form_ok_def stagedIds_def\<close>)
next
  case (RemoveStaged i)
  have "distinct (map ri_sale_line_id (rf_staged s))" using ok by (simp add: return_form_ok_def)
  then have "return_form_ok S (s\<lparr>rf_staged := take i (rf_staged s) @ drop (Suc i) (rf_staged s)\<rparr>)"
    by (intro return_form_ok_fewer [OF ok] distinct_without) (auto dest: in_set_takeD in_set_dropD)
  then show ?thesis by (simp add: RemoveStaged)
next
  case PressConfirm
  then show ?thesis
    using ok return_payload_ok [OF ok]
    by (auto simp: return_submit_def return_form_ok_def stagedIds_def)
qed (use ok in \<open>auto simp: return_form_ok_def stagedIds_def reset_fields_def\<close>)

definition line_ids_ok :: "return_sale \<Rightarrow> bool" where
  "line_ids_ok sale \<longleftrightarrow> (\<forall>l \<in> set (rs_lines sale). 0 \<le> rl_id l \<and> rl_id l < 2 ^ 53)"

lemma return_form_init_ok [simp]: "return_form_ok S return_form_init"
  by (simp add: return_form_ok_def return_form_init_def)

interpretation return_dialog:
  event_machine "\<lambda>s pe. form_enabled s pe \<and> pe \<in> E" form_move return_form_init
    "\<lambda>s. (\<forall>pe \<in> E. line_ids_ok (fst (fst pe))) \<longrightarrow> return_form_ok {sale. \<exists>b. ((sale, b), PressAdd) \<in> E} s"
  for E
proof unfold_locales
  let ?S = "{sale. \<exists>b. ((sale, b), PressAdd) \<in> E}"
  fix s pe
  assume inv: "(\<forall>pe \<in> E. line_ids_ok (fst (fst pe))) \<longrightarrow> return_form_ok ?S s"
    and en: "form_enabled s pe \<and> pe \<in> E"
  obtain sale b e where pe: "pe = ((sale, b), e)" by (metis prod.collapse)
  show "(\<forall>pe \<in> E. line_ids_ok (fst (fst pe))) \<longrightarrow> return_form_ok ?S (form_move s pe)"
  proof
    assume ids: "\<forall>pe \<in> E. line_ids_ok (fst (fst pe))"
    then have "line_ids_ok sale" using en pe by force
    moreover have "return_form_ok ?S s" using inv ids by blast
    moreover have "e = PressAdd \<Longrightarrow> sale \<in> ?S" using en pe by auto
    ultimately show "return_form_ok ?S (form_move s pe)"
      using return_step_ok [of sale ?S s b e] en by (simp add: pe form_move_def form_enabled_def line_ids_ok_def)
  qed
qed simp

text \<open>C21: A return never asks for more than its sale had left: whatever is done in the form, and
  whatever sale the page shows in it from one moment to the next, every return it submits has at
  least one line and names each line once; for each there was a press of the button that adds lines at
  which the sale then shown had that line, with no less left to refund and to bring back than is asked
  for; no quantity is negative and the two of a line are not both zero; a lot is named only with goods
  coming back, and the means of the refund exactly when money goes back. What is left of a line may
  have changed since it was added: it is not looked at again.\<close>

theorem return_within_limits:
  assumes run: "run_ok form_enabled form_move return_form_init es"
    and ids: "\<forall>pe \<in> set es. line_ids_ok (fst (fst pe))"
    and factors: "\<forall>pe \<in> set es. \<forall>l \<in> set (rs_lines (fst (fst pe))). JsNum 0 < decimalNumber (rl_package_factor l)"
    and p: "p \<in> set (rf_submitted (foldl form_move return_form_init es))"
  shows "rin_lines p \<noteq> [] \<and> distinct (map ri_sale_line_id (rin_lines p))
    \<and> (\<forall>i \<in> set (rin_lines p).
         (\<exists>sale b. ((sale, b), PressAdd) \<in> set es \<and> (\<exists>l \<in> set (rs_lines sale). rl_id l = ri_sale_line_id i
            \<and> decimalNumber (ri_refund_quantity_packages i) \<le> refundable l
            \<and> decimalNumber (ri_stock_return_quantity_packages i) \<le> returnableToStock l))
         \<and> JsNum 0 \<le> js_Number (ri_refund_quantity_packages i)
         \<and> JsNum 0 \<le> js_Number (ri_stock_return_quantity_packages i)
         \<and> \<not> (js_Number (ri_refund_quantity_packages i) = JsNum 0
              \<and> js_Number (ri_stock_return_quantity_packages i) = JsNum 0)
         \<and> (ri_lot_number i \<noteq> None \<longrightarrow> JsNum 0 < js_Number (ri_stock_return_quantity_packages i)))
    \<and> (rin_refund_method p \<noteq> None
         \<longleftrightarrow> (\<exists>i \<in> set (rin_lines p). JsNum 0 < decimalNumber (ri_refund_quantity_packages i)))"
proof -
  have "return_form_ok {sale. \<exists>b. ((sale, b), PressAdd) \<in> set es} (foldl form_move return_form_init es)"
    using return_dialog.inv_reached [OF reached_run [OF run_ok_within [OF run order_refl]]] ids by blast
  then have ok: "submission_ok {sale. \<exists>b. ((sale, b), PressAdd) \<in> set es} p"
    using p by (auto simp: return_form_ok_def list_all_iff)
  have "decimalNumber v \<le> remainingPackages l w"
    if "((sale, b), e) \<in> set es" "l \<in> set (rs_lines sale)" "\<not> remainingPackages l w < decimalNumber v" for sale b e l v w
    using that factors remainingPackages_number [of l w] decimalNumber_finite [of v]
    by (auto intro!: not_less_jsnum)
  then show ?thesis
    using ok unfolding submission_ok_def line_within_def return_line_ok_def list_all_iff by blast
qed

definition sample_return_line :: "int \<Rightarrow> jsstring \<Rightarrow> jsstring \<Rightarrow> return_sale_line" where
  "sample_return_line i bought refunded =
     \<lparr>rl_id = i, rl_product_id = i, rl_product_sku = js ''P'', rl_product_name = js ''Pan'',
      rl_package_id = i, rl_package_name = js ''UD'', rl_package_factor = js ''1'',
      rl_quantity_packages = bought, rl_quantity_base = bought, rl_quantity_refunded = refunded,
      rl_quantity_physically_returned = refunded, rl_tracks_stock = True, rl_track_lots = False,
      rl_unit_price = js ''1.50'', rl_total = js ''3.00''\<rparr>"

definition sample_return_sale :: "int \<Rightarrow> return_sale_line \<Rightarrow> return_sale" where
  "sample_return_sale i l = \<lparr>rs_id = i, rs_status = js ''COMPLETED'', rs_created_at = [],
     rs_completed_at = None, rs_lines = [l], rs_total = js ''3.00''\<rparr>"

definition bread_line :: return_sale_line where
  "bread_line = sample_return_line 7 (js ''3'') (js ''0'')"

definition bread_sale :: return_sale where
  "bread_sale = sample_return_sale 5 bread_line"

definition return_one :: "(form_props \<times> return_event) list" where
  "return_one = map (Pair (bread_sale, False))
     [SelectLine (js ''7''), PressAdd, MethodIs CARD, PressRegister, PressConfirm]"

lemma bread_quantities:
  "refundable bread_line = JsNum 3
   \<and> returnableToStock bread_line = JsNum 3
   \<and> decimalNumber (rl_package_factor bread_line) = JsNum 1
   \<and> decimalForInput (JsNum 1) = js ''1''
   \<and> decimalString (Some (JsNum 0)) (js ''1'') = Inr (js ''1'')
   \<and> decimalNumber (js ''1'') = JsNum 1
   \<and> js_Number (js ''1'') = JsNum 1
   \<and> js_Number (js ''7'') = JsNum 7
   \<and> int_string 7 = js ''7''"
  by code_simp

lemma bread_fields: "rl_id bread_line = 7" "rs_lines bread_sale = [bread_line]"
  by (simp_all add: bread_line_def bread_sale_def sample_return_line_def sample_return_sale_def)

lemmas return_defs = return_form_init_def return_addLine_def addLineSchema_def line_of_def pendingLines_def
  stagedIds_def reset_fields_def hasEconomicEffect_def return_submit_def return_payload_def

lemma return_one_runs:
  "run_ok form_enabled form_move return_form_init return_one"
  "\<exists>p. rf_submitted (foldl form_move return_form_init return_one) = [p]
      \<and> rin_refund_method p = Some CARD"
  by (simp_all add: return_one_def form_enabled_def form_move_def return_defs bread_quantities bread_fields
      less_jsnum_def Let_def)

lemma return_within_limits_witness:
  "\<exists>p. rf_submitted (foldl form_move return_form_init return_one) = [p]
      \<and> rin_lines p \<noteq> [] \<and> distinct (map ri_sale_line_id (rin_lines p))
      \<and> rin_refund_method p = Some CARD"
proof -
  obtain p where p: "rf_submitted (foldl form_move return_form_init return_one) = [p]"
    "rin_refund_method p = Some CARD" using return_one_runs(2) by blast
  have shown: "fst (fst pe) = bread_sale" if "pe \<in> set return_one" for pe using that by (auto simp: return_one_def)
  have "line_ids_ok bread_sale" by (simp add: line_ids_ok_def bread_fields)
  moreover have "\<forall>l \<in> set (rs_lines bread_sale). JsNum 0 < decimalNumber (rl_package_factor l)"
    by (simp add: bread_fields bread_quantities less_jsnum_def)
  ultimately show ?thesis
    using return_within_limits [OF return_one_runs(1), of p] p shown by simp
qed

text \<open>
  The offered quantity may be refused: of 0.3 kg bought and 0.1 kg refunded the form offers 0.2 when
  the line is chosen, and then says that 0.2 is above the maximum.
\<close>

definition kilo_line :: return_sale_line where
  "kilo_line = sample_return_line 7 (js ''0.3'') (js ''0.1'')"

lemma kilo_quantities:
  "JsNum 0 < refundable kilo_line
   \<and> decimalForInput (js_min (JsNum 1) (refundable kilo_line)) = js ''0.2''
   \<and> refundable kilo_line < decimalNumber (js ''0.2'')
   \<and> decimalString (Some (JsNum 0)) (js ''0.2'') = Inr (js ''0.2'')
   \<and> js_Number (js ''0.2'') \<noteq> JsNum 0"
  by code_simp

lemma offered_quantity_refused:
  "(let sale = sample_return_sale 5 kilo_line;
        s = foldl (return_step sale) return_form_init [SelectLine (js ''7''), PressAdd]
    in rf_refund s = js ''0.2'' \<and> rf_staged s = [] \<and> rf_errors s = [js ''refund_quantity_packages''])"
proof -
  have "rl_id kilo_line = 7" "rs_lines (sample_return_sale 5 kilo_line) = [kilo_line]"
    "rl_quantity_refunded kilo_line = rl_quantity_physically_returned kilo_line"
    by (simp_all add: kilo_line_def sample_return_line_def sample_return_sale_def)
  then show ?thesis
    using kilo_quantities
    by (simp add: return_defs bread_quantities Let_def del: js_min.simps)
qed

end
