(* ===== verification/Returns_Page.thy ===== *)
theory Returns_Page
  imports Returns Pos_Pads
begin

text \<open>
  The two pages that register a return, of the till (\<open>pages/pos/PosReturnsPage.tsx\<close>) and of the back
  office (\<open>pages/admin/ReturnsPage.tsx\<close>), around the form of \<open>Returns\<close>: the search of a sale by its
  number, the answers of the queries, the attempt with its idempotency key and the list of the
  returns of a sale (\<open>returns/ReturnsHistory.tsx\<close>).
\<close>

section \<open>State\<close>

datatype returns_page = PosReturnsPage | ReturnsPage

text \<open>
  The server's sales: a number names the sale \<open>re_sale_of n\<close>, or none yet. The form stays mounted,
  with all it holds, as long as the page goes on drawing it.
\<close>

record returns_env =
  re_page :: returns_page
  re_canManage :: bool
  re_sale_of :: "int \<Rightarrow> int"
  re_uuid :: "nat \<Rightarrow> jsstring"

datatype found_answer = FoundSale int | NoSuchSale | FoundFails

record returns_state =
  rp_input :: jsstring
  rp_keypad :: bool
  rp_number :: "int option"
  rp_found :: "int \<Rightarrow> found_answer option"
  rp_sales :: "int \<Rightarrow> return_sale option"
  rp_error :: "jsstring option"
  rp_success :: bool
  rp_attempt :: "(json \<times> jsstring) option"
  rp_uuids :: nat
  rp_flight :: "(int \<times> return_input \<times> jsstring) option"
  rp_form :: "return_form option"
  rp_sent :: "(int \<times> return_input \<times> jsstring) list"
  rp_stale :: "query_key list list"

definition returns_init :: returns_state where
  "returns_init = \<lparr>rp_input = [], rp_keypad = False, rp_number = None, rp_found = (\<lambda>n. None),
     rp_sales = (\<lambda>i. None), rp_error = None, rp_success = False, rp_attempt = None, rp_uuids = 0,
     rp_flight = None, rp_form = None, rp_sent = [], rp_stale = []\<rparr>"

definition returns_saleId :: "returns_state \<Rightarrow> int option" where
  "returns_saleId s =
     (case Option.bind (rp_number s) (rp_found s) of Some (FoundSale i) \<Rightarrow> Some i | _ \<Rightarrow> None)"

definition returns_sale :: "returns_state \<Rightarrow> return_sale option" where
  "returns_sale s = Option.bind (returns_saleId s) (rp_sales s)"

definition form_shown :: "returns_env \<Rightarrow> returns_state \<Rightarrow> bool" where
  "form_shown env s \<longleftrightarrow> re_canManage env
     \<and> (case returns_sale s of Some sale \<Rightarrow> rs_status sale = js ''COMPLETED'' | None \<Rightarrow> False)"

text \<open>A query that is not enabled and has no data counts as pending.\<close>

definition returns_messages :: "returns_state \<Rightarrow> jsstring list" where
  "returns_messages s =
     (case rp_number s of
        None \<Rightarrow> []
      | Some n \<Rightarrow>
          (if rp_found s n = None \<or> returns_sale s = None then [js ''Buscando'' @ [8230]] else [])
          @ (if rp_found s n \<in> {Some NoSuchSale, Some FoundFails}
             then [js ''No se ha encontrado la venta #'' @ int_string n @ js ''.''] else []))"

section \<open>Handlers\<close>

text \<open>The fingerprint of an attempt is the text of its payload, given here by the payload's JSON.\<close>

definition returns_search :: "returns_env \<Rightarrow> returns_state \<Rightarrow> returns_state" where
  "returns_search env s =
     (let number = js_Number (rp_input s) in
      if \<not> js_is_integer number \<or> number \<le> JsNum 0 then s
      else s\<lparr>rp_attempt := None,
             rp_error := (if re_page env = PosReturnsPage then None else rp_error s),
             rp_success := False, rp_number := Some (js_int number)\<rparr>)"

definition returnToReturnsPanel :: "returns_state \<Rightarrow> returns_state" where
  "returnToReturnsPanel s = s\<lparr>rp_attempt := None, rp_error := None, rp_success := False,
     rp_number := None, rp_input := []\<rparr>"

definition onSubmit :: "returns_env \<Rightarrow> returns_state \<Rightarrow> return_input \<Rightarrow> returns_state" where
  "onSubmit env s payload =
     (let fp = return_input_json payload;
          (key, uuids) = (case rp_attempt s of
              Some (old, k) \<Rightarrow> if old = fp then (k, rp_uuids s)
                else (re_uuid env (rp_uuids s), Suc (rp_uuids s))
            | None \<Rightarrow> (re_uuid env (rp_uuids s), Suc (rp_uuids s)))
      in s\<lparr>rp_success := False, rp_attempt := Some (fp, key), rp_uuids := uuids,
           rp_flight := Some (the (returns_saleId s), payload, key),
           rp_sent := rp_sent s @ [(the (returns_saleId s), payload, key)]\<rparr>)"

definition returns_onSuccess :: "returns_env \<Rightarrow> returns_state \<Rightarrow> returns_state" where
  "returns_onSuccess env s =
     s\<lparr>rp_flight := None, rp_attempt := None, rp_error := None, rp_success := True,
       rp_stale := rp_stale s
         @ [[KStr (js ''returns''), KStr (js ''sale''), key_or_null (returns_saleId s)],
            [KStr (js ''returns''), KStr (js ''by-sale''), key_or_null (returns_saleId s)]]
         @ (if re_page env = PosReturnsPage
            then [[KStr (js ''sales''), KStr (js ''by-number''), key_or_null (rp_number s)]] else [])\<rparr>"

definition returns_onError :: "returns_env \<Rightarrow> failure \<Rightarrow> returns_state \<Rightarrow> returns_state" where
  "returns_onError env e s =
     s\<lparr>rp_flight := None,
       rp_success := (if re_page env = PosReturnsPage then False else rp_success s),
       rp_error := Some (case e of ApiFailure a \<Rightarrow> ae_message a
         | OtherFailure m \<Rightarrow> js ''No se ha podido registrar la devoluci'' @ [243] @ js ''n.'')\<rparr>"

section \<open>Events\<close>

datatype returns_event =
    NumberTyped jsstring
  | SaleNumberSearch
  | KeypadOpens
  | KeypadSearch
  | KeypadCancels
  | FoundIs int found_answer
  | SaleIs return_sale
  | FormEvent return_event
  | ReturnAnswer "failure + return_record"
  | BackToPanel

fun returns_handle :: "returns_env \<Rightarrow> returns_state \<Rightarrow> returns_event \<Rightarrow> returns_state" where
  "returns_handle env s (NumberTyped v) = s\<lparr>rp_input := v\<rparr>"
| "returns_handle env s SaleNumberSearch = returns_search env s"
| "returns_handle env s KeypadOpens = s\<lparr>rp_keypad := True\<rparr>"
| "returns_handle env s KeypadSearch = (returns_search env s)\<lparr>rp_keypad := False\<rparr>"
| "returns_handle env s KeypadCancels = s\<lparr>rp_keypad := False\<rparr>"
| "returns_handle env s (FoundIs n r) = s\<lparr>rp_found := (rp_found s)(n \<mapsto> r)\<rparr>"
| "returns_handle env s (SaleIs sale) = s\<lparr>rp_sales := (rp_sales s)(rs_id sale \<mapsto> sale)\<rparr>"
| "returns_handle env s (FormEvent e) =
     (case (rp_form s, returns_sale s) of
        (Some form, Some sale) \<Rightarrow>
          (let s1 = s\<lparr>rp_form := Some (return_step sale form e)\<rparr> in
           if e = PressConfirm \<and> rf_staged form \<noteq> [] then onSubmit env s1 (return_payload form) else s1)
      | _ \<Rightarrow> s)"
| "returns_handle env s (ReturnAnswer (Inr r)) = returns_onSuccess env s"
| "returns_handle env s (ReturnAnswer (Inl e)) = returns_onError env e s"
| "returns_handle env s BackToPanel = returnToReturnsPanel s"

text \<open>
  After every event the page is drawn again: the form is mounted, kept or dropped, and a success
  that has just come clears it.
\<close>

definition returns_draw :: "returns_env \<Rightarrow> returns_state \<Rightarrow> returns_state \<Rightarrow> returns_state" where
  "returns_draw env before s =
     s\<lparr>rp_form :=
         (if \<not> form_shown env s then None
          else case (rp_form s, returns_sale s) of
            (Some form, Some sale) \<Rightarrow>
              Some (if rp_success s \<and> \<not> rp_success before then return_step sale form SubmissionSucceeded
                    else form)
          | _ \<Rightarrow> Some return_form_init)\<rparr>"

definition returns_move :: "returns_env \<Rightarrow> returns_state \<Rightarrow> returns_event \<Rightarrow> returns_state" where
  "returns_move env s e = returns_draw env s (returns_handle env s e)"

fun returns_enabled :: "returns_env \<Rightarrow> returns_state \<Rightarrow> returns_event \<Rightarrow> bool" where
  "returns_enabled env s KeypadOpens = (re_page env = PosReturnsPage)"
| "returns_enabled env s KeypadSearch =
     (rp_keypad s \<and> js_is_integer (js_Number (rp_input s)) \<and> JsNum 0 < js_Number (rp_input s))"
| "returns_enabled env s KeypadCancels = rp_keypad s"
| "returns_enabled env s (FoundIs n r) =
     (rp_number s = Some n \<and> (\<forall>i. r = FoundSale i \<longrightarrow> i = re_sale_of env n))"
| "returns_enabled env s (SaleIs sale) = (returns_saleId s = Some (rs_id sale))"
| "returns_enabled env s (FormEvent e) =
     (e \<noteq> SubmissionSucceeded
      \<and> (case (rp_form s, returns_sale s) of
           (Some form, Some sale) \<Rightarrow> return_enabled sale (rp_flight s \<noteq> None) form e
         | _ \<Rightarrow> False))"
| "returns_enabled env s (ReturnAnswer r) = (rp_flight s \<noteq> None)"
| "returns_enabled env s BackToPanel = (rp_success s \<and> form_shown env s)"
| "returns_enabled env s e = True"

section \<open>The returns of a sale\<close>

text \<open>
  What the history writes for a return and for each of its lines; the date format of the browser is
  a parameter.
\<close>

definition history_heading :: "date_time_format \<Rightarrow> jsstring \<Rightarrow> return_record \<Rightarrow> jsstring" where
  "history_heading dt zone r =
     (let dot = [cu_space, 183, cu_space] in
      formatBusinessDateTime dt (ret_created_at r) zone
      @ (case ret_refund r of
           Some f \<Rightarrow> dot @ js ''reembolso '' @ formatMoney (rfd_amount f) @ dot
             @ (case rfd_method f of Some m \<Rightarrow> method_name m
                | None \<Rightarrow> js ''medio hist'' @ [243] @ js ''rico no disponible'')
             @ dot @ js ''completado''
         | None \<Rightarrow> dot @ js ''sin reembolso econ'' @ [243] @ js ''mico'')
      @ (if ret_notes r \<noteq> [] then dot @ ret_notes r else []))"

definition history_line :: "return_line \<Rightarrow> jsstring" where
  "history_line l =
     (let dot = [cu_space, 183, cu_space] in
      rtl_product_name l @ dot @ js ''devuelto '' @ formatQuantity (rtl_refund_quantity_packages l)
      @ [cu_space] @ rtl_package_name l
      @ dot @ js ''repuesto '' @ formatQuantity (rtl_stock_return_quantity_packages l)
      @ [cu_space] @ rtl_package_name l
      @ (if JsNum 0 < js_Number (rtl_refund_quantity_packages l)
         then dot @ js ''importe '' @ formatMoney (rtl_refund_amount l) else [])
      @ (case rtl_lot_number l of Some lot \<Rightarrow> if lot \<noteq> [] then dot @ js ''lote '' @ lot else [] | None \<Rightarrow> []))"

datatype returns_history =
    HistoryLoading
  | HistoryFailed
  | HistoryEmpty
  | HistoryRows "(jsstring \<times> jsstring list) list"

definition returnsHistory ::
  "date_time_format \<Rightarrow> jsstring \<Rightarrow> (failure + return_record list) option \<Rightarrow> returns_history" where
  "returnsHistory dt zone answer =
     (case answer of
        None \<Rightarrow> HistoryLoading
      | Some (Inl e) \<Rightarrow> HistoryFailed
      | Some (Inr rs) \<Rightarrow>
          if rs = [] then HistoryEmpty
          else HistoryRows (map (\<lambda>r. (history_heading dt zone r, map history_line (ret_lines r))) rs))"

section \<open>One key, one return\<close>

definition return_keys_ok :: "returns_env \<Rightarrow> returns_state \<Rightarrow> bool" where
  "return_keys_ok env s \<longleftrightarrow>
     (\<forall>(i, p, k) \<in> set (rp_sent s). k \<in> re_uuid env ` {..<rp_uuids s}
        \<and> (\<forall>(j, q, k') \<in> set (rp_sent s). k' = k \<longrightarrow> j = i \<and> return_input_json q = return_input_json p))
     \<and> (\<forall>fp k. rp_attempt s = Some (fp, k) \<longrightarrow> k \<in> re_uuid env ` {..<rp_uuids s}
        \<and> (\<forall>(i, p, k') \<in> set (rp_sent s). k' = k \<longrightarrow>
             return_input_json p = fp \<and> rp_number s \<noteq> None \<and> i = re_sale_of env (the (rp_number s))))
     \<and> (\<forall>n i. rp_found s n = Some (FoundSale i) \<longrightarrow> i = re_sale_of env n)"

lemma return_keys_ok_cong:
  assumes "rp_sent s' = rp_sent s" "rp_uuids s' = rp_uuids s" "rp_found s' = rp_found s"
    and "rp_attempt s' = None \<or> rp_attempt s' = rp_attempt s \<and> rp_number s' = rp_number s"
    and "return_keys_ok env s"
  shows "return_keys_ok env s'"
  using assms(4,5) unfolding return_keys_ok_def assms(1-3) by auto

lemma returns_saleId_of:
  "return_keys_ok env s \<Longrightarrow> returns_saleId s = Some i
     \<Longrightarrow> rp_number s \<noteq> None \<and> i = re_sale_of env (the (rp_number s))"
  by (auto simp: returns_saleId_def return_keys_ok_def split: option.splits found_answer.splits
      bind_splits)

lemma fresh_key:
  assumes "\<forall>(i, p, k) \<in> S. k \<in> K \<and> (\<forall>(j, q, k') \<in> S. k' = k \<longrightarrow> j = i \<and> f q = f p)" and "new \<notin> K"
  shows "\<forall>(i, p, k) \<in> insert (i, p, new) S. k \<in> insert new K
    \<and> (\<forall>(j, q, k') \<in> insert (i, p, new) S. k' = k \<longrightarrow> j = i \<and> f q = f p)"
  using assms by fast

lemma onSubmit_keys:
  assumes "return_keys_ok env s" and "inj (re_uuid env)" and "returns_saleId s = Some i"
  shows "return_keys_ok env (onSubmit env s payload)"
proof -
  have n: "rp_number s \<noteq> None" "i = re_sale_of env (the (rp_number s))"
    using returns_saleId_of assms(1,3) by auto
  have new: "re_uuid env (rp_uuids s) \<notin> re_uuid env ` {..<rp_uuids s}"
    using assms(2) by (auto dest: injD)
  have more: "re_uuid env ` {..<Suc m} = insert (re_uuid env m) (re_uuid env ` {..<m})" for m
    by (simp add: lessThan_Suc)
  consider (old) k where "rp_attempt s = Some (return_input_json payload, k)"
    | (fresh) "\<nexists>k. rp_attempt s = Some (return_input_json payload, k)" by blast
  then show ?thesis
  proof cases
    case (old k)
    then show ?thesis
      using assms(1,3) n by (auto simp: return_keys_ok_def onSubmit_def)
  next
    case fresh
    then have "onSubmit env s payload = s\<lparr>rp_success := False,
        rp_attempt := Some (return_input_json payload, re_uuid env (rp_uuids s)),
        rp_uuids := Suc (rp_uuids s),
        rp_flight := Some (i, payload, re_uuid env (rp_uuids s)),
        rp_sent := rp_sent s @ [(i, payload, re_uuid env (rp_uuids s))]\<rparr>"
      using assms(3) by (auto simp: onSubmit_def Let_def split: option.splits prod.splits)
    moreover have "return_keys_ok env (s\<lparr>rp_success := False,
        rp_attempt := Some (return_input_json payload, re_uuid env (rp_uuids s)),
        rp_uuids := Suc (rp_uuids s),
        rp_flight := Some (i, payload, re_uuid env (rp_uuids s)),
        rp_sent := rp_sent s @ [(i, payload, re_uuid env (rp_uuids s))]\<rparr>)"
      using assms(1) n new fresh_key [OF _ new, of "set (rp_sent s)" return_input_json i payload]
      unfolding return_keys_ok_def more by (auto simp: more)
    ultimately show ?thesis by simp
  qed
qed

lemma returns_handle_keys:
  assumes "return_keys_ok env s" and "inj (re_uuid env)" and "returns_enabled env s e"
  shows "return_keys_ok env (returns_handle env s e)"
proof (cases "(env, s, e)" rule: returns_handle.cases)
  case (6 env' s' n r)
  then show ?thesis using assms by (auto simp: return_keys_ok_def split: option.splits)
next
  case (8 env' s' ev)
  then obtain form sale where fs: "rp_form s = Some form" "returns_sale s = Some sale"
    using assms(3) by (auto split: option.splits)
  then obtain i where i: "returns_saleId s = Some i"
    by (auto simp: returns_sale_def bind_eq_Some_conv)
  let ?s = "s\<lparr>rp_form := Some (return_step sale form ev)\<rparr>"
  have "return_keys_ok env ?s" "returns_saleId ?s = Some i"
    using assms(1) i by (auto intro: return_keys_ok_cong simp: returns_saleId_def)
  then have "return_keys_ok env (onSubmit env ?s (return_payload form))"
    using assms(2) onSubmit_keys by blast
  with \<open>return_keys_ok env ?s\<close> show ?thesis
    using 8 fs by (cases "ev = PressConfirm \<and> rf_staged form \<noteq> []") (auto simp: Let_def simp del: return_step.simps)
qed (use assms(1) in \<open>auto simp: returns_search_def returnToReturnsPanel_def returns_onSuccess_def
      returns_onError_def Let_def intro: return_keys_ok_cong\<close>)

lemma returns_draw_keeps [simp]:
  "rp_sent (returns_draw env b s) = rp_sent s" "rp_uuids (returns_draw env b s) = rp_uuids s"
  "rp_found (returns_draw env b s) = rp_found s" "rp_attempt (returns_draw env b s) = rp_attempt s"
  "rp_number (returns_draw env b s) = rp_number s"
  by (simp_all add: returns_draw_def)

lemma returns_move_keys:
  assumes "return_keys_ok env s" and "inj (re_uuid env)" and "returns_enabled env s e"
  shows "return_keys_ok env (returns_move env s e)"
  unfolding returns_move_def
  by (rule return_keys_ok_cong [OF _ _ _ _ returns_handle_keys [OF assms]])
    (simp_all del: returns_handle.simps)

interpretation returns_pages: event_machine "returns_enabled env" "returns_move env" returns_init
    "\<lambda>s. inj (re_uuid env) \<longrightarrow> return_keys_ok env s"
  for env
proof unfold_locales
  show "inj (re_uuid env) \<longrightarrow> return_keys_ok env returns_init"
    by (simp add: return_keys_ok_def returns_init_def)
qed (blast intro: returns_move_keys)

text \<open>C22: A key registers one return: in every state the page can be in, two requests sent with the same
  idempotency key are the same request, of the same sale and with the same body, whatever was
  searched, edited, answered and retried in between, provided \<open>randomUUID\<close> never repeats a value.\<close>

theorem one_key_one_return:
  assumes "inj (re_uuid env)" and "reached (returns_enabled env) (returns_move env) returns_init s"
    and "(i, p, k) \<in> set (rp_sent s)" and "(j, q, k) \<in> set (rp_sent s)"
  shows "createReturn i p k = createReturn j q k"
proof -
  have "return_keys_ok env s"
    using returns_pages.inv_reached [OF assms(2)] assms(1) by simp
  then have "\<forall>(i, p, k) \<in> set (rp_sent s). \<forall>(j, q, k') \<in> set (rp_sent s).
      k' = k \<longrightarrow> j = i \<and> return_input_json q = return_input_json p"
    by (fastforce simp: return_keys_ok_def)
  from bspec [OF this assms(3)] have "\<forall>(j, q, k') \<in> set (rp_sent s).
      k' = k \<longrightarrow> j = i \<and> return_input_json q = return_input_json p" by simp
  from bspec [OF this assms(4)] have "j = i \<and> return_input_json q = return_input_json p" by simp
  then show ?thesis by (simp add: createReturn_def)
qed

text \<open>What ends an attempt: searching, going back, success, and confirming another return.\<close>

fun ends_attempt :: "returns_event \<Rightarrow> bool" where
  "ends_attempt SaleNumberSearch = True"
| "ends_attempt KeypadSearch = True"
| "ends_attempt BackToPanel = True"
| "ends_attempt (ReturnAnswer (Inr r)) = True"
| "ends_attempt (FormEvent PressConfirm) = True"
| "ends_attempt e = False"

lemma returns_move_attempt:
  assumes "\<not> ends_attempt e"
  shows "rp_attempt (returns_move env s e) = rp_attempt s"
proof -
  have "rp_attempt (returns_handle env s e) = rp_attempt s"
    using assms by (cases "(env, s, e)" rule: returns_handle.cases)
      (auto simp: returns_onError_def Let_def split: option.splits)
  then show ?thesis by (simp add: returns_move_def del: returns_handle.simps)
qed

text \<open>A retried return repeats its key: while nothing but failures of the server, edits of the form
  and other answers happen, confirming the same return again sends the request of the attempt with
  the very key it had.\<close>

lemma return_retry_repeats_key:
  assumes "rp_attempt s = Some (return_input_json p, k)" and "\<forall>e \<in> set es. \<not> ends_attempt e"
    and "t = foldl (returns_move env) s es" and "returns_enabled env t (FormEvent PressConfirm)"
    and "rp_form t = Some form" and "rf_staged form \<noteq> []" and "return_payload form = p"
  shows "\<exists>i. returns_saleId t = Some i
    \<and> rp_sent (returns_move env t (FormEvent PressConfirm)) = rp_sent t @ [(i, p, k)]"
proof -
  have "rp_attempt t = Some (return_input_json p, k)"
    using assms(1,2) unfolding assms(3)
    by (induction es rule: rev_induct) (auto simp: returns_move_attempt)
  moreover obtain sale where "returns_sale t = Some sale"
    using assms(4,5) by (auto split: option.splits)
  moreover from this obtain i where "returns_saleId t = Some i"
    by (auto simp: returns_sale_def bind_eq_Some_conv)
  ultimately show ?thesis
    using assms(5-7) by (auto simp: returns_move_def onSubmit_def Let_def returns_saleId_def)
qed

text \<open>A number that is not a sale leaves the page searching for ever, beside the message that says so.\<close>

lemma not_found_still_searching:
  "rp_number s = Some n \<Longrightarrow> rp_found s n = Some NoSuchSale \<Longrightarrow>
     returns_messages s = [js ''Buscando'' @ [8230],
       js ''No se ha encontrado la venta #'' @ int_string n @ js ''.'']"
  by (simp add: returns_messages_def returns_sale_def returns_saleId_def)

definition sample_returns_env :: returns_env where
  "sample_returns_env = \<lparr>re_page = PosReturnsPage, re_canManage = True, re_sale_of = (\<lambda>n. n + 4),
     re_uuid = nat_digits\<rparr>"

definition find_bread :: "returns_event list" where
  "find_bread = [NumberTyped (js ''1''), SaleNumberSearch, FoundIs 1 (FoundSale 5), SaleIs bread_sale]"

definition stage_bread :: "returns_event list" where
  "stage_bread = map FormEvent [SelectLine (js ''7''), PressAdd, PressRegister]"

definition bread_payload :: return_input where
  "bread_payload = \<lparr>rin_notes = [],
     rin_lines = [\<lparr>ri_sale_line_id = 7, ri_refund_quantity_packages = js ''1'',
       ri_stock_return_quantity_packages = js ''1'', ri_lot_number = None\<rparr>],
     rin_refund_method = Some CASH\<rparr>"

lemmas returns_page_defs = returns_init_def sample_returns_env_def returns_move_def returns_draw_def
  form_shown_def returns_sale_def returns_saleId_def returns_search_def bread_quantities bread_fields
  less_jsnum_def less_eq_jsnum_def Let_def

lemma bread_head: "rs_status bread_sale = js ''COMPLETED''" "rs_id bread_sale = 5"
  by (simp_all add: bread_sale_def sample_return_sale_def)

definition bread_staged :: returns_state where
  "bread_staged = returns_init\<lparr>rp_input := js ''1'', rp_number := Some 1, rp_found := [1 \<mapsto> FoundSale 5],
     rp_sales := [5 \<mapsto> bread_sale], rp_form := Some (return_form_init\<lparr>
       rf_staged := [\<lparr>ri_sale_line_id = 7, ri_refund_quantity_packages = js ''1'',
         ri_stock_return_quantity_packages = js ''1'', ri_lot_number = None,
         st_label = return_label bread_line\<rparr>], rf_confirming := True\<rparr>)\<rparr>"

lemma find_bread_run:
  "run_ok (returns_enabled sample_returns_env) (returns_move sample_returns_env) returns_init
     (find_bread @ stage_bread)"
  "foldl (returns_move sample_returns_env) returns_init (find_bread @ stage_bread) = bread_staged"
  by (simp_all add: find_bread_def stage_bread_def bread_staged_def returns_page_defs bread_head return_defs)

definition retry_bread :: "returns_event list" where
  "retry_bread = [FormEvent PressConfirm, ReturnAnswer (Inl (OtherFailure [])), FormEvent PressRegister]"

lemma retry_bread_run:
  "run_ok (returns_enabled sample_returns_env) (returns_move sample_returns_env) bread_staged
     (retry_bread @ [FormEvent PressConfirm])"
  "rp_sent (foldl (returns_move sample_returns_env) bread_staged (retry_bread @ [FormEvent PressConfirm]))
     = [(5, bread_payload, nat_digits 0), (5, bread_payload, nat_digits 0)]"
  by (simp_all add: retry_bread_def bread_staged_def bread_payload_def returns_page_defs bread_head
      return_defs onSubmit_def returns_onError_def return_line_input.truncate_def)

lemma sample_returns_inj: "inj (re_uuid sample_returns_env)"
  by (auto simp: sample_returns_env_def inj_def inj_nat_digits)

lemma one_key_one_return_witness:
  "createReturn 5 bread_payload (nat_digits 0) = createReturn 5 bread_payload (nat_digits 0)
    \<and> length (rp_sent (foldl (returns_move sample_returns_env) bread_staged
          (retry_bread @ [FormEvent PressConfirm]))) = 2"
proof -
  let ?s = "foldl (returns_move sample_returns_env) bread_staged (retry_bread @ [FormEvent PressConfirm])"
  have "reached (returns_enabled sample_returns_env) (returns_move sample_returns_env) returns_init ?s"
    using reached_run [OF find_bread_run(1)] retry_bread_run(1) unfolding find_bread_run(2)
    by (rule reached_run_from)
  note one = one_key_one_return [OF sample_returns_inj this, of 5 bread_payload "nat_digits 0" 5 bread_payload]
  then show ?thesis by (simp only: retry_bread_run(2)) simp
qed

lemma return_retry_repeats_key_witness:
  "\<exists>i. rp_sent (foldl (returns_move sample_returns_env) bread_staged (retry_bread @ [FormEvent PressConfirm]))
     = [(5, bread_payload, nat_digits 0), (i, bread_payload, nat_digits 0)]"
proof -
  let ?env = sample_returns_env
  let ?s = "returns_move ?env bread_staged (FormEvent PressConfirm)"
  let ?es = "[ReturnAnswer (Inl (OtherFailure [])), FormEvent PressRegister]"
  note defs = retry_bread_def bread_staged_def bread_payload_def returns_page_defs bread_head
      return_defs onSubmit_def returns_onError_def return_line_input.truncate_def
  have "rp_attempt ?s = Some (return_input_json bread_payload, nat_digits 0)"
    by (simp add: defs)
  moreover have "\<forall>e \<in> set ?es. \<not> ends_attempt e" by simp
  moreover have "returns_enabled ?env (foldl (returns_move ?env) ?s ?es) (FormEvent PressConfirm)"
    using retry_bread_run(1) by (simp add: retry_bread_def del: returns_enabled.simps)
  moreover have "\<exists>form. rp_form (foldl (returns_move ?env) ?s ?es) = Some form \<and> rf_staged form \<noteq> []
      \<and> return_payload form = bread_payload"
    by (simp add: defs)
  ultimately obtain i where "rp_sent (returns_move ?env (foldl (returns_move ?env) ?s ?es) (FormEvent PressConfirm))
      = rp_sent (foldl (returns_move ?env) ?s ?es) @ [(i, bread_payload, nat_digits 0)]"
    using return_retry_repeats_key [OF _ _ refl] by blast
  moreover have "rp_sent (foldl (returns_move ?env) ?s ?es) = [(5, bread_payload, nat_digits 0)]"
    by (simp add: defs)
  ultimately show ?thesis by (simp add: retry_bread_def)
qed

text \<open>
  The form is not tied to its sale: when both sales have been seen before, a line chosen for the
  first is still there after searching the second, and is sent as a return of the second.
\<close>

definition other_sale :: return_sale where
  "other_sale = sample_return_sale 6 bread_line\<lparr>rs_lines := []\<rparr>"

definition both_seen :: returns_state where
  "both_seen = bread_staged\<lparr>rp_found := [1 \<mapsto> FoundSale 5, 2 \<mapsto> FoundSale 6],
     rp_sales := [5 \<mapsto> bread_sale, 6 \<mapsto> other_sale]\<rparr>"

definition switch_sale :: "returns_event list" where
  "switch_sale = [FormEvent PressDontConfirm, NumberTyped (js ''2''), SaleNumberSearch,
     FormEvent PressRegister, FormEvent PressConfirm]"

lemma other_sale_facts: "js_Number (js ''2'') = JsNum 2"
  "rs_id other_sale = 6" "rs_lines other_sale = []" "rs_status other_sale = js ''COMPLETED''"
proof -
  show "js_Number (js ''2'') = JsNum 2" by code_simp
qed (simp_all add: other_sale_def sample_return_sale_def)

lemma staged_line_sent_for_other_sale:
  "run_ok (returns_enabled sample_returns_env) (returns_move sample_returns_env) both_seen switch_sale"
  "rp_sent (foldl (returns_move sample_returns_env) both_seen switch_sale) = [(6, bread_payload, nat_digits 0)]"
  by (simp_all add: both_seen_def switch_sale_def bread_staged_def bread_payload_def returns_page_defs
      bread_head return_defs other_sale_facts onSubmit_def return_line_input.truncate_def)

end
