(* ===== verification/Sessions.thy ===== *)
theory Sessions
  imports Pos_Model Lib_Formats
begin

text \<open>
  Who is signed in: the calls of \<open>auth/api.ts\<close> and the password calls of \<open>users/api.ts\<close>, the two
  session providers (\<open>AuthProvider.tsx\<close>, \<open>PosAuthProvider.tsx\<close>), and the screens that sign in
  (\<open>LoginPage.tsx\<close>, \<open>PosLoginPage.tsx\<close>) or change a password.
\<close>

section \<open>Calls\<close>

record me =
  me_id :: int
  me_email :: jsstring
  me_full_name :: jsstring
  me_role :: jsstring
  me_permissions :: "jsstring list"
  me_must_change_password :: bool

record pos_login_user =
  plu_id :: int
  plu_full_name :: jsstring
  plu_username :: jsstring

record auth_session =
  as_id :: int
  as_created_at :: jsstring
  as_last_seen_at :: jsstring
  as_expires_at :: jsstring
  as_user_agent :: "jsstring option"
  as_ip :: "jsstring option"
  as_is_current :: bool

definition adminSessionHeaders :: headers where
  "adminSessionHeaders = [(js ''X-OpenERP-Session-Surface'', js ''admin'')]"

definition posSessionHeaders :: headers where
  "posSessionHeaders = [(js ''X-OpenERP-Session-Surface'', js ''pos'')]"

definition meQuery :: query_options where
  "meQuery = \<lparr>q_key = [KStr (js ''auth''), KStr (js ''me'')],
     q_call = send_call GET (js ''/auth/me'') adminSessionHeaders None, q_enabled = True\<rparr>"

definition posMeQuery :: query_options where
  "posMeQuery = \<lparr>q_key = [KStr (js ''auth''), KStr (js ''pos''), KStr (js ''me'')],
     q_call = send_call GET (js ''/auth/pos/me'') posSessionHeaders None, q_enabled = True\<rparr>"

text \<open>The query function of both: a 401 is the answer "signed out", other failures stay failures.\<close>

definition me_answer :: "failure + me \<Rightarrow> failure + me option" where
  "me_answer r =
     (case r of
        Inr m \<Rightarrow> Inr (Some m)
      | Inl (ApiFailure e) \<Rightarrow> if isUnauthenticated e then Inr None else Inl (ApiFailure e)
      | Inl e \<Rightarrow> Inl e)"

definition auth_login :: "jsstring \<Rightarrow> jsstring \<Rightarrow> api_call" where
  "auth_login email password = send_call POST (js ''/auth/login'') adminSessionHeaders
     (Some (JObj [(js ''email'', JStr email), (js ''password'', JStr password)]))"

definition auth_logout :: api_call where
  "auth_logout = send_call POST (js ''/auth/logout'') adminSessionHeaders None"

definition posLogin :: "jsstring \<Rightarrow> jsstring \<Rightarrow> api_call" where
  "posLogin username pin = send_call POST (js ''/auth/pos/login'') posSessionHeaders
     (Some (JObj [(js ''username'', JStr username), (js ''pin'', JStr pin)]))"

definition posLoginUsersQuery :: query_options where
  "posLoginUsersQuery =
     \<lparr>q_key = [KStr (js ''auth''), KStr (js ''pos''), KStr (js ''login-users'')],
      q_call = send_call GET (js ''/auth/pos/users'') posSessionHeaders None, q_enabled = True\<rparr>"

definition posLogout :: api_call where
  "posLogout = send_call POST (js ''/auth/pos/logout'') posSessionHeaders None"

definition mySessionsQuery :: query_options where
  "mySessionsQuery = \<lparr>q_key = [KStr (js ''auth''), KStr (js ''sessions'')],
     q_call = get_call (js ''/auth/sessions''), q_enabled = True\<rparr>"

definition revokeSession :: "int \<Rightarrow> api_call" where
  "revokeSession sessionId = send_call DELETE (js ''/auth/sessions/'' @ int_string sessionId) [] None"

text \<open>A session can be closed from the list unless it is the one in use.\<close>

definition session_revocable :: "bool \<Rightarrow> auth_session \<Rightarrow> bool" where
  "session_revocable isPending s \<longleftrightarrow> \<not> as_is_current s \<and> \<not> isPending"

definition session_row :: "auth_session \<Rightarrow> jsstring \<times> jsstring" where
  "session_row s =
     (let or_dash = (\<lambda>v. case v of Some t \<Rightarrow> t | None \<Rightarrow> [8212]) in
      (or_dash (as_user_agent s), or_dash (as_ip s)))"

definition changeMyPassword :: "jsstring \<Rightarrow> jsstring \<Rightarrow> api_call" where
  "changeMyPassword currentPassword newPassword = send_call POST (js ''/users/me/password'') []
     (Some (JObj [(js ''current_password'', JStr currentPassword), (js ''new_password'', JStr newPassword)]))"

section \<open>Providers\<close>

text \<open>
  What a provider knows of its visitor: nothing yet, the answer, or (after a failure) nothing at
  all. The context's \<open>user\<close> is falsy in the last case and when signed out.
\<close>

datatype auth_data = AuthPending | AuthIs "me option" | AuthFailed

fun auth_user :: "auth_data \<Rightarrow> me option" where
  "auth_user (AuthIs u) = u"
| "auth_user _ = None"

definition auth_isLoading :: "auth_data \<Rightarrow> bool" where
  "auth_isLoading a \<longleftrightarrow> a = AuthPending"

definition hasPermission :: "auth_data \<Rightarrow> jsstring \<Rightarrow> bool" where
  "hasPermission a key = (case auth_user a of Some m \<Rightarrow> key \<in> set (me_permissions m) | None \<Rightarrow> False)"

text \<open>
  What happens to a session: the answer of its query (a failed refresh keeps the data it had),
  signing in and out, and a password changed.
\<close>

datatype auth_event =
    MeAnswered "failure + me"
  | LoginAnswered "failure + me"
  | LogoutAnswered "failure + unit"
  | MarkPasswordChanged

fun auth_step :: "auth_data \<Rightarrow> auth_event \<Rightarrow> auth_data" where
  "auth_step a (MeAnswered r) =
     (case me_answer r of Inr u \<Rightarrow> AuthIs u | Inl e \<Rightarrow> (case a of AuthIs u \<Rightarrow> AuthIs u | _ \<Rightarrow> AuthFailed))"
| "auth_step a (LoginAnswered (Inr m)) = AuthIs (Some m)"
| "auth_step a (LoginAnswered (Inl e)) = a"
| "auth_step a (LogoutAnswered (Inr u)) = AuthIs None"
| "auth_step a (LogoutAnswered (Inl e)) = a"
| "auth_step a MarkPasswordChanged =
     (case a of AuthIs (Some m) \<Rightarrow> AuthIs (Some (m\<lparr>me_must_change_password := False\<rparr>)) | _ \<Rightarrow> a)"

section \<open>Signing in\<close>

definition loginSchema :: "jsstring \<Rightarrow> jsstring \<Rightarrow> jsstring list" where
  "loginSchema email password =
     (if email = [] then [js ''email''] else []) @ (if password = [] then [js ''password''] else [])"

text \<open>Where signing in leads, given where the guard sent the visitor from.\<close>

definition login_target :: "jsstring list option \<Rightarrow> me \<Rightarrow> jsstring list" where
  "login_target from user =
     (if me_must_change_password user then [js ''change-password'']
      else case from of Some p \<Rightarrow> p | None \<Rightarrow> [])"

definition login_error :: "failure \<Rightarrow> jsstring" where
  "login_error e =
     (if (case e of ApiFailure a \<Rightarrow> isUnauthenticated a | _ \<Rightarrow> False)
      then js ''Email o contrase'' @ [241] @ js ''a incorrectos.''
      else js ''No se ha podido iniciar sesi'' @ [243] @ js ''n. Int'' @ [233] @ js ''ntalo de nuevo.'')"

subsection \<open>The till\<close>

datatype pin_key = PinDigit nat | PinBack | PinClear

record pos_login =
  pl_username :: jsstring
  pl_pin :: jsstring
  pl_error :: "jsstring option"
  pl_pending :: bool
  pl_sent :: "api_call list"

definition pos_login_init :: pos_login where
  "pos_login_init = \<lparr>pl_username = [], pl_pin = [], pl_error = None, pl_pending = False, pl_sent = []\<rparr>"

fun pin_press :: "pos_login \<Rightarrow> pin_key \<Rightarrow> pos_login" where
  "pin_press s PinBack = s\<lparr>pl_pin := js_slice 0 (- 1) (pl_pin s)\<rparr>"
| "pin_press s PinClear = s\<lparr>pl_pin := []\<rparr>"
| "pin_press s (PinDigit d) = (if length (pl_pin s) < 12 then s\<lparr>pl_pin := pl_pin s @ [d]\<rparr> else s)"

definition pos_login_submit :: "pos_login \<Rightarrow> pos_login" where
  "pos_login_submit s =
     (if js_trim (pl_username s) = [] \<or> length (pl_pin s) < 4 then s
      else s\<lparr>pl_pending := True, pl_error := None,
             pl_sent := pl_sent s @ [posLogin (js_trim (pl_username s)) (pl_pin s)]\<rparr>)"

datatype pos_login_event =
    PickUser jsstring
  | PressPinKey pin_key
  | PressEnter
  | PosLoginAnswer "failure + me"

text \<open>An answer that lets the visitor in also leaves the page, for the till.\<close>

fun pos_login_step :: "pos_login \<Rightarrow> pos_login_event \<Rightarrow> pos_login" where
  "pos_login_step s (PickUser u) = s\<lparr>pl_username := u\<rparr>"
| "pos_login_step s (PressPinKey k) = pin_press s k"
| "pos_login_step s PressEnter = pos_login_submit s"
| "pos_login_step s (PosLoginAnswer (Inr m)) = s\<lparr>pl_pending := False\<rparr>"
| "pos_login_step s (PosLoginAnswer (Inl e)) =
     s\<lparr>pl_pin := [], pl_pending := False,
       pl_error := Some (if (case e of ApiFailure a \<Rightarrow> isUnauthenticated a | _ \<Rightarrow> False)
         then js ''Usuario o PIN incorrectos.'' else js ''No se ha podido entrar.'')\<rparr>"

definition pin_keys :: "pin_key list" where
  "pin_keys = map PinDigit [49, 50, 51, 52, 53, 54, 55, 56, 57] @ [PinBack, PinDigit 48, PinClear]"

fun pos_login_enabled :: "jsstring list \<Rightarrow> pos_login \<Rightarrow> pos_login_event \<Rightarrow> bool" where
  "pos_login_enabled users s (PickUser u) = (u \<in> set ([] # users) \<and> \<not> pl_pending s)"
| "pos_login_enabled users s (PressPinKey k) = (k \<in> set pin_keys)"
| "pos_login_enabled users s PressEnter =
     (\<not> (pl_pending s \<or> js_trim (pl_username s) = [] \<or> length (pl_pin s) < 4))"
| "pos_login_enabled users s (PosLoginAnswer r) = pl_pending s"

section \<open>Changing the password\<close>

definition changePasswordSchema :: "jsstring \<Rightarrow> jsstring \<Rightarrow> jsstring \<Rightarrow> jsstring list" where
  "changePasswordSchema current_v new_v confirm_v =
     (let issues = (if current_v = [] then [js ''current_password''] else [])
          @ (if length new_v < 8 \<or> 255 < length new_v then [js ''new_password''] else [])
          @ (if confirm_v = [] then [js ''confirm_password''] else [])
      in if issues = [] \<and> new_v \<noteq> confirm_v then [js ''confirm_password''] else issues)"

definition change_password_submit :: "jsstring \<Rightarrow> jsstring \<Rightarrow> jsstring \<Rightarrow> api_call option" where
  "change_password_submit current_v new_v confirm_v =
     (if changePasswordSchema current_v new_v confirm_v = [] then Some (changeMyPassword current_v new_v) else None)"

definition forced_change_error :: "failure \<Rightarrow> jsstring" where
  "forced_change_error e =
     (if (case e of ApiFailure a \<Rightarrow> ae_code a = js ''validation_error'' | _ \<Rightarrow> False)
      then js ''La contrase'' @ [241] @ js ''a temporal no es correcta.''
      else js ''No se ha podido cambiar la contrase'' @ [241] @ js ''a.'')"

section \<open>What the till sends\<close>

definition pos_login_call :: "jsstring list \<Rightarrow> api_call \<Rightarrow> bool" where
  "pos_login_call users c \<longleftrightarrow> (\<exists>u \<in> set users. \<exists>pin. c = posLogin (js_trim u) pin
     \<and> 4 \<le> length pin \<and> length pin \<le> 12 \<and> list_all js_digit pin)"

lemma pos_login_callI:
  "u \<in> set users \<Longrightarrow> 4 \<le> length pin \<Longrightarrow> length pin \<le> 12 \<Longrightarrow> list_all js_digit pin
     \<Longrightarrow> pos_login_call users (posLogin (js_trim u) pin)"
  by (auto simp: pos_login_call_def)

definition pos_login_ok :: "jsstring list \<Rightarrow> pos_login \<Rightarrow> bool" where
  "pos_login_ok users s \<longleftrightarrow>
     length (pl_pin s) \<le> 12 \<and> list_all js_digit (pl_pin s) \<and> pl_username s \<in> set ([] # users)
     \<and> list_all (pos_login_call users) (pl_sent s)"

lemma pin_keys_digit: "PinDigit d \<in> set pin_keys \<Longrightarrow> js_digit d"
  by (auto simp: pin_keys_def js_digit_def)

lemma list_all_butlast: "list_all P xs \<Longrightarrow> list_all P (butlast xs)"
  by (auto simp: list_all_iff dest: in_set_butlastD)

lemma pos_login_step_ok:
  assumes "pos_login_ok users s" "pos_login_enabled users s e"
  shows "pos_login_ok users (pos_login_step s e)"
proof (cases "(s, e)" rule: pos_login_step.cases)
  case (2 s' k)
  then show ?thesis
    using assms by (cases k) (auto simp: pos_login_ok_def pin_keys_digit list_all_butlast)
next
  case (3 s')
  with assms have "pl_username s \<in> set users" "js_trim (pl_username s) \<noteq> []" "4 \<le> length (pl_pin s)"
    by (auto simp: pos_login_ok_def js_trim_def js_trim_end_def)
  then show ?thesis using 3 assms by (auto simp: pos_login_ok_def pos_login_submit_def intro: pos_login_callI)
qed (use assms in \<open>auto simp: pos_login_ok_def\<close>)

interpretation pos_login_page: event_machine "pos_login_enabled users" pos_login_step pos_login_init
    "pos_login_ok users" for users
  by unfold_locales (auto simp: pos_login_step_ok, simp add: pos_login_ok_def pos_login_init_def)

end
