(* ===== verification/Routes.thy ===== *)
theory Routes
  imports Sessions
begin

text \<open>
  The pages and who may see them: the route tree of \<open>routes.tsx\<close>, the guards of \<open>auth/guards.tsx\<close>,
  the redirects of \<open>AccessPage\<close>, \<open>InventoryPage\<close> and \<open>CatalogProductRedirect\<close>, and the menu of
  \<open>AdminLayout\<close>. A path is the list of its segments.
\<close>

section \<open>The route tree\<close>

type_synonym url_path = "jsstring list"

datatype route_segment = Lit jsstring | AnySegment

datatype guard =
    RequireAuth
  | RequirePermission jsstring
  | RequireAnyPermission "jsstring list"
  | RequirePosAuth

datatype layout = AdminLayout | AccessPage | InventoryPage | PricingPage | PosLayout

datatype screen =
    HomeRedirect | LoginPage | PosLoginPage | ForcedPasswordChangePage | NotFoundPage
  | AdminHomePage | AccountPage | AccessIndexRedirect | UsersPage | RolesPage
  | InventoryIndexRedirect | ProductsPage | CategoriesPage | LotsPage | InventoryBalancesPage
  | InventoryMovementsPage | InventoryWarehousesPage | ProductDetailPage | PosTerminalsPage
  | CatalogProductRedirect | PricingTaxesPage | PricingFormulaPage | SuppliersPage | PurchasingPage
  | SalesPage | ZReportsPage | AdminReturnsPage | TicketTemplatesPage | NotificationsPage | OutboxPage
  | ReportsPage | SettingsPage | AuditLogPage | PosHomePage | PosReturnsScreen | PosTicketsPage
  | Navigate url_path

datatype route_element = Guard guard | Layout layout | Page screen

text \<open>
  A route of the tree: its own path (none for a pathless or index route), its element, its
  children. Only an element that is a page ends a match; guards and layouts draw their child.
\<close>

datatype route = Route "route_segment list" "route_element option" "route list"

definition page_at :: "string \<Rightarrow> screen \<Rightarrow> route" where
  "page_at p s = Route [Lit (js p)] (Some (Page s)) []"

definition index_route :: "screen \<Rightarrow> route" where
  "index_route s = Route [] (Some (Page s)) []"

definition under :: "string \<Rightarrow> route_element \<Rightarrow> route list \<Rightarrow> route" where
  "under p e rs = Route [Lit (js p)] (Some e) rs"

definition wrapped :: "route_element \<Rightarrow> route list \<Rightarrow> route" where
  "wrapped e rs = Route [] (Some e) rs"

definition path_of :: "string list \<Rightarrow> url_path" where
  "path_of = map js"

definition admin_children :: "route list" where
  "admin_children =
    [index_route AdminHomePage,
     page_at ''account'' AccountPage,
     page_at ''users'' (Navigate (path_of [''admin'', ''access'', ''users''])),
     page_at ''roles'' (Navigate (path_of [''admin'', ''access'', ''roles''])),
     under ''access'' (Guard (RequireAnyPermission [js ''users.manage'', js ''roles.manage'']))
       [wrapped (Layout AccessPage)
         [index_route AccessIndexRedirect,
          wrapped (Guard (RequirePermission (js ''users.manage''))) [page_at ''users'' UsersPage],
          wrapped (Guard (RequirePermission (js ''roles.manage''))) [page_at ''roles'' RolesPage]]],
     under ''inventory'' (Guard (RequireAnyPermission [js ''product.read'', js ''lot.read'', js ''inventory.read'']))
       [wrapped (Layout InventoryPage)
         [index_route InventoryIndexRedirect,
          wrapped (Guard (RequirePermission (js ''product.read'')))
            [page_at ''products'' ProductsPage, page_at ''categories'' CategoriesPage],
          wrapped (Guard (RequirePermission (js ''lot.read''))) [page_at ''lots'' LotsPage],
          wrapped (Guard (RequirePermission (js ''inventory.read'')))
            [page_at ''balances'' InventoryBalancesPage, page_at ''movements'' InventoryMovementsPage,
             page_at ''warehouses'' InventoryWarehousesPage]],
        Route [Lit (js ''products''), AnySegment] (Some (Page ProductDetailPage)) []],
     Route [Lit (js ''inventory''), Lit (js ''terminals'')]
       (Some (Page (Navigate (path_of [''admin'', ''pos-terminals''])))) [],
     under ''pos-terminals''
       (Guard (RequireAnyPermission [js ''pos_terminal.manage'', js ''pos.cold_drink_surcharge.manage'']))
       [index_route PosTerminalsPage],
     page_at ''catalog'' (Navigate (path_of [''admin'', ''inventory'', ''products''])),
     Route [Lit (js ''catalog''), Lit (js ''products'')]
       (Some (Page (Navigate (path_of [''admin'', ''inventory'', ''products''])))) [],
     Route [Lit (js ''catalog''), Lit (js ''categories'')]
       (Some (Page (Navigate (path_of [''admin'', ''inventory'', ''categories''])))) [],
     Route [Lit (js ''catalog''), Lit (js ''products''), AnySegment] (Some (Page CatalogProductRedirect)) [],
     page_at ''lots'' (Navigate (path_of [''admin'', ''inventory'', ''lots''])),
     under ''pricing'' (Guard (RequirePermission (js ''pricing.manage'')))
       [wrapped (Layout PricingPage)
         [index_route (Navigate (path_of [''admin'', ''pricing'', ''taxes''])),
          page_at ''taxes'' PricingTaxesPage, page_at ''formula'' PricingFormulaPage]],
     under ''suppliers'' (Guard (RequirePermission (js ''supplier.read''))) [index_route SuppliersPage],
     under ''purchasing'' (Guard (RequirePermission (js ''purchase.read''))) [index_route PurchasingPage],
     under ''sales'' (Guard (RequirePermission (js ''sale.read''))) [index_route SalesPage],
     under ''z-reports'' (Guard (RequirePermission (js ''sale.read''))) [index_route ZReportsPage],
     under ''returns'' (Guard (RequirePermission (js ''return.read''))) [index_route AdminReturnsPage],
     under ''ticket-templates'' (Guard (RequirePermission (js ''ticket.manage''))) [index_route TicketTemplatesPage],
     under ''notifications'' (Guard (RequirePermission (js ''notification.read''))) [index_route NotificationsPage],
     under ''outbox'' (Guard (RequirePermission (js ''job.read''))) [index_route OutboxPage],
     under ''reports'' (Guard (RequirePermission (js ''report.read''))) [index_route ReportsPage],
     under ''settings'' (Guard (RequirePermission (js ''settings.read''))) [index_route SettingsPage],
     under ''audit-log'' (Guard (RequirePermission (js ''audit.read''))) [index_route AuditLogPage]]"

definition routes :: "route list" where
  "routes =
    [index_route HomeRedirect,
     page_at ''login'' LoginPage,
     Route [Lit (js ''pos''), Lit (js ''login'')] (Some (Page PosLoginPage)) [],
     wrapped (Guard RequireAuth)
       [page_at ''change-password'' ForcedPasswordChangePage,
        wrapped (Guard (RequirePermission (js ''admin.access'')))
          [under ''admin'' (Layout AdminLayout) admin_children]],
     wrapped (Guard RequirePosAuth)
       [under ''pos'' (Layout PosLayout)
         [index_route PosHomePage, page_at ''returns'' PosReturnsScreen, page_at ''tickets'' PosTicketsPage]]]"

text \<open>The branches of the tree: full path, the elements around the page, the page.\<close>

type_synonym branch = "route_segment list \<times> route_element list \<times> screen"

fun branches :: "route_segment list \<Rightarrow> route_element list \<Rightarrow> route \<Rightarrow> branch list" where
  "branches segs els (Route own el children) =
     (case el of
        Some (Page s) \<Rightarrow> [(segs @ own, els, s)]
      | Some e \<Rightarrow> concat (map (branches (segs @ own) (els @ [e])) children)
      | None \<Rightarrow> concat (map (branches (segs @ own) els) children))"

definition route_table :: "branch list" where
  "route_table = concat (map (branches [] []) routes)"

fun match_segments :: "route_segment list \<Rightarrow> url_path \<Rightarrow> bool" where
  "match_segments [] [] = True"
| "match_segments (Lit s # segs) (p # ps) = (s = p \<and> match_segments segs ps)"
| "match_segments (AnySegment # segs) (p # ps) = match_segments segs ps"
| "match_segments _ _ = False"

definition match_route :: "url_path \<Rightarrow> branch" where
  "match_route p =
     (case find (\<lambda>(segs, els, s). match_segments segs p) route_table of
        Some b \<Rightarrow> b | None \<Rightarrow> ([], [], NotFoundPage))"

section \<open>Drawing a path\<close>

record visitor =
  vi_admin :: auth_data
  vi_pos :: auth_data

datatype drawn = Blank | Redirect url_path | Shown "layout list" screen

text \<open>A guard draws its child, nothing, or a redirect.\<close>

datatype guard_outcome = Passes | Stops drawn

fun guard_draw :: "visitor \<Rightarrow> url_path \<Rightarrow> guard \<Rightarrow> guard_outcome" where
  "guard_draw v location RequireAuth =
     (if auth_isLoading (vi_admin v) then Stops Blank
      else case auth_user (vi_admin v) of
        None \<Rightarrow> Stops (Redirect (path_of [''login'']))
      | Some user \<Rightarrow>
          if me_must_change_password user \<and> location \<noteq> path_of [''change-password'']
          then Stops (Redirect (path_of [''change-password'']))
          else if \<not> me_must_change_password user \<and> location = path_of [''change-password'']
          then Stops (Redirect [])
          else Passes)"
| "guard_draw v location (RequirePermission permission) =
     (if \<not> hasPermission (vi_admin v) permission then Stops (Redirect []) else Passes)"
| "guard_draw v location (RequireAnyPermission permissions) =
     (if \<not> (\<exists>p \<in> set permissions. hasPermission (vi_admin v) p) then Stops (Redirect []) else Passes)"
| "guard_draw v location RequirePosAuth =
     (if auth_isLoading (vi_pos v) then Stops Blank
      else if auth_user (vi_pos v) = None \<or> \<not> hasPermission (vi_pos v) (js ''pos.access'')
      then Stops (Redirect (path_of [''pos'', ''login'']))
      else Passes)"

definition home_redirect :: "visitor \<Rightarrow> drawn" where
  "home_redirect v =
     (if auth_isLoading (vi_admin v) then Blank
      else if auth_user (vi_admin v) = None then Redirect (path_of [''login''])
      else if hasPermission (vi_admin v) (js ''admin.access'') then Redirect (path_of [''admin''])
      else if hasPermission (vi_admin v) (js ''pos.access'') then Redirect (path_of [''pos''])
      else Redirect (path_of [''login'']))"

definition access_index_redirect :: "visitor \<Rightarrow> drawn" where
  "access_index_redirect v =
     (if hasPermission (vi_admin v) (js ''users.manage'') then Redirect (path_of [''admin'', ''access'', ''users''])
      else if hasPermission (vi_admin v) (js ''roles.manage'') then Redirect (path_of [''admin'', ''access'', ''roles''])
      else Redirect (path_of [''admin'']))"

definition inventory_index_redirect :: "visitor \<Rightarrow> drawn" where
  "inventory_index_redirect v =
     (if hasPermission (vi_admin v) (js ''product.read'') then Redirect (path_of [''admin'', ''inventory'', ''products''])
      else if hasPermission (vi_admin v) (js ''lot.read'') then Redirect (path_of [''admin'', ''inventory'', ''lots''])
      else if hasPermission (vi_admin v) (js ''inventory.read'') then Redirect (path_of [''admin'', ''inventory'', ''balances''])
      else Redirect (path_of [''admin'']))"

text \<open>The page itself: the returns page of the till has a guard of its own.\<close>

fun screen_draw :: "visitor \<Rightarrow> url_path \<Rightarrow> layout list \<Rightarrow> screen \<Rightarrow> drawn" where
  "screen_draw v location ls HomeRedirect = home_redirect v"
| "screen_draw v location ls AccessIndexRedirect = access_index_redirect v"
| "screen_draw v location ls InventoryIndexRedirect = inventory_index_redirect v"
| "screen_draw v location ls CatalogProductRedirect =
     Redirect (path_of [''admin'', ''inventory'', ''products''] @ [last location])"
| "screen_draw v location ls (Navigate p) = Redirect p"
| "screen_draw v location ls PosReturnsScreen =
     (if auth_user (vi_pos v) = None then Blank
      else if \<not> hasPermission (vi_pos v) (js ''return.manage'') then Redirect (path_of [''pos''])
      else Shown ls PosReturnsScreen)"
| "screen_draw v location ls s = Shown ls s"

fun elements_draw :: "visitor \<Rightarrow> url_path \<Rightarrow> layout list \<Rightarrow> route_element list \<Rightarrow> screen \<Rightarrow> drawn" where
  "elements_draw v location ls [] s = screen_draw v location ls s"
| "elements_draw v location ls (Guard g # els) s =
     (case guard_draw v location g of Passes \<Rightarrow> elements_draw v location ls els s | Stops d \<Rightarrow> d)"
| "elements_draw v location ls (Layout l # els) s = elements_draw v location (ls @ [l]) els s"
| "elements_draw v location ls (Page p # els) s = elements_draw v location ls els s"

definition visit :: "visitor \<Rightarrow> url_path \<Rightarrow> drawn" where
  "visit v location = (case match_route location of (segs, els, s) \<Rightarrow> elements_draw v location [] els s)"

text \<open>Redirects are followed until something is drawn; a cycle of redirects would never return.\<close>

partial_function (option) browse :: "visitor \<Rightarrow> url_path \<Rightarrow> drawn option" where
  "browse v location =
     (case visit v location of Redirect target \<Rightarrow> browse v target | d \<Rightarrow> Some d)"

section \<open>Where redirects end\<close>

lemma path_of_inject [simp]: "path_of xs = path_of ys \<longleftrightarrow> xs = ys"
  by (simp add: path_of_def inj_map_eq_map inj_def)

lemma path_of_eq_Nil [simp]: "path_of xs = [] \<longleftrightarrow> xs = []" "[] = path_of xs \<longleftrightarrow> xs = []"
  by (auto simp: path_of_def)

lemmas route_defs = route_table_def routes_def admin_children_def page_at_def index_route_def under_def
  wrapped_def path_of_def

lemmas route_table_eq = route_table_def [unfolded routes_def admin_children_def page_at_def index_route_def
  under_def wrapped_def, simplified]

definition admin_guards :: "route_element list" where
  "admin_guards = [Guard RequireAuth, Guard (RequirePermission (js ''admin.access'')), Layout AdminLayout]"

definition inventory_guard :: guard where
  "inventory_guard = RequireAnyPermission [js ''product.read'', js ''lot.read'', js ''inventory.read'']"

lemma match_public:
  "match_route [] = ([], [], HomeRedirect)"
  "match_route (path_of [''login'']) = ([Lit (js ''login'')], [], LoginPage)"
  "match_route (path_of [''pos'', ''login'']) = ([Lit (js ''pos''), Lit (js ''login'')], [], PosLoginPage)"
  "match_route (path_of [''change-password'']) =
     ([Lit (js ''change-password'')], [Guard RequireAuth], ForcedPasswordChangePage)"
  "match_route (path_of [''pos'']) = ([Lit (js ''pos'')], [Guard RequirePosAuth, Layout PosLayout], PosHomePage)"
  "match_route (path_of [''admin'']) = ([Lit (js ''admin'')], admin_guards, AdminHomePage)"
  by (simp_all add: match_route_def route_table_eq path_of_def admin_guards_def)

lemma match_product:
  "match_route (path_of [''admin'', ''inventory'', ''products''] @ [i]) =
     ([Lit (js ''admin''), Lit (js ''inventory''), Lit (js ''products''), AnySegment],
      admin_guards @ [Guard inventory_guard], ProductDetailPage)"
  by (simp add: match_route_def route_table_eq path_of_def admin_guards_def inventory_guard_def)

lemma match_tabs:
  "match_route (path_of [''admin'', ''access'', ''users'']) =
     ([Lit (js ''admin''), Lit (js ''access''), Lit (js ''users'')], admin_guards @
      [Guard (RequireAnyPermission [js ''users.manage'', js ''roles.manage'']), Layout AccessPage,
       Guard (RequirePermission (js ''users.manage''))], UsersPage)"
  "match_route (path_of [''admin'', ''access'', ''roles'']) =
     ([Lit (js ''admin''), Lit (js ''access''), Lit (js ''roles'')], admin_guards @
      [Guard (RequireAnyPermission [js ''users.manage'', js ''roles.manage'']), Layout AccessPage,
       Guard (RequirePermission (js ''roles.manage''))], RolesPage)"
  "match_route (path_of [''admin'', ''inventory'', ''products'']) =
     ([Lit (js ''admin''), Lit (js ''inventory''), Lit (js ''products'')], admin_guards @
      [Guard inventory_guard, Layout InventoryPage, Guard (RequirePermission (js ''product.read''))], ProductsPage)"
  "match_route (path_of [''admin'', ''inventory'', ''categories'']) =
     ([Lit (js ''admin''), Lit (js ''inventory''), Lit (js ''categories'')], admin_guards @
      [Guard inventory_guard, Layout InventoryPage, Guard (RequirePermission (js ''product.read''))], CategoriesPage)"
  "match_route (path_of [''admin'', ''inventory'', ''lots'']) =
     ([Lit (js ''admin''), Lit (js ''inventory''), Lit (js ''lots'')], admin_guards @
      [Guard inventory_guard, Layout InventoryPage, Guard (RequirePermission (js ''lot.read''))], LotsPage)"
  "match_route (path_of [''admin'', ''inventory'', ''balances'']) =
     ([Lit (js ''admin''), Lit (js ''inventory''), Lit (js ''balances'')], admin_guards @
      [Guard inventory_guard, Layout InventoryPage, Guard (RequirePermission (js ''inventory.read''))],
      InventoryBalancesPage)"
  "match_route (path_of [''admin'', ''pos-terminals'']) =
     ([Lit (js ''admin''), Lit (js ''pos-terminals'')], admin_guards @
      [Guard (RequireAnyPermission [js ''pos_terminal.manage'', js ''pos.cold_drink_surcharge.manage''])],
      PosTerminalsPage)"
  "match_route (path_of [''admin'', ''pricing'', ''taxes'']) =
     ([Lit (js ''admin''), Lit (js ''pricing''), Lit (js ''taxes'')], admin_guards @
      [Guard (RequirePermission (js ''pricing.manage'')), Layout PricingPage], PricingTaxesPage)"
  by (simp_all add: match_route_def route_table_eq path_of_def admin_guards_def inventory_guard_def)

text \<open>Following redirects from a path ends with something drawn.\<close>

definition settled :: "visitor \<Rightarrow> url_path \<Rightarrow> bool" where
  "settled v p \<longleftrightarrow> (\<exists>d. browse v p = Some d)"

lemma settledI:
  assumes "\<And>t. visit v p = Redirect t \<Longrightarrow> settled v t"
  shows "settled v p"
  using assms by (cases "visit v p") (auto simp: settled_def browse.simps [of v p])

lemma settled_login: "settled v (path_of [''login''])" "settled v (path_of [''pos'', ''login''])"
  by (rule settledI, simp add: visit_def match_public)+

lemma settled_pos: "settled v (path_of [''pos''])"
  by (rule settledI) (auto simp: visit_def match_public settled_login split: if_splits)

text \<open>What the guards around the back office draw instead of a page.\<close>

lemma admin_guards_draw:
  "elements_draw v p [] (admin_guards @ els) s = d \<Longrightarrow>
     d \<in> {Blank, Redirect (path_of [''login'']), Redirect []}
     \<or> (d = Redirect (path_of [''change-password'']) \<and> (\<exists>m. vi_admin v = AuthIs (Some m) \<and> me_must_change_password m))
     \<or> d = elements_draw v p [AdminLayout] els s"
  by (cases "vi_admin v")
    (auto simp: admin_guards_def auth_isLoading_def split: if_splits option.splits)

lemma settled_change:
  assumes "vi_admin v = AuthIs (Some m)" and "me_must_change_password m"
  shows "settled v (path_of [''change-password''])"
  by (rule settledI) (simp add: assms visit_def match_public auth_isLoading_def)

lemma settled_home: "settled v []"
proof (rule settledI)
  fix t assume "visit v [] = Redirect t"
  then have "home_redirect v = Redirect t" by (simp add: visit_def match_public)
  then consider "t = path_of [''login'']" | "t = path_of [''pos'']"
    | "t = path_of [''admin'']" "hasPermission (vi_admin v) (js ''admin.access'')"
    by (auto simp: home_redirect_def split: if_splits)
  then show "settled v t"
  proof cases
    case 3
    show ?thesis unfolding 3
    proof (rule settledI)
      fix u assume "visit v (path_of [''admin'']) = Redirect u"
      with 3(2) show "settled v u"
        by (cases "vi_admin v") (auto simp: visit_def match_public admin_guards_def auth_isLoading_def
          settled_login settled_change split: if_splits option.splits)
    qed
  qed (simp_all add: settled_login settled_pos)
qed

text \<open>Every page of the back office that draws itself or leads to a settled path is settled.\<close>

fun permission_only :: "route_element \<Rightarrow> bool" where
  "permission_only (Guard (RequirePermission k)) = True"
| "permission_only (Guard (RequireAnyPermission ks)) = True"
| "permission_only (Layout l) = True"
| "permission_only e = False"

lemma permission_only_draw:
  "list_all permission_only els \<Longrightarrow>
     elements_draw v p ls els s = Redirect [] \<or> (\<exists>ls'. elements_draw v p ls els s = screen_draw v p ls' s)"
proof (induction els arbitrary: ls)
  case (Cons e els)
  then show ?case by (cases e rule: permission_only.cases) auto
qed auto

lemma admin_settled:
  assumes "match_route p = (segs, admin_guards @ els, s)" and "list_all permission_only els"
    and "\<And>ls t. screen_draw v p ls s = Redirect t \<Longrightarrow> settled v t"
  shows "settled v p"
proof (rule settledI)
  fix t assume "visit v p = Redirect t"
  then have "elements_draw v p [] (admin_guards @ els) s = Redirect t" by (simp add: visit_def assms(1))
  from admin_guards_draw [OF this] permission_only_draw [OF assms(2), of v p "[AdminLayout]" s] show "settled v t"
    by (auto simp: settled_login settled_home dest: settled_change assms(3) [OF sym])
qed

lemma settled_tabs:
  "settled v (path_of [''admin''])"
  "settled v (path_of [''admin'', ''access'', ''users''])" "settled v (path_of [''admin'', ''access'', ''roles''])"
  "settled v (path_of [''admin'', ''inventory'', ''products''])"
  "settled v (path_of [''admin'', ''inventory'', ''categories''])"
  "settled v (path_of [''admin'', ''inventory'', ''lots''])"
  "settled v (path_of [''admin'', ''inventory'', ''balances''])"
  "settled v (path_of [''admin'', ''pos-terminals''])" "settled v (path_of [''admin'', ''pricing'', ''taxes''])"
  "settled v (path_of [''admin'', ''inventory'', ''products''] @ [i])"
  by (rule admin_settled [OF match_tabs(1)] admin_settled [OF match_tabs(2)] admin_settled [OF match_tabs(3)]
      admin_settled [OF match_tabs(4)] admin_settled [OF match_tabs(5)] admin_settled [OF match_tabs(6)]
      admin_settled [OF match_tabs(7)] admin_settled [OF match_tabs(8)] admin_settled [OF match_product]
      admin_settled [where els = "[]", simplified, OF match_public(6)]; simp add: inventory_guard_def)+

text \<open>Fixed redirects of the table lead to pages just shown settled.\<close>

definition fixed_targets :: "url_path list" where
  "fixed_targets = map path_of [[''admin'', ''access'', ''users''], [''admin'', ''access'', ''roles''],
     [''admin'', ''inventory'', ''products''], [''admin'', ''inventory'', ''categories''],
     [''admin'', ''inventory'', ''lots''], [''admin'', ''pos-terminals''], [''admin'', ''pricing'', ''taxes'']]"

lemma fixed_redirects:
  "list_all (\<lambda>(segs, els, s). case s of Navigate p \<Rightarrow> p \<in> set fixed_targets | _ \<Rightarrow> True) route_table"
  by (simp add: route_defs fixed_targets_def)

lemma branch_shapes:
  "list_all (\<lambda>(segs, els, s). els \<in> {[], [Guard RequireAuth], [Guard RequirePosAuth, Layout PosLayout]}
     \<or> take 3 els = admin_guards \<and> list_all permission_only (drop 3 els)) route_table"
  by (simp add: route_defs admin_guards_def numeral_3_eq_3)

lemma match_route_cases:
  "match_route p = (segs, els, s) \<Longrightarrow>
     (segs, els, s) \<in> set route_table \<and> match_segments segs p \<or> els = [] \<and> s = NotFoundPage"
  by (auto simp: match_route_def dest: find_map_of_id split: option.splits)

lemma settled_screen:
  assumes "match_route p = (segs, els, s)" and "screen_draw v p ls s = Redirect t"
  shows "settled v t"
proof -
  have "t \<in> set fixed_targets" if "s = Navigate q" for q
    using that assms match_route_cases [OF assms(1)] fixed_redirects by (auto simp: list_all_iff)
  moreover have "settled v u" if "u \<in> set fixed_targets" for u
    using that by (auto simp: fixed_targets_def settled_tabs)
  moreover have "\<forall>q. s \<noteq> Navigate q \<Longrightarrow> settled v t"
    using assms(2) by (cases s) (auto simp: home_redirect_def access_index_redirect_def
      inventory_index_redirect_def settled_login settled_pos settled_tabs split: if_splits)
  ultimately show ?thesis by blast
qed

lemma browse_not_redirect:
  assumes "browse v p = Some d"
  shows "d \<noteq> Redirect t"
  using _ assms
proof (rule browse.raw_induct [where P = "\<lambda>v p d. d \<noteq> Redirect t"])
  fix browse v p d
  assume "\<And>v p d. browse v p = Some d \<Longrightarrow> d \<noteq> Redirect t"
    and "(case visit v p of Redirect target \<Rightarrow> browse v target | d \<Rightarrow> Some d) = Some d"
  then show "d \<noteq> Redirect t" by (cases "visit v p") auto
qed

text \<open>C23: No path loops: for every visitor, signed in or not on either surface, whatever their permissions,
  and for every path, following the redirects of guards and pages ends with a page drawn, or with
  nothing while a session is still being looked up.\<close>

theorem navigation_settles:
  "\<exists>d. browse v p = Some d \<and> (\<forall>t. d \<noteq> Redirect t)"
proof -
  obtain segs els s where m: "match_route p = (segs, els, s)" by (cases "match_route p")
  have "els \<in> {[], [Guard RequireAuth], [Guard RequirePosAuth, Layout PosLayout]}
      \<or> take 3 els = admin_guards \<and> list_all permission_only (drop 3 els)"
    using match_route_cases [OF m] branch_shapes unfolding list_all_iff by fastforce
  then consider (public) "els = []" | (auth) "els = [Guard RequireAuth]"
    | (till) "els = [Guard RequirePosAuth, Layout PosLayout]"
    | (admin) "take 3 els = admin_guards" "list_all permission_only (drop 3 els)"
    by auto
  then have "settled v p"
  proof cases
    case public
    then show ?thesis using settled_screen [OF m] by (intro settledI [of v p]) (auto simp: visit_def m)
  next
    case auth
    show ?thesis
    proof (rule settledI)
      fix t assume "visit v p = Redirect t"
      with auth show "settled v t"
        using settled_screen [OF m] by (cases "vi_admin v")
          (auto simp: visit_def m settled_login settled_home auth_isLoading_def settled_change
            split: if_splits option.splits)
    qed
  next
    case till
    show ?thesis
    proof (rule settledI)
      fix t assume "visit v p = Redirect t"
      with till show "settled v t"
        using settled_screen [OF m] by (auto simp: visit_def m settled_login split: if_splits)
    qed
  next
    case admin
    then have "els = admin_guards @ drop 3 els" by (metis append_take_drop_id)
    with admin show ?thesis
      using m settled_screen [OF m] by (intro admin_settled [of p segs "drop 3 els" s]) auto
  qed
  then show ?thesis using browse_not_redirect by (auto simp: settled_def)
qed

section \<open>Who sees what\<close>

text \<open>
  The policy: the pages of the till, those anyone may see, and the permissions a page of the back
  office asks for beyond \<open>admin.access\<close> (one of each list).
\<close>

definition till_pages :: "screen list" where
  "till_pages = [PosHomePage, PosReturnsScreen, PosTicketsPage]"

definition public_pages :: "screen list" where
  "public_pages = [HomeRedirect, LoginPage, PosLoginPage, NotFoundPage]"

fun page_needs :: "screen \<Rightarrow> jsstring list list" where
  "page_needs UsersPage = [[js ''users.manage'']]"
| "page_needs RolesPage = [[js ''roles.manage'']]"
| "page_needs ProductsPage = [[js ''product.read'']]"
| "page_needs CategoriesPage = [[js ''product.read'']]"
| "page_needs LotsPage = [[js ''lot.read'']]"
| "page_needs InventoryBalancesPage = [[js ''inventory.read'']]"
| "page_needs InventoryMovementsPage = [[js ''inventory.read'']]"
| "page_needs InventoryWarehousesPage = [[js ''inventory.read'']]"
| "page_needs ProductDetailPage = [[js ''product.read'', js ''lot.read'', js ''inventory.read'']]"
| "page_needs PosTerminalsPage = [[js ''pos_terminal.manage'', js ''pos.cold_drink_surcharge.manage'']]"
| "page_needs PricingTaxesPage = [[js ''pricing.manage'']]"
| "page_needs PricingFormulaPage = [[js ''pricing.manage'']]"
| "page_needs SuppliersPage = [[js ''supplier.read'']]"
| "page_needs PurchasingPage = [[js ''purchase.read'']]"
| "page_needs SalesPage = [[js ''sale.read'']]"
| "page_needs ZReportsPage = [[js ''sale.read'']]"
| "page_needs AdminReturnsPage = [[js ''return.read'']]"
| "page_needs TicketTemplatesPage = [[js ''ticket.manage'']]"
| "page_needs NotificationsPage = [[js ''notification.read'']]"
| "page_needs OutboxPage = [[js ''job.read'']]"
| "page_needs ReportsPage = [[js ''report.read'']]"
| "page_needs SettingsPage = [[js ''settings.read'']]"
| "page_needs AuditLogPage = [[js ''audit.read'']]"
| "page_needs s = []"

fun branch_guarded :: "branch \<Rightarrow> bool" where
  "branch_guarded (segs, els, s) =
     (if s \<in> set public_pages then True
      else if s \<in> set till_pages then Guard RequirePosAuth \<in> set els
      else if s = ForcedPasswordChangePage
      then segs = [Lit (js ''change-password'')] \<and> Guard RequireAuth \<in> set els
      else segs \<noteq> [] \<and> hd segs = Lit (js ''admin'') \<and> Guard RequireAuth \<in> set els
        \<and> Guard (RequirePermission (js ''admin.access'')) \<in> set els
        \<and> (\<forall>ks \<in> set (page_needs s). Guard (RequireAnyPermission ks) \<in> set els
             \<or> length ks = 1 \<and> Guard (RequirePermission (hd ks)) \<in> set els))"

lemma branches_guarded: "list_all branch_guarded route_table"
  by (simp add: route_defs public_pages_def till_pages_def)

lemma guard_not_shown [simp]: "guard_draw v p g \<noteq> Stops (Shown ls s)"
  by (cases "(v, p, g)" rule: guard_draw.cases) (auto split: option.splits)

lemma elements_pass:
  "elements_draw v p ls els s = Shown ls' s' \<Longrightarrow>
     s' = s \<and> (\<forall>g. Guard g \<in> set els \<longrightarrow> guard_draw v p g = Passes)"
proof (induction els arbitrary: ls)
  case Nil
  then show ?case by (cases s) (auto split: if_splits simp: home_redirect_def access_index_redirect_def
    inventory_index_redirect_def)
next
  case (Cons e els)
  then show ?case by (cases e) (auto split: guard_outcome.splits)
qed

lemma elements_shown_screen:
  "elements_draw v p ls els s = Shown ls' s' \<Longrightarrow> \<exists>ls0. screen_draw v p ls0 s = Shown ls' s'"
proof (induction els arbitrary: ls)
  case (Cons e els)
  then show ?case by (cases e) (auto split: guard_outcome.splits)
qed auto

lemma browse_shown:
  assumes "browse v p = Some (Shown ls s)"
  shows "\<exists>q. visit v q = Shown ls s"
  using _ assms
proof (rule browse.raw_induct [where P = "\<lambda>v p d. d = Shown ls s \<longrightarrow> (\<exists>q. visit v q = Shown ls s)", THEN mp])
  fix browse v p d
  assume "\<And>v p d. browse v p = Some d \<Longrightarrow> d = Shown ls s \<longrightarrow> (\<exists>q. visit v q = Shown ls s)"
    and "(case visit v p of Redirect target \<Rightarrow> browse v target | d \<Rightarrow> Some d) = Some d"
  then show "d = Shown ls s \<longrightarrow> (\<exists>q. visit v q = Shown ls s)" by (cases "visit v p") auto
qed simp_all

text \<open>C24: Nobody is shown a page they may not see: following a path to its end shows a page of the till
  only to someone signed in at the till with \<open>pos.access\<close> (and \<open>return.manage\<close> for returns), a page of the
  back office only to someone signed in there with \<open>admin.access\<close> and the permissions the page asks for,
  and, to a session whose password is temporary, nothing but the form that changes it.\<close>

theorem pages_guarded:
  assumes "browse v p = Some (Shown ls s)" and "s \<notin> set public_pages"
  shows "if s \<in> set till_pages
    then \<exists>m. vi_pos v = AuthIs (Some m) \<and> js ''pos.access'' \<in> set (me_permissions m)
      \<and> (s = PosReturnsScreen \<longrightarrow> js ''return.manage'' \<in> set (me_permissions m))
    else \<exists>m. vi_admin v = AuthIs (Some m) \<and> (me_must_change_password m \<longleftrightarrow> s = ForcedPasswordChangePage)
      \<and> (s \<noteq> ForcedPasswordChangePage \<longrightarrow> js ''admin.access'' \<in> set (me_permissions m)
           \<and> (\<forall>ks \<in> set (page_needs s). \<exists>k \<in> set ks. k \<in> set (me_permissions m)))"
proof -
  obtain q where q: "visit v q = Shown ls s" using browse_shown [OF assms(1)] by blast
  obtain segs els s0 where m: "match_route q = (segs, els, s0)" by (cases "match_route q")
  have d: "elements_draw v q [] els s0 = Shown ls s" using q by (simp add: visit_def m)
  note pass = elements_pass [OF d]
  have passes: "guard_draw v q g = Passes" if "Guard g \<in> set els" for g using pass that by blast
  have "s \<noteq> NotFoundPage" using assms(2) by (auto simp: public_pages_def)
  then have inb: "(segs, els, s) \<in> set route_table" "match_segments segs q"
    using match_route_cases [OF m] pass by auto
  then have guarded: "branch_guarded (segs, els, s)" using branches_guarded unfolding list_all_iff by blast
  show ?thesis
  proof (cases "s \<in> set till_pages")
    case True
    then have "guard_draw v q RequirePosAuth = Passes" using guarded assms(2) by (intro passes) auto
    then obtain me where me: "vi_pos v = AuthIs (Some me)" "js ''pos.access'' \<in> set (me_permissions me)"
      by (cases "vi_pos v") (auto simp: auth_isLoading_def hasPermission_def split: if_splits option.splits)
    have "hasPermission (vi_pos v) (js ''return.manage'')" if "s = PosReturnsScreen"
    proof -
      have "screen_draw v q ls' PosReturnsScreen = Shown ls s \<Longrightarrow> ?thesis" for ls'
        by (auto split: if_splits)
      with d that pass elements_shown_screen [OF d] show ?thesis by auto
    qed
    with True me show ?thesis by (auto simp: hasPermission_def)
  next
    case False
    then have auth: "guard_draw v q RequireAuth = Passes"
      using guarded assms(2) by (intro passes) (auto split: if_splits)
    then obtain me where me: "vi_admin v = AuthIs (Some me)"
      "me_must_change_password me \<longleftrightarrow> q = path_of [''change-password'']"
      by (cases "vi_admin v") (auto simp: auth_isLoading_def split: if_splits option.splits)
    have q: "q = path_of [''change-password''] \<longleftrightarrow> s = ForcedPasswordChangePage"
      using guarded False assms(2) inb(2)
      by (cases segs; cases q) (auto simp: path_of_def split: if_splits elim!: match_segments.elims)
    have "hasPermission (vi_admin v) (js ''admin.access'')
        \<and> (\<forall>ks \<in> set (page_needs s). \<exists>k \<in> set ks. hasPermission (vi_admin v) k)"
      if nf: "s \<noteq> ForcedPasswordChangePage"
    proof (intro conjI ballI)
      show "hasPermission (vi_admin v) (js ''admin.access'')"
        using passes [of "RequirePermission (js ''admin.access'')"] guarded False assms(2) nf
        by (auto split: if_splits)
      fix ks assume "ks \<in> set (page_needs s)"
      then consider "Guard (RequireAnyPermission ks) \<in> set els"
        | "length ks = 1" "Guard (RequirePermission (hd ks)) \<in> set els"
        using guarded False assms(2) nf by auto
      then show "\<exists>k \<in> set ks. hasPermission (vi_admin v) k"
      proof cases
        case 1
        from passes [OF 1] show ?thesis by (auto split: if_splits)
      next
        case 2
        from passes [OF 2(2)] 2(1) show ?thesis by (cases ks) (auto split: if_splits)
      qed
    qed
    with me q False show ?thesis by (auto simp: hasPermission_def)
  qed
qed

section \<open>The menu\<close>

record nav_entry =
  ne_to :: url_path
  ne_label :: jsstring
  ne_permissions :: "jsstring list"

record nav_section =
  ns_title :: "jsstring option"
  ns_entries :: "nav_entry list"

definition nav :: "string list \<Rightarrow> jsstring \<Rightarrow> string list \<Rightarrow> nav_entry" where
  "nav to label permissions =
     \<lparr>ne_to = path_of (''admin'' # to), ne_label = label, ne_permissions = map js permissions\<rparr>"

definition SECTIONS :: "nav_section list" where
  "SECTIONS =
    [\<lparr>ns_title = None, ns_entries =
       [nav [''notifications''] (js ''Avisos'') [''notification.read''],
        nav [''inventory''] (js ''Inventario'') [''product.read'', ''lot.read'', ''inventory.read'']]\<rparr>,
     \<lparr>ns_title = Some (js ''Comprar y vender''), ns_entries =
       [nav [''suppliers''] (js ''Proveedores'') [''supplier.read''],
        nav [''purchasing''] (js ''Compras'') [''purchase.read''],
        nav [''sales''] (js ''Ventas'') [''sale.read''],
        nav [''z-reports''] (js ''Cierres de caja'') [''sale.read''],
        nav [''returns''] (js ''Devoluciones'') [''return.read''],
        nav [''reports''] (js ''Informes'') [''report.read'']]\<rparr>,
     \<lparr>ns_title = Some (js ''Configuraci'' @ [243] @ js ''n de la tienda''), ns_entries =
       [nav [''settings''] (js ''Configuraci'' @ [243] @ js ''n'') [''settings.read''],
        nav [''pos-terminals''] (js ''Terminales POS'') [''pos_terminal.manage'', ''pos.cold_drink_surcharge.manage''],
        nav [''pricing''] (js ''Precios e impuestos'') [''pricing.manage''],
        nav [''ticket-templates''] (js ''Plantillas de ticket'') [''ticket.manage'']]\<rparr>,
     \<lparr>ns_title = Some (js ''Administraci'' @ [243] @ js ''n''), ns_entries =
       [nav [''access''] (js ''Usuarios y roles'') [''users.manage'', ''roles.manage''],
        nav [''audit-log''] (js ''Auditor'' @ [237] @ js ''a'') [''audit.read''],
        nav [''outbox''] (js ''Correo enviado'') [''job.read''],
        nav [''account''] (js ''Mi cuenta'') []]\<rparr>]"

definition entry_visible :: "visitor \<Rightarrow> nav_entry \<Rightarrow> bool" where
  "entry_visible v e \<longleftrightarrow> ne_permissions e = [] \<or> (\<exists>k \<in> set (ne_permissions e). hasPermission (vi_admin v) k)"

definition visible_sections :: "visitor \<Rightarrow> nav_section list" where
  "visible_sections v =
     filter (\<lambda>sec. ns_entries sec \<noteq> [])
       (map (\<lambda>sec. sec\<lparr>ns_entries := filter (entry_visible v) (ns_entries sec)\<rparr>) SECTIONS)"

text \<open>The badge of the open incidents: the gravest severity among them.\<close>

datatype severity = LOW | MEDIUM_LOW | MEDIUM_HIGH | HIGH

definition SEVERITY_ORDER :: "severity list" where
  "SEVERITY_ORDER = [LOW, MEDIUM_LOW, MEDIUM_HIGH, HIGH]"

definition worst_severity :: "severity list \<Rightarrow> severity option" where
  "worst_severity incidents =
     (let found = filter (\<lambda>level. level \<in> set incidents) SEVERITY_ORDER
      in if found = [] then None else Some (last found))"

text \<open>The pages an entry may open: for a section with tabs, those of its tabs.\<close>

definition entry_pages :: "(url_path \<times> screen list) list" where
  "entry_pages = map (\<lambda>(p, s). (path_of (''admin'' # p), s))
     [([''notifications''], [NotificationsPage]),
      ([''inventory''], [ProductsPage, LotsPage, InventoryBalancesPage]),
      ([''suppliers''], [SuppliersPage]), ([''purchasing''], [PurchasingPage]), ([''sales''], [SalesPage]),
      ([''z-reports''], [ZReportsPage]), ([''returns''], [AdminReturnsPage]), ([''reports''], [ReportsPage]),
      ([''settings''], [SettingsPage]), ([''pos-terminals''], [PosTerminalsPage]),
      ([''pricing''], [PricingTaxesPage]), ([''ticket-templates''], [TicketTemplatesPage]),
      ([''access''], [UsersPage, RolesPage]), ([''audit-log''], [AuditLogPage]),
      ([''outbox''], [OutboxPage]), ([''account''], [AccountPage])]"

lemma match_menu:
  "match_route (path_of [''admin'', ''inventory'']) =
     ([Lit (js ''admin''), Lit (js ''inventory'')], admin_guards @
      [Guard inventory_guard, Layout InventoryPage], InventoryIndexRedirect)"
  "match_route (path_of [''admin'', ''access'']) =
     ([Lit (js ''admin''), Lit (js ''access'')], admin_guards @
      [Guard (RequireAnyPermission [js ''users.manage'', js ''roles.manage'']), Layout AccessPage],
      AccessIndexRedirect)"
  "match_route (path_of [''admin'', ''pricing'']) =
     ([Lit (js ''admin''), Lit (js ''pricing'')], admin_guards @
      [Guard (RequirePermission (js ''pricing.manage'')), Layout PricingPage],
      Navigate (path_of [''admin'', ''pricing'', ''taxes'']))"
  by (simp_all add: match_route_def route_table_eq path_of_def admin_guards_def inventory_guard_def)

definition admin_visitor :: "visitor \<Rightarrow> bool" where
  "admin_visitor v \<longleftrightarrow> (\<exists>m. vi_admin v = AuthIs (Some m) \<and> \<not> me_must_change_password m)
     \<and> hasPermission (vi_admin v) (js ''admin.access'')"

lemma admin_visitor_draw:
  assumes "admin_visitor v" and "p \<noteq> path_of [''change-password'']"
  shows "elements_draw v p [] (admin_guards @ els) s = elements_draw v p [AdminLayout] els s"
  using assms by (auto simp: admin_visitor_def admin_guards_def auth_isLoading_def)

lemma browse_shownI: "visit v p = Shown ls s \<Longrightarrow> browse v p = Some (Shown ls s)"
  by (simp add: browse.simps [of v p])

lemma browse_redirectI: "visit v p = Redirect q \<Longrightarrow> browse v q = d \<Longrightarrow> browse v p = d"
  by (simp add: browse.simps [of v p])

text \<open>A page under one guard of permissions, as most of the menu is.\<close>

definition guarded_page :: "string \<Rightarrow> string list \<Rightarrow> screen \<Rightarrow> bool" where
  "guarded_page p ks s \<longleftrightarrow> snd (match_route (path_of [''admin'', p])) = (admin_guards @
     (case ks of [] \<Rightarrow> [] | [k] \<Rightarrow> [Guard (RequirePermission (js k))]
      | _ \<Rightarrow> [Guard (RequireAnyPermission (map js ks))]), s)"

lemma guarded_pages:
  "guarded_page ''notifications'' [''notification.read''] NotificationsPage"
  "guarded_page ''suppliers'' [''supplier.read''] SuppliersPage"
  "guarded_page ''purchasing'' [''purchase.read''] PurchasingPage"
  "guarded_page ''sales'' [''sale.read''] SalesPage"
  "guarded_page ''z-reports'' [''sale.read''] ZReportsPage"
  "guarded_page ''returns'' [''return.read''] AdminReturnsPage"
  "guarded_page ''reports'' [''report.read''] ReportsPage"
  "guarded_page ''settings'' [''settings.read''] SettingsPage"
  "guarded_page ''pos-terminals'' [''pos_terminal.manage'', ''pos.cold_drink_surcharge.manage''] PosTerminalsPage"
  "guarded_page ''ticket-templates'' [''ticket.manage''] TicketTemplatesPage"
  "guarded_page ''audit-log'' [''audit.read''] AuditLogPage"
  "guarded_page ''outbox'' [''job.read''] OutboxPage"
  "guarded_page ''account'' [] AccountPage"
  by (simp_all add: guarded_page_def match_route_def route_table_eq path_of_def admin_guards_def)

lemma guarded_page_opens:
  assumes "guarded_page p ks s" and "admin_visitor v" and "\<forall>v p ls. screen_draw v p ls s = Shown ls s"
    and "ks = [] \<or> (\<exists>k \<in> set ks. hasPermission (vi_admin v) (js k))"
  shows "browse v (path_of [''admin'', p]) = Some (Shown [AdminLayout] s)"
proof (rule browse_shownI)
  obtain segs where "match_route (path_of [''admin'', p]) = (segs, admin_guards @
      (case ks of [] \<Rightarrow> [] | [k] \<Rightarrow> [Guard (RequirePermission (js k))]
       | _ \<Rightarrow> [Guard (RequireAnyPermission (map js ks))]), s)"
    using assms(1) by (cases "match_route (path_of [''admin'', p])") (simp add: guarded_page_def)
  then have *: "visit v (path_of [''admin'', p]) = elements_draw v (path_of [''admin'', p]) [AdminLayout]
      (case ks of [] \<Rightarrow> [] | [k] \<Rightarrow> [Guard (RequirePermission (js k))]
       | _ \<Rightarrow> [Guard (RequireAnyPermission (map js ks))]) s"
    by (simp add: visit_def admin_visitor_draw [OF assms(2)])
  consider "ks = []" | k where "ks = [k]" | k k' ks' where "ks = k # k' # ks'"
    by (cases ks rule: remdups_adj.cases) auto
  then show "visit v (path_of [''admin'', p]) = Shown [AdminLayout] s"
    using * assms(4) by cases (auto simp: assms(3))
qed

lemma inventory_opens:
  assumes "admin_visitor v" and "\<exists>k \<in> {js ''product.read'', js ''lot.read'', js ''inventory.read''}. hasPermission (vi_admin v) k"
  shows "\<exists>s \<in> {ProductsPage, LotsPage, InventoryBalancesPage}.
    browse v (path_of [''admin'', ''inventory'']) = Some (Shown [AdminLayout, InventoryPage] s)"
proof -
  have "visit v (path_of [''admin'', ''inventory'']) = inventory_index_redirect v"
    using assms by (auto simp: visit_def match_menu admin_visitor_draw inventory_guard_def)
  moreover have "hasPermission (vi_admin v) (js ''product.read'') \<Longrightarrow>
      browse v (path_of [''admin'', ''inventory'', ''products'']) = Some (Shown [AdminLayout, InventoryPage] ProductsPage)"
    "hasPermission (vi_admin v) (js ''lot.read'') \<Longrightarrow>
      browse v (path_of [''admin'', ''inventory'', ''lots'']) = Some (Shown [AdminLayout, InventoryPage] LotsPage)"
    "hasPermission (vi_admin v) (js ''inventory.read'') \<Longrightarrow>
      browse v (path_of [''admin'', ''inventory'', ''balances'']) = Some (Shown [AdminLayout, InventoryPage] InventoryBalancesPage)"
    by (auto intro!: browse_shownI simp: visit_def match_tabs admin_visitor_draw [OF assms(1)] inventory_guard_def)
  ultimately show ?thesis
    using assms(2) by (auto simp: inventory_index_redirect_def browse.simps [of v "path_of [''admin'', ''inventory'']"])
qed

lemma access_opens:
  assumes "admin_visitor v" and "\<exists>k \<in> {js ''users.manage'', js ''roles.manage''}. hasPermission (vi_admin v) k"
  shows "\<exists>s \<in> {UsersPage, RolesPage}.
    browse v (path_of [''admin'', ''access'']) = Some (Shown [AdminLayout, AccessPage] s)"
proof -
  have "visit v (path_of [''admin'', ''access'']) = access_index_redirect v"
    using assms by (auto simp: visit_def match_menu admin_visitor_draw)
  moreover have "hasPermission (vi_admin v) (js ''users.manage'') \<Longrightarrow>
      browse v (path_of [''admin'', ''access'', ''users'']) = Some (Shown [AdminLayout, AccessPage] UsersPage)"
    "hasPermission (vi_admin v) (js ''roles.manage'') \<Longrightarrow>
      browse v (path_of [''admin'', ''access'', ''roles'']) = Some (Shown [AdminLayout, AccessPage] RolesPage)"
    by (auto intro!: browse_shownI simp: visit_def match_tabs admin_visitor_draw [OF assms(1)])
  ultimately show ?thesis
    using assms(2) by (auto simp: access_index_redirect_def browse.simps [of v "path_of [''admin'', ''access'']"])
qed

lemma pricing_opens:
  assumes "admin_visitor v" and "hasPermission (vi_admin v) (js ''pricing.manage'')"
  shows "browse v (path_of [''admin'', ''pricing'']) = Some (Shown [AdminLayout, PricingPage] PricingTaxesPage)"
proof (rule browse_redirectI)
  show "visit v (path_of [''admin'', ''pricing'']) = Redirect (path_of [''admin'', ''pricing'', ''taxes''])"
    using assms by (simp add: visit_def match_menu admin_visitor_draw)
  show "browse v (path_of [''admin'', ''pricing'', ''taxes'']) = Some (Shown [AdminLayout, PricingPage] PricingTaxesPage)"
    using assms by (intro browse_shownI) (simp add: visit_def match_tabs admin_visitor_draw)
qed

text \<open>C25: Every link the menu of the back office offers opens its own page: for whoever is signed in there
  with a password of their own, following a visible entry ends on a page of that entry inside the
  back office, never on a redirect elsewhere.\<close>

theorem menu_links_open:
  assumes "admin_visitor v" and "sec \<in> set (visible_sections v)" and "e \<in> set (ns_entries sec)"
  shows "\<exists>ls pages s. browse v (ne_to e) = Some (Shown (AdminLayout # ls) s)
    \<and> (ne_to e, pages) \<in> set entry_pages \<and> s \<in> set pages"
proof -
  have vis: "entry_visible v e" and mem: "\<exists>sec' \<in> set SECTIONS. e \<in> set (ns_entries sec')"
    using assms(2,3) by (auto simp: visible_sections_def)
  consider (inventory) "ne_to e = path_of [''admin'', ''inventory'']"
      "ne_permissions e = map js [''product.read'', ''lot.read'', ''inventory.read'']"
    | (access) "ne_to e = path_of [''admin'', ''access'']" "ne_permissions e = map js [''users.manage'', ''roles.manage'']"
    | (pricing) "ne_to e = path_of [''admin'', ''pricing'']" "ne_permissions e = map js [''pricing.manage'']"
    | (page) p ks s where "ne_to e = path_of [''admin'', p]" "guarded_page p ks s" "ne_permissions e = map js ks"
        "(path_of [''admin'', p], [s]) \<in> set entry_pages" "\<forall>v p ls. screen_draw v p ls s = Shown ls s"
    using mem guarded_pages by (auto simp: SECTIONS_def nav_def entry_pages_def)
  then show ?thesis
  proof cases
    case inventory
    then have "\<exists>s \<in> {ProductsPage, LotsPage, InventoryBalancesPage}.
        browse v (ne_to e) = Some (Shown [AdminLayout, InventoryPage] s)"
      using inventory_opens [OF assms(1)] vis by (auto simp: entry_visible_def)
    moreover have "(ne_to e, [ProductsPage, LotsPage, InventoryBalancesPage]) \<in> set entry_pages"
      by (simp add: inventory entry_pages_def)
    ultimately show ?thesis by fastforce
  next
    case access
    then have "\<exists>s \<in> {UsersPage, RolesPage}. browse v (ne_to e) = Some (Shown [AdminLayout, AccessPage] s)"
      using access_opens [OF assms(1)] vis by (auto simp: entry_visible_def)
    moreover have "(ne_to e, [UsersPage, RolesPage]) \<in> set entry_pages"
      by (simp add: access entry_pages_def)
    ultimately show ?thesis by fastforce
  next
    case pricing
    then have "browse v (ne_to e) = Some (Shown [AdminLayout, PricingPage] PricingTaxesPage)"
      using pricing_opens [OF assms(1)] vis by (auto simp: entry_visible_def)
    moreover have "(ne_to e, [PricingTaxesPage]) \<in> set entry_pages"
      by (simp add: pricing entry_pages_def)
    ultimately show ?thesis by fastforce
  next
    case (page p ks s)
    then have "browse v (ne_to e) = Some (Shown [AdminLayout] s)"
      using guarded_page_opens [OF page(2) assms(1) page(5)] vis by (auto simp: entry_visible_def)
    with page show ?thesis by fastforce
  qed
qed

lemma visible_sectionsI:
  assumes "sec \<in> set SECTIONS" and "e \<in> set (ns_entries sec)" and "entry_visible v e"
  shows "\<exists>sec' \<in> set (visible_sections v). e \<in> set (ns_entries sec')"
proof (rule bexI)
  let ?sec = "sec\<lparr>ns_entries := filter (entry_visible v) (ns_entries sec)\<rparr>"
  show "e \<in> set (ns_entries ?sec)" using assms by simp
  then show "?sec \<in> set (visible_sections v)"
    using assms by (auto simp: visible_sections_def filter_empty_conv)
qed

definition sample_manager :: visitor where
  "sample_manager = \<lparr>vi_admin = AuthIs (Some \<lparr>me_id = 1, me_email = [], me_full_name = [], me_role = js ''MANAGER'',
       me_permissions = [js ''admin.access'', js ''pricing.manage''], me_must_change_password = False\<rparr>),
     vi_pos = AuthIs None\<rparr>"

lemma sample_manager_admin: "admin_visitor sample_manager"
  "hasPermission (vi_admin sample_manager) (js ''pricing.manage'')"
  by (simp_all add: admin_visitor_def sample_manager_def hasPermission_def)

lemma pages_guarded_witness:
  "\<exists>m. vi_admin sample_manager = AuthIs (Some m) \<and> \<not> me_must_change_password m
     \<and> js ''admin.access'' \<in> set (me_permissions m) \<and> js ''pricing.manage'' \<in> set (me_permissions m)"
proof -
  have "PricingTaxesPage \<notin> set public_pages" by (simp add: public_pages_def)
  from pages_guarded [OF pricing_opens [OF sample_manager_admin] this] show ?thesis
    by (auto simp: till_pages_def)
qed

lemma menu_links_open_witness:
  "\<exists>ls pages s. browse sample_manager (path_of [''admin'', ''pricing'']) = Some (Shown (AdminLayout # ls) s)
    \<and> (path_of [''admin'', ''pricing''], pages) \<in> set entry_pages \<and> s \<in> set pages"
proof -
  let ?e = "nav [''pricing''] (js ''Precios e impuestos'') [''pricing.manage'']"
  have "entry_visible sample_manager ?e"
    using sample_manager_admin(2) by (simp add: entry_visible_def nav_def)
  moreover have "\<exists>sec \<in> set SECTIONS. ?e \<in> set (ns_entries sec)" by (simp add: SECTIONS_def)
  ultimately obtain sec where "sec \<in> set (visible_sections sample_manager)" "?e \<in> set (ns_entries sec)"
    using visible_sectionsI by blast
  from menu_links_open [OF sample_manager_admin(1) this] show ?thesis by (simp add: nav_def)
qed

text \<open>
  The product's own page sits outside the tab that asks for \<open>product.read\<close>: a permission on lots is
  enough to reach it.
\<close>

lemma product_page_without_product_read:
  assumes "admin_visitor v" and "hasPermission (vi_admin v) (js ''lot.read'')"
  shows "browse v (path_of [''admin'', ''inventory'', ''products''] @ [i]) = Some (Shown [AdminLayout] ProductDetailPage)"
proof (rule browse_shownI)
  have "path_of [''admin'', ''inventory'', ''products''] @ [i] \<noteq> path_of [''change-password'']"
    by (simp add: path_of_def)
  then show "visit v (path_of [''admin'', ''inventory'', ''products''] @ [i]) = Shown [AdminLayout] ProductDetailPage"
    using assms by (auto simp: visit_def match_product admin_visitor_draw inventory_guard_def)
qed

end
