(* ===== verification/Pos_Frame.thy ===== *)
theory Pos_Frame
  imports Close_Till Sessions
begin

text \<open>
  The frame of the till: which register the browser is (\<open>PosTerminalProvider.tsx\<close>,
  \<open>TerminalSelection.tsx\<close>), the header's shared actions and the last ticket
  (\<open>PosHeaderActions.tsx\<close>), the layout (\<open>pages/pos/PosLayout.tsx\<close>), the ticket history
  (\<open>pages/pos/PosTicketsPage.tsx\<close>), and what the product grid, the product search and the category
  tabs show.
\<close>

section \<open>The register of the browser\<close>

type_synonym local_storage = "jsstring \<Rightarrow> jsstring option"

definition POS_TERMINAL_STORAGE_KEY :: jsstring where
  "POS_TERMINAL_STORAGE_KEY = js ''openerp.pos.terminalId''"

definition stored_number :: "jsstring \<Rightarrow> int option" where
  "stored_number raw =
     (let parsed = js_Number raw
      in if js_is_safe_integer parsed \<and> JsNum 0 < parsed then Some (js_int parsed) else None)"

definition storedTerminalId :: "local_storage \<Rightarrow> int option" where
  "storedTerminalId storage =
     (case storage POS_TERMINAL_STORAGE_KEY of None \<Rightarrow> None | Some raw \<Rightarrow> stored_number raw)"

definition posLastTicketStorageKey :: "int \<Rightarrow> jsstring" where
  "posLastTicketStorageKey terminalId = js ''openerp.pos.lastTicketSaleId.'' @ int_string terminalId"

text \<open>\<open>Number(null)\<close> is zero, which is no ticket.\<close>

definition storedLastTicketSaleId :: "local_storage \<Rightarrow> int option \<Rightarrow> int option" where
  "storedLastTicketSaleId storage terminalId =
     (case terminalId of
        None \<Rightarrow> None
      | Some i \<Rightarrow> (case storage (posLastTicketStorageKey i) of None \<Rightarrow> None | Some raw \<Rightarrow> stored_number raw))"

section \<open>State and events\<close>

text \<open>
  The query of the terminals is asked every ten seconds; its data stays when a refresh fails. The
  action "new sale" is the one the screen registered, told from another by its number.
\<close>

record pos_frame =
  fr_storage :: local_storage
  fr_configuredId :: "int option"
  fr_changing :: bool
  fr_terminals :: "pos_terminal list option"
  fr_failed :: bool
  fr_lastTicket :: "int option"
  fr_newSale :: "(nat \<times> bool) option"
  fr_report :: "till_mode option"
  fr_fullscreen :: bool

definition frame_init :: "local_storage \<Rightarrow> bool \<Rightarrow> pos_frame" where
  "frame_init storage fullscreen =
     \<lparr>fr_storage = storage, fr_configuredId = storedTerminalId storage,
      fr_changing = (storedTerminalId storage = None), fr_terminals = None, fr_failed = False,
      fr_lastTicket = None, fr_newSale = None, fr_report = None, fr_fullscreen = fullscreen\<rparr>"

definition selectedTerminal :: "pos_frame \<Rightarrow> pos_terminal option" where
  "selectedTerminal s =
     (case fr_terminals s of None \<Rightarrow> None | Some ts \<Rightarrow> find (\<lambda>t. Some (pt_id t) = fr_configuredId s) ts)"

definition selectedId :: "pos_frame \<Rightarrow> int option" where
  "selectedId s = map_option pt_id (selectedTerminal s)"

definition selectionOpen :: "pos_frame \<Rightarrow> bool" where
  "selectionOpen s \<longleftrightarrow> fr_changing s \<or> selectedTerminal s = None"

definition storedTerminalUnavailable :: "pos_frame \<Rightarrow> bool" where
  "storedTerminalUnavailable s \<longleftrightarrow>
     fr_terminals s \<noteq> None \<and> fr_configuredId s \<noteq> None \<and> selectedTerminal s = None"

definition selectTerminal :: "int \<Rightarrow> pos_frame \<Rightarrow> pos_frame" where
  "selectTerminal terminalId s =
     s\<lparr>fr_storage := (fr_storage s)(POS_TERMINAL_STORAGE_KEY \<mapsto> int_string terminalId),
       fr_configuredId := Some terminalId, fr_changing := False\<rparr>"

definition registerNewSaleAction :: "nat \<Rightarrow> bool \<Rightarrow> pos_frame \<Rightarrow> pos_frame" where
  "registerNewSaleAction action disabled s = s\<lparr>fr_newSale := Some (action, disabled)\<rparr>"

definition unregisterNewSaleAction :: "nat \<Rightarrow> pos_frame \<Rightarrow> pos_frame" where
  "unregisterNewSaleAction action s =
     s\<lparr>fr_newSale := (case fr_newSale s of
         Some (current, d) \<Rightarrow> if current = action then None else Some (current, d) | None \<Rightarrow> None)\<rparr>"

text \<open>
  The callback keeps the terminal of the screen that was drawn last with it: a payment whose answer
  comes after another terminal was selected remembers its ticket for the terminal it was paid at.
\<close>

definition rememberLastTicket :: "int option \<Rightarrow> int \<Rightarrow> pos_frame \<Rightarrow> pos_frame" where
  "rememberLastTicket terminalId saleId s =
     (case terminalId of
        None \<Rightarrow> s
      | Some i \<Rightarrow> s\<lparr>fr_storage := (fr_storage s)(posLastTicketStorageKey i \<mapsto> int_string saleId),
                    fr_lastTicket := Some saleId\<rparr>)"

datatype frame_event =
    TerminalsAre "pos_terminal list"
  | TerminalsFail
  | PickTerminal int
  | ChangeTerminal
  | KeepTerminal
  | RegisterAction nat bool
  | UnregisterAction nat
  | TicketPrinted "int option" int
  | OpenReport till_mode
  | ReportDone
  | FullscreenIs bool
  | PageReloaded

fun frame_handle :: "pos_frame \<Rightarrow> frame_event \<Rightarrow> pos_frame" where
  "frame_handle s (TerminalsAre ts) = s\<lparr>fr_terminals := Some ts, fr_failed := False\<rparr>"
| "frame_handle s TerminalsFail = s\<lparr>fr_failed := True\<rparr>"
| "frame_handle s (PickTerminal i) = selectTerminal i s"
| "frame_handle s ChangeTerminal = s\<lparr>fr_changing := True\<rparr>"
| "frame_handle s KeepTerminal = s\<lparr>fr_changing := False\<rparr>"
| "frame_handle s (RegisterAction a d) = registerNewSaleAction a d s"
| "frame_handle s (UnregisterAction a) = unregisterNewSaleAction a s"
| "frame_handle s (TicketPrinted terminalId saleId) = rememberLastTicket terminalId saleId s"
| "frame_handle s (OpenReport m) = s\<lparr>fr_report := Some m\<rparr>"
| "frame_handle s ReportDone = s\<lparr>fr_report := None\<rparr>"
| "frame_handle s (FullscreenIs b) = s\<lparr>fr_fullscreen := b\<rparr>"
| "frame_handle s PageReloaded = frame_init (fr_storage s) False"

text \<open>The effect that runs when another terminal is selected reads its last ticket.\<close>

definition frame_step :: "pos_frame \<Rightarrow> frame_event \<Rightarrow> pos_frame" where
  "frame_step s e =
     (let s' = frame_handle s e
      in if selectedId s' \<noteq> selectedId s
         then s'\<lparr>fr_lastTicket := storedLastTicketSaleId (fr_storage s') (selectedId s')\<rparr> else s')"

text \<open>
  What the screen offers; terminals and sales have identifiers of the server. \<open>may\<close> are the permissions of whoever is signed in at the till.
\<close>

fun frame_enabled :: "(jsstring \<Rightarrow> bool) \<Rightarrow> pos_frame \<Rightarrow> frame_event \<Rightarrow> bool" where
  "frame_enabled may s (TerminalsAre ts) = (\<forall>t \<in> set ts. server_id (pt_id t))"
| "frame_enabled may s (PickTerminal i) =
     (selectionOpen s \<and> (\<exists>ts. fr_terminals s = Some ts \<and> i \<in> pt_id ` set ts))"
| "frame_enabled may s ChangeTerminal = (\<not> selectionOpen s)"
| "frame_enabled may s KeepTerminal = (selectionOpen s \<and> selectedTerminal s \<noteq> None)"
| "frame_enabled may s (RegisterAction a d) = (\<not> selectionOpen s)"
| "frame_enabled may s (TicketPrinted terminalId saleId) =
     (server_id saleId \<and> (\<forall>i \<in> set_option terminalId. server_id i))"
| "frame_enabled may s (OpenReport m) =
     (\<not> selectionOpen s \<and> may (if m = ModeX then js ''sale.manage'' else js ''sale.close_z''))"
| "frame_enabled may s ReportDone = (\<not> selectionOpen s \<and> fr_report s \<noteq> None)"
| "frame_enabled may s e = True"

section \<open>What is drawn\<close>

text \<open>The selection screen: its messages and one button per terminal.\<close>

definition selection_messages :: "pos_frame \<Rightarrow> jsstring list" where
  "selection_messages s =
     (let isLoading = (fr_terminals s = None \<and> \<not> fr_failed s); terminals = (case fr_terminals s of Some ts \<Rightarrow> ts | None \<Rightarrow> []) in
      (if isLoading then [js ''Cargando terminales'' @ [8230]] else [])
      @ (if fr_failed s then [js ''No se han podido cargar los terminales.''] else [])
      @ (if storedTerminalUnavailable s then [js ''El terminal configurado ya no est'' @ [225]
           @ js '' activo. El borrador se conserva, pero no puede seguir oper'' @ [225]
           @ js ''ndose desde esa caja.''] else [])
      @ (if \<not> isLoading \<and> \<not> fr_failed s \<and> terminals = []
         then [js ''No hay terminales activos. Un administrador debe crear o activar uno.''] else []))"

definition keep_button :: "pos_frame \<Rightarrow> jsstring option" where
  "keep_button s = map_option (\<lambda>t. js ''Mantener '' @ pt_name t) (selectedTerminal s)"

text \<open>The header's links and buttons for whoever is signed in.\<close>

datatype header_item = NewSaleButton bool | ReturnLink | TicketsLink | XButton | ZButton

definition header_items :: "(jsstring \<Rightarrow> bool) \<Rightarrow> pos_frame \<Rightarrow> header_item list" where
  "header_items may s =
     (case fr_newSale s of Some (a, disabled) \<Rightarrow> [NewSaleButton disabled] | None \<Rightarrow> [])
     @ (if may (js ''return.manage'') then [ReturnLink] else [])
     @ (if may (js ''sale.read'') then [TicketsLink] else [])
     @ (if may (js ''sale.manage'') then [XButton] else [])
     @ (if may (js ''sale.close_z'') then [ZButton] else [])"

text \<open>The closing dialog the layout mounts: the warehouse of the terminal selected, and the mode.\<close>

definition frame_dialog :: "pos_frame \<Rightarrow> (int option \<times> till_mode) option" where
  "frame_dialog s =
     (if selectionOpen s then None
      else map_option (\<lambda>m. (map_option pt_warehouse_id (selectedTerminal s), m)) (fr_report s))"

subsection \<open>Earlier tickets\<close>

definition tickets_query :: "int option \<Rightarrow> jsstring \<Rightarrow> query_options" where
  "tickets_query terminalId day =
     (salesQuery \<lparr>sf_day = Some day, sf_status = Some COMPLETED, sf_terminalId = terminalId\<rparr>)
       \<lparr>q_enabled := terminalId \<noteq> None\<rparr>"

definition tickets_day :: "date_time_format \<Rightarrow> jsstring \<Rightarrow> jsstring \<Rightarrow> jsstring option \<Rightarrow> jsstring" where
  "tickets_day dt zone now selectedDay =
     (case selectedDay of Some d \<Rightarrow> d | None \<Rightarrow> businessDateAt dt zone now)"

definition ticket_row :: "date_time_format \<Rightarrow> jsstring \<Rightarrow> sale \<Rightarrow> jsstring list" where
  "ticket_row dt zone sale =
     [35 # (case sa_number sale of Some n \<Rightarrow> int_string n | None \<Rightarrow> []),
      formatBusinessTime dt (case sa_completed_at sale of Some t \<Rightarrow> t | None \<Rightarrow> sa_created_at sale) zone,
      (case sa_cashier_name sale of Some n \<Rightarrow> n | None \<Rightarrow> [8212]), formatMoney (sa_total sale)]"

subsection \<open>Products\<close>

datatype listing =
    ListLoading
  | ListFailed
  | ListEmpty
  | ListHint
  | ListRows "(jsstring \<times> jsstring) list"

definition product_price_label :: "product \<Rightarrow> jsstring" where
  "product_price_label p =
     (if truthy (pr_is_open_price p) then js ''Precio libre'' else formatMoney (finalProductPrice p))"

definition productGrid :: "product list \<Rightarrow> bool \<Rightarrow> bool \<Rightarrow> listing" where
  "productGrid products isPending isError =
     (if isPending then ListLoading else if isError then ListFailed
      else if products = [] then ListEmpty
      else ListRows (map (\<lambda>p. (pr_name p, product_price_label p)) products))"

definition search_listing :: "jsstring \<Rightarrow> product list \<Rightarrow> bool \<Rightarrow> bool \<Rightarrow> listing" where
  "search_listing query products isPending isError =
     (if js_trim query = [] then ListHint else if isPending then ListLoading
      else if isError then ListFailed else if products = [] then ListEmpty
      else ListRows (map (\<lambda>p. (pr_name p, product_price_label p)) products))"

text \<open>The keys of the search dialog: the letter rows, clear, back and space.\<close>

definition KEY_ROWS :: "jsstring list" where
  "KEY_ROWS = [js ''1234567890'', js ''QWERTYUIOP'', js ''ASDFGHJKL'' @ [209], js ''ZXCVBNM'']"

datatype search_key = LetterKey nat | ClearKey | BackKey | SpaceKey

fun search_press :: "jsstring \<Rightarrow> search_key \<Rightarrow> jsstring" where
  "search_press query (LetterKey c) = query @ [c]"
| "search_press query ClearKey = []"
| "search_press query BackKey = js_slice 0 (- 1) query"
| "search_press query SpaceKey = query @ [cu_space]"

text \<open>The tabs: "all" and one per category, and whether each is the one selected.\<close>

definition category_tabs :: "(int \<times> jsstring) list \<Rightarrow> int option \<Rightarrow> (int option \<times> jsstring \<times> bool) list" where
  "category_tabs categories chosen =
     (None, js ''Todos'', chosen = None)
     # map (\<lambda>(i, name). (Some i, name, chosen = Some i)) categories"

section \<open>The register and its last ticket survive\<close>

lemma stored_number_int [simp]: "server_id i \<Longrightarrow> stored_number (int_string i) = Some i"
  by (auto simp: stored_number_def server_id_def less_jsnum_def Let_def dest: js_Number_server_id [unfolded server_id_def, OF conjI])

lemma ticket_keys [simp]:
  "server_id i \<Longrightarrow> server_id j \<Longrightarrow> posLastTicketStorageKey i = posLastTicketStorageKey j \<longleftrightarrow> i = j"
  "posLastTicketStorageKey i \<noteq> POS_TERMINAL_STORAGE_KEY"
  "POS_TERMINAL_STORAGE_KEY \<noteq> posLastTicketStorageKey i"
proof -
  show "posLastTicketStorageKey i \<noteq> POS_TERMINAL_STORAGE_KEY"
    by (auto simp: posLastTicketStorageKey_def POS_TERMINAL_STORAGE_KEY_def js_def)
  then show "POS_TERMINAL_STORAGE_KEY \<noteq> posLastTicketStorageKey i" by metis
qed (simp add: posLastTicketStorageKey_def server_id_def)

text \<open>
  Along a run: what was printed on which terminal, newest first; and whether the last ticket since the
  terminal was selected is a stray one, paid at another.
\<close>

definition logged_step ::
  "pos_frame \<times> (int \<times> int) list \<times> bool \<Rightarrow> frame_event \<Rightarrow> pos_frame \<times> (int \<times> int) list \<times> bool" where
  "logged_step x e =
     (case x of (s, prints, stray) \<Rightarrow> (frame_step s e,
        case e of TicketPrinted (Some i) saleId \<Rightarrow> (i, saleId) # prints | _ \<Rightarrow> prints,
        if e = PageReloaded \<or> selectedId (frame_step s e) \<noteq> selectedId s then False
        else (case e of TicketPrinted (Some i) saleId \<Rightarrow> selectedId s \<noteq> Some i | _ \<Rightarrow> stray)))"

definition printed_log :: "pos_frame \<Rightarrow> frame_event list \<Rightarrow> (int \<times> int) list" where
  "printed_log s es = fst (snd (foldl logged_step (s, [], False) es))"

definition stray_ticket :: "pos_frame \<Rightarrow> frame_event list \<Rightarrow> bool" where
  "stray_ticket s es = snd (snd (foldl logged_step (s, [], False) es))"

definition last_printed :: "local_storage \<Rightarrow> (int \<times> int) list \<Rightarrow> int \<Rightarrow> int option" where
  "last_printed storage prints i =
     (case map_of prints i of Some saleId \<Rightarrow> Some saleId | None \<Rightarrow> storedLastTicketSaleId storage (Some i))"

definition frame_ok :: "local_storage \<Rightarrow> pos_frame \<times> (int \<times> int) list \<times> bool \<Rightarrow> bool" where
  "frame_ok storage x \<longleftrightarrow> (case x of (s, prints, stray) \<Rightarrow>
     fr_configuredId s = storedTerminalId (fr_storage s)
     \<and> (\<not> stray \<longrightarrow> fr_lastTicket s = storedLastTicketSaleId (fr_storage s) (selectedId s))
     \<and> (\<forall>ts. fr_terminals s = Some ts \<longrightarrow> (\<forall>t \<in> set ts. server_id (pt_id t)))
     \<and> (\<forall>i. server_id i \<longrightarrow> storedLastTicketSaleId (fr_storage s) (Some i) = last_printed storage prints i))"

lemma selectedId_server:
  assumes "frame_ok storage (s, rest)" and "selectedId s = Some i"
  shows "server_id i"
  using assms by (cases rest) (auto simp: frame_ok_def selectedId_def selectedTerminal_def find_Some_iff split: option.splits)

lemma storedLastTicket_terminal [simp]:
  "storedLastTicketSaleId (storage(POS_TERMINAL_STORAGE_KEY := v)) i = storedLastTicketSaleId storage i"
  by (auto simp: storedLastTicketSaleId_def split: option.splits)

lemma storedLastTicket_ticket [simp]:
  "server_id i \<Longrightarrow> server_id j \<Longrightarrow> server_id saleId \<Longrightarrow>
     storedLastTicketSaleId (storage(posLastTicketStorageKey i \<mapsto> int_string saleId)) (Some j)
       = (if j = i then Some saleId else storedLastTicketSaleId storage (Some j))"
  by (simp add: storedLastTicketSaleId_def)

lemma storedTerminal_keys [simp]:
  "storedTerminalId (storage(posLastTicketStorageKey i := v)) = storedTerminalId storage"
  "server_id i \<Longrightarrow> storedTerminalId (storage(POS_TERMINAL_STORAGE_KEY \<mapsto> int_string i)) = Some i"
  by (simp_all add: storedTerminalId_def)

lemma selectedId_cong [simp]:
  "selectedId (s\<lparr>fr_storage := a\<rparr>) = selectedId s" "selectedId (s\<lparr>fr_lastTicket := b\<rparr>) = selectedId s"
  "selectedId (s\<lparr>fr_changing := c\<rparr>) = selectedId s" "selectedId (s\<lparr>fr_failed := c\<rparr>) = selectedId s"
  "selectedId (s\<lparr>fr_newSale := d\<rparr>) = selectedId s" "selectedId (s\<lparr>fr_report := r\<rparr>) = selectedId s"
  "selectedId (s\<lparr>fr_fullscreen := c\<rparr>) = selectedId s"
  by (simp_all add: selectedId_def selectedTerminal_def split: option.split)

lemma frame_step_ok:
  assumes ok: "frame_ok storage (s, prints, stray)" and en: "frame_enabled may s e"
  shows "frame_ok storage (logged_step (s, prints, stray) e)"
proof -
  have base: "fr_configuredId s = storedTerminalId (fr_storage s)"
    "\<not> stray \<Longrightarrow> fr_lastTicket s = storedLastTicketSaleId (fr_storage s) (selectedId s)"
    "\<And>ts t. fr_terminals s = Some ts \<Longrightarrow> t \<in> set ts \<Longrightarrow> server_id (pt_id t)"
    "\<And>i. server_id i \<Longrightarrow> storedLastTicketSaleId (fr_storage s) (Some i) = last_printed storage prints i"
    using ok by (auto simp: frame_ok_def)
  show ?thesis
  proof (cases "\<exists>saleId i. e = TicketPrinted (Some i) saleId")
    case True
    then obtain saleId i where e: "e = TicketPrinted (Some i) saleId" by blast
    then have "server_id i" "server_id saleId" using en by auto
    then show ?thesis
      using base by (auto simp: frame_ok_def logged_step_def frame_step_def e rememberLastTicket_def last_printed_def)
  next
    case False
    let ?s = "frame_handle s e"
    have log: "logged_step (s, prints, stray) e = (frame_step s e, prints,
        \<not> (e = PageReloaded \<or> selectedId (frame_step s e) \<noteq> selectedId s) \<and> stray)"
      using False by (cases e) (auto simp: logged_step_def split: option.splits)
    have h: "fr_configuredId ?s = storedTerminalId (fr_storage ?s)
        \<and> (\<forall>ts t. fr_terminals ?s = Some ts \<longrightarrow> t \<in> set ts \<longrightarrow> server_id (pt_id t))
        \<and> (\<forall>i. storedLastTicketSaleId (fr_storage ?s) i = storedLastTicketSaleId (fr_storage s) i)
        \<and> (selectedId ?s = selectedId s \<longrightarrow> \<not> stray \<or> e = PageReloaded \<longrightarrow>
            fr_lastTicket ?s = storedLastTicketSaleId (fr_storage ?s) (selectedId s))"
      using base en False
      by (cases e) (auto simp: selectTerminal_def registerNewSaleAction_def unregisterNewSaleAction_def
        rememberLastTicket_def frame_init_def storedLastTicketSaleId_def selectedId_def selectedTerminal_def
        split: option.splits)
    have sel: "selectedId (frame_step s e) = selectedId ?s" by (simp add: frame_step_def Let_def)
    show ?thesis
      using base(4) h sel unfolding log by (auto simp: frame_ok_def frame_step_def Let_def)
  qed
qed

lemma frame_init_ok: "frame_ok storage (frame_init storage fullscreen, [], False)"
proof -
  have "selectedId (frame_init storage fullscreen) = None"
    by (simp add: selectedId_def selectedTerminal_def frame_init_def)
  then show ?thesis by (simp add: frame_ok_def frame_init_def last_printed_def storedLastTicketSaleId_def)
qed

interpretation till_frame: event_machine "frame_enabled may" frame_step "frame_init storage fullscreen"
    "\<lambda>s. \<exists>rest. frame_ok storage (s, rest)"
  for may storage fullscreen
proof unfold_locales
  show "\<exists>rest. frame_ok storage (frame_init storage fullscreen, rest)" using frame_init_ok by blast
next
  fix s e assume "\<exists>rest. frame_ok storage (s, rest)" "frame_enabled may s e"
  then obtain prints stray where "frame_ok storage (logged_step (s, prints, stray) e)"
    using frame_step_ok by (metis prod.collapse)
  then show "\<exists>rest. frame_ok storage (frame_step s e, rest)" by (auto simp: logged_step_def)
qed

lemma logged_run: "fst (foldl logged_step (s, rest) es) = foldl frame_step s es"
  by (induction es arbitrary: s rest) (auto simp: logged_step_def split: prod.split)

lemma logged_ok:
  assumes "run_ok (frame_enabled may) frame_step (frame_init storage fullscreen) es"
  shows "frame_ok storage (foldl frame_step (frame_init storage fullscreen) es,
    printed_log (frame_init storage fullscreen) es, stray_ticket (frame_init storage fullscreen) es)"
proof -
  let ?s0 = "frame_init storage fullscreen"
  have "frame_ok storage (foldl logged_step (?s0, [], False) es)"
    using assms
  proof (induction es rule: rev_induct)
    case Nil
    then show ?case using frame_init_ok by simp
  next
    case (snoc e es)
    moreover obtain prints stray where "foldl logged_step (?s0, [], False) es = (foldl frame_step ?s0 es, prints, stray)"
      using logged_run [of ?s0 "([], False)" es] by (metis prod.collapse)
    ultimately show ?case by (auto simp: run_ok_snoc intro: frame_step_ok)
  qed
  then show ?thesis
    using logged_run [of ?s0 "([], False)" es] by (metis prod.collapse printed_log_def stray_ticket_def)
qed

text \<open>C26: Each register keeps its own last ticket: whatever terminals were picked, pages reloaded and
  payments answered, and however late, the browser holds for every terminal the ticket printed last
  on it, or, when none was, the one it held before; and the last ticket the frame offers is that of
  the terminal selected, and none when none is selected, unless the answer to a payment made at
  another terminal came after the selection.\<close>

theorem last_ticket_is_own:
  assumes "run_ok (frame_enabled may) frame_step (frame_init storage fullscreen) es"
    and "s = foldl frame_step (frame_init storage fullscreen) es"
    and "prints = printed_log (frame_init storage fullscreen) es"
  shows "(\<forall>i. server_id i \<longrightarrow> storedLastTicketSaleId (fr_storage s) (Some i) = last_printed storage prints i)
    \<and> (\<not> stray_ticket (frame_init storage fullscreen) es \<longrightarrow>
         fr_lastTicket s = (case selectedId s of None \<Rightarrow> None | Some i \<Rightarrow> last_printed storage prints i))"
  using logged_ok [OF assms(1)] selectedId_server [OF logged_ok [OF assms(1)]] assms(2,3)
  by (auto simp: frame_ok_def storedLastTicketSaleId_def split: option.split)

text \<open>The browser remains the register it was: reloading the page and being told the same terminals
  leads back to the very terminal that was selected, with its own last ticket, and without asking.\<close>

lemma register_survives_reload:
  assumes "run_ok (frame_enabled may) frame_step (frame_init storage fullscreen) es"
    and "s = foldl frame_step (frame_init storage fullscreen) es"
    and "fr_terminals s = Some ts" and "selectedTerminal s = Some t"
    and "s' = foldl frame_step s [PageReloaded, TerminalsAre ts]"
  shows "selectedTerminal s' = Some t \<and> \<not> selectionOpen s'
    \<and> fr_lastTicket s' = storedLastTicketSaleId (fr_storage s) (Some (pt_id t))"
proof -
  have ok: "frame_ok storage (s, printed_log (frame_init storage fullscreen) es, stray_ticket (frame_init storage fullscreen) es)"
    using logged_ok [OF assms(1)] assms(2) by simp
  have conf: "fr_configuredId s = Some (pt_id t)"
    using assms(3,4) find_map_of_id by (fastforce simp: selectedTerminal_def)
  have stored: "storedTerminalId (fr_storage s) = Some (pt_id t)"
    using ok conf assms(4) by (auto simp: frame_ok_def selectedId_def)
  let ?r = "frame_init (fr_storage s) False" and ?ticket = "storedLastTicketSaleId (fr_storage s)"
  have r: "selectedId ?r = None" "fr_lastTicket ?r = None" "fr_configuredId ?r = Some (pt_id t)"
    "\<not> fr_changing ?r" "fr_storage ?r = fr_storage s"
    using stored by (simp_all add: selectedId_def selectedTerminal_def frame_init_def)
  have find_t: "find (\<lambda>u. pt_id u = pt_id t) ts = Some t"
    using assms(3,4) conf by (simp add: selectedTerminal_def)
  have "?ticket None = None" by (simp add: storedLastTicketSaleId_def)
  then have "frame_step s PageReloaded = ?r" using r by (simp add: frame_step_def Let_def)
  moreover have "frame_step ?r (TerminalsAre ts) =
      ?r\<lparr>fr_terminals := Some ts, fr_failed := False, fr_lastTicket := ?ticket (Some (pt_id t))\<rparr>"
    using r find_t by (simp add: frame_step_def Let_def selectedId_def selectedTerminal_def)
  ultimately have s': "s' = ?r\<lparr>fr_terminals := Some ts, fr_failed := False,
      fr_lastTicket := ?ticket (Some (pt_id t))\<rparr>"
    by (simp add: assms(5))
  then have "selectedTerminal s' = Some t" using r find_t by (simp add: selectedTerminal_def)
  with s' stored r show ?thesis by (simp add: selectionOpen_def)
qed

definition sample_terminal :: "int \<Rightarrow> pos_terminal" where
  "sample_terminal i = \<lparr>pt_id = i, pt_name = js ''Caja'', pt_warehouse_id = 3, pt_warehouse_name = js ''Tienda'',
     pt_is_active = True, pt_show_product_search = True, pt_created_at = []\<rparr>"

definition first_day :: "frame_event list" where
  "first_day = [TerminalsAre [sample_terminal 1, sample_terminal 2], PickTerminal 2, TicketPrinted (Some 2) 7]"

lemma first_day_run:
  "run_ok (frame_enabled (\<lambda>k. True)) frame_step (frame_init (\<lambda>k. None) False) first_day"
  "selectedTerminal (foldl frame_step (frame_init (\<lambda>k. None) False) first_day) = Some (sample_terminal 2)"
  "fr_terminals (foldl frame_step (frame_init (\<lambda>k. None) False) first_day)
     = Some [sample_terminal 1, sample_terminal 2]"
  "printed_log (frame_init (\<lambda>k. None) False) first_day = [(2, 7)]"
  "\<not> stray_ticket (frame_init (\<lambda>k. None) False) first_day"
  by (simp_all add: first_day_def frame_init_def frame_step_def Let_def selectedId_def selectedTerminal_def
      sample_terminal_def server_id_def selectionOpen_def selectTerminal_def rememberLastTicket_def
      printed_log_def stray_ticket_def logged_step_def storedTerminalId_def)

lemma last_ticket_is_own_witness:
  "fr_lastTicket (foldl frame_step (frame_init (\<lambda>k. None) False) first_day) = Some 7"
  using last_ticket_is_own [OF first_day_run(1) refl refl] first_day_run(2,4,5)
  by (simp add: selectedId_def sample_terminal_def last_printed_def)

text \<open>A payment answered after the terminal was changed: the frame offers the ticket of the other one.\<close>

lemma late_ticket_offered:
  defines "s \<equiv> foldl frame_step (frame_init (\<lambda>k. None) False)
    [TerminalsAre [sample_terminal 1, sample_terminal 2], PickTerminal 1, ChangeTerminal, PickTerminal 2,
     TicketPrinted (Some 1) 7]"
  shows "selectedId s = Some 2" and "fr_lastTicket s = Some 7"
    and "storedLastTicketSaleId (fr_storage s) (Some 2) = None"
  by (simp_all add: s_def frame_init_def frame_step_def Let_def selectedId_def selectedTerminal_def
      sample_terminal_def selectTerminal_def rememberLastTicket_def storedTerminalId_def
      storedLastTicketSaleId_def server_id_def)

lemma register_survives_reload_witness:
  "let s' = foldl frame_step (foldl frame_step (frame_init (\<lambda>k. None) False) first_day)
       [PageReloaded, TerminalsAre [sample_terminal 1, sample_terminal 2]]
   in selectedTerminal s' = Some (sample_terminal 2) \<and> \<not> selectionOpen s'"
  using register_survives_reload [OF first_day_run(1) refl first_day_run(3,2) refl] by (simp only: Let_def) simp

end
