(* ===== verification/Images.thy ===== *)
theory Images
  imports Print_Profile
begin

text \<open>
  Product and category pictures: the calls and addresses of \<open>images/api.ts\<close> and the size a photo is
  cut to before it is sent (\<open>images/resize.ts\<close>). Decoding and drawing are the browser's.
\<close>

section \<open>Calls\<close>

datatype image_owner = ProductImage | PosCategoryImage

fun owner_name :: "image_owner \<Rightarrow> jsstring" where
  "owner_name ProductImage = js ''product''"
| "owner_name PosCategoryImage = js ''pos_category''"

definition imageVersionsQuery :: "image_owner \<Rightarrow> query_options" where
  "imageVersionsQuery ownerType =
     \<lparr>q_key = [KStr (js ''images''), KStr (owner_name ownerType)],
      q_call = get_call (js ''/images/'' @ owner_name ownerType), q_enabled = True\<rparr>"

text \<open>\<open>pathname\<close> is the path of the page that shows the picture.\<close>

definition imageUrl :: "jsstring \<Rightarrow> image_owner \<Rightarrow> int \<Rightarrow> int \<Rightarrow> jsstring" where
  "imageUrl pathname ownerType i version =
     API_V1 @ js ''/images/'' @ owner_name ownerType @ js ''/'' @ int_string i @ js ''?v='' @ int_string version
     @ (if js_starts_with (js ''/pos'') pathname then js ''&session_surface=pos'' else [])"

definition putImage :: "image_owner \<Rightarrow> int \<Rightarrow> jsstring \<Rightarrow> api_call" where
  "putImage ownerType i dataUrl =
     send_call PUT (js ''/images/'' @ owner_name ownerType @ js ''/'' @ int_string i) []
       (Some (JObj [(js ''data_url'', JStr dataUrl)]))"

definition deleteImage :: "image_owner \<Rightarrow> int \<Rightarrow> api_call" where
  "deleteImage ownerType i =
     send_call DELETE (js ''/images/'' @ owner_name ownerType @ js ''/'' @ int_string i) [] None"

section \<open>The size a photo is cut to\<close>

definition MAX_SIDE :: jsnum where
  "MAX_SIDE = JsNum 512"

definition resized :: "jsnum \<Rightarrow> jsnum \<Rightarrow> jsnum \<times> jsnum" where
  "resized width height =
     (let scale = js_min (JsNum 1) (MAX_SIDE div js_max width height)
      in (js_max (JsNum 1) (js_round (width * scale)), js_max (JsNum 1) (js_round (height * scale))))"

lemma round_half_even_ge: "of_int k \<le> q \<Longrightarrow> k \<le> round_half_even q"
  by (auto simp: round_half_even_def Let_def le_floor_iff intro: order_trans [of _ "\<lfloor>q\<rfloor>"])

text \<open>Rounding does not take a number below a power of two it has reached.\<close>

lemma rnd_rat_ge_1:
  assumes "1 \<le> x"
  shows "1 \<le> rnd_rat x"
proof -
  have b: "2 powi binade x \<le> x" "x < 2 powi (binade x + 1)"
    using binade_bounds [of x] assms by auto
  have "0 \<le> binade x"
  proof (rule ccontr)
    assume "\<not> 0 \<le> binade x"
    then have "(2::rat) powi (binade x + 1) \<le> 2 powi 0" by (intro power_int_increasing) auto
    with b assms show False by simp
  qed
  then have u: "ulp_exp x = binade x - 52" using assms by (simp add: ulp_exp_def)
  have "(of_int (2 ^ 52) :: rat) * 2 powi (binade x - 52) = 2 powi binade x"
    by (simp add: power_int_diff)
  then have "(of_int (2 ^ 52) :: rat) \<le> x / 2 powi ulp_exp x"
    using b(1) u by (simp add: pos_le_divide_eq)
  then have "2 ^ 52 \<le> round_half_even (x / 2 powi ulp_exp x)" by (rule round_half_even_ge)
  then have "(of_int (2 ^ 52) :: rat) \<le> of_int (round_half_even (x / 2 powi ulp_exp x))"
    by (simp only: of_int_le_iff)
  then have "of_int (2 ^ 52) * 2 powi ulp_exp x \<le> of_int (round_half_even (x / 2 powi ulp_exp x)) * (2 powi ulp_exp x :: rat)"
    by (intro mult_right_mono) auto
  also have "of_int (2 ^ 52) * 2 powi ulp_exp x = (2 powi binade x :: rat)"
    using u by (simp add: power_int_diff)
  finally have "2 powi binade x \<le> rnd_rat x" using assms by (simp add: rnd_rat_def)
  moreover have "(2::rat) powi 0 \<le> 2 powi binade x"
    using \<open>0 \<le> binade x\<close> by (intro power_int_increasing) auto
  ultimately show ?thesis by simp
qed

text \<open>The scale of a photo whose longer side is \<open>m\<close>: one, or just about \<open>512 / m\<close>.\<close>

lemma scale_small:
  assumes "0 < m" "m \<le> 512"
  shows "js_min (JsNum 1) (MAX_SIDE div JsNum (of_int m)) = JsNum 1"
proof -
  have "(of_int m :: rat) \<le> of_int 512" using assms(2) by (simp only: of_int_le_iff)
  then have ge: "(1::rat) \<le> 512 / of_int m" using assms(1) by simp
  have "512 / of_int m \<le> (512 / 1 :: rat)" using assms(1) by (intro divide_left_mono) auto
  then have "\<bar>512 / of_int m :: rat\<bar> < 2 powi 20" using ge by simp
  then have "rnd (512 / of_int m) = JsNum (rnd_rat (512 / of_int m))" by (rule rnd_small) auto
  with rnd_rat_ge_1 [OF ge] assms(1) show ?thesis
    by (simp add: MAX_SIDE_def divide_jsnum_def less_jsnum_def)
qed

lemma scale_large:
  assumes "512 < m"
  shows "\<exists>s. js_min (JsNum 1) (MAX_SIDE div JsNum (of_int m)) = JsNum s \<and> 0 \<le> s
    \<and> s \<le> 512 / of_int m + 2 powi - 54"
proof -
  have m: "(512 :: rat) < of_int m" using assms by (metis of_int_less_iff of_int_numeral)
  then have lt: "\<bar>512 / of_int m :: rat\<bar> < 2 powi 0" by simp
  have r: "rnd (512 / of_int m) = JsNum (rnd_rat (512 / of_int m))" by (rule rnd_small [OF lt]) auto
  have e: "\<bar>rnd_rat (512 / of_int m) - 512 / of_int m :: rat\<bar> \<le> 2 powi - 54"
    using rnd_rat_error_bound [OF lt] by simp
  have up: "rnd_rat (512 / of_int m) \<le> 512 / of_int m + 2 powi - 54"
    using abs_le_D1 [OF e] by linarith
  have nn: "0 \<le> rnd_rat (512 / of_int m)" using m by (intro rnd_rat_nonneg) simp
  have "js_min (JsNum 1) (MAX_SIDE div JsNum (of_int m)) = JsNum (min 1 (rnd_rat (512 / of_int m)))"
    using m r by (auto simp: MAX_SIDE_def divide_jsnum_def less_jsnum_def min_def)
  moreover have "min 1 (rnd_rat (512 / of_int m)) \<le> 512 / of_int m + 2 powi - 54"
    using up by (rule min.coboundedI2)
  ultimately show ?thesis using nn by (intro exI [of _ "min 1 (rnd_rat (512 / of_int m))"]) auto
qed

text \<open>One side \<open>w\<close> of a photo, not above the longer one \<open>m\<close>.\<close>

definition side_of :: "jsnum \<Rightarrow> jsnum \<Rightarrow> jsnum" where
  "side_of w scale = js_max (JsNum 1) (js_round (w * scale))"

lemma side_small:
  assumes "1 \<le> w" "w \<le> 512"
  shows "side_of (JsNum (of_int w)) (JsNum 1) = JsNum (of_int w)"
proof -
  have "rnd (of_int w) = JsNum (of_int w)" using assms by (intro rnd_of_int) auto
  moreover have "\<lfloor>of_int w + 1 / 2 :: rat\<rfloor> = w" by (rule floor_unique) auto
  ultimately show ?thesis using assms by (auto simp: side_of_def times_jsnum_def less_jsnum_def)
qed

lemma side_large:
  assumes "1 \<le> w" "w \<le> m" "512 < m" "m < 2 ^ 31"
    and "0 \<le> s" "s \<le> 512 / of_int m + 2 powi - 54"
  shows "\<exists>a. side_of (JsNum (of_int w)) (JsNum s) = JsNum (of_int a) \<and> 1 \<le> a \<and> a \<le> 512"
proof -
  have wm: "(of_int w :: rat) \<le> of_int m" "(0::rat) < of_int m" "(of_int m :: rat) < 2 ^ 31"
    using assms(2-4) by (simp_all flip: of_int_le_iff of_int_less_iff)
  have "of_int w * s \<le> of_int m * (512 / of_int m + 2 powi - 54 :: rat)"
    using assms(1,5,6) wm by (intro mult_mono) auto
  moreover have "of_int m * (512 / of_int m + 2 powi - 54 :: rat) = 512 + of_int m * 2 powi - 54"
    using wm by (simp only: distrib_left) simp
  moreover have "of_int m * 2 powi - 54 \<le> (2 ^ 31 * 2 powi - 54 :: rat)"
    using wm(3) by (intro mult_right_mono) auto
  moreover have "(2 ^ 31 * 2 powi - 54 :: rat) \<le> 1 / 10" by (simp add: power_int_minus)
  ultimately have hi: "of_int w * s \<le> 512 + 1 / 10" by linarith
  have lo: "0 \<le> of_int w * s" using assms(1,5) by simp
  obtain r where r: "rnd (of_int w * s) = JsNum r" "0 - 1 / 1000 \<le> r" "r \<le> 512 + 1 / 10 + 1 / 1000"
    using rnd_between [OF lo hi] by auto
  define k where "k = \<lfloor>r + 1 / 2\<rfloor>"
  have "k \<le> 512" using r(3) unfolding k_def by (simp add: floor_le_iff)
  moreover have "side_of (JsNum (of_int w)) (JsNum s) = JsNum (of_int (max 1 k))"
    using r(1) by (simp add: side_of_def times_jsnum_def less_jsnum_def max_def flip: k_def)
  ultimately show ?thesis by (intro exI [of _ "max 1 k"]) simp
qed

text \<open>A photo is cut to at most 512 pixels on its longer side and at least one on each, and a photo
  that fits already keeps its size.\<close>

lemma photo_fits:
  assumes "1 \<le> w" "1 \<le> h" "w < 2 ^ 31" "h < 2 ^ 31"
  shows "\<exists>a b. resized (JsNum (of_int w)) (JsNum (of_int h)) = (JsNum (of_int a), JsNum (of_int b))
    \<and> 1 \<le> a \<and> a \<le> 512 \<and> 1 \<le> b \<and> b \<le> 512 \<and> (w \<le> 512 \<and> h \<le> 512 \<longrightarrow> a = w \<and> b = h)"
proof -
  let ?m = "max w h"
  have "js_max (JsNum (of_int w)) (JsNum (of_int h)) = JsNum (of_int ?m)"
    by (auto simp: less_jsnum_def max_def)
  then have res: "resized (JsNum (of_int w)) (JsNum (of_int h)) =
      (let scale = js_min (JsNum 1) (MAX_SIDE div JsNum (of_int ?m))
       in (side_of (JsNum (of_int w)) scale, side_of (JsNum (of_int h)) scale))"
    by (simp add: resized_def side_of_def Let_def)
  show ?thesis
  proof (cases "?m \<le> 512")
    case True
    then show ?thesis
      using res scale_small [of ?m] side_small [of w] side_small [of h] assms by (auto simp: Let_def)
  next
    case False
    then have "512 < ?m" by linarith
    from scale_large [OF this] obtain s where s: "js_min (JsNum 1) (MAX_SIDE div JsNum (of_int ?m)) = JsNum s"
      "0 \<le> s" "s \<le> 512 / of_int ?m + 2 powi - 54" by blast
    obtain a b where "side_of (JsNum (of_int w)) (JsNum s) = JsNum (of_int a)" "1 \<le> a" "a \<le> 512"
      "side_of (JsNum (of_int h)) (JsNum s) = JsNum (of_int b)" "1 \<le> b" "b \<le> 512"
      using side_large [of w ?m s] side_large [of h ?m s] assms \<open>512 < ?m\<close> s by (meson max.cobounded1 max.cobounded2 max_less_iff_conj)
    then show ?thesis using res s(1) False by (auto simp: Let_def simp del: js_min.simps)
  qed
qed

lemma photo_fits_witness:
  "\<exists>a b. resized (JsNum (of_int 4000)) (JsNum (of_int 3000)) = (JsNum (of_int a), JsNum (of_int b))
    \<and> 1 \<le> a \<and> a \<le> 512 \<and> 1 \<le> b \<and> b \<le> 512"
  using photo_fits [of 4000 3000] by force

end
