(* ===== verification/Catalog.thy ===== *)
theory Catalog
  imports Pos_Model Lib_Formats
begin

text \<open>
  The catalogue as the administration sees it, \<open>features/catalog/api.ts\<close>: one record per Zod
  schema, one definition per exported call; the search of a product by what is typed
  (\<open>useProductSearch.ts\<close>) and the product chosen in a form (\<open>useChosenProduct.ts\<close>).
\<close>

section \<open>JSON with nulls\<close>

definition null_or :: "('a \<Rightarrow> json) \<Rightarrow> 'a option \<Rightarrow> json" where
  "null_or f v = (case v of None \<Rightarrow> JNull | Some x \<Rightarrow> f x)"

lemma null_or_simps [simp]: "null_or f None = JNull" "null_or f (Some x) = f x"
  by (simp_all add: null_or_def)

text \<open>\<open>JSON.stringify\<close> writes a number that is not finite as \<open>null\<close>.\<close>

fun json_number :: "jsnum \<Rightarrow> json" where
  "json_number (JsNum q) = (if q \<in> \<int> then JInt \<lfloor>q\<rfloor> else JDec (js_String (JsNum q)))"
| "json_number v = JNull"

section \<open>Categories of products\<close>

record product_tax =
  ptx_id :: int
  ptx_name :: jsstring
  ptx_rate :: jsstring

record product_category =
  pcat_id :: int
  pcat_name :: jsstring
  pcat_is_active :: bool
  pcat_margin_rate :: "jsstring option"
  pcat_margin_amount :: "jsstring option"
  pcat_price_formula :: "jsstring option"
  pcat_tracks_stock :: bool
  pcat_is_sold_by_weight :: "bool option"
  pcat_default_unit_name :: "jsstring option"
  pcat_taxes :: "product_tax list"

definition productCategoriesQuery :: query_options where
  "productCategoriesQuery = \<lparr>q_key = [KStr (js ''catalog''), KStr (js ''product-categories'')],
     q_call = get_call (js ''/product-categories''), q_enabled = True\<rparr>"

record product_category_update =
  pcu_name :: jsstring
  pcu_tracks_stock :: bool
  pcu_is_sold_by_weight :: bool
  pcu_default_unit_name :: "jsstring option"

record product_category_create = product_category_update +
  pcc_margin_rate :: "jsstring option"
  pcc_margin_amount :: "jsstring option"
  pcc_price_formula :: "jsstring option"
  pcc_tax_ids :: "int list"

definition category_fields :: "'a product_category_update_scheme \<Rightarrow> (jsstring \<times> json) list" where
  "category_fields c = [(js ''name'', JStr (pcu_name c)),
     (js ''tracks_stock'', JBool (pcu_tracks_stock c)),
     (js ''is_sold_by_weight'', JBool (pcu_is_sold_by_weight c)),
     (js ''default_unit_name'', null_or JStr (pcu_default_unit_name c))]"

definition createProductCategory :: "product_category_create \<Rightarrow> api_call" where
  "createProductCategory c = send_call POST (js ''/product-categories'') []
     (Some (JObj (category_fields c
       @ [(js ''margin_rate'', null_or JStr (pcc_margin_rate c)),
          (js ''margin_amount'', null_or JStr (pcc_margin_amount c)),
          (js ''price_formula'', null_or JStr (pcc_price_formula c)),
          (js ''tax_ids'', JArr (map JInt (pcc_tax_ids c)))])))"

definition product_category_path :: "int \<Rightarrow> jsstring \<Rightarrow> jsstring" where
  "product_category_path i rest = js ''/product-categories/'' @ int_string i @ rest"

definition updateProductCategory :: "int \<Rightarrow> product_category_update \<Rightarrow> api_call" where
  "updateProductCategory i c =
     send_call PATCH (product_category_path i []) [] (Some (JObj (category_fields c)))"

definition deactivateProductCategory :: "int \<Rightarrow> api_call" where
  "deactivateProductCategory i = send_call POST (product_category_path i (js ''/deactivate'')) [] None"

definition activateProductCategory :: "int \<Rightarrow> api_call" where
  "activateProductCategory i = send_call POST (product_category_path i (js ''/activate'')) [] None"

definition deleteProductCategory :: "int \<Rightarrow> api_call" where
  "deleteProductCategory i = send_call DELETE (product_category_path i []) [] None"

section \<open>Units\<close>

record unit_of_sale =
  un_id :: int
  un_name :: jsstring
  un_display_order :: int

definition unitsQuery :: query_options where
  "unitsQuery = \<lparr>q_key = [KStr (js ''catalog''), KStr (js ''units'')],
     q_call = get_call (js ''/units''), q_enabled = True\<rparr>"

definition createUnit :: "jsstring \<Rightarrow> api_call" where
  "createUnit name = send_call POST (js ''/units'') [] (Some (JObj [(js ''name'', JStr name)]))"

definition updateUnit :: "int \<Rightarrow> jsstring \<Rightarrow> api_call" where
  "updateUnit i name =
     send_call PATCH (js ''/units/'' @ int_string i) [] (Some (JObj [(js ''name'', JStr name)]))"

definition deleteUnit :: "int \<Rightarrow> api_call" where
  "deleteUnit i = send_call DELETE (js ''/units/'' @ int_string i) [] None"

datatype move_direction = MoveUp | MoveDown

definition moveUnit :: "int \<Rightarrow> move_direction \<Rightarrow> api_call" where
  "moveUnit i direction = send_call POST (js ''/units/'' @ int_string i @ js ''/move'') []
     (Some (JObj [(js ''direction'', JStr (case direction of MoveUp \<Rightarrow> js ''up'' | MoveDown \<Rightarrow> js ''down''))]))"

section \<open>Categories of the till\<close>

text \<open>The administration asks for the hidden ones too.\<close>

definition admin_posCategoriesQuery :: query_options where
  "admin_posCategoriesQuery = \<lparr>q_key = [KStr (js ''catalog''), KStr (js ''pos-categories'')],
     q_call = get_call (js ''/pos-categories?active_only=false''), q_enabled = True\<rparr>"

record pos_category_create =
  pco_name :: "jsstring option"
  pco_color :: "jsstring option"
  pco_display_order :: "jsnum option"
  pco_is_default :: "bool option"

definition pos_category_fields :: "pos_category_create \<Rightarrow> json" where
  "pos_category_fields c = JObj (opt_field (js ''name'') JStr (pco_name c)
     @ opt_field (js ''color'') JStr (pco_color c)
     @ opt_field (js ''display_order'') json_number (pco_display_order c)
     @ opt_field (js ''is_default'') JBool (pco_is_default c))"

definition pos_category_path :: "int \<Rightarrow> jsstring \<Rightarrow> jsstring" where
  "pos_category_path i rest = js ''/pos-categories/'' @ int_string i @ rest"

definition createPosCategory :: "pos_category_create \<Rightarrow> api_call" where
  "createPosCategory c = send_call POST (js ''/pos-categories'') [] (Some (pos_category_fields c))"

definition updatePosCategory :: "int \<Rightarrow> pos_category_create \<Rightarrow> api_call" where
  "updatePosCategory i c = send_call PATCH (pos_category_path i []) [] (Some (pos_category_fields c))"

definition deactivatePosCategory :: "int \<Rightarrow> api_call" where
  "deactivatePosCategory i = send_call POST (pos_category_path i (js ''/deactivate'')) [] None"

definition activatePosCategory :: "int \<Rightarrow> api_call" where
  "activatePosCategory i = send_call POST (pos_category_path i (js ''/activate'')) [] None"

definition deletePosCategory :: "int \<Rightarrow> api_call" where
  "deletePosCategory i = send_call DELETE (pos_category_path i []) [] None"

section \<open>Products\<close>

record catalog_package =
  cpk_id :: int
  cpk_name :: jsstring
  cpk_factor :: jsstring
  cpk_price_override :: "jsstring option"
  cpk_is_base :: bool
  cpk_barcodes :: "(int \<times> jsstring) list"

record catalog_product =
  cp_id :: int
  cp_sku :: jsstring
  cp_name :: jsstring
  cp_description :: jsstring
  cp_category_id :: "int option"
  cp_category_name :: "jsstring option"
  cp_pos_category_id :: "int option"
  cp_pos_category_name :: "jsstring option"
  cp_pos_display_order :: int
  cp_is_open_price :: "bool option"
  cp_is_sold_by_weight :: "bool option"
  cp_base_unit_name :: jsstring
  cp_cost :: jsstring
  cp_list_price :: jsstring
  cp_final_price :: "jsstring option"
  cp_manual_price_is_set :: "bool option"
  cp_tax_rate :: jsstring
  cp_surcharge_rate :: jsstring
  cp_effective_tax_rate :: jsstring
  cp_margin_rate :: "jsstring option"
  cp_margin_amount :: "jsstring option"
  cp_taxes :: "product_tax list"
  cp_price_formula :: "jsstring option"
  cp_min_stock :: jsstring
  cp_track_lots :: bool
  cp_track_expiration :: bool
  cp_tracks_stock :: "bool option"
  cp_effective_tracks_stock :: bool
  cp_is_active :: bool
  cp_packages :: "catalog_package list"

definition catalog_finalPrice :: "catalog_product \<Rightarrow> jsstring" where
  "catalog_finalPrice p = (case cp_final_price p of Some price \<Rightarrow> price | None \<Rightarrow> cp_list_price p)"

record catalog_filters =
  cf_categoryId :: "int option"
  cf_posCategoryId :: "int option"
  cf_activeOnly :: "bool option"
  cf_search :: "jsstring option"
  cf_limit :: "int option"

definition products_path :: "int \<Rightarrow> jsstring \<Rightarrow> jsstring" where
  "products_path i rest = js ''/products/'' @ int_string i @ rest"

definition productQuery :: "int \<Rightarrow> query_options" where
  "productQuery i = \<lparr>q_key = [KStr (js ''catalog''), KStr (js ''product''), KNum i],
     q_call = get_call (products_path i []), q_enabled = True\<rparr>"

text \<open>Parameters in the order they are set; an absent or empty search is left out.\<close>

definition param_if :: "jsstring \<Rightarrow> jsstring option \<Rightarrow> params \<Rightarrow> params" where
  "param_if k v ps = (case v of None \<Rightarrow> ps | Some x \<Rightarrow> params_set k x ps)"

definition unless_empty :: "jsstring option \<Rightarrow> jsstring option" where
  "unless_empty v = (if v = Some [] then None else v)"

definition catalog_params :: "catalog_filters \<Rightarrow> params" where
  "catalog_params f =
     param_if (js ''limit'') (map_option int_string (cf_limit f))
       (param_if (js ''search'') (unless_empty (cf_search f))
         (params_set (js ''active_only'')
             (bool_string (case cf_activeOnly f of None \<Rightarrow> True | Some b \<Rightarrow> b))
           (param_if (js ''pos_category_id'') (map_option int_string (cf_posCategoryId f))
             (param_if (js ''category_id'') (map_option int_string (cf_categoryId f)) []))))"

definition catalog_filters_key :: "catalog_filters \<Rightarrow> query_key" where
  "catalog_filters_key f = KObj (opt_field (js ''categoryId'') KNum (cf_categoryId f)
     @ opt_field (js ''posCategoryId'') KNum (cf_posCategoryId f)
     @ opt_field (js ''activeOnly'') KBool (cf_activeOnly f)
     @ opt_field (js ''search'') KStr (cf_search f)
     @ opt_field (js ''limit'') KNum (cf_limit f))"

definition catalog_productsQuery :: "catalog_filters \<Rightarrow> query_options" where
  "catalog_productsQuery f =
     \<lparr>q_key = [KStr (js ''catalog''), KStr (js ''products''), catalog_filters_key f],
      q_call = get_call (js ''/products?'' @ params_string (catalog_params f)), q_enabled = True\<rparr>"

record initial_stock =
  is_warehouse_id :: int
  is_location_id :: int
  is_quantity :: jsstring
  is_lot_number :: "jsstring option"
  is_expiration_date :: "jsstring option"

record product_create =
  prc_name :: jsstring
  prc_description :: jsstring
  prc_category_id :: "int option"
  prc_pos_category_id :: "int option"
  prc_pos_display_order :: int
  prc_is_open_price :: bool
  prc_base_unit_name :: jsstring
  prc_base_barcode :: "jsstring option"
  prc_cost :: jsstring
  prc_list_price :: jsstring
  prc_margin_rate :: "jsstring option"
  prc_margin_amount :: "jsstring option"
  prc_min_stock :: jsstring
  prc_track_lots :: bool
  prc_track_expiration :: bool
  prc_initial_stock :: "initial_stock option"

definition initial_stock_json :: "initial_stock \<Rightarrow> json" where
  "initial_stock_json i = JObj [(js ''warehouse_id'', JInt (is_warehouse_id i)),
     (js ''location_id'', JInt (is_location_id i)), (js ''quantity'', JStr (is_quantity i)),
     (js ''lot_number'', null_or JStr (is_lot_number i)),
     (js ''expiration_date'', null_or JStr (is_expiration_date i))]"

definition product_create_json :: "product_create \<Rightarrow> json" where
  "product_create_json p = JObj [(js ''name'', JStr (prc_name p)),
     (js ''description'', JStr (prc_description p)),
     (js ''category_id'', null_or JInt (prc_category_id p)),
     (js ''pos_category_id'', null_or JInt (prc_pos_category_id p)),
     (js ''pos_display_order'', JInt (prc_pos_display_order p)),
     (js ''is_open_price'', JBool (prc_is_open_price p)),
     (js ''base_unit_name'', JStr (prc_base_unit_name p)),
     (js ''base_barcode'', null_or JStr (prc_base_barcode p)),
     (js ''cost'', JStr (prc_cost p)),
     (js ''list_price'', JStr (prc_list_price p)),
     (js ''margin_rate'', null_or JStr (prc_margin_rate p)),
     (js ''margin_amount'', null_or JStr (prc_margin_amount p)),
     (js ''min_stock'', JStr (prc_min_stock p)),
     (js ''track_lots'', JBool (prc_track_lots p)),
     (js ''track_expiration'', JBool (prc_track_expiration p)),
     (js ''initial_stock'', null_or initial_stock_json (prc_initial_stock p))]"

definition createProduct :: "product_create \<Rightarrow> api_call" where
  "createProduct p = send_call POST (js ''/products'') [] (Some (product_create_json p))"

text \<open>Fields of an update are present or not; two of them may be present and null.\<close>

record product_update =
  pru_name :: "jsstring option"
  pru_description :: "jsstring option"
  pru_category_id :: "int option option"
  pru_pos_category_id :: "int option option"
  pru_pos_display_order :: "int option"
  pru_is_open_price :: "bool option"
  pru_base_barcode :: "jsstring option option"
  pru_base_unit_name :: "jsstring option"
  pru_min_stock :: "jsstring option"
  pru_track_lots :: "bool option"
  pru_track_expiration :: "bool option"
  pru_tracks_stock :: "bool option"
  pru_inherit_tracks_stock :: "bool option"

definition product_update_json :: "product_update \<Rightarrow> json" where
  "product_update_json u = JObj (opt_field (js ''name'') JStr (pru_name u)
     @ opt_field (js ''description'') JStr (pru_description u)
     @ opt_field (js ''category_id'') (null_or JInt) (pru_category_id u)
     @ opt_field (js ''pos_category_id'') (null_or JInt) (pru_pos_category_id u)
     @ opt_field (js ''pos_display_order'') JInt (pru_pos_display_order u)
     @ opt_field (js ''is_open_price'') JBool (pru_is_open_price u)
     @ opt_field (js ''base_barcode'') (null_or JStr) (pru_base_barcode u)
     @ opt_field (js ''base_unit_name'') JStr (pru_base_unit_name u)
     @ opt_field (js ''min_stock'') JStr (pru_min_stock u)
     @ opt_field (js ''track_lots'') JBool (pru_track_lots u)
     @ opt_field (js ''track_expiration'') JBool (pru_track_expiration u)
     @ opt_field (js ''tracks_stock'') JBool (pru_tracks_stock u)
     @ opt_field (js ''inherit_tracks_stock'') JBool (pru_inherit_tracks_stock u))"

definition updateProduct :: "int \<Rightarrow> product_update \<Rightarrow> api_call" where
  "updateProduct i u = send_call PATCH (products_path i []) [] (Some (product_update_json u))"

definition deleteProduct :: "int \<Rightarrow> api_call" where
  "deleteProduct i = send_call DELETE (products_path i []) [] None"

definition deactivateProduct :: "int \<Rightarrow> api_call" where
  "deactivateProduct i = send_call POST (products_path i (js ''/deactivate'')) [] None"

definition activateProduct :: "int \<Rightarrow> api_call" where
  "activateProduct i = send_call POST (products_path i (js ''/activate'')) [] None"

definition addPackage ::
  "int \<Rightarrow> jsstring \<Rightarrow> jsstring \<Rightarrow> jsstring option \<Rightarrow> jsstring option \<Rightarrow> api_call" where
  "addPackage productId name factor barcode price_override =
     send_call POST (products_path productId (js ''/packages'')) []
       (Some (JObj [(js ''name'', JStr name), (js ''factor'', JStr factor),
          (js ''barcode'', null_or JStr barcode), (js ''price_override'', null_or JStr price_override)]))"

definition package_path :: "int \<Rightarrow> int \<Rightarrow> jsstring \<Rightarrow> jsstring" where
  "package_path productId packageId rest =
     products_path productId (js ''/packages/'' @ int_string packageId @ rest)"

definition updatePackagePrice :: "int \<Rightarrow> int \<Rightarrow> jsstring option \<Rightarrow> api_call" where
  "updatePackagePrice productId packageId priceOverride =
     send_call PATCH (package_path productId packageId []) []
       (Some (JObj [(js ''price_override'', null_or JStr priceOverride)]))"

definition addBarcode :: "int \<Rightarrow> int \<Rightarrow> jsstring \<Rightarrow> api_call" where
  "addBarcode productId packageId barcode =
     send_call POST (package_path productId packageId (js ''/barcodes'')) []
       (Some (JObj [(js ''barcode'', JStr barcode)]))"

definition updateBarcode :: "int \<Rightarrow> int \<Rightarrow> int \<Rightarrow> jsstring \<Rightarrow> api_call" where
  "updateBarcode productId packageId barcodeId barcode =
     send_call PATCH (package_path productId packageId (js ''/barcodes/'' @ int_string barcodeId)) []
       (Some (JObj [(js ''barcode'', JStr barcode)]))"

definition deleteBarcode :: "int \<Rightarrow> int \<Rightarrow> int \<Rightarrow> api_call" where
  "deleteBarcode productId packageId barcodeId =
     send_call DELETE (package_path productId packageId (js ''/barcodes/'' @ int_string barcodeId)) [] None"

section \<open>Search and choice\<close>

text \<open>\<open>lower\<close> is the browser's \<open>toLowerCase\<close>, which goes by the whole Unicode table.\<close>

definition productMatches :: "(jsstring \<Rightarrow> jsstring) \<Rightarrow> catalog_product \<Rightarrow> jsstring \<Rightarrow> bool" where
  "productMatches lower p query =
     (let needle = lower (js_trim query) in
      if needle = [] then True
      else if js_includes needle (lower (cp_name p)) then True
      else if js_includes needle (lower (cp_sku p)) then True
      else \<exists>pkg \<in> set (cp_packages p). \<exists>(i, code) \<in> set (cpk_barcodes pkg). js_includes needle (lower code))"

definition useProductSearch ::
  "(jsstring \<Rightarrow> jsstring) \<Rightarrow> catalog_product list \<Rightarrow> jsstring \<Rightarrow> catalog_product list" where
  "useProductSearch lower products query = filter (\<lambda>p. productMatches lower p query) products"

definition chosen_product :: "catalog_product list \<Rightarrow> jsstring \<Rightarrow> catalog_product option" where
  "chosen_product products productId = find (\<lambda>p. int_string (cp_id p) = productId) products"

text \<open>What the effect applies: the product just chosen, when the choice is another one.\<close>

definition useChosenProduct ::
  "catalog_product option \<Rightarrow> catalog_product option \<Rightarrow> catalog_product option" where
  "useChosenProduct before chosen =
     (if map_option cp_id chosen \<noteq> map_option cp_id before then chosen else None)"

lemma js_includes_self [simp]: "js_includes s s"
  by (cases s) (auto simp: js_starts_with_def)

lemma productMatches_barcode:
  assumes "pkg \<in> set (cp_packages p)" and "(i, code) \<in> set (cpk_barcodes pkg)" and "js_trim code = code"
  shows "productMatches lower p code"
  using assms by (force simp: productMatches_def Let_def)

lemma productMatches_name: "js_trim (cp_name p) = cp_name p \<Longrightarrow> productMatches lower p (cp_name p)"
  by (simp add: productMatches_def Let_def)

end
