(* ===== verification/Inventory.thy ===== *)
theory Inventory
  imports Catalog
begin

text \<open>
  Stock: the records and calls of \<open>features/inventory/api.ts\<close>, the drop-down lists that choose their
  first option by themselves (\<open>useDefaultToFirstOption.ts\<close>), and the two forms that move stock by
  hand, \<open>AdjustmentForm.tsx\<close> and \<open>TransferForm.tsx\<close>, as event machines.
\<close>

section \<open>Records and calls\<close>

definition inv_warehousesQuery :: query_options where
  "inv_warehousesQuery = \<lparr>q_key = [KStr (js ''inventory''), KStr (js ''warehouses'')],
     q_call = get_call (js ''/warehouses''), q_enabled = True\<rparr>"

definition createWarehouse :: "jsstring \<Rightarrow> api_call" where
  "createWarehouse name = send_call POST (js ''/warehouses'') [] (Some (JObj [(js ''name'', JStr name)]))"

definition inv_locationsQuery :: "int option \<Rightarrow> query_options" where
  "inv_locationsQuery warehouseId =
     \<lparr>q_key = [KStr (js ''inventory''), KStr (js ''locations''), key_or_null warehouseId],
      q_call = get_call (js ''/warehouses/'' @ num_or_null warehouseId @ js ''/locations''),
      q_enabled = (warehouseId \<noteq> None)\<rparr>"

definition createLocation :: "int \<Rightarrow> jsstring \<Rightarrow> api_call" where
  "createLocation warehouseId name =
     send_call POST (js ''/warehouses/'' @ int_string warehouseId @ js ''/locations'') []
       (Some (JObj [(js ''name'', JStr name)]))"

record stock_movement =
  mv_id :: int
  mv_product_id :: int
  mv_product_sku :: jsstring
  mv_product_name :: jsstring
  mv_warehouse_id :: int
  mv_location_id :: int
  mv_lot_id :: "int option"
  mv_quantity :: jsstring
  mv_movement_type :: jsstring
  mv_reference_type :: "jsstring option"
  mv_reference_id :: "int option"
  mv_unit_cost :: jsstring
  mv_user_id :: "int option"
  mv_created_at :: jsstring

record stock_filters =
  stf_productId :: "int option"
  stf_warehouseId :: "int option"
  stf_locationId :: "int option"

definition stock_params :: "stock_filters \<Rightarrow> params" where
  "stock_params f =
     param_if (js ''location_id'') (map_option int_string (stf_locationId f))
       (param_if (js ''warehouse_id'') (map_option int_string (stf_warehouseId f))
         (param_if (js ''product_id'') (map_option int_string (stf_productId f)) []))"

definition stock_filters_key :: "stock_filters \<Rightarrow> query_key" where
  "stock_filters_key f = KObj (opt_field (js ''productId'') KNum (stf_productId f)
     @ opt_field (js ''warehouseId'') KNum (stf_warehouseId f)
     @ opt_field (js ''locationId'') KNum (stf_locationId f))"

definition stockMovementsQuery :: "stock_filters \<Rightarrow> query_options" where
  "stockMovementsQuery f =
     \<lparr>q_key = [KStr (js ''inventory''), KStr (js ''movements''), stock_filters_key f],
      q_call = get_call (js ''/stock-movements?'' @ params_string (stock_params f)), q_enabled = True\<rparr>"

record stock_balance =
  bal_product_id :: int
  bal_product_sku :: jsstring
  bal_product_name :: jsstring
  bal_warehouse_id :: int
  bal_warehouse_name :: jsstring
  bal_location_id :: int
  bal_location_name :: jsstring
  bal_lot_id :: "int option"
  bal_quantity :: jsstring

definition stockTotalsQuery :: query_options where
  "stockTotalsQuery = \<lparr>q_key = [KStr (js ''inventory''), KStr (js ''stock-totals'')],
     q_call = get_call (js ''/stock-balance/totals''), q_enabled = True\<rparr>"

text \<open>The balances are filtered by product and warehouse only.\<close>

definition stockBalanceQuery :: "stock_filters \<Rightarrow> query_options" where
  "stockBalanceQuery f =
     (let g = f\<lparr>stf_locationId := None\<rparr> in
      \<lparr>q_key = [KStr (js ''inventory''), KStr (js ''balances''), stock_filters_key g],
       q_call = get_call (js ''/stock-balance?'' @ params_string (stock_params g)), q_enabled = True\<rparr>)"

datatype adjustment_type = ADJUSTMENT | WASTE

definition adjustment_type_name :: "adjustment_type \<Rightarrow> jsstring" where
  "adjustment_type_name t = (case t of ADJUSTMENT \<Rightarrow> js ''ADJUSTMENT'' | WASTE \<Rightarrow> js ''WASTE'')"

record adjustment_input =
  ai_product_id :: jsnum
  ai_warehouse_id :: jsnum
  ai_location_id :: jsnum
  ai_movement_type :: adjustment_type
  ai_quantity :: jsstring
  ai_unit_cost :: jsstring
  ai_lot_id :: "int option"
  ai_lot_number :: "jsstring option"
  ai_expiration_date :: "jsstring option"
  ai_reason :: jsstring

definition recordAdjustment :: "adjustment_input \<Rightarrow> api_call" where
  "recordAdjustment p = send_call POST (js ''/stock-movements/adjustments'') []
     (Some (JObj [(js ''product_id'', json_number (ai_product_id p)),
        (js ''warehouse_id'', json_number (ai_warehouse_id p)),
        (js ''location_id'', json_number (ai_location_id p)),
        (js ''movement_type'', JStr (adjustment_type_name (ai_movement_type p))),
        (js ''quantity'', JStr (ai_quantity p)), (js ''unit_cost'', JStr (ai_unit_cost p)),
        (js ''lot_id'', null_or JInt (ai_lot_id p)),
        (js ''lot_number'', null_or JStr (ai_lot_number p)),
        (js ''expiration_date'', null_or JStr (ai_expiration_date p)),
        (js ''reason'', JStr (ai_reason p))]))"

record transfer_input =
  ti_product_id :: jsnum
  ti_from_warehouse_id :: jsnum
  ti_from_location_id :: jsnum
  ti_to_warehouse_id :: jsnum
  ti_to_location_id :: jsnum
  ti_quantity :: jsstring
  ti_unit_cost :: jsstring
  ti_lot_id :: "jsnum option"

definition transfer_json :: "transfer_input \<Rightarrow> json" where
  "transfer_json p = JObj [(js ''product_id'', json_number (ti_product_id p)),
     (js ''from_warehouse_id'', json_number (ti_from_warehouse_id p)),
     (js ''from_location_id'', json_number (ti_from_location_id p)),
     (js ''to_warehouse_id'', json_number (ti_to_warehouse_id p)),
     (js ''to_location_id'', json_number (ti_to_location_id p)),
     (js ''quantity'', JStr (ti_quantity p)), (js ''unit_cost'', JStr (ti_unit_cost p)),
     (js ''lot_id'', null_or json_number (ti_lot_id p))]"

definition recordTransfer :: "transfer_input \<Rightarrow> api_call" where
  "recordTransfer p = send_call POST (js ''/stock-movements/transfers'') [] (Some (transfer_json p))"

definition rebuildStockBalance :: api_call where
  "rebuildStockBalance = send_call POST (js ''/stock-balance/rebuild'') [] None"

section \<open>Drop-down lists with a default\<close>

text \<open>
  The value after the effect has run. The options are compared as the comma-separated text the
  effect depends on, split again.
\<close>

definition useDefaultToFirstOption :: "jsstring \<Rightarrow> int list option \<Rightarrow> jsstring" where
  "useDefaultToFirstOption current options =
     (case options of
        None \<Rightarrow> current
      | Some is \<Rightarrow>
          (let available = js_join [cu_comma] (map int_string is);
               ids = (if available = [] then [] else js_split cu_comma available)
           in if current \<noteq> [] \<and> current \<in> set ids then current
              else (case ids of [] \<Rightarrow> [] | i # _ \<Rightarrow> i)))"

lemma int_string_no_comma [simp]: "cu_comma \<notin> set (int_string i)"
  by (auto simp: js_digit_def dest: int_string_char)

lemma js_split_int_strings:
  "is \<noteq> [] \<Longrightarrow> js_split cu_comma (js_join [cu_comma] (map int_string is)) = map int_string is"
  by (rule js_split_join) auto

text \<open>
  What the forms rely on: a list that has not arrived changes nothing, a choice that is among the
  options stays, any other gives way to the first option, or to none.
\<close>

locale first_choice =
  fixes pick :: "'v \<Rightarrow> 'o list option \<Rightarrow> 'v" and val :: "'o \<Rightarrow> 'v" and none :: 'v
  assumes waits: "pick v None = v"
    and keeps: "v \<in> val ` set os \<Longrightarrow> pick v (Some os) = v"
    and falls: "v \<notin> val ` set os \<Longrightarrow> pick v (Some os) = (case os of [] \<Rightarrow> none | o1 # _ \<Rightarrow> val o1)"
    and val_none: "val o1 \<noteq> none"
begin

lemma available: "os \<noteq> [] \<Longrightarrow> pick v (Some os) \<in> val ` set os"
  by (cases "v \<in> val ` set os") (auto simp: keeps falls split: list.splits)

lemma no_options: "pick v (Some []) = none"
  by (simp add: falls)

lemma settled [simp]: "pick (pick v os) os = pick v os"
proof (cases os)
  case (Some l)
  then show ?thesis by (cases "l = []") (simp_all add: no_options keeps available)
qed (simp add: waits)

lemma picked: "pick v (Some os) = val o1 \<Longrightarrow> os \<noteq> [] \<and> pick v (Some os) \<in> val ` set os"
  using no_options val_none available by metis

lemma chosen_available: "pick v (Some os) \<noteq> none \<Longrightarrow> pick v (Some os) \<in> val ` set os"
  using no_options available by metis

end

interpretation drop_down: first_choice useDefaultToFirstOption int_string "[]"
proof
  fix v os
  show "useDefaultToFirstOption v None = v" by (simp add: useDefaultToFirstOption_def)
  have js: "js_join [cu_comma] (map int_string os) = [] \<longleftrightarrow> os = []"
    by (cases os rule: list.exhaust; cases "tl os") auto
  show "v \<in> int_string ` set os \<Longrightarrow> useDefaultToFirstOption v (Some os) = v"
    using js_split_int_strings [of os] by (auto simp: useDefaultToFirstOption_def Let_def js)
  show "v \<notin> int_string ` set os \<Longrightarrow> useDefaultToFirstOption v (Some os)
      = (case os of [] \<Rightarrow> [] | o1 # _ \<Rightarrow> int_string o1)"
    using js_split_int_strings [of os]
    by (auto simp: useDefaultToFirstOption_def Let_def js split: list.splits)
qed simp

section \<open>What the two forms share\<close>

text \<open>
  The products of the page, the lists as they have arrived (the locations by warehouse, as the
  queries are kept), the product chosen and what is typed to find it, and the unit cost. The fields
  hold the values the form was last given; the errors are the fields at fault in the last attempt.
\<close>

record place_lists =
  skf_warehouses :: "int list option"
  skf_locations :: "int \<Rightarrow> int list option"

record stock_form = place_lists +
  skf_products :: "catalog_product list"
  skf_query :: jsstring
  skf_product :: jsstring
  skf_quantity :: jsstring
  skf_cost :: jsstring
  skf_errors :: "jsstring list"
  skf_pending :: bool

definition chosenProduct :: "'a stock_form_scheme \<Rightarrow> catalog_product option" where
  "chosenProduct s = chosen_product (skf_products s) (skf_product s)"

text \<open>The locations of the warehouse in a field; no query runs for an empty field.\<close>

definition form_locations :: "'a place_lists_scheme \<Rightarrow> jsstring \<Rightarrow> int list option" where
  "form_locations s w = (if w = [] then None else skf_locations s (js_int (js_Number w)))"

datatype stock_event =
    ProductsAre "catalog_product list"
  | WarehousesAre "int list"
  | LocationsAre int "int list"
  | QueryTyped jsstring
  | ProductPicked catalog_product
  | AnotherProduct
  | QuantityTyped jsstring
  | CostTyped jsstring
  | PendingIs bool

fun stock_handle :: "'a stock_form_scheme \<Rightarrow> stock_event \<Rightarrow> 'a stock_form_scheme" where
  "stock_handle s (ProductsAre ps) = s\<lparr>skf_products := ps\<rparr>"
| "stock_handle s (WarehousesAre ws) = s\<lparr>skf_warehouses := Some ws\<rparr>"
| "stock_handle s (LocationsAre w ls) = s\<lparr>skf_locations := (skf_locations s)(w \<mapsto> ls)\<rparr>"
| "stock_handle s (QueryTyped v) = s\<lparr>skf_query := v, skf_product := []\<rparr>"
| "stock_handle s (ProductPicked p) = s\<lparr>skf_product := int_string (cp_id p), skf_query := cp_name p\<rparr>"
| "stock_handle s AnotherProduct = s\<lparr>skf_product := [], skf_query := []\<rparr>"
| "stock_handle s (QuantityTyped v) = s\<lparr>skf_quantity := v\<rparr>"
| "stock_handle s (CostTyped v) = s\<lparr>skf_cost := v\<rparr>"
| "stock_handle s (PendingIs b) = s\<lparr>skf_pending := b\<rparr>"

text \<open>Only the first eight products found are offered, and only while none is chosen.\<close>

fun stock_enabled :: "(jsstring \<Rightarrow> jsstring) \<Rightarrow> 'a stock_form_scheme \<Rightarrow> stock_event \<Rightarrow> bool" where
  "stock_enabled lower s (ProductPicked p) =
     (skf_product s = [] \<and> js_trim (skf_query s) \<noteq> []
      \<and> p \<in> set (take 8 (useProductSearch lower (skf_products s) (skf_query s))))"
| "stock_enabled lower s AnotherProduct = (skf_product s \<noteq> [])"
| "stock_enabled lower s (ProductsAre ps) = (\<forall>p \<in> set ps. server_id (cp_id p))"
| "stock_enabled lower s (WarehousesAre ws) = (\<forall>w \<in> set ws. server_id w)"
| "stock_enabled lower s (LocationsAre w ls) = (\<forall>l \<in> set ls. server_id l)"
| "stock_enabled lower s e = True"

text \<open>The effect of another product: its cost goes into the field.\<close>

definition apply_chosen :: "'a stock_form_scheme \<Rightarrow> 'a stock_form_scheme \<Rightarrow> 'a stock_form_scheme" where
  "apply_chosen before s =
     (case useChosenProduct (chosenProduct before) (chosenProduct s) of
        None \<Rightarrow> s
      | Some p \<Rightarrow> s\<lparr>skf_cost := decimalInputValue (cp_cost p)\<rparr>)"

section \<open>The adjustment form\<close>

record adjust_form = stock_form +
  aj_warehouse :: jsstring
  aj_location :: jsstring
  aj_type :: adjustment_type
  aj_lot :: jsstring
  aj_expiration :: jsstring
  aj_reason :: jsstring
  aj_submitted :: "adjustment_input list"

definition adjust_init :: "catalog_product list \<Rightarrow> adjust_form" where
  "adjust_init products = \<lparr>skf_warehouses = None, skf_locations = (\<lambda>w. None), skf_products = products,
     skf_query = [], skf_product = [], skf_quantity = [], skf_cost = js ''0'', skf_errors = [], skf_pending = False,
     aj_warehouse = [], aj_location = [], aj_type = ADJUSTMENT, aj_lot = [], aj_expiration = [],
     aj_reason = [], aj_submitted = []\<rparr>"

text \<open>The regular expression \<open>/^-?\d+(\.\d{1,6})?$/\<close>.\<close>

definition is_signed_decimal6 :: "jsstring \<Rightarrow> bool" where
  "is_signed_decimal6 s = is_decimal6 (case s of c # r \<Rightarrow> if c = cu_dash then r else s | [] \<Rightarrow> [])"

definition signed_quantity :: "jsstring \<Rightarrow> jsstring option" where
  "signed_quantity v =
     (let q = decimal_transform v in
      if is_signed_decimal6 q \<and> js_Number q \<noteq> JsNum 0 then Some q else None)"

definition field_if :: "bool \<Rightarrow> string \<Rightarrow> jsstring list" where
  "field_if b name = (if b then [js name] else [])"

text \<open>The schema: the fields at fault, or the quantity and the cost as it leaves them.\<close>

definition adjustmentSchema :: "adjust_form \<Rightarrow> jsstring list + jsstring \<times> jsstring" where
  "adjustmentSchema s =
     (let q = signed_quantity (skf_quantity s); c = decimalString (Some (JsNum 0)) (skf_cost s);
          issues = field_if (skf_product s = []) ''product_id''
            @ field_if (aj_warehouse s = []) ''warehouse_id''
            @ field_if (aj_location s = []) ''location_id''
            @ field_if (q = None) ''quantity''
            @ field_if (isl c) ''unit_cost''
            @ field_if (100 < length (aj_lot s)) ''lot_number''
            @ field_if (500 < length (aj_reason s)) ''reason''
      in case (q, c) of
           (Some qv, Inr cv) \<Rightarrow> if issues = [] then Inr (qv, cv) else Inl issues
         | _ \<Rightarrow> Inl issues)"

definition product_requires :: "(catalog_product \<Rightarrow> bool) \<Rightarrow> catalog_product option \<Rightarrow> bool" where
  "product_requires f p = (case p of None \<Rightarrow> False | Some x \<Rightarrow> f x)"

definition adjust_submit :: "adjust_form \<Rightarrow> jsstring list + adjustment_input" where
  "adjust_submit s =
     (case adjustmentSchema s of
        Inl issues \<Rightarrow> Inl issues
      | Inr (q, c) \<Rightarrow>
          (let lotNumber = js_trim (aj_lot s) in
           if product_requires cp_track_lots (chosenProduct s) \<and> lotNumber = [] then Inl [js ''lot_number'']
           else if product_requires cp_track_expiration (chosenProduct s) \<and> aj_expiration s = []
           then Inl [js ''expiration_date'']
           else Inr \<lparr>ai_product_id = js_Number (skf_product s),
             ai_warehouse_id = js_Number (aj_warehouse s), ai_location_id = js_Number (aj_location s),
             ai_movement_type = aj_type s, ai_quantity = q, ai_unit_cost = c, ai_lot_id = None,
             ai_lot_number = (if lotNumber = [] then None else Some lotNumber),
             ai_expiration_date = (if aj_expiration s = [] then None else Some (aj_expiration s)),
             ai_reason = aj_reason s\<rparr>))"

text \<open>
  One round of the effects after a drawing: both lists look at the values drawn. Drawn again, the
  effects run once more; after two rounds nothing is left to change.
\<close>

definition adjust_effects :: "adjust_form \<Rightarrow> adjust_form" where
  "adjust_effects s = s\<lparr>aj_warehouse := useDefaultToFirstOption (aj_warehouse s) (skf_warehouses s),
     aj_location := useDefaultToFirstOption (aj_location s) (form_locations s (aj_warehouse s))\<rparr>"

definition adjust_clear :: "adjust_form \<Rightarrow> adjust_form \<Rightarrow> adjust_form" where
  "adjust_clear before s =
     (if skf_product s = skf_product before then s else s\<lparr>aj_lot := [], aj_expiration := []\<rparr>)"

datatype adjust_event =
    AdjustStock stock_event
  | AdjustWarehouse jsstring
  | AdjustLocation jsstring
  | AdjustType adjustment_type
  | AdjustLot jsstring
  | AdjustExpiration jsstring
  | AdjustReason jsstring
  | AdjustSubmit

fun adjust_handle :: "adjust_form \<Rightarrow> adjust_event \<Rightarrow> adjust_form" where
  "adjust_handle s (AdjustStock e) = stock_handle s e"
| "adjust_handle s (AdjustWarehouse v) = s\<lparr>aj_warehouse := v\<rparr>"
| "adjust_handle s (AdjustLocation v) = s\<lparr>aj_location := v\<rparr>"
| "adjust_handle s (AdjustType t) = s\<lparr>aj_type := t\<rparr>"
| "adjust_handle s (AdjustLot v) = s\<lparr>aj_lot := v\<rparr>"
| "adjust_handle s (AdjustExpiration v) = s\<lparr>aj_expiration := v\<rparr>"
| "adjust_handle s (AdjustReason v) = s\<lparr>aj_reason := v\<rparr>"
| "adjust_handle s AdjustSubmit =
     (case adjust_submit s of
        Inl issues \<Rightarrow> s\<lparr>skf_errors := issues\<rparr>
      | Inr p \<Rightarrow> s\<lparr>skf_errors := [], aj_submitted := aj_submitted s @ [p]\<rparr>)"

definition adjust_step :: "adjust_form \<Rightarrow> adjust_event \<Rightarrow> adjust_form" where
  "adjust_step s e =
     (let s1 = adjust_handle s e
      in adjust_effects (adjust_effects (adjust_clear s (apply_chosen s s1))))"

definition offered :: "int list option \<Rightarrow> jsstring \<Rightarrow> bool" where
  "offered options v \<longleftrightarrow> v = [] \<or> (case options of None \<Rightarrow> False | Some is \<Rightarrow> v \<in> int_string ` set is)"

abbreviation warehouse_offered :: "'a place_lists_scheme \<Rightarrow> jsstring \<Rightarrow> bool" where
  "warehouse_offered s \<equiv> offered (skf_warehouses s)"

abbreviation location_offered :: "'a place_lists_scheme \<Rightarrow> jsstring \<Rightarrow> jsstring \<Rightarrow> bool" where
  "location_offered s w \<equiv> offered (form_locations s w)"

text \<open>The lot and its date are only drawn for a product that has them.\<close>

fun adjust_enabled :: "(jsstring \<Rightarrow> jsstring) \<Rightarrow> adjust_form \<Rightarrow> adjust_event \<Rightarrow> bool" where
  "adjust_enabled lower s (AdjustStock e) = stock_enabled lower s e"
| "adjust_enabled lower s (AdjustWarehouse v) = warehouse_offered s v"
| "adjust_enabled lower s (AdjustLocation v) = location_offered s (aj_warehouse s) v"
| "adjust_enabled lower s (AdjustLot v) = product_requires cp_track_lots (chosenProduct s)"
| "adjust_enabled lower s (AdjustExpiration v) =
     product_requires (\<lambda>p. cp_track_lots p \<and> cp_track_expiration p) (chosenProduct s)"
| "adjust_enabled lower s AdjustSubmit = (\<not> skf_pending s)"
| "adjust_enabled lower s e = True"

section \<open>The transfer form\<close>

record transfer_form = stock_form +
  tr_from_warehouse :: jsstring
  tr_from_location :: jsstring
  tr_to_warehouse :: jsstring
  tr_to_location :: jsstring
  tr_lot :: jsstring
  tr_submitted :: "transfer_input list"

definition transfer_init :: "catalog_product list \<Rightarrow> transfer_form" where
  "transfer_init products = \<lparr>skf_warehouses = None, skf_locations = (\<lambda>w. None), skf_products = products,
     skf_query = [], skf_product = [], skf_quantity = [], skf_cost = js ''0'', skf_errors = [],
     skf_pending = False, tr_from_warehouse = [], tr_from_location = [], tr_to_warehouse = [],
     tr_to_location = [], tr_lot = [], tr_submitted = []\<rparr>"

text \<open>The smallest quantity, \<open>0.000001\<close>.\<close>

definition min_quantity :: jsnum where
  "min_quantity = js_num (1 / 1000000)"

definition transferSchema :: "transfer_form \<Rightarrow> jsstring list + jsstring \<times> jsstring" where
  "transferSchema s =
     (let q = decimalString (Some min_quantity) (skf_quantity s);
          c = decimalString (Some (JsNum 0)) (skf_cost s);
          issues = field_if (skf_product s = []) ''product_id''
            @ field_if (tr_from_warehouse s = []) ''from_warehouse_id''
            @ field_if (tr_from_location s = []) ''from_location_id''
            @ field_if (tr_to_warehouse s = []) ''to_warehouse_id''
            @ field_if (tr_to_location s = []) ''to_location_id''
            @ field_if (isl q) ''quantity'' @ field_if (isl c) ''unit_cost''
      in case (q, c) of
           (Inr qv, Inr cv) \<Rightarrow> if issues = [] then Inr (qv, cv) else Inl issues
         | _ \<Rightarrow> Inl issues)"

definition transfer_submit :: "transfer_form \<Rightarrow> jsstring list + transfer_input" where
  "transfer_submit s =
     (case transferSchema s of
        Inl issues \<Rightarrow> Inl issues
      | Inr (q, c) \<Rightarrow> Inr \<lparr>ti_product_id = js_Number (skf_product s),
          ti_from_warehouse_id = js_Number (tr_from_warehouse s),
          ti_from_location_id = js_Number (tr_from_location s),
          ti_to_warehouse_id = js_Number (tr_to_warehouse s),
          ti_to_location_id = js_Number (tr_to_location s), ti_quantity = q, ti_unit_cost = c,
          ti_lot_id = (if tr_lot s = [] then None else Some (js_Number (tr_lot s)))\<rparr>)"

definition transfer_effects :: "transfer_form \<Rightarrow> transfer_form" where
  "transfer_effects s = s\<lparr>
     tr_from_warehouse := useDefaultToFirstOption (tr_from_warehouse s) (skf_warehouses s),
     tr_to_warehouse := useDefaultToFirstOption (tr_to_warehouse s) (skf_warehouses s),
     tr_from_location := useDefaultToFirstOption (tr_from_location s) (form_locations s (tr_from_warehouse s)),
     tr_to_location := useDefaultToFirstOption (tr_to_location s) (form_locations s (tr_to_warehouse s))\<rparr>"

datatype transfer_event =
    TransferStock stock_event
  | FromWarehouse jsstring
  | FromLocation jsstring
  | ToWarehouse jsstring
  | ToLocation jsstring
  | TransferLot jsstring
  | TransferSubmit

fun transfer_handle :: "transfer_form \<Rightarrow> transfer_event \<Rightarrow> transfer_form" where
  "transfer_handle s (TransferStock e) = stock_handle s e"
| "transfer_handle s (FromWarehouse v) = s\<lparr>tr_from_warehouse := v\<rparr>"
| "transfer_handle s (FromLocation v) = s\<lparr>tr_from_location := v\<rparr>"
| "transfer_handle s (ToWarehouse v) = s\<lparr>tr_to_warehouse := v\<rparr>"
| "transfer_handle s (ToLocation v) = s\<lparr>tr_to_location := v\<rparr>"
| "transfer_handle s (TransferLot v) = s\<lparr>tr_lot := v\<rparr>"
| "transfer_handle s TransferSubmit =
     (case transfer_submit s of
        Inl issues \<Rightarrow> s\<lparr>skf_errors := issues\<rparr>
      | Inr p \<Rightarrow> s\<lparr>skf_errors := [], tr_submitted := tr_submitted s @ [p]\<rparr>)"

definition transfer_step :: "transfer_form \<Rightarrow> transfer_event \<Rightarrow> transfer_form" where
  "transfer_step s e = transfer_effects (transfer_effects (apply_chosen s (transfer_handle s e)))"

fun transfer_enabled :: "(jsstring \<Rightarrow> jsstring) \<Rightarrow> transfer_form \<Rightarrow> transfer_event \<Rightarrow> bool" where
  "transfer_enabled lower s (TransferStock e) = stock_enabled lower s e"
| "transfer_enabled lower s (FromWarehouse v) = warehouse_offered s v"
| "transfer_enabled lower s (FromLocation v) = location_offered s (tr_from_warehouse s) v"
| "transfer_enabled lower s (ToWarehouse v) = warehouse_offered s v"
| "transfer_enabled lower s (ToLocation v) = location_offered s (tr_to_warehouse s) v"
| "transfer_enabled lower s (TransferLot v) = True"
| "transfer_enabled lower s TransferSubmit = (\<not> skf_pending s)"

section \<open>The lists of both forms settle\<close>

definition places_ok :: "'a place_lists_scheme \<Rightarrow> bool" where
  "places_ok s \<longleftrightarrow> (\<forall>ws. skf_warehouses s = Some ws \<longrightarrow> (\<forall>w \<in> set ws. server_id w))
     \<and> (\<forall>w ls. skf_locations s w = Some ls \<longrightarrow> (\<forall>l \<in> set ls. server_id l))"

definition stock_ids_ok :: "'a stock_form_scheme \<Rightarrow> bool" where
  "stock_ids_ok s \<longleftrightarrow> places_ok s \<and> (\<forall>p \<in> set (skf_products s). server_id (cp_id p))
     \<and> (skf_product s = [] \<or> (\<exists>i. server_id i \<and> skf_product s = int_string i))"

definition id_field :: "jsstring \<Rightarrow> bool" where
  "id_field v \<longleftrightarrow> v = [] \<or> (\<exists>i. server_id i \<and> v = int_string i)"

text \<open>A warehouse field and a location field that the effects leave as they are.\<close>

definition pair_ok :: "'a place_lists_scheme \<Rightarrow> jsstring \<Rightarrow> jsstring \<Rightarrow> bool" where
  "pair_ok s w l \<longleftrightarrow> useDefaultToFirstOption w (skf_warehouses s) = w
     \<and> useDefaultToFirstOption l (form_locations s w) = l
     \<and> (skf_warehouses s = None \<longrightarrow> w = []) \<and> id_field l"

lemma id_field_default:
  assumes "id_field v" and "\<And>is. options = Some is \<Longrightarrow> \<forall>i \<in> set is. server_id i"
  shows "id_field (useDefaultToFirstOption v options)"
proof (cases options)
  case (Some "is")
  then show ?thesis
    using drop_down.available [of "is" v] drop_down.no_options [of v] assms(2)
    by (cases "is = []") (auto simp: id_field_def)
qed (simp add: drop_down.waits assms(1))

lemma form_locations_ids:
  "places_ok s \<Longrightarrow> form_locations s w = Some ls \<Longrightarrow> \<forall>l \<in> set ls. server_id l"
  by (auto simp: places_ok_def form_locations_def split: if_splits)

lemma pair_ok_passes:
  fixes s :: "'a place_lists_scheme" and w l :: jsstring
  defines "w' \<equiv> useDefaultToFirstOption w (skf_warehouses s)"
  defines "l' \<equiv> useDefaultToFirstOption l (form_locations s w)"
  assumes ok: "places_ok s" and l: "id_field l" and w: "skf_warehouses s = None \<Longrightarrow> w = []"
  shows "pair_ok s (useDefaultToFirstOption w' (skf_warehouses s)) (useDefaultToFirstOption l' (form_locations s w'))"
proof -
  have "id_field l'" "id_field (useDefaultToFirstOption l' (form_locations s w'))"
    using l form_locations_ids [OF ok] unfolding l'_def by (auto intro!: id_field_default)
  moreover have "skf_warehouses s = None \<Longrightarrow> w' = []"
    using w by (simp add: w'_def drop_down.waits)
  ultimately show ?thesis by (simp add: pair_ok_def w'_def)
qed

text \<open>What a form sends: a warehouse of the list, and one of its locations if these have come.\<close>

lemma pair_ok_sends:
  assumes "pair_ok s w l" and "places_ok s" and "w \<noteq> []" and "l \<noteq> []"
  obtains ws i j where "skf_warehouses s = Some ws" "i \<in> set ws" "server_id i" "server_id j"
    "js_Number w = JsNum (of_int i)" "js_Number l = JsNum (of_int j)"
    "\<And>ls. skf_locations s i = Some ls \<Longrightarrow> j \<in> set ls"
proof -
  obtain ws where ws: "skf_warehouses s = Some ws"
    using assms(1,3) by (auto simp: pair_ok_def)
  then have "w \<in> int_string ` set ws"
    using assms(1,3) drop_down.chosen_available [of w ws] by (simp add: pair_ok_def)
  then obtain i where i: "i \<in> set ws" "w = int_string i" by auto
  with ws assms(2) have id_i: "server_id i" by (auto simp: places_ok_def)
  obtain j where j: "server_id j" "l = int_string j"
    using assms(1,4) by (auto simp: pair_ok_def id_field_def)
  have "j \<in> set ls" if "skf_locations s i = Some ls" for ls
  proof -
    have "form_locations s w = Some ls" using that i id_i by (simp add: form_locations_def)
    then have "l \<in> int_string ` set ls"
      using assms(1,4) drop_down.chosen_available [of l ls] by (simp add: pair_ok_def)
    then show ?thesis using j by auto
  qed
  then show ?thesis using that ws i id_i j by simp
qed

text \<open>What has been given: a field is empty or holds an identifier of one of the lists that came.\<close>

definition given :: "int set \<Rightarrow> jsstring \<Rightarrow> bool" where
  "given L v \<longleftrightarrow> v = [] \<or> v \<in> int_string ` L"

definition locations_given :: "int set \<Rightarrow> 'a place_lists_scheme \<Rightarrow> bool" where
  "locations_given L s \<longleftrightarrow> (\<forall>w ls. skf_locations s w = Some ls \<longrightarrow> set ls \<subseteq> L)"

lemma given_default:
  assumes "given L v" and "\<And>is. options = Some is \<Longrightarrow> set is \<subseteq> L"
  shows "given L (useDefaultToFirstOption v options)"
proof (cases options)
  case (Some "is")
  then show ?thesis
    using drop_down.available [of "is" v] drop_down.no_options [of v] assms(2)
    by (cases "is = []") (auto simp: given_def)
qed (simp add: drop_down.waits assms(1))

lemma given_passes:
  "locations_given L s \<Longrightarrow> given L l \<Longrightarrow> given L (useDefaultToFirstOption l (form_locations s w))"
  by (rule given_default) (auto simp: locations_given_def form_locations_def split: if_splits)

lemma given_offered: "locations_given L s \<Longrightarrow> location_offered s w v \<Longrightarrow> given L v"
  by (auto simp: offered_def given_def locations_given_def form_locations_def split: option.splits if_splits)

lemma given_number:
  assumes "given L l" and "l \<noteq> []" and "id_field l"
  shows "\<exists>j \<in> L. js_Number l = JsNum (of_int j)"
proof -
  obtain j where j: "j \<in> L" "l = int_string j" using assms(1,2) by (auto simp: given_def)
  obtain i where i: "server_id i" "l = int_string i" using assms(2,3) by (auto simp: id_field_def)
  have "i = j" using i j by simp
  then show ?thesis using i j by auto
qed

text \<open>The same of the products: the ones offered and the one chosen are of a list that came.\<close>

definition stock_given :: "int set \<Rightarrow> int set \<Rightarrow> 'a stock_form_scheme \<Rightarrow> bool" where
  "stock_given P L s \<longleftrightarrow> locations_given L s \<and> cp_id ` set (skf_products s) \<subseteq> P \<and> given P (skf_product s)"

lemma stock_handle_given:
  assumes "stock_given P L s" and "stock_enabled lower s e"
    and "\<And>ps. e = ProductsAre ps \<Longrightarrow> cp_id ` set ps \<subseteq> P" and "\<And>w ls. e = LocationsAre w ls \<Longrightarrow> set ls \<subseteq> L"
  shows "stock_given P L (stock_handle s e)"
  using assms
  by (cases e) (auto simp: stock_given_def locations_given_def given_def useProductSearch_def intro!: imageI dest!: in_set_takeD split: if_splits)

lemma stock_given_cost [simp]: "stock_given P L (apply_chosen b s) = stock_given P L s"
  by (simp add: apply_chosen_def stock_given_def locations_given_def split: option.splits)

lemma stock_handle_ids:
  assumes "stock_ids_ok s" and "stock_enabled lower s e"
  shows "stock_ids_ok (stock_handle s e)"
  using assms by (cases e) (auto simp: stock_ids_ok_def places_ok_def useProductSearch_def dest!: in_set_takeD split: if_splits)

lemma stock_ids_ok_cost [simp]: "stock_ids_ok (s\<lparr>skf_cost := c\<rparr>) = stock_ids_ok s"
  by (simp add: stock_ids_ok_def places_ok_def)

lemma stock_places: "stock_ids_ok s \<Longrightarrow> places_ok s"
  by (simp add: stock_ids_ok_def)

lemma apply_chosen_ids [simp]: "stock_ids_ok (apply_chosen b s) = stock_ids_ok s"
  by (simp add: apply_chosen_def split: option.splits)

definition adjust_ok :: "adjust_form \<Rightarrow> bool" where
  "adjust_ok s \<longleftrightarrow> stock_ids_ok s \<and> pair_ok s (aj_warehouse s) (aj_location s)"

lemma adjust_updates [simp]:
  "form_locations (s\<lparr>aj_warehouse := w, aj_location := l\<rparr>) = form_locations s"
  "pair_ok (s\<lparr>aj_warehouse := w, aj_location := l\<rparr>) = pair_ok s"
  "stock_ids_ok (s\<lparr>aj_warehouse := w, aj_location := l\<rparr>) = stock_ids_ok s"
  by (auto simp: form_locations_def pair_ok_def stock_ids_ok_def places_ok_def fun_eq_iff)

text \<open>What an event leaves before the effects run.\<close>

lemma adjust_handle_ready:
  assumes "adjust_ok s" and "adjust_enabled lower s e"
  defines "t \<equiv> adjust_clear s (apply_chosen s (adjust_handle s e))"
  shows "stock_ids_ok t" and "id_field (aj_location t)" and "skf_warehouses t = None \<Longrightarrow> aj_warehouse t = []"
proof -
  let ?h = "adjust_handle s e"
  have t: "stock_ids_ok t = stock_ids_ok ?h" "aj_location t = aj_location ?h"
    "skf_warehouses t = skf_warehouses ?h" "aj_warehouse t = aj_warehouse ?h"
    unfolding t_def by (simp_all add: adjust_clear_def apply_chosen_def stock_ids_ok_def places_ok_def split: option.splits)
  have ok: "stock_ids_ok s" "id_field (aj_location s)" "skf_warehouses s = None \<Longrightarrow> aj_warehouse s = []"
    using assms(1) by (auto simp: adjust_ok_def pair_ok_def)
  show "stock_ids_ok t"
    unfolding t using ok(1) assms(2) stock_handle_ids [of s lower]
    by (cases e) (auto simp: stock_ids_ok_def places_ok_def split: sum.splits)
  have stock: "aj_location (stock_handle s ev) = aj_location s" "aj_warehouse (stock_handle s ev) = aj_warehouse s"
    "skf_warehouses (stock_handle s ev) = None \<Longrightarrow> skf_warehouses s = None" for ev
    by (cases ev; simp)+
  show "id_field (aj_location t)"
    unfolding t using ok assms(2) form_locations_ids [OF stock_places [OF ok(1)]]
    by (cases e) (auto simp: stock offered_def id_field_def split: sum.splits option.splits)
  assume "skf_warehouses t = None"
  then show "aj_warehouse t = []"
    unfolding t using ok(3) assms(2)
    by (cases e) (auto simp: stock offered_def split: sum.splits)
qed

lemma adjust_step_ok:
  assumes "adjust_ok s" and "adjust_enabled lower s e"
  shows "adjust_ok (adjust_step s e)"
  using pair_ok_passes [OF stock_places [OF adjust_handle_ready(1) [OF assms]] adjust_handle_ready(2,3) [OF assms]] adjust_handle_ready(1) [OF assms]
  by (simp add: adjust_ok_def adjust_step_def adjust_effects_def Let_def)

lemma adjust_init_ok: "\<forall>p \<in> set products. server_id (cp_id p) \<Longrightarrow> adjust_ok (adjust_init products)"
  by (simp add: adjust_ok_def adjust_init_def stock_ids_ok_def places_ok_def pair_ok_def form_locations_def
      drop_down.waits id_field_def)

interpretation adjust_dialog: event_machine "adjust_enabled lower" adjust_step "adjust_init products"
    "\<lambda>s. (\<forall>p \<in> set products. server_id (cp_id p)) \<longrightarrow> adjust_ok s"
  for lower products
  using adjust_step_ok adjust_init_ok by unfold_locales auto

lemma signed_quantity_ok:
  "signed_quantity v = Some q \<Longrightarrow> is_signed_decimal6 q \<and> js_Number q \<noteq> JsNum 0"
  by (simp add: signed_quantity_def Let_def split: if_splits)

lemma decimalString_ok:
  "decimalString (Some m) v = Inr q \<Longrightarrow> is_decimal6 q \<and> m \<le> js_Number q"
  by (auto simp: decimalString_def Let_def split: if_splits)

lemma adjust_submitD:
  assumes "adjust_submit s = Inr p"
  shows "skf_product s \<noteq> []" "aj_warehouse s \<noteq> []" "aj_location s \<noteq> []"
    "ai_product_id p = js_Number (skf_product s)" "ai_warehouse_id p = js_Number (aj_warehouse s)"
    "ai_location_id p = js_Number (aj_location s)"
    "is_signed_decimal6 (ai_quantity p)" "js_Number (ai_quantity p) \<noteq> JsNum 0"
    "is_decimal6 (ai_unit_cost p)" "JsNum 0 \<le> js_Number (ai_unit_cost p)"
    "chosenProduct s = Some x \<Longrightarrow> cp_track_lots x \<Longrightarrow> ai_lot_number p = Some (js_trim (aj_lot s)) \<and> js_trim (aj_lot s) \<noteq> []"
    "chosenProduct s = Some x \<Longrightarrow> cp_track_expiration x \<Longrightarrow> ai_expiration_date p \<noteq> None"
  using assms signed_quantity_ok [of "skf_quantity s"] decimalString_ok [of "JsNum 0" "skf_cost s"]
  by (auto simp: adjust_submit_def adjustmentSchema_def product_requires_def field_if_def Let_def
      split: sum.splits option.splits if_splits prod.splits)

definition adjust_given :: "int set \<Rightarrow> int set \<Rightarrow> adjust_form \<Rightarrow> bool" where
  "adjust_given P L s \<longleftrightarrow> stock_given P L s \<and> given L (aj_location s)"

lemma adjust_effects_given: "adjust_given P L s \<Longrightarrow> adjust_given P L (adjust_effects s)"
  using given_passes [of L s "aj_location s" "aj_warehouse s"]
  by (simp add: adjust_given_def adjust_effects_def stock_given_def locations_given_def)

lemma adjust_step_given:
  assumes "adjust_given P L s" and "adjust_enabled lower s e"
    and "\<And>ps. e = AdjustStock (ProductsAre ps) \<Longrightarrow> cp_id ` set ps \<subseteq> P"
    and "\<And>w ls. e = AdjustStock (LocationsAre w ls) \<Longrightarrow> set ls \<subseteq> L"
  shows "adjust_given P L (adjust_step s e)"
proof -
  have stock: "stock_given P L (stock_handle s ev) \<and> aj_location (stock_handle s ev) = aj_location s"
    if "e = AdjustStock ev" for ev
  proof -
    have "stock_given P L (stock_handle s ev)"
      using assms that by (intro stock_handle_given [of P L s lower]) (auto simp: adjust_given_def)
    moreover have "aj_location (stock_handle s ev) = aj_location s" by (cases ev) simp_all
    ultimately show ?thesis ..
  qed
  have "adjust_given P L (adjust_handle s e)"
    using assms(1,2) stock given_offered [of L s]
    by (cases e) (auto simp: adjust_given_def stock_given_def locations_given_def split: sum.splits)
  then have "adjust_given P L (adjust_clear s (apply_chosen s (adjust_handle s e)))"
    by (auto simp: adjust_given_def adjust_clear_def apply_chosen_def stock_given_def locations_given_def split: option.splits)
  then show ?thesis unfolding adjust_step_def Let_def by (intro adjust_effects_given)
qed

interpretation adjust_lists: event_machine "\<lambda>s e. adjust_enabled lower s e \<and> e \<in> E" adjust_step "adjust_init products"
    "adjust_given (cp_id ` (set products \<union> \<Union> {set ps | ps. AdjustStock (ProductsAre ps) \<in> E}))
      (\<Union> {set ls | ls. \<exists>w. AdjustStock (LocationsAre w ls) \<in> E})"
  for lower products E
proof
  show "adjust_given (cp_id ` (set products \<union> \<Union> {set ps | ps. AdjustStock (ProductsAre ps) \<in> E}))
      (\<Union> {set ls | ls. \<exists>w. AdjustStock (LocationsAre w ls) \<in> E}) (adjust_init products)"
    by (auto simp: adjust_given_def stock_given_def adjust_init_def locations_given_def given_def)
qed (rule adjust_step_given, auto)

text \<open>C27: An adjustment is about goods and places that the lists gave: after anything done in the form,
  what the button would send names a product of a list of products that came, a warehouse of the
  list of warehouses on screen, and a location of a list of locations that came, which is the list of
  that warehouse as soon as it has come; its quantity is a decimal that is not zero, its cost a
  decimal that is not negative; and when the product is still in the list on screen, one with lots
  goes with a lot number that is not empty, and one with expiry dates with a date.\<close>

theorem adjustment_names_its_goods:
  assumes ids: "\<forall>x \<in> set products. server_id (cp_id x)"
    and run: "run_ok (adjust_enabled lower) adjust_step (adjust_init products) es"
    and s: "s = foldl adjust_step (adjust_init products) es"
    and p: "adjust_submit s = Inr p"
  shows "(\<exists>k ps. k \<in> cp_id ` set ps \<and> (ps = products \<or> AdjustStock (ProductsAre ps) \<in> set es)
      \<and> ai_product_id p = JsNum (of_int k))
    \<and> (\<exists>i j ws. skf_warehouses s = Some ws \<and> i \<in> set ws \<and> ai_warehouse_id p = JsNum (of_int i)
      \<and> ai_location_id p = JsNum (of_int j) \<and> (\<exists>w ls. AdjustStock (LocationsAre w ls) \<in> set es \<and> j \<in> set ls)
      \<and> (\<forall>ls. skf_locations s i = Some ls \<longrightarrow> j \<in> set ls))
    \<and> is_signed_decimal6 (ai_quantity p) \<and> js_Number (ai_quantity p) \<noteq> JsNum 0
    \<and> is_decimal6 (ai_unit_cost p) \<and> JsNum 0 \<le> js_Number (ai_unit_cost p)
    \<and> (\<forall>x. chosenProduct s = Some x \<longrightarrow>
         (cp_track_lots x \<longrightarrow> ai_lot_number p \<noteq> None \<and> ai_lot_number p \<noteq> Some [])
         \<and> (cp_track_expiration x \<longrightarrow> ai_expiration_date p \<noteq> None))"
proof -
  note d = adjust_submitD [OF p]
  let ?P = "cp_id ` (set products \<union> \<Union> {set ps | ps. AdjustStock (ProductsAre ps) \<in> set es})"
  let ?L = "\<Union> {set ls | ls. \<exists>w. AdjustStock (LocationsAre w ls) \<in> set es}"
  have ok: "stock_ids_ok s" "pair_ok s (aj_warehouse s) (aj_location s)"
    using adjust_dialog.inv_reached [OF reached_run [OF run]] ids s by (auto simp: adjust_ok_def)
  have known: "given ?P (skf_product s)" "given ?L (aj_location s)"
    using adjust_lists.inv_reached [OF reached_run [OF run_ok_within [OF run order_refl]]] s
    by (simp_all add: adjust_given_def stock_given_def)
  have "id_field (skf_product s)" using ok(1) by (auto simp: stock_ids_ok_def id_field_def)
  then obtain k where k: "k \<in> ?P" "js_Number (skf_product s) = JsNum (of_int k)"
    using given_number [OF known(1) d(1)] by blast
  obtain ws i j where w: "skf_warehouses s = Some ws" "i \<in> set ws" "server_id i" "server_id j"
      "js_Number (aj_warehouse s) = JsNum (of_int i)" "js_Number (aj_location s) = JsNum (of_int j)"
      "\<And>ls. skf_locations s i = Some ls \<Longrightarrow> j \<in> set ls"
    using pair_ok_sends [OF ok(2) stock_places [OF ok(1)] d(2,3)] by blast
  have "id_field (aj_location s)" using ok(2) by (simp add: pair_ok_def)
  then have j: "j \<in> ?L" using given_number [OF known(2) d(3)] w(6) by auto
  have "\<exists>k ps. k \<in> cp_id ` set ps \<and> (ps = products \<or> AdjustStock (ProductsAre ps) \<in> set es)
      \<and> ai_product_id p = JsNum (of_int k)"
    using k d(4) by auto
  moreover have "\<exists>i j ws. skf_warehouses s = Some ws \<and> i \<in> set ws \<and> ai_warehouse_id p = JsNum (of_int i)
      \<and> ai_location_id p = JsNum (of_int j) \<and> (\<exists>w ls. AdjustStock (LocationsAre w ls) \<in> set es \<and> j \<in> set ls)
      \<and> (\<forall>ls. skf_locations s i = Some ls \<longrightarrow> j \<in> set ls)"
    using j w d(5,6) by (intro exI [of _ i] exI [of _ j] exI [of _ ws]) auto
  ultimately show ?thesis using d(7-12) by auto
qed

section \<open>Transfers\<close>

definition transfer_ok :: "transfer_form \<Rightarrow> bool" where
  "transfer_ok s \<longleftrightarrow> stock_ids_ok s \<and> pair_ok s (tr_from_warehouse s) (tr_from_location s)
     \<and> pair_ok s (tr_to_warehouse s) (tr_to_location s)"

lemma transfer_updates [simp]:
  "form_locations (s\<lparr>tr_from_warehouse := w, tr_to_warehouse := w', tr_from_location := l, tr_to_location := l'\<rparr>)
     = form_locations s"
  "pair_ok (s\<lparr>tr_from_warehouse := w, tr_to_warehouse := w', tr_from_location := l, tr_to_location := l'\<rparr>)
     = pair_ok s"
  "stock_ids_ok (s\<lparr>tr_from_warehouse := w, tr_to_warehouse := w', tr_from_location := l, tr_to_location := l'\<rparr>)
     = stock_ids_ok s"
  by (auto simp: form_locations_def pair_ok_def stock_ids_ok_def places_ok_def fun_eq_iff)

lemma transfer_handle_ready:
  assumes "transfer_ok s" and "transfer_enabled lower s e"
  defines "t \<equiv> apply_chosen s (transfer_handle s e)"
  shows "stock_ids_ok t" and "id_field (tr_from_location t)" and "id_field (tr_to_location t)"
    and "skf_warehouses t = None \<Longrightarrow> tr_from_warehouse t = [] \<and> tr_to_warehouse t = []"
proof -
  let ?h = "transfer_handle s e"
  have t: "stock_ids_ok t = stock_ids_ok ?h" "skf_warehouses t = skf_warehouses ?h"
    "tr_from_location t = tr_from_location ?h" "tr_to_location t = tr_to_location ?h"
    "tr_from_warehouse t = tr_from_warehouse ?h" "tr_to_warehouse t = tr_to_warehouse ?h"
    unfolding t_def by (simp_all add: apply_chosen_def stock_ids_ok_def places_ok_def split: option.splits)
  have ok: "stock_ids_ok s" "id_field (tr_from_location s)" "id_field (tr_to_location s)"
    "skf_warehouses s = None \<Longrightarrow> tr_from_warehouse s = [] \<and> tr_to_warehouse s = []"
    using assms(1) by (auto simp: transfer_ok_def pair_ok_def)
  show "stock_ids_ok t"
    unfolding t using ok(1) assms(2) stock_handle_ids [of s lower]
    by (cases e) (auto simp: stock_ids_ok_def places_ok_def split: sum.splits)
  have stock: "tr_from_location (stock_handle s ev) = tr_from_location s"
    "tr_to_location (stock_handle s ev) = tr_to_location s"
    "tr_from_warehouse (stock_handle s ev) = tr_from_warehouse s"
    "tr_to_warehouse (stock_handle s ev) = tr_to_warehouse s"
    "skf_warehouses (stock_handle s ev) = None \<Longrightarrow> skf_warehouses s = None" for ev
    by (cases ev; simp)+
  show "id_field (tr_from_location t)" "id_field (tr_to_location t)"
    unfolding t using ok assms(2) form_locations_ids [OF stock_places [OF ok(1)]]
    by (cases e; auto simp: stock offered_def id_field_def split: sum.splits option.splits)+
  assume "skf_warehouses t = None"
  then show "tr_from_warehouse t = [] \<and> tr_to_warehouse t = []"
    unfolding t using ok(4) assms(2)
    by (cases e) (auto simp: stock offered_def split: sum.splits)
qed

lemma transfer_step_ok:
  assumes "transfer_ok s" and "transfer_enabled lower s e"
  shows "transfer_ok (transfer_step s e)"
proof -
  note r = transfer_handle_ready [OF assms]
  show ?thesis
    using pair_ok_passes [OF stock_places [OF r(1)] r(2) conjunct1 [OF r(4)]] pair_ok_passes [OF stock_places [OF r(1)] r(3) conjunct2 [OF r(4)]] r(1)
    by (simp add: transfer_ok_def transfer_step_def transfer_effects_def Let_def)
qed

lemma transfer_init_ok: "\<forall>p \<in> set products. server_id (cp_id p) \<Longrightarrow> transfer_ok (transfer_init products)"
  by (simp add: transfer_ok_def transfer_init_def stock_ids_ok_def places_ok_def pair_ok_def form_locations_def
      drop_down.waits id_field_def)

interpretation transfer_dialog: event_machine "transfer_enabled lower" transfer_step "transfer_init products"
    "\<lambda>s. (\<forall>p \<in> set products. server_id (cp_id p)) \<longrightarrow> transfer_ok s"
  for lower products
  using transfer_step_ok transfer_init_ok by unfold_locales auto

lemma transfer_submitD:
  assumes "transfer_submit s = Inr p"
  shows "skf_product s \<noteq> []" "tr_from_warehouse s \<noteq> []" "tr_from_location s \<noteq> []"
    "tr_to_warehouse s \<noteq> []" "tr_to_location s \<noteq> []"
    "ti_product_id p = js_Number (skf_product s)"
    "ti_from_warehouse_id p = js_Number (tr_from_warehouse s)"
    "ti_from_location_id p = js_Number (tr_from_location s)"
    "ti_to_warehouse_id p = js_Number (tr_to_warehouse s)"
    "ti_to_location_id p = js_Number (tr_to_location s)"
    "is_decimal6 (ti_quantity p)" "min_quantity \<le> js_Number (ti_quantity p)"
    "is_decimal6 (ti_unit_cost p)" "JsNum 0 \<le> js_Number (ti_unit_cost p)"
    "ti_lot_id p = (if tr_lot s = [] then None else Some (js_Number (tr_lot s)))"
  using assms decimalString_ok [of min_quantity "skf_quantity s"] decimalString_ok [of "JsNum 0" "skf_cost s"]
  by (auto simp: transfer_submit_def transferSchema_def field_if_def Let_def
      split: sum.splits option.splits if_splits prod.splits)

definition transfer_given :: "int set \<Rightarrow> int set \<Rightarrow> transfer_form \<Rightarrow> bool" where
  "transfer_given P L s \<longleftrightarrow> stock_given P L s \<and> given L (tr_from_location s) \<and> given L (tr_to_location s)"

lemma transfer_effects_given: "transfer_given P L s \<Longrightarrow> transfer_given P L (transfer_effects s)"
  using given_passes [of L s "tr_from_location s" "tr_from_warehouse s"]
    given_passes [of L s "tr_to_location s" "tr_to_warehouse s"]
  by (simp add: transfer_given_def transfer_effects_def stock_given_def locations_given_def)

lemma transfer_step_given:
  assumes "transfer_given P L s" and "transfer_enabled lower s e"
    and "\<And>ps. e = TransferStock (ProductsAre ps) \<Longrightarrow> cp_id ` set ps \<subseteq> P"
    and "\<And>w ls. e = TransferStock (LocationsAre w ls) \<Longrightarrow> set ls \<subseteq> L"
  shows "transfer_given P L (transfer_step s e)"
proof -
  have stock: "stock_given P L (stock_handle s ev) \<and> tr_from_location (stock_handle s ev) = tr_from_location s
      \<and> tr_to_location (stock_handle s ev) = tr_to_location s"
    if "e = TransferStock ev" for ev
  proof -
    have "stock_given P L (stock_handle s ev)"
      using assms that by (intro stock_handle_given [of P L s lower]) (auto simp: transfer_given_def)
    moreover have "tr_from_location (stock_handle s ev) = tr_from_location s
      \<and> tr_to_location (stock_handle s ev) = tr_to_location s" by (cases ev) simp_all
    ultimately show ?thesis ..
  qed
  have "transfer_given P L (transfer_handle s e)"
    using assms(1,2) stock given_offered [of L s]
    by (cases e) (auto simp: transfer_given_def stock_given_def locations_given_def split: sum.splits)
  then have "transfer_given P L (apply_chosen s (transfer_handle s e))"
    by (auto simp: transfer_given_def apply_chosen_def stock_given_def locations_given_def split: option.splits)
  then show ?thesis unfolding transfer_step_def by (intro transfer_effects_given)
qed

interpretation transfer_lists: event_machine "\<lambda>s e. transfer_enabled lower s e \<and> e \<in> E" transfer_step
    "transfer_init products"
    "transfer_given (cp_id ` (set products \<union> \<Union> {set ps | ps. TransferStock (ProductsAre ps) \<in> E}))
      (\<Union> {set ls | ls. \<exists>w. TransferStock (LocationsAre w ls) \<in> E})"
  for lower products E
proof
  show "transfer_given (cp_id ` (set products \<union> \<Union> {set ps | ps. TransferStock (ProductsAre ps) \<in> E}))
      (\<Union> {set ls | ls. \<exists>w. TransferStock (LocationsAre w ls) \<in> E}) (transfer_init products)"
    by (auto simp: transfer_given_def stock_given_def transfer_init_def locations_given_def given_def)
qed (rule transfer_step_given, auto)

text \<open>A place that is sent: a warehouse on screen, and a location that was given.\<close>

definition place_sent :: "transfer_form \<Rightarrow> transfer_event list \<Rightarrow> jsnum \<Rightarrow> jsnum \<Rightarrow> bool" where
  "place_sent s es w_id l_id \<longleftrightarrow> (\<exists>i j ws. skf_warehouses s = Some ws \<and> i \<in> set ws \<and> w_id = JsNum (of_int i)
     \<and> l_id = JsNum (of_int j) \<and> (\<exists>w ls. TransferStock (LocationsAre w ls) \<in> set es \<and> j \<in> set ls)
     \<and> (\<forall>ls. skf_locations s i = Some ls \<longrightarrow> j \<in> set ls))"

lemma place_sentI:
  assumes "pair_ok s w l" and "places_ok s" and "w \<noteq> []" and "l \<noteq> []"
    and "given (\<Union> {set ls | ls. \<exists>w. TransferStock (LocationsAre w ls) \<in> set es}) l"
  shows "place_sent s es (js_Number w) (js_Number l)"
proof -
  obtain ws i j where w: "skf_warehouses s = Some ws" "i \<in> set ws"
      "js_Number w = JsNum (of_int i)" "js_Number l = JsNum (of_int j)"
      "\<And>ls. skf_locations s i = Some ls \<Longrightarrow> j \<in> set ls"
    using pair_ok_sends [OF assms(1-4)] by metis
  have "id_field l" using assms(1) by (simp add: pair_ok_def)
  then have "j \<in> \<Union> {set ls | ls. \<exists>w. TransferStock (LocationsAre w ls) \<in> set es}"
    using given_number [OF assms(5,4)] w(4) by auto
  then show ?thesis
    unfolding place_sent_def using w by (intro exI [of _ i] exI [of _ j] exI [of _ ws]) auto
qed

text \<open>C28: A transfer is about goods and places that the lists gave: after anything done in the form, what
  the button would send names a product of a list of products that came and, for each end, a
  warehouse of the list on screen and a location of a list of locations that came, which is the list
  of that warehouse as soon as it has come; its quantity is a decimal of at least a millionth, its
  cost a decimal that is not negative, and its lot is none when the field is empty and otherwise the
  number that the free text stands for, which is not a number for most texts.\<close>

theorem transfer_names_its_places:
  assumes ids: "\<forall>x \<in> set products. server_id (cp_id x)"
    and run: "run_ok (transfer_enabled lower) transfer_step (transfer_init products) es"
    and s: "s = foldl transfer_step (transfer_init products) es"
    and p: "transfer_submit s = Inr p"
  shows "(\<exists>k ps. k \<in> cp_id ` set ps \<and> (ps = products \<or> TransferStock (ProductsAre ps) \<in> set es)
      \<and> ti_product_id p = JsNum (of_int k))
    \<and> place_sent s es (ti_from_warehouse_id p) (ti_from_location_id p)
    \<and> place_sent s es (ti_to_warehouse_id p) (ti_to_location_id p)
    \<and> is_decimal6 (ti_quantity p) \<and> min_quantity \<le> js_Number (ti_quantity p)
    \<and> is_decimal6 (ti_unit_cost p) \<and> JsNum 0 \<le> js_Number (ti_unit_cost p)
    \<and> ti_lot_id p = (if tr_lot s = [] then None else Some (js_Number (tr_lot s)))"
proof -
  note d = transfer_submitD [OF p]
  let ?P = "cp_id ` (set products \<union> \<Union> {set ps | ps. TransferStock (ProductsAre ps) \<in> set es})"
  let ?L = "\<Union> {set ls | ls. \<exists>w. TransferStock (LocationsAre w ls) \<in> set es}"
  have ok: "stock_ids_ok s" "pair_ok s (tr_from_warehouse s) (tr_from_location s)"
      "pair_ok s (tr_to_warehouse s) (tr_to_location s)"
    using transfer_dialog.inv_reached [OF reached_run [OF run]] ids s by (auto simp: transfer_ok_def)
  have known: "given ?P (skf_product s)" "given ?L (tr_from_location s)" "given ?L (tr_to_location s)"
    using transfer_lists.inv_reached [OF reached_run [OF run_ok_within [OF run order_refl]]] s
    by (simp_all add: transfer_given_def stock_given_def)
  have "id_field (skf_product s)" using ok(1) by (auto simp: stock_ids_ok_def id_field_def)
  then obtain k where k: "k \<in> ?P" "js_Number (skf_product s) = JsNum (of_int k)"
    using given_number [OF known(1) d(1)] by blast
  then have "\<exists>k ps. k \<in> cp_id ` set ps \<and> (ps = products \<or> TransferStock (ProductsAre ps) \<in> set es)
      \<and> ti_product_id p = JsNum (of_int k)"
    using d(6) by auto
  moreover have "place_sent s es (ti_from_warehouse_id p) (ti_from_location_id p)"
    unfolding d(7,8) by (rule place_sentI [OF ok(2) stock_places [OF ok(1)] d(2,3) known(2)])
  moreover have "place_sent s es (ti_to_warehouse_id p) (ti_to_location_id p)"
    unfolding d(9,10) by (rule place_sentI [OF ok(3) stock_places [OF ok(1)] d(4,5) known(3)])
  ultimately show ?thesis using d(11-15) by auto
qed

section \<open>Sample runs\<close>

definition water :: catalog_product where
  "water = \<lparr>cp_id = 7, cp_sku = [], cp_name = js ''Agua'', cp_description = [],
     cp_category_id = None, cp_category_name = None, cp_pos_category_id = None,
     cp_pos_category_name = None, cp_pos_display_order = 0, cp_is_open_price = None,
     cp_is_sold_by_weight = None, cp_base_unit_name = js ''l'', cp_cost = js ''2'',
     cp_list_price = js ''3'', cp_final_price = None, cp_manual_price_is_set = None,
     cp_tax_rate = js ''0'', cp_surcharge_rate = js ''0'', cp_effective_tax_rate = js ''0'',
     cp_margin_rate = None, cp_margin_amount = None, cp_taxes = [], cp_price_formula = None,
     cp_min_stock = js ''0'', cp_track_lots = True, cp_track_expiration = False,
     cp_tracks_stock = None, cp_effective_tracks_stock = True, cp_is_active = True, cp_packages = []\<rparr>"

definition ascii_lower :: "jsstring \<Rightarrow> jsstring" where
  "ascii_lower = map (\<lambda>c. if 65 \<le> c \<and> c \<le> 90 then c + 32 else c)"

definition count_water :: "adjust_event list" where
  "count_water = map AdjustStock [WarehousesAre [3, 4], LocationsAre 3 [5, 6], QueryTyped (js ''ag''),
     ProductPicked water, QuantityTyped (js ''-2,5'')] @ [AdjustLot (js '' L1 '')]"

definition move_water :: "transfer_event list" where
  "move_water = map TransferStock [WarehousesAre [3, 4], LocationsAre 3 [5, 6], QueryTyped (js ''ag''),
     ProductPicked water, QuantityTyped (js ''2'')] @ [TransferLot (js ''L1'')]"

definition counted_water :: adjust_form where
  "counted_water = foldl adjust_step (adjust_init [water]) count_water"

definition moved_water :: transfer_form where
  "moved_water = foldl transfer_step (transfer_init [water]) move_water"

lemma sample_texts:
  "decimalInputValue [50] = [50] \<and> signed_quantity [45, 50, 44, 53] = Some [45, 50, 46, 53]
   \<and> decimalString (Some (JsNum 0)) [50] = Inr [50] \<and> decimalString (Some min_quantity) [50] = Inr [50]
   \<and> js_Number [76, 49] = JsNaN"
  by code_simp

lemma sample_ids:
  "int_string 3 = [51]" "int_string 4 = [52]" "int_string 5 = [53]" "int_string 6 = [54]"
  "int_string 7 = [55]"
  by (simp_all add: int_string_def nat_digits.simps)

lemma sample_numbers:
  "js_Number [51] = JsNum 3" "js_Number [52] = JsNum 4" "js_Number [53] = JsNum 5"
  "js_Number [55] = JsNum 7"
  using js_Number_server_id [of 3] js_Number_server_id [of 4] js_Number_server_id [of 5]
    js_Number_server_id [of 7] by (simp_all add: sample_ids server_id_def)

lemmas sample_simps = sample_texts sample_ids sample_numbers js_def form_locations_def
  apply_chosen_def useChosenProduct_def chosenProduct_def chosen_product_def
  useDefaultToFirstOption_def useProductSearch_def productMatches_def ascii_lower_def
  server_id_def field_if_def offered_def js_trim_def js_trim_end_def js_ws_def Let_def
  product_requires_def js_starts_with_def

lemmas adjust_simps = sample_simps adjust_init_def count_water_def adjust_step_def
  adjust_effects_def adjust_clear_def adjust_submit_def adjustmentSchema_def

lemma counted_run:
  "run_ok (adjust_enabled ascii_lower) adjust_step (adjust_init [water]) count_water"
  by (simp add: adjust_simps water_def)

lemma counted_sends: "adjust_submit counted_water = Inr \<lparr>ai_product_id = JsNum 7, ai_warehouse_id = JsNum 3,
    ai_location_id = JsNum 5, ai_movement_type = ADJUSTMENT, ai_quantity = js ''-2.5'',
    ai_unit_cost = js ''2'', ai_lot_id = None, ai_lot_number = Some (js ''L1''),
    ai_expiration_date = None, ai_reason = []\<rparr>"
  by (simp add: counted_water_def adjust_simps water_def)

lemmas transfer_simps = sample_simps transfer_init_def move_water_def transfer_step_def
  transfer_effects_def transfer_submit_def transferSchema_def

lemma moved_run:
  "run_ok (transfer_enabled ascii_lower) transfer_step (transfer_init [water]) move_water"
  by (simp add: transfer_simps water_def)

lemma moved_lot: "tr_lot moved_water = js ''L1''"
  by (simp add: moved_water_def transfer_simps water_def)

lemma moved_sends: "transfer_submit moved_water = Inr \<lparr>ti_product_id = JsNum 7,
    ti_from_warehouse_id = JsNum 3, ti_from_location_id = JsNum 5, ti_to_warehouse_id = JsNum 3,
    ti_to_location_id = JsNum 5, ti_quantity = js ''2'', ti_unit_cost = js ''2'', ti_lot_id = Some JsNaN\<rparr>"
  by (simp add: moved_water_def transfer_simps water_def)

lemma water_id: "\<forall>x \<in> set [water]. server_id (cp_id x)"
  by (simp add: water_def server_id_def)

theorem adjustment_names_its_goods_witness:
  "\<exists>p. adjust_submit counted_water = Inr p \<and> js_Number (ai_quantity p) \<noteq> JsNum 0"
  using adjustment_names_its_goods [OF water_id counted_run counted_water_def counted_sends] counted_sends by blast

theorem transfer_names_its_places_witness:
  "\<exists>p. transfer_submit moved_water = Inr p \<and> min_quantity \<le> js_Number (ti_quantity p)"
  using transfer_names_its_places [OF water_id moved_run moved_water_def moved_sends] moved_sends by blast

text \<open>
  Three limits of the forms. The place proposed as origin is also proposed as destination. A lot
  that is not a number is sent as no lot. And when the warehouse is changed the location of the
  former one stays, and would be sent, until the locations of the new one have come.
\<close>

lemma transfer_to_itself:
  "\<exists>p. transfer_submit moved_water = Inr p \<and> ti_from_location_id p = ti_to_location_id p
     \<and> ti_from_warehouse_id p = ti_to_warehouse_id p"
  by (simp add: moved_sends)

lemma typed_lot_lost:
  "tr_lot moved_water = js ''L1'' \<and> (\<exists>p fs. transfer_submit moved_water = Inr p \<and> transfer_json p = JObj fs
     \<and> map_of fs (js ''lot_id'') = Some JNull)"
  by (simp add: moved_lot moved_sends transfer_json_def js_def)

lemma location_of_former_warehouse:
  "aj_warehouse (adjust_step counted_water (AdjustWarehouse (js ''4''))) = js ''4''
   \<and> aj_location (adjust_step counted_water (AdjustWarehouse (js ''4''))) = js ''5''"
  by (simp add: counted_water_def adjust_simps water_def)

end
