(* ===== verification/Purchasing.thy ===== *)
theory Purchasing
  imports Inventory
begin

text \<open>
  Suppliers and purchase orders: the records and calls of \<open>features/suppliers/api.ts\<close> and
  \<open>features/purchasing/api.ts\<close>, the forms of an order (\<open>AddOrderLineForm.tsx\<close>,
  \<open>CreateOrderForm.tsx\<close>, the rows of \<open>OrderLinesTable.tsx\<close>) and the reception of its goods
  (\<open>GoodsReceiptForm.tsx\<close>).
\<close>

section \<open>Suppliers\<close>

record supplier =
  sup_id :: int
  sup_name :: jsstring
  sup_tax_id :: "jsstring option"
  sup_email :: "jsstring option"
  sup_phone :: "jsstring option"
  sup_address :: jsstring
  sup_is_active :: bool

definition suppliersQuery :: "bool \<Rightarrow> query_options" where
  "suppliersQuery activeOnly =
     \<lparr>q_key = [KStr (js ''suppliers''), KStr (js ''list''), KBool activeOnly],
      q_call = get_call (js ''/suppliers?active_only='' @ bool_string activeOnly), q_enabled = True\<rparr>"

text \<open>Every field of an update may be left out.\<close>

record supplier_update =
  spu_name :: "jsstring option"
  spu_tax_id :: "jsstring option option"
  spu_email :: "jsstring option option"
  spu_phone :: "jsstring option option"
  spu_address :: "jsstring option"

definition supplier_json :: "supplier_update \<Rightarrow> json" where
  "supplier_json p = JObj (opt_field (js ''name'') JStr (spu_name p)
     @ opt_field (js ''tax_id'') (null_or JStr) (spu_tax_id p)
     @ opt_field (js ''email'') (null_or JStr) (spu_email p)
     @ opt_field (js ''phone'') (null_or JStr) (spu_phone p)
     @ opt_field (js ''address'') JStr (spu_address p))"

definition createSupplier :: "supplier_update \<Rightarrow> api_call" where
  "createSupplier p = send_call POST (js ''/suppliers'') [] (Some (supplier_json p))"

definition supplier_path :: "int \<Rightarrow> jsstring \<Rightarrow> jsstring" where
  "supplier_path i rest = js ''/suppliers/'' @ int_string i @ rest"

definition updateSupplier :: "int \<Rightarrow> supplier_update \<Rightarrow> api_call" where
  "updateSupplier i p = send_call PATCH (supplier_path i []) [] (Some (supplier_json p))"

definition deactivateSupplier :: "int \<Rightarrow> api_call" where
  "deactivateSupplier i = send_call POST (supplier_path i (js ''/deactivate'')) [] None"

definition activateSupplier :: "int \<Rightarrow> api_call" where
  "activateSupplier i = send_call POST (supplier_path i (js ''/activate'')) [] None"

record product_supplier =
  ps_id :: int
  ps_product_id :: int
  ps_product_sku :: jsstring
  ps_product_name :: jsstring
  ps_supplier_id :: int
  ps_supplier_name :: jsstring
  ps_supplier_sku :: "jsstring option"
  ps_supplier_cost :: jsstring
  ps_is_preferred :: bool

definition supplierProductsQuery :: "int \<Rightarrow> query_options" where
  "supplierProductsQuery supplierId =
     \<lparr>q_key = [KStr (js ''suppliers''), KStr (js ''products''), KNum supplierId],
      q_call = get_call (supplier_path supplierId (js ''/products'')), q_enabled = True\<rparr>"

record product_supplier_input =
  psi_supplier_sku :: "jsstring option"
  psi_supplier_cost :: jsstring
  psi_is_preferred :: bool

definition upsertProductSupplier :: "int \<Rightarrow> int \<Rightarrow> product_supplier_input \<Rightarrow> api_call" where
  "upsertProductSupplier productId supplierId p =
     send_call PUT (products_path productId (js ''/suppliers/'' @ int_string supplierId)) []
       (Some (JObj [(js ''supplier_sku'', null_or JStr (psi_supplier_sku p)),
          (js ''supplier_cost'', JStr (psi_supplier_cost p)),
          (js ''is_preferred'', JBool (psi_is_preferred p))]))"

definition removeProductSupplier :: "int \<Rightarrow> int \<Rightarrow> api_call" where
  "removeProductSupplier productId supplierId =
     send_call DELETE (products_path productId (js ''/suppliers/'' @ int_string supplierId)) [] None"

section \<open>Purchase orders\<close>

record purchase_line =
  pol_id :: int
  pol_product_id :: int
  pol_product_sku :: jsstring
  pol_product_name :: jsstring
  pol_track_lots :: bool
  pol_package_id :: int
  pol_package_name :: jsstring
  pol_package_factor :: jsstring
  pol_quantity_packages :: jsstring
  pol_quantity_ordered :: jsstring
  pol_quantity_received :: jsstring
  pol_unit_cost :: jsstring
  pol_tax_rate :: jsstring
  pol_discount_rate :: jsstring
  pol_subtotal :: jsstring
  pol_discount_amount :: jsstring
  pol_tax_amount :: jsstring
  pol_total :: jsstring

datatype order_status = OrderDraft | Ordered | PartiallyReceived | Received | OrderCancelled

record purchase_order =
  po_id :: int
  po_supplier_id :: int
  po_supplier_name :: jsstring
  po_status :: order_status
  po_notes :: jsstring
  po_ordered_at :: "jsstring option"
  po_created_at :: jsstring
  po_lines :: "purchase_line list"
  po_total :: jsstring

record order_filters =
  orf_supplierId :: "int option"
  orf_status :: "jsstring option"

definition purchaseOrdersQuery :: "order_filters \<Rightarrow> query_options" where
  "purchaseOrdersQuery f =
     \<lparr>q_key = [KStr (js ''purchasing''), KStr (js ''orders''),
        KObj (opt_field (js ''supplierId'') KNum (orf_supplierId f)
              @ opt_field (js ''status'') KStr (orf_status f))],
      q_call = get_call (js ''/purchase-orders?'' @ params_string
        (param_if (js ''status'') (unless_empty (orf_status f))
          (param_if (js ''supplier_id'') (map_option int_string (orf_supplierId f)) []))),
      q_enabled = True\<rparr>"

record order_line_input =
  oli_product_id :: jsnum
  oli_package_id :: jsnum
  oli_quantity_packages :: jsstring
  oli_unit_cost :: jsstring
  oli_tax_rate :: jsstring
  oli_discount_rate :: jsstring

definition order_line_json :: "order_line_input \<Rightarrow> json" where
  "order_line_json l = JObj [(js ''product_id'', json_number (oli_product_id l)),
     (js ''package_id'', json_number (oli_package_id l)),
     (js ''quantity_packages'', JStr (oli_quantity_packages l)), (js ''unit_cost'', JStr (oli_unit_cost l)),
     (js ''tax_rate'', JStr (oli_tax_rate l)), (js ''discount_rate'', JStr (oli_discount_rate l))]"

record order_create =
  orc_supplier_id :: jsnum
  orc_notes :: jsstring
  orc_lines :: "order_line_input list"

definition createOrder :: "order_create \<Rightarrow> api_call" where
  "createOrder p = send_call POST (js ''/purchase-orders'') []
     (Some (JObj [(js ''supplier_id'', json_number (orc_supplier_id p)), (js ''notes'', JStr (orc_notes p)),
        (js ''lines'', JArr (map order_line_json (orc_lines p)))]))"

definition order_path :: "int \<Rightarrow> jsstring \<Rightarrow> jsstring" where
  "order_path orderId rest = js ''/purchase-orders/'' @ int_string orderId @ rest"

definition addOrderLine :: "int \<Rightarrow> order_line_input \<Rightarrow> api_call" where
  "addOrderLine orderId l = send_call POST (order_path orderId (js ''/lines'')) [] (Some (order_line_json l))"

definition updateOrderLine :: "int \<Rightarrow> int \<Rightarrow> order_line_input \<Rightarrow> api_call" where
  "updateOrderLine orderId lineId l =
     send_call PUT (order_path orderId (js ''/lines/'' @ int_string lineId)) [] (Some (order_line_json l))"

definition removeOrderLine :: "int \<Rightarrow> int \<Rightarrow> api_call" where
  "removeOrderLine orderId lineId =
     send_call DELETE (order_path orderId (js ''/lines/'' @ int_string lineId)) [] None"

definition placeOrder :: "int \<Rightarrow> jsstring \<Rightarrow> api_call" where
  "placeOrder orderId idempotencyKey =
     send_call POST (order_path orderId (js ''/place'')) [(js ''Idempotency-Key'', idempotencyKey)] None"

definition cancelOrder :: "int \<Rightarrow> api_call" where
  "cancelOrder orderId = send_call POST (order_path orderId (js ''/cancel'')) [] None"

record purchase_history_entry =
  phe_purchase_order_id :: int
  phe_date :: jsstring
  phe_status :: jsstring
  phe_supplier_id :: int
  phe_supplier_name :: jsstring
  phe_package_name :: jsstring
  phe_quantity_packages :: jsstring
  phe_unit_cost :: jsstring

definition productPurchaseHistoryQuery :: "int \<Rightarrow> query_options" where
  "productPurchaseHistoryQuery productId =
     \<lparr>q_key = [KStr (js ''purchasing''), KStr (js ''product-history''), KNum productId],
      q_call = get_call (products_path productId (js ''/purchase-history'')), q_enabled = True\<rparr>"

section \<open>Receptions\<close>

record reception_line =
  rcl_id :: int
  rcl_purchase_order_line_id :: int
  rcl_product_id :: int
  rcl_product_sku :: jsstring
  rcl_product_name :: jsstring
  rcl_quantity_packages :: jsstring
  rcl_lot_id :: "int option"
  rcl_lot_number :: "jsstring option"
  rcl_stock_movement_id :: "int option"

record cost_proposal =
  cpr_receipt_line_id :: int
  cpr_product_id :: int
  cpr_product_sku :: jsstring
  cpr_product_name :: jsstring
  cpr_current_catalog_cost :: jsstring
  cpr_received_unit_cost :: jsstring
  cpr_difference :: jsstring

record goods_receipt =
  grc_id :: int
  grc_purchase_order_id :: int
  grc_warehouse_id :: int
  grc_location_id :: int
  grc_notes :: jsstring
  grc_received_at :: jsstring
  grc_lines :: "reception_line list"
  grc_cost_proposals :: "cost_proposal list"

definition goodsReceiptsQuery :: "int \<Rightarrow> query_options" where
  "goodsReceiptsQuery orderId =
     \<lparr>q_key = [KStr (js ''purchasing''), KStr (js ''receipts''), KNum orderId],
      q_call = get_call (order_path orderId (js ''/receipts'')), q_enabled = True\<rparr>"

record receipt_line_input =
  gri_purchase_order_line_id :: int
  gri_quantity_packages :: jsstring
  gri_lot_number :: "jsstring option"
  gri_manufacturing_date :: "jsstring option"
  gri_expiration_date :: "jsstring option"

record receipt_input =
  grp_warehouse_id :: jsnum
  grp_location_id :: jsnum
  grp_notes :: jsstring
  grp_lines :: "receipt_line_input list"

definition receipt_line_json :: "receipt_line_input \<Rightarrow> json" where
  "receipt_line_json l = JObj [(js ''purchase_order_line_id'', JInt (gri_purchase_order_line_id l)),
     (js ''quantity_packages'', JStr (gri_quantity_packages l)),
     (js ''lot_number'', null_or JStr (gri_lot_number l)),
     (js ''manufacturing_date'', null_or JStr (gri_manufacturing_date l)),
     (js ''expiration_date'', null_or JStr (gri_expiration_date l))]"

definition receipt_json :: "receipt_input \<Rightarrow> json" where
  "receipt_json p = JObj [(js ''warehouse_id'', json_number (grp_warehouse_id p)),
     (js ''location_id'', json_number (grp_location_id p)), (js ''notes'', JStr (grp_notes p)),
     (js ''lines'', JArr (map receipt_line_json (grp_lines p)))]"

definition createGoodsReceipt :: "int \<Rightarrow> receipt_input \<Rightarrow> jsstring \<Rightarrow> api_call" where
  "createGoodsReceipt orderId p idempotencyKey =
     send_call POST (order_path orderId (js ''/receipts'')) [(js ''Idempotency-Key'', idempotencyKey)]
       (Some (receipt_json p))"

definition applyReceivedCosts :: "int \<Rightarrow> (int \<times> jsstring) list \<Rightarrow> api_call" where
  "applyReceivedCosts receiptId lines =
     send_call POST (js ''/goods-receipts/'' @ int_string receiptId @ js ''/apply-costs'') []
       (Some (JObj [(js ''lines'', JArr (map (\<lambda>(i, cost). JObj [(js ''receipt_line_id'', JInt i),
          (js ''expected_current_cost'', JStr cost)]) lines))]))"

section \<open>Decimals as typed\<close>

text \<open>The number of a text that is a decimal with at most six digits after the point, or nothing.\<close>

definition typed_decimal :: "(jsnum \<Rightarrow> bool) \<Rightarrow> jsstring \<Rightarrow> jsstring option" where
  "typed_decimal fine v =
     (let normalized = decimal_transform v; numeric = js_Number normalized in
      if is_decimal6 normalized \<and> js_is_finite numeric \<and> fine numeric then Some normalized else None)"

definition normalizedPositiveQuantity :: "jsstring \<Rightarrow> jsstring option" where
  "normalizedPositiveQuantity = typed_decimal (\<lambda>x. JsNum 0 < x)"

definition normalizedDecimal :: "bool \<Rightarrow> jsstring \<Rightarrow> jsstring option" where
  "normalizedDecimal positive =
     typed_decimal (\<lambda>x. \<not> (if positive then x \<le> JsNum 0 else x < JsNum 0))"

section \<open>The rows of an order\<close>

text \<open>
  A row of a draft order is edited in place and saved when a cell is left: what is sent, if anything,
  and the error shown.
\<close>

record row_values =
  rv_quantity_packages :: jsstring
  rv_unit_cost :: jsstring
  rv_tax_rate :: jsstring
  rv_discount_rate :: jsstring

definition valuesFromLine :: "purchase_line \<Rightarrow> row_values" where
  "valuesFromLine l = \<lparr>rv_quantity_packages = decimalInputValue (pol_quantity_packages l),
     rv_unit_cost = decimalInputValue (pol_unit_cost l), rv_tax_rate = decimalInputValue (pol_tax_rate l),
     rv_discount_rate = decimalInputValue (pol_discount_rate l)\<rparr>"

definition over_hundred :: "jsstring \<Rightarrow> bool" where
  "over_hundred rate \<longleftrightarrow> JsNum 100 < js_Number rate"

text \<open>The four cells as they would be sent; nothing when one of them is not a number.\<close>

definition checked_values :: "row_values \<Rightarrow> row_values option" where
  "checked_values v =
     (case (normalizedDecimal True (rv_quantity_packages v), normalizedDecimal False (rv_unit_cost v),
            normalizedDecimal False (rv_tax_rate v), normalizedDecimal False (rv_discount_rate v)) of
        (Some q, Some c, Some t, Some d) \<Rightarrow>
          Some \<lparr>rv_quantity_packages = q, rv_unit_cost = c, rv_tax_rate = t, rv_discount_rate = d\<rparr>
      | _ \<Rightarrow> None)"

definition dotted :: "row_values \<Rightarrow> row_values" where
  "dotted v = (let dot = js_replace cu_comma [cu_dot] in
     \<lparr>rv_quantity_packages = dot (rv_quantity_packages v), rv_unit_cost = dot (rv_unit_cost v),
      rv_tax_rate = dot (rv_tax_rate v), rv_discount_rate = dot (rv_discount_rate v)\<rparr>)"

definition line_input :: "jsnum \<Rightarrow> jsnum \<Rightarrow> row_values \<Rightarrow> order_line_input" where
  "line_input productId packageId v = \<lparr>oli_product_id = productId, oli_package_id = packageId,
     oli_quantity_packages = rv_quantity_packages v, oli_unit_cost = rv_unit_cost v,
     oli_tax_rate = rv_tax_rate v, oli_discount_rate = rv_discount_rate v\<rparr>"

definition row_save :: "purchase_line \<Rightarrow> row_values \<Rightarrow> jsstring option \<times> order_line_input option" where
  "row_save line v =
     (case checked_values v of
        None \<Rightarrow> (Some (js ''Revisa cantidad, coste, IVA y descuento.''), None)
      | Some c \<Rightarrow>
          if over_hundred (rv_discount_rate c)
          then (Some (js ''El descuento no puede superar el 100 %.''), None)
          else if c = dotted (valuesFromLine line) then (None, None)
          else (None, Some (line_input (JsNum (of_int (pol_product_id line)))
                                       (JsNum (of_int (pol_package_id line))) c)))"

section \<open>The line form\<close>

text \<open>
  The form that adds a line: the product picked among those the server finds, the fields, and the
  sale price the server foresees for the cost typed, asked for when nothing has been typed for a
  while.
\<close>

record line_form =
  lf_query :: jsstring
  lf_matches :: "catalog_product list"
  lf_selected :: "catalog_product option"
  lf_product_id :: jsstring
  lf_package_id :: jsstring
  lf_values :: row_values
  lf_preview :: "jsstring option"
  lf_asked :: "(int \<times> jsstring) list"
  lf_errors :: "jsstring list"

definition empty_values :: row_values where
  "empty_values = \<lparr>rv_quantity_packages = js ''1'', rv_unit_cost = js ''0'', rv_tax_rate = js ''0'',
     rv_discount_rate = js ''0''\<rparr>"

definition line_form_init :: line_form where
  "line_form_init = \<lparr>lf_query = [], lf_matches = [], lf_selected = None, lf_product_id = [],
     lf_package_id = [], lf_values = empty_values, lf_preview = None, lf_asked = [], lf_errors = []\<rparr>"

text \<open>The search runs from two characters on; its results are listed while nothing is selected.\<close>

definition line_search :: "line_form \<Rightarrow> catalog_filters option" where
  "line_search s =
     (let search = js_trim (lf_query s) in
      if 2 \<le> length search
      then Some \<lparr>cf_categoryId = None, cf_posCategoryId = None, cf_activeOnly = Some True,
                 cf_search = Some search, cf_limit = Some 8\<rparr>
      else None)"

definition visibleMatches :: "line_form \<Rightarrow> catalog_product list" where
  "visibleMatches s = (if lf_selected s = None \<and> js_trim (lf_query s) \<noteq> [] then lf_matches s else [])"

definition base_package_id :: "catalog_product \<Rightarrow> jsstring" where
  "base_package_id p =
     (case find cpk_is_base (cp_packages p) of
        Some pkg \<Rightarrow> int_string (cpk_id pkg)
      | None \<Rightarrow> (case cp_packages p of pkg # _ \<Rightarrow> int_string (cpk_id pkg) | [] \<Rightarrow> []))"

text \<open>The effect of a selection: the unit, the tax and the cost of the product go into the fields.\<close>

definition select_effect :: "catalog_product \<Rightarrow> line_form \<Rightarrow> line_form" where
  "select_effect p s = s\<lparr>lf_package_id := base_package_id p,
     lf_values := (lf_values s)\<lparr>rv_tax_rate := decimalInputValue (cp_effective_tax_rate p),
                                rv_unit_cost := decimalInputValue (cp_cost p)\<rparr>\<rparr>"

text \<open>The question the timer asks: the product selected and the cost typed, when it is a number.\<close>

definition preview_question :: "line_form \<Rightarrow> (int \<times> jsstring) option" where
  "preview_question s =
     (case (lf_selected s, normalizedDecimal False (rv_unit_cost (lf_values s))) of
        (Some p, Some cost) \<Rightarrow> Some (cp_id p, cost)
      | _ \<Rightarrow> None)"

definition lineSchema :: "line_form \<Rightarrow> jsstring list + row_values" where
  "lineSchema s =
     (let v = lf_values s; zero = Some (JsNum 0);
          q = decimalString (Some min_quantity) (rv_quantity_packages v);
          c = decimalString zero (rv_unit_cost v); t = decimalString zero (rv_tax_rate v);
          d = decimalString zero (rv_discount_rate v);
          issues = field_if (lf_product_id s = []) ''product_id'' @ field_if (lf_package_id s = []) ''package_id''
            @ field_if (isl q) ''quantity_packages'' @ field_if (isl c) ''unit_cost''
            @ field_if (isl t) ''tax_rate'' @ field_if (isl d) ''discount_rate''
      in case (q, c, t, d) of
           (Inr qv, Inr cv, Inr tv, Inr dv) \<Rightarrow>
             if issues = [] then Inr \<lparr>rv_quantity_packages = qv, rv_unit_cost = cv, rv_tax_rate = tv,
                                      rv_discount_rate = dv\<rparr>
             else Inl issues
         | _ \<Rightarrow> Inl issues)"

record line_preview =
  lp_product_name :: jsstring
  lp_unit_name :: jsstring
  lp_rounded_price :: "jsstring option"

definition line_submit :: "line_form \<Rightarrow> jsstring list + order_line_input \<times> line_preview" where
  "line_submit s =
     (case lineSchema s of
        Inl issues \<Rightarrow> Inl issues
      | Inr v \<Rightarrow> Inr (line_input (js_Number (lf_product_id s)) (js_Number (lf_package_id s)) v,
          \<lparr>lp_product_name = (case lf_selected s of Some p \<Rightarrow> cp_name p | None \<Rightarrow> js ''?''),
           lp_unit_name = (case lf_selected s of Some p \<Rightarrow> cp_base_unit_name p | None \<Rightarrow> js ''?''),
           lp_rounded_price = lf_preview s\<rparr>))"

text \<open>After a submission the fields are as at the start; the last answer about the price stays.\<close>

definition line_reset :: "line_form \<Rightarrow> line_form" where
  "line_reset s = s\<lparr>lf_query := [], lf_selected := None, lf_product_id := [], lf_package_id := [],
     lf_values := empty_values, lf_errors := []\<rparr>"

datatype line_event =
    LineQuery jsstring
  | LineMatches "catalog_product list"
  | LinePick catalog_product
  | LineValues row_values
  | PreviewTimer
  | PreviewAnswer "jsstring option"

fun line_step :: "line_form \<Rightarrow> line_event \<Rightarrow> line_form" where
  "line_step s (LineQuery v) = s\<lparr>lf_query := v, lf_product_id := [], lf_selected := None\<rparr>"
| "line_step s (LineMatches ps) = s\<lparr>lf_matches := ps\<rparr>"
| "line_step s (LinePick p) =
     (let s1 = s\<lparr>lf_product_id := int_string (cp_id p), lf_query := cp_name p, lf_selected := Some p\<rparr> in
      if lf_selected s = Some p then s1 else select_effect p s1)"
| "line_step s (LineValues v) = s\<lparr>lf_values := v\<rparr>"
| "line_step s PreviewTimer =
     (case preview_question s of
        None \<Rightarrow> s
      | Some question \<Rightarrow> s\<lparr>lf_preview := None, lf_asked := lf_asked s @ [question]\<rparr>)"
| "line_step s (PreviewAnswer price) = s\<lparr>lf_preview := price\<rparr>"

fun line_enabled :: "line_form \<Rightarrow> line_event \<Rightarrow> bool" where
  "line_enabled s (LinePick p) = (p \<in> set (visibleMatches s))"
| "line_enabled s (LineMatches ps) = (line_search s \<noteq> None \<and> length ps \<le> 8 \<and> (\<forall>p \<in> set ps. server_id (cp_id p)))"
| "line_enabled s PreviewTimer = (preview_question s \<noteq> None)"
| "line_enabled s (PreviewAnswer price) = (lf_asked s \<noteq> [])"
| "line_enabled s e = True"

section \<open>A new order\<close>

record staged_order_line =
  sol_product_id :: jsnum
  sol_package_id :: jsnum
  sol_values :: row_values
  sol_label :: jsstring
  sol_preview_price :: "jsstring option"

record order_form =
  of_supplier :: jsstring
  of_notes :: jsstring
  of_staged :: "staged_order_line list"
  of_staged_error :: "jsstring option"
  of_line :: line_form
  of_errors :: "jsstring list"
  of_pending :: bool
  of_submitted :: "order_create list"

definition order_form_init :: order_form where
  "order_form_init = \<lparr>of_supplier = [], of_notes = [], of_staged = [], of_staged_error = None,
     of_line = line_form_init, of_errors = [], of_pending = False, of_submitted = []\<rparr>"

definition stage_line :: "order_line_input \<times> line_preview \<Rightarrow> staged_order_line" where
  "stage_line lp = (case lp of (l, preview) \<Rightarrow>
     \<lparr>sol_product_id = oli_product_id l, sol_package_id = oli_package_id l,
      sol_values = \<lparr>rv_quantity_packages = oli_quantity_packages l, rv_unit_cost = oli_unit_cost l,
         rv_tax_rate = oli_tax_rate l, rv_discount_rate = oli_discount_rate l\<rparr>,
      sol_label = lp_product_name preview @ [cu_space, 8212, cu_space] @ lp_unit_name preview,
      sol_preview_price = lp_rounded_price preview\<rparr>)"

datatype row_field = QuantityField | CostField | TaxField | DiscountField

fun set_field :: "row_field \<Rightarrow> jsstring \<Rightarrow> row_values \<Rightarrow> row_values" where
  "set_field QuantityField x v = v\<lparr>rv_quantity_packages := x\<rparr>"
| "set_field CostField x v = v\<lparr>rv_unit_cost := x\<rparr>"
| "set_field TaxField x v = v\<lparr>rv_tax_rate := x\<rparr>"
| "set_field DiscountField x v = v\<lparr>rv_discount_rate := x\<rparr>"

text \<open>A cell typed in the table of staged lines: the comma becomes a point, a price for another cost goes.\<close>

definition updateStagedLine :: "nat \<Rightarrow> row_field \<Rightarrow> jsstring \<Rightarrow> order_form \<Rightarrow> order_form" where
  "updateStagedLine i field text s =
     s\<lparr>of_staged_error := None,
       of_staged := (if i < length (of_staged s)
         then (of_staged s)[i := (let l = of_staged s ! i in
           l\<lparr>sol_values := set_field field (js_replace cu_comma [cu_dot] text) (sol_values l),
             sol_preview_price := (if field = CostField then None else sol_preview_price l)\<rparr>)]
         else of_staged s)\<rparr>"

definition removeStaged :: "nat \<Rightarrow> order_form \<Rightarrow> order_form" where
  "removeStaged i s = s\<lparr>of_staged := take i (of_staged s) @ drop (Suc i) (of_staged s)\<rparr>"

text \<open>The lines in the order they will have; the first one at fault stops the submission.\<close>

fun order_lines :: "staged_order_line list \<Rightarrow> jsstring + order_line_input list" where
  "order_lines [] = Inr []"
| "order_lines (l # ls) =
     (case checked_values (sol_values l) of
        None \<Rightarrow> Inl (js ''Revisa cantidad, coste, IVA y descuento de '' @ sol_label l @ js ''.'')
      | Some v \<Rightarrow>
          if over_hundred (rv_discount_rate v)
          then Inl (js ''El descuento de '' @ sol_label l @ js '' no puede superar el 100 %.'')
          else (case order_lines ls of
                  Inl e \<Rightarrow> Inl e
                | Inr r \<Rightarrow> Inr (line_input (sol_product_id l) (sol_package_id l) v # r)))"

definition createOrderSchema :: "order_form \<Rightarrow> jsstring list" where
  "createOrderSchema s = field_if (of_supplier s = []) ''supplier_id'' @ field_if (2000 < length (of_notes s)) ''notes''"

definition order_submit :: "order_form \<Rightarrow> order_form" where
  "order_submit s =
     (if createOrderSchema s \<noteq> [] then s\<lparr>of_errors := createOrderSchema s\<rparr>
      else if of_staged s = [] then s\<lparr>of_errors := []\<rparr>
      else case order_lines (of_staged s) of
        Inl e \<Rightarrow> s\<lparr>of_errors := [], of_staged_error := Some e\<rparr>
      | Inr ls \<Rightarrow> s\<lparr>of_errors := [], of_staged_error := None,
          of_submitted := of_submitted s @
            [\<lparr>orc_supplier_id = js_Number (of_supplier s), orc_notes = of_notes s, orc_lines = ls\<rparr>]\<rparr>)"

datatype order_event =
    SupplierIs jsstring
  | OrderNotes jsstring
  | LineEvent line_event
  | PressAddLine
  | StagedCell nat row_field jsstring
  | StagedRemoved nat
  | PressCreate
  | OrderPending bool

fun order_step :: "order_form \<Rightarrow> order_event \<Rightarrow> order_form" where
  "order_step s (SupplierIs v) = s\<lparr>of_supplier := v\<rparr>"
| "order_step s (OrderNotes v) = s\<lparr>of_notes := v\<rparr>"
| "order_step s (LineEvent e) = s\<lparr>of_line := line_step (of_line s) e\<rparr>"
| "order_step s PressAddLine =
     (case line_submit (of_line s) of
        Inl issues \<Rightarrow> s\<lparr>of_line := (of_line s)\<lparr>lf_errors := issues\<rparr>\<rparr>
      | Inr lp \<Rightarrow> s\<lparr>of_staged_error := None, of_staged := of_staged s @ [stage_line lp],
                   of_line := line_reset (of_line s)\<rparr>)"
| "order_step s (StagedCell i field text) = updateStagedLine i field text s"
| "order_step s (StagedRemoved i) = removeStaged i s"
| "order_step s PressCreate = order_submit s"
| "order_step s (OrderPending b) = s\<lparr>of_pending := b\<rparr>"

fun order_enabled :: "supplier list \<Rightarrow> order_form \<Rightarrow> order_event \<Rightarrow> bool" where
  "order_enabled suppliers s (SupplierIs v) = (v = [] \<or> v \<in> set (map (\<lambda>x. int_string (sup_id x)) suppliers))"
| "order_enabled suppliers s (LineEvent e) = line_enabled (of_line s) e"
| "order_enabled suppliers s (StagedCell i field text) = (i < length (of_staged s))"
| "order_enabled suppliers s (StagedRemoved i) = (i < length (of_staged s))"
| "order_enabled suppliers s PressCreate = (\<not> of_pending s \<and> of_staged s \<noteq> [])"
| "order_enabled suppliers s e = True"

section \<open>The reception form\<close>

record reception_draft = receipt_line_input +
  rd_product_name :: jsstring
  rd_track_lots :: bool
  rd_package_name :: jsstring
  rd_remaining :: jsnum

record reception_form = place_lists +
  rcf_warehouse :: jsstring
  rcf_location :: jsstring
  rcf_notes :: jsstring
  rcf_error :: "jsstring option"
  rcf_lines :: "reception_draft list"

definition reception_remaining :: "purchase_line \<Rightarrow> jsnum" where
  "reception_remaining l =
     (js_Number (pol_quantity_ordered l) - js_Number (pol_quantity_received l)) div js_Number (pol_package_factor l)"

text \<open>Every line with something left, with all that is left; a \<open>NaN\<close> is not less than or equal to 0.\<close>

definition reception_drafts :: "purchase_order \<Rightarrow> reception_draft list" where
  "reception_drafts order =
     map (\<lambda>l. \<lparr>gri_purchase_order_line_id = pol_id l,
         gri_quantity_packages = decimalInputValue (js_String (reception_remaining l)),
         gri_lot_number = None, gri_manufacturing_date = None, gri_expiration_date = None,
         rd_product_name = pol_product_name l, rd_track_lots = pol_track_lots l,
         rd_package_name = pol_package_name l, rd_remaining = reception_remaining l\<rparr>)
       (filter (\<lambda>l. \<not> reception_remaining l \<le> JsNum 0) (po_lines order))"

definition reception_init :: "purchase_order \<Rightarrow> reception_form" where
  "reception_init order = \<lparr>skf_warehouses = None, skf_locations = (\<lambda>w. None), rcf_warehouse = [],
     rcf_location = [], rcf_notes = [], rcf_error = None, rcf_lines = reception_drafts order\<rparr>"

text \<open>A line not received now: its quantity is blank or the number zero.\<close>

definition not_received :: "reception_draft \<Rightarrow> bool" where
  "not_received l \<longleftrightarrow> (let q = js_trim (gri_quantity_packages l) in
     q = [] \<or> js_Number (js_replace cu_comma [cu_dot] q) = JsNum 0)"

definition guillemets :: "jsstring \<Rightarrow> jsstring" where
  "guillemets s = [171] @ s @ [187]"

definition unless_blank :: "jsstring option \<Rightarrow> jsstring option" where
  "unless_blank v = (case v of None \<Rightarrow> None | Some s \<Rightarrow> if s = [] then None else Some s)"

definition reception_line_check :: "reception_draft \<Rightarrow> jsstring + receipt_line_input" where
  "reception_line_check l =
     (case normalizedPositiveQuantity (js_trim (gri_quantity_packages l)) of
        None \<Rightarrow> Inl (js ''La cantidad de '' @ guillemets (rd_product_name l) @ js '' no es v'' @ [225] @ js ''lida.'')
      | Some q \<Rightarrow>
          if rd_remaining l + min_quantity < js_Number q
          then Inl (js ''La cantidad de '' @ guillemets (rd_product_name l) @ js '' no puede superar las ''
                    @ formatQuantity (js_String (rd_remaining l)) @ js '' pendientes.'')
          else (let lot = unless_blank (map_option js_trim (gri_lot_number l)) in
            if rd_track_lots l \<and> lot = None
            then Inl (guillemets (rd_product_name l) @ js '' requiere un n'' @ [250] @ js ''mero de lote para registrarlo.'')
            else Inr \<lparr>gri_purchase_order_line_id = gri_purchase_order_line_id l,
              gri_quantity_packages = q, gri_lot_number = lot,
              gri_manufacturing_date = unless_blank (gri_manufacturing_date l),
              gri_expiration_date = unless_blank (gri_expiration_date l)\<rparr>))"

fun reception_lines :: "reception_draft list \<Rightarrow> jsstring + receipt_line_input list" where
  "reception_lines [] = Inr []"
| "reception_lines (l # ls) =
     (if not_received l then reception_lines ls
      else case reception_line_check l of
        Inl e \<Rightarrow> Inl e
      | Inr i \<Rightarrow> (case reception_lines ls of Inl e \<Rightarrow> Inl e | Inr is \<Rightarrow> Inr (i # is)))"

text \<open>Nothing happens without a place; otherwise an error or what goes to the parent.\<close>

definition reception_submit :: "reception_form \<Rightarrow> (jsstring + receipt_input) option" where
  "reception_submit s =
     (if rcf_warehouse s = [] \<or> rcf_location s = [] then None
      else Some (case reception_lines (rcf_lines s) of
        Inl e \<Rightarrow> Inl e
      | Inr [] \<Rightarrow> Inl (js ''Indica al menos una cantidad recibida.'')
      | Inr ls \<Rightarrow> Inr \<lparr>grp_warehouse_id = js_Number (rcf_warehouse s),
          grp_location_id = js_Number (rcf_location s), grp_notes = rcf_notes s, grp_lines = ls\<rparr>))"

definition reception_effects :: "reception_form \<Rightarrow> reception_form" where
  "reception_effects s = s\<lparr>rcf_warehouse := useDefaultToFirstOption (rcf_warehouse s) (skf_warehouses s),
     rcf_location := useDefaultToFirstOption (rcf_location s) (form_locations s (rcf_warehouse s))\<rparr>"

definition updateLine :: "int \<Rightarrow> (reception_draft \<Rightarrow> reception_draft) \<Rightarrow> reception_form \<Rightarrow> reception_form" where
  "updateLine lineId patch s = s\<lparr>rcf_error := None,
     rcf_lines := map (\<lambda>l. if gri_purchase_order_line_id l = lineId then patch l else l) (rcf_lines s)\<rparr>"

datatype reception_event =
    ReceiptWarehouses "int list"
  | ReceiptLocations int "int list"
  | ReceiptWarehouse jsstring
  | ReceiptLocation jsstring
  | ReceiptNotes jsstring
  | ReceiptQuantity int jsstring
  | ReceiptLot int jsstring
  | ReceiptExpiration int jsstring
  | ReceiptSubmit

fun reception_handle :: "reception_form \<Rightarrow> reception_event \<Rightarrow> reception_form" where
  "reception_handle s (ReceiptWarehouses ws) = s\<lparr>skf_warehouses := Some ws\<rparr>"
| "reception_handle s (ReceiptLocations w ls) = s\<lparr>skf_locations := (skf_locations s)(w \<mapsto> ls)\<rparr>"
| "reception_handle s (ReceiptWarehouse v) = s\<lparr>rcf_warehouse := v, rcf_location := []\<rparr>"
| "reception_handle s (ReceiptLocation v) = s\<lparr>rcf_location := v\<rparr>"
| "reception_handle s (ReceiptNotes v) = s\<lparr>rcf_notes := v\<rparr>"
| "reception_handle s (ReceiptQuantity i v) = updateLine i (\<lambda>l. l\<lparr>gri_quantity_packages := v\<rparr>) s"
| "reception_handle s (ReceiptLot i v) = updateLine i (\<lambda>l. l\<lparr>gri_lot_number := Some v\<rparr>) s"
| "reception_handle s (ReceiptExpiration i v) =
     updateLine i (\<lambda>l. l\<lparr>gri_expiration_date := (if v = [] then None else Some v)\<rparr>) s"
| "reception_handle s ReceiptSubmit =
     (case reception_submit s of Some (Inl e) \<Rightarrow> s\<lparr>rcf_error := Some e\<rparr> | _ \<Rightarrow> s)"

definition reception_step :: "reception_form \<Rightarrow> reception_event \<Rightarrow> reception_form" where
  "reception_step s e = reception_effects (reception_effects (reception_handle s e))"

fun reception_enabled :: "bool \<Rightarrow> reception_form \<Rightarrow> reception_event \<Rightarrow> bool" where
  "reception_enabled isPending s (ReceiptWarehouses ws) = (\<forall>w \<in> set ws. server_id w)"
| "reception_enabled isPending s (ReceiptLocations w ls) = (\<forall>l \<in> set ls. server_id l)"
| "reception_enabled isPending s (ReceiptWarehouse v) = warehouse_offered s v"
| "reception_enabled isPending s (ReceiptLocation v) =
     (rcf_warehouse s \<noteq> [] \<and> location_offered s (rcf_warehouse s) v)"
| "reception_enabled isPending s (ReceiptLot i v) =
     (\<exists>l \<in> set (rcf_lines s). gri_purchase_order_line_id l = i \<and> rd_track_lots l)"
| "reception_enabled isPending s ReceiptSubmit =
     (\<not> isPending \<and> rcf_warehouse s \<noteq> [] \<and> rcf_location s \<noteq> [] \<and> rcf_lines s \<noteq> [])"
| "reception_enabled isPending s e = True"

section \<open>What a row and an order send\<close>

lemma js_String_no_ws: "c \<in> set (js_String x) \<Longrightarrow> \<not> js_ws c"
  using positive_string_chars [of c]
  by (cases x) (auto simp: js_ws_def js_digit_def js_def split: if_splits)

lemma set_js_replace: "c \<in> set (js_replace a r s) \<Longrightarrow> c \<in> set r \<or> c \<in> set s"
  by (induction s) (auto split: if_splits)

lemma decimal_transform_input [simp]:
  "decimal_transform (decimalInputValue v) = js_replace cu_comma [cu_dot] (decimalInputValue v)"
proof -
  have "\<not> js_ws c" if "c \<in> set (decimalInputValue v)" for c
    using that set_js_replace js_String_no_ws
    by (fastforce simp: decimalInputValue_def js_ws_def)
  then show ?thesis by (simp add: decimal_transform_def js_trim_no_ws)
qed

lemma typed_decimalD:
  "typed_decimal fine v = Some q \<Longrightarrow> q = decimal_transform v \<and> is_decimal6 q \<and> fine (js_Number q)"
  by (auto simp: typed_decimal_def Let_def split: if_splits)

lemma checked_valuesD:
  assumes "checked_values v = Some c"
  shows "rv_quantity_packages c = decimal_transform (rv_quantity_packages v)"
    "rv_unit_cost c = decimal_transform (rv_unit_cost v)"
    "rv_tax_rate c = decimal_transform (rv_tax_rate v)"
    "rv_discount_rate c = decimal_transform (rv_discount_rate v)"
    "is_decimal6 (rv_quantity_packages c)" "\<not> js_Number (rv_quantity_packages c) \<le> JsNum 0"
    "is_decimal6 (rv_unit_cost c)" "is_decimal6 (rv_tax_rate c)" "is_decimal6 (rv_discount_rate c)"
  using assms
  by (auto simp: checked_values_def normalizedDecimal_def split: option.splits dest!: typed_decimalD)

text \<open>Leaving a cell of an order as it was saves nothing: a row that holds what the line has, as it
  is shown, sends no update whatever the line, however often it is left; and what a row does send
  is for the line's own product and package, with decimals, a quantity above zero and a discount of
  at most a hundred.\<close>

lemma untouched_row_not_saved:
  "snd (row_save line (valuesFromLine line)) = None
   \<and> (case snd (row_save line v) of None \<Rightarrow> True
      | Some l \<Rightarrow> oli_product_id l = JsNum (of_int (pol_product_id line))
          \<and> oli_package_id l = JsNum (of_int (pol_package_id line))
          \<and> is_decimal6 (oli_quantity_packages l) \<and> \<not> js_Number (oli_quantity_packages l) \<le> JsNum 0
          \<and> is_decimal6 (oli_unit_cost l) \<and> is_decimal6 (oli_tax_rate l)
          \<and> is_decimal6 (oli_discount_rate l) \<and> \<not> JsNum 100 < js_Number (oli_discount_rate l))"
proof
  show "snd (row_save line (valuesFromLine line)) = None"
  proof (cases "checked_values (valuesFromLine line)")
    case (Some c)
    have "c = dotted (valuesFromLine line)"
      using checked_valuesD(1-4) [OF Some]
      by (cases c) (simp add: dotted_def valuesFromLine_def Let_def)
    then show ?thesis using Some by (simp add: row_save_def)
  qed (simp add: row_save_def)
  show "case snd (row_save line v) of None \<Rightarrow> True
      | Some l \<Rightarrow> oli_product_id l = JsNum (of_int (pol_product_id line))
          \<and> oli_package_id l = JsNum (of_int (pol_package_id line))
          \<and> is_decimal6 (oli_quantity_packages l) \<and> \<not> js_Number (oli_quantity_packages l) \<le> JsNum 0
          \<and> is_decimal6 (oli_unit_cost l) \<and> is_decimal6 (oli_tax_rate l)
          \<and> is_decimal6 (oli_discount_rate l) \<and> \<not> JsNum 100 < js_Number (oli_discount_rate l)"
  proof (cases "checked_values v")
    case (Some c)
    from checked_valuesD(5-9) [OF Some] show ?thesis
      using Some by (simp add: row_save_def line_input_def over_hundred_def)
  qed (simp add: row_save_def)
qed

text \<open>A line as an order sends it.\<close>

definition order_line_ok :: "order_line_input \<Rightarrow> bool" where
  "order_line_ok l \<longleftrightarrow> (\<exists>i. server_id i \<and> oli_product_id l = JsNum (of_int i))
     \<and> is_decimal6 (oli_quantity_packages l) \<and> \<not> js_Number (oli_quantity_packages l) \<le> JsNum 0
     \<and> is_decimal6 (oli_unit_cost l) \<and> is_decimal6 (oli_tax_rate l)
     \<and> is_decimal6 (oli_discount_rate l) \<and> \<not> JsNum 100 < js_Number (oli_discount_rate l)"

definition staged_ok :: "staged_order_line \<Rightarrow> bool" where
  "staged_ok l \<longleftrightarrow> (\<exists>i. server_id i \<and> sol_product_id l = JsNum (of_int i))"

lemma order_lines_ok:
  "order_lines ls = Inr r \<Longrightarrow> list_all staged_ok ls \<Longrightarrow>
     list_all order_line_ok r \<and> map oli_product_id r = map sol_product_id ls
     \<and> map oli_package_id r = map sol_package_id ls"
proof (induction ls arbitrary: r)
  case (Cons l ls)
  obtain c r' where c: "checked_values (sol_values l) = Some c" "\<not> over_hundred (rv_discount_rate c)"
      and r': "order_lines ls = Inr r'" "r = line_input (sol_product_id l) (sol_package_id l) c # r'"
    using Cons.prems(1) by (auto split: option.splits if_splits sum.splits)
  have "order_line_ok (line_input (sol_product_id l) (sol_package_id l) c)"
    using checked_valuesD(5-9) [OF c(1)] c(2) Cons.prems(2)
    by (simp add: order_line_ok_def staged_ok_def line_input_def over_hundred_def)
  then show ?case using Cons.IH [OF r'(1)] Cons.prems(2) by (simp add: r'(2) line_input_def)
qed simp

definition line_form_ok :: "line_form \<Rightarrow> bool" where
  "line_form_ok s \<longleftrightarrow> (\<forall>p \<in> set (lf_matches s). server_id (cp_id p)) \<and> id_field (lf_product_id s)"

definition order_form_ok :: "supplier list \<Rightarrow> order_form \<Rightarrow> bool" where
  "order_form_ok suppliers s \<longleftrightarrow> line_form_ok (of_line s) \<and> list_all staged_ok (of_staged s)
     \<and> (of_supplier s = [] \<or> (\<exists>x \<in> set suppliers. of_supplier s = int_string (sup_id x)))
     \<and> (\<forall>p \<in> set (of_submitted s). orc_lines p \<noteq> [] \<and> list_all order_line_ok (orc_lines p)
         \<and> (\<exists>x \<in> set suppliers. orc_supplier_id p = js_Number (int_string (sup_id x))))"

lemma line_step_ok: "line_form_ok s \<Longrightarrow> line_enabled s e \<Longrightarrow> line_form_ok (line_step s e)"
  by (cases e) (auto simp: line_form_ok_def id_field_def visibleMatches_def select_effect_def Let_def
      split: option.splits if_splits)

lemma line_submit_staged:
  assumes "line_submit s = Inr lp" and "line_form_ok s"
  shows "staged_ok (stage_line lp)"
proof -
  have "lf_product_id s \<noteq> []"
    using assms(1) by (auto simp: line_submit_def lineSchema_def Let_def field_if_def
        split: sum.splits if_splits prod.splits)
  moreover have "oli_product_id (fst lp) = js_Number (lf_product_id s)"
    using assms(1) by (auto simp: line_submit_def line_input_def split: sum.splits)
  ultimately show ?thesis
    using assms(2) by (cases lp) (auto simp: staged_ok_def stage_line_def line_form_ok_def id_field_def)
qed

lemma line_reset_ok: "line_form_ok s \<Longrightarrow> line_form_ok (line_reset s)"
  by (simp add: line_form_ok_def line_reset_def id_field_def)

lemma order_submit_ok:
  assumes "order_form_ok suppliers s"
  shows "order_form_ok suppliers (order_submit s)"
proof (cases "createOrderSchema s \<noteq> [] \<or> of_staged s = [] \<or> isl (order_lines (of_staged s))")
  case True
  then show ?thesis
    using assms by (auto simp: order_submit_def order_form_ok_def split: sum.splits)
next
  case False
  then obtain ls where ls: "order_lines (of_staged s) = Inr ls"
    by (cases "order_lines (of_staged s)") auto
  have staged: "list_all staged_ok (of_staged s)" using assms by (simp add: order_form_ok_def)
  have sup: "of_supplier s \<noteq> []" using False by (auto simp: createOrderSchema_def field_if_def split: if_splits)
  have "ls \<noteq> []" using order_lines_ok [OF ls staged] False by auto
  then show ?thesis
    using assms False ls sup order_lines_ok [OF ls staged]
    by (auto simp: order_submit_def order_form_ok_def)
qed

lemma order_step_ok:
  assumes "order_form_ok suppliers s" and "order_enabled suppliers s e"
  shows "order_form_ok suppliers (order_step s e)"
proof (cases e)
  case (StagedCell i field v)
  then show ?thesis
    using assms by (auto simp: order_form_ok_def updateStagedLine_def staged_ok_def list_all_length
        nth_list_update Let_def)
next
  case (StagedRemoved i)
  then show ?thesis
    using assms by (auto simp: order_form_ok_def removeStaged_def list_all_iff dest: in_set_takeD in_set_dropD)
next
  case PressAddLine
  then show ?thesis
    using assms line_submit_staged [of "of_line s"] line_reset_ok [of "of_line s"]
    by (auto simp: order_form_ok_def line_form_ok_def split: sum.splits)
next
  case PressCreate
  then show ?thesis using assms order_submit_ok by simp
next
  case (LineEvent le)
  then show ?thesis using assms line_step_ok by (auto simp: order_form_ok_def)
qed (use assms in \<open>auto simp: order_form_ok_def\<close>)

interpretation new_order: event_machine "order_enabled suppliers" order_step order_form_init
    "order_form_ok suppliers"
  for suppliers
proof
  show "order_form_ok suppliers order_form_init"
    by (simp add: order_form_ok_def order_form_init_def line_form_ok_def line_form_init_def id_field_def)
qed (rule order_step_ok)

text \<open>C29: An order is never sent half checked: whatever is done in the form of a new order, every order
  it sends is for one of the suppliers, has at least one line, and every line names a product of the
  server with a quantity above zero, a cost and a tax that are decimals and a discount of at most a
  hundred.\<close>

theorem order_sends_checked_lines:
  assumes "run_ok (order_enabled suppliers) order_step order_form_init es"
    and "p \<in> set (of_submitted (foldl order_step order_form_init es))"
  shows "(\<exists>x \<in> set suppliers. orc_supplier_id p = js_Number (int_string (sup_id x)))
    \<and> orc_lines p \<noteq> []
    \<and> (\<forall>l \<in> set (orc_lines p). (\<exists>i. server_id i \<and> oli_product_id l = JsNum (of_int i))
         \<and> is_decimal6 (oli_quantity_packages l) \<and> \<not> js_Number (oli_quantity_packages l) \<le> JsNum 0
         \<and> is_decimal6 (oli_unit_cost l) \<and> is_decimal6 (oli_tax_rate l)
         \<and> is_decimal6 (oli_discount_rate l) \<and> \<not> JsNum 100 < js_Number (oli_discount_rate l))"
  using new_order.inv_reached [OF reached_run [OF assms(1)]] assms(2)
  by (auto simp: order_form_ok_def list_all_iff order_line_ok_def)

section \<open>What a reception sends\<close>

text \<open>What the form knows of a line does not change: its identity, its name, what is left of it.\<close>

definition draft_known :: "reception_draft \<Rightarrow> int \<times> jsnum \<times> bool" where
  "draft_known d = (gri_purchase_order_line_id d, rd_remaining d, rd_track_lots d)"

definition reception_ok :: "purchase_order \<Rightarrow> reception_form \<Rightarrow> bool" where
  "reception_ok order s \<longleftrightarrow> places_ok s \<and> pair_ok s (rcf_warehouse s) (rcf_location s)
     \<and> map draft_known (rcf_lines s) = map draft_known (reception_drafts order)"

lemma reception_updates [simp]:
  "form_locations (s\<lparr>rcf_warehouse := w, rcf_location := l\<rparr>) = form_locations s"
  "pair_ok (s\<lparr>rcf_warehouse := w, rcf_location := l\<rparr>) = pair_ok s"
  "places_ok (s\<lparr>rcf_warehouse := w, rcf_location := l\<rparr>) = places_ok s"
  by (auto simp: form_locations_def pair_ok_def places_ok_def fun_eq_iff)

lemma updateLine_known:
  "(\<And>d. draft_known (patch d) = draft_known d)
     \<Longrightarrow> map draft_known (rcf_lines (updateLine i patch s)) = map draft_known (rcf_lines s)"
  by (auto simp: updateLine_def)

lemma reception_handle_ready:
  assumes "reception_ok order s" and "reception_enabled isPending s e"
  defines "t \<equiv> reception_handle s e"
  shows "places_ok t" and "id_field (rcf_location t)" and "skf_warehouses t = None \<Longrightarrow> rcf_warehouse t = []"
    and "map draft_known (rcf_lines t) = map draft_known (reception_drafts order)"
proof -
  have ok: "places_ok s" "id_field (rcf_location s)" "skf_warehouses s = None \<Longrightarrow> rcf_warehouse s = []"
    "map draft_known (rcf_lines s) = map draft_known (reception_drafts order)"
    using assms(1) by (auto simp: reception_ok_def pair_ok_def)
  have same: "skf_warehouses (updateLine i f s) = skf_warehouses s"
    "skf_locations (updateLine i f s) = skf_locations s" "rcf_location (updateLine i f s) = rcf_location s"
    "rcf_warehouse (updateLine i f s) = rcf_warehouse s" for i f
    by (simp_all add: updateLine_def)
  show "places_ok t"
    unfolding t_def using ok(1) assms(2)
    by (cases e) (auto simp: places_ok_def same split: option.splits sum.splits if_splits)
  show "id_field (rcf_location t)"
    unfolding t_def using ok(2) assms(2) form_locations_ids [OF ok(1)]
    by (cases e) (auto simp: same offered_def id_field_def split: option.splits sum.splits)
  show "map draft_known (rcf_lines t) = map draft_known (reception_drafts order)"
    unfolding t_def using ok(4) updateLine_known
    by (cases e) (auto simp: draft_known_def split: option.splits sum.splits)
  assume "skf_warehouses t = None"
  then show "rcf_warehouse t = []"
    unfolding t_def using ok(3) assms(2)
    by (cases e) (auto simp: same offered_def split: option.splits sum.splits)
qed

lemma reception_step_ok:
  assumes "reception_ok order s" and "reception_enabled isPending s e"
  shows "reception_ok order (reception_step s e)"
  using pair_ok_passes [OF reception_handle_ready(1-3) [OF assms]] reception_handle_ready(1,4) [OF assms]
  by (simp add: reception_ok_def reception_step_def reception_effects_def)

lemma reception_init_ok: "reception_ok order (reception_init order)"
  by (simp add: reception_ok_def reception_init_def places_ok_def pair_ok_def form_locations_def
      drop_down.waits id_field_def)

interpretation reception: event_machine "reception_enabled isPending" reception_step "reception_init order"
    "reception_ok order"
  for isPending order
  using reception_step_ok reception_init_ok by unfold_locales auto

lemma reception_lines_Inr:
  "reception_lines ls = Inr r \<Longrightarrow>
     map gri_purchase_order_line_id r = map gri_purchase_order_line_id (filter (\<lambda>d. \<not> not_received d) ls)
     \<and> (\<forall>i \<in> set r. \<exists>d \<in> set ls. reception_line_check d = Inr i)"
proof (induction ls arbitrary: r)
  case (Cons l ls)
  show ?case
  proof (cases "not_received l")
    case False
    then obtain i r' where "reception_line_check l = Inr i" "reception_lines ls = Inr r'" "r = i # r'"
      using Cons.prems by (auto split: sum.splits)
    moreover have "gri_purchase_order_line_id i = gri_purchase_order_line_id l"
      using \<open>reception_line_check l = Inr i\<close>
      by (auto simp: reception_line_check_def Let_def split: option.splits if_splits)
    ultimately show ?thesis using Cons.IH [of r'] False by auto
  qed (use Cons in auto)
qed simp

lemma reception_line_checkD:
  assumes "reception_line_check d = Inr i"
  shows "gri_purchase_order_line_id i = gri_purchase_order_line_id d" "is_decimal6 (gri_quantity_packages i)"
    "JsNum 0 < js_Number (gri_quantity_packages i)"
    "\<not> rd_remaining d + min_quantity < js_Number (gri_quantity_packages i)"
    "rd_track_lots d \<Longrightarrow> \<exists>lot. gri_lot_number i = Some lot \<and> lot \<noteq> []"
  using assms typed_decimalD [of "\<lambda>x. JsNum 0 < x" "js_trim (gri_quantity_packages d)"]
  by (auto simp: reception_line_check_def normalizedPositiveQuantity_def unless_blank_def Let_def
      split: option.splits if_splits)

text \<open>C30: A reception records the goods that were pending, within a millionth: whatever is done in the form of an order,
  what its button sends is for a warehouse of the list and, once its locations have come, one of
  them; it has exactly the lines whose quantity is not blank and not zero, in their order, at least one;
  each is a line of the order with something left, its quantity a decimal above zero and not above
  what is left by more than a millionth, with a lot number wherever the product has lots.\<close>

theorem reception_within_order:
  assumes "run_ok (reception_enabled False) reception_step (reception_init order) es"
    and "s = foldl reception_step (reception_init order) es"
    and "reception_submit s = Some (Inr p)"
  shows "(\<exists>i j ws. skf_warehouses s = Some ws \<and> i \<in> set ws \<and> grp_warehouse_id p = JsNum (of_int i)
        \<and> grp_location_id p = JsNum (of_int j) \<and> (\<forall>ls. skf_locations s i = Some ls \<longrightarrow> j \<in> set ls))
    \<and> grp_lines p \<noteq> []
    \<and> map gri_purchase_order_line_id (grp_lines p)
        = map gri_purchase_order_line_id (filter (\<lambda>d. \<not> not_received d) (rcf_lines s))
    \<and> (\<forall>i \<in> set (grp_lines p). \<exists>l \<in> set (po_lines order). pol_id l = gri_purchase_order_line_id i
         \<and> \<not> reception_remaining l \<le> JsNum 0
         \<and> is_decimal6 (gri_quantity_packages i) \<and> JsNum 0 < js_Number (gri_quantity_packages i)
         \<and> \<not> reception_remaining l + min_quantity < js_Number (gri_quantity_packages i)
         \<and> (pol_track_lots l \<longrightarrow> (\<exists>lot. gri_lot_number i = Some lot \<and> lot \<noteq> [])))"
proof -
  have ok: "places_ok s" "pair_ok s (rcf_warehouse s) (rcf_location s)"
      "map draft_known (rcf_lines s) = map draft_known (reception_drafts order)"
    using reception.inv_reached [OF reached_run [OF assms(1)]] assms(2) by (auto simp: reception_ok_def)
  have filled: "rcf_warehouse s \<noteq> []" "rcf_location s \<noteq> []"
    and ls: "reception_lines (rcf_lines s) = Inr (grp_lines p)" "grp_lines p \<noteq> []"
    and sent: "grp_warehouse_id p = js_Number (rcf_warehouse s)" "grp_location_id p = js_Number (rcf_location s)"
    using assms(3) by (auto simp: reception_submit_def split: if_splits sum.splits list.splits)
  have "\<exists>i j ws. skf_warehouses s = Some ws \<and> i \<in> set ws \<and> grp_warehouse_id p = JsNum (of_int i)
        \<and> grp_location_id p = JsNum (of_int j) \<and> (\<forall>ls. skf_locations s i = Some ls \<longrightarrow> j \<in> set ls)"
    using pair_ok_sends [OF ok(2,1) filled] sent by metis
  moreover have "\<exists>l \<in> set (po_lines order). pol_id l = gri_purchase_order_line_id i
         \<and> \<not> reception_remaining l \<le> JsNum 0
         \<and> is_decimal6 (gri_quantity_packages i) \<and> JsNum 0 < js_Number (gri_quantity_packages i)
         \<and> \<not> reception_remaining l + min_quantity < js_Number (gri_quantity_packages i)
         \<and> (pol_track_lots l \<longrightarrow> (\<exists>lot. gri_lot_number i = Some lot \<and> lot \<noteq> []))"
    if "i \<in> set (grp_lines p)" for i
  proof -
    obtain d where d: "d \<in> set (rcf_lines s)" "reception_line_check d = Inr i"
      using reception_lines_Inr [OF ls(1)] \<open>i \<in> set (grp_lines p)\<close> by blast
    then have "draft_known d \<in> set (map draft_known (rcf_lines s))" by simp
    then have "draft_known d \<in> draft_known ` set (reception_drafts order)" unfolding ok(3) by simp
    then obtain l where l: "l \<in> set (po_lines order)" "\<not> reception_remaining l \<le> JsNum 0"
        "draft_known d = (pol_id l, reception_remaining l, pol_track_lots l)"
      by (auto simp: reception_drafts_def draft_known_def)
    with reception_line_checkD [OF d(2)] show ?thesis
      by (intro bexI [of _ l]) (auto simp: draft_known_def)
  qed
  ultimately show ?thesis using reception_lines_Inr [OF ls(1)] ls(2) by blast
qed

section \<open>Samples\<close>

definition water_line :: "string \<Rightarrow> string \<Rightarrow> purchase_line" where
  "water_line ordered factor = \<lparr>pol_id = 4, pol_product_id = 7, pol_product_sku = [],
     pol_product_name = js ''Agua'', pol_track_lots = True, pol_package_id = 8, pol_package_name = js ''caja'',
     pol_package_factor = js factor, pol_quantity_packages = js ''3'', pol_quantity_ordered = js ordered,
     pol_quantity_received = js ''0'', pol_unit_cost = js ''2'', pol_tax_rate = js ''0'',
     pol_discount_rate = js ''0'', pol_subtotal = js ''6'', pol_discount_amount = js ''0'',
     pol_tax_amount = js ''0'', pol_total = js ''6''\<rparr>"

definition sample_order :: "purchase_line list \<Rightarrow> purchase_order" where
  "sample_order ls = \<lparr>po_id = 9, po_supplier_id = 2, po_supplier_name = js ''S'', po_status = Ordered,
     po_notes = [], po_ordered_at = None, po_created_at = [], po_lines = ls, po_total = js ''6''\<rparr>"

definition receive_water :: "reception_event list" where
  "receive_water = [ReceiptWarehouses [3, 4], ReceiptLocations 3 [5, 6], ReceiptQuantity 4 (js ''2,5''),
     ReceiptLot 4 (js ''L1'')]"

definition received_water :: reception_form where
  "received_water = foldl reception_step (reception_init (sample_order [water_line ''3'' ''1''])) receive_water"

lemma reception_texts:
  "(js_Number [51] - js_Number [48]) div js_Number [49] = JsNum 3 \<and> decimalInputValue [51] = [51]
   \<and> js_Number [50, 46, 53] = JsNum (5 / 2)
   \<and> normalizedPositiveQuantity [50, 44, 53] = Some [50, 46, 53]
   \<and> (JsNum 3 + min_quantity < JsNum (5 / 2)) = False \<and> (JsNum 3 \<le> JsNum 0) = False
   \<and> js_String (JsNum 3) = [51]"
  by code_simp

lemma remaining_sample: "reception_remaining (water_line ''3'' ''1'') = JsNum 3"
  using reception_texts by (simp add: reception_remaining_def water_line_def js_def)

lemmas reception_simps = reception_texts remaining_sample sample_simps reception_init_def reception_drafts_def sample_order_def
  receive_water_def reception_step_def reception_effects_def updateLine_def reception_submit_def
  reception_line_check_def not_received_def unless_blank_def

lemma received_run:
  "run_ok (reception_enabled False) reception_step (reception_init (sample_order [water_line ''3'' ''1''])) receive_water"
  by (simp add: reception_simps) (simp add: water_line_def)

lemma received_sends: "reception_submit received_water = Some (Inr \<lparr>grp_warehouse_id = JsNum 3,
    grp_location_id = JsNum 5, grp_notes = [], grp_lines = [\<lparr>gri_purchase_order_line_id = 4,
      gri_quantity_packages = js ''2.5'', gri_lot_number = Some (js ''L1''),
      gri_manufacturing_date = None, gri_expiration_date = None\<rparr>]\<rparr>)"
  by (simp add: received_water_def reception_simps) (simp add: water_line_def)

theorem reception_within_order_witness:
  "\<exists>p. reception_submit received_water = Some (Inr p) \<and> grp_lines p \<noteq> []"
  using reception_within_order [OF received_run received_water_def received_sends] received_sends by blast

text \<open>
  Three packages of 0.7 pending are computed as a little more than three; its text has more than the
  six decimals the form accepts.
\<close>

definition three_off :: jsnum where
  "three_off = JsNum (3 + 1 / 2 ^ 51)"

lemma remaining_of_three:
  "reception_remaining (water_line ''2.1'' ''0.7'') = three_off"
proof -
  have "(js_Number (js ''2.1'') - js_Number (js ''0'')) div js_Number (js ''0.7'') = three_off"
    by code_simp
  then show ?thesis by (simp add: reception_remaining_def water_line_def)
qed

text \<open>A new order with one line, as the form sends it.\<close>

definition best_supplier :: supplier where
  "best_supplier = \<lparr>sup_id = 3, sup_name = js ''S'', sup_tax_id = None, sup_email = None, sup_phone = None,
     sup_address = [], sup_is_active = True\<rparr>"

definition six_pack :: catalog_product where
  "six_pack = water\<lparr>cp_packages := [\<lparr>cpk_id = 5, cpk_name = [], cpk_factor = js ''6'',
     cpk_price_override = None, cpk_is_base = True, cpk_barcodes = []\<rparr>]\<rparr>"

definition order_water :: "order_event list" where
  "order_water = [SupplierIs (js ''3''), LineEvent (LineQuery (js ''ag'')), LineEvent (LineMatches [six_pack]),
     LineEvent (LinePick six_pack), PressAddLine, PressCreate]"

lemma order_texts:
  "decimalInputValue [48] = [48] \<and> decimalString (Some min_quantity) [49] = Inr [49]
   \<and> decimalString (Some (JsNum 0)) [48] = Inr [48]
   \<and> normalizedDecimal True [49] = Some [49] \<and> normalizedDecimal False [48] = Some [48]
   \<and> normalizedDecimal False [50] = Some [50] \<and> \<not> over_hundred [48]"
  by code_simp

lemmas order_simps = order_texts sample_simps order_form_init_def line_form_init_def order_water_def
  six_pack_def water_def line_search_def visibleMatches_def select_effect_def base_package_id_def
  empty_values_def line_submit_def lineSchema_def line_input_def stage_line_def line_reset_def
  order_submit_def createOrderSchema_def checked_values_def best_supplier_def

lemma ordered_run: "run_ok (order_enabled [best_supplier]) order_step order_form_init order_water"
  by (simp add: order_simps)

lemma ordered_sends: "length (of_submitted (foldl order_step order_form_init order_water)) = 1"
  by (simp add: order_simps)

theorem order_sends_checked_lines_witness:
  "orc_lines (hd (of_submitted (foldl order_step order_form_init order_water))) \<noteq> []"
proof -
  have "hd (of_submitted (foldl order_step order_form_init order_water))
      \<in> set (of_submitted (foldl order_step order_form_init order_water))"
    using ordered_sends by (intro hd_in_set) auto
  from order_sends_checked_lines [OF ordered_run this] show ?thesis by simp
qed

end
