(* ===== verification/Keyed_Attempts.thy ===== *)
theory Keyed_Attempts
  imports Api_Client
begin

text \<open>
  The attempts of a write with an idempotency key, as \<open>OrderDetailPanel.tsx\<close> and
  \<open>LotBalancesPanel.tsx\<close> keep them in a ref: the fingerprint of what was last sent with its key, reused
  while the same is sent again and forgotten once it has succeeded. \<open>uuid n\<close> is the \<open>n\<close>th key drawn.
\<close>

text \<open>What a screen says of a write that failed: the server's message, or its own.\<close>

definition failure_text :: "jsstring \<Rightarrow> failure \<Rightarrow> jsstring" where
  "failure_text own e = (case e of ApiFailure a \<Rightarrow> ae_message a | OtherFailure m \<Rightarrow> own)"

record ('p, 'k) attempts =
  att_stored :: "('p \<times> 'k) option"
  att_drawn :: nat
  att_sent :: "('p \<times> 'k) list"

definition no_attempts :: "('p, 'k) attempts" where
  "no_attempts = \<lparr>att_stored = None, att_drawn = 0, att_sent = []\<rparr>"

definition keyed_attempt :: "(nat \<Rightarrow> 'k) \<Rightarrow> 'p \<Rightarrow> ('p, 'k) attempts \<Rightarrow> 'k \<times> nat" where
  "keyed_attempt uuid p a =
     (case att_stored a of
        Some (old, k) \<Rightarrow> if old = p then (k, att_drawn a) else (uuid (att_drawn a), Suc (att_drawn a))
      | None \<Rightarrow> (uuid (att_drawn a), Suc (att_drawn a)))"

definition attempt_send :: "(nat \<Rightarrow> 'k) \<Rightarrow> 'p \<Rightarrow> ('p, 'k) attempts \<Rightarrow> ('p, 'k) attempts" where
  "attempt_send uuid p a =
     (case keyed_attempt uuid p a of
        (k, n) \<Rightarrow> \<lparr>att_stored = Some (p, k), att_drawn = n, att_sent = att_sent a @ [(p, k)]\<rparr>)"

definition attempt_forget :: "('p, 'k) attempts \<Rightarrow> ('p, 'k) attempts" where
  "attempt_forget a = a\<lparr>att_stored := None\<rparr>"

text \<open>
  One key, one thing: whoever keeps its attempts this way sends the same key only with the same
  contents, and a key it has not kept is one never sent before.
\<close>

definition attempts_ok :: "(nat \<Rightarrow> 'k) \<Rightarrow> ('p, 'k) attempts \<Rightarrow> bool" where
  "attempts_ok uuid a \<longleftrightarrow>
     (\<forall>(p, k) \<in> set (att_sent a). k \<in> uuid ` {..<att_drawn a})
     \<and> (\<forall>(p, k) \<in> set (att_sent a). \<forall>(q, k') \<in> set (att_sent a). k' = k \<longrightarrow> q = p)
     \<and> (\<forall>p k. att_stored a = Some (p, k) \<longrightarrow> (p, k) \<in> set (att_sent a))"

locale keyed_writer =
  fixes uuid :: "nat \<Rightarrow> 'k" and attempts :: "'s \<Rightarrow> ('p, 'k) attempts"
    and enabled :: "'s \<Rightarrow> 'e \<Rightarrow> bool" and move :: "'s \<Rightarrow> 'e \<Rightarrow> 's" and init :: 's
  assumes starts: "attempts init = no_attempts"
    and moves: "enabled s e \<Longrightarrow> attempts (move s e) = attempts s
      \<or> attempts (move s e) = attempt_forget (attempts s)
      \<or> (\<exists>p. attempts (move s e) = attempt_send uuid p (attempts s))"

lemma attempt_send_key:
  "att_sent (attempt_send uuid p a) = att_sent a @ [(p, fst (keyed_attempt uuid p a))]"
  by (simp add: attempt_send_def split: prod.splits)

lemma att_sent_forget [simp]: "att_sent (attempt_forget a) = att_sent a"
  by (simp add: attempt_forget_def)

lemma attempts_ok_none [simp]: "attempts_ok uuid no_attempts"
  by (simp add: attempts_ok_def no_attempts_def)

lemma attempts_ok_forget: "attempts_ok uuid a \<Longrightarrow> attempts_ok uuid (attempt_forget a)"
  by (simp add: attempts_ok_def attempt_forget_def)

lemma attempt_send_stored:
  "att_stored a = Some (p, k)
     \<Longrightarrow> attempt_send uuid p a = a\<lparr>att_sent := att_sent a @ [(p, k)]\<rparr>"
  by (simp add: attempt_send_def keyed_attempt_def)

lemma attempt_send_fresh:
  "\<nexists>k. att_stored a = Some (p, k)
     \<Longrightarrow> attempt_send uuid p a = \<lparr>att_stored = Some (p, uuid (att_drawn a)), att_drawn = Suc (att_drawn a),
           att_sent = att_sent a @ [(p, uuid (att_drawn a))]\<rparr>"
  by (auto simp: attempt_send_def keyed_attempt_def split: option.splits)

lemma attempts_ok_send:
  assumes "attempts_ok uuid a" and "inj uuid"
  shows "attempts_ok uuid (attempt_send uuid p a)"
proof (cases "\<exists>k. att_stored a = Some (p, k)")
  case True
  then obtain k where k: "att_stored a = Some (p, k)" by blast
  then have "(p, k) \<in> set (att_sent a)" using assms(1) by (simp add: attempts_ok_def)
  then show ?thesis
    using assms(1) by (simp add: attempts_ok_def attempt_send_stored [OF k] insert_absorb k)
next
  case False
  have "uuid (att_drawn a) \<notin> uuid ` {..<att_drawn a}"
    using assms(2) by (auto dest: injD)
  then have new: "k \<noteq> uuid (att_drawn a)" if "(q, k) \<in> set (att_sent a)" for q k
    using that assms(1) by (auto simp: attempts_ok_def)
  have more: "uuid ` {..<Suc n} = insert (uuid n) (uuid ` {..<n})" for n
    by (simp add: lessThan_Suc)
  show ?thesis
    unfolding attempt_send_fresh [OF False]
    using assms(1) new by (auto simp: attempts_ok_def more)
qed

lemma attempt_send_sent: "\<exists>k. att_sent (attempt_send uuid p a) = att_sent a @ [(p, k)]
    \<and> att_stored (attempt_send uuid p a) = Some (p, k)"
  by (simp add: attempt_send_def split: prod.splits)

context keyed_writer
begin

lemma attempts_reached:
  assumes "reached enabled move init s" and "inj uuid"
  shows "attempts_ok uuid (attempts s)"
  using assms(1)
proof (induction rule: reached.induct)
  case (reached_move s e)
  then show ?case
    using moves [of s e] attempts_ok_forget attempts_ok_send [OF _ assms(2)] by metis
qed (simp add: starts)

lemma one_key_one_content:
  assumes "reached enabled move init s" and "inj uuid"
    and "(p, k) \<in> set (att_sent (attempts s))" and "(q, k) \<in> set (att_sent (attempts s))"
  shows "p = q"
  using attempts_reached [OF assms(1,2)] assms(3,4) by (auto simp: attempts_ok_def)

end

end
