(* ===== verification/Order_Panel.thy ===== *)
theory Order_Panel
  imports Purchasing Keyed_Attempts
begin

text \<open>
  The panel of one purchase order (\<open>OrderDetailPanel.tsx\<close>) as an event machine around the rows, the
  line form and the reception form of \<open>Purchasing\<close>: placing and cancelling the order, and registering
  the goods with an idempotency key; and the list of its receptions with the costs they propose
  (\<open>ReceiptsList.tsx\<close>).
\<close>

section \<open>State\<close>

text \<open>
  The panel is drawn for one order, which the query brings again as it changes. A form exists while
  it is drawn. The keys of orders and of receptions are drawn from two streams of \<open>randomUUID\<close>.
\<close>

record panel_env =
  pe_purchase :: bool
  pe_receiving :: bool
  pe_place_key :: "nat \<Rightarrow> jsstring"
  pe_receipt_key :: "nat \<Rightarrow> jsstring"

record order_panel =
  opn_order :: purchase_order
  opn_place :: "(int, jsstring) attempts"
  opn_receipt :: "(json, jsstring) attempts"
  opn_placing :: bool
  opn_cancelling :: bool
  opn_adding :: bool
  opn_removing :: bool
  opn_receiving :: bool
  opn_show :: bool
  opn_error :: "jsstring option"
  opn_line :: "line_form option"
  opn_form :: "reception_form option"
  opn_received :: "(receipt_input \<times> jsstring) list"
  opn_calls :: "api_call list"
  opn_stale :: "query_key list list"

definition status_label :: "order_status \<Rightarrow> jsstring" where
  "status_label st = (case st of OrderDraft \<Rightarrow> js ''Borrador'' | Ordered \<Rightarrow> js ''Realizado''
     | PartiallyReceived \<Rightarrow> js ''Recibido parcialmente'' | Received \<Rightarrow> js ''Recibido''
     | OrderCancelled \<Rightarrow> js ''Cancelado'')"

definition canReceive :: "panel_env \<Rightarrow> order_panel \<Rightarrow> bool" where
  "canReceive env s \<longleftrightarrow> pe_receiving env \<and> po_status (opn_order s) \<in> {Ordered, PartiallyReceived}"

definition canEditOrder :: "panel_env \<Rightarrow> order_panel \<Rightarrow> bool" where
  "canEditOrder env s \<longleftrightarrow> pe_purchase env \<and> po_status (opn_order s) = OrderDraft"

text \<open>What a drawing mounts and drops.\<close>

definition panel_draw :: "panel_env \<Rightarrow> order_panel \<Rightarrow> order_panel" where
  "panel_draw env s = s\<lparr>
     opn_line := (if canEditOrder env s
       then Some (case opn_line s of Some f \<Rightarrow> f | None \<Rightarrow> line_form_init) else None),
     opn_form := (if canReceive env s \<and> opn_show s
       then Some (case opn_form s of Some f \<Rightarrow> f | None \<Rightarrow> reception_init (opn_order s)) else None)\<rparr>"

definition panel_init :: "panel_env \<Rightarrow> purchase_order \<Rightarrow> order_panel" where
  "panel_init env order = panel_draw env \<lparr>opn_order = order, opn_place = no_attempts,
     opn_receipt = no_attempts, opn_placing = False, opn_cancelling = False, opn_adding = False,
     opn_removing = False, opn_receiving = False, opn_show = False, opn_error = None, opn_line = None,
     opn_form = None, opn_received = [], opn_calls = [], opn_stale = []\<rparr>"

section \<open>Handlers\<close>

definition invalidateOrders :: "order_panel \<Rightarrow> order_panel" where
  "invalidateOrders s = s\<lparr>opn_stale := opn_stale s @ [[KStr (js ''purchasing''), KStr (js ''orders'')]]\<rparr>"

definition invalidateReceipts :: "order_panel \<Rightarrow> order_panel" where
  "invalidateReceipts s = s\<lparr>opn_stale := opn_stale s
     @ [[KStr (js ''purchasing''), KStr (js ''receipts''), KNum (po_id (opn_order s))]]\<rparr>"

definition panel_send :: "api_call \<Rightarrow> order_panel \<Rightarrow> order_panel" where
  "panel_send c s = s\<lparr>opn_calls := opn_calls s @ [c]\<rparr>"

definition press_place :: "panel_env \<Rightarrow> order_panel \<Rightarrow> order_panel" where
  "press_place env s =
     (let i = po_id (opn_order s); key = fst (keyed_attempt (pe_place_key env) i (opn_place s)) in
      panel_send (placeOrder i key)
        (s\<lparr>opn_place := attempt_send (pe_place_key env) i (opn_place s), opn_placing := True\<rparr>))"

text \<open>The fingerprint of a reception is the text of its payload, given here by the payload's JSON.\<close>

definition receipt_submitted :: "panel_env \<Rightarrow> receipt_input \<Rightarrow> order_panel \<Rightarrow> order_panel" where
  "receipt_submitted env p s =
     (let key = fst (keyed_attempt (pe_receipt_key env) (receipt_json p) (opn_receipt s)) in
      panel_send (createGoodsReceipt (po_id (opn_order s)) p key)
        (s\<lparr>opn_receipt := attempt_send (pe_receipt_key env) (receipt_json p) (opn_receipt s),
           opn_receiving := True, opn_received := opn_received s @ [(p, key)]\<rparr>))"

definition receipt_answered :: "failure option \<Rightarrow> order_panel \<Rightarrow> order_panel" where
  "receipt_answered r s =
     (case r of
        None \<Rightarrow> (invalidateReceipts (invalidateOrders (s\<lparr>opn_receipt := attempt_forget (opn_receipt s)\<rparr>)))
          \<lparr>opn_receiving := False, opn_show := False, opn_error := None\<rparr>
      | Some e \<Rightarrow> s\<lparr>opn_receiving := False,
          opn_error := Some (failure_text (js ''No se ha podido registrar la recepci'' @ [243] @ js ''n.'') e)\<rparr>)"

section \<open>Events\<close>

datatype panel_event =
    OrderIs purchase_order
  | PlacePressed
  | PlaceAnswered "failure option"
  | CancelPressed
  | CancelAnswered "failure option"
  | RowLeft purchase_line row_values
  | RowRemoved purchase_line
  | RemoveAnswered "failure option"
  | UpdateAnswered "failure option"
  | NewLine line_event
  | NewLinePressed
  | AddAnswered "failure option"
  | ReceiptOpened
  | Reception reception_event
  | ReceiptDropped
  | ReceiptAnswered "failure option"

definition refreshed :: "failure option \<Rightarrow> order_panel \<Rightarrow> order_panel" where
  "refreshed r s = (if r = None then invalidateOrders s else s)"

fun panel_handle :: "panel_env \<Rightarrow> order_panel \<Rightarrow> panel_event \<Rightarrow> order_panel" where
  "panel_handle env s (OrderIs order) = s\<lparr>opn_order := order\<rparr>"
| "panel_handle env s PlacePressed = press_place env s"
| "panel_handle env s (PlaceAnswered r) = (refreshed r s)\<lparr>opn_placing := False,
     opn_place := (if r = None then attempt_forget (opn_place s) else opn_place s)\<rparr>"
| "panel_handle env s CancelPressed =
     panel_send (cancelOrder (po_id (opn_order s))) (s\<lparr>opn_cancelling := True\<rparr>)"
| "panel_handle env s (CancelAnswered r) = (refreshed r s)\<lparr>opn_cancelling := False,
     opn_place := (if r = None then attempt_forget (opn_place s) else opn_place s),
     opn_receipt := (if r = None then attempt_forget (opn_receipt s) else opn_receipt s)\<rparr>"
| "panel_handle env s (RowLeft line v) =
     (case snd (row_save line v) of
        None \<Rightarrow> s
      | Some l \<Rightarrow> panel_send (updateOrderLine (po_id (opn_order s)) (pol_id line) l) s)"
| "panel_handle env s (RowRemoved line) =
     panel_send (removeOrderLine (po_id (opn_order s)) (pol_id line)) (s\<lparr>opn_removing := True\<rparr>)"
| "panel_handle env s (RemoveAnswered r) = (refreshed r s)\<lparr>opn_removing := False\<rparr>"
| "panel_handle env s (UpdateAnswered r) = refreshed r s"
| "panel_handle env s (NewLine e) = s\<lparr>opn_line := map_option (\<lambda>f. line_step f e) (opn_line s)\<rparr>"
| "panel_handle env s NewLinePressed =
     (case opn_line s of
        None \<Rightarrow> s
      | Some f \<Rightarrow> (case line_submit f of
            Inl issues \<Rightarrow> s\<lparr>opn_line := Some (f\<lparr>lf_errors := issues\<rparr>)\<rparr>
          | Inr (l, preview) \<Rightarrow> panel_send (addOrderLine (po_id (opn_order s)) l)
              (s\<lparr>opn_line := Some (line_reset f), opn_adding := True\<rparr>)))"
| "panel_handle env s (AddAnswered r) = (refreshed r s)\<lparr>opn_adding := False\<rparr>"
| "panel_handle env s ReceiptOpened = s\<lparr>opn_show := True\<rparr>"
| "panel_handle env s (Reception e) =
     (case opn_form s of
        None \<Rightarrow> s
      | Some f \<Rightarrow>
          (let s1 = s\<lparr>opn_form := Some (reception_step f e)\<rparr> in
           case (if e = ReceiptSubmit then reception_submit f else None) of
             Some (Inr p) \<Rightarrow> receipt_submitted env p s1
           | _ \<Rightarrow> s1))"
| "panel_handle env s ReceiptDropped =
     s\<lparr>opn_receipt := attempt_forget (opn_receipt s), opn_show := False, opn_error := None\<rparr>"
| "panel_handle env s (ReceiptAnswered r) = receipt_answered r s"

definition panel_step :: "panel_env \<Rightarrow> order_panel \<Rightarrow> panel_event \<Rightarrow> order_panel" where
  "panel_step env s e = panel_draw env (panel_handle env s e)"

fun panel_enabled :: "panel_env \<Rightarrow> order_panel \<Rightarrow> panel_event \<Rightarrow> bool" where
  "panel_enabled env s (OrderIs order) = (po_id order = po_id (opn_order s))"
| "panel_enabled env s PlacePressed =
     (canEditOrder env s \<and> \<not> opn_placing s \<and> po_lines (opn_order s) \<noteq> [])"
| "panel_enabled env s (PlaceAnswered r) = opn_placing s"
| "panel_enabled env s CancelPressed =
     (pe_purchase env \<and> po_status (opn_order s) \<in> {OrderDraft, Ordered} \<and> \<not> opn_cancelling s)"
| "panel_enabled env s (CancelAnswered r) = opn_cancelling s"
| "panel_enabled env s (RowLeft line v) = (canEditOrder env s \<and> line \<in> set (po_lines (opn_order s)))"
| "panel_enabled env s (RowRemoved line) =
     (canEditOrder env s \<and> line \<in> set (po_lines (opn_order s)) \<and> \<not> opn_removing s)"
| "panel_enabled env s (RemoveAnswered r) = opn_removing s"
| "panel_enabled env s (NewLine e) = (case opn_line s of None \<Rightarrow> False | Some f \<Rightarrow> line_enabled f e)"
| "panel_enabled env s NewLinePressed = (opn_line s \<noteq> None \<and> \<not> opn_adding s)"
| "panel_enabled env s (AddAnswered r) = opn_adding s"
| "panel_enabled env s ReceiptOpened = (canReceive env s \<and> \<not> opn_show s)"
| "panel_enabled env s (Reception e) =
     (case opn_form s of None \<Rightarrow> False | Some f \<Rightarrow> reception_enabled (opn_receiving s) f e)"
| "panel_enabled env s ReceiptDropped = (opn_form s \<noteq> None)"
| "panel_enabled env s (ReceiptAnswered r) = opn_receiving s"
| "panel_enabled env s e = True"

section \<open>One key, one reception\<close>

lemma panel_draw_keeps [simp]:
  "opn_order (panel_draw env s) = opn_order s" "opn_place (panel_draw env s) = opn_place s"
  "opn_receipt (panel_draw env s) = opn_receipt s" "opn_received (panel_draw env s) = opn_received s"
  "opn_calls (panel_draw env s) = opn_calls s" "opn_receiving (panel_draw env s) = opn_receiving s"
  by (simp_all add: panel_draw_def)

lemma panel_helpers_keep [simp]:
  "opn_order (invalidateOrders s) = opn_order s" "opn_place (invalidateOrders s) = opn_place s"
  "opn_receipt (invalidateOrders s) = opn_receipt s" "opn_received (invalidateOrders s) = opn_received s"
  "opn_calls (invalidateOrders s) = opn_calls s"
  "opn_order (invalidateReceipts s) = opn_order s" "opn_place (invalidateReceipts s) = opn_place s"
  "opn_receipt (invalidateReceipts s) = opn_receipt s" "opn_received (invalidateReceipts s) = opn_received s"
  "opn_calls (invalidateReceipts s) = opn_calls s"
  "opn_order (panel_send c s) = opn_order s" "opn_place (panel_send c s) = opn_place s"
  "opn_receipt (panel_send c s) = opn_receipt s" "opn_received (panel_send c s) = opn_received s"
  "opn_calls (panel_send c s) = opn_calls s @ [c]"
  "opn_order (refreshed r s) = opn_order s" "opn_place (refreshed r s) = opn_place s"
  "opn_receipt (refreshed r s) = opn_receipt s" "opn_received (refreshed r s) = opn_received s"
  "opn_calls (refreshed r s) = opn_calls s"
  by (simp_all add: invalidateOrders_def invalidateReceipts_def panel_send_def refreshed_def)

lemma press_place_keeps [simp]:
  "opn_order (press_place env s) = opn_order s" "opn_receipt (press_place env s) = opn_receipt s"
  "opn_received (press_place env s) = opn_received s"
  "opn_place (press_place env s) = attempt_send (pe_place_key env) (po_id (opn_order s)) (opn_place s)"
  by (simp_all add: press_place_def Let_def)

lemma receipt_submitted_keeps [simp]:
  "opn_order (receipt_submitted env p s) = opn_order s" "opn_place (receipt_submitted env p s) = opn_place s"
  "opn_receipt (receipt_submitted env p s) = attempt_send (pe_receipt_key env) (receipt_json p) (opn_receipt s)"
  by (simp_all add: receipt_submitted_def Let_def)

lemma receipt_answered_keeps [simp]:
  "opn_order (receipt_answered r s) = opn_order s" "opn_place (receipt_answered r s) = opn_place s"
  "opn_received (receipt_answered r s) = opn_received s" "opn_calls (receipt_answered r s) = opn_calls s"
  "opn_receipt (receipt_answered r s) = (if r = None then attempt_forget (opn_receipt s) else opn_receipt s)"
  by (simp_all add: receipt_answered_def split: option.splits)

lemma panel_place_moves:
  "opn_place (panel_step env s e) = opn_place s
   \<or> opn_place (panel_step env s e) = attempt_forget (opn_place s)
   \<or> (\<exists>p. opn_place (panel_step env s e) = attempt_send (pe_place_key env) p (opn_place s))"
  by (cases "(env, s, e)" rule: panel_handle.cases)
    (auto simp: panel_step_def Let_def split: option.splits sum.splits)

lemma panel_receipt_moves:
  "opn_receipt (panel_step env s e) = opn_receipt s
   \<or> opn_receipt (panel_step env s e) = attempt_forget (opn_receipt s)
   \<or> (\<exists>p. opn_receipt (panel_step env s e) = attempt_send (pe_receipt_key env) p (opn_receipt s))"
  by (cases "(env, s, e)" rule: panel_handle.cases)
    (auto simp: panel_step_def Let_def split: option.splits sum.splits)

interpretation placing: keyed_writer "pe_place_key env" opn_place "panel_enabled env" "panel_step env"
    "panel_init env order"
  for env order
  by unfold_locales (simp add: panel_init_def, rule panel_place_moves)

interpretation receiving: keyed_writer "pe_receipt_key env" opn_receipt "panel_enabled env" "panel_step env"
    "panel_init env order"
  for env order
  by unfold_locales (simp add: panel_init_def, rule panel_receipt_moves)

definition received_ok :: "int \<Rightarrow> order_panel \<Rightarrow> bool" where
  "received_ok i s \<longleftrightarrow> po_id (opn_order s) = i
     \<and> att_sent (opn_receipt s) = map (\<lambda>(p, k). (receipt_json p, k)) (opn_received s)
     \<and> (\<forall>(p, k) \<in> set (opn_received s). createGoodsReceipt i p k \<in> set (opn_calls s))"

lemma received_ok_cong:
  assumes "received_ok i s" and "po_id (opn_order t) = po_id (opn_order s)"
    and "att_sent (opn_receipt t) = att_sent (opn_receipt s)" and "opn_received t = opn_received s"
    and "set (opn_calls s) \<subseteq> set (opn_calls t)"
  shows "received_ok i t"
  using assms unfolding received_ok_def by auto

lemma receipt_submitted_ok: "received_ok i s \<Longrightarrow> received_ok i (receipt_submitted env p s)"
  by (auto simp: received_ok_def receipt_submitted_def Let_def attempt_send_key panel_send_def)

lemma panel_step_ok:
  assumes "received_ok i s" and "panel_enabled env s e"
  shows "received_ok i (panel_step env s e)"
proof -
  have "received_ok i (panel_handle env s e)"
  proof (cases e)
    case (Reception r)
    have "received_ok i (s\<lparr>opn_form := f\<rparr>)" for f
      by (rule received_ok_cong [OF assms(1)]) simp_all
    then show ?thesis
      using assms(1) Reception receipt_submitted_ok
      by (auto simp: Let_def split: option.splits sum.splits)
  next
    case PlacePressed
    then show ?thesis
      using assms(1) by (auto simp: press_place_def Let_def intro!: received_ok_cong [OF assms(1)])
  qed (use assms in \<open>auto intro!: received_ok_cong [OF assms(1)] split: option.splits sum.splits\<close>)
  then show ?thesis
    unfolding panel_step_def by (rule received_ok_cong) simp_all
qed

interpretation order_panels: event_machine "panel_enabled env" "panel_step env" "panel_init env order"
    "received_ok (po_id order)"
  for env order
proof
  show "received_ok (po_id order) (panel_init env order)"
    by (simp add: received_ok_def panel_init_def no_attempts_def)
qed (rule panel_step_ok)

text \<open>C31: One key receives one delivery: whatever is done in the panel of an order, two receptions sent
  with the same idempotency key are the same request, to the last line, and both went to the
  server for this order; so a server that records a key once never takes one delivery for another.\<close>

theorem one_key_one_reception:
  assumes "run_ok (panel_enabled env) (panel_step env) (panel_init env order) es"
    and "s = foldl (panel_step env) (panel_init env order) es" and "inj (pe_receipt_key env)"
    and "(p, k) \<in> set (opn_received s)" and "(q, k) \<in> set (opn_received s)"
  shows "createGoodsReceipt (po_id order) p k = createGoodsReceipt (po_id order) q k
    \<and> createGoodsReceipt (po_id order) p k \<in> set (opn_calls s)"
proof -
  have r: "reached (panel_enabled env) (panel_step env) (panel_init env order) s"
    using reached_run [OF assms(1)] assms(2) by simp
  from order_panels.inv_reached [OF r]
  have sent: "att_sent (opn_receipt s) = map (\<lambda>(p, k). (receipt_json p, k)) (opn_received s)"
    and calls: "\<forall>(p, k) \<in> set (opn_received s). createGoodsReceipt (po_id order) p k \<in> set (opn_calls s)"
    by (simp_all add: received_ok_def)
  have "(receipt_json p, k) \<in> set (att_sent (opn_receipt s))"
    and "(receipt_json q, k) \<in> set (att_sent (opn_receipt s))"
    unfolding sent using assms(4,5) by force+
  from receiving.one_key_one_content [OF r assms(3) this] calls assms(4) show ?thesis
    by (auto simp: createGoodsReceipt_def)
qed

section \<open>A reception sent again\<close>

text \<open>What ends an attempt, or starts another.\<close>

fun attempt_kept :: "panel_event \<Rightarrow> bool" where
  "attempt_kept (CancelAnswered r) = (r \<noteq> None)"
| "attempt_kept (ReceiptAnswered r) = (r \<noteq> None)"
| "attempt_kept ReceiptDropped = False"
| "attempt_kept (Reception ReceiptSubmit) = False"
| "attempt_kept e = True"

lemma attempt_kept_step:
  "attempt_kept e \<Longrightarrow> opn_receipt (panel_step env s e) = opn_receipt s
     \<and> opn_received (panel_step env s e) = opn_received s"
  by (cases e rule: attempt_kept.cases)
    (auto simp: panel_step_def Let_def split: option.splits sum.splits)

lemma attempt_kept_run:
  "list_all attempt_kept es \<Longrightarrow> opn_receipt (foldl (panel_step env) s es) = opn_receipt s
     \<and> opn_received (foldl (panel_step env) s es) = opn_received s"
  by (induction es arbitrary: s) (auto simp: attempt_kept_step)

lemma panel_submit_step:
  assumes "opn_form s = Some f" and "reception_submit f = Some (Inr p)"
  shows "opn_received (panel_step env s (Reception ReceiptSubmit))
      = opn_received s @ [(p, fst (keyed_attempt (pe_receipt_key env) (receipt_json p) (opn_receipt s)))]"
    and "opn_receipt (panel_step env s (Reception ReceiptSubmit))
      = attempt_send (pe_receipt_key env) (receipt_json p) (opn_receipt s)"
  using assms by (simp_all add: panel_step_def receipt_submitted_def Let_def panel_send_def)

lemma keyed_attempt_again:
  "fst (keyed_attempt uuid p (attempt_send uuid p a)) = fst (keyed_attempt uuid p a)"
  by (auto simp: keyed_attempt_def attempt_send_def split: option.splits prod.splits)

text \<open>A delivery registered again after an error is the same delivery: as long as the form has not
  been cancelled, nor the reception or the cancellation of the order succeeded, pressing the button
  with the same contents repeats the key of the first attempt, whatever happened in between.\<close>

lemma reception_retry_repeats_key:
  assumes "opn_form s = Some f" and "reception_submit f = Some (Inr p)"
    and "t = foldl (panel_step env) (panel_step env s (Reception ReceiptSubmit)) es"
    and "list_all attempt_kept es"
    and "opn_form t = Some g" and "reception_submit g = Some (Inr q)" and "receipt_json q = receipt_json p"
  shows "\<exists>k. opn_received (panel_step env t (Reception ReceiptSubmit)) = opn_received s @ [(p, k), (q, k)]"
  using panel_submit_step [OF assms(1,2), of env] panel_submit_step(1) [OF assms(5,6), of env]
    attempt_kept_run [OF assms(4), of env "panel_step env s (Reception ReceiptSubmit)"]
  by (simp add: assms(3,7) keyed_attempt_again)

section \<open>A delivery registered twice\<close>

lemma panel_form_step:
  assumes "panel_draw env s = s" and "opn_form s = Some f" and "e \<noteq> ReceiptSubmit"
  shows "panel_step env s (Reception e) = s\<lparr>opn_form := Some (reception_step f e)\<rparr>"
    "panel_draw env (s\<lparr>opn_form := Some (reception_step f e)\<rparr>) = s\<lparr>opn_form := Some (reception_step f e)\<rparr>"
proof -
  have "opn_line (panel_draw env s) = opn_line s" "opn_form (panel_draw env s) = opn_form s"
    using assms(1) by simp_all
  then have "panel_draw env (s\<lparr>opn_form := Some g\<rparr>) = s\<lparr>opn_form := Some g\<rparr>" for g
    using assms(2) by (cases s) (auto simp: panel_draw_def canReceive_def canEditOrder_def split: if_splits)
  then show "panel_draw env (s\<lparr>opn_form := Some (reception_step f e)\<rparr>) = s\<lparr>opn_form := Some (reception_step f e)\<rparr>"
    and "panel_step env s (Reception e) = s\<lparr>opn_form := Some (reception_step f e)\<rparr>"
    using assms(2,3) by (simp_all add: panel_step_def)
qed

lemma panel_form_run:
  assumes "panel_draw env s = s" and "opn_form s = Some f" and "ReceiptSubmit \<notin> set es"
    and "run_ok (reception_enabled (opn_receiving s)) reception_step f es"
  shows "foldl (panel_step env) s (map Reception es) = s\<lparr>opn_form := Some (foldl reception_step f es)\<rparr>
    \<and> run_ok (panel_enabled env) (panel_step env) s (map Reception es)"
  using assms
proof (induction es arbitrary: s f)
  case (Cons e es)
  have "e \<noteq> ReceiptSubmit" using Cons.prems(3) by auto
  note one = panel_form_step [OF Cons.prems(1,2) this]
  show ?case
    using Cons.prems one
      Cons.IH [of "s\<lparr>opn_form := Some (reception_step f e)\<rparr>" "reception_step f e"]
    by (simp del: panel_handle.simps)
qed simp

lemma run_ok_append:
  "run_ok enabled move s (es @ fs) \<longleftrightarrow> run_ok enabled move s es \<and> run_ok enabled move (foldl move s es) fs"
  by (induction es arbitrary: s) auto

definition sample_panel :: panel_env where
  "sample_panel = \<lparr>pe_purchase = True, pe_receiving = True, pe_place_key = nat_digits, pe_receipt_key = nat_digits\<rparr>"

definition opened_panel :: order_panel where
  "opened_panel = panel_step sample_panel (panel_init sample_panel (sample_order [water_line ''3'' ''1''])) ReceiptOpened"

definition filled_panel :: order_panel where
  "filled_panel = opened_panel\<lparr>opn_form := Some received_water\<rparr>"

definition again :: "panel_event list" where
  "again = [ReceiptAnswered (Some (OtherFailure []))]"

lemmas panel_sample = panel_step_def panel_init_def panel_draw_def canReceive_def canEditOrder_def
  sample_panel_def sample_order_def

lemma filled_run:
  "foldl (panel_step sample_panel) opened_panel (map Reception receive_water) = filled_panel
   \<and> run_ok (panel_enabled sample_panel) (panel_step sample_panel) opened_panel (map Reception receive_water)"
  using panel_form_run [of sample_panel opened_panel "reception_init (sample_order [water_line ''3'' ''1''])" receive_water]
    received_run
  by (simp add: opened_panel_def filled_panel_def panel_sample received_water_def) (simp add: receive_water_def)

lemma received_settled: "reception_step received_water ReceiptSubmit = received_water"
proof -
  have "reception_effects received_water = received_water"
    by (simp add: received_water_def reception_simps)
  then show ?thesis using received_sends by (simp add: reception_step_def)
qed

lemma panel_failed:
  "opn_form (foldl (panel_step sample_panel) (panel_step sample_panel filled_panel (Reception ReceiptSubmit)) again)
    = Some received_water"
  using received_sends received_settled
  by (simp add: again_def filled_panel_def opened_panel_def panel_sample receipt_submitted_def
      receipt_answered_def panel_send_def Let_def)

theorem reception_retry_repeats_key_witness:
  "\<exists>p k. opn_received (foldl (panel_step sample_panel) filled_panel
     (Reception ReceiptSubmit # again @ [Reception ReceiptSubmit])) = [(p, k), (p, k)]"
proof -
  have "opn_form filled_panel = Some received_water" "list_all attempt_kept again" "opn_received filled_panel = []"
    by (simp_all add: filled_panel_def again_def opened_panel_def panel_sample)
  with reception_retry_repeats_key [OF _ received_sends refl _ panel_failed received_sends refl]
  show ?thesis by auto
qed

lemma delivery_run:
  defines "es \<equiv> ReceiptOpened # map Reception receive_water @ [Reception ReceiptSubmit]"
  shows "run_ok (panel_enabled sample_panel) (panel_step sample_panel)
      (panel_init sample_panel (sample_order [water_line ''3'' ''1''])) es"
    and "opn_received (foldl (panel_step sample_panel)
      (panel_init sample_panel (sample_order [water_line ''3'' ''1''])) es) \<noteq> []"
proof -
  have f: "rcf_warehouse received_water \<noteq> [] \<and> rcf_location received_water \<noteq> [] \<and> rcf_lines received_water \<noteq> []"
    by (simp add: received_water_def reception_simps)
  have "panel_enabled sample_panel filled_panel (Reception ReceiptSubmit)"
    using f by (simp add: filled_panel_def opened_panel_def panel_sample)
  moreover have "panel_enabled sample_panel (panel_init sample_panel (sample_order [water_line ''3'' ''1''])) ReceiptOpened"
    by (simp add: panel_sample)
  ultimately show "run_ok (panel_enabled sample_panel) (panel_step sample_panel)
      (panel_init sample_panel (sample_order [water_line ''3'' ''1''])) es"
    using filled_run by (simp add: es_def run_ok_append opened_panel_def del: panel_enabled.simps)
  show "opn_received (foldl (panel_step sample_panel)
      (panel_init sample_panel (sample_order [water_line ''3'' ''1''])) es) \<noteq> []"
    using filled_run panel_submit_step(1) [of filled_panel received_water _ sample_panel, OF _ received_sends]
    by (simp add: es_def opened_panel_def filled_panel_def)
qed

theorem one_key_one_reception_witness:
  "\<exists>(s :: order_panel) p k. (p, k) \<in> set (opn_received s) \<and> createGoodsReceipt 9 p k \<in> set (opn_calls s)"
proof -
  let ?s = "foldl (panel_step sample_panel) (panel_init sample_panel (sample_order [water_line ''3'' ''1'']))
      (ReceiptOpened # map Reception receive_water @ [Reception ReceiptSubmit])"
  have "inj (pe_receipt_key sample_panel)" by (simp add: sample_panel_def inj_nat_digits inj_def)
  moreover obtain p k where "(p, k) \<in> set (opn_received ?s)"
    using delivery_run(2) by (cases "opn_received ?s") auto
  ultimately have "createGoodsReceipt (po_id (sample_order [water_line ''3'' ''1''])) p k \<in> set (opn_calls ?s)"
    using one_key_one_reception [OF delivery_run(1) refl] by blast
  then have "createGoodsReceipt 9 p k \<in> set (opn_calls ?s)" by (simp add: sample_order_def)
  with \<open>(p, k) \<in> set (opn_received ?s)\<close> show ?thesis by blast
qed

section \<open>The receptions of an order\<close>

text \<open>
  \<open>ReceiptsList.tsx\<close>: the receptions as the query has them, and the costs chosen among those that
  differ from the catalogue's, sent with the cost that was shown.
\<close>

record receipts_list =
  rls_data :: "goods_receipt list option"
  rls_failed :: bool
  rls_selected :: "int set"
  rls_error :: "jsstring option"
  rls_applying :: bool
  rls_sent :: "(int \<times> (int \<times> jsstring) list) list"
  rls_stale :: "query_key list list"

definition receipts_init :: receipts_list where
  "receipts_init = \<lparr>rls_data = None, rls_failed = False, rls_selected = {}, rls_error = None,
     rls_applying = False, rls_sent = [], rls_stale = []\<rparr>"

definition proposed_lines :: "goods_receipt list option \<Rightarrow> int set" where
  "proposed_lines data =
     (case data of None \<Rightarrow> {}
      | Some rs \<Rightarrow> set (concat (map (\<lambda>r. map cpr_receipt_line_id (grc_cost_proposals r)) rs)))"

definition apply_lines :: "int set \<Rightarrow> goods_receipt \<Rightarrow> (int \<times> jsstring) list" where
  "apply_lines selected r =
     map (\<lambda>p. (cpr_receipt_line_id p, cpr_current_catalog_cost p))
       (filter (\<lambda>p. cpr_receipt_line_id p \<in> selected) (grc_cost_proposals r))"

datatype receipts_event =
    ReceiptsAre "goods_receipt list"
  | ReceiptsFail
  | ProposalToggled int
  | ApplyPressed goods_receipt
  | ApplyAnswered "failure option"

definition apply_answered :: "int \<Rightarrow> failure option \<Rightarrow> receipts_list \<Rightarrow> receipts_list" where
  "apply_answered orderId r s =
     (case r of
        None \<Rightarrow> s\<lparr>rls_selected := {}, rls_error := None, rls_applying := False,
          rls_stale := rls_stale s @ [[KStr (js ''purchasing''), KStr (js ''receipts''), KNum orderId],
                                      [KStr (js ''products'')]]\<rparr>
      | Some e \<Rightarrow> s\<lparr>rls_applying := False,
          rls_error := Some (if (case e of ApiFailure a \<Rightarrow> ae_status a = 409 | _ \<Rightarrow> False)
            then js ''La propuesta ya no es actual. Se han refrescado los costes recibidos.''
            else js ''No se ha podido actualizar el coste de cat'' @ [225] @ js ''logo.'')\<rparr>)"

text \<open>Other receptions leave only what they still propose among the chosen ones.\<close>

fun receipts_step :: "int \<Rightarrow> receipts_list \<Rightarrow> receipts_event \<Rightarrow> receipts_list" where
  "receipts_step orderId s (ReceiptsAre rs) = s\<lparr>rls_data := Some rs, rls_failed := False,
     rls_selected := rls_selected s \<inter> proposed_lines (Some rs)\<rparr>"
| "receipts_step orderId s ReceiptsFail = s\<lparr>rls_failed := True\<rparr>"
| "receipts_step orderId s (ProposalToggled i) = s\<lparr>rls_selected :=
     (if i \<in> rls_selected s then rls_selected s - {i} else insert i (rls_selected s))\<rparr>"
| "receipts_step orderId s (ApplyPressed r) = s\<lparr>rls_applying := True,
     rls_sent := rls_sent s @ [(grc_id r, apply_lines (rls_selected s) r)]\<rparr>"
| "receipts_step orderId s (ApplyAnswered r) = apply_answered orderId r s"

definition receipts_shown :: "receipts_list \<Rightarrow> goods_receipt list" where
  "receipts_shown s = (if rls_failed s then [] else case rls_data s of None \<Rightarrow> [] | Some rs \<Rightarrow> rs)"

fun receipts_enabled :: "bool \<Rightarrow> receipts_list \<Rightarrow> receipts_event \<Rightarrow> bool" where
  "receipts_enabled canManagePricing s (ProposalToggled i) =
     (canManagePricing \<and> i \<in> proposed_lines (Some (receipts_shown s)))"
| "receipts_enabled canManagePricing s (ApplyPressed r) =
     (canManagePricing \<and> r \<in> set (receipts_shown s) \<and> grc_cost_proposals r \<noteq> []
      \<and> rls_selected s \<noteq> {} \<and> \<not> rls_applying s)"
| "receipts_enabled canManagePricing s (ApplyAnswered r) = rls_applying s"
| "receipts_enabled canManagePricing s e = True"

definition receipts_ok :: "bool \<Rightarrow> receipts_list \<Rightarrow> bool" where
  "receipts_ok canManagePricing s \<longleftrightarrow> rls_selected s \<subseteq> proposed_lines (rls_data s)
     \<and> (rls_sent s \<noteq> [] \<longrightarrow> canManagePricing)"

lemma shown_proposed: "proposed_lines (Some (receipts_shown s)) \<subseteq> proposed_lines (rls_data s)"
  by (auto simp: proposed_lines_def receipts_shown_def split: option.splits)

interpretation receptions: event_machine "receipts_enabled canManagePricing" "receipts_step orderId"
    receipts_init "receipts_ok canManagePricing"
  for canManagePricing orderId
proof
  show "receipts_ok canManagePricing receipts_init" by (simp add: receipts_ok_def receipts_init_def)
next
  fix s e
  assume "receipts_ok canManagePricing s" and "receipts_enabled canManagePricing s e"
  then show "receipts_ok canManagePricing (receipts_step orderId s e)"
    using shown_proposed [of s]
    by (cases e) (auto simp: receipts_ok_def apply_answered_def split: option.splits)
qed

text \<open>
  What the button sends is chosen, and proposed by the receptions as they are now; when only another
  reception's costs are chosen, it sends no line at all.
\<close>

lemma applied_costs_current:
  assumes "reached (receipts_enabled canManagePricing) (receipts_step orderId) receipts_init s"
  shows "fst ` set (apply_lines (rls_selected s) r) \<subseteq> rls_selected s \<inter> proposed_lines (rls_data s)"
  using receptions.inv_reached [OF assms] by (auto simp: receipts_ok_def apply_lines_def)

lemma nothing_chosen_here:
  "\<forall>p \<in> set (grc_cost_proposals r). cpr_receipt_line_id p \<notin> rls_selected s \<Longrightarrow>
     rls_sent (receipts_step orderId s (ApplyPressed r)) = rls_sent s @ [(grc_id r, [])]"
  by (simp add: apply_lines_def)

end
