(* ===== verification/Lots.thy ===== *)
theory Lots
  imports Purchasing Keyed_Attempts "HOL-Library.List_Lexorder" "HOL-Library.Multiset"
begin

text \<open>
  Lots: the records and calls of \<open>features/lots/api.ts\<close>, the order in which a product's lots are
  listed and the row that edits one (\<open>LotsTable.tsx\<close>), the form of a new lot (\<open>CreateLotForm.tsx\<close>) and
  the panel that counts lots and takes stock out by expiration date (\<open>LotBalancesPanel.tsx\<close>), both as
  event machines.
\<close>

section \<open>Records and calls\<close>

record lot =
  lot_id :: int
  lot_product_id :: int
  lot_product_sku :: jsstring
  lot_lot_number :: jsstring
  lot_manufacturing_date :: "jsstring option"
  lot_expiration_date :: "jsstring option"
  lot_supplier_id :: "int option"
  lot_purchase_order_id :: "int option"

definition lotsQuery :: "int option \<Rightarrow> query_options" where
  "lotsQuery productId =
     \<lparr>q_key = [KStr (js ''lots''), KStr (js ''list''), key_or_null productId],
      q_call = get_call (js ''/lots?'' @ params_string (param_if (js ''product_id'') (map_option int_string productId) [])),
      q_enabled = True\<rparr>"

record opening_stock =
  ops_warehouse_id :: jsnum
  ops_location_id :: jsnum
  ops_quantity :: jsstring

record lot_update =
  lu_lot_number :: jsstring
  lu_manufacturing_date :: "jsstring option"
  lu_expiration_date :: "jsstring option"
  lu_supplier_id :: "jsnum option"

record lot_create = lot_update +
  lc_product_id :: int
  lc_purchase_order_id :: "int option"
  lc_opening_stock :: "opening_stock option"

definition lot_fields :: "'a lot_update_scheme \<Rightarrow> (jsstring \<times> json) list" where
  "lot_fields p = [(js ''lot_number'', JStr (lu_lot_number p)),
     (js ''manufacturing_date'', null_or JStr (lu_manufacturing_date p)),
     (js ''expiration_date'', null_or JStr (lu_expiration_date p)),
     (js ''supplier_id'', null_or json_number (lu_supplier_id p))]"

definition createLot :: "lot_create \<Rightarrow> api_call" where
  "createLot p = send_call POST (js ''/lots'') [] (Some (JObj ((js ''product_id'', JInt (lc_product_id p))
     # lot_fields p
     @ [(js ''purchase_order_id'', null_or JInt (lc_purchase_order_id p)),
        (js ''opening_stock'', null_or (\<lambda>o1. JObj [(js ''warehouse_id'', json_number (ops_warehouse_id o1)),
           (js ''location_id'', json_number (ops_location_id o1)),
           (js ''quantity'', JStr (ops_quantity o1))]) (lc_opening_stock p))])))"

definition lot_path :: "int \<Rightarrow> jsstring \<Rightarrow> jsstring" where
  "lot_path i rest = js ''/lots/'' @ int_string i @ rest"

definition updateLot :: "int \<Rightarrow> lot_update \<Rightarrow> api_call" where
  "updateLot i p = send_call PUT (lot_path i []) [] (Some (JObj (lot_fields p)))"

definition deleteLot :: "int \<Rightarrow> api_call" where
  "deleteLot i = send_call DELETE (lot_path i []) [] None"

record lot_stock_set =
  lss_warehouse_id :: jsnum
  lss_location_id :: jsnum
  lss_quantity :: jsstring
  lss_reason :: jsstring

definition setLotStock :: "int \<Rightarrow> lot_stock_set \<Rightarrow> api_call" where
  "setLotStock i p = send_call PUT (lot_path i (js ''/stock'')) []
     (Some (JObj [(js ''warehouse_id'', json_number (lss_warehouse_id p)),
        (js ''location_id'', json_number (lss_location_id p)), (js ''quantity'', JStr (lss_quantity p)),
        (js ''reason'', JStr (lss_reason p))]))"

record lot_balance =
  lb_lot :: lot
  lb_quantity :: jsstring

text \<open>A number in an address or a key; the ones of the panel come from the server.\<close>

definition lotBalancesQuery :: "int \<Rightarrow> jsnum \<Rightarrow> jsnum \<Rightarrow> query_options" where
  "lotBalancesQuery productId w l =
     \<lparr>q_key = [KStr (js ''lots''), KStr (js ''balances''), KNum productId, KNum (js_int w), KNum (js_int l)],
      q_call = get_call (products_path productId (js ''/lot-balances?warehouse_id='' @ js_String w
        @ js ''&location_id='' @ js_String l)), q_enabled = True\<rparr>"

record fefo_allocation =
  fa_lot_id :: int
  fa_lot_number :: jsstring
  fa_expiration_date :: "jsstring option"
  fa_quantity :: jsstring

record fefo_place =
  fp_warehouse_id :: jsnum
  fp_location_id :: jsnum
  fp_quantity :: jsstring

definition fefo_fields :: "'a fefo_place_scheme \<Rightarrow> (jsstring \<times> json) list" where
  "fefo_fields p = [(js ''warehouse_id'', json_number (fp_warehouse_id p)),
     (js ''location_id'', json_number (fp_location_id p)), (js ''quantity'', JStr (fp_quantity p))]"

definition planFefo :: "int \<Rightarrow> fefo_place \<Rightarrow> api_call" where
  "planFefo productId p =
     send_call POST (products_path productId (js ''/fefo-plan'')) [] (Some (JObj (fefo_fields p)))"

record fefo_consume = fefo_place +
  fc_movement_type :: adjustment_type
  fc_unit_cost :: jsstring
  fc_reason :: jsstring

definition fefo_consume_json :: "fefo_consume \<Rightarrow> json" where
  "fefo_consume_json p = JObj (fefo_fields p
     @ [(js ''movement_type'', JStr (adjustment_type_name (fc_movement_type p))),
        (js ''unit_cost'', JStr (fc_unit_cost p)), (js ''reason'', JStr (fc_reason p))])"

definition consumeFefo :: "int \<Rightarrow> fefo_consume \<Rightarrow> jsstring \<Rightarrow> api_call" where
  "consumeFefo productId p idempotencyKey =
     send_call POST (products_path productId (js ''/fefo-consume''))
       [(js ''Idempotency-Key'', idempotencyKey)] (Some (fefo_consume_json p))"

section \<open>The list of lots\<close>

text \<open>The comparison of the list; \<open>localeCompare\<close> of two ISO dates is the order of their text.\<close>

definition lots_compare :: "lot \<Rightarrow> lot \<Rightarrow> int" where
  "lots_compare a b =
     (case lot_expiration_date a of
        None \<Rightarrow> 1
      | Some da \<Rightarrow> (case lot_expiration_date b of
            None \<Rightarrow> - 1
          | Some db \<Rightarrow> if da < db then - 1 else if db < da then 1 else 0))"

text \<open>
  What the language promises of \<open>sort\<close>: the items of the array, each once; and, when the comparison
  is consistent on them in the sense of its definition, in the order of the comparison, with items
  that compare equal in the order they had. Otherwise the order is left to the implementation.
\<close>

definition consistent_on :: "('a \<Rightarrow> 'a \<Rightarrow> int) \<Rightarrow> 'a set \<Rightarrow> bool" where
  "consistent_on f S \<longleftrightarrow> (\<forall>a \<in> S. f a a = 0) \<and> (\<forall>a \<in> S. \<forall>b \<in> S. f a b = 0 \<longrightarrow> f b a = 0)
     \<and> (\<forall>a \<in> S. \<forall>b \<in> S. \<forall>c \<in> S. (f a b = 0 \<longrightarrow> f b c = 0 \<longrightarrow> f a c = 0)
          \<and> (f a b < 0 \<longrightarrow> f b c < 0 \<longrightarrow> f a c < 0) \<and> (0 < f a b \<longrightarrow> 0 < f b c \<longrightarrow> 0 < f a c))"

definition sort_may_return :: "('a \<Rightarrow> 'a \<Rightarrow> int) \<Rightarrow> 'a list \<Rightarrow> 'a list \<Rightarrow> bool" where
  "sort_may_return f xs ys \<longleftrightarrow> mset ys = mset xs
     \<and> (consistent_on f (set xs) \<longrightarrow> sorted_wrt (\<lambda>a b. f a b \<le> 0) ys
          \<and> (\<forall>a \<in> set xs. filter (\<lambda>b. f a b = 0) ys = filter (\<lambda>b. f a b = 0) xs))"

text \<open>The lists that the table may show for an answer.\<close>

definition lots_listed :: "lot list \<Rightarrow> lot list \<Rightarrow> bool" where
  "lots_listed lots shown \<longleftrightarrow> sort_may_return lots_compare lots shown"

definition dated :: "lot \<Rightarrow> bool" where
  "dated l \<longleftrightarrow> lot_expiration_date l \<noteq> None"

definition expires_first :: "lot \<Rightarrow> lot \<Rightarrow> bool" where
  "expires_first a b \<longleftrightarrow> the (lot_expiration_date a) \<le> the (lot_expiration_date b)"

lemma dated_compare:
  assumes "dated a" and "dated b"
  shows "lots_compare a b < 0 \<longleftrightarrow> the (lot_expiration_date a) < the (lot_expiration_date b)"
    and "0 < lots_compare a b \<longleftrightarrow> the (lot_expiration_date b) < the (lot_expiration_date a)"
    and "lots_compare a b = 0 \<longleftrightarrow> lot_expiration_date a = lot_expiration_date b"
    and "lots_compare a b \<le> 0 \<longleftrightarrow> expires_first a b"
  using assms by (auto simp: dated_def lots_compare_def expires_first_def split: if_splits)

lemma dated_same_key:
  "dated a \<Longrightarrow> dated b \<Longrightarrow>
     lots_compare a b = 0 \<longleftrightarrow> the (lot_expiration_date a) = the (lot_expiration_date b)"
  by (auto simp: dated_compare(3)) (auto simp: dated_def)

text \<open>The comparison is consistent on the lots of a list exactly when each has a date.\<close>

lemma lots_compare_consistent: "consistent_on lots_compare S \<longleftrightarrow> (\<forall>l \<in> S. dated l)"
proof
  assume f: "consistent_on lots_compare S"
  show "\<forall>l \<in> S. dated l"
  proof
    fix l
    assume "l \<in> S"
    with f have "lots_compare l l = 0" by (auto simp: consistent_on_def)
    then show "dated l" by (auto simp: lots_compare_def dated_def split: option.splits)
  qed
next
  assume "\<forall>l \<in> S. dated l"
  then show "consistent_on lots_compare S" by (auto simp: consistent_on_def dated_compare)
qed

text \<open>Some list can always be shown.\<close>

lemma lots_listed_some: "\<exists>shown. lots_listed lots shown"
proof (cases "\<forall>l \<in> set lots. dated l")
  case True
  let ?key = "\<lambda>l. the (lot_expiration_date l)"
  have "sorted_wrt (\<lambda>a b. lots_compare a b \<le> 0) (sort_key ?key lots)"
    using sorted_sort_key [of ?key lots] True
    by (auto simp: sorted_map dated_compare expires_first_def intro: sorted_wrt_mono_rel [rotated])
  moreover have "filter (\<lambda>b. lots_compare a b = 0) (sort_key ?key lots) = filter (\<lambda>b. lots_compare a b = 0) lots"
    if "a \<in> set lots" for a
  proof -
    have same: "filter (\<lambda>b. lots_compare a b = 0) xs = filter (\<lambda>b. ?key b = ?key a) xs" if "set xs \<subseteq> set lots" for xs
      using that True \<open>a \<in> set lots\<close> by (intro filter_cong) (auto simp: dated_same_key)
    show ?thesis
      using sort_key_stable [of ?key "?key a" lots] by (simp add: same)
  qed
  ultimately have "lots_listed lots (sort_key ?key lots)" by (auto simp: lots_listed_def sort_may_return_def)
  then show ?thesis ..
next
  case False
  then show ?thesis by (auto simp: lots_listed_def sort_may_return_def lots_compare_consistent)
qed

text \<open>C32: The table shows exactly the lots of the answer. When every lot has a date they are listed by
  expiration, an earlier date before a later one, and lots that expire together in the order the
  server gave them. A lot without a date makes the comparison inconsistent, so that the language
  leaves the order of the whole list open.\<close>

theorem lots_listed_by_expiration:
  assumes "lots_listed lots shown"
  shows "mset shown = mset lots
    \<and> ((\<forall>l \<in> set lots. dated l) \<longrightarrow> sorted_wrt expires_first shown
         \<and> (\<forall>d. filter (\<lambda>l. lot_expiration_date l = d) shown = filter (\<lambda>l. lot_expiration_date l = d) lots))
    \<and> (consistent_on lots_compare (set lots) \<longleftrightarrow> (\<forall>l \<in> set lots. dated l))"
proof -
  have perm: "mset shown = mset lots" using assms by (simp add: lots_listed_def sort_may_return_def)
  then have members: "set shown = set lots" by (metis set_mset_mset)
  have "sorted_wrt expires_first shown
      \<and> (\<forall>d. filter (\<lambda>l. lot_expiration_date l = d) shown = filter (\<lambda>l. lot_expiration_date l = d) lots)"
    if all: "\<forall>l \<in> set lots. dated l"
  proof
    have by_code: "sorted_wrt (\<lambda>a b. lots_compare a b \<le> 0) shown"
        "\<And>a. a \<in> set lots \<Longrightarrow> filter (\<lambda>b. lots_compare a b = 0) shown = filter (\<lambda>b. lots_compare a b = 0) lots"
      using assms all by (auto simp: lots_listed_def sort_may_return_def lots_compare_consistent)
    show "sorted_wrt expires_first shown"
      using by_code(1) by (rule sorted_wrt_mono_rel [rotated]) (use all members dated_compare(4) in blast)
    have same: "filter (\<lambda>b. lots_compare a b = 0) xs = filter (\<lambda>b. lot_expiration_date b = lot_expiration_date a) xs"
      if "set xs = set lots" "a \<in> set lots" for xs a
      using that all by (intro filter_cong) (auto simp: dated_compare)
    show "\<forall>d. filter (\<lambda>l. lot_expiration_date l = d) shown = filter (\<lambda>l. lot_expiration_date l = d) lots"
    proof
      fix d
      show "filter (\<lambda>l. lot_expiration_date l = d) shown = filter (\<lambda>l. lot_expiration_date l = d) lots"
      proof (cases "\<exists>a \<in> set lots. lot_expiration_date a = d")
        case True
        then obtain a where a: "a \<in> set lots" "lot_expiration_date a = d" by blast
        show ?thesis using by_code(2) [OF a(1)] same [OF members a(1)] same [OF refl a(1)] a(2) by simp
      next
        case False
        then show ?thesis using members by (simp add: filter_empty_conv)
      qed
    qed
  qed
  with perm lots_compare_consistent show ?thesis by blast
qed

text \<open>One undated lot compared with another comes after it, whichever is asked first.\<close>

lemma undated_lots_undecided:
  "\<not> dated a \<Longrightarrow> \<not> dated b \<Longrightarrow> 0 < lots_compare a b \<and> 0 < lots_compare b a"
  by (auto simp: lots_compare_def dated_def)

definition sample_lot :: "int \<Rightarrow> jsstring \<Rightarrow> lot" where
  "sample_lot i d = \<lparr>lot_id = i, lot_product_id = 7, lot_product_sku = [], lot_lot_number = int_string i,
     lot_manufacturing_date = None, lot_expiration_date = Some d, lot_supplier_id = None,
     lot_purchase_order_id = None\<rparr>"

definition sample_lots_answer :: "lot list" where
  "sample_lots_answer = [sample_lot 1 (js ''2026-05-01''), sample_lot 2 (js ''2026-01-31''),
     sample_lot 3 (js ''2026-05-01'')]"

definition sample_lots_shown :: "lot list" where
  "sample_lots_shown = [sample_lot 2 (js ''2026-01-31''), sample_lot 1 (js ''2026-05-01''),
     sample_lot 3 (js ''2026-05-01'')]"

lemma sample_lots_listed: "lots_listed sample_lots_answer sample_lots_shown"
proof -
  have mset: "mset sample_lots_shown = mset sample_lots_answer"
    by (simp add: sample_lots_shown_def sample_lots_answer_def)
  have ordered: "sorted_wrt (\<lambda>a b. lots_compare a b \<le> 0) sample_lots_shown"
    by code_simp
  have stable: "\<forall>a \<in> set sample_lots_answer. filter (\<lambda>b. lots_compare a b = 0) sample_lots_shown
      = filter (\<lambda>b. lots_compare a b = 0) sample_lots_answer"
    by code_simp
  show ?thesis unfolding lots_listed_def sort_may_return_def using mset ordered stable by blast
qed

theorem lots_listed_by_expiration_witness:
  "sorted_wrt expires_first sample_lots_shown
     \<and> filter (\<lambda>l. lot_expiration_date l = Some (js ''2026-05-01'')) sample_lots_shown
         = [sample_lot 1 (js ''2026-05-01''), sample_lot 3 (js ''2026-05-01'')]"
proof -
  have dates: "\<forall>l \<in> set sample_lots_answer. dated l"
    by (simp add: sample_lots_answer_def sample_lot_def dated_def)
  have may: "filter (\<lambda>l. lot_expiration_date l = Some (js ''2026-05-01'')) sample_lots_answer
      = [sample_lot 1 (js ''2026-05-01''), sample_lot 3 (js ''2026-05-01'')]"
    by code_simp
  show ?thesis using lots_listed_by_expiration [OF sample_lots_listed] dates may by simp
qed

text \<open>The row that edits a lot; it can be saved when the number is not blank.\<close>

definition edit_lot_init :: "lot \<Rightarrow> lot_update" where
  "edit_lot_init l = \<lparr>lu_lot_number = lot_lot_number l, lu_manufacturing_date = lot_manufacturing_date l,
     lu_expiration_date = lot_expiration_date l,
     lu_supplier_id = map_option (\<lambda>i. JsNum (of_int i)) (lot_supplier_id l)\<rparr>"

definition or_null :: "jsstring \<Rightarrow> jsstring option" where
  "or_null v = (if v = [] then None else Some v)"

datatype lot_field = LotNumber | LotMade | LotExpires | LotSupplier

fun edit_lot :: "lot_update \<Rightarrow> lot_field \<Rightarrow> jsstring \<Rightarrow> lot_update" where
  "edit_lot s LotNumber v = s\<lparr>lu_lot_number := v\<rparr>"
| "edit_lot s LotMade v = s\<lparr>lu_manufacturing_date := or_null v\<rparr>"
| "edit_lot s LotExpires v = s\<lparr>lu_expiration_date := or_null v\<rparr>"
| "edit_lot s LotSupplier v = s\<lparr>lu_supplier_id := map_option js_Number (or_null v)\<rparr>"

definition edit_lot_saves :: "bool \<Rightarrow> lot_update \<Rightarrow> bool" where
  "edit_lot_saves isSaving s \<longleftrightarrow> \<not> isSaving \<and> js_trim (lu_lot_number s) \<noteq> []"

section \<open>A new lot\<close>

record lot_form = place_lists +
  ltf_number :: jsstring
  ltf_made :: jsstring
  ltf_expires :: jsstring
  ltf_supplier :: jsstring
  ltf_quantity :: jsstring
  ltf_warehouse :: jsstring
  ltf_location :: jsstring
  ltf_errors :: "jsstring list"
  ltf_submitted :: "lot_create list"

definition lot_form_init :: lot_form where
  "lot_form_init = \<lparr>skf_warehouses = None, skf_locations = (\<lambda>w. None), ltf_number = [], ltf_made = [],
     ltf_expires = [], ltf_supplier = [], ltf_quantity = js ''0'', ltf_warehouse = [], ltf_location = [],
     ltf_errors = [], ltf_submitted = []\<rparr>"

text \<open>
  The schema: the fields at fault, or the quantity as it leaves it. The place is asked for unless the
  quantity is zero, also when another field is at fault.
\<close>

definition createLotSchema :: "lot_form \<Rightarrow> jsstring list + jsstring" where
  "createLotSchema s =
     (let q = decimalString (Some (JsNum 0)) (ltf_quantity s);
          stock = \<not> js_Number (js_replace cu_comma [cu_dot] (decimal_transform (ltf_quantity s))) \<le> JsNum 0;
          issues = field_if (ltf_number s = [] \<or> 100 < length (ltf_number s)) ''lot_number''
            @ field_if (isl q) ''opening_quantity''
            @ field_if (stock \<and> ltf_warehouse s = []) ''opening_warehouse_id''
            @ field_if (stock \<and> ltf_location s = []) ''opening_location_id''
      in case q of Inr qv \<Rightarrow> if issues = [] then Inr qv else Inl issues | Inl e \<Rightarrow> Inl issues)"

definition lot_form_submit :: "int \<Rightarrow> lot_form \<Rightarrow> jsstring list + lot_create" where
  "lot_form_submit productId s =
     (case createLotSchema s of
        Inl issues \<Rightarrow> Inl issues
      | Inr q \<Rightarrow> (let dotted = js_replace cu_comma [cu_dot] q in
          Inr \<lparr>lu_lot_number = ltf_number s, lu_manufacturing_date = or_null (ltf_made s),
            lu_expiration_date = or_null (ltf_expires s),
            lu_supplier_id = map_option js_Number (or_null (ltf_supplier s)),
            lc_product_id = productId, lc_purchase_order_id = None,
            lc_opening_stock =
              (if JsNum 0 < js_Number dotted
               then Some \<lparr>ops_warehouse_id = js_Number (ltf_warehouse s),
                 ops_location_id = js_Number (ltf_location s), ops_quantity = dotted\<rparr>
               else None)\<rparr>))"

definition lot_form_reset :: "lot_form \<Rightarrow> lot_form" where
  "lot_form_reset s = s\<lparr>ltf_number := [], ltf_made := [], ltf_expires := [], ltf_supplier := [],
     ltf_quantity := js ''0'', ltf_warehouse := [], ltf_location := [], ltf_errors := []\<rparr>"

definition lot_form_effects :: "lot_form \<Rightarrow> lot_form" where
  "lot_form_effects s = s\<lparr>ltf_warehouse := useDefaultToFirstOption (ltf_warehouse s) (skf_warehouses s),
     ltf_location := useDefaultToFirstOption (ltf_location s) (form_locations s (ltf_warehouse s))\<rparr>"

datatype lot_event =
    LotWarehouses "int list"
  | LotLocations int "int list"
  | LotTyped lot_field jsstring
  | OpeningQuantity jsstring
  | OpeningWarehouse jsstring
  | OpeningLocation jsstring
  | LotSubmit

fun lot_handle :: "int \<Rightarrow> lot_form \<Rightarrow> lot_event \<Rightarrow> lot_form" where
  "lot_handle productId s (LotWarehouses ws) = s\<lparr>skf_warehouses := Some ws\<rparr>"
| "lot_handle productId s (LotLocations w ls) = s\<lparr>skf_locations := (skf_locations s)(w \<mapsto> ls)\<rparr>"
| "lot_handle productId s (LotTyped LotNumber v) = s\<lparr>ltf_number := v\<rparr>"
| "lot_handle productId s (LotTyped LotMade v) = s\<lparr>ltf_made := v\<rparr>"
| "lot_handle productId s (LotTyped LotExpires v) = s\<lparr>ltf_expires := v\<rparr>"
| "lot_handle productId s (LotTyped LotSupplier v) = s\<lparr>ltf_supplier := v\<rparr>"
| "lot_handle productId s (OpeningQuantity v) = s\<lparr>ltf_quantity := v\<rparr>"
| "lot_handle productId s (OpeningWarehouse v) = s\<lparr>ltf_warehouse := v\<rparr>"
| "lot_handle productId s (OpeningLocation v) = s\<lparr>ltf_location := v\<rparr>"
| "lot_handle productId s LotSubmit =
     (case lot_form_submit productId s of
        Inl issues \<Rightarrow> s\<lparr>ltf_errors := issues\<rparr>
      | Inr p \<Rightarrow> (lot_form_reset s)\<lparr>ltf_submitted := ltf_submitted s @ [p]\<rparr>)"

definition lot_step :: "int \<Rightarrow> lot_form \<Rightarrow> lot_event \<Rightarrow> lot_form" where
  "lot_step productId s e = lot_form_effects (lot_form_effects (lot_handle productId s e))"

text \<open>The places cannot be chosen while the quantity is exactly the text \<open>0\<close>.\<close>

fun lot_enabled :: "supplier list \<Rightarrow> bool \<Rightarrow> lot_form \<Rightarrow> lot_event \<Rightarrow> bool" where
  "lot_enabled suppliers isPending s (LotWarehouses ws) = (\<forall>w \<in> set ws. server_id w)"
| "lot_enabled suppliers isPending s (LotLocations w ls) = (\<forall>l \<in> set ls. server_id l)"
| "lot_enabled suppliers isPending s (LotTyped LotSupplier v) =
     (v = [] \<or> v \<in> set (map (\<lambda>x. int_string (sup_id x)) suppliers))"
| "lot_enabled suppliers isPending s (OpeningWarehouse v) =
     (ltf_quantity s \<noteq> js ''0'' \<and> warehouse_offered s v)"
| "lot_enabled suppliers isPending s (OpeningLocation v) =
     (ltf_quantity s \<noteq> js ''0'' \<and> location_offered s (ltf_warehouse s) v)"
| "lot_enabled suppliers isPending s LotSubmit = (\<not> isPending)"
| "lot_enabled suppliers isPending s e = True"

text \<open>The invariant of the form: its two lists have settled.\<close>

definition lot_form_ok :: "lot_form \<Rightarrow> bool" where
  "lot_form_ok s \<longleftrightarrow> places_ok s \<and> pair_ok s (ltf_warehouse s) (ltf_location s)"

lemma lot_form_updates [simp]:
  "form_locations (s\<lparr>ltf_warehouse := w, ltf_location := l\<rparr>) = form_locations s"
  "pair_ok (s\<lparr>ltf_warehouse := w, ltf_location := l\<rparr>) = pair_ok s"
  "places_ok (s\<lparr>ltf_warehouse := w, ltf_location := l\<rparr>) = places_ok s"
  by (auto simp: form_locations_def pair_ok_def places_ok_def fun_eq_iff)

lemma lot_handle_ready:
  fixes productId :: int
  assumes "lot_form_ok s" and "lot_enabled suppliers isPending s e"
  defines "t \<equiv> lot_handle productId s e"
  shows "places_ok t" and "id_field (ltf_location t)" and "skf_warehouses t = None \<Longrightarrow> ltf_warehouse t = []"
proof -
  have ok: "places_ok s" "id_field (ltf_location s)" "skf_warehouses s = None \<Longrightarrow> ltf_warehouse s = []"
    using assms(1) by (auto simp: lot_form_ok_def pair_ok_def)
  show "places_ok t"
    unfolding t_def using ok(1) assms(2)
    by (cases "(productId, s, e)" rule: lot_handle.cases)
      (auto simp: places_ok_def lot_form_reset_def split: sum.splits if_splits)
  show "id_field (ltf_location t)"
    unfolding t_def using ok(2) assms(2) form_locations_ids [OF ok(1)]
    by (cases "(productId, s, e)" rule: lot_handle.cases)
      (auto simp: offered_def id_field_def lot_form_reset_def split: option.splits sum.splits)
  assume "skf_warehouses t = None"
  then show "ltf_warehouse t = []"
    unfolding t_def using ok(3) assms(2)
    by (cases "(productId, s, e)" rule: lot_handle.cases)
      (auto simp: offered_def lot_form_reset_def split: option.splits sum.splits)
qed

lemma lot_step_ok:
  assumes "lot_form_ok s" and "lot_enabled suppliers isPending s e"
  shows "lot_form_ok (lot_step productId s e)"
  using pair_ok_passes [OF lot_handle_ready [OF assms]] lot_handle_ready(1) [OF assms]
  by (simp add: lot_form_ok_def lot_step_def lot_form_effects_def)

interpretation new_lot: event_machine "lot_enabled suppliers isPending" "lot_step productId" lot_form_init
    lot_form_ok
  for suppliers isPending productId
proof
  show "lot_form_ok lot_form_init"
    by (simp add: lot_form_ok_def lot_form_init_def places_ok_def pair_ok_def form_locations_def
        drop_down.waits id_field_def)
qed (rule lot_step_ok)

lemma is_decimal6_no_comma: "is_decimal6 s \<Longrightarrow> js_replace cu_comma r s = s"
proof -
  have absent: "c \<notin> set s \<Longrightarrow> js_replace c r s = s" for c s by (induction s) auto
  have "cu_comma \<notin> set s" if "is_decimal6 s"
    using that by (cases rule: is_decimal6_cases) (auto simp: js_digit_def ball_Un)
  then show "is_decimal6 s \<Longrightarrow> js_replace cu_comma r s = s" using absent by blast
qed

lemma createLotSchemaD:
  assumes "createLotSchema s = Inr q"
  shows "ltf_number s \<noteq> []" "length (ltf_number s) \<le> 100" "is_decimal6 q" "JsNum 0 \<le> js_Number q"
    "js_replace cu_comma [cu_dot] q = q"
    "\<not> js_Number q \<le> JsNum 0 \<Longrightarrow> ltf_warehouse s \<noteq> [] \<and> ltf_location s \<noteq> []"
proof -
  have q: "decimalString (Some (JsNum 0)) (ltf_quantity s) = Inr q"
    and no: "ltf_number s \<noteq> []" "\<not> 100 < length (ltf_number s)"
    and place: "\<not> js_Number (js_replace cu_comma [cu_dot] (decimal_transform (ltf_quantity s))) \<le> JsNum 0
        \<Longrightarrow> ltf_warehouse s \<noteq> [] \<and> ltf_location s \<noteq> []"
    using assms by (auto simp: createLotSchema_def Let_def field_if_def split: sum.splits if_splits)
  have t: "q = decimal_transform (ltf_quantity s)"
    using q by (auto simp: decimalString_def Let_def split: if_splits)
  show "ltf_number s \<noteq> []" "length (ltf_number s) \<le> 100" "is_decimal6 q" "JsNum 0 \<le> js_Number q"
    using no decimalString_ok [OF q] by auto
  then show dot: "js_replace cu_comma [cu_dot] q = q" by (simp add: is_decimal6_no_comma)
  show "\<not> js_Number q \<le> JsNum 0 \<Longrightarrow> ltf_warehouse s \<noteq> [] \<and> ltf_location s \<noteq> []"
    using place dot t by simp
qed

lemma jsnum_less_not_le: "JsNum 0 < x \<Longrightarrow> \<not> x \<le> JsNum 0"
  by (cases x) (auto simp: less_jsnum_def less_eq_jsnum_def)

text \<open>A new lot puts no goods nowhere: whatever is done in the form, the lot it would send is of this
  product and has a number of 1 to 100 characters; it brings opening stock exactly when the quantity
  typed is above zero, then with that quantity as a decimal, into a warehouse of the list and, once
  its locations have come, one of them.\<close>

lemma new_lot_names_its_place:
  assumes "run_ok (lot_enabled suppliers isPending) (lot_step productId) lot_form_init es"
    and "s = foldl (lot_step productId) lot_form_init es" and "lot_form_submit productId s = Inr p"
  shows "lc_product_id p = productId \<and> lu_lot_number p \<noteq> [] \<and> length (lu_lot_number p) \<le> 100
    \<and> (case lc_opening_stock p of
         None \<Rightarrow> \<not> JsNum 0 < js_Number (decimal_transform (ltf_quantity s))
       | Some stock \<Rightarrow> is_decimal6 (ops_quantity stock) \<and> JsNum 0 < js_Number (ops_quantity stock)
           \<and> (\<exists>i j ws. skf_warehouses s = Some ws \<and> i \<in> set ws \<and> ops_warehouse_id stock = JsNum (of_int i)
              \<and> ops_location_id stock = JsNum (of_int j)
              \<and> (\<forall>ls. skf_locations s i = Some ls \<longrightarrow> j \<in> set ls)))"
proof -
  obtain q where q: "createLotSchema s = Inr q"
    using assms(3) by (auto simp: lot_form_submit_def split: sum.splits)
  note ok = createLotSchemaD [OF q]
  have t: "q = decimal_transform (ltf_quantity s)"
    using q by (auto simp: createLotSchema_def decimalString_def Let_def split: sum.splits if_splits)
  have places: "places_ok s" "pair_ok s (ltf_warehouse s) (ltf_location s)"
    using new_lot.inv_reached [OF reached_run [OF assms(1)]] assms(2) by (auto simp: lot_form_ok_def)
  have p: "lc_product_id p = productId" "lu_lot_number p = ltf_number s"
    "lc_opening_stock p = (if JsNum 0 < js_Number q
       then Some \<lparr>ops_warehouse_id = js_Number (ltf_warehouse s),
         ops_location_id = js_Number (ltf_location s), ops_quantity = q\<rparr> else None)"
    using assms(3) q ok(5) by (auto simp: lot_form_submit_def Let_def)
  show ?thesis
  proof (cases "JsNum 0 < js_Number q")
    case True
    then have filled: "ltf_warehouse s \<noteq> []" "ltf_location s \<noteq> []"
      using ok(6) jsnum_less_not_le by auto
    obtain ws i j where "skf_warehouses s = Some ws" "i \<in> set ws"
        "js_Number (ltf_warehouse s) = JsNum (of_int i)" "js_Number (ltf_location s) = JsNum (of_int j)"
        "\<And>ls. skf_locations s i = Some ls \<Longrightarrow> j \<in> set ls"
      using pair_ok_sends [OF places(2,1) filled] by metis
    then show ?thesis using True p ok(1-3) by auto
  qed (use p ok t in auto)
qed

section \<open>Lots counted and taken out\<close>

record lots_env =
  lbe_product :: int
  lbe_canManage :: bool
  lbe_key :: "nat \<Rightarrow> jsstring"

text \<open>The balances are those that have come for a warehouse and a location, as the query keeps them.\<close>

record lot_panel = place_lists +
  lbp_balances :: "jsstring \<Rightarrow> jsstring \<Rightarrow> lot_balance list option"
  lbp_warehouse :: jsstring
  lbp_location :: jsstring
  lbp_quantity :: jsstring
  lbp_type :: adjustment_type
  lbp_cost :: jsstring
  lbp_reason :: jsstring
  lbp_plan :: "fefo_allocation list option"
  lbp_error :: "jsstring option"
  lbp_editing :: "int option"
  lbp_counted :: jsstring
  lbp_count_reason :: jsstring
  lbp_attempt :: "(json, jsstring) attempts"
  lbp_planning :: bool
  lbp_consuming :: bool
  lbp_setting :: bool
  lbp_taken :: "(fefo_consume \<times> jsstring) list"
  lbp_calls :: "api_call list"
  lbp_stale :: "query_key list list"

definition lot_panel_init :: lot_panel where
  "lot_panel_init = \<lparr>skf_warehouses = None, skf_locations = (\<lambda>w. None), lbp_balances = (\<lambda>w l. None),
     lbp_warehouse = [], lbp_location = [], lbp_quantity = [], lbp_type = ADJUSTMENT, lbp_cost = js ''0'',
     lbp_reason = [], lbp_plan = None, lbp_error = None, lbp_editing = None, lbp_counted = [],
     lbp_count_reason = [], lbp_attempt = no_attempts, lbp_planning = False, lbp_consuming = False,
     lbp_setting = False, lbp_taken = [], lbp_calls = [], lbp_stale = []\<rparr>"

text \<open>The balances drawn, with everything that acts on them: only when a place is chosen.\<close>

definition place_chosen :: "lot_panel \<Rightarrow> bool" where
  "place_chosen s \<longleftrightarrow> lbp_warehouse s \<noteq> [] \<and> lbp_location s \<noteq> []"

definition balances_shown :: "lot_panel \<Rightarrow> lot_balance list" where
  "balances_shown s =
     (if place_chosen s
      then (case lbp_balances s (lbp_warehouse s) (lbp_location s) of None \<Rightarrow> [] | Some bs \<Rightarrow> bs)
      else [])"

definition quantityValid :: "lot_panel \<Rightarrow> bool" where
  "quantityValid s \<longleftrightarrow> \<not> isl (decimalString (Some min_quantity) (lbp_quantity s))"

definition countedQuantityValid :: "lot_panel \<Rightarrow> bool" where
  "countedQuantityValid s \<longleftrightarrow> \<not> isl (decimalString (Some (JsNum 0)) (lbp_counted s))"

definition plan_place :: "lot_panel \<Rightarrow> fefo_place" where
  "plan_place s = \<lparr>fp_warehouse_id = js_Number (lbp_warehouse s),
     fp_location_id = js_Number (lbp_location s), fp_quantity = lbp_quantity s\<rparr>"

definition consume_payload :: "lot_panel \<Rightarrow> fefo_consume" where
  "consume_payload s = \<lparr>fp_warehouse_id = js_Number (lbp_warehouse s),
     fp_location_id = js_Number (lbp_location s), fp_quantity = lbp_quantity s,
     fc_movement_type = lbp_type s, fc_unit_cost = lbp_cost s, fc_reason = lbp_reason s\<rparr>"

definition consume_fingerprint :: "int \<Rightarrow> fefo_consume \<Rightarrow> json" where
  "consume_fingerprint productId p =
     JObj [(js ''productId'', JInt productId), (js ''payload'', fefo_consume_json p)]"

definition press_consume :: "lots_env \<Rightarrow> lot_panel \<Rightarrow> lot_panel" where
  "press_consume env s =
     (let p = consume_payload s; fp = consume_fingerprint (lbe_product env) p;
          key = fst (keyed_attempt (lbe_key env) fp (lbp_attempt s))
      in s\<lparr>lbp_attempt := attempt_send (lbe_key env) fp (lbp_attempt s), lbp_consuming := True,
           lbp_taken := lbp_taken s @ [(p, key)],
           lbp_calls := lbp_calls s @ [consumeFefo (lbe_product env) p key]\<rparr>)"

definition count_call :: "lot_panel \<Rightarrow> lot_balance \<Rightarrow> api_call" where
  "count_call s b = setLotStock (lot_id (lb_lot b))
     \<lparr>lss_warehouse_id = js_Number (lbp_warehouse s), lss_location_id = js_Number (lbp_location s),
      lss_quantity = js_replace cu_comma [cu_dot] (lbp_counted s), lss_reason = lbp_count_reason s\<rparr>"

definition stale_balances :: "lots_env \<Rightarrow> lot_panel \<Rightarrow> lot_panel" where
  "stale_balances env s = s\<lparr>lbp_stale := lbp_stale s
     @ [[KStr (js ''lots''), KStr (js ''balances''), KNum (lbe_product env)]]\<rparr>"

datatype lot_panel_event =
    PanelWarehouses "int list"
  | PanelLocations int "int list"
  | PanelBalances jsstring jsstring "lot_balance list"
  | PanelWarehouse jsstring
  | PanelLocation jsstring
  | CountStart lot_balance
  | CountTyped jsstring
  | CountReason jsstring
  | CountSave lot_balance
  | CountCancel
  | CountAnswered "failure option"
  | FefoQuantity jsstring
  | PlanPressed
  | PlanAnswered "failure + fefo_allocation list"
  | FefoType adjustment_type
  | FefoCost jsstring
  | FefoReason jsstring
  | ConsumePressed
  | ConsumeAnswered "failure + fefo_allocation list"

definition count_answered :: "lots_env \<Rightarrow> failure option \<Rightarrow> lot_panel \<Rightarrow> lot_panel" where
  "count_answered env r s =
     (case r of
        None \<Rightarrow> (stale_balances env s)\<lparr>lbp_setting := False, lbp_editing := None, lbp_counted := [],
          lbp_count_reason := [], lbp_error := None,
          lbp_stale := lbp_stale (stale_balances env s) @ [[KStr (js ''inventory''), KStr (js ''balances'')]]\<rparr>
      | Some e \<Rightarrow> s\<lparr>lbp_setting := False,
          lbp_error := Some (failure_text (js ''No se ha podido corregir el stock del lote.'') e)\<rparr>)"

definition plan_answered :: "failure + fefo_allocation list \<Rightarrow> lot_panel \<Rightarrow> lot_panel" where
  "plan_answered r s =
     (case r of
        Inr allocations \<Rightarrow> s\<lparr>lbp_planning := False, lbp_plan := Some allocations, lbp_error := None\<rparr>
      | Inl e \<Rightarrow> s\<lparr>lbp_planning := False, lbp_plan := None,
          lbp_error := Some (failure_text (js ''No se ha podido calcular el plan FEFO.'') e)\<rparr>)"

definition consume_answered :: "lots_env \<Rightarrow> failure + fefo_allocation list \<Rightarrow> lot_panel \<Rightarrow> lot_panel" where
  "consume_answered env r s =
     (case r of
        Inr allocations \<Rightarrow> (stale_balances env s)\<lparr>lbp_consuming := False,
          lbp_attempt := attempt_forget (lbp_attempt s), lbp_plan := Some allocations, lbp_error := None\<rparr>
      | Inl e \<Rightarrow> s\<lparr>lbp_consuming := False,
          lbp_error := Some (failure_text (js ''No se ha podido consumir el stock.'') e)\<rparr>)"

fun lot_panel_handle :: "lots_env \<Rightarrow> lot_panel \<Rightarrow> lot_panel_event \<Rightarrow> lot_panel" where
  "lot_panel_handle env s (PanelWarehouses ws) = s\<lparr>skf_warehouses := Some ws\<rparr>"
| "lot_panel_handle env s (PanelLocations w ls) = s\<lparr>skf_locations := (skf_locations s)(w \<mapsto> ls)\<rparr>"
| "lot_panel_handle env s (PanelBalances w l bs) =
     s\<lparr>lbp_balances := (lbp_balances s)(w := (lbp_balances s w)(l \<mapsto> bs))\<rparr>"
| "lot_panel_handle env s (PanelWarehouse v) = s\<lparr>lbp_warehouse := v, lbp_location := [], lbp_plan := None\<rparr>"
| "lot_panel_handle env s (PanelLocation v) = s\<lparr>lbp_location := v, lbp_plan := None\<rparr>"
| "lot_panel_handle env s (CountStart b) = s\<lparr>lbp_editing := Some (lot_id (lb_lot b)),
     lbp_counted := decimalInputValue (lb_quantity b), lbp_count_reason := [], lbp_error := None\<rparr>"
| "lot_panel_handle env s (CountTyped v) = s\<lparr>lbp_counted := v\<rparr>"
| "lot_panel_handle env s (CountReason v) = s\<lparr>lbp_count_reason := v\<rparr>"
| "lot_panel_handle env s (CountSave b) =
     s\<lparr>lbp_setting := True, lbp_calls := lbp_calls s @ [count_call s b]\<rparr>"
| "lot_panel_handle env s CountCancel = s\<lparr>lbp_editing := None, lbp_counted := [], lbp_count_reason := []\<rparr>"
| "lot_panel_handle env s (CountAnswered r) = count_answered env r s"
| "lot_panel_handle env s (FefoQuantity v) = s\<lparr>lbp_quantity := v, lbp_plan := None\<rparr>"
| "lot_panel_handle env s PlanPressed =
     s\<lparr>lbp_planning := True, lbp_calls := lbp_calls s @ [planFefo (lbe_product env) (plan_place s)]\<rparr>"
| "lot_panel_handle env s (PlanAnswered r) = plan_answered r s"
| "lot_panel_handle env s (FefoType t) = s\<lparr>lbp_type := t\<rparr>"
| "lot_panel_handle env s (FefoCost v) = s\<lparr>lbp_cost := v\<rparr>"
| "lot_panel_handle env s (FefoReason v) = s\<lparr>lbp_reason := v\<rparr>"
| "lot_panel_handle env s ConsumePressed = press_consume env s"
| "lot_panel_handle env s (ConsumeAnswered r) = consume_answered env r s"

definition lot_panel_effects :: "lot_panel \<Rightarrow> lot_panel" where
  "lot_panel_effects s = s\<lparr>lbp_warehouse := useDefaultToFirstOption (lbp_warehouse s) (skf_warehouses s),
     lbp_location := useDefaultToFirstOption (lbp_location s) (form_locations s (lbp_warehouse s))\<rparr>"

definition lot_panel_step :: "lots_env \<Rightarrow> lot_panel \<Rightarrow> lot_panel_event \<Rightarrow> lot_panel" where
  "lot_panel_step env s e = lot_panel_effects (lot_panel_effects (lot_panel_handle env s e))"

fun lot_panel_enabled :: "lots_env \<Rightarrow> lot_panel \<Rightarrow> lot_panel_event \<Rightarrow> bool" where
  "lot_panel_enabled env s (PanelWarehouses ws) = (\<forall>w \<in> set ws. server_id w)"
| "lot_panel_enabled env s (PanelLocations w ls) = (\<forall>l \<in> set ls. server_id l)"
| "lot_panel_enabled env s (PanelWarehouse v) = warehouse_offered s v"
| "lot_panel_enabled env s (PanelLocation v) =
     (lbp_warehouse s \<noteq> [] \<and> location_offered s (lbp_warehouse s) v)"
| "lot_panel_enabled env s (CountStart b) =
     (lbe_canManage env \<and> b \<in> set (balances_shown s) \<and> lbp_editing s \<noteq> Some (lot_id (lb_lot b))
      \<and> \<not> lbp_setting s)"
| "lot_panel_enabled env s (CountSave b) =
     (lbe_canManage env \<and> b \<in> set (balances_shown s) \<and> lbp_editing s = Some (lot_id (lb_lot b))
      \<and> countedQuantityValid s \<and> \<not> lbp_setting s)"
| "lot_panel_enabled env s CountCancel = (lbp_editing s \<noteq> None \<and> \<not> lbp_setting s)"
| "lot_panel_enabled env s (CountAnswered r) = lbp_setting s"
| "lot_panel_enabled env s (FefoQuantity v) = (lbe_canManage env \<and> place_chosen s)"
| "lot_panel_enabled env s PlanPressed =
     (lbe_canManage env \<and> place_chosen s \<and> quantityValid s \<and> \<not> lbp_planning s)"
| "lot_panel_enabled env s (PlanAnswered r) = lbp_planning s"
| "lot_panel_enabled env s ConsumePressed =
     (lbe_canManage env \<and> place_chosen s \<and> lbp_plan s \<noteq> None \<and> \<not> lbp_consuming s)"
| "lot_panel_enabled env s (ConsumeAnswered r) = lbp_consuming s"
| "lot_panel_enabled env s e = True"

lemma lot_panel_updates [simp]:
  "form_locations (s\<lparr>lbp_warehouse := w, lbp_location := l\<rparr>) = form_locations s"
  "pair_ok (s\<lparr>lbp_warehouse := w, lbp_location := l\<rparr>) = pair_ok s"
  "places_ok (s\<lparr>lbp_warehouse := w, lbp_location := l\<rparr>) = places_ok s"
  by (auto simp: form_locations_def pair_ok_def places_ok_def fun_eq_iff)

lemma lot_panel_effects_keep [simp]:
  "lbp_attempt (lot_panel_effects s) = lbp_attempt s" "lbp_taken (lot_panel_effects s) = lbp_taken s"
  "lbp_calls (lot_panel_effects s) = lbp_calls s" "lbp_plan (lot_panel_effects s) = lbp_plan s"
  by (simp_all add: lot_panel_effects_def)

lemmas lot_answers = count_answered_def plan_answered_def consume_answered_def stale_balances_def
  press_consume_def

text \<open>
  What has been taken out: with the key it was sent with, for a warehouse and a location of lists
  that came, which are within \<open>W\<close> and \<open>L\<close>.
\<close>

definition panel_given :: "int set \<Rightarrow> int set \<Rightarrow> lot_panel \<Rightarrow> bool" where
  "panel_given W L s \<longleftrightarrow> (\<forall>ws. skf_warehouses s = Some ws \<longrightarrow> set ws \<subseteq> W) \<and> locations_given L s
     \<and> given L (lbp_location s)"

definition taken_ok :: "int set \<Rightarrow> int set \<Rightarrow> lots_env \<Rightarrow> lot_panel \<Rightarrow> bool" where
  "taken_ok W L env s \<longleftrightarrow>
     att_sent (lbp_attempt s) = map (\<lambda>(p, k). (consume_fingerprint (lbe_product env) p, k)) (lbp_taken s)
     \<and> (\<forall>(p, k) \<in> set (lbp_taken s). lbe_canManage env
          \<and> consumeFefo (lbe_product env) p k \<in> set (lbp_calls s)
          \<and> (\<exists>i \<in> W. \<exists>j \<in> L. server_id i \<and> server_id j \<and> fp_warehouse_id p = JsNum (of_int i)
                \<and> fp_location_id p = JsNum (of_int j)))"

definition lot_panel_ok :: "int set \<Rightarrow> int set \<Rightarrow> lots_env \<Rightarrow> lot_panel \<Rightarrow> bool" where
  "lot_panel_ok W L env s \<longleftrightarrow> places_ok s \<and> pair_ok s (lbp_warehouse s) (lbp_location s)
     \<and> panel_given W L s \<and> taken_ok W L env s"

lemma lot_panel_ready:
  assumes "lot_panel_ok W L env s" and "lot_panel_enabled env s e"
  defines "t \<equiv> lot_panel_handle env s e"
  shows "places_ok t" and "id_field (lbp_location t)" and "skf_warehouses t = None \<Longrightarrow> lbp_warehouse t = []"
proof -
  have ok: "places_ok s" "id_field (lbp_location s)" "skf_warehouses s = None \<Longrightarrow> lbp_warehouse s = []"
    using assms(1) by (auto simp: lot_panel_ok_def pair_ok_def)
  show "places_ok t"
    unfolding t_def using ok(1) assms(2)
    by (cases e) (auto simp: places_ok_def lot_answers Let_def split: sum.splits option.splits if_splits)
  show "id_field (lbp_location t)"
    unfolding t_def using ok(2) assms(2) form_locations_ids [OF ok(1)]
    by (cases e) (auto simp: offered_def id_field_def lot_answers Let_def split: option.splits sum.splits)
  assume "skf_warehouses t = None"
  then show "lbp_warehouse t = []"
    unfolding t_def using ok(3) assms(2)
    by (cases e) (auto simp: offered_def lot_answers Let_def split: option.splits sum.splits)
qed

lemma taken_ok_cong:
  assumes "taken_ok W L env s" and "att_sent (lbp_attempt t) = att_sent (lbp_attempt s)"
    and "lbp_taken t = lbp_taken s" and "set (lbp_calls s) \<subseteq> set (lbp_calls t)"
  shows "taken_ok W L env t"
  using assms unfolding taken_ok_def by fastforce

lemma press_consume_taken:
  assumes "lot_panel_ok W L env s" and "place_chosen s" and "lbe_canManage env"
  shows "taken_ok W L env (press_consume env s)"
proof -
  have "lbp_warehouse s \<noteq> []" "lbp_location s \<noteq> []" "pair_ok s (lbp_warehouse s) (lbp_location s)" "places_ok s"
    using assms(1,2) by (auto simp: lot_panel_ok_def place_chosen_def)
  then obtain ws i j where ij: "skf_warehouses s = Some ws" "i \<in> set ws" "server_id i" "server_id j"
      "js_Number (lbp_warehouse s) = JsNum (of_int i)" "js_Number (lbp_location s) = JsNum (of_int j)"
    by (metis pair_ok_sends)
  have lists: "i \<in> W" "given L (lbp_location s)"
    using assms(1) ij by (auto simp: lot_panel_ok_def panel_given_def)
  have "id_field (lbp_location s)" using assms(1) by (simp add: lot_panel_ok_def pair_ok_def)
  then have "j \<in> L" using given_number [OF lists(2)] ij(6) \<open>lbp_location s \<noteq> []\<close> by auto
  with ij lists(1) show ?thesis
    using assms(1,3) by (auto simp: lot_panel_ok_def taken_ok_def press_consume_def Let_def attempt_send_key
        consume_payload_def)
qed

lemma lot_panel_taken:
  assumes "lot_panel_ok W L env s" and "lot_panel_enabled env s e"
  shows "taken_ok W L env (lot_panel_handle env s e)"
proof (cases "e = ConsumePressed")
  case False
  have t: "taken_ok W L env s" using assms(1) by (simp add: lot_panel_ok_def)
  show ?thesis
    by (rule taken_ok_cong [OF t]; cases e)
      (use False in \<open>auto simp: lot_answers split: option.splits sum.splits\<close>)
qed (use assms press_consume_taken in auto)

lemma lot_panel_step_given:
  assumes "panel_given W L s" and "lot_panel_enabled env s e"
    and "\<And>ws. e = PanelWarehouses ws \<Longrightarrow> set ws \<subseteq> W" and "\<And>w ls. e = PanelLocations w ls \<Longrightarrow> set ls \<subseteq> L"
  shows "panel_given W L (lot_panel_step env s e)"
proof -
  have step: "panel_given W L (lot_panel_effects t)" if "panel_given W L t" for t
    using that given_passes [of L t "lbp_location t" "lbp_warehouse t"]
    by (auto simp: panel_given_def lot_panel_effects_def locations_given_def)
  have none: "given L []" by (simp add: given_def)
  have "panel_given W L (lot_panel_handle env s e)"
    using assms none given_offered [of L s "lbp_warehouse s"]
    by (cases e) (auto simp: panel_given_def locations_given_def lot_answers Let_def split: option.splits sum.splits if_splits)
  then show ?thesis by (simp add: lot_panel_step_def step)
qed

lemma lot_panel_step_ok:
  assumes "lot_panel_ok W L env s" and "lot_panel_enabled env s e"
    and "\<And>ws. e = PanelWarehouses ws \<Longrightarrow> set ws \<subseteq> W" and "\<And>w ls. e = PanelLocations w ls \<Longrightarrow> set ls \<subseteq> L"
  shows "lot_panel_ok W L env (lot_panel_step env s e)"
proof -
  have "taken_ok W L env (lot_panel_step env s e)"
    unfolding lot_panel_step_def by (rule taken_ok_cong [OF lot_panel_taken [OF assms(1,2)]]) simp_all
  moreover have "panel_given W L (lot_panel_step env s e)"
    using assms by (intro lot_panel_step_given) (auto simp: lot_panel_ok_def)
  ultimately show ?thesis
    using pair_ok_passes [OF lot_panel_ready [OF assms(1,2)]] lot_panel_ready(1) [OF assms(1,2)]
    by (simp add: lot_panel_ok_def lot_panel_step_def lot_panel_effects_def)
qed

interpretation lot_panels: event_machine "\<lambda>s e. lot_panel_enabled env s e \<and> e \<in> E" "lot_panel_step env"
    lot_panel_init "lot_panel_ok (\<Union> {set ws | ws. PanelWarehouses ws \<in> E})
      (\<Union> {set ls | ls. \<exists>w. PanelLocations w ls \<in> E}) env"
  for env E
proof
  show "lot_panel_ok (\<Union> {set ws | ws. PanelWarehouses ws \<in> E})
      (\<Union> {set ls | ls. \<exists>w. PanelLocations w ls \<in> E}) env lot_panel_init"
    by (simp add: lot_panel_ok_def lot_panel_init_def places_ok_def pair_ok_def form_locations_def
        drop_down.waits id_field_def taken_ok_def no_attempts_def panel_given_def locations_given_def given_def)
qed (rule lot_panel_step_ok, auto)

lemma lot_attempt_moves:
  "lbp_attempt (lot_panel_step env s e) = lbp_attempt s
   \<or> lbp_attempt (lot_panel_step env s e) = attempt_forget (lbp_attempt s)
   \<or> (\<exists>p. lbp_attempt (lot_panel_step env s e) = attempt_send (lbe_key env) p (lbp_attempt s))"
  unfolding lot_panel_step_def
  by (cases e) (auto simp: lot_answers Let_def split: option.splits sum.splits)

interpretation taking: keyed_writer "lbe_key env" lbp_attempt "lot_panel_enabled env" "lot_panel_step env"
    lot_panel_init
  for env
  by unfold_locales (simp add: lot_panel_init_def, rule lot_attempt_moves)

text \<open>C33: Stock taken out of the lots leaves once per key: whatever is done in the panel, what it sends is
  sent by someone who manages lots and names a warehouse of a list of warehouses that came and a
  location of a list of locations that came, both with an identifier above zero; and two sent with the
  same idempotency key are the same request for the same product.\<close>

theorem one_key_one_consumption:
  assumes "run_ok (lot_panel_enabled env) (lot_panel_step env) lot_panel_init es"
    and "s = foldl (lot_panel_step env) lot_panel_init es" and "inj (lbe_key env)"
    and "(p, k) \<in> set (lbp_taken s)" and "(q, k) \<in> set (lbp_taken s)"
  shows "lbe_canManage env \<and> consumeFefo (lbe_product env) p k \<in> set (lbp_calls s)
    \<and> consumeFefo (lbe_product env) q k = consumeFefo (lbe_product env) p k
    \<and> (\<exists>i ws. PanelWarehouses ws \<in> set es \<and> i \<in> set ws \<and> server_id i \<and> fp_warehouse_id p = JsNum (of_int i))
    \<and> (\<exists>j w ls. PanelLocations w ls \<in> set es \<and> j \<in> set ls \<and> server_id j \<and> fp_location_id p = JsNum (of_int j))"
proof -
  have r: "reached (lot_panel_enabled env) (lot_panel_step env) lot_panel_init s"
    using reached_run [OF assms(1)] assms(2) by simp
  have ok: "taken_ok (\<Union> {set ws | ws. PanelWarehouses ws \<in> set es})
      (\<Union> {set ls | ls. \<exists>w. PanelLocations w ls \<in> set es}) env s"
    using lot_panels.inv_reached [OF reached_run [OF run_ok_within [OF assms(1) order_refl]]] assms(2)
    by (simp add: lot_panel_ok_def)
  then have sent: "att_sent (lbp_attempt s)
      = map (\<lambda>(p, k). (consume_fingerprint (lbe_product env) p, k)) (lbp_taken s)"
    by (simp add: taken_ok_def)
  have "(consume_fingerprint (lbe_product env) p, k) \<in> set (att_sent (lbp_attempt s))"
    and "(consume_fingerprint (lbe_product env) q, k) \<in> set (att_sent (lbp_attempt s))"
    unfolding sent using assms(4,5) by force+
  from taking.one_key_one_content [OF r assms(3) this] have same: "fefo_consume_json p = fefo_consume_json q"
    by (simp add: consume_fingerprint_def)
  from ok assms(4) obtain i j where "lbe_canManage env" "consumeFefo (lbe_product env) p k \<in> set (lbp_calls s)"
    and "i \<in> \<Union> {set ws | ws. PanelWarehouses ws \<in> set es}" "server_id i" "fp_warehouse_id p = JsNum (of_int i)"
    and "j \<in> \<Union> {set ls | ls. \<exists>w. PanelLocations w ls \<in> set es}" "server_id j" "fp_location_id p = JsNum (of_int j)"
    unfolding taken_ok_def by fastforce
  with same show ?thesis by (auto simp: consumeFefo_def)
qed

text \<open>
  A plan that arrives after the quantity has been changed is shown all the same, and what the button
  then takes out is the new quantity, of which nothing has been planned or checked.
\<close>

lemma plan_of_another_quantity:
  defines "t \<equiv> \<lambda>env s q allocations.
    lot_panel_step env (lot_panel_step env s (FefoQuantity q)) (PlanAnswered (Inr allocations))"
  shows "lbp_plan (t env s q allocations) = Some allocations"
    and "fp_quantity (consume_payload (t env s q allocations)) = q"
  by (simp_all add: t_def lot_panel_step_def lot_panel_effects_def plan_answered_def consume_payload_def)

section \<open>Samples\<close>

lemma lot_texts:
  "decimalString (Some (JsNum 0)) [50, 44, 53] = Inr [50, 46, 53] \<and> js_Number [50, 46, 53] = JsNum (5 / 2)
   \<and> decimal_transform [50, 44, 53] = [50, 46, 53] \<and> (JsNum (5 / 2) \<le> JsNum 0) = False
   \<and> JsNum 0 < JsNum (5 / 2) \<and> decimalString (Some min_quantity) [49] = Inr [49]"
  by code_simp

definition opening_lot :: "lot_event list" where
  "opening_lot = [LotWarehouses [3, 4], LotLocations 3 [5, 6], LotTyped LotNumber (js ''L1''),
     OpeningQuantity (js ''2,5'')]"

lemmas lot_simps = lot_texts sample_simps opening_lot_def lot_step_def lot_form_effects_def lot_form_init_def
  lot_form_submit_def createLotSchema_def or_null_def

lemma opening_run: "run_ok (lot_enabled [] False) (lot_step 7) lot_form_init opening_lot"
  by (simp add: lot_simps)

lemma opening_sends:
  "lot_form_submit 7 (foldl (lot_step 7) lot_form_init opening_lot)
    = Inr \<lparr>lu_lot_number = js ''L1'', lu_manufacturing_date = None, lu_expiration_date = None,
        lu_supplier_id = None, lc_product_id = 7, lc_purchase_order_id = None,
        lc_opening_stock = Some \<lparr>ops_warehouse_id = JsNum 3, ops_location_id = JsNum 5,
          ops_quantity = js ''2.5''\<rparr>\<rparr>"
  by (simp add: lot_simps)

theorem new_lot_names_its_place_witness:
  "\<exists>p. lot_form_submit 7 (foldl (lot_step 7) lot_form_init opening_lot) = Inr p \<and> lu_lot_number p \<noteq> []"
  using new_lot_names_its_place [OF opening_run refl opening_sends] opening_sends by blast

definition sample_lots :: lots_env where
  "sample_lots = \<lparr>lbe_product = 7, lbe_canManage = True, lbe_key = nat_digits\<rparr>"

definition taking_water :: "lot_panel_event list" where
  "taking_water = [PanelWarehouses [3], PanelLocations 3 [5], FefoQuantity (js ''1''), PlanPressed,
     PlanAnswered (Inr []), ConsumePressed, ConsumeAnswered (Inl (OtherFailure [])), ConsumePressed]"

lemmas taking_simps = lot_texts sample_simps sample_lots_def taking_water_def lot_panel_step_def
  lot_panel_effects_def lot_panel_init_def lot_answers place_chosen_def quantityValid_def
  keyed_attempt_def attempt_send_def no_attempts_def consume_payload_def

lemma taking_run: "run_ok (lot_panel_enabled sample_lots) (lot_panel_step sample_lots) lot_panel_init taking_water"
  by (simp add: taking_simps)

lemma taking_twice:
  "map snd (lbp_taken (foldl (lot_panel_step sample_lots) lot_panel_init taking_water))
     = [nat_digits 0, nat_digits 0]"
  by (simp add: taking_simps)

theorem one_key_one_consumption_witness:
  "\<exists>p. consumeFefo 7 p (nat_digits 0)
     \<in> set (lbp_calls (foldl (lot_panel_step sample_lots) lot_panel_init taking_water))"
proof -
  let ?s = "foldl (lot_panel_step sample_lots) lot_panel_init taking_water"
  obtain p where p: "(p, nat_digits 0) \<in> set (lbp_taken ?s)"
  proof -
    have "nat_digits 0 \<in> set (map snd (lbp_taken ?s))" using taking_twice by simp
    then show thesis using that by auto
  qed
  have "inj (lbe_key sample_lots)" by (simp add: sample_lots_def inj_nat_digits inj_def)
  from one_key_one_consumption [OF taking_run refl this p p] show ?thesis
    by (auto simp: sample_lots_def)
qed

end
