(* ===== verification/Pricing.thy ===== *)
theory Pricing
  imports Inventory
begin

text \<open>
  Prices: the records and calls of \<open>features/pricing/api.ts\<close>, the choice of a tax (\<open>TaxChips.tsx\<close>), the
  warning before a price changes (\<open>PriceChangeDialog.tsx\<close>), and the panels that edit the taxes, the
  formula of the shop and the cost, margins and taxes of a product (\<open>TaxesPanel.tsx\<close>,
  \<open>PricingSettingsPanel.tsx\<close>, \<open>ProductFormulaPanel.tsx\<close>, \<open>ProductPricingPanel.tsx\<close> inside
  \<open>ProductDetailPage.tsx\<close>).
\<close>

section \<open>Records and calls\<close>

record tax =
  tx_id :: int
  tx_name :: jsstring
  tx_rate :: jsstring
  tx_surcharge_rate :: jsstring
  tx_is_active :: bool

definition taxesQuery :: query_options where
  "taxesQuery = \<lparr>q_key = [KStr (js ''pricing''), KStr (js ''taxes'')],
     q_call = get_call (js ''/taxes''), q_enabled = True\<rparr>"

definition createTax :: "jsstring \<Rightarrow> jsstring \<Rightarrow> jsstring \<Rightarrow> api_call" where
  "createTax name rate surchargeRate = send_call POST (js ''/taxes'') []
     (Some (JObj [(js ''name'', JStr name), (js ''rate'', JStr rate),
        (js ''surcharge_rate'', JStr surchargeRate)]))"

record tax_update =
  txu_name :: "jsstring option"
  txu_rate :: "jsstring option"
  txu_surcharge_rate :: "jsstring option"

definition tax_path :: "int \<Rightarrow> jsstring \<Rightarrow> jsstring" where
  "tax_path i rest = js ''/taxes/'' @ int_string i @ rest"

definition updateTax :: "int \<Rightarrow> tax_update \<Rightarrow> api_call" where
  "updateTax i u = send_call PATCH (tax_path i []) []
     (Some (JObj (opt_field (js ''name'') JStr (txu_name u) @ opt_field (js ''rate'') JStr (txu_rate u)
        @ opt_field (js ''surcharge_rate'') JStr (txu_surcharge_rate u))))"

definition deactivateTax :: "int \<Rightarrow> api_call" where
  "deactivateTax i = send_call POST (tax_path i (js ''/deactivate'')) [] None"

definition activateTax :: "int \<Rightarrow> api_call" where
  "activateTax i = send_call POST (tax_path i (js ''/activate'')) [] None"

record pricing_settings =
  prs_formula :: jsstring
  prs_prices_include_tax :: bool

definition pricingSettingsQuery :: query_options where
  "pricingSettingsQuery = \<lparr>q_key = [KStr (js ''pricing''), KStr (js ''settings'')],
     q_call = get_call (js ''/pricing/settings''), q_enabled = True\<rparr>"

definition updatePricingSettings :: "jsstring \<Rightarrow> bool \<Rightarrow> api_call" where
  "updatePricingSettings formula pricesIncludeTax = send_call PUT (js ''/pricing/settings'') []
     (Some (JObj [(js ''formula'', JStr formula), (js ''prices_include_tax'', JBool pricesIncludeTax)]))"

record formula_preview =
  fpv_formula :: jsstring
  fpv_cost :: jsstring
  fpv_tax_rate :: jsstring
  fpv_surcharge_rate :: jsstring
  fpv_margin_rate :: jsstring
  fpv_margin_amount :: jsstring

definition previewFormula :: "formula_preview \<Rightarrow> api_call" where
  "previewFormula p = send_call POST (js ''/pricing/preview'') []
     (Some (JObj [(js ''formula'', JStr (fpv_formula p)), (js ''cost'', JStr (fpv_cost p)),
        (js ''tax_rate'', JStr (fpv_tax_rate p)), (js ''surcharge_rate'', JStr (fpv_surcharge_rate p)),
        (js ''margin_rate'', JStr (fpv_margin_rate p)), (js ''margin_amount'', JStr (fpv_margin_amount p))]))"

record price_calculation =
  pcl_calculated_price :: jsstring
  pcl_rounded_price :: jsstring

definition productPriceCalculationQuery :: "int \<Rightarrow> query_options" where
  "productPriceCalculationQuery productId =
     \<lparr>q_key = [KStr (js ''pricing''), KStr (js ''product-calculation''), KNum productId],
      q_call = get_call (products_path productId (js ''/pricing/calculation'')), q_enabled = True\<rparr>"

definition previewProductPriceForCost :: "int \<Rightarrow> jsstring \<Rightarrow> api_call" where
  "previewProductPriceForCost productId cost =
     send_call POST (products_path productId (js ''/pricing/cost-preview'')) []
       (Some (JObj [(js ''cost'', JStr cost)]))"

text \<open>A field left out is not touched; a null one gives way to the category's.\<close>

record pricing_input =
  pin_margin_rate :: "jsstring option option"
  pin_margin_amount :: "jsstring option option"
  pin_tax_ids :: "int list option"
  pin_cost :: "jsstring option"
  pin_price_formula :: "jsstring option option"

definition pricing_fields :: "pricing_input \<Rightarrow> (jsstring \<times> json) list" where
  "pricing_fields p = opt_field (js ''margin_rate'') (null_or JStr) (pin_margin_rate p)
     @ opt_field (js ''margin_amount'') (null_or JStr) (pin_margin_amount p)
     @ opt_field (js ''tax_ids'') (\<lambda>is. JArr (map JInt is)) (pin_tax_ids p)"

definition setProductPricing :: "int \<Rightarrow> pricing_input \<Rightarrow> api_call" where
  "setProductPricing productId p = send_call PATCH (products_path productId (js ''/pricing'')) []
     (Some (JObj (opt_field (js ''cost'') JStr (pin_cost p) @ pricing_fields p)))"

definition setCategoryPricing :: "int \<Rightarrow> pricing_input \<Rightarrow> api_call" where
  "setCategoryPricing categoryId p = send_call PATCH (product_category_path categoryId (js ''/pricing'')) []
     (Some (JObj (pricing_fields p @ opt_field (js ''price_formula'') (null_or JStr) (pin_price_formula p))))"

definition setProductFormula :: "int \<Rightarrow> jsstring \<Rightarrow> api_call" where
  "setProductFormula productId f = send_call PUT (products_path productId (js ''/pricing/formula'')) []
     (Some (JObj [(js ''price_formula'', JStr f)]))"

definition clearProductFormula :: "int \<Rightarrow> api_call" where
  "clearProductFormula productId = send_call DELETE (products_path productId (js ''/pricing/formula'')) [] None"

definition setManualPrice :: "int \<Rightarrow> jsstring \<Rightarrow> api_call" where
  "setManualPrice productId price = send_call PUT (products_path productId (js ''/pricing/manual-price'')) []
     (Some (JObj [(js ''list_price'', JStr price)]))"

definition clearManualPrice :: "int \<Rightarrow> api_call" where
  "clearManualPrice productId =
     send_call DELETE (products_path productId (js ''/pricing/manual-price'')) [] None"

record price_history_entry =
  phy_id :: int
  phy_product_id :: int
  phy_cost :: jsstring
  phy_tax_rate :: jsstring
  phy_surcharge_rate :: jsstring
  phy_margin_rate :: jsstring
  phy_margin_amount :: jsstring
  phy_price_formula :: "jsstring option"
  phy_list_price :: jsstring
  phy_created_at :: jsstring

definition productPriceHistoryQuery :: "int \<Rightarrow> query_options" where
  "productPriceHistoryQuery productId =
     \<lparr>q_key = [KStr (js ''pricing''), KStr (js ''history''), KNum productId],
      q_call = get_call (products_path productId (js ''/pricing/history'')), q_enabled = True\<rparr>"

section \<open>Taxes\<close>

text \<open>The message of the first issue of \<open>decimalString({ min: 0 })\<close>.\<close>

definition decimal_message :: "decimal_issue list \<Rightarrow> jsstring" where
  "decimal_message issues =
     (case issues of
        NotADecimal # _ \<Rightarrow> js ''Introduce un n'' @ [250] @ js ''mero (hasta 6 decimales).''
      | BelowMinimum # _ \<Rightarrow> js ''Debe ser al menos 0.''
      | [] \<Rightarrow> [])"

definition decimal0 :: "jsstring \<Rightarrow> jsstring + jsstring" where
  "decimal0 v = (case decimalString (Some (JsNum 0)) v of
     Inl issues \<Rightarrow> Inl (decimal_message issues) | Inr q \<Rightarrow> Inr q)"

definition or_zero :: "jsstring \<Rightarrow> jsstring" where
  "or_zero v = (if js_trim v = [] then js ''0'' else js_trim v)"

text \<open>
  The form of a new tax: nothing without a name and a rate; a number that does not parse ends as the
  mutation's error, with the same message as a refusal.
\<close>

definition tax_create_call :: "jsstring \<Rightarrow> jsstring \<Rightarrow> jsstring \<Rightarrow> api_call option" where
  "tax_create_call name rate surcharge =
     (case (decimal0 rate, decimal0 (or_zero surcharge)) of
        (Inr r, Inr s) \<Rightarrow> Some (createTax (js_trim name) r s) | _ \<Rightarrow> None)"

definition tax_submits :: "jsstring \<Rightarrow> jsstring \<Rightarrow> bool" where
  "tax_submits name rate \<longleftrightarrow> js_trim name \<noteq> [] \<and> js_trim rate \<noteq> []"

definition tax_create_error :: "failure \<Rightarrow> jsstring" where
  "tax_create_error e =
     (if (case e of ApiFailure a \<Rightarrow> ae_code a = js ''conflict'' | _ \<Rightarrow> False)
      then js ''Ya existe un impuesto con ese nombre.''
      else js ''No se ha podido crear el impuesto '' @ [8212] @ js '' revisa la tasa.'')"

definition tax_toggle :: "tax \<Rightarrow> api_call" where
  "tax_toggle t = (if tx_is_active t then deactivateTax (tx_id t) else activateTax (tx_id t))"

text \<open>The row that edits a tax: what it sends, or the message of the number at fault.\<close>

definition tax_edit_save :: "tax \<Rightarrow> jsstring \<Rightarrow> jsstring \<Rightarrow> jsstring \<Rightarrow> jsstring + api_call" where
  "tax_edit_save t name rate surcharge =
     (case decimal0 rate of
        Inl m \<Rightarrow> Inl m
      | Inr r \<Rightarrow> (case decimal0 (or_zero surcharge) of
            Inl m \<Rightarrow> Inl m
          | Inr s \<Rightarrow> Inr (updateTax (tx_id t)
              \<lparr>txu_name = Some (js_trim name), txu_rate = Some r, txu_surcharge_rate = Some s\<rparr>)))"

text \<open>The chips: what is offered, and what a press leaves chosen, in the order of a \<open>Set\<close>.\<close>

definition js_set :: "'a list \<Rightarrow> 'a list" where
  "js_set xs = rev (remdups (rev xs))"

definition selectable_taxes :: "tax list \<Rightarrow> int list \<Rightarrow> tax list" where
  "selectable_taxes taxes selected = filter (\<lambda>t. tx_is_active t \<or> tx_id t \<in> set selected) taxes"

definition press_chip :: "int \<Rightarrow> int list \<Rightarrow> int list" where
  "press_chip i selected = (if i \<in> set selected then [] else [i])"

text \<open>The rates that apply: the active ones among the product's own taxes, or its category's.\<close>

definition source_taxes :: "catalog_product \<Rightarrow> product_category option \<Rightarrow> product_tax list" where
  "source_taxes p category =
     (if cp_taxes p \<noteq> [] then cp_taxes p else case category of None \<Rightarrow> [] | Some c \<Rightarrow> pcat_taxes c)"

definition rate_sum :: "(tax \<Rightarrow> jsstring) \<Rightarrow> tax list \<Rightarrow> int list \<Rightarrow> jsstring" where
  "rate_sum rate taxes ids =
     js_String (foldl (\<lambda>sum t. sum + js_Number (rate t)) (JsNum 0)
       (filter (\<lambda>t. tx_id t \<in> set ids \<and> tx_is_active t) taxes))"

definition effectiveTaxRate :: "catalog_product \<Rightarrow> product_category option \<Rightarrow> tax list \<Rightarrow> jsstring" where
  "effectiveTaxRate p category taxes =
     (if source_taxes p category \<noteq> [] then rate_sum tx_rate taxes (map ptx_id (source_taxes p category))
      else cp_tax_rate p)"

definition effectiveSurchargeRate :: "catalog_product \<Rightarrow> product_category option \<Rightarrow> tax list \<Rightarrow> jsstring" where
  "effectiveSurchargeRate p category taxes =
     (if source_taxes p category \<noteq> [] then rate_sum tx_surcharge_rate taxes (map ptx_id (source_taxes p category))
      else cp_surcharge_rate p)"

definition inherited_margin :: "(catalog_product \<Rightarrow> jsstring option) \<Rightarrow> (product_category \<Rightarrow> jsstring option)
    \<Rightarrow> catalog_product \<Rightarrow> product_category option \<Rightarrow> jsstring" where
  "inherited_margin own general p category =
     (case own p of Some v \<Rightarrow> v
      | None \<Rightarrow> (case Option.bind category general of Some v \<Rightarrow> v | None \<Rightarrow> js ''0''))"

text \<open>What the formula of a product is tried with.\<close>

definition formula_trial :: "catalog_product \<Rightarrow> product_category option \<Rightarrow> tax list \<Rightarrow> jsstring \<Rightarrow> formula_preview" where
  "formula_trial p category taxes formula =
     \<lparr>fpv_formula = formula, fpv_cost = cp_cost p, fpv_tax_rate = effectiveTaxRate p category taxes,
      fpv_surcharge_rate = effectiveSurchargeRate p category taxes,
      fpv_margin_rate = inherited_margin cp_margin_rate pcat_margin_rate p category,
      fpv_margin_amount = inherited_margin cp_margin_amount pcat_margin_amount p category\<rparr>"

section \<open>The warning before a price changes\<close>

definition percentChange :: "jsnum \<Rightarrow> jsnum \<Rightarrow> jsstring option" where
  "percentChange current next_price =
     (if current = JsNum 0 then None
      else (let rounded = js_round ((next_price - current) div current * JsNum 100) in
        if rounded = JsNum 0 then None
        else Some ((if JsNum 0 < rounded then [43] else []) @ js_String rounded @ js '' %'')))"

definition has_stock :: "jsstring option \<Rightarrow> bool" where
  "has_stock stock = (case stock of None \<Rightarrow> False | Some v \<Rightarrow> JsNum 0 < js_Number v)"

definition stock_sentence :: "jsstring option \<Rightarrow> jsstring \<Rightarrow> jsstring" where
  "stock_sentence stock unitName =
     (case stock of
        None \<Rightarrow> js ''No se ha podido consultar el stock de este producto.''
      | Some v \<Rightarrow>
          if has_stock stock
          then js ''Tienes '' @ formatQuantity v @ [cu_space] @ unitName @ js '' en almac'' @ [233]
            @ js ''n. A partir de ahora se vender'' @ [225] @ js ''n al precio nuevo.''
          else js ''No te queda nada en almac'' @ [233] @ js ''n de este producto.'')"

definition price_reading :: "jsstring \<Rightarrow> jsstring \<Rightarrow> jsstring" where
  "price_reading v unitName = formatMoney v @ [47] @ unitName"

section \<open>The formula of the shop\<close>

record settings_panel =
  stp_data :: "pricing_settings option"
  stp_formula :: "jsstring option"
  stp_include :: "bool option"
  stp_surcharge :: jsstring
  stp_error :: "jsstring option"
  stp_saved :: bool
  stp_saving :: bool
  stp_calls :: "api_call list"

definition settings_init :: settings_panel where
  "settings_init = \<lparr>stp_data = None, stp_formula = None, stp_include = None, stp_surcharge = js ''5.2'',
     stp_error = None, stp_saved = False, stp_saving = False, stp_calls = []\<rparr>"

definition shop_formula :: "settings_panel \<Rightarrow> jsstring" where
  "shop_formula s = (case stp_formula s of Some f \<Rightarrow> f
     | None \<Rightarrow> (case stp_data s of Some d \<Rightarrow> prs_formula d | None \<Rightarrow> []))"

definition shop_includes :: "settings_panel \<Rightarrow> bool" where
  "shop_includes s = (case stp_include s of Some b \<Rightarrow> b
     | None \<Rightarrow> (case stp_data s of Some d \<Rightarrow> prs_prices_include_tax d | None \<Rightarrow> False))"

definition settings_unchanged :: "settings_panel \<Rightarrow> bool" where
  "settings_unchanged s = (case stp_data s of None \<Rightarrow> False
     | Some d \<Rightarrow> shop_formula s = prs_formula d \<and> shop_includes s = prs_prices_include_tax d)"

definition contradictsFormula :: "settings_panel \<Rightarrow> bool" where
  "contradictsFormula s \<longleftrightarrow> js_includes (js ''tax_rate'') (shop_formula s) \<and> \<not> shop_includes s"

definition shop_trial :: "settings_panel \<Rightarrow> formula_preview" where
  "shop_trial s = \<lparr>fpv_formula = shop_formula s, fpv_cost = js ''10'', fpv_tax_rate = js ''21'',
     fpv_surcharge_rate = js_replace cu_comma [cu_dot] (stp_surcharge s), fpv_margin_rate = js ''20'',
     fpv_margin_amount = js ''0''\<rparr>"

datatype settings_event =
    SettingsAre pricing_settings
  | FormulaTyped jsstring
  | IncludeTicked bool
  | SurchargeTyped jsstring
  | FormulaTried
  | SettingsSaved
  | SettingsAnswered "failure option"

fun settings_step :: "settings_panel \<Rightarrow> settings_event \<Rightarrow> settings_panel" where
  "settings_step s (SettingsAre d) = s\<lparr>stp_data := Some d\<rparr>"
| "settings_step s (FormulaTyped v) = s\<lparr>stp_formula := Some v, stp_saved := False\<rparr>"
| "settings_step s (IncludeTicked b) = s\<lparr>stp_include := Some b, stp_saved := False\<rparr>"
| "settings_step s (SurchargeTyped v) = s\<lparr>stp_surcharge := v\<rparr>"
| "settings_step s FormulaTried = s\<lparr>stp_calls := stp_calls s @ [previewFormula (shop_trial s)]\<rparr>"
| "settings_step s SettingsSaved = s\<lparr>stp_saving := True,
     stp_calls := stp_calls s @ [updatePricingSettings (shop_formula s) (shop_includes s)]\<rparr>"
| "settings_step s (SettingsAnswered r) =
     (case r of
        None \<Rightarrow> s\<lparr>stp_saving := False, stp_formula := None, stp_include := None, stp_error := None, stp_saved := True\<rparr>
      | Some e \<Rightarrow> s\<lparr>stp_saving := False, stp_saved := False,
          stp_error := Some (js ''F'' @ [243] @ js ''rmula no v'' @ [225] @ js ''lida '' @ [8212]
            @ js '' revisa la sintaxis (s'' @ [243] @ js ''lo +, -, *, /, round/ceil/floor).'')\<rparr>)"

fun settings_enabled :: "bool \<Rightarrow> settings_panel \<Rightarrow> settings_event \<Rightarrow> bool" where
  "settings_enabled canManage s (SettingsAre d) = True"
| "settings_enabled canManage s FormulaTried = (stp_data s \<noteq> None)"
| "settings_enabled canManage s SettingsSaved =
     (canManage \<and> stp_data s \<noteq> None \<and> \<not> stp_saving s \<and> \<not> settings_unchanged s)"
| "settings_enabled canManage s (SettingsAnswered r) = stp_saving s"
| "settings_enabled canManage s e = (canManage \<and> stp_data s \<noteq> None)"

section \<open>The formula of a product\<close>

record formula_panel =
  fmp_input :: jsstring
  fmp_error :: "jsstring option"
  fmp_history :: bool
  fmp_trying :: bool
  fmp_saving :: bool
  fmp_clearing :: bool
  fmp_calls :: "api_call list"

definition formula_panel_init :: "catalog_product \<Rightarrow> formula_panel" where
  "formula_panel_init p = \<lparr>fmp_input = (case cp_price_formula p of Some f \<Rightarrow> f | None \<Rightarrow> []),
     fmp_error = None, fmp_history = False, fmp_trying = False, fmp_saving = False, fmp_clearing = False,
     fmp_calls = []\<rparr>"

datatype formula_event =
    ProductFormulaTyped jsstring
  | ProductFormulaTried
  | ProductTryAnswered
  | ProductFormulaSaved
  | ProductSaveAnswered "failure option"
  | ProductFormulaCleared
  | ProductClearAnswered "failure option"
  | HistoryToggled

fun formula_step :: "catalog_product \<Rightarrow> product_category option \<Rightarrow> tax list \<Rightarrow> formula_panel \<Rightarrow> formula_event \<Rightarrow> formula_panel" where
  "formula_step p category taxes s (ProductFormulaTyped v) = s\<lparr>fmp_input := v, fmp_error := None\<rparr>"
| "formula_step p category taxes s ProductFormulaTried = s\<lparr>fmp_trying := True,
     fmp_calls := fmp_calls s @ [previewFormula (formula_trial p category taxes (fmp_input s))]\<rparr>"
| "formula_step p category taxes s ProductTryAnswered = s\<lparr>fmp_trying := False\<rparr>"
| "formula_step p category taxes s ProductFormulaSaved = s\<lparr>fmp_saving := True,
     fmp_calls := fmp_calls s @ [setProductFormula (cp_id p) (fmp_input s)]\<rparr>"
| "formula_step p category taxes s (ProductSaveAnswered r) = s\<lparr>fmp_saving := False,
     fmp_error := (case r of None \<Rightarrow> None
       | Some (ApiFailure a) \<Rightarrow> Some (ae_message a)
       | Some (OtherFailure m) \<Rightarrow> Some (js ''F'' @ [243] @ js ''rmula no v'' @ [225] @ js ''lida '' @ [8212]
            @ js '' revisa la sintaxis (s'' @ [243] @ js ''lo +, -, *, /, round/ceil/floor).''))\<rparr>"
| "formula_step p category taxes s ProductFormulaCleared = s\<lparr>fmp_clearing := True,
     fmp_calls := fmp_calls s @ [clearProductFormula (cp_id p)]\<rparr>"
| "formula_step p category taxes s (ProductClearAnswered r) =
     (if r = None then s\<lparr>fmp_clearing := False, fmp_input := [], fmp_error := None\<rparr>
      else s\<lparr>fmp_clearing := False\<rparr>)"
| "formula_step p category taxes s HistoryToggled = s\<lparr>fmp_history := \<not> fmp_history s\<rparr>"

fun formula_enabled :: "catalog_product \<Rightarrow> bool \<Rightarrow> formula_panel \<Rightarrow> formula_event \<Rightarrow> bool" where
  "formula_enabled p canManage s (ProductFormulaTyped v) = canManage"
| "formula_enabled p canManage s ProductFormulaTried = (\<not> fmp_trying s \<and> js_trim (fmp_input s) \<noteq> [])"
| "formula_enabled p canManage s ProductTryAnswered = fmp_trying s"
| "formula_enabled p canManage s ProductFormulaSaved =
     (canManage \<and> \<not> fmp_saving s \<and> js_trim (fmp_input s) \<noteq> [])"
| "formula_enabled p canManage s (ProductSaveAnswered r) = fmp_saving s"
| "formula_enabled p canManage s ProductFormulaCleared =
     (canManage \<and> cp_price_formula p \<notin> {None, Some []} \<and> \<not> fmp_clearing s)"
| "formula_enabled p canManage s (ProductClearAnswered r) = fmp_clearing s"
| "formula_enabled p canManage s HistoryToggled = True"

section \<open>Cost, margins and taxes of a product\<close>

text \<open>Whether what is typed is another quantity than what is saved; blank means inherited.\<close>

definition differs :: "jsstring \<Rightarrow> jsstring option \<Rightarrow> bool" where
  "differs typed saved =
     (let isEmpty = js_trim typed = [] in
      case saved of
        None \<Rightarrow> \<not> isEmpty
      | Some v \<Rightarrow> isEmpty \<or> (let n = js_Number (js_replace cu_comma [cu_dot] typed) in n = JsNaN \<or> n \<noteq> js_Number v))"

definition formatCalculatedMoney :: "jsstring \<Rightarrow> jsstring" where
  "formatCalculatedMoney v = intl_format 2 6 (js_Number v) @ [cu_space, cu_euro]"

text \<open>
  The panel with the page around it: the product and its category as the queries bring them, and
  the change of cost that waits for the answer of the warning.
\<close>

record pricing_panel =
  ppn_product :: catalog_product
  ppn_category :: "product_category option"
  ppn_taxes :: "tax list"
  ppn_calculation :: "price_calculation option"
  ppn_cost :: jsstring
  ppn_cost_error :: "jsstring option"
  ppn_margin :: jsstring
  ppn_amount :: jsstring
  ppn_override :: bool
  ppn_chosen :: "int list"
  ppn_manual :: jsstring
  ppn_manual_error :: "jsstring option"
  ppn_setting :: bool
  ppn_clearing :: bool
  ppn_saving :: bool
  ppn_proposed :: "pricing_input option"
  ppn_saved :: "pricing_input list"
  ppn_calls :: "api_call list"

definition or_empty :: "jsstring option \<Rightarrow> jsstring" where
  "or_empty v = (case v of None \<Rightarrow> [] | Some s \<Rightarrow> s)"

definition panel_mount :: "pricing_panel \<Rightarrow> pricing_panel" where
  "panel_mount s = s\<lparr>ppn_cost := cp_cost (ppn_product s), ppn_cost_error := None,
     ppn_margin := or_empty (cp_margin_rate (ppn_product s)),
     ppn_amount := or_empty (cp_margin_amount (ppn_product s)),
     ppn_override := cp_taxes (ppn_product s) \<noteq> [],
     ppn_chosen := js_set (map ptx_id (source_taxes (ppn_product s) (ppn_category s))),
     ppn_manual := [], ppn_manual_error := None\<rparr>"

definition pricing_init :: "catalog_product \<Rightarrow> product_category option \<Rightarrow> tax list \<Rightarrow> pricing_panel" where
  "pricing_init p category taxes = panel_mount \<lparr>ppn_product = p, ppn_category = category, ppn_taxes = taxes,
     ppn_calculation = None, ppn_cost = [], ppn_cost_error = None, ppn_margin = [], ppn_amount = [],
     ppn_override = False, ppn_chosen = [], ppn_manual = [], ppn_manual_error = None, ppn_setting = False,
     ppn_clearing = False, ppn_saving = False, ppn_proposed = None, ppn_saved = [], ppn_calls = []\<rparr>"

definition hasManualPrice :: "pricing_panel \<Rightarrow> bool" where
  "hasManualPrice s =
     (case cp_manual_price_is_set (ppn_product s) of
        Some b \<Rightarrow> b
      | None \<Rightarrow> (case ppn_calculation s of None \<Rightarrow> False
          | Some c \<Rightarrow> pcl_rounded_price c \<noteq> catalog_finalPrice (ppn_product s)))"

definition pricing_dirty :: "pricing_panel \<Rightarrow> bool" where
  "pricing_dirty s =
     (let p = ppn_product s; saved = js_set (map ptx_id (cp_taxes p)) in
      differs (ppn_cost s) (Some (cp_cost p)) \<or> differs (ppn_margin s) (cp_margin_rate p)
      \<or> differs (ppn_amount s) (cp_margin_amount p)
      \<or> ppn_override s \<noteq> (cp_taxes p \<noteq> [])
      \<or> (ppn_override s \<and> (length (ppn_chosen s) \<noteq> length saved
           \<or> list_ex (\<lambda>i. i \<notin> set saved) (ppn_chosen s))))"

definition blank_inherits :: "jsstring \<Rightarrow> jsstring option" where
  "blank_inherits v = (if js_trim v = [] then None else Some v)"

definition pricing_payload :: "pricing_panel \<Rightarrow> jsstring \<Rightarrow> pricing_input" where
  "pricing_payload s cost = \<lparr>pin_margin_rate = Some (blank_inherits (ppn_margin s)),
     pin_margin_amount = Some (blank_inherits (ppn_amount s)),
     pin_tax_ids = Some (if ppn_override s then ppn_chosen s else []),
     pin_cost = Some cost, pin_price_formula = None\<rparr>"

definition send_pricing :: "pricing_input \<Rightarrow> pricing_panel \<Rightarrow> pricing_panel" where
  "send_pricing p s = s\<lparr>ppn_saving := True, ppn_saved := ppn_saved s @ [p],
     ppn_calls := ppn_calls s @ [setProductPricing (cp_id (ppn_product s)) p]\<rparr>"

text \<open>A change of cost is proposed; anything else is saved at once.\<close>

definition pricing_submit :: "pricing_panel \<Rightarrow> pricing_panel" where
  "pricing_submit s =
     (case decimal0 (ppn_cost s) of
        Inl m \<Rightarrow> s\<lparr>ppn_cost_error := Some m\<rparr>
      | Inr cost \<Rightarrow>
          (let s1 = s\<lparr>ppn_cost_error := None\<rparr>; p = pricing_payload s cost in
           if js_Number cost \<noteq> js_Number (cp_cost (ppn_product s)) then s1\<lparr>ppn_proposed := Some p\<rparr>
           else send_pricing p s1))"

definition submitManualPrice :: "pricing_panel \<Rightarrow> pricing_panel" where
  "submitManualPrice s =
     (case decimal0 (ppn_manual s) of
        Inl m \<Rightarrow> s\<lparr>ppn_manual_error := Some m\<rparr>
      | Inr price \<Rightarrow> s\<lparr>ppn_manual_error := None, ppn_setting := True,
          ppn_calls := ppn_calls s @ [setManualPrice (cp_id (ppn_product s)) price]\<rparr>)"

datatype pricing_event =
    PricedProductIs catalog_product
  | PricedCategoryIs "product_category option"
  | PricedTaxesAre "tax list"
  | CalculationIs price_calculation
  | CostIs jsstring
  | MarginIs jsstring
  | AmountIs jsstring
  | ChipPressed int
  | PricingSaved
  | ProposalConfirmed
  | ProposalDropped
  | PricingAnswered "failure + catalog_product"
  | ManualIs jsstring
  | ManualSet
  | ManualSetAnswered "failure option"
  | ManualCleared
  | ManualClearAnswered "failure option"

fun pricing_step :: "pricing_panel \<Rightarrow> pricing_event \<Rightarrow> pricing_panel" where
  "pricing_step s (PricedProductIs p) = s\<lparr>ppn_product := p\<rparr>"
| "pricing_step s (PricedCategoryIs c) = s\<lparr>ppn_category := c\<rparr>"
| "pricing_step s (PricedTaxesAre ts) = s\<lparr>ppn_taxes := ts\<rparr>"
| "pricing_step s (CalculationIs c) = s\<lparr>ppn_calculation := Some c\<rparr>"
| "pricing_step s (CostIs v) = s\<lparr>ppn_cost := v\<rparr>"
| "pricing_step s (MarginIs v) = s\<lparr>ppn_margin := v\<rparr>"
| "pricing_step s (AmountIs v) = s\<lparr>ppn_amount := v\<rparr>"
| "pricing_step s (ChipPressed i) = s\<lparr>ppn_override := True, ppn_chosen := press_chip i (ppn_chosen s)\<rparr>"
| "pricing_step s PricingSaved = pricing_submit s"
| "pricing_step s ProposalConfirmed =
     (case ppn_proposed s of None \<Rightarrow> s | Some p \<Rightarrow> send_pricing p s)"
| "pricing_step s ProposalDropped = s\<lparr>ppn_proposed := None\<rparr>"
| "pricing_step s (PricingAnswered r) =
     (case r of
        Inl e \<Rightarrow> s\<lparr>ppn_saving := False, ppn_proposed := None\<rparr>
      | Inr p \<Rightarrow> panel_mount (s\<lparr>ppn_saving := False, ppn_proposed := None, ppn_product := p\<rparr>))"
| "pricing_step s (ManualIs v) = s\<lparr>ppn_manual := v\<rparr>"
| "pricing_step s ManualSet = submitManualPrice s"
| "pricing_step s (ManualSetAnswered r) =
     (if r = None then s\<lparr>ppn_setting := False, ppn_manual := [], ppn_manual_error := None\<rparr>
      else s\<lparr>ppn_setting := False, ppn_manual_error := Some (js ''No se ha podido fijar el precio.'')\<rparr>)"
| "pricing_step s ManualCleared = s\<lparr>ppn_clearing := True,
     ppn_calls := ppn_calls s @ [clearManualPrice (cp_id (ppn_product s))]\<rparr>"
| "pricing_step s (ManualClearAnswered r) =
     (if r = None then s\<lparr>ppn_clearing := False, ppn_manual_error := None\<rparr>
      else s\<lparr>ppn_clearing := False, ppn_manual_error := Some (js ''No se ha podido quitar el precio manual.'')\<rparr>)"

fun pricing_enabled :: "pricing_panel \<Rightarrow> pricing_event \<Rightarrow> bool" where
  "pricing_enabled s (PricedProductIs p) = (cp_id p = cp_id (ppn_product s))"
| "pricing_enabled s (ChipPressed i) =
     (i \<in> set (map tx_id (selectable_taxes (ppn_taxes s) (ppn_chosen s))))"
| "pricing_enabled s PricingSaved = (\<not> ppn_saving s)"
| "pricing_enabled s ProposalConfirmed = (ppn_proposed s \<noteq> None \<and> \<not> ppn_saving s)"
| "pricing_enabled s ProposalDropped = (ppn_proposed s \<noteq> None)"
| "pricing_enabled s (PricingAnswered r) =
     (ppn_saving s \<and> (case r of Inl e \<Rightarrow> True | Inr p \<Rightarrow> cp_id p = cp_id (ppn_product s)))"
| "pricing_enabled s ManualSet = (\<not> ppn_setting s \<and> \<not> ppn_clearing s \<and> js_trim (ppn_manual s) \<noteq> [])"
| "pricing_enabled s (ManualSetAnswered r) = ppn_setting s"
| "pricing_enabled s ManualCleared = (hasManualPrice s \<and> \<not> ppn_setting s \<and> \<not> ppn_clearing s)"
| "pricing_enabled s (ManualClearAnswered r) = ppn_clearing s"
| "pricing_enabled s e = True"

section \<open>What a save sends\<close>

lemma decimal0_ok: "decimal0 v = Inr q \<Longrightarrow> is_decimal6 q \<and> JsNum 0 \<le> js_Number q"
  using decimalString_ok [of "JsNum 0" v q] by (auto simp: decimal0_def split: sum.splits)

lemma panel_mount_keeps [simp]:
  "ppn_saved (panel_mount s) = ppn_saved s" "ppn_proposed (panel_mount s) = ppn_proposed s"
  "ppn_product (panel_mount s) = ppn_product s"
  by (simp_all add: panel_mount_def)

text \<open>How an event adds to what has been saved.\<close>

definition saves :: "pricing_panel \<Rightarrow> pricing_event \<Rightarrow> pricing_input \<Rightarrow> bool" where
  "saves t e p \<longleftrightarrow> e = ProposalConfirmed \<and> ppn_proposed t = Some p
     \<or> e = PricingSaved \<and> (\<exists>cost. decimal0 (ppn_cost t) = Inr cost \<and> p = pricing_payload t cost
          \<and> js_Number cost = js_Number (cp_cost (ppn_product t)))"

lemma pricing_step_saves:
  "ppn_saved (pricing_step s e) = ppn_saved s
   \<or> (\<exists>p. ppn_saved (pricing_step s e) = ppn_saved s @ [p] \<and> saves s e p)"
  by (cases e) (auto simp: saves_def pricing_submit_def send_pricing_def submitManualPrice_def Let_def
      split: sum.splits option.splits)

lemma saved_by_event:
  "p \<in> set (ppn_saved (foldl pricing_step (pricing_init q c ts) es))
     \<Longrightarrow> \<exists>pre e post. es = pre @ e # post \<and> saves (foldl pricing_step (pricing_init q c ts) pre) e p"
proof (induction es rule: rev_induct)
  case Nil
  then show ?case by (simp add: pricing_init_def)
next
  case (snoc e es)
  show ?case
  proof (cases "p \<in> set (ppn_saved (foldl pricing_step (pricing_init q c ts) es))")
    case True
    then obtain pre e' post where "es = pre @ e' # post"
        "saves (foldl pricing_step (pricing_init q c ts) pre) e' p" using snoc.IH by blast
    then show ?thesis by (intro exI [of _ pre] exI [of _ e'] exI [of _ "post @ [e]"]) simp
  next
    case False
    then have "saves (foldl pricing_step (pricing_init q c ts) es) e p"
      using snoc.prems pricing_step_saves [of "foldl pricing_step (pricing_init q c ts) es" e] by auto
    then show ?thesis by (intro exI [of _ es] exI [of _ e] exI [of _ "[]"]) simp
  qed
qed

definition payload_ok :: "pricing_input \<Rightarrow> bool" where
  "payload_ok p \<longleftrightarrow> (\<exists>cost. pin_cost p = Some cost \<and> is_decimal6 cost \<and> JsNum 0 \<le> js_Number cost)
     \<and> pin_margin_rate p \<notin> {None, Some (Some [])} \<and> pin_margin_amount p \<notin> {None, Some (Some [])}"

lemma js_trim_Nil [simp]: "js_trim [] = []"
  by (simp add: js_trim_def js_trim_end_def)

lemma pricing_payload_ok: "decimal0 v = Inr cost \<Longrightarrow> payload_ok (pricing_payload s cost)"
  using decimal0_ok [of v cost] by (auto simp: payload_ok_def pricing_payload_def blank_inherits_def)

definition pricing_ok :: "pricing_panel \<Rightarrow> bool" where
  "pricing_ok s \<longleftrightarrow> (\<forall>p. ppn_proposed s = Some p \<longrightarrow> payload_ok p) \<and> (\<forall>p \<in> set (ppn_saved s). payload_ok p)"

lemma pricing_step_ok: "pricing_ok s \<Longrightarrow> pricing_ok (pricing_step s e)"
  by (cases e) (auto simp: pricing_ok_def pricing_submit_def send_pricing_def submitManualPrice_def Let_def
      pricing_payload_ok split: sum.splits option.splits)

interpretation pricing: event_machine pricing_enabled pricing_step "pricing_init p c ts" pricing_ok
  for p c ts
proof
  show "pricing_ok (pricing_init p c ts)" by (simp add: pricing_ok_def pricing_init_def)
qed (rule pricing_step_ok)

text \<open>C34: A cost never changes unasked: whatever is done in the pricing panel of a product, everything it
  saves was either confirmed in the warning, as it was proposed there, or was saved with the cost the
  product had; and it carries a cost that is a decimal of at least zero and margins that are typed
  or null, so inherited.\<close>

theorem cost_change_confirmed:
  assumes "run_ok pricing_enabled pricing_step (pricing_init q c ts) es"
    and "p \<in> set (ppn_saved (foldl pricing_step (pricing_init q c ts) es))"
  shows "\<exists>pre e post t cost. es = pre @ e # post \<and> t = foldl pricing_step (pricing_init q c ts) pre
    \<and> (e = ProposalConfirmed \<and> ppn_proposed t = Some p
       \<or> e = PricingSaved \<and> js_Number cost = js_Number (cp_cost (ppn_product t)))
    \<and> pin_cost p = Some cost \<and> is_decimal6 cost \<and> JsNum 0 \<le> js_Number cost
    \<and> pin_margin_rate p \<notin> {None, Some (Some [])} \<and> pin_margin_amount p \<notin> {None, Some (Some [])}"
proof -
  obtain pre e post where e: "es = pre @ e # post" "saves (foldl pricing_step (pricing_init q c ts) pre) e p"
    using saved_by_event [OF assms(2)] by blast
  have "payload_ok p"
    using pricing.inv_reached [OF reached_run [OF assms(1)]] assms(2) by (simp add: pricing_ok_def)
  then obtain cost where c: "pin_cost p = Some cost" "is_decimal6 cost" "JsNum 0 \<le> js_Number cost"
      "pin_margin_rate p \<notin> {None, Some (Some [])}" "pin_margin_amount p \<notin> {None, Some (Some [])}"
    unfolding payload_ok_def by blast
  have "e = ProposalConfirmed \<and> ppn_proposed (foldl pricing_step (pricing_init q c ts) pre) = Some p
      \<or> e = PricingSaved \<and> js_Number cost
          = js_Number (cp_cost (ppn_product (foldl pricing_step (pricing_init q c ts) pre)))"
    using e(2) c(1) by (auto simp: saves_def pricing_payload_def)
  with e(1) c show ?thesis
    by (intro exI [of _ pre] exI [of _ e] exI [of _ post]
        exI [of _ "foldl pricing_step (pricing_init q c ts) pre"] exI [of _ cost]) simp
qed

section \<open>Taxes stay inherited\<close>

lemma chips_untouched:
  assumes "\<forall>i. ChipPressed i \<notin> set es" and "\<forall>p. PricingAnswered (Inr p) \<in> set es \<longrightarrow> cp_taxes p = []"
    and "\<not> ppn_override s" and "\<forall>p. ppn_proposed s = Some p \<longrightarrow> pin_tax_ids p = Some []"
    and "\<forall>p \<in> set (ppn_saved s). pin_tax_ids p = Some []"
  shows "\<forall>p \<in> set (ppn_saved (foldl pricing_step s es)). pin_tax_ids p = Some []"
  using assms
proof (induction es arbitrary: s)
  case (Cons e es)
  have "\<not> ppn_override (pricing_step s e) \<and> (\<forall>p. ppn_proposed (pricing_step s e) = Some p \<longrightarrow> pin_tax_ids p = Some [])
      \<and> (\<forall>p \<in> set (ppn_saved (pricing_step s e)). pin_tax_ids p = Some [])"
    using Cons.prems
    by (cases e) (auto simp: pricing_submit_def send_pricing_def submitManualPrice_def panel_mount_def
        pricing_payload_def Let_def split: sum.splits option.splits)
  then show ?case using Cons.prems(1,2) Cons.IH [of "pricing_step s e"] by simp
qed simp

lemma js_set_set [simp]: "set (js_set xs) = set xs"
  by (simp add: js_set_def)

lemma js_set_distinct [simp]: "distinct (js_set xs)"
  by (simp add: js_set_def)

lemma chip_single: "length (press_chip i sel) \<le> 1 \<and> set (press_chip i sel) \<subseteq> {i}"
  by (simp add: press_chip_def)

text \<open>What is shown marked is not chosen: a product without taxes of its own is never saved with the
  taxes of its category, however often it is saved, as long as no chip is pressed; and pressing a
  chip leaves at most that one tax chosen, whichever were marked.\<close>

lemma taxes_inherited_until_chosen:
  assumes "cp_taxes q = []" and "\<forall>i. ChipPressed i \<notin> set es"
    and "\<forall>p. PricingAnswered (Inr p) \<in> set es \<longrightarrow> cp_taxes p = []"
    and "p \<in> set (ppn_saved (foldl pricing_step (pricing_init q c ts) es))"
  shows "pin_tax_ids p = Some []
    \<and> length (ppn_chosen (pricing_step s (ChipPressed i))) \<le> 1
    \<and> set (ppn_chosen (pricing_step s (ChipPressed i))) \<subseteq> {i}"
  using chips_untouched [OF assms(2,3), of "pricing_init q c ts"] assms(1,4) chip_single
  by (simp add: pricing_init_def panel_mount_def)

section \<open>Only changes are changes\<close>

text \<open>A decimal as the server writes it.\<close>

definition plain_decimal :: "jsstring \<Rightarrow> bool" where
  "plain_decimal v \<longleftrightarrow> js_trim v \<noteq> [] \<and> cu_comma \<notin> set v \<and> js_Number v \<noteq> JsNaN"

lemma js_replace_none: "c \<notin> set v \<Longrightarrow> js_replace c r v = v"
  by (induction v) auto

lemma differs_same: "plain_decimal v \<Longrightarrow> \<not> differs v (Some v)"
  by (simp add: differs_def plain_decimal_def js_replace_none)

definition plain_product :: "catalog_product \<Rightarrow> bool" where
  "plain_product p \<longleftrightarrow> plain_decimal (cp_cost p) \<and> (\<forall>v. cp_margin_rate p = Some v \<longrightarrow> plain_decimal v)
     \<and> (\<forall>v. cp_margin_amount p = Some v \<longrightarrow> plain_decimal v)"

lemma differs_or_empty: "(\<And>v. saved = Some v \<Longrightarrow> plain_decimal v) \<Longrightarrow> \<not> differs (or_empty saved) saved"
  by (cases saved) (simp_all add: or_empty_def differs_same, simp add: differs_def)

lemma panel_mount_clean:
  assumes "plain_product (ppn_product s)"
  shows "\<not> pricing_dirty (panel_mount s)"
proof -
  let ?p = "ppn_product s"
  have "\<not> differs (cp_cost ?p) (Some (cp_cost ?p))"
    "\<not> differs (or_empty (cp_margin_rate ?p)) (cp_margin_rate ?p)"
    "\<not> differs (or_empty (cp_margin_amount ?p)) (cp_margin_amount ?p)"
    using assms by (simp_all add: plain_product_def differs_same differs_or_empty)
  then show ?thesis
    by (simp add: pricing_dirty_def panel_mount_def Let_def list_ex_iff source_taxes_def)
qed

lemma dirty_cost:
  "\<not> pricing_dirty s \<Longrightarrow> pricing_dirty (s\<lparr>ppn_cost := v\<rparr>) \<longleftrightarrow> differs v (Some (cp_cost (ppn_product s)))"
  by (auto simp: pricing_dirty_def Let_def)

text \<open>The panel asks before leaving exactly when a quantity has changed: as it opens on a product of the
  server it holds nothing to lose, and so again after a save; and then typing another cost counts as
  a change unless it is the same quantity, however it is written, with a comma or with more zeros.\<close>

lemma only_other_quantities_dirty:
  assumes "plain_product q"
  shows "\<not> pricing_dirty (pricing_init q c ts)
    \<and> \<not> pricing_dirty (pricing_step s (PricingAnswered (Inr q)))
    \<and> (pricing_dirty (pricing_step (pricing_init q c ts) (CostIs v)) \<longleftrightarrow>
      js_trim v = [] \<or> js_Number (js_replace cu_comma [cu_dot] v) = JsNaN
      \<or> js_Number (js_replace cu_comma [cu_dot] v) \<noteq> js_Number (cp_cost q))"
proof -
  have clean: "\<not> pricing_dirty (panel_mount t)" if "ppn_product t = q" for t
    using panel_mount_clean assms that by auto
  then have "\<not> pricing_dirty (pricing_init q c ts)" by (simp add: pricing_init_def)
  moreover have "\<not> pricing_dirty (pricing_step s (PricingAnswered (Inr q)))" using clean by simp
  moreover have "ppn_product (pricing_init q c ts) = q" by (simp add: pricing_init_def)
  ultimately show ?thesis
    by (simp add: dirty_cost) (simp add: differs_def Let_def)
qed

section \<open>Samples\<close>

lemma pricing_texts:
  "decimalString (Some (JsNum 0)) [51] = Inr [51] \<and> decimalString (Some (JsNum 0)) [50] = Inr [50]
   \<and> js_Number [51] = JsNum 3 \<and> js_Number [50] = JsNum 2 \<and> plain_decimal [50]"
  by code_simp

definition dearer_water :: "pricing_event list" where
  "dearer_water = [CostIs (js ''3''), PricingSaved, ProposalConfirmed]"

lemmas pricing_simps = pricing_texts pricing_init_def panel_mount_def pricing_submit_def decimal0_def
  send_pricing_def pricing_payload_def blank_inherits_def or_empty_def dearer_water_def water_def js_def Let_def

lemma dearer_run: "run_ok pricing_enabled pricing_step (pricing_init water None []) dearer_water"
  by (simp add: pricing_simps)

lemma dearer_saved:
  "ppn_saved (foldl pricing_step (pricing_init water None []) dearer_water)
    = [\<lparr>pin_margin_rate = Some None, pin_margin_amount = Some None, pin_tax_ids = Some [],
        pin_cost = Some (js ''3''), pin_price_formula = None\<rparr>]"
  by (simp add: pricing_simps)

theorem cost_change_confirmed_witness:
  "\<exists>e. e \<in> set dearer_water \<and> (e = ProposalConfirmed \<or> e = PricingSaved)"
proof -
  obtain p where "p \<in> set (ppn_saved (foldl pricing_step (pricing_init water None []) dearer_water))"
    unfolding dearer_saved by simp
  from cost_change_confirmed [OF dearer_run this] obtain pre e post
    where "dearer_water = pre @ e # post" "e = ProposalConfirmed \<or> e = PricingSaved" by metis
  moreover from this(1) have "e \<in> set dearer_water" by (metis in_set_conv_decomp)
  ultimately show ?thesis by blast
qed

theorem taxes_inherited_until_chosen_witness:
  "\<exists>p \<in> set (ppn_saved (foldl pricing_step (pricing_init water None []) dearer_water)). pin_tax_ids p = Some []"
proof -
  obtain p where p: "p \<in> set (ppn_saved (foldl pricing_step (pricing_init water None []) dearer_water))"
    unfolding dearer_saved by simp
  have "cp_taxes water = []" "\<forall>i. ChipPressed i \<notin> set dearer_water"
    "\<forall>p. PricingAnswered (Inr p) \<in> set dearer_water \<longrightarrow> cp_taxes p = []"
    by (simp_all add: water_def dearer_water_def)
  from taxes_inherited_until_chosen [OF this p] p show ?thesis by blast
qed

theorem only_other_quantities_dirty_witness: "\<not> pricing_dirty (pricing_init water None [])"
proof -
  have "plain_product water" using pricing_texts by (simp add: plain_product_def water_def js_def)
  from only_other_quantities_dirty [OF this] show ?thesis by blast
qed

end
