(* ===== verification/Product_Forms.thy ===== *)
theory Product_Forms
  imports Pricing
begin

text \<open>
  The forms of a product: the one that creates it with its first stock (\<open>CreateProductForm.tsx\<close>), the
  one that edits it (\<open>EditProductForm.tsx\<close>), and the panel of its packages and barcodes
  (\<open>PackagesPanel.tsx\<close>), as event machines over the fields.
\<close>

section \<open>A new product\<close>

record product_form = place_lists +
  prf_categories :: "product_category list"
  prf_taxes :: "tax list"
  prf_name :: jsstring
  prf_description :: jsstring
  prf_category :: jsstring
  prf_pos_category :: jsstring
  prf_order :: jsstring
  prf_open_price :: bool
  prf_unit :: jsstring
  prf_barcode :: jsstring
  prf_cost :: jsstring
  prf_list_price :: jsstring
  prf_margin :: jsstring
  prf_amount :: jsstring
  prf_min_stock :: jsstring
  prf_track_lots :: bool
  prf_track_expiration :: bool
  prf_quantity :: jsstring
  prf_warehouse :: jsstring
  prf_location :: jsstring
  prf_lot :: jsstring
  prf_expiration :: jsstring
  prf_override :: bool
  prf_tax_ids :: "int list"
  prf_estimated :: "jsstring option"
  prf_asked :: "formula_preview list"
  prf_errors :: "jsstring list"
  prf_submitted :: "(product_create \<times> int list) list"

definition product_form_init :: "product_category list \<Rightarrow> tax list \<Rightarrow> product_form" where
  "product_form_init categories taxes = \<lparr>skf_warehouses = None, skf_locations = (\<lambda>w. None),
     prf_categories = categories, prf_taxes = taxes, prf_name = [], prf_description = [],
     prf_category = [], prf_pos_category = [], prf_order = js ''1'', prf_open_price = False, prf_unit = [],
     prf_barcode = [], prf_cost = js ''0'', prf_list_price = js ''0'', prf_margin = [], prf_amount = [],
     prf_min_stock = js ''0'', prf_track_lots = False, prf_track_expiration = False,
     prf_quantity = js ''0'', prf_warehouse = [], prf_location = [], prf_lot = [], prf_expiration = [],
     prf_override = False, prf_tax_ids = [], prf_estimated = None, prf_asked = [], prf_errors = [],
     prf_submitted = []\<rparr>"

definition form_category :: "product_form \<Rightarrow> product_category option" where
  "form_category s = find (\<lambda>c. int_string (pcat_id c) = prf_category s) (prf_categories s)"

definition category_tax_ids :: "product_form \<Rightarrow> int list" where
  "category_tax_ids s = (case form_category s of None \<Rightarrow> [] | Some c \<Rightarrow> js_set (map ptx_id (pcat_taxes c)))"

text \<open>The taxes the estimate counts with, and the ones shown as marked.\<close>

definition effectiveTaxIdsPreview :: "product_form \<Rightarrow> int list" where
  "effectiveTaxIdsPreview s = (if prf_tax_ids s \<noteq> [] then prf_tax_ids s else category_tax_ids s)"

definition displayedTaxIds :: "product_form \<Rightarrow> int list" where
  "displayedTaxIds s = (if prf_override s then prf_tax_ids s else category_tax_ids s)"

definition category_margin :: "(product_category \<Rightarrow> jsstring option) \<Rightarrow> product_form \<Rightarrow> jsstring" where
  "category_margin margin s =
     (case Option.bind (form_category s) margin of None \<Rightarrow> js ''0'' | Some v \<Rightarrow> v)"

text \<open>The estimate is always asked for with this formula, whatever the formula of the shop.\<close>

definition estimate_formula :: jsstring where
  "estimate_formula = js ''(cost + cost * tax_rate / 100 + cost * surcharge_rate / 100) * (1 + margin_rate / 100)''"

definition estimate_question :: "product_form \<Rightarrow> formula_preview option" where
  "estimate_question s =
     (let cost = js_replace cu_comma [cu_dot] (prf_cost s);
          margin = (if js_trim (prf_margin s) \<noteq> [] then prf_margin s else category_margin pcat_margin_rate s);
          amount = (if js_trim (prf_amount s) \<noteq> [] then prf_amount s else category_margin pcat_margin_amount s)
      in if prf_cost s = [] \<or> js_Number cost = JsNaN then None
         else Some \<lparr>fpv_formula = estimate_formula, fpv_cost = cost,
           fpv_tax_rate = rate_sum tx_rate (prf_taxes s) (effectiveTaxIdsPreview s),
           fpv_surcharge_rate = rate_sum tx_surcharge_rate (prf_taxes s) (effectiveTaxIdsPreview s),
           fpv_margin_rate = margin, fpv_margin_amount = js_replace cu_comma [cu_dot] amount\<rparr>)"

text \<open>\<open>z.coerce.number().int().min(0)\<close>.\<close>

definition display_order_ok :: "jsstring \<Rightarrow> bool" where
  "display_order_ok v \<longleftrightarrow> js_is_integer (js_Number v) \<and> JsNum 0 \<le> js_Number v"

text \<open>
  The schema: the fields at fault. A number that is none stops the further checks; otherwise the
  first stock is checked too, also when another field is at fault.
\<close>

definition createProductSchema :: "product_form \<Rightarrow> jsstring list" where
  "createProductSchema s =
     (let bad = (\<lambda>v. isl (decimalString (Some (JsNum 0)) v));
          stock = js_Number (prf_order s) \<noteq> JsNaN
            \<and> \<not> js_Number (js_replace cu_comma [cu_dot] (decimal_transform (prf_quantity s))) \<le> JsNum 0
      in field_if (prf_name s = [] \<or> 255 < length (prf_name s)) ''name''
         @ field_if (2000 < length (prf_description s)) ''description''
         @ field_if (\<not> display_order_ok (prf_order s)) ''pos_display_order''
         @ field_if (prf_unit s = []) ''base_unit_name''
         @ field_if (64 < length (prf_barcode s)) ''base_barcode''
         @ field_if (bad (prf_cost s)) ''cost'' @ field_if (bad (prf_list_price s)) ''list_price''
         @ field_if (bad (prf_min_stock s)) ''min_stock''
         @ field_if (bad (prf_quantity s)) ''initial_stock_quantity''
         @ field_if (100 < length (prf_lot s)
             \<or> stock \<and> prf_track_expiration s \<and> js_trim (prf_lot s) = []) ''initial_stock_lot_number''
         @ field_if (stock \<and> prf_warehouse s = []) ''initial_stock_warehouse_id''
         @ field_if (stock \<and> prf_location s = []) ''initial_stock_location_id''
         @ field_if (stock \<and> prf_track_expiration s \<and> prf_expiration s = []) ''initial_stock_expiration_date'')"

definition id_or_null :: "jsstring \<Rightarrow> int option" where
  "id_or_null v = (if v = [] then None else Some (js_int (js_Number v)))"

definition text_or_null :: "jsstring \<Rightarrow> jsstring option" where
  "text_or_null v = (if v = [] then None else Some v)"

definition first_stock :: "product_form \<Rightarrow> initial_stock option" where
  "first_stock s =
     (let quantity = js_replace cu_comma [cu_dot] (decimal_transform (prf_quantity s)) in
      if JsNum 0 < js_Number quantity
      then Some \<lparr>is_warehouse_id = js_int (js_Number (prf_warehouse s)),
        is_location_id = js_int (js_Number (prf_location s)), is_quantity = quantity,
        is_lot_number = text_or_null (js_trim (prf_lot s)),
        is_expiration_date = text_or_null (prf_expiration s)\<rparr>
      else None)"

definition new_product :: "product_form \<Rightarrow> product_create" where
  "new_product s = \<lparr>prc_name = prf_name s, prc_description = prf_description s,
     prc_category_id = id_or_null (prf_category s), prc_pos_category_id = id_or_null (prf_pos_category s),
     prc_pos_display_order = js_int (js_Number (prf_order s)), prc_is_open_price = prf_open_price s,
     prc_base_unit_name = prf_unit s, prc_base_barcode = text_or_null (prf_barcode s),
     prc_cost = decimal_transform (prf_cost s), prc_list_price = decimal_transform (prf_list_price s),
     prc_margin_rate = blank_inherits (prf_margin s), prc_margin_amount = blank_inherits (prf_amount s),
     prc_min_stock = decimal_transform (prf_min_stock s), prc_track_lots = prf_track_lots s,
     prc_track_expiration = prf_track_expiration s, prc_initial_stock = first_stock s\<rparr>"

definition product_submit :: "product_form \<Rightarrow> product_form" where
  "product_submit s =
     (if createProductSchema s \<noteq> [] then s\<lparr>prf_errors := createProductSchema s\<rparr>
      else s\<lparr>prf_errors := [], prf_submitted := prf_submitted s @ [(new_product s, prf_tax_ids s)]\<rparr>)"

datatype product_event =
    PlacesAre "int list"
  | SpotsAre int "int list"
  | CategoriesAre "product_category list"
  | TaxesAre "tax list"
  | NameTyped jsstring
  | DescriptionTyped jsstring
  | CategoryIs jsstring
  | PosCategoryIs jsstring
  | OrderTyped jsstring
  | OpenPriceIs bool
  | UnitIs jsstring
  | BarcodeTyped jsstring
  | ProductCostTyped jsstring
  | ListPriceTyped jsstring
  | EstimateUsed
  | MarginTyped jsstring
  | AmountTyped jsstring
  | MinStockTyped jsstring
  | ExpirationTracked bool
  | StockQuantity jsstring
  | StockPlace jsstring
  | StockSpot jsstring
  | StockLot jsstring
  | StockExpiration jsstring
  | TaxChip int
  | EstimateTimer
  | EstimateAnswered "jsstring option"
  | ProductSubmitted

fun product_handle :: "product_form \<Rightarrow> product_event \<Rightarrow> product_form" where
  "product_handle s (PlacesAre ws) = s\<lparr>skf_warehouses := Some ws\<rparr>"
| "product_handle s (SpotsAre w ls) = s\<lparr>skf_locations := (skf_locations s)(w \<mapsto> ls)\<rparr>"
| "product_handle s (CategoriesAre cs) = s\<lparr>prf_categories := cs\<rparr>"
| "product_handle s (TaxesAre ts) = s\<lparr>prf_taxes := ts\<rparr>"
| "product_handle s (NameTyped v) = s\<lparr>prf_name := v\<rparr>"
| "product_handle s (DescriptionTyped v) = s\<lparr>prf_description := v\<rparr>"
| "product_handle s (CategoryIs v) = s\<lparr>prf_category := v\<rparr>"
| "product_handle s (PosCategoryIs v) = s\<lparr>prf_pos_category := v\<rparr>"
| "product_handle s (OrderTyped v) = s\<lparr>prf_order := v\<rparr>"
| "product_handle s (OpenPriceIs b) = s\<lparr>prf_open_price := b\<rparr>"
| "product_handle s (UnitIs v) = s\<lparr>prf_unit := v\<rparr>"
| "product_handle s (BarcodeTyped v) = s\<lparr>prf_barcode := v\<rparr>"
| "product_handle s (ProductCostTyped v) = s\<lparr>prf_cost := v\<rparr>"
| "product_handle s (ListPriceTyped v) = s\<lparr>prf_list_price := v\<rparr>"
| "product_handle s EstimateUsed =
     (case prf_estimated s of None \<Rightarrow> s | Some v \<Rightarrow> s\<lparr>prf_list_price := v\<rparr>)"
| "product_handle s (MarginTyped v) = s\<lparr>prf_margin := v\<rparr>"
| "product_handle s (AmountTyped v) = s\<lparr>prf_amount := v\<rparr>"
| "product_handle s (MinStockTyped v) = s\<lparr>prf_min_stock := v\<rparr>"
| "product_handle s (ExpirationTracked b) = s\<lparr>prf_track_expiration := b\<rparr>"
| "product_handle s (StockQuantity v) = s\<lparr>prf_quantity := v\<rparr>"
| "product_handle s (StockPlace v) = s\<lparr>prf_warehouse := v\<rparr>"
| "product_handle s (StockSpot v) = s\<lparr>prf_location := v\<rparr>"
| "product_handle s (StockLot v) = s\<lparr>prf_lot := v\<rparr>"
| "product_handle s (StockExpiration v) = s\<lparr>prf_expiration := v\<rparr>"
| "product_handle s (TaxChip i) = s\<lparr>prf_override := True, prf_tax_ids := press_chip i (displayedTaxIds s)\<rparr>"
| "product_handle s EstimateTimer =
     (case estimate_question s of None \<Rightarrow> s | Some question \<Rightarrow> s\<lparr>prf_asked := prf_asked s @ [question]\<rparr>)"
| "product_handle s (EstimateAnswered r) = s\<lparr>prf_estimated := r\<rparr>"
| "product_handle s ProductSubmitted = product_submit s"

text \<open>
  The effects of a drawing: the places choose their first option, lots follow expiration, the unit
  of another category (or of other categories) replaces the one chosen, and without a cost that is a
  number there is no estimate.
\<close>

definition places_effect :: "product_form \<Rightarrow> product_form" where
  "places_effect s = s\<lparr>prf_warehouse := useDefaultToFirstOption (prf_warehouse s) (skf_warehouses s),
     prf_location := useDefaultToFirstOption (prf_location s) (form_locations s (prf_warehouse s))\<rparr>"

definition lots_effect :: "product_form \<Rightarrow> product_form" where
  "lots_effect s = s\<lparr>prf_track_lots := prf_track_expiration s\<rparr>"

definition unit_effect :: "product_form \<Rightarrow> product_form \<Rightarrow> product_form" where
  "unit_effect before s =
     (if prf_category s = prf_category before \<and> prf_categories s = prf_categories before then s
      else (case Option.bind (form_category s) pcat_default_unit_name of
          None \<Rightarrow> s | Some u \<Rightarrow> if u = [] then s else s\<lparr>prf_unit := u\<rparr>))"

definition estimate_effect :: "product_form \<Rightarrow> product_form \<Rightarrow> product_form" where
  "estimate_effect before s =
     (if (prf_cost s, prf_margin s, prf_amount s, prf_category s, prf_categories s, prf_taxes s, prf_tax_ids s)
        \<noteq> (prf_cost before, prf_margin before, prf_amount before, prf_category before,
           prf_categories before, prf_taxes before, prf_tax_ids before)
        \<and> estimate_question s = None
      then s\<lparr>prf_estimated := None\<rparr> else s)"

definition product_step :: "product_form \<Rightarrow> product_event \<Rightarrow> product_form" where
  "product_step s e =
     (let s1 = product_handle s e
      in places_effect (places_effect (lots_effect (estimate_effect s (unit_effect s s1)))))"

text \<open>
  What the form offers: the lists as they are, places and lots only when there is stock to put, and
  the lot only for a product with expiration.
\<close>

fun product_enabled :: "pos_category list \<Rightarrow> unit_of_sale list \<Rightarrow> bool \<Rightarrow> bool \<Rightarrow> product_form \<Rightarrow> product_event \<Rightarrow> bool" where
  "product_enabled posCategories units canManageStock isPending s (PlacesAre ws) = (\<forall>w \<in> set ws. server_id w)"
| "product_enabled posCategories units canManageStock isPending s (SpotsAre w ls) = (\<forall>l \<in> set ls. server_id l)"
| "product_enabled posCategories units canManageStock isPending s (CategoryIs v) =
     (v = [] \<or> (\<exists>c \<in> set (prf_categories s). v = int_string (pcat_id c)
        \<and> (pcat_is_active c \<or> v = prf_category s)))"
| "product_enabled posCategories units canManageStock isPending s (PosCategoryIs v) =
     (v = [] \<or> (\<exists>c \<in> set posCategories. v = int_string (pc_id c)))"
| "product_enabled posCategories units canManageStock isPending s (UnitIs v) = (\<exists>u \<in> set units. v = un_name u)"
| "product_enabled posCategories units canManageStock isPending s (StockQuantity v) = canManageStock"
| "product_enabled posCategories units canManageStock isPending s (StockPlace v) =
     (canManageStock \<and> prf_quantity s \<noteq> js ''0'' \<and> warehouse_offered s v)"
| "product_enabled posCategories units canManageStock isPending s (StockSpot v) =
     (canManageStock \<and> prf_quantity s \<noteq> js ''0'' \<and> location_offered s (prf_warehouse s) v)"
| "product_enabled posCategories units canManageStock isPending s (StockLot v) =
     (canManageStock \<and> prf_track_expiration s \<and> prf_quantity s \<noteq> js ''0'')"
| "product_enabled posCategories units canManageStock isPending s (StockExpiration v) =
     (canManageStock \<and> prf_track_expiration s \<and> prf_quantity s \<noteq> js ''0'')"
| "product_enabled posCategories units canManageStock isPending s (TaxChip i) =
     (i \<in> set (map tx_id (selectable_taxes (prf_taxes s) (displayedTaxIds s))))"
| "product_enabled posCategories units canManageStock isPending s EstimateUsed =
     (prf_estimated s \<notin> {None, Some []})"
| "product_enabled posCategories units canManageStock isPending s EstimateTimer = (estimate_question s \<noteq> None)"
| "product_enabled posCategories units canManageStock isPending s (EstimateAnswered r) = (prf_asked s \<noteq> [])"
| "product_enabled posCategories units canManageStock isPending s ProductSubmitted = (\<not> isPending)"
| "product_enabled posCategories units canManageStock isPending s e = True"

section \<open>What a new product brings\<close>

lemma is_decimal6_dotted: "is_decimal6 s \<Longrightarrow> js_replace cu_comma r s = s"
proof -
  have "cu_comma \<notin> set s" if "is_decimal6 s"
    using that by (cases rule: is_decimal6_cases) (auto simp: js_digit_def ball_Un)
  then show "is_decimal6 s \<Longrightarrow> js_replace cu_comma r s = s" using js_replace_none by blast
qed

lemma decimal_field_ok:
  "\<not> isl (decimalString (Some m) v) \<Longrightarrow> is_decimal6 (decimal_transform v) \<and> m \<le> js_Number (decimal_transform v)"
  by (auto simp: decimalString_def Let_def split: if_splits)

text \<open>What is sent for the first stock of a product.\<close>

definition first_stock_ok :: "product_form \<Rightarrow> product_create \<Rightarrow> initial_stock \<Rightarrow> bool" where
  "first_stock_ok s p k \<longleftrightarrow> is_decimal6 (is_quantity k) \<and> JsNum 0 < js_Number (is_quantity k)
     \<and> (\<exists>ws. skf_warehouses s = Some ws \<and> is_warehouse_id k \<in> set ws)
     \<and> (\<forall>ls. skf_locations s (is_warehouse_id k) = Some ls \<longrightarrow> is_location_id k \<in> set ls)
     \<and> (prc_track_expiration p \<longrightarrow> is_lot_number k \<noteq> None \<and> is_expiration_date k \<noteq> None)"

definition product_fields_ok :: "product_create \<times> int list \<Rightarrow> bool" where
  "product_fields_ok r \<longleftrightarrow> (case r of (p, ids) \<Rightarrow>
     prc_name p \<noteq> [] \<and> length (prc_name p) \<le> 255 \<and> prc_base_unit_name p \<noteq> []
     \<and> is_decimal6 (prc_cost p) \<and> is_decimal6 (prc_list_price p) \<and> is_decimal6 (prc_min_stock p)
     \<and> prc_track_lots p = prc_track_expiration p \<and> length ids \<le> 1)"

definition product_form_ok :: "bool \<Rightarrow> product_form \<Rightarrow> bool" where
  "product_form_ok canManageStock s \<longleftrightarrow> places_ok s \<and> pair_ok s (prf_warehouse s) (prf_location s)
     \<and> prf_track_lots s = prf_track_expiration s \<and> length (prf_tax_ids s) \<le> 1
     \<and> (\<not> canManageStock \<longrightarrow> prf_quantity s = js ''0'') \<and> list_all product_fields_ok (prf_submitted s)"

lemma product_places_updates [simp]:
  "form_locations (s\<lparr>prf_warehouse := w, prf_location := l\<rparr>) = form_locations s"
  "pair_ok (s\<lparr>prf_warehouse := w, prf_location := l\<rparr>) = pair_ok s"
  "places_ok (s\<lparr>prf_warehouse := w, prf_location := l\<rparr>) = places_ok s"
  by (auto simp: form_locations_def pair_ok_def places_ok_def fun_eq_iff)

text \<open>The parts of the state that the other effects leave alone.\<close>

definition stock_part :: "product_form \<Rightarrow> (int list option \<times> (int \<Rightarrow> int list option)) \<times> jsstring \<times> jsstring
    \<times> jsstring \<times> bool \<times> int list \<times> (product_create \<times> int list) list" where
  "stock_part s = ((skf_warehouses s, skf_locations s), prf_warehouse s, prf_location s, prf_quantity s,
     prf_track_expiration s, prf_tax_ids s, prf_submitted s)"

lemma other_effects [simp]:
  "stock_part (unit_effect b s) = stock_part s" "stock_part (estimate_effect b s) = stock_part s"
  "stock_part (lots_effect s) = stock_part s"
  by (simp_all add: stock_part_def unit_effect_def estimate_effect_def lots_effect_def split: option.splits)

lemma places_effect_part [simp]:
  "prf_track_lots (places_effect s) = prf_track_lots s"
  "prf_track_expiration (places_effect s) = prf_track_expiration s"
  "prf_tax_ids (places_effect s) = prf_tax_ids s" "prf_quantity (places_effect s) = prf_quantity s"
  "prf_submitted (places_effect s) = prf_submitted s"
  by (simp_all add: places_effect_def)

lemma createProductSchemaD:
  assumes "createProductSchema s = []"
  shows "prf_name s \<noteq> []" "length (prf_name s) \<le> 255" "prf_unit s \<noteq> []" "js_Number (prf_order s) \<noteq> JsNaN"
    "is_decimal6 (decimal_transform (prf_cost s))" "is_decimal6 (decimal_transform (prf_list_price s))"
    "is_decimal6 (decimal_transform (prf_min_stock s))" "is_decimal6 (decimal_transform (prf_quantity s))"
    "\<not> js_Number (decimal_transform (prf_quantity s)) \<le> JsNum 0 \<Longrightarrow>
       prf_warehouse s \<noteq> [] \<and> prf_location s \<noteq> []
       \<and> (prf_track_expiration s \<longrightarrow> js_trim (prf_lot s) \<noteq> [] \<and> prf_expiration s \<noteq> [])"
proof -
  note fields = assms [unfolded createProductSchema_def Let_def append_is_Nil_conv field_if_def]
  show "prf_name s \<noteq> []" "length (prf_name s) \<le> 255" "prf_unit s \<noteq> []"
    using fields by (auto split: if_splits)
  have order: "display_order_ok (prf_order s)" using fields by (auto split: if_splits)
  then show nan: "js_Number (prf_order s) \<noteq> JsNaN" by (auto simp: display_order_ok_def)
  have "\<not> isl (decimalString (Some (JsNum 0)) (prf_cost s))"
    "\<not> isl (decimalString (Some (JsNum 0)) (prf_list_price s))"
    "\<not> isl (decimalString (Some (JsNum 0)) (prf_min_stock s))"
    "\<not> isl (decimalString (Some (JsNum 0)) (prf_quantity s))"
    using fields by (auto split: if_splits)
  then show "is_decimal6 (decimal_transform (prf_cost s))" "is_decimal6 (decimal_transform (prf_list_price s))"
    "is_decimal6 (decimal_transform (prf_min_stock s))" and q: "is_decimal6 (decimal_transform (prf_quantity s))"
    using decimal_field_ok by blast+
  assume "\<not> js_Number (decimal_transform (prf_quantity s)) \<le> JsNum 0"
  then have stock: "(js_Number (prf_order s) \<noteq> JsNaN
      \<and> \<not> js_Number (js_replace cu_comma [cu_dot] (decimal_transform (prf_quantity s))) \<le> JsNum 0) = True"
    using nan by (simp add: is_decimal6_dotted [OF q])
  show "prf_warehouse s \<noteq> [] \<and> prf_location s \<noteq> []
       \<and> (prf_track_expiration s \<longrightarrow> js_trim (prf_lot s) \<noteq> [] \<and> prf_expiration s \<noteq> [])"
    using fields unfolding stock by (auto split: if_splits)
qed

lemma new_product_fields:
  assumes "createProductSchema s = []" and "prf_track_lots s = prf_track_expiration s"
    and "length (prf_tax_ids s) \<le> 1"
  shows "product_fields_ok (new_product s, prf_tax_ids s)"
  using createProductSchemaD [OF assms(1)] assms(2,3) by (simp add: product_fields_ok_def new_product_def)

lemma product_handle_part:
  assumes "product_form_ok canManageStock s" and "product_enabled pcs units canManageStock isPending s e"
  defines "t \<equiv> product_handle s e"
  shows "places_ok t \<and> id_field (prf_location t) \<and> (skf_warehouses t = None \<longrightarrow> prf_warehouse t = [])"
    and "length (prf_tax_ids t) \<le> 1" and "\<not> canManageStock \<longrightarrow> prf_quantity t = js ''0''"
    and "list_all product_fields_ok (prf_submitted t)"
proof -
  have ok: "places_ok s" "id_field (prf_location s)" "skf_warehouses s = None \<longrightarrow> prf_warehouse s = []"
    "prf_track_lots s = prf_track_expiration s" "length (prf_tax_ids s) \<le> 1"
    "\<not> canManageStock \<longrightarrow> prf_quantity s = js ''0''" "list_all product_fields_ok (prf_submitted s)"
    using assms(1) by (auto simp: product_form_ok_def pair_ok_def)
  show "places_ok t \<and> id_field (prf_location t) \<and> (skf_warehouses t = None \<longrightarrow> prf_warehouse t = [])"
    unfolding t_def using ok(1-3) assms(2) form_locations_ids [OF ok(1)]
    by (cases e) (auto simp: places_ok_def offered_def id_field_def product_submit_def
        split: option.splits if_splits)
  show "length (prf_tax_ids t) \<le> 1"
    unfolding t_def using ok(5) chip_single
    by (cases e) (auto simp: product_submit_def split: option.splits)
  show "\<not> canManageStock \<longrightarrow> prf_quantity t = js ''0''"
    unfolding t_def using ok(6) assms(2)
    by (cases e) (auto simp: product_submit_def split: option.splits)
  show "list_all product_fields_ok (prf_submitted t)"
    unfolding t_def using ok(4,5,7) new_product_fields
    by (cases e) (auto simp: product_submit_def split: option.splits)
qed

lemma stock_part_cong:
  assumes "stock_part t = stock_part s"
  shows "places_ok t = places_ok s" "pair_ok t = pair_ok s" "prf_location t = prf_location s"
    "prf_warehouse t = prf_warehouse s" "skf_warehouses t = skf_warehouses s"
    "prf_tax_ids t = prf_tax_ids s" "prf_quantity t = prf_quantity s" "prf_submitted t = prf_submitted s"
  using assms by (auto simp: stock_part_def places_ok_def pair_ok_def form_locations_def fun_eq_iff)

lemma product_step_ok:
  assumes "product_form_ok canManageStock s" and "product_enabled pcs units canManageStock isPending s e"
  shows "product_form_ok canManageStock (product_step s e)"
proof -
  define t where "t = lots_effect (estimate_effect s (unit_effect s (product_handle s e)))"
  have "stock_part t = stock_part (product_handle s e)" by (simp add: t_def)
  note cong = stock_part_cong [OF this]
  have t: "places_ok t" "id_field (prf_location t)" "skf_warehouses t = None \<Longrightarrow> prf_warehouse t = []"
    "length (prf_tax_ids t) \<le> 1" "\<not> canManageStock \<longrightarrow> prf_quantity t = js ''0''"
    "list_all product_fields_ok (prf_submitted t)"
    unfolding cong using product_handle_part [OF assms] by auto
  have "product_step s e = places_effect (places_effect t)" by (simp add: product_step_def t_def Let_def)
  moreover have "prf_track_lots t = prf_track_expiration t" by (simp add: t_def lots_effect_def)
  ultimately show ?thesis
    using t pair_ok_passes [OF t(1-3)] by (simp add: product_form_ok_def) (simp add: places_effect_def)
qed

interpretation new_products: event_machine "product_enabled pcs units canManageStock isPending" product_step
    "product_form_init categories taxes" "product_form_ok canManageStock"
  for pcs units canManageStock isPending categories taxes
proof
  show "product_form_ok canManageStock (product_form_init categories taxes)"
    by (simp add: product_form_ok_def product_form_init_def places_ok_def pair_ok_def form_locations_def
        drop_down.waits id_field_def)
qed (rule product_step_ok)

text \<open>The location of the form is one that a list gave.\<close>

definition spots_given :: "int set \<Rightarrow> product_form \<Rightarrow> bool" where
  "spots_given L s \<longleftrightarrow> locations_given L s \<and> given L (prf_location s)"

lemma product_step_given:
  assumes "spots_given L s" and "product_enabled pcs units canManageStock isPending s e"
    and "\<And>w ls. e = SpotsAre w ls \<Longrightarrow> set ls \<subseteq> L"
  shows "spots_given L (product_step s e)"
proof -
  have effect: "spots_given L (places_effect t)" if "spots_given L t" for t
    using that given_passes [of L t "prf_location t" "prf_warehouse t"]
    by (auto simp: spots_given_def places_effect_def locations_given_def)
  define t where "t = lots_effect (estimate_effect s (unit_effect s (product_handle s e)))"
  have "stock_part t = stock_part (product_handle s e)" by (simp add: t_def)
  then have same: "spots_given L t = spots_given L (product_handle s e)"
    by (auto simp: stock_part_def spots_given_def locations_given_def)
  have "spots_given L (product_handle s e)"
    using assms given_offered [of L s "prf_warehouse s"]
    by (cases e) (auto simp: spots_given_def locations_given_def product_submit_def split: option.splits if_splits)
  then show ?thesis using effect same by (simp add: product_step_def t_def Let_def)
qed

interpretation product_spots: event_machine
    "\<lambda>s e. product_enabled pcs units canManageStock isPending s e \<and> e \<in> E" product_step
    "product_form_init categories taxes" "spots_given (\<Union> {set ls | ls. \<exists>w. SpotsAre w ls \<in> E})"
  for pcs units canManageStock isPending categories taxes E
proof
  show "spots_given (\<Union> {set ls | ls. \<exists>w. SpotsAre w ls \<in> E}) (product_form_init categories taxes)"
    by (simp add: spots_given_def locations_given_def given_def product_form_init_def)
qed (rule product_step_given, auto)

lemma no_quantity: "\<not> JsNum 0 < js_Number (js_replace cu_comma [cu_dot] (decimal_transform (js ''0'')))"
  by code_simp

text \<open>C35: A new product begins with goods that can be traced: whatever is done in the form, what its button
  sends when nothing is at fault has a name of 1 to 255 characters, a unit, and decimals for its cost,
  its list price and its minimum stock (its margins are sent as typed); it follows lots exactly when it
  follows expiration, and carries at most one tax; and it brings first stock only if the person may
  manage stock, then with a decimal quantity above zero, into a warehouse of the list on screen and a
  location of a list of locations that came, which is the list of that warehouse as soon as it has
  come, and with its lot and its date if the product expires.\<close>

theorem new_product_traceable:
  assumes "run_ok (product_enabled pcs units canManageStock isPending) product_step
      (product_form_init categories taxes) es"
    and "s = foldl product_step (product_form_init categories taxes) es" and "createProductSchema s = []"
  shows "prc_name (new_product s) \<noteq> [] \<and> length (prc_name (new_product s)) \<le> 255
    \<and> prc_base_unit_name (new_product s) \<noteq> []
    \<and> is_decimal6 (prc_cost (new_product s)) \<and> is_decimal6 (prc_list_price (new_product s))
    \<and> is_decimal6 (prc_min_stock (new_product s))
    \<and> prc_track_lots (new_product s) = prc_track_expiration (new_product s) \<and> length (prf_tax_ids s) \<le> 1
    \<and> (case prc_initial_stock (new_product s) of None \<Rightarrow> True
       | Some k \<Rightarrow> canManageStock \<and> first_stock_ok s (new_product s) k
           \<and> (\<exists>w ls. SpotsAre w ls \<in> set es \<and> is_location_id k \<in> set ls))"
proof -
  have ok: "product_form_ok canManageStock s"
    using new_products.inv_reached [OF reached_run [OF assms(1)]] assms(2) by simp
  then have parts: "places_ok s" "pair_ok s (prf_warehouse s) (prf_location s)"
      "prf_track_lots s = prf_track_expiration s" "length (prf_tax_ids s) \<le> 1"
      "\<not> canManageStock \<longrightarrow> prf_quantity s = js ''0''"
    by (simp_all add: product_form_ok_def)
  have spots: "given (\<Union> {set ls | ls. \<exists>w. SpotsAre w ls \<in> set es}) (prf_location s)"
    using product_spots.inv_reached [OF reached_run [OF run_ok_within [OF assms(1) order_refl]]] assms(2)
    by (simp add: spots_given_def)
  note schema = createProductSchemaD [OF assms(3)]
  have "canManageStock \<and> first_stock_ok s (new_product s) k
      \<and> (\<exists>w ls. SpotsAre w ls \<in> set es \<and> is_location_id k \<in> set ls)" if k: "first_stock s = Some k" for k
  proof -
    have dot: "js_replace cu_comma [cu_dot] (decimal_transform (prf_quantity s)) = decimal_transform (prf_quantity s)"
      using schema(8) by (rule is_decimal6_dotted)
    then have pos: "JsNum 0 < js_Number (decimal_transform (prf_quantity s))"
      and kk: "k = \<lparr>is_warehouse_id = js_int (js_Number (prf_warehouse s)),
        is_location_id = js_int (js_Number (prf_location s)), is_quantity = decimal_transform (prf_quantity s),
        is_lot_number = text_or_null (js_trim (prf_lot s)), is_expiration_date = text_or_null (prf_expiration s)\<rparr>"
      using k by (auto simp: first_stock_def Let_def split: if_splits)
    then have filled: "prf_warehouse s \<noteq> []" "prf_location s \<noteq> []"
        "prf_track_expiration s \<longrightarrow> js_trim (prf_lot s) \<noteq> [] \<and> prf_expiration s \<noteq> []"
      using schema(9) by (auto simp: less_jsnum_def less_eq_jsnum_def elim: js_less.elims)
    obtain ws i j where p: "skf_warehouses s = Some ws" "i \<in> set ws"
        "js_Number (prf_warehouse s) = JsNum (of_int i)" "js_Number (prf_location s) = JsNum (of_int j)"
        "\<And>ls. skf_locations s i = Some ls \<Longrightarrow> j \<in> set ls"
      using pair_ok_sends [OF parts(2,1) filled(1,2)] by metis
    have "id_field (prf_location s)" using parts(2) by (simp add: pair_ok_def)
    then have "\<exists>w ls. SpotsAre w ls \<in> set es \<and> j \<in> set ls"
      using given_number [OF spots filled(2)] p(4) by auto
    moreover have "canManageStock" using parts(5) pos dot no_quantity by auto
    ultimately show ?thesis
      using pos p filled(3) schema(8) by (auto simp: first_stock_ok_def kk new_product_def text_or_null_def)
  qed
  then show ?thesis
    using schema parts(3,4) by (auto simp: new_product_def split: option.splits)
qed

lemma product_texts:
  "decimalString (Some (JsNum 0)) [48] = Inr [48] \<and> decimalString (Some (JsNum 0)) [50, 44, 53] = Inr [50, 46, 53]
   \<and> js_Number [49] = JsNum 1 \<and> js_is_integer (JsNum 1) \<and> JsNum 0 \<le> JsNum 1"
  by code_simp

definition bottled :: "product_event list" where
  "bottled = [PlacesAre [3], SpotsAre 3 [5], NameTyped (js ''Agua''), UnitIs (js ''l''),
     ExpirationTracked True, StockQuantity (js ''2,5''), StockLot (js ''L1''), StockExpiration (js ''2026-01-01'')]"

definition bottled_form :: product_form where
  "bottled_form = foldl product_step (product_form_init [] []) bottled"

lemmas bottled_simps = product_texts sample_simps product_form_init_def product_step_def places_effect_def
  lots_effect_def estimate_effect_def unit_effect_def bottled_def

lemma bottled_run:
  "run_ok (product_enabled [] [\<lparr>un_id = 1, un_name = js ''l'', un_display_order = 0\<rparr>] True False) product_step
     (product_form_init [] []) bottled"
  by (simp add: bottled_simps)

lemma bottled_ok: "createProductSchema bottled_form = []"
  by (simp add: bottled_form_def bottled_simps createProductSchema_def display_order_ok_def)

theorem new_product_traceable_witness:
  "prc_name (new_product bottled_form) \<noteq> [] \<and> is_decimal6 (prc_min_stock (new_product bottled_form))"
  using new_product_traceable [OF bottled_run bottled_form_def bottled_ok] by blast

section \<open>A product edited\<close>

datatype tracks_choice = Inherit | TracksYes | TracksNo

record edit_form =
  edf_name :: jsstring
  edf_description :: jsstring
  edf_category :: jsstring
  edf_pos_category :: jsstring
  edf_order :: jsstring
  edf_open_price :: bool
  edf_barcode :: jsstring
  edf_unit :: jsstring
  edf_min_stock :: jsstring
  edf_track_lots :: bool
  edf_track_expiration :: bool
  edf_tracks_stock :: tracks_choice
  edf_errors :: "jsstring list"
  edf_submitted :: "product_update list"

definition id_field_of :: "int option \<Rightarrow> jsstring" where
  "id_field_of i = (case i of None \<Rightarrow> [] | Some n \<Rightarrow> int_string n)"

definition base_barcode :: "catalog_product \<Rightarrow> jsstring" where
  "base_barcode p =
     (case find cpk_is_base (cp_packages p) of
        None \<Rightarrow> []
      | Some pkg \<Rightarrow> (case cpk_barcodes pkg of [] \<Rightarrow> [] | (i, code) # _ \<Rightarrow> code))"

definition tracks_choice_of :: "bool option \<Rightarrow> tracks_choice" where
  "tracks_choice_of t = (case t of None \<Rightarrow> Inherit | Some b \<Rightarrow> if b then TracksYes else TracksNo)"

text \<open>
  The one box for lots and expiration governs both, and turned on it asks for stock to be kept; the
  effect runs when the form opens and whenever the box changes.
\<close>

definition box_effect :: "edit_form \<Rightarrow> edit_form" where
  "box_effect s = s\<lparr>edf_track_lots := edf_track_expiration s,
     edf_tracks_stock := (if edf_track_expiration s then TracksYes else edf_tracks_stock s)\<rparr>"

definition edit_form_init :: "catalog_product \<Rightarrow> edit_form" where
  "edit_form_init p =
     (let traced = cp_track_lots p \<or> cp_track_expiration p in
      box_effect \<lparr>edf_name = cp_name p, edf_description = cp_description p,
        edf_category = id_field_of (cp_category_id p), edf_pos_category = id_field_of (cp_pos_category_id p),
        edf_order = int_string (cp_pos_display_order p), edf_open_price = (cp_is_open_price p = Some True),
        edf_barcode = base_barcode p, edf_unit = cp_base_unit_name p, edf_min_stock = cp_min_stock p,
        edf_track_lots = traced, edf_track_expiration = traced,
        edf_tracks_stock = tracks_choice_of (cp_tracks_stock p), edf_errors = [], edf_submitted = []\<rparr>)"

definition editProductSchema :: "edit_form \<Rightarrow> jsstring list" where
  "editProductSchema s =
     field_if (edf_name s = [] \<or> 255 < length (edf_name s)) ''name''
     @ field_if (2000 < length (edf_description s)) ''description''
     @ field_if (\<not> display_order_ok (edf_order s)) ''pos_display_order''
     @ field_if (64 < length (edf_barcode s)) ''base_barcode''
     @ field_if (edf_unit s = []) ''base_unit_name''
     @ field_if (isl (decimalString (Some (JsNum 0)) (edf_min_stock s))) ''min_stock''"

definition edited_product :: "edit_form \<Rightarrow> product_update" where
  "edited_product s = \<lparr>pru_name = Some (edf_name s), pru_description = Some (edf_description s),
     pru_category_id = Some (id_or_null (edf_category s)),
     pru_pos_category_id = Some (id_or_null (edf_pos_category s)),
     pru_pos_display_order = Some (js_int (js_Number (edf_order s))),
     pru_is_open_price = Some (edf_open_price s),
     pru_base_barcode = Some (text_or_null (js_trim (edf_barcode s))),
     pru_base_unit_name = Some (edf_unit s), pru_min_stock = Some (decimal_transform (edf_min_stock s)),
     pru_track_lots = Some (edf_track_lots s), pru_track_expiration = Some (edf_track_expiration s),
     pru_tracks_stock = (if edf_tracks_stock s = Inherit then None else Some (edf_tracks_stock s = TracksYes)),
     pru_inherit_tracks_stock = (if edf_tracks_stock s = Inherit then Some True else None)\<rparr>"

datatype edit_event =
    EditName jsstring
  | EditDescription jsstring
  | EditCategory jsstring
  | EditPosCategory jsstring
  | EditOrder jsstring
  | EditOpenPrice bool
  | EditBarcode jsstring
  | EditUnit jsstring
  | EditMinStock jsstring
  | EditBox bool
  | EditTracks tracks_choice
  | EditSubmitted

fun edit_handle :: "edit_form \<Rightarrow> edit_event \<Rightarrow> edit_form" where
  "edit_handle s (EditName v) = s\<lparr>edf_name := v\<rparr>"
| "edit_handle s (EditDescription v) = s\<lparr>edf_description := v\<rparr>"
| "edit_handle s (EditCategory v) = s\<lparr>edf_category := v\<rparr>"
| "edit_handle s (EditPosCategory v) = s\<lparr>edf_pos_category := v\<rparr>"
| "edit_handle s (EditOrder v) = s\<lparr>edf_order := v\<rparr>"
| "edit_handle s (EditOpenPrice b) = s\<lparr>edf_open_price := b\<rparr>"
| "edit_handle s (EditBarcode v) = s\<lparr>edf_barcode := v\<rparr>"
| "edit_handle s (EditUnit v) = s\<lparr>edf_unit := v\<rparr>"
| "edit_handle s (EditMinStock v) = s\<lparr>edf_min_stock := v\<rparr>"
| "edit_handle s (EditBox b) = s\<lparr>edf_track_expiration := b\<rparr>"
| "edit_handle s (EditTracks t) = s\<lparr>edf_tracks_stock := t\<rparr>"
| "edit_handle s EditSubmitted =
     (if editProductSchema s \<noteq> [] then s\<lparr>edf_errors := editProductSchema s\<rparr>
      else s\<lparr>edf_errors := [], edf_submitted := edf_submitted s @ [edited_product s]\<rparr>)"

definition edit_step :: "edit_form \<Rightarrow> edit_event \<Rightarrow> edit_form" where
  "edit_step s e =
     (let s1 = edit_handle s e in
      if edf_track_expiration s1 = edf_track_expiration s then s1 else box_effect s1)"

fun edit_enabled :: "catalog_product \<Rightarrow> product_category list \<Rightarrow> pos_category list \<Rightarrow> unit_of_sale list
    \<Rightarrow> bool \<Rightarrow> edit_form \<Rightarrow> edit_event \<Rightarrow> bool" where
  "edit_enabled p categories pcs units isPending s (EditCategory v) =
     (v = [] \<or> (\<exists>c \<in> set categories. v = int_string (pcat_id c)
        \<and> (pcat_is_active c \<or> Some (pcat_id c) = cp_category_id p)))"
| "edit_enabled p categories pcs units isPending s (EditPosCategory v) =
     (v = [] \<or> (\<exists>c \<in> set pcs. v = int_string (pc_id c)))"
| "edit_enabled p categories pcs units isPending s (EditUnit v) =
     (v = cp_base_unit_name p \<or> (\<exists>u \<in> set units. v = un_name u))"
| "edit_enabled p categories pcs units isPending s (EditTracks t) = (\<not> edf_track_expiration s)"
| "edit_enabled p categories pcs units isPending s EditSubmitted = (\<not> isPending)"
| "edit_enabled p categories pcs units isPending s e = True"

text \<open>An update that keeps what traceability needs.\<close>

definition traced_update :: "product_update \<Rightarrow> bool" where
  "traced_update u \<longleftrightarrow> pru_track_lots u = pru_track_expiration u
     \<and> (pru_track_expiration u = Some True \<longrightarrow> pru_tracks_stock u = Some True)
     \<and> (pru_tracks_stock u = None \<longleftrightarrow> pru_inherit_tracks_stock u = Some True)"

definition edit_ok :: "catalog_product \<Rightarrow> edit_form \<Rightarrow> bool" where
  "edit_ok p s \<longleftrightarrow> edf_track_lots s = edf_track_expiration s
     \<and> (edf_track_expiration s \<longrightarrow> edf_tracks_stock s = TracksYes) \<and> list_all traced_update (edf_submitted s)"

lemma edit_step_ok:
  assumes "edit_ok p s" and "edit_enabled p categories pcs units isPending s e"
  shows "edit_ok p (edit_step s e)"
  using assms
  by (cases e) (auto simp: edit_ok_def edit_step_def box_effect_def Let_def traced_update_def edited_product_def)

interpretation edited_products: event_machine "edit_enabled p categories pcs units isPending" edit_step
    "edit_form_init p" "edit_ok p"
  for p categories pcs units isPending
proof
  show "edit_ok p (edit_form_init p)"
    by (simp add: edit_ok_def edit_form_init_def box_effect_def Let_def)
qed (rule edit_step_ok)

lemma box_untouched:
  assumes "\<forall>b. EditBox b \<notin> set es"
  shows "edf_track_expiration (foldl edit_step s es) = edf_track_expiration s"
  using assms
proof (induction es arbitrary: s)
  case (Cons e es)
  then have "edf_track_expiration (edit_step s e) = edf_track_expiration s"
    by (cases e) (auto simp: edit_step_def Let_def)
  then show ?case using Cons by simp
qed simp

text \<open>Editing never breaks the trace of a product: whatever is done in the form, every update it sends
  follows lots exactly when it follows expiration, keeps stock explicitly whenever it does, and either
  says whether stock is kept or inherits it, never both; and a product that had lots or expiration
  keeps both as long as the box is not touched.\<close>

lemma edit_keeps_trace:
  assumes "run_ok (edit_enabled p categories pcs units isPending) edit_step (edit_form_init p) es"
    and "u \<in> set (edf_submitted (foldl edit_step (edit_form_init p) es))"
  shows "pru_track_lots u = pru_track_expiration u
    \<and> (pru_track_expiration u = Some True \<longrightarrow> pru_tracks_stock u = Some True)
    \<and> (pru_tracks_stock u = None \<longleftrightarrow> pru_inherit_tracks_stock u = Some True)
    \<and> ((cp_track_lots p \<or> cp_track_expiration p) \<and> (\<forall>b. EditBox b \<notin> set es)
       \<longrightarrow> pru_track_lots (edited_product (foldl edit_step (edit_form_init p) es)) = Some True
         \<and> pru_track_expiration (edited_product (foldl edit_step (edit_form_init p) es)) = Some True)"
proof -
  have ok: "edit_ok p (foldl edit_step (edit_form_init p) es)"
    using edited_products.inv_reached [OF reached_run [OF assms(1)]] .
  then have "traced_update u" using assms(2) by (auto simp: edit_ok_def list_all_iff)
  moreover have "edf_track_expiration (edit_form_init p) = (cp_track_lots p \<or> cp_track_expiration p)"
    by (simp add: edit_form_init_def box_effect_def Let_def)
  ultimately show ?thesis
    using ok box_untouched [of es "edit_form_init p"]
    by (auto simp: traced_update_def edit_ok_def edited_product_def)
qed

lemma water_edits:
  "run_ok (edit_enabled water [] [] [] False) edit_step (edit_form_init water) [EditName (js ''Agua''), EditSubmitted]
   \<and> length (edf_submitted (foldl edit_step (edit_form_init water) [EditName (js ''Agua''), EditSubmitted])) = 1"
proof -
  have zero: "display_order_ok (nat_digits 0)" by code_simp
  show ?thesis
    using product_texts zero sample_texts
    by (simp add: edit_form_init_def box_effect_def Let_def water_def edit_step_def editProductSchema_def
        js_def field_if_def int_string_def base_barcode_def)
qed

theorem edit_keeps_trace_witness:
  "\<exists>u \<in> set (edf_submitted (foldl edit_step (edit_form_init water) [EditName (js ''Agua''), EditSubmitted])).
     pru_track_lots u = pru_track_expiration u"
proof -
  obtain u where "u \<in> set (edf_submitted (foldl edit_step (edit_form_init water) [EditName (js ''Agua''), EditSubmitted]))"
    using water_edits by (cases "edf_submitted (foldl edit_step (edit_form_init water) [EditName (js ''Agua''), EditSubmitted])") auto
  from edit_keeps_trace [OF conjunct1 [OF water_edits] this] this show ?thesis by blast
qed

section \<open>Packages and barcodes\<close>

definition automaticPackagePrice :: "catalog_product \<Rightarrow> jsstring \<Rightarrow> jsstring" where
  "automaticPackagePrice p factor = js_toFixed 6 (js_Number (catalog_finalPrice p) * js_Number factor)"

text \<open>The price of a package as typed: whether it can be saved, and what is saved; blank is automatic.\<close>

definition package_price_saves :: "bool \<Rightarrow> jsstring option \<Rightarrow> jsstring \<Rightarrow> bool" where
  "package_price_saves busy saved v \<longleftrightarrow> \<not> busy \<and> or_empty saved \<noteq> js_trim v"

definition package_price :: "jsstring \<Rightarrow> jsstring option" where
  "package_price v = text_or_null (js_trim v)"

definition barcode_saves :: "bool \<Rightarrow> jsstring \<Rightarrow> jsstring \<Rightarrow> bool" where
  "barcode_saves busy saved v \<longleftrightarrow> \<not> busy \<and> js_trim v \<noteq> [] \<and> js_trim v \<noteq> saved"

record packages_panel =
  pkp_name :: jsstring
  pkp_factor :: jsstring
  pkp_barcode :: jsstring
  pkp_price :: jsstring
  pkp_targets :: "int \<Rightarrow> jsstring"
  pkp_added :: "(jsstring \<times> jsstring \<times> jsstring option \<times> jsstring option) list"
  pkp_barcodes :: "(int \<times> jsstring) list"

definition packages_init :: packages_panel where
  "packages_init = \<lparr>pkp_name = [], pkp_factor = [], pkp_barcode = [], pkp_price = [], pkp_targets = (\<lambda>i. []),
     pkp_added = [], pkp_barcodes = []\<rparr>"

datatype packages_event =
    PackageName jsstring
  | PackageFactor jsstring
  | PackageBarcode jsstring
  | PackagePrice jsstring
  | PackageAdded
  | TargetTyped int jsstring
  | TargetAdded int

text \<open>The browser asks for the name and the factor of a package, which may not be empty.\<close>

fun packages_step :: "packages_panel \<Rightarrow> packages_event \<Rightarrow> packages_panel" where
  "packages_step s (PackageName v) = s\<lparr>pkp_name := v\<rparr>"
| "packages_step s (PackageFactor v) = s\<lparr>pkp_factor := v\<rparr>"
| "packages_step s (PackageBarcode v) = s\<lparr>pkp_barcode := v\<rparr>"
| "packages_step s (PackagePrice v) = s\<lparr>pkp_price := v\<rparr>"
| "packages_step s PackageAdded = s\<lparr>pkp_name := [], pkp_factor := [], pkp_barcode := [], pkp_price := [],
     pkp_added := pkp_added s @ [(pkp_name s, pkp_factor s, text_or_null (pkp_barcode s), text_or_null (pkp_price s))]\<rparr>"
| "packages_step s (TargetTyped i v) = s\<lparr>pkp_targets := (pkp_targets s)(i := v)\<rparr>"
| "packages_step s (TargetAdded i) =
     (if pkp_targets s i = [] then s
      else s\<lparr>pkp_targets := (pkp_targets s)(i := []), pkp_barcodes := pkp_barcodes s @ [(i, pkp_targets s i)]\<rparr>)"

fun packages_enabled :: "bool \<Rightarrow> bool \<Rightarrow> packages_panel \<Rightarrow> packages_event \<Rightarrow> bool" where
  "packages_enabled isAddingPackage isAddingBarcode s PackageAdded =
     (\<not> isAddingPackage \<and> pkp_name s \<noteq> [] \<and> pkp_factor s \<noteq> [])"
| "packages_enabled isAddingPackage isAddingBarcode s (TargetAdded i) =
     (\<not> isAddingBarcode \<and> pkp_targets s i \<noteq> [])"
| "packages_enabled isAddingPackage isAddingBarcode s e = True"

end
