(* ===== verification/Users.thy ===== *)
theory Users
  imports Pricing Sessions "HOL-Library.AList"
begin

text \<open>
  Users and roles: the records and calls of \<open>features/users/api.ts\<close> and \<open>features/roles/api.ts\<close>, the
  forms of a new user and a new role, the permissions of a role edited in place (\<open>RoleCard.tsx\<close>), and
  the two pages (\<open>UsersPage.tsx\<close> with \<open>UsersTable.tsx\<close>, \<open>RolesPage.tsx\<close>) as event machines. The
  check of an email address belongs to the schema library and is a parameter.
\<close>

section \<open>Records and calls\<close>

record user_row =
  ur_id :: int
  ur_email :: jsstring
  ur_full_name :: jsstring
  ur_is_active :: bool
  ur_must_change_password :: bool
  ur_role_id :: int
  ur_role_name :: jsstring
  ur_pos_username :: "jsstring option"
  ur_pos_pin_configured :: bool
  ur_pos_access_enabled :: bool

definition usersQuery :: query_options where
  "usersQuery = \<lparr>q_key = [KStr (js ''users'')], q_call = get_call (js ''/users''), q_enabled = True\<rparr>"

record user_create =
  uc_email :: jsstring
  uc_full_name :: jsstring
  uc_password :: jsstring
  uc_role_id :: jsnum
  uc_pos :: "(jsstring \<times> jsstring) option"

text \<open>The last field holds \<open>pos_username\<close> and \<open>pos_pin\<close>, which are sent together or not at all.\<close>

definition createUser :: "user_create \<Rightarrow> api_call" where
  "createUser p = send_call POST (js ''/users'') []
     (Some (JObj ([(js ''email'', JStr (uc_email p)), (js ''full_name'', JStr (uc_full_name p)),
        (js ''password'', JStr (uc_password p)), (js ''role_id'', json_number (uc_role_id p))]
        @ (case uc_pos p of None \<Rightarrow> []
           | Some (u, pin) \<Rightarrow> [(js ''pos_username'', JStr u), (js ''pos_pin'', JStr pin)]))))"

definition user_path :: "int \<Rightarrow> jsstring \<Rightarrow> jsstring" where
  "user_path i rest = js ''/users/'' @ int_string i @ rest"

definition updateUserRole :: "int \<Rightarrow> int \<Rightarrow> api_call" where
  "updateUserRole userId roleId = send_call PATCH (user_path userId []) []
     (Some (JObj [(js ''role_id'', JInt roleId)]))"

definition updateUser :: "int \<Rightarrow> jsstring \<Rightarrow> jsstring \<Rightarrow> int \<Rightarrow> api_call" where
  "updateUser userId email full_name role_id = send_call PATCH (user_path userId []) []
     (Some (JObj [(js ''email'', JStr email), (js ''full_name'', JStr full_name),
        (js ''role_id'', JInt role_id)]))"

definition deactivateUser :: "int \<Rightarrow> api_call" where
  "deactivateUser userId = send_call POST (user_path userId (js ''/deactivate'')) [] None"

definition activateUser :: "int \<Rightarrow> api_call" where
  "activateUser userId = send_call POST (user_path userId (js ''/activate'')) [] None"

definition resetUserPassword :: "int \<Rightarrow> jsstring \<Rightarrow> api_call" where
  "resetUserPassword userId temporaryPassword = send_call POST (user_path userId (js ''/reset-password'')) []
     (Some (JObj [(js ''temporary_password'', JStr temporaryPassword)]))"

definition setUserPosCredentials :: "int \<Rightarrow> jsstring \<Rightarrow> jsstring \<Rightarrow> api_call" where
  "setUserPosCredentials userId username pin = send_call PUT (user_path userId (js ''/pos-credentials'')) []
     (Some (JObj [(js ''pos_username'', JStr username), (js ''pos_pin'', JStr pin)]))"

definition setUserPosAccess :: "int \<Rightarrow> bool \<Rightarrow> api_call" where
  "setUserPosAccess userId access = send_call PATCH (user_path userId (js ''/pos-access'')) []
     (Some (JObj [(js ''enabled'', JBool access)]))"

record role =
  ro_id :: int
  ro_name :: jsstring
  ro_description :: jsstring
  ro_permissions :: "jsstring list"

record permission_row =
  pmr_id :: int
  pmr_key :: jsstring
  pmr_description :: jsstring

definition rolesQuery :: query_options where
  "rolesQuery = \<lparr>q_key = [KStr (js ''roles'')], q_call = get_call (js ''/roles''), q_enabled = True\<rparr>"

definition permissionsQuery :: query_options where
  "permissionsQuery = \<lparr>q_key = [KStr (js ''permissions'')], q_call = get_call (js ''/permissions''),
     q_enabled = True\<rparr>"

definition createRole :: "jsstring \<Rightarrow> jsstring \<Rightarrow> api_call" where
  "createRole name description = send_call POST (js ''/roles'') []
     (Some (JObj [(js ''name'', JStr name), (js ''description'', JStr description)]))"

definition setRolePermissions :: "int \<Rightarrow> jsstring list \<Rightarrow> api_call" where
  "setRolePermissions roleId permissionKeys =
     send_call PATCH (js ''/roles/'' @ int_string roleId @ js ''/permissions'') []
       (Some (JObj [(js ''permission_keys'', JArr (map JStr permissionKeys))]))"

section \<open>A new user\<close>

record user_fields =
  uf_email :: jsstring
  uf_full_name :: jsstring
  uf_password :: jsstring
  uf_role :: jsstring
  uf_pos_username :: jsstring
  uf_pos_pin :: jsstring

text \<open>\<open>/^\d{4,12}$/\<close>.\<close>

definition pin_digits :: "jsstring \<Rightarrow> bool" where
  "pin_digits v \<longleftrightarrow> 4 \<le> length v \<and> length v \<le> 12 \<and> list_all js_digit v"

definition createUserSchema :: "(jsstring \<Rightarrow> bool) \<Rightarrow> user_fields \<Rightarrow> jsstring list" where
  "createUserSchema is_email v =
     (let role = js_Number (uf_role v); username = js_trim (uf_pos_username v)
      in field_if (uf_email v = [] \<or> \<not> is_email (uf_email v)) ''email''
         @ field_if (uf_full_name v = [] \<or> 255 < length (uf_full_name v)) ''full_name''
         @ field_if (length (uf_password v) < 8 \<or> 255 < length (uf_password v)) ''password''
         @ field_if (\<not> (js_is_integer role \<and> JsNum 0 < role)) ''role_id''
         @ field_if (uf_pos_username v \<noteq> [] \<and> \<not> (3 \<le> length username \<and> length username \<le> 64)) ''pos_username''
         @ field_if (uf_pos_pin v \<noteq> [] \<and> \<not> pin_digits (uf_pos_pin v)) ''pos_pin'')"

definition user_submitted :: "user_fields \<Rightarrow> user_create" where
  "user_submitted v =
     (let username = js_trim (uf_pos_username v)
      in \<lparr>uc_email = uf_email v, uc_full_name = uf_full_name v, uc_password = uf_password v,
          uc_role_id = js_Number (uf_role v),
          uc_pos = (if username \<noteq> [] \<and> uf_pos_pin v \<noteq> [] then Some (username, uf_pos_pin v) else None)\<rparr>)"

text \<open>The messages that the form shows: none of the two fields of the till has one.\<close>

definition shown_user_errors :: "jsstring list \<Rightarrow> jsstring list" where
  "shown_user_errors errors =
     filter (\<lambda>f. f \<in> {js ''email'', js ''full_name'', js ''password'', js ''role_id''}) errors"

section \<open>The page of the users\<close>

datatype user_write =
    CreateUser user_create
  | ChangeRole int int
  | Deactivate int
  | Activate int
  | ResetPassword int jsstring
  | PosCredentials int jsstring jsstring
  | PosAccess int bool
  | EditUser int jsstring jsstring int

datatype user_job =
    CreateJob | RoleJob | DeactivateJob | ActivateJob | ResetJob | CredentialsJob | AccessJob | EditJob

fun user_write_job :: "user_write \<Rightarrow> user_job" where
  "user_write_job (CreateUser p) = CreateJob"
| "user_write_job (ChangeRole u r) = RoleJob"
| "user_write_job (Deactivate u) = DeactivateJob"
| "user_write_job (Activate u) = ActivateJob"
| "user_write_job (ResetPassword u p) = ResetJob"
| "user_write_job (PosCredentials u n p) = CredentialsJob"
| "user_write_job (PosAccess u b) = AccessJob"
| "user_write_job (EditUser u m n r) = EditJob"

fun user_write_call :: "user_write \<Rightarrow> api_call" where
  "user_write_call (CreateUser p) = createUser p"
| "user_write_call (ChangeRole u r) = updateUserRole u r"
| "user_write_call (Deactivate u) = deactivateUser u"
| "user_write_call (Activate u) = activateUser u"
| "user_write_call (ResetPassword u p) = resetUserPassword u p"
| "user_write_call (PosCredentials u n p) = setUserPosCredentials u n p"
| "user_write_call (PosAccess u b) = setUserPosAccess u b"
| "user_write_call (EditUser u m n r) = updateUser u m n r"

text \<open>
  \<open>us_roles\<close> holds the roles received, none before the answer; \<open>us_refetched\<close> counts how often the list
  of users was asked for again.
\<close>

record users_page =
  us_users :: "user_row list option"
  us_roles :: "role list"
  us_showCreateForm :: bool
  us_fields :: user_fields
  us_field_errors :: "jsstring list"
  us_createError :: "jsstring option"
  us_operationError :: "jsstring option"
  us_resetTarget :: "user_row option"
  us_temporaryPassword :: jsstring
  us_posTarget :: "user_row option"
  us_posUsername :: jsstring
  us_posPin :: jsstring
  us_editTarget :: "user_row option"
  us_editName :: jsstring
  us_editEmail :: jsstring
  us_editRoleId :: "int option"
  us_running :: "user_job list"
  us_refetched :: nat
  us_sent :: "user_write list"

definition empty_user :: user_fields where
  "empty_user = \<lparr>uf_email = [], uf_full_name = [], uf_password = [], uf_role = [], uf_pos_username = [],
     uf_pos_pin = []\<rparr>"

definition users_init :: users_page where
  "users_init = \<lparr>us_users = None, us_roles = [], us_showCreateForm = False, us_fields = empty_user,
     us_field_errors = [], us_createError = None, us_operationError = None, us_resetTarget = None,
     us_temporaryPassword = [], us_posTarget = None, us_posUsername = [], us_posPin = [],
     us_editTarget = None, us_editName = [], us_editEmail = [], us_editRoleId = None, us_running = [],
     us_refetched = 0, us_sent = []\<rparr>"

definition assignableRoles :: "me \<Rightarrow> role list \<Rightarrow> role list" where
  "assignableRoles current roles =
     filter (\<lambda>r. list_all (\<lambda>p. p \<in> set (me_permissions current)) (ro_permissions r)) roles"

definition us_isPending :: "users_page \<Rightarrow> user_job \<Rightarrow> bool" where
  "us_isPending s j \<longleftrightarrow> j \<in> set (us_running s)"

definition us_mutate :: "user_write \<Rightarrow> users_page \<Rightarrow> users_page" where
  "us_mutate w s = s\<lparr>us_sent := us_sent s @ [w], us_running := us_running s @ [user_write_job w]\<rparr>"

definition user_named :: "users_page \<Rightarrow> int \<Rightarrow> user_row option" where
  "user_named s i = Option.bind (us_users s) (find (\<lambda>u. ur_id u = i))"

definition has_code :: "string \<Rightarrow> failure \<Rightarrow> bool" where
  "has_code code e = (case e of ApiFailure a \<Rightarrow> ae_code a = js code | OtherFailure m \<Rightarrow> False)"

definition create_user_error :: "failure \<Rightarrow> jsstring" where
  "create_user_error e =
     (if has_code ''conflict'' e then js ''Ya existe un usuario con ese email.''
      else if has_code ''permission_denied'' e
      then js ''No puedes asignar ese rol porque contiene permisos que no posees.''
      else js ''No se ha podido crear el usuario.'')"

text \<open>The message of a failed operation; deactivating and activating have none.\<close>

fun operation_error :: "user_job \<Rightarrow> failure \<Rightarrow> jsstring option" where
  "operation_error RoleJob e = Some (if has_code ''permission_denied'' e
     then js ''No puedes asignar un rol con permisos superiores a los tuyos.''
     else js ''No se ha podido cambiar el rol.'')"
| "operation_error ResetJob e = Some (js ''No se ha podido restablecer la contrase'' @ [241] @ js ''a.'')"
| "operation_error CredentialsJob e = Some (if has_code ''validation_error'' e
     then js ''El rol del usuario debe tener acceso TPV antes de configurar sus credenciales.''
     else js ''No se ha podido guardar el acceso TPV.'')"
| "operation_error AccessJob e = Some (if has_code ''validation_error'' e
     then js ''Configura antes un usuario y PIN TPV, y usa un rol con acceso TPV.''
     else js ''No se ha podido actualizar el acceso TPV.'')"
| "operation_error EditJob e = Some (if has_code ''conflict'' e
     then js ''Ya existe un usuario con ese email.'' else js ''No se ha podido guardar el usuario.'')"
| "operation_error j e = None"

definition refetch_users :: "users_page \<Rightarrow> users_page" where
  "refetch_users s = s\<lparr>us_refetched := Suc (us_refetched s)\<rparr>"

fun user_success :: "user_job \<Rightarrow> users_page \<Rightarrow> users_page" where
  "user_success CreateJob s = (refetch_users s)\<lparr>us_showCreateForm := False, us_createError := None\<rparr>"
| "user_success RoleJob s = (refetch_users s)\<lparr>us_operationError := None\<rparr>"
| "user_success DeactivateJob s = refetch_users s"
| "user_success ActivateJob s = refetch_users s"
| "user_success ResetJob s = s\<lparr>us_resetTarget := None, us_temporaryPassword := [], us_operationError := None\<rparr>"
| "user_success CredentialsJob s =
     (refetch_users s)\<lparr>us_posTarget := None, us_posUsername := [], us_posPin := []\<rparr>"
| "user_success AccessJob s = (refetch_users s)\<lparr>us_operationError := None\<rparr>"
| "user_success EditJob s = (refetch_users s)\<lparr>us_editTarget := None, us_operationError := None\<rparr>"

definition user_failed :: "user_job \<Rightarrow> failure \<Rightarrow> users_page \<Rightarrow> users_page" where
  "user_failed j e s =
     (if j = CreateJob then s\<lparr>us_createError := Some (create_user_error e)\<rparr>
      else (case operation_error j e of None \<Rightarrow> s | Some m \<Rightarrow> s\<lparr>us_operationError := Some m\<rparr>))"

datatype users_event =
    UsersAre "user_row list"
  | RolesAre "role list"
  | NewUser
  | UserTyped user_fields
  | UserSubmitted
  | NewUserCancelled
  | RolePicked int int
  | DeactivatePressed int
  | ActivatePressed int
  | AccessPressed int bool
  | EditPressed int
  | EditNameTyped jsstring
  | EditEmailTyped jsstring
  | EditRoleIs int
  | EditSubmitted
  | EditCancelled
  | ResetPressed int
  | TemporaryTyped jsstring
  | ResetSubmitted
  | ResetCancelled
  | TillPressed int
  | TillNameTyped jsstring
  | TillPinTyped jsstring
  | TillSubmitted
  | TillCancelled
  | UserAnswered user_job "failure option"

fun users_handle :: "(jsstring \<Rightarrow> bool) \<Rightarrow> users_page \<Rightarrow> users_event \<Rightarrow> users_page" where
  "users_handle is_email s (UsersAre us) = s\<lparr>us_users := Some us\<rparr>"
| "users_handle is_email s (RolesAre rs) = s\<lparr>us_roles := rs\<rparr>"
| "users_handle is_email s NewUser =
     s\<lparr>us_showCreateForm := True, us_fields := empty_user, us_field_errors := []\<rparr>"
| "users_handle is_email s (UserTyped v) = s\<lparr>us_fields := v\<rparr>"
| "users_handle is_email s UserSubmitted =
     (let errors = createUserSchema is_email (us_fields s); s' = s\<lparr>us_field_errors := errors\<rparr>
      in if errors \<noteq> [] then s' else us_mutate (CreateUser (user_submitted (us_fields s))) s')"
| "users_handle is_email s NewUserCancelled = s\<lparr>us_showCreateForm := False, us_createError := None\<rparr>"
| "users_handle is_email s (RolePicked u r) = us_mutate (ChangeRole u r) s"
| "users_handle is_email s (DeactivatePressed u) = us_mutate (Deactivate u) s"
| "users_handle is_email s (ActivatePressed u) = us_mutate (Activate u) s"
| "users_handle is_email s (AccessPressed u b) = us_mutate (PosAccess u b) s"
| "users_handle is_email s (EditPressed u) =
     (let target = user_named s u
      in s\<lparr>us_editTarget := target,
        us_editName := (case target of None \<Rightarrow> [] | Some t \<Rightarrow> ur_full_name t),
        us_editEmail := (case target of None \<Rightarrow> [] | Some t \<Rightarrow> ur_email t),
        us_editRoleId := map_option ur_role_id target\<rparr>)"
| "users_handle is_email s (EditNameTyped v) = s\<lparr>us_editName := v\<rparr>"
| "users_handle is_email s (EditEmailTyped v) = s\<lparr>us_editEmail := v\<rparr>"
| "users_handle is_email s (EditRoleIs r) = s\<lparr>us_editRoleId := Some r\<rparr>"
| "users_handle is_email s EditSubmitted =
     (case (us_editTarget s, us_editRoleId s) of
        (Some t, Some r) \<Rightarrow> us_mutate (EditUser (ur_id t) (us_editEmail s) (us_editName s) r) s
      | _ \<Rightarrow> s)"
| "users_handle is_email s EditCancelled = s\<lparr>us_editTarget := None\<rparr>"
| "users_handle is_email s (ResetPressed u) =
     s\<lparr>us_operationError := None, us_temporaryPassword := [], us_resetTarget := user_named s u\<rparr>"
| "users_handle is_email s (TemporaryTyped v) = s\<lparr>us_temporaryPassword := v\<rparr>"
| "users_handle is_email s ResetSubmitted =
     (case us_resetTarget s of None \<Rightarrow> s
      | Some t \<Rightarrow> us_mutate (ResetPassword (ur_id t) (us_temporaryPassword s)) s)"
| "users_handle is_email s ResetCancelled = s\<lparr>us_resetTarget := None, us_temporaryPassword := []\<rparr>"
| "users_handle is_email s (TillPressed u) =
     (let target = user_named s u
      in s\<lparr>us_posTarget := target,
        us_posUsername := (case Option.bind target ur_pos_username of None \<Rightarrow> [] | Some n \<Rightarrow> n),
        us_posPin := []\<rparr>)"
| "users_handle is_email s (TillNameTyped v) = s\<lparr>us_posUsername := v\<rparr>"
| "users_handle is_email s (TillPinTyped v) = s\<lparr>us_posPin := v\<rparr>"
| "users_handle is_email s TillSubmitted =
     (case us_posTarget s of None \<Rightarrow> s
      | Some t \<Rightarrow> us_mutate (PosCredentials (ur_id t) (us_posUsername s) (us_posPin s)) s)"
| "users_handle is_email s TillCancelled = s\<lparr>us_posTarget := None\<rparr>"
| "users_handle is_email s (UserAnswered j outcome) =
     (let s' = s\<lparr>us_running := remove1 j (us_running s)\<rparr>
      in case outcome of None \<Rightarrow> user_success j s' | Some e \<Rightarrow> user_failed j e s')"

text \<open>A role that the table or a form offers; a user whose row has buttons.\<close>

definition role_offered :: "me \<Rightarrow> users_page \<Rightarrow> int \<Rightarrow> bool" where
  "role_offered current s r \<longleftrightarrow> r \<in> ro_id ` set (assignableRoles current (us_roles s))"

definition row_has_buttons :: "me \<Rightarrow> users_page \<Rightarrow> int \<Rightarrow> bool" where
  "row_has_buttons current s u \<longleftrightarrow> u \<noteq> me_id current
     \<and> (case user_named s u of None \<Rightarrow> False | Some row \<Rightarrow> role_offered current s (ur_role_id row))"

text \<open>What can happen to the page of the person signed in.\<close>

fun users_enabled :: "me \<Rightarrow> users_page \<Rightarrow> users_event \<Rightarrow> bool" where
  "users_enabled current s (UsersAre us) = distinct (map ur_id us)"
| "users_enabled current s (RolesAre rs) = list_all (\<lambda>r. server_id (ro_id r)) rs"
| "users_enabled current s NewUser = (\<not> us_showCreateForm s)"
| "users_enabled current s (UserTyped v) = (us_showCreateForm s
     \<and> (uf_role v = uf_role (us_fields s)
        \<or> (\<exists>r \<in> set (assignableRoles current (us_roles s)). uf_role v = int_string (ro_id r))))"
| "users_enabled current s UserSubmitted = (us_showCreateForm s \<and> \<not> us_isPending s CreateJob)"
| "users_enabled current s NewUserCancelled = us_showCreateForm s"
| "users_enabled current s (RolePicked u r) = (role_offered current s r \<and> \<not> us_isPending s RoleJob
     \<and> (case user_named s u of None \<Rightarrow> False
        | Some row \<Rightarrow> ur_is_active row \<and> role_offered current s (ur_role_id row)))"
| "users_enabled current s (DeactivatePressed u) = (row_has_buttons current s u
     \<and> map_option ur_is_active (user_named s u) = Some True \<and> \<not> us_isPending s DeactivateJob)"
| "users_enabled current s (ActivatePressed u) = (row_has_buttons current s u
     \<and> map_option ur_is_active (user_named s u) = Some False \<and> \<not> us_isPending s ActivateJob)"
| "users_enabled current s (AccessPressed u b) = (row_has_buttons current s u
     \<and> (case user_named s u of None \<Rightarrow> False | Some row \<Rightarrow>
          b \<noteq> ur_pos_access_enabled row \<and> (b \<longrightarrow> ur_pos_pin_configured row)))"
| "users_enabled current s (EditPressed u) = row_has_buttons current s u"
| "users_enabled current s (EditRoleIs r) =
     (us_editTarget s \<noteq> None \<and> us_editRoleId s \<noteq> None \<and> role_offered current s r)"
| "users_enabled current s EditSubmitted = (us_editTarget s \<noteq> None \<and> us_editRoleId s \<noteq> None
     \<and> \<not> us_isPending s EditJob \<and> js_trim (us_editName s) \<noteq> [] \<and> js_trim (us_editEmail s) \<noteq> [])"
| "users_enabled current s (ResetPressed u) = row_has_buttons current s u"
| "users_enabled current s (TemporaryTyped v) = (us_resetTarget s \<noteq> None \<and> length v \<le> 255)"
| "users_enabled current s ResetSubmitted = (us_resetTarget s \<noteq> None
     \<and> \<not> us_isPending s ResetJob \<and> 12 \<le> length (us_temporaryPassword s))"
| "users_enabled current s (TillPressed u) = row_has_buttons current s u"
| "users_enabled current s TillSubmitted = (us_posTarget s \<noteq> None
     \<and> js_trim (us_posUsername s) \<noteq> [] \<and> pin_digits (us_posPin s) \<and> \<not> us_isPending s CredentialsJob)"
| "users_enabled current s (UserAnswered j outcome) = us_isPending s j"
| "users_enabled current s e = True"

section \<open>Nobody gives more than they hold\<close>

text \<open>The moments of a run: the page as it was at each event, and the event.\<close>

fun moments :: "('s \<Rightarrow> 'e \<Rightarrow> 's) \<Rightarrow> 's \<Rightarrow> 'e list \<Rightarrow> ('s \<times> 'e) set" where
  "moments move s [] = {}"
| "moments move s (e # es) = insert (s, e) (moments move (move s e) es)"

lemma run_ok_moments:
  "run_ok enabled move s es \<Longrightarrow> moments move s es \<subseteq> M \<Longrightarrow> run_ok (\<lambda>s e. enabled s e \<and> (s, e) \<in> M) move s es"
  by (induction es arbitrary: s) auto

text \<open>
  A role that was chosen, by an event that names it, at a moment when the list of roles on the page
  gave it no permission that the person lacks.
\<close>

definition role_held :: "me \<Rightarrow> users_page \<Rightarrow> int \<Rightarrow> bool" where
  "role_held current t r \<longleftrightarrow>
     (\<exists>x \<in> set (us_roles t). ro_id x = r \<and> set (ro_permissions x) \<subseteq> set (me_permissions current))"

definition role_chosen :: "(users_page \<times> users_event) set \<Rightarrow> me \<Rightarrow> (users_page \<Rightarrow> users_event set) \<Rightarrow> int \<Rightarrow> bool" where
  "role_chosen M current naming r \<longleftrightarrow> (\<exists>(t, e) \<in> M. e \<in> naming t \<and> role_held current t r)"

definition typed_roles :: "int \<Rightarrow> users_page \<Rightarrow> users_event set" where
  "typed_roles r t = {UserTyped v | v. uf_role v = int_string r}"

definition edited_roles :: "int \<Rightarrow> int \<Rightarrow> users_page \<Rightarrow> users_event set" where
  "edited_roles u r t = {EditRoleIs r} \<union> {e. e = EditPressed u \<and> map_option ur_role_id (user_named t u) = Some r}"

fun user_write_ok :: "(users_page \<times> users_event) set \<Rightarrow> me \<Rightarrow> user_write \<Rightarrow> bool" where
  "user_write_ok M current (CreateUser p) = (8 \<le> length (uc_password p)
     \<and> (\<exists>r. uc_role_id p = JsNum (of_int r) \<and> role_chosen M current (typed_roles r) r)
     \<and> (\<forall>n pin. uc_pos p = Some (n, pin) \<longrightarrow> 3 \<le> length n \<and> pin_digits pin))"
| "user_write_ok M current (ChangeRole u r) = role_chosen M current (\<lambda>t. {RolePicked u r}) r"
| "user_write_ok M current (EditUser u m n r) =
     (u \<noteq> me_id current \<and> role_chosen M current (edited_roles u r) r)"
| "user_write_ok M current (ResetPassword u p) =
     (u \<noteq> me_id current \<and> 12 \<le> length p \<and> length p \<le> 255)"
| "user_write_ok M current (PosCredentials u n pin) = (u \<noteq> me_id current \<and> pin_digits pin)"
| "user_write_ok M current (Deactivate u) = (u \<noteq> me_id current)"
| "user_write_ok M current (Activate u) = (u \<noteq> me_id current)"
| "user_write_ok M current (PosAccess u b) = (u \<noteq> me_id current)"

definition users_ok :: "(users_page \<times> users_event) set \<Rightarrow> me \<Rightarrow> users_page \<Rightarrow> bool" where
  "users_ok M current s \<longleftrightarrow>
     list_all (\<lambda>r. server_id (ro_id r)) (us_roles s)
     \<and> (uf_role (us_fields s) = []
        \<or> (\<exists>r. server_id r \<and> role_chosen M current (typed_roles r) r \<and> uf_role (us_fields s) = int_string r))
     \<and> (\<forall>t \<in> set_option (us_resetTarget s) \<union> set_option (us_posTarget s) \<union> set_option (us_editTarget s).
          ur_id t \<noteq> me_id current)
     \<and> (\<forall>t r. us_editTarget s = Some t \<longrightarrow> us_editRoleId s = Some r
          \<longrightarrow> role_chosen M current (edited_roles (ur_id t) r) r)
     \<and> length (us_temporaryPassword s) \<le> 255
     \<and> list_all (user_write_ok M current) (us_sent s)"

lemma user_named_id: "user_named s u = Some t \<Longrightarrow> ur_id t = u"
  by (auto simp: user_named_def find_Some_iff split: bind_splits)

lemma offered_held: "role_offered current s r \<longleftrightarrow> role_held current s r"
  by (auto simp: role_offered_def role_held_def assignableRoles_def list_all_iff image_iff)

lemma assignable_held:
  assumes "users_ok M current s" and "x \<in> set (assignableRoles current (us_roles s))"
  shows "role_held current s (ro_id x)" and "server_id (ro_id x)"
  using assms by (auto simp: users_ok_def role_held_def assignableRoles_def list_all_iff)

lemma role_chosenI: "(s, e) \<in> M \<Longrightarrow> e \<in> naming s \<Longrightarrow> role_held current s r \<Longrightarrow> role_chosen M current naming r"
  by (auto simp: role_chosen_def)

lemma buttons_row:
  assumes "row_has_buttons current s u"
  obtains t where "user_named s u = Some t" "ur_id t = u" "u \<noteq> me_id current" "role_held current s (ur_role_id t)"
  using assms user_named_id by (auto simp: row_has_buttons_def offered_held split: option.splits)

lemma created_user_ok:
  assumes "users_ok M current s" and "createUserSchema is_email (us_fields s) = []"
  shows "user_write_ok M current (CreateUser (user_submitted (us_fields s)))"
proof -
  note parts = assms(2) [unfolded createUserSchema_def Let_def append_is_Nil_conv field_if_def]
  have role: "js_is_integer (js_Number (uf_role (us_fields s)))" and pos: "JsNum 0 < js_Number (uf_role (us_fields s))"
    and pw: "8 \<le> length (uf_password (us_fields s))"
    and name: "uf_pos_username (us_fields s) = [] \<or> 3 \<le> length (js_trim (uf_pos_username (us_fields s)))"
    and pin: "uf_pos_pin (us_fields s) = [] \<or> pin_digits (uf_pos_pin (us_fields s))"
    using parts by (auto split: if_splits)
  have "uf_role (us_fields s) \<noteq> []"
    using pos by (auto simp: less_jsnum_def)
  then obtain r where r: "server_id r" "role_chosen M current (typed_roles r) r"
      "uf_role (us_fields s) = int_string r"
    using assms(1) by (auto simp: users_ok_def)
  have "js_Number (uf_role (us_fields s)) = JsNum (of_int r)" using r by simp
  then show ?thesis
    using pw name pin r(2) by (auto simp: user_submitted_def Let_def)
qed

lemma users_mutate_ok:
  "users_ok M current s \<Longrightarrow> user_write_ok M current w \<Longrightarrow> users_ok M current (us_mutate w s)"
  by (simp add: users_ok_def us_mutate_def)

lemma users_answered_ok:
  assumes "users_ok M current s"
  shows "users_ok M current (user_success j s)" "users_ok M current (user_failed j e s)"
proof -
  show "users_ok M current (user_success j s)"
    using assms by (cases j) (auto simp: users_ok_def refetch_users_def)
  have same: "users_ok M current (s\<lparr>us_operationError := m\<rparr>)" "users_ok M current (s\<lparr>us_createError := m\<rparr>)" for m
    using assms by (auto simp: users_ok_def)
  show "users_ok M current (user_failed j e s)"
    using assms same by (simp add: user_failed_def split: option.splits)
qed

lemma users_step_ok:
  assumes "users_ok M current s" and "users_enabled current s e \<and> (s, e) \<in> M"
  shows "users_ok M current (users_handle is_email s e)"
proof (cases e)
  case (UserTyped v)
  have "role_chosen M current (typed_roles (ro_id x)) (ro_id x) \<and> server_id (ro_id x)"
    if "x \<in> set (assignableRoles current (us_roles s))" "uf_role v = int_string (ro_id x)" for x
    using that assms(2) UserTyped assignable_held [OF assms(1) that(1)]
    by (auto simp: typed_roles_def intro: role_chosenI)
  then show ?thesis
    using assms UserTyped by (auto simp: users_ok_def)
next
  case UserSubmitted
  have "users_ok M current (s\<lparr>us_field_errors := es\<rparr>)" for es
    using assms(1) by (simp add: users_ok_def)
  then show ?thesis
    using UserSubmitted created_user_ok [OF assms(1)] users_mutate_ok by (auto simp: Let_def)
next
  case (RolePicked u r)
  then have "role_chosen M current (\<lambda>t. {RolePicked u r}) r"
    using assms(2) by (intro role_chosenI [of s e]) (auto simp: offered_held)
  then show ?thesis using assms(1) RolePicked by (auto intro!: users_mutate_ok)
next
  case (EditPressed u)
  then have "row_has_buttons current s u" using assms(2) by simp
  then obtain t where t: "user_named s u = Some t" "ur_id t = u" "u \<noteq> me_id current"
      "role_held current s (ur_role_id t)"
    by (rule buttons_row)
  have "role_chosen M current (edited_roles u (ur_role_id t)) (ur_role_id t)"
    using assms(2) t EditPressed by (intro role_chosenI [of s e]) (auto simp: edited_roles_def)
  then show ?thesis using EditPressed assms(1) t by (auto simp: users_ok_def)
next
  case EditSubmitted
  then show ?thesis
    using assms by (auto intro!: users_mutate_ok split: option.splits) (auto simp: users_ok_def)
next
  case (EditRoleIs r)
  have "role_chosen M current (edited_roles u r) r" for u
    using assms(2) EditRoleIs by (intro role_chosenI [of s e]) (auto simp: edited_roles_def offered_held)
  then show ?thesis using EditRoleIs assms(1) by (auto simp: users_ok_def)
next
  case (UserAnswered j outcome)
  have "users_ok M current (s\<lparr>us_running := remove1 j (us_running s)\<rparr>)"
    using assms(1) by (simp add: users_ok_def)
  then show ?thesis using UserAnswered users_answered_ok by (auto simp: Let_def split: option.splits)
next
  case (ResetPressed u)
  then have "row_has_buttons current s u" using assms(2) by simp
  then show ?thesis
    by (rule buttons_row) (use ResetPressed assms(1) in \<open>auto simp: users_ok_def\<close>)
next
  case (TillPressed u)
  then have "row_has_buttons current s u" using assms(2) by simp
  then show ?thesis
    by (rule buttons_row) (use TillPressed assms(1) in \<open>auto simp: users_ok_def Let_def\<close>)
next
  case ResetSubmitted
  then show ?thesis
    using assms by (auto intro!: users_mutate_ok split: option.splits) (auto simp: users_ok_def)
next
  case TillSubmitted
  then show ?thesis
    using assms by (auto intro!: users_mutate_ok split: option.splits) (auto simp: users_ok_def)
qed (use assms in \<open>auto simp: users_ok_def us_mutate_def row_has_buttons_def empty_user_def\<close>)

interpretation user_pages: event_machine "\<lambda>s e. users_enabled current s e \<and> (s, e) \<in> M" "users_handle is_email"
    users_init "users_ok M current"
  for current M is_email
proof
  show "users_ok M current users_init" by (simp add: users_ok_def users_init_def empty_user_def)
qed (rule users_step_ok)

text \<open>C36: Every role that a request of the users page gives was chosen by an event of the page (picked in the
table, typed in the form of a new user, or shown or picked in the form that edits that user) at a moment
when the list of roles on the page gave it no permission that the person signed in lacks, in whatever order
lists arrive and buttons, menus and forms are used. A list that arrives between the choice and the request
is not looked at again. Only the menu of the table can change the person's own row, and passwords and PINs
sent have the required lengths.\<close>

theorem no_role_above_own:
  assumes "run_ok (users_enabled current) (users_handle is_email) users_init es"
    and "w \<in> set (us_sent (foldl (users_handle is_email) users_init es))"
  shows "user_write_ok (moments (users_handle is_email) users_init es) current w"
  using user_pages.inv_reached [OF reached_run [OF run_ok_moments [OF assms(1) order_refl]]] assms(2)
  by (auto simp: users_ok_def list_all_iff)

definition sample_roles :: "role list" where
  "sample_roles = [\<lparr>ro_id = 1, ro_name = js ''ADMIN'', ro_description = [],
      ro_permissions = [js ''users.manage'', js ''roles.manage'']\<rparr>,
    \<lparr>ro_id = 2, ro_name = js ''SELLER'', ro_description = [], ro_permissions = [js ''users.manage'']\<rparr>]"

definition sample_user_manager :: me where
  "sample_user_manager = \<lparr>me_id = 7, me_email = [], me_full_name = [], me_role = js ''MANAGER'',
     me_permissions = [js ''users.manage'', js ''product.read''], me_must_change_password = False\<rparr>"

definition sample_user_events :: "users_event list" where
  "sample_user_events = [RolesAre sample_roles,
     UsersAre [\<lparr>ur_id = 9, ur_email = [], ur_full_name = js ''Ana'', ur_is_active = True,
       ur_must_change_password = False, ur_role_id = 2, ur_role_name = js ''SELLER'',
       ur_pos_username = None, ur_pos_pin_configured = False, ur_pos_access_enabled = False\<rparr>],
     RolePicked 9 2, UserAnswered RoleJob None, EditPressed 9, EditEmailTyped (js ''a@b.es''), EditSubmitted]"

theorem no_role_above_own_witness:
  "user_write_ok (moments (users_handle (\<lambda>e. True)) users_init sample_user_events) sample_user_manager
     (EditUser 9 (js ''a@b.es'') (js ''Ana'') 2)"
proof (rule no_role_above_own)
  show "run_ok (users_enabled sample_user_manager) (users_handle (\<lambda>e. True)) users_init sample_user_events"
    by code_simp
  show "EditUser 9 (js ''a@b.es'') (js ''Ana'') 2
      \<in> set (us_sent (foldl (users_handle (\<lambda>e. True)) users_init sample_user_events))"
    by code_simp
qed

text \<open>
  The choice is not checked again: when a list arrives in which the role of the form has come to hold
  a permission that the person lacks, the role is no longer offered and the button sends it all the same.
\<close>

definition richer_roles :: "role list" where
  "richer_roles = map (\<lambda>r. r\<lparr>ro_permissions := ro_permissions r @ [js ''roles.manage'']\<rparr>) sample_roles"

lemma role_of_former_list:
  defines "before \<equiv> butlast sample_user_events @ [RolesAre richer_roles]"
  shows "run_ok (users_enabled sample_user_manager) (users_handle (\<lambda>e. True)) users_init (before @ [EditSubmitted])"
    and "\<not> role_offered sample_user_manager (foldl (users_handle (\<lambda>e. True)) users_init before) 2"
    and "EditUser 9 (js ''a@b.es'') (js ''Ana'') 2
      \<in> set (us_sent (foldl (users_handle (\<lambda>e. True)) users_init (before @ [EditSubmitted])))"
  unfolding before_def by code_simp+

text \<open>
  A PIN without a user of the till, or the other way round, passes the form and is left out of what
  is sent; a PIN of the wrong length is refused by an error that the form shows nowhere.
\<close>

definition sample_new_user :: user_fields where
  "sample_new_user = \<lparr>uf_email = js ''a@b.es'', uf_full_name = js ''Ana'', uf_password = js ''secreto1'',
     uf_role = js ''2'', uf_pos_username = [], uf_pos_pin = js ''1234''\<rparr>"

lemma half_till_access_dropped:
  "createUserSchema (\<lambda>e. True) sample_new_user = []" "uc_pos (user_submitted sample_new_user) = None"
  by code_simp+

lemma till_errors_unseen:
  "createUserSchema (\<lambda>e. True) (sample_new_user\<lparr>uf_pos_pin := js ''123''\<rparr>) = [js ''pos_pin'']"
  "shown_user_errors [js ''pos_pin''] = []"
  by code_simp+

section \<open>The permissions of a role\<close>

text \<open>\<open>toggle\<close> on the \<open>Set\<close> of the keys marked, in the order they were marked.\<close>

definition toggle_permission :: "jsstring \<Rightarrow> jsstring list \<Rightarrow> jsstring list" where
  "toggle_permission key selected = (if key \<in> set selected then removeAll key selected else selected @ [key])"

definition role_isDirty :: "role \<Rightarrow> jsstring list \<Rightarrow> bool" where
  "role_isDirty r selected \<longleftrightarrow> length selected \<noteq> length (js_set (ro_permissions r))
     \<or> list_ex (\<lambda>key. key \<notin> set (ro_permissions r)) selected"

record role_fields =
  rof_name :: jsstring
  rof_description :: jsstring

definition createRoleSchema :: "role_fields \<Rightarrow> jsstring list" where
  "createRoleSchema v = field_if (rof_name v = [] \<or> 50 < length (rof_name v)) ''name''
     @ field_if (255 < length (rof_description v)) ''description''"

datatype role_write = CreateRole jsstring jsstring | SavePermissions int "jsstring list"

fun role_write_call :: "role_write \<Rightarrow> api_call" where
  "role_write_call (CreateRole name description) = createRole name description"
| "role_write_call (SavePermissions i keys) = setRolePermissions i keys"

text \<open>
  \<open>rl_cards\<close> holds the selection of each card on the screen, by the id of its role; a card is drawn
  for a role when the role first appears and keeps its selection while the role stays.
\<close>

record roles_page =
  rl_roles :: "role list option"
  rl_permissions :: "permission_row list option"
  rl_cards :: "(int \<times> jsstring list) list"
  rl_showCreateForm :: bool
  rl_createError :: "jsstring option"
  rl_creating :: nat
  rl_savingRoleId :: "int option"
  rl_saving :: "int list"
  rl_sent :: "role_write list"

definition roles_init :: roles_page where
  "roles_init = \<lparr>rl_roles = None, rl_permissions = None, rl_cards = [], rl_showCreateForm = False,
     rl_createError = None, rl_creating = 0, rl_savingRoleId = None, rl_saving = [], rl_sent = []\<rparr>"

definition role_named :: "roles_page \<Rightarrow> int \<Rightarrow> role option" where
  "role_named s i = Option.bind (rl_roles s) (find (\<lambda>r. ro_id r = i))"

text \<open>The cards of a drawing: those that stay, and the new ones with what their role has.\<close>

definition draw_cards :: "roles_page \<Rightarrow> roles_page" where
  "draw_cards s = (case (rl_roles s, rl_permissions s) of
     (Some rs, Some ps) \<Rightarrow> s\<lparr>rl_cards := map (\<lambda>r. (ro_id r,
        case map_of (rl_cards s) (ro_id r) of Some selected \<Rightarrow> selected
        | None \<Rightarrow> js_set (ro_permissions r))) rs\<rparr>
   | _ \<Rightarrow> s)"

datatype roles_event =
    RoleListIs "role list"
  | PermissionsAre "permission_row list"
  | NewRole
  | NewRoleCancelled
  | RoleSubmitted role_fields
  | RoleCreated "failure option"
  | PermissionToggled int jsstring
  | CardUndone int
  | CardSaved int
  | PermissionsSaved int

definition card_selection :: "roles_page \<Rightarrow> int \<Rightarrow> jsstring list" where
  "card_selection s i = (case map_of (rl_cards s) i of None \<Rightarrow> [] | Some selected \<Rightarrow> selected)"

definition set_card :: "int \<Rightarrow> jsstring list \<Rightarrow> roles_page \<Rightarrow> roles_page" where
  "set_card i selected s = s\<lparr>rl_cards := AList.update i selected (rl_cards s)\<rparr>"

fun roles_handle :: "roles_page \<Rightarrow> roles_event \<Rightarrow> roles_page" where
  "roles_handle s (RoleListIs rs) = draw_cards (s\<lparr>rl_roles := Some rs\<rparr>)"
| "roles_handle s (PermissionsAre ps) = draw_cards (s\<lparr>rl_permissions := Some ps\<rparr>)"
| "roles_handle s NewRole = s\<lparr>rl_showCreateForm := True\<rparr>"
| "roles_handle s NewRoleCancelled = s\<lparr>rl_showCreateForm := False, rl_createError := None\<rparr>"
| "roles_handle s (RoleSubmitted v) =
     (if createRoleSchema v \<noteq> [] then s
      else s\<lparr>rl_creating := Suc (rl_creating s),
        rl_sent := rl_sent s @ [CreateRole (rof_name v) (rof_description v)]\<rparr>)"
| "roles_handle s (RoleCreated outcome) =
     (let s' = s\<lparr>rl_creating := rl_creating s - 1\<rparr>
      in case outcome of
          None \<Rightarrow> s'\<lparr>rl_showCreateForm := False, rl_createError := None\<rparr>
        | Some e \<Rightarrow> s'\<lparr>rl_createError := Some (if has_code ''conflict'' e
            then js ''Ya existe un rol con ese nombre.'' else js ''No se ha podido crear el rol.'')\<rparr>)"
| "roles_handle s (PermissionToggled i key) = set_card i (toggle_permission key (card_selection s i)) s"
| "roles_handle s (CardUndone i) =
     (case role_named s i of None \<Rightarrow> s | Some r \<Rightarrow> set_card i (js_set (ro_permissions r)) s)"
| "roles_handle s (CardSaved i) = s\<lparr>rl_savingRoleId := Some i, rl_saving := rl_saving s @ [i],
     rl_sent := rl_sent s @ [SavePermissions i (card_selection s i)]\<rparr>"
| "roles_handle s (PermissionsSaved i) = s\<lparr>rl_savingRoleId := None, rl_saving := remove1 i (rl_saving s)\<rparr>"

text \<open>A card is offered for saving when it differs from its role and no saving of it is shown.\<close>

definition card_actions :: "roles_page \<Rightarrow> int \<Rightarrow> bool" where
  "card_actions s i \<longleftrightarrow> rl_permissions s \<noteq> None \<and> rl_savingRoleId s \<noteq> Some i
     \<and> (case role_named s i of None \<Rightarrow> False | Some r \<Rightarrow> role_isDirty r (card_selection s i))"

fun roles_enabled :: "roles_page \<Rightarrow> roles_event \<Rightarrow> bool" where
  "roles_enabled s (RoleListIs rs) = distinct (map ro_id rs)"
| "roles_enabled s NewRole = (\<not> rl_showCreateForm s)"
| "roles_enabled s NewRoleCancelled = rl_showCreateForm s"
| "roles_enabled s (RoleSubmitted v) = (rl_showCreateForm s \<and> rl_creating s = 0)"
| "roles_enabled s (RoleCreated outcome) = (0 < rl_creating s)"
| "roles_enabled s (PermissionToggled i key) = (role_named s i \<noteq> None
     \<and> (case rl_permissions s of None \<Rightarrow> False | Some ps \<Rightarrow> key \<in> pmr_key ` set ps))"
| "roles_enabled s (CardUndone i) = card_actions s i"
| "roles_enabled s (CardSaved i) = card_actions s i"
| "roles_enabled s (PermissionsSaved i) = (i \<in> set (rl_saving s))"
| "roles_enabled s e = True"

lemma toggle_permission_set:
  "set (toggle_permission key selected) = (if key \<in> set selected then set selected - {key} else insert key (set selected))"
  "distinct selected \<Longrightarrow> distinct (toggle_permission key selected)"
  by (auto simp: toggle_permission_def distinct_removeAll)

lemma js_set_facts [simp]: "set (js_set xs) = set xs" "distinct (js_set xs)"
  by (simp_all add: js_set_def)

text \<open>The comparison of sizes and members is the comparison of the two sets.\<close>

lemma role_isDirty_iff: "distinct selected \<Longrightarrow> role_isDirty r selected \<longleftrightarrow> set selected \<noteq> set (ro_permissions r)"
proof
  assume "distinct selected"
  then have len: "length selected = card (set selected)" "length (js_set (ro_permissions r)) = card (set (ro_permissions r))"
    using distinct_card [of "js_set (ro_permissions r)"] by (simp_all add: distinct_card)
  show "role_isDirty r selected \<Longrightarrow> set selected \<noteq> set (ro_permissions r)"
    by (auto simp: role_isDirty_def list_ex_iff len)
  assume "set selected \<noteq> set (ro_permissions r)"
  then show "role_isDirty r selected"
    using card_subset_eq [of "set (ro_permissions r)" "set selected"]
    by (auto simp: role_isDirty_def list_ex_iff len)
qed

definition roles_ok :: "roles_page \<Rightarrow> bool" where
  "roles_ok s \<longleftrightarrow> (\<forall>i selected. map_of (rl_cards s) i = Some selected \<longrightarrow> distinct selected)
     \<and> (\<forall>i keys. SavePermissions i keys \<in> set (rl_sent s) \<longrightarrow> distinct keys)
     \<and> (\<forall>name d. CreateRole name d \<in> set (rl_sent s) \<longrightarrow> name \<noteq> [] \<and> length name \<le> 50 \<and> length d \<le> 255)"

lemma card_distinct: "roles_ok s \<Longrightarrow> distinct (card_selection s i)"
  by (auto simp: roles_ok_def card_selection_def split: option.splits)

lemma map_of_drawn:
  "map_of (map (\<lambda>r. (ro_id r, f r)) rs) i = Some v \<Longrightarrow> \<exists>r \<in> set rs. ro_id r = i \<and> v = f r"
  by (induction rs) (auto split: if_splits)

lemma draw_cards_ok: "roles_ok s \<Longrightarrow> roles_ok (draw_cards s)"
  unfolding draw_cards_def
  by (auto simp: roles_ok_def dest!: map_of_drawn split: option.splits)

lemma set_card_ok: "roles_ok s \<Longrightarrow> distinct selected \<Longrightarrow> roles_ok (set_card i selected s)"
  by (auto simp: roles_ok_def set_card_def update_conv split: if_splits)

lemma roles_step_ok: "roles_ok s \<Longrightarrow> roles_ok (roles_handle s e)"
proof (cases e)
  case (RoleSubmitted v)
  then show "roles_ok s \<Longrightarrow> roles_ok (roles_handle s e)"
    by (auto simp: roles_ok_def createRoleSchema_def field_if_def split: if_splits)
next
  case (CardSaved i)
  then show "roles_ok s \<Longrightarrow> roles_ok (roles_handle s e)"
    using card_distinct [of s i] by (auto simp: roles_ok_def)
qed (auto simp: Let_def card_distinct toggle_permission_set(2) intro!: draw_cards_ok set_card_ok
    split: option.splits, auto simp: roles_ok_def)

interpretation role_pages: event_machine roles_enabled roles_handle roles_init roles_ok
  by unfold_locales (simp add: roles_ok_def roles_init_def, rule roles_step_ok)

text \<open>A saved card names each permission once and differs from what its role had.\<close>

lemma saved_card_differs:
  assumes "reached roles_enabled roles_handle roles_init s" and "roles_enabled s (CardSaved i)"
  shows "\<exists>r keys. role_named s i = Some r \<and> rl_sent (roles_handle s (CardSaved i)) = rl_sent s @ [SavePermissions i keys]
     \<and> distinct keys \<and> set keys \<noteq> set (ro_permissions r)"
proof -
  have d: "distinct (card_selection s i)" by (rule card_distinct [OF role_pages.inv_reached [OF assms(1)]])
  obtain r where r: "role_named s i = Some r" "role_isDirty r (card_selection s i)"
    using assms(2) by (auto simp: card_actions_def split: option.splits)
  show ?thesis
    by (intro exI [of _ r] exI [of _ "card_selection s i"]) (use d r role_isDirty_iff [OF d] in auto)
qed

text \<open>A press on the same permission twice leaves the same permissions marked.\<close>

lemma toggle_twice: "set (toggle_permission key (toggle_permission key selected)) = set selected"
  by (auto simp: toggle_permission_set)

end
