(* ===== verification/Setting_Fields.thy ===== *)
theory Setting_Fields
  imports Settings Lib_Formats "HOL-Library.AList"
begin

text \<open>
  The settings as they are edited: one field by its type with the colour control
  (\<open>settings/SettingField.tsx\<close>), and the panel that groups them in cards, each with its own button to
  save (\<open>settings/SettingsOptionsPanel.tsx\<close>). The browser's Unicode functions behind the search are a
  parameter.
\<close>

section \<open>Colours\<close>

text \<open>\<open>toLowerCase\<close> on the characters of a colour.\<close>

definition lower_hex :: "jsstring \<Rightarrow> jsstring" where
  "lower_hex s = map (\<lambda>c. if 65 \<le> c \<and> c \<le> 70 then c + 32 else c) s"

definition normaliseColour :: "jsstring \<Rightarrow> jsstring" where
  "normaliseColour v = (if is_colour v then lower_hex v else js ''#000000'')"

text \<open>The operator \<open>%\<close> and \<open>Math.abs\<close>.\<close>

fun js_fmod :: "jsnum \<Rightarrow> jsnum \<Rightarrow> jsnum" where
  "js_fmod (JsNum a) (JsNum b) = (if b = 0 then JsNaN
     else JsNum (a - b * of_int (if 0 \<le> a / b then \<lfloor>a / b\<rfloor> else \<lceil>a / b\<rceil>)))"
| "js_fmod (JsNum a) (JsInf n) = JsNum a"
| "js_fmod x y = JsNaN"

fun js_abs :: "jsnum \<Rightarrow> jsnum" where
  "js_abs (JsNum a) = JsNum \<bar>a\<bar>"
| "js_abs (JsInf n) = JsInf False"
| "js_abs JsNaN = JsNaN"

record hsl =
  hs_hue :: jsnum
  hs_saturation :: jsnum
  hs_lightness :: jsnum

definition hexToHsl :: "jsstring \<Rightarrow> hsl" where
  "hexToHsl hex =
     (let source = normaliseColour hex;
          red = hex_channel source 1 3; green = hex_channel source 3 5; blue = hex_channel source 5 7;
          maximum = js_max (js_max red green) blue; minimum = js_min (js_min red green) blue;
          delta = maximum - minimum; lightness = (maximum + minimum) div JsNum 2
      in if delta = JsNum 0
         then \<lparr>hs_hue = JsNum 0, hs_saturation = JsNum 0, hs_lightness = js_round (lightness * JsNum 100)\<rparr>
         else let raw = (if maximum = red then js_fmod ((green - blue) div delta) (JsNum 6)
                    else if maximum = green then (blue - red) div delta + JsNum 2
                    else (red - green) div delta + JsNum 4);
                  hue = js_round (raw * JsNum 60);
                  saturation = delta div (JsNum 1 - js_abs (JsNum 2 * lightness - JsNum 1))
              in \<lparr>hs_hue = (if hue < JsNum 0 then hue + JsNum 360 else hue),
                  hs_saturation = js_round (saturation * JsNum 100),
                  hs_lightness = js_round (lightness * JsNum 100)\<rparr>)"

definition hex_digit :: "nat \<Rightarrow> nat" where
  "hex_digit d = (if d < 10 then d + 48 else d + 87)"

text \<open>\<open>toString(16)\<close> of a number that holds an integer, and \<open>padStart(2, '0')\<close>.\<close>

fun hex_digits :: "nat \<Rightarrow> jsstring" where
  "hex_digits n = (if n < 16 then [hex_digit n] else hex_digits (n div 16) @ [hex_digit (n mod 16)])"

definition integer_hex :: "jsnum \<Rightarrow> jsstring" where
  "integer_hex x = (case x of
     JsNum a \<Rightarrow> (if a < 0 then [45] else []) @ hex_digits (nat \<lfloor>\<bar>a\<bar>\<rfloor>)
   | JsInf n \<Rightarrow> (if n then js ''-Infinity'' else js ''Infinity'')
   | JsNaN \<Rightarrow> js ''NaN'')"

definition hex_of_channel :: "jsnum \<Rightarrow> jsnum \<Rightarrow> jsstring" where
  "hex_of_channel offset v =
     (let s = integer_hex (js_round ((v + offset) * JsNum 255)) in js_repeat (2 - length s) [48] @ s)"

definition hslToHex :: "jsnum \<Rightarrow> jsnum \<Rightarrow> jsnum \<Rightarrow> jsstring" where
  "hslToHex hue saturation lightness =
     (let normalisedHue = js_fmod (js_fmod hue (JsNum 360) + JsNum 360) (JsNum 360);
          chroma = (JsNum 1 - js_abs (JsNum 2 * (lightness div JsNum 100) - JsNum 1)) * (saturation div JsNum 100);
          segment = normalisedHue div JsNum 60;
          match = chroma * (JsNum 1 - js_abs (js_fmod segment (JsNum 2) - JsNum 1));
          offset = lightness div JsNum 100 - chroma div JsNum 2;
          (red, green, blue) =
            (if segment < JsNum 1 then (chroma, match, JsNum 0)
             else if segment < JsNum 2 then (match, chroma, JsNum 0)
             else if segment < JsNum 3 then (JsNum 0, chroma, match)
             else if segment < JsNum 4 then (JsNum 0, match, chroma)
             else if segment < JsNum 5 then (match, JsNum 0, chroma)
             else (chroma, JsNum 0, match))
      in [35] @ hex_of_channel offset red @ hex_of_channel offset green @ hex_of_channel offset blue)"

text \<open>
  The control: the colour it shows comes from outside, the text of its field is its own. What it
  passes on is the second component.
\<close>

datatype colour_event = ColourChosen jsstring | HexTyped jsstring
  | HueMoved jsnum | SaturationMoved jsnum | LightnessMoved jsnum

definition colour_choose :: "jsstring \<Rightarrow> jsstring \<times> jsstring option" where
  "colour_choose next = (normaliseColour next, Some (normaliseColour next))"

fun colour_step :: "jsstring \<Rightarrow> colour_event \<Rightarrow> jsstring \<times> jsstring option" where
  "colour_step v (ColourChosen c) = colour_choose c"
| "colour_step v (HexTyped c) = (if is_colour c then colour_choose c else (c, None))"
| "colour_step v (HueMoved n) =
     (let h = hexToHsl (normaliseColour v) in colour_choose (hslToHex n (hs_saturation h) (hs_lightness h)))"
| "colour_step v (SaturationMoved n) =
     (let h = hexToHsl (normaliseColour v) in colour_choose (hslToHex (hs_hue h) n (hs_lightness h)))"
| "colour_step v (LightnessMoved n) =
     (let h = hexToHsl (normaliseColour v) in colour_choose (hslToHex (hs_hue h) (hs_saturation h) n))"

lemma is_colour_lower: "is_colour v \<Longrightarrow> is_colour (lower_hex v)"
  by (cases v) (auto simp: lower_hex_def js_hex_def list_all_iff)

lemma normaliseColour_colour: "is_colour (normaliseColour v)"
proof -
  have "is_colour (js ''#000000'')" by code_simp
  then show ?thesis using is_colour_lower by (simp add: normaliseColour_def)
qed

lemma normaliseColour_idem: "normaliseColour (normaliseColour v) = normaliseColour v"
proof -
  have "lower_hex (lower_hex v) = lower_hex v" by (simp add: lower_hex_def)
  moreover have "lower_hex (js ''#000000'') = js ''#000000''" by code_simp
  ultimately show ?thesis using normaliseColour_colour [of v] by (simp add: normaliseColour_def)
qed

text \<open>Whatever is done with it, the control passes on only colours, in lower case.\<close>

lemma colour_control_passes_colours:
  "colour_step v e = (field, Some c) \<Longrightarrow> is_colour c \<and> normaliseColour c = c \<and> field = c"
  by (cases e) (auto simp: colour_choose_def normaliseColour_colour normaliseColour_idem Let_def split: if_splits)

section \<open>One setting\<close>

definition describeValue :: "setting_definition \<Rightarrow> jsstring \<Rightarrow> jsstring" where
  "describeValue d v =
     (case sd_type d of
        BOOL \<Rightarrow> if v = js ''true'' then js ''activado'' else js ''desactivado''
      | COLOR \<Rightarrow> v
      | ENUM \<Rightarrow> (case find (\<lambda>c. sc_value c = v) (sd_choices d) of None \<Rightarrow> v | Some c \<Rightarrow> sc_label c)
      | _ \<Rightarrow> if v = [] then js ''(vac'' @ [237] @ js ''o)'' else v)"

definition helpText :: "setting_definition \<Rightarrow> jsstring" where
  "helpText d =
     (case (sd_minimum d, sd_maximum d) of
        (Some a, Some b) \<Rightarrow> sd_help d @ js '' Entre '' @ formatQuantity a @ js '' y '' @ formatQuantity b @ js ''.''
      | (Some a, None) \<Rightarrow> sd_help d @ js '' Como m'' @ [237] @ js ''nimo '' @ formatQuantity a @ js ''.''
      | (None, Some b) \<Rightarrow> sd_help d @ js '' Como m'' @ [225] @ js ''ximo '' @ formatQuantity b @ js ''.''
      | (None, None) \<Rightarrow> sd_help d)"

text \<open>What a field says of its default value, and whether it offers to restore it.\<close>

definition setting_is_default :: "setting_definition \<Rightarrow> jsstring \<Rightarrow> bool" where
  "setting_is_default d v \<longleftrightarrow> sd_type d = SECRET \<or> v = sd_default d"

definition default_line :: "setting_definition \<Rightarrow> jsstring \<Rightarrow> jsstring option" where
  "default_line d v = (if setting_is_default d v then None
     else Some (js ''Valor por defecto: '' @ describeValue d (sd_default d)))"

section \<open>The panel\<close>

text \<open>
  \<open>normalise\<close> is lower case without diacritics, which the browser's Unicode tables define.
\<close>

definition matchesSearch :: "(jsstring \<Rightarrow> jsstring) \<Rightarrow> setting_definition \<Rightarrow> jsstring \<Rightarrow> bool" where
  "matchesSearch normalise d search =
     (let needle = normalise (js_trim search)
      in needle = [] \<or> js_includes needle (normalise (sd_label d @ [cu_space] @ sd_help d)))"

definition normaliseForBackend :: "setting_definition \<Rightarrow> jsstring \<Rightarrow> jsstring" where
  "normaliseForBackend d v = (if sd_type d \<in> {setting_type.INT, DECIMAL}
     then js_replace cu_comma [cu_dot] (js_trim v) else v)"

text \<open>
  The panel: the settings received, the text of the search, the drafts by key, and of each card (by
  its group) the message of a failure, whether it says that it saved, whether it is saving and the
  keys it would clear when the answer comes: those edited in its last drawing. \<open>op_values\<close> are the
  values that the rest of the application reads.
\<close>

record options_panel =
  op_options :: "settings_options option"
  op_search :: jsstring
  op_draft :: "(jsstring \<times> jsstring) list"
  op_errors :: "(jsstring \<times> jsstring) list"
  op_saved :: "jsstring list"
  op_saving :: "jsstring list"
  op_changed :: "(jsstring \<times> jsstring list) list"
  op_values :: "setting_values option"
  op_sent :: "(jsstring \<times> (jsstring \<times> jsstring) list) list"

definition options_init :: options_panel where
  "options_init = \<lparr>op_options = None, op_search = [], op_draft = [], op_errors = [], op_saved = [],
     op_saving = [], op_changed = [], op_values = None, op_sent = []\<rparr>"

record key_choice =
  kc_include :: "jsstring list option"
  kc_exclude :: "jsstring list option"

definition selectedSettings :: "key_choice \<Rightarrow> options_panel \<Rightarrow> setting_definition list" where
  "selectedSettings kc s =
     filter (\<lambda>d. (case kc_include kc of None \<Rightarrow> True | Some ks \<Rightarrow> sd_key d \<in> set ks)
         \<and> (case kc_exclude kc of None \<Rightarrow> True | Some ks \<Rightarrow> sd_key d \<notin> set ks))
       (case op_options s of None \<Rightarrow> [] | Some o' \<Rightarrow> so_settings o')"

definition setting_edited :: "options_panel \<Rightarrow> setting_definition \<Rightarrow> bool" where
  "setting_edited s d \<longleftrightarrow> (case map_of (op_draft s) (sd_key d) of None \<Rightarrow> False | Some v \<Rightarrow> v \<noteq> sd_value d)"

definition edited_settings :: "key_choice \<Rightarrow> options_panel \<Rightarrow> setting_definition list" where
  "edited_settings kc s = filter (setting_edited s) (selectedSettings kc s)"

definition visibleGroups :: "(jsstring \<Rightarrow> jsstring) \<Rightarrow> key_choice \<Rightarrow> options_panel
    \<Rightarrow> (jsstring \<times> setting_definition list) list" where
  "visibleGroups normalise kc s =
     (let editedKeys = map sd_key (edited_settings kc s)
      in filter (\<lambda>(g, shown). shown \<noteq> [])
           (map (\<lambda>g. (g, filter (\<lambda>d. sd_group d = g
               \<and> (matchesSearch normalise d (op_search s) \<or> sd_key d \<in> set editedKeys)) (selectedSettings kc s)))
             (case op_options s of None \<Rightarrow> [] | Some o' \<Rightarrow> so_groups o')))"

text \<open>What a card counts as changed, and the values it saves.\<close>

definition card_changed :: "(jsstring \<Rightarrow> jsstring) \<Rightarrow> key_choice \<Rightarrow> options_panel \<Rightarrow> jsstring
    \<Rightarrow> setting_definition list" where
  "card_changed normalise kc s g =
     (case map_of (visibleGroups normalise kc s) g of None \<Rightarrow> [] | Some shown \<Rightarrow> filter (setting_edited s) shown)"

definition card_values :: "(jsstring \<Rightarrow> jsstring) \<Rightarrow> key_choice \<Rightarrow> options_panel \<Rightarrow> jsstring
    \<Rightarrow> (jsstring \<times> jsstring) list" where
  "card_values normalise kc s g = map (\<lambda>d. (sd_key d, normaliseForBackend d
     (case map_of (op_draft s) (sd_key d) of None \<Rightarrow> [] | Some v \<Rightarrow> v))) (card_changed normalise kc s g)"

text \<open>
  The cards drawn keep what they see as changed; the answer to one that is no longer drawn still
  uses what it saw last, but its messages go with it.
\<close>

definition draw_options :: "(jsstring \<Rightarrow> jsstring) \<Rightarrow> key_choice \<Rightarrow> options_panel \<Rightarrow> options_panel" where
  "draw_options normalise kc s = s\<lparr>op_changed :=
     map (\<lambda>(g, shown). (g, map sd_key (filter (setting_edited s) shown))) (visibleGroups normalise kc s)
     @ op_changed s,
     op_errors := filter (\<lambda>(g, m). g \<in> fst ` set (visibleGroups normalise kc s)) (op_errors s),
     op_saved := filter (\<lambda>g. g \<in> fst ` set (visibleGroups normalise kc s)) (op_saved s)\<rparr>"

datatype options_event =
    OptionsAre settings_options
  | SearchTyped jsstring
  | SettingChanged jsstring jsstring jsstring
  | CardSave jsstring
  | CardAnswered jsstring "failure + settings_options"

text \<open>The first argument of \<open>SettingChanged\<close> is the group, the second the key.\<close>

definition options_answered :: "jsstring \<Rightarrow> failure + settings_options \<Rightarrow> options_panel \<Rightarrow> options_panel" where
  "options_answered g r s =
     (let s' = s\<lparr>op_saving := remove1 g (op_saving s)\<rparr> in
      case r of
        Inl e \<Rightarrow> s'\<lparr>op_saved := removeAll g (op_saved s),
          op_errors := AList.update g (case e of ApiFailure a \<Rightarrow> ae_message a
            | OtherFailure m \<Rightarrow> js ''No se ha podido guardar.'') (op_errors s)\<rparr>
      | Inr data \<Rightarrow> s'\<lparr>op_options := Some data,
          op_values := Some (map (\<lambda>d. (sd_key d, sd_value d)) (filter (\<lambda>d. sd_type d \<noteq> SECRET) (so_settings data))),
          op_draft := filter (\<lambda>(k, v). k \<notin> set (case map_of (op_changed s) g of None \<Rightarrow> [] | Some ks \<Rightarrow> ks)) (op_draft s),
          op_errors := AList.delete g (op_errors s), op_saved := List.insert g (op_saved s)\<rparr>)"

fun options_handle :: "(jsstring \<Rightarrow> jsstring) \<Rightarrow> key_choice \<Rightarrow> options_panel \<Rightarrow> options_event \<Rightarrow> options_panel" where
  "options_handle normalise kc s (OptionsAre o') = s\<lparr>op_options := Some o'\<rparr>"
| "options_handle normalise kc s (SearchTyped v) = s\<lparr>op_search := v\<rparr>"
| "options_handle normalise kc s (SettingChanged g k v) = s\<lparr>op_draft := AList.update k v (op_draft s),
     op_saved := removeAll g (op_saved s), op_errors := AList.delete g (op_errors s)\<rparr>"
| "options_handle normalise kc s (CardSave g) = s\<lparr>op_saving := op_saving s @ [g],
     op_sent := op_sent s @ [(g, card_values normalise kc s g)]\<rparr>"
| "options_handle normalise kc s (CardAnswered g r) = options_answered g r s"

definition options_step :: "(jsstring \<Rightarrow> jsstring) \<Rightarrow> key_choice \<Rightarrow> options_panel \<Rightarrow> options_event \<Rightarrow> options_panel" where
  "options_step normalise kc s e = draw_options normalise kc (options_handle normalise kc s e)"

text \<open>
  The server keeps each setting in its group: \<open>group_of\<close> is where. A card offers to save when it has
  something changed and is not saving; a field can be edited at any moment, also while it saves.
\<close>

fun options_enabled :: "(jsstring \<Rightarrow> jsstring) \<Rightarrow> key_choice \<Rightarrow> (jsstring \<Rightarrow> jsstring) \<Rightarrow> bool
    \<Rightarrow> options_panel \<Rightarrow> options_event \<Rightarrow> bool" where
  "options_enabled normalise kc group_of canManage s (OptionsAre o') =
     list_all (\<lambda>d. sd_group d = group_of (sd_key d)) (so_settings o')"
| "options_enabled normalise kc group_of canManage s (SearchTyped v) = True"
| "options_enabled normalise kc group_of canManage s (SettingChanged g k v) = (canManage
     \<and> (case map_of (visibleGroups normalise kc s) g of None \<Rightarrow> False | Some shown \<Rightarrow> k \<in> sd_key ` set shown))"
| "options_enabled normalise kc group_of canManage s (CardSave g) = (canManage
     \<and> card_changed normalise kc s g \<noteq> [] \<and> g \<notin> set (op_saving s))"
| "options_enabled normalise kc group_of canManage s (CardAnswered g r) = (g \<in> set (op_saving s)
     \<and> (case r of Inl e \<Rightarrow> True
        | Inr data \<Rightarrow> list_all (\<lambda>d. sd_group d = group_of (sd_key d)) (so_settings data)))"

section \<open>Nothing edited is hidden, nothing else is saved\<close>

lemma map_of_groups:
  "map_of (filter (\<lambda>(g, shown). shown \<noteq> []) (map (\<lambda>g. (g, f g)) gs)) g =
     (if g \<in> set gs \<and> f g \<noteq> [] then Some (f g) else None)"
  by (induction gs) auto

lemma edited_in_selected: "d \<in> set (edited_settings kc s) \<longleftrightarrow> d \<in> set (selectedSettings kc s) \<and> setting_edited s d"
  by (auto simp: edited_settings_def)

text \<open>The search narrows what is shown, never what is edited.\<close>

lemma edited_visible:
  assumes "op_options s = Some o'" and "sd_group d \<in> set (so_groups o')" and "d \<in> set (edited_settings kc s)"
  obtains shown where "map_of (visibleGroups normalise kc s) (sd_group d) = Some shown" "d \<in> set shown"
proof
  let ?f = "\<lambda>g. filter (\<lambda>d. sd_group d = g \<and> (matchesSearch normalise d (op_search s)
      \<or> sd_key d \<in> set (map sd_key (edited_settings kc s)))) (selectedSettings kc s)"
  have d: "d \<in> set (?f (sd_group d))" using assms(3) by (auto simp: edited_in_selected)
  then have "?f (sd_group d) \<noteq> []" by (metis empty_iff empty_set)
  then show "map_of (visibleGroups normalise kc s) (sd_group d) = Some (?f (sd_group d))"
    using assms(1,2) by (simp add: visibleGroups_def Let_def map_of_groups)
  show "d \<in> set (?f (sd_group d))" by (rule d)
qed

lemma card_changed_edited:
  assumes "op_options s = Some o'" and "g \<in> set (so_groups o')"
  shows "card_changed normalise kc s g = filter (\<lambda>d. sd_group d = g) (edited_settings kc s)"
proof -
  let ?f = "filter (\<lambda>d. sd_group d = g \<and> (matchesSearch normalise d (op_search s)
      \<or> sd_key d \<in> set (map sd_key (edited_settings kc s)))) (selectedSettings kc s)"
  have "filter (setting_edited s) ?f = filter (\<lambda>d. sd_group d = g) (edited_settings kc s)"
    unfolding edited_settings_def filter_filter by (rule filter_cong) auto
  moreover have "card_changed normalise kc s g = (if ?f = [] then [] else filter (setting_edited s) ?f)"
    using assms by (simp add: card_changed_def visibleGroups_def Let_def map_of_groups)
  ultimately show ?thesis by (cases "?f = []") (simp_all only: if_True if_False filter.simps simp_thms)
qed

definition options_ok :: "(jsstring \<Rightarrow> jsstring) \<Rightarrow> options_panel \<Rightarrow> bool" where
  "options_ok group_of s \<longleftrightarrow>
     (\<forall>o'. op_options s = Some o' \<longrightarrow> list_all (\<lambda>d. sd_group d = group_of (sd_key d)) (so_settings o'))
     \<and> (\<forall>(g, ks) \<in> set (op_changed s). \<forall>k \<in> set ks. group_of k = g)"

lemma selected_group:
  "options_ok group_of s \<Longrightarrow> d \<in> set (selectedSettings kc s) \<Longrightarrow> sd_group d = group_of (sd_key d)"
  by (cases "op_options s") (auto simp: options_ok_def selectedSettings_def list_all_iff)

lemma drawn_groups:
  assumes "options_ok group_of s" and "(g, shown) \<in> set (visibleGroups normalise kc s)" and "d \<in> set shown"
  shows "group_of (sd_key d) = g"
  using assms selected_group [OF assms(1), of d kc] by (auto simp: visibleGroups_def Let_def)

lemma draw_options_ok:
  assumes "options_ok group_of s"
  shows "options_ok group_of (draw_options normalise kc s)"
proof -
  let ?drawn = "map (\<lambda>(g, shown). (g, map sd_key (filter (setting_edited s) shown))) (visibleGroups normalise kc s)"
  have "\<forall>k \<in> set ks. group_of k = g" if "(g, ks) \<in> set ?drawn" for g ks
    using that drawn_groups [OF assms] by fastforce
  moreover have "op_options (draw_options normalise kc s) = op_options s"
    "op_changed (draw_options normalise kc s) = ?drawn @ op_changed s"
    by (simp_all add: draw_options_def)
  ultimately show ?thesis using assms unfolding options_ok_def by fastforce
qed

lemma options_handle_ok:
  assumes "options_ok group_of s" and "options_enabled normalise kc group_of canManage s e"
  shows "options_ok group_of (options_handle normalise kc s e)"
proof (cases e)
  case (CardAnswered g r)
  then show ?thesis
    using assms by (cases r) (simp_all add: options_ok_def options_answered_def)
qed (use assms in \<open>simp_all add: options_ok_def\<close>)

interpretation option_panels: event_machine "options_enabled normalise kc group_of canManage"
    "options_step normalise kc" options_init "options_ok group_of"
  for normalise kc group_of canManage
proof
  show "options_ok group_of options_init" by (simp add: options_ok_def options_init_def)
next
  fix s e
  assume "options_ok group_of s" and "options_enabled normalise kc group_of canManage s e"
  then show "options_ok group_of (options_step normalise kc s e)"
    unfolding options_step_def by (intro draw_options_ok options_handle_ok)
qed

lemma map_of_filter_key: "P k \<Longrightarrow> map_of (filter (\<lambda>(k, v). P k) kvs) k = map_of kvs k"
  by (induction kvs) auto

text \<open>C37: Whatever the text of the search, saving a card sends the settings of its group that differ from what
the server holds, all of them and no other, with the values typed.\<close>

theorem card_saves_its_edits:
  assumes "op_options s = Some o'" and "g \<in> set (so_groups o')"
  shows "op_sent (options_step normalise kc s (CardSave g)) = op_sent s @
    [(g, map (\<lambda>d. (sd_key d, normaliseForBackend d (the (map_of (op_draft s) (sd_key d)))))
       (filter (\<lambda>d. sd_group d = g \<and> setting_edited s d) (selectedSettings kc s)))]"
proof -
  have "card_values normalise kc s g = map (\<lambda>d. (sd_key d, normaliseForBackend d (the (map_of (op_draft s) (sd_key d)))))
      (filter (\<lambda>d. sd_group d = g \<and> setting_edited s d) (selectedSettings kc s))"
    unfolding card_values_def card_changed_edited [OF assms]
    by (auto simp: edited_settings_def setting_edited_def conj_commute split: option.splits)
  then show ?thesis by (simp add: options_step_def draw_options_def)
qed

text \<open>C38: The answer to the saving of one card leaves every draft of the other cards as it is, whatever was
edited in between.\<close>

theorem save_keeps_other_cards:
  assumes "reached (options_enabled normalise kc group_of canManage) (options_step normalise kc) options_init s"
    and "group_of k \<noteq> g"
  shows "map_of (op_draft (options_step normalise kc s (CardAnswered g r))) k = map_of (op_draft s) k"
proof -
  let ?keys = "case map_of (op_changed s) g of None \<Rightarrow> [] | Some ks \<Rightarrow> ks"
  have "k \<notin> set ?keys"
  proof (cases "map_of (op_changed s) g")
    case (Some ks)
    have "options_ok group_of s" by (rule option_panels.inv_reached [OF assms(1)])
    then have "\<forall>k \<in> set ks. group_of k = g"
      using map_of_SomeD [OF Some] unfolding options_ok_def by blast
    then show ?thesis using Some assms(2) by auto
  qed simp
  then have "map_of (filter (\<lambda>(k, v). k \<notin> set ?keys) (op_draft s)) k = map_of (op_draft s) k"
    by (rule map_of_filter_key)
  then show ?thesis
    by (cases r) (simp_all add: options_step_def draw_options_def options_answered_def)
qed

section \<open>Sample runs\<close>

definition sample_setting :: "string \<Rightarrow> string \<Rightarrow> setting_type \<Rightarrow> string \<Rightarrow> setting_definition" where
  "sample_setting key place t v = \<lparr>sd_key = js key, sd_group = js place, sd_label = js key, sd_help = [],
     sd_type = t, sd_value = js v, sd_is_set = True, sd_default = js v, sd_choices = [], sd_minimum = None,
     sd_maximum = None, sd_caution = None\<rparr>"

definition sample_options :: "string \<Rightarrow> string \<Rightarrow> settings_options" where
  "sample_options a b = \<lparr>so_groups = [js ''Caja'', js ''Ticket''],
     so_settings = [sample_setting ''c.tope'' ''Caja'' DECIMAL a, sample_setting ''c.pie'' ''Caja'' STRING b,
       sample_setting ''t.pie'' ''Ticket'' STRING ''hola'']\<rparr>"

definition sample_group :: "jsstring \<Rightarrow> jsstring" where
  "sample_group k = (case k of c # r \<Rightarrow> if c = 99 then js ''Caja'' else js ''Ticket'' | [] \<Rightarrow> [])"

definition every_setting :: key_choice where
  "every_setting = \<lparr>kc_include = None, kc_exclude = None\<rparr>"

abbreviation sample_panel :: "options_event list \<Rightarrow> options_panel" where
  "sample_panel es \<equiv> foldl (options_step id every_setting) options_init es"

definition sample_edits :: "options_event list" where
  "sample_edits = [OptionsAre (sample_options ''1'' ''x''), SettingChanged (js ''Caja'') (js ''c.tope'') (js ''12,5''),
     SettingChanged (js ''Ticket'') (js ''t.pie'') (js ''adios''), SearchTyped (js ''nada'')]"

lemma sample_edits_allowed:
  "run_ok (options_enabled id every_setting sample_group True) (options_step id every_setting) options_init
     (sample_edits @ [CardSave (js ''Caja'')])"
  by code_simp

theorem card_saves_its_edits_witness:
  "op_sent (sample_panel (sample_edits @ [CardSave (js ''Caja'')])) = [(js ''Caja'', [(js ''c.tope'', js ''12.5'')])]"
proof -
  have o: "op_options (sample_panel sample_edits) = Some (sample_options ''1'' ''x'')" by code_simp
  have g: "js ''Caja'' \<in> set (so_groups (sample_options ''1'' ''x''))" by code_simp
  have "op_sent (sample_panel sample_edits) = []" by code_simp
  moreover have "map (\<lambda>d. (sd_key d, normaliseForBackend d (the (map_of (op_draft (sample_panel sample_edits)) (sd_key d)))))
       (filter (\<lambda>d. sd_group d = js ''Caja'' \<and> setting_edited (sample_panel sample_edits) d)
         (selectedSettings every_setting (sample_panel sample_edits))) = [(js ''c.tope'', js ''12.5'')]"
    by code_simp
  ultimately show ?thesis using card_saves_its_edits [OF o g, of id every_setting] by simp
qed

theorem save_keeps_other_cards_witness:
  "map_of (op_draft (options_step id every_setting (sample_panel (sample_edits @ [CardSave (js ''Caja'')]))
     (CardAnswered (js ''Caja'') (Inr (sample_options ''12.5'' ''x''))))) (js ''t.pie'') = Some (js ''adios'')"
proof -
  have r: "reached (options_enabled id every_setting sample_group True) (options_step id every_setting) options_init
      (sample_panel (sample_edits @ [CardSave (js ''Caja'')]))"
    by (rule reached_run [OF sample_edits_allowed])
  have g: "sample_group (js ''t.pie'') \<noteq> js ''Caja''" by code_simp
  have "map_of (op_draft (sample_panel (sample_edits @ [CardSave (js ''Caja'')]))) (js ''t.pie'') = Some (js ''adios'')"
    by code_simp
  then show ?thesis using save_keeps_other_cards [OF r g] by simp
qed

text \<open>
  An edit of the same card made while it is being saved is lost when the answer comes: its draft is
  cleared though it was never sent, and the field shows the value of the server again.
\<close>

definition late_edit :: "options_event list" where
  "late_edit = [OptionsAre (sample_options ''1'' ''x''), SettingChanged (js ''Caja'') (js ''c.tope'') (js ''12,5''),
     CardSave (js ''Caja''), SettingChanged (js ''Caja'') (js ''c.pie'') (js ''y''),
     CardAnswered (js ''Caja'') (Inr (sample_options ''12.5'' ''x''))]"

lemma edit_during_save_lost:
  "run_ok (options_enabled id every_setting sample_group True) (options_step id every_setting) options_init late_edit"
  "map_of (op_draft (sample_panel late_edit)) (js ''c.pie'') = None"
  "op_sent (sample_panel late_edit) = [(js ''Caja'', [(js ''c.tope'', js ''12.5'')])]"
  by code_simp+

end
