(* ===== verification/Ticket_Editor.thy ===== *)
theory Ticket_Editor
  imports Print_Profile Layout_Template Lib_Formats
begin

text \<open>
  The editor of ticket templates: the sample ticket it shows (\<open>tickets/ticketPreview.ts\<close>), the form of
  a template (\<open>tickets/TemplateFieldsForm.tsx\<close>), and the page with its list
  (\<open>pages/admin/TicketTemplatesPage.tsx\<close>, \<open>tickets/TemplateHistoryTable.tsx\<close>) as an event machine.
\<close>

section \<open>The sample ticket\<close>

definition preview_center :: "jsstring \<Rightarrow> nat \<Rightarrow> jsstring" where
  "preview_center s width =
     (let trimmed = js_trim s; pad = width - length trimmed; left = pad div 2
      in if width \<le> length trimmed then take width trimmed
         else js_repeat left [cu_space] @ trimmed @ js_repeat (pad - left) [cu_space])"

definition preview_rule :: "nat \<Rightarrow> jsstring" where
  "preview_rule width = js_repeat width [cu_dash]"

definition twoColumn :: "jsstring \<Rightarrow> jsstring \<Rightarrow> nat \<Rightarrow> jsstring list" where
  "twoColumn left right width =
     (if length left + 1 + length right \<le> width
      then [left @ js_repeat (width - length left - length right) [cu_space] @ right]
      else [left, js_repeat (width - length right) [cu_space] @ right])"

text \<open>The padding of a negative width is none.\<close>

definition threeColumn :: "jsstring \<Rightarrow> jsstring \<Rightarrow> jsstring \<Rightarrow> nat \<Rightarrow> jsstring" where
  "threeColumn left middle right width =
     (let remaining = int width - int (length left); middleWidth = remaining div 2
      in left @ js_pad_start (nat middleWidth) middle @ js_pad_start (nat (remaining - middleWidth)) right)"

definition eur :: "jsnum \<Rightarrow> jsstring" where
  "eur v = js_replace cu_dot [cu_comma] (js_toFixed 2 v) @ [cu_space, cu_euro]"

record sample_line =
  sl_name :: jsstring
  sl_qty :: int
  sl_unitPrice :: jsnum
  sl_taxRate :: int
  sl_discountRate :: int

definition SAMPLE_LINES :: "sample_line list" where
  "SAMPLE_LINES =
     [\<lparr>sl_name = js ''Agua mineral 1.5L'', sl_qty = 2, sl_unitPrice = js_num (95 / 100), sl_taxRate = 10,
       sl_discountRate = 0\<rparr>,
      \<lparr>sl_name = js ''Detergente'', sl_qty = 1, sl_unitPrice = js_num (35 / 10), sl_taxRate = 21,
       sl_discountRate = 10\<rparr>]"

record preview_fields =
  pf_profile :: print_profile
  pf_header_text :: jsstring
  pf_footer_text :: jsstring
  pf_tax_display :: tax_display
  pf_show_line_discounts :: bool
  pf_prices_include_tax :: bool
  pf_store_name :: jsstring
  pf_store_tax_id :: jsstring
  pf_store_address :: jsstring
  pf_store_phone :: jsstring
  pf_sale_number_prefix :: jsstring
  pf_show_unit_price :: bool
  pf_label_total :: jsstring
  pf_label_cash :: jsstring
  pf_label_change :: jsstring
  pf_label_discount :: jsstring
  pf_tax_note :: jsstring
  pf_business_timezone :: jsstring
  pf_now :: jsstring

text \<open>What one line of the sample comes to: discount, net and tax.\<close>

definition sample_amounts :: "bool \<Rightarrow> sample_line \<Rightarrow> jsnum \<times> jsnum \<times> jsnum" where
  "sample_amounts prices_include_tax l =
     (let subtotalLine = JsNum (of_int (sl_qty l)) * sl_unitPrice l;
          rate = JsNum (of_int (sl_taxRate l));
          discountAmount = (subtotalLine * JsNum (of_int (sl_discountRate l))) div JsNum 100;
          remaining = subtotalLine - discountAmount;
          net = (if prices_include_tax then remaining div (JsNum 1 + rate div JsNum 100) else remaining);
          taxAmount = (if prices_include_tax then remaining - net else (net * rate) div JsNum 100)
      in (discountAmount, net, taxAmount))"

text \<open>A \<open>Map\<close> of sums by rate, in the order the rates were added.\<close>

definition add_at :: "int \<Rightarrow> jsnum \<Rightarrow> (int \<times> jsnum) list \<Rightarrow> (int \<times> jsnum) list" where
  "add_at k v m = AList.update k ((case map_of m k of None \<Rightarrow> JsNum 0 | Some x \<Rightarrow> x) + v) m"

definition sums_by_rate :: "(sample_line \<Rightarrow> jsnum) \<Rightarrow> sample_line list \<Rightarrow> (int \<times> jsnum) list" where
  "sums_by_rate f ls = foldl (\<lambda>m l. add_at (sl_taxRate l) (f l) m) [] ls"

definition preview_blocks :: "jsstring list \<Rightarrow> jsstring list" where
  "preview_blocks bs = filter (\<lambda>l. l \<noteq> []) (map js_trim (concat (map (js_split cu_lf) bs)))"

definition sample_rows :: "preview_fields \<Rightarrow> nat \<Rightarrow> sample_line \<Rightarrow> jsstring list" where
  "sample_rows f width l =
     (let (discount, net, taxed) = sample_amounts (pf_prices_include_tax f) l
      in twoColumn (sl_name l) (eur (net + taxed)) width
         @ (if pf_show_unit_price f then [int_string (sl_qty l) @ js '' x '' @ eur (sl_unitPrice l)] else [])
         @ (if pf_show_line_discounts f \<and> 0 < sl_discountRate l
            then twoColumn (pf_label_discount f @ [cu_space] @ int_string (sl_discountRate l) @ js ''%'')
                   ([cu_dash] @ eur discount) width
            else []))"

definition preview_total :: "bool \<Rightarrow> jsnum" where
  "preview_total prices_include_tax =
     (let net = (\<lambda>l. fst (snd (sample_amounts prices_include_tax l)));
          tax = (\<lambda>l. snd (snd (sample_amounts prices_include_tax l)));
          subtotal = foldl (\<lambda>t l. t + net l) (JsNum 0) SAMPLE_LINES;
          taxTotal = foldl (\<lambda>t (r, v). t + v) (JsNum 0) (sums_by_rate tax SAMPLE_LINES)
      in subtotal + taxTotal)"

definition preview_tax_rows :: "preview_fields \<Rightarrow> nat \<Rightarrow> jsstring list" where
  "preview_tax_rows f width =
     (let nets = sums_by_rate (\<lambda>l. fst (snd (sample_amounts (pf_prices_include_tax f) l))) SAMPLE_LINES;
          taxes = sums_by_rate (\<lambda>l. snd (snd (sample_amounts (pf_prices_include_tax f) l))) SAMPLE_LINES;
          at_rate = (\<lambda>m r. case map_of m r of None \<Rightarrow> JsNum 0 | Some x \<Rightarrow> x)
      in case pf_tax_display f of
           TAX_NONE \<Rightarrow> []
         | TAX_NOTE \<Rightarrow> [preview_center (pf_tax_note f) width]
         | TAX_BREAKDOWN \<Rightarrow> [preview_rule width, pf_tax_note f,
             threeColumn (js ''Tipo'') (js ''Base'') (js ''Cuota'') width]
             @ map (\<lambda>r. threeColumn (int_string r @ js ''%'') (eur (at_rate nets r)) (eur (at_rate taxes r)) width)
                 (sort (map fst nets)))"

definition renderTicketPreview :: "date_time_format \<Rightarrow> preview_fields \<Rightarrow> jsstring" where
  "renderTicketPreview dt f =
     (let width = paper_width (pf_profile f);
          header = preview_blocks [pf_store_name f, pf_store_tax_id f, pf_store_address f, pf_store_phone f,
            pf_header_text f];
          footer = preview_blocks [pf_footer_text f];
          line_of = preview_rule width; t = preview_total (pf_prices_include_tax f); tendered = js_ceil t
      in js_join [cu_lf]
           (map (\<lambda>l. preview_center l width) header @ (if header \<noteq> [] then [line_of] else [])
            @ [pf_sale_number_prefix f @ js ''0001'',
               formatBusinessDateTime dt (pf_now f) (pf_business_timezone f), line_of]
            @ concat (map (sample_rows f width) SAMPLE_LINES)
            @ [line_of] @ twoColumn (pf_label_total f) (eur t) width @ preview_tax_rows f width @ [line_of]
            @ twoColumn (pf_label_cash f) (eur tendered) width
            @ twoColumn (pf_label_change f) (eur (tendered - t)) width
            @ (if footer \<noteq> [] then line_of # map (\<lambda>l. preview_center l width) footer else [])))"

section \<open>The form\<close>

text \<open>
  The numbers as they are typed and the other fields as a template; its profile is the one that the
  form was opened with, and is replaced by what the fields say.
\<close>

record template_form =
  tm_name :: jsstring
  tm_left :: jsstring
  tm_right :: jsstring
  tm_family :: font_family
  tm_size :: jsstring
  tm_line :: jsstring
  tm_weight :: font_weight
  tm_top :: jsstring
  tm_bottom :: jsstring
  tm_rest :: template_fields

definition default_profile :: print_profile where
  "default_profile = \<lparr>pp_printable_width_mm = JsNum 64, pp_margin_left_mm = JsNum 4,
     pp_margin_right_mm = JsNum 4, pp_font_family = COURIER_NEW, pp_font_size_px = JsNum 9,
     pp_line_height_px = JsNum 12, pp_font_weight = NORMAL, pp_margin_top_mm = JsNum 0,
     pp_margin_bottom_mm = JsNum 0\<rparr>"

definition default_template :: template_fields where
  "default_template = \<lparr>tf_profile = default_profile, tf_layout_template = [], tf_layout_mode = STANDARD,
     tf_header_text = [], tf_footer_text = [], tf_tax_display = TAX_BREAKDOWN,
     tf_show_line_discounts = False, tf_store_name = [], tf_store_tax_id = [], tf_store_address = [],
     tf_store_phone = [], tf_sale_number_prefix = js ''Venta #'', tf_date_format = js ''%d/%m/%Y %H:%M'',
     tf_show_unit_price = True, tf_show_cashier = False, tf_label_total = js ''TOTAL'',
     tf_label_change = js ''Cambio'', tf_label_cash = js ''Efectivo'', tf_label_card = js ''Tarjeta'',
     tf_label_other = js ''Otros'', tf_label_discount = js ''Dto.'', tf_tax_note = js ''IVA incluido''\<rparr>"

definition template_form_init :: "ticket_template option \<Rightarrow> template_form" where
  "template_form_init defaults =
     (let t = (case defaults of None \<Rightarrow> default_template | Some d \<Rightarrow> template_fields.truncate d); p = tf_profile t
      in \<lparr>tm_name = (case defaults of None \<Rightarrow> [] | Some d \<Rightarrow> tt_name d),
          tm_left = js_String (js_max (JsNum 4) (pp_margin_left_mm p)),
          tm_right = js_String (js_max (JsNum 4) (pp_margin_right_mm p)),
          tm_family = pp_font_family p, tm_size = js_String (pp_font_size_px p),
          tm_line = js_String (pp_line_height_px p), tm_weight = pp_font_weight p,
          tm_top = js_String (pp_margin_top_mm p), tm_bottom = js_String (pp_margin_bottom_mm p), tm_rest = t\<rparr>)"

definition fault_if :: "bool \<Rightarrow> string \<Rightarrow> jsstring list" where
  "fault_if b name = (if b then [js name] else [])"

definition form_numbers :: "template_form \<Rightarrow> jsnum list" where
  "form_numbers f = map js_Number [tm_left f, tm_right f, tm_size f, tm_line f, tm_top f, tm_bottom f]"

text \<open>The fields at fault; the checks across fields follow when every number is one.\<close>

definition templateFieldsSchema :: "template_form \<Rightarrow> jsstring list" where
  "templateFieldsSchema f =
     (let t = tm_rest f; long = (\<lambda>n v. n < length v)
      in fault_if (long 100 (tm_name f)) ''name''
         @ fault_if (\<not> int_between 4 51 (js_Number (tm_left f))) ''margin_left_mm''
         @ fault_if (\<not> int_between 4 51 (js_Number (tm_right f))) ''margin_right_mm''
         @ fault_if (\<not> int_between 6 16 (js_Number (tm_size f))) ''font_size_px''
         @ fault_if (\<not> int_between 8 24 (js_Number (tm_line f))) ''line_height_px''
         @ fault_if (\<not> int_between 0 20 (js_Number (tm_top f))) ''margin_top_mm''
         @ fault_if (\<not> int_between 0 20 (js_Number (tm_bottom f))) ''margin_bottom_mm''
         @ fault_if (long 8000 (tf_layout_template t)) ''layout_template''
         @ fault_if (long 2000 (tf_header_text t)) ''header_text''
         @ fault_if (long 2000 (tf_footer_text t)) ''footer_text''
         @ fault_if (long 500 (tf_store_name t)) ''store_name''
         @ fault_if (long 500 (tf_store_tax_id t)) ''store_tax_id''
         @ fault_if (long 1000 (tf_store_address t)) ''store_address''
         @ fault_if (long 200 (tf_store_phone t)) ''store_phone''
         @ fault_if (long 50 (tf_sale_number_prefix t)) ''sale_number_prefix''
         @ fault_if (long 50 (tf_date_format t)) ''date_format''
         @ concat (map (\<lambda>(v, name). fault_if (long 50 v) name)
             [(tf_label_total t, ''label_total''), (tf_label_change t, ''label_change''),
              (tf_label_cash t, ''label_cash''), (tf_label_card t, ''label_card''),
              (tf_label_other t, ''label_other''), (tf_label_discount t, ''label_discount'')])
         @ fault_if (long 200 (tf_tax_note t)) ''tax_note''
         @ (if JsNaN \<in> set (form_numbers f) then []
            else fault_if (printableWidthFromMargins (js_Number (tm_left f)) (js_Number (tm_right f)) < JsNum 25)
                   ''margin_right_mm''
                 @ fault_if (tf_layout_mode t = CUSTOM \<and> js_trim (tf_layout_template t) = []) ''layout_template''))"

definition form_profile :: "template_form \<Rightarrow> print_profile" where
  "form_profile f = \<lparr>
     pp_printable_width_mm = printableWidthFromMargins (js_Number (tm_left f)) (js_Number (tm_right f)),
     pp_margin_left_mm = js_Number (tm_left f), pp_margin_right_mm = js_Number (tm_right f),
     pp_font_family = tm_family f, pp_font_size_px = js_Number (tm_size f),
     pp_line_height_px = js_Number (tm_line f), pp_font_weight = tm_weight f,
     pp_margin_top_mm = js_Number (tm_top f), pp_margin_bottom_mm = js_Number (tm_bottom f)\<rparr>"

definition template_submit :: "template_form \<Rightarrow> jsstring list + template_fields \<times> jsstring" where
  "template_submit f =
     (if templateFieldsSchema f \<noteq> [] then Inl (templateFieldsSchema f)
      else if js_trim (tm_name f) = [] then Inl [js ''name'']
      else Inr ((tm_rest f)\<lparr>tf_profile := form_profile f\<rparr>, js_trim (tm_name f)))"

definition previewNumber :: "jsstring \<Rightarrow> int \<Rightarrow> int \<Rightarrow> jsnum" where
  "previewNumber v fallback minimum =
     (let n = js_Number v in if js_is_finite n \<and> JsNum (of_int minimum) \<le> n then n else JsNum (of_int fallback))"

definition preview_profile :: "template_form \<Rightarrow> print_profile" where
  "preview_profile f =
     (let l = previewNumber (tm_left f) 4 0; r = previewNumber (tm_right f) 4 0
      in \<lparr>pp_printable_width_mm = js_max (JsNum 25) (printableWidthFromMargins l r),
          pp_margin_left_mm = l, pp_margin_right_mm = r, pp_font_family = tm_family f,
          pp_font_size_px = previewNumber (tm_size f) 9 6, pp_line_height_px = previewNumber (tm_line f) 12 8,
          pp_font_weight = tm_weight f, pp_margin_top_mm = previewNumber (tm_top f) 0 0,
          pp_margin_bottom_mm = previewNumber (tm_bottom f) 0 0\<rparr>)"

definition form_preview_fields :: "bool \<Rightarrow> jsstring \<Rightarrow> jsstring \<Rightarrow> template_form \<Rightarrow> preview_fields" where
  "form_preview_fields pricesIncludeTax zone now f =
     (let t = tm_rest f in \<lparr>pf_profile = preview_profile f, pf_header_text = tf_header_text t,
        pf_footer_text = tf_footer_text t, pf_tax_display = tf_tax_display t,
        pf_show_line_discounts = tf_show_line_discounts t, pf_prices_include_tax = pricesIncludeTax,
        pf_store_name = tf_store_name t, pf_store_tax_id = tf_store_tax_id t,
        pf_store_address = tf_store_address t, pf_store_phone = tf_store_phone t,
        pf_sale_number_prefix = tf_sale_number_prefix t, pf_show_unit_price = tf_show_unit_price t,
        pf_label_total = tf_label_total t, pf_label_cash = tf_label_cash t,
        pf_label_change = tf_label_change t, pf_label_discount = tf_label_discount t,
        pf_tax_note = tf_tax_note t, pf_business_timezone = zone, pf_now = now\<rparr>)"

definition form_preview_values :: "template_form \<Rightarrow> preview_values" where
  "form_preview_values f =
     (let t = tm_rest f in \<lparr>pv_store_name = tf_store_name t, pv_store_tax_id = tf_store_tax_id t,
        pv_store_address = tf_store_address t, pv_store_phone = tf_store_phone t,
        pv_header_text = tf_header_text t, pv_footer_text = tf_footer_text t,
        pv_label_total = tf_label_total t, pv_label_change = tf_label_change t,
        pv_label_cash = tf_label_cash t, pv_label_card = tf_label_card t,
        pv_label_other = tf_label_other t, pv_tax_note = tf_tax_note t\<rparr>)"

definition layout_width :: "template_form \<Rightarrow> nat" where
  "layout_width f = nat (js_int (js_max (JsNum 16)
     (js_floor (pp_printable_width_mm (preview_profile f) div js_num (148 / 100)))))"

text \<open>The text shown and the error, or \<open>None\<close> where the engine does not return.\<close>

definition template_preview :: "date_time_format \<Rightarrow> bool \<Rightarrow> jsstring \<Rightarrow> jsstring \<Rightarrow> template_form
    \<Rightarrow> (jsstring \<times> jsstring option) option" where
  "template_preview dt pricesIncludeTax zone now f =
     (let standard = renderTicketPreview dt (form_preview_fields pricesIncludeTax zone now f);
          source = tf_layout_template (tm_rest f)
      in if tf_layout_mode (tm_rest f) = CUSTOM \<and> js_trim source \<noteq> []
         then map_option (\<lambda>r. case r of Inl e \<Rightarrow> (standard, Some e) | Inr shown \<Rightarrow> (shown, None))
                (renderTicketLayoutTemplate source
                  (ticketLayoutPreviewContext (form_preview_values f) (layout_width f)) (layout_width f))
         else Some (standard, None))"

section \<open>The page\<close>

datatype editor_mode = NoForm | CreateMode | EditMode

datatype template_write =
    TemplateCreated template_fields jsstring
  | TemplateUpdated int template_fields jsstring
  | TemplateActivated int
  | TemplateDeleted int

datatype template_job = TCreate | TUpdate | TActivate | TDelete

fun template_write_job :: "template_write \<Rightarrow> template_job" where
  "template_write_job (TemplateCreated t n) = TCreate"
| "template_write_job (TemplateUpdated i t n) = TUpdate"
| "template_write_job (TemplateActivated i) = TActivate"
| "template_write_job (TemplateDeleted i) = TDelete"

fun template_write_call :: "template_write \<Rightarrow> api_call" where
  "template_write_call (TemplateCreated t n) = createTemplate t n"
| "template_write_call (TemplateUpdated i t n) = updateTemplate i t n"
| "template_write_call (TemplateActivated i) = activateTemplate i"
| "template_write_call (TemplateDeleted i) = deleteTemplate i"

text \<open>\<open>tp_form\<close> is the form on the screen, which keeps what was typed while it stays.\<close>

record templates_page =
  tp_templates :: "ticket_template list"
  tp_active :: "ticket_template option"
  tp_mode :: editor_mode
  tp_editing :: "ticket_template option"
  tp_form :: "template_form option"
  tp_faults :: "jsstring list"
  tp_error :: "jsstring option"
  tp_running :: "template_job list"
  tp_refetched :: nat
  tp_sent :: "template_write list"

definition templates_init :: templates_page where
  "templates_init = \<lparr>tp_templates = [], tp_active = None, tp_mode = NoForm, tp_editing = None,
     tp_form = None, tp_faults = [], tp_error = None, tp_running = [], tp_refetched = 0, tp_sent = []\<rparr>"

definition template_mutate :: "template_write \<Rightarrow> templates_page \<Rightarrow> templates_page" where
  "template_mutate w s = s\<lparr>tp_sent := tp_sent s @ [w], tp_running := tp_running s @ [template_write_job w]\<rparr>"

text \<open>
  Opening the editor on a template: a form that is already on the screen for an edit stays, with what
  it shows; only the template that it is saved to changes.
\<close>

definition edit_template :: "ticket_template \<Rightarrow> templates_page \<Rightarrow> templates_page" where
  "edit_template t s =
     (let shown = (tp_mode s = EditMode \<and> tp_editing s \<noteq> None \<and> tp_form s \<noteq> None)
      in s\<lparr>tp_mode := EditMode, tp_editing := Some t,
           tp_form := (if shown then tp_form s else Some (template_form_init (Some t))),
           tp_faults := (if shown then tp_faults s else [])\<rparr>)"

definition close_template :: "templates_page \<Rightarrow> templates_page" where
  "close_template s = s\<lparr>tp_mode := NoForm, tp_form := None, tp_faults := [], tp_error := None\<rparr>"

definition template_code :: "string \<Rightarrow> failure \<Rightarrow> bool" where
  "template_code code e = (case e of ApiFailure a \<Rightarrow> ae_code a = js code | OtherFailure m \<Rightarrow> False)"

fun template_failure :: "template_job \<Rightarrow> failure \<Rightarrow> jsstring" where
  "template_failure TCreate e = (if template_code ''conflict'' e
     then js ''Ya existe una plantilla con ese nombre.'' else js ''No se ha podido crear la plantilla.'')"
| "template_failure TActivate e = js ''No se ha podido cambiar la plantilla en uso.''"
| "template_failure TUpdate e = (if template_code ''conflict'' e
     then js ''Ya existe una plantilla con ese nombre.'' else js ''No se han podido guardar los cambios.'')"
| "template_failure TDelete e = (if template_code ''conflict'' e
     then js ''No se puede eliminar una plantilla que ya se utiliz'' @ [243] @ js '' para generar tickets.''
     else js ''No se ha podido eliminar la plantilla.'')"

definition template_success :: "template_job \<Rightarrow> templates_page \<Rightarrow> templates_page" where
  "template_success j s =
     (let s' = s\<lparr>tp_refetched := Suc (tp_refetched s), tp_error := None\<rparr>
      in case j of
           TCreate \<Rightarrow> close_template s'
         | TUpdate \<Rightarrow> (close_template s')\<lparr>tp_editing := None\<rparr>
         | _ \<Rightarrow> s')"

datatype templates_event =
    TemplatesAre "ticket_template list"
  | ActiveIs "ticket_template option"
  | NewTemplate
  | EditTemplate ticket_template
  | FormTyped template_form
  | TemplateSubmitted
  | TemplateCancelled
  | UseTemplate ticket_template
  | DeletePressed ticket_template bool
  | TemplateAnswered template_job "failure option"

text \<open>The answer to the question before a template is deleted comes with the press.\<close>

fun templates_step :: "templates_page \<Rightarrow> templates_event \<Rightarrow> templates_page" where
  "templates_step s (TemplatesAre ts) = s\<lparr>tp_templates := ts\<rparr>"
| "templates_step s (ActiveIs t) = s\<lparr>tp_active := t\<rparr>"
| "templates_step s NewTemplate =
     s\<lparr>tp_mode := CreateMode, tp_form := Some (template_form_init None), tp_faults := []\<rparr>"
| "templates_step s (EditTemplate t) = edit_template t s"
| "templates_step s (FormTyped f) = s\<lparr>tp_form := Some f\<rparr>"
| "templates_step s TemplateSubmitted =
     (case tp_form s of None \<Rightarrow> s
      | Some f \<Rightarrow> (case template_submit f of
            Inl faults \<Rightarrow> s\<lparr>tp_faults := faults\<rparr>
          | Inr (t, name) \<Rightarrow> (case (tp_mode s, tp_editing s) of
                (CreateMode, _) \<Rightarrow> template_mutate (TemplateCreated t name) (s\<lparr>tp_faults := []\<rparr>)
              | (EditMode, Some e) \<Rightarrow> template_mutate (TemplateUpdated (tt_id e) t name) (s\<lparr>tp_faults := []\<rparr>)
              | _ \<Rightarrow> s)))"
| "templates_step s TemplateCancelled =
     (case tp_mode s of EditMode \<Rightarrow> (close_template s)\<lparr>tp_editing := None\<rparr> | _ \<Rightarrow> close_template s)"
| "templates_step s (UseTemplate t) = template_mutate (TemplateActivated (tt_id t)) s"
| "templates_step s (DeletePressed t sure) = (if sure then template_mutate (TemplateDeleted (tt_id t)) s else s)"
| "templates_step s (TemplateAnswered j outcome) =
     (let s' = s\<lparr>tp_running := remove1 j (tp_running s)\<rparr>
      in case outcome of None \<Rightarrow> template_success j s' | Some e \<Rightarrow> s'\<lparr>tp_error := Some (template_failure j e)\<rparr>)"

definition template_deletion_question :: "ticket_template \<Rightarrow> jsstring" where
  "template_deletion_question t = [191] @ js ''Eliminar la plantilla '' @ [8220] @ tt_name t @ [8221] @ js ''?''
     @ (if tt_is_active t
        then js '' La caja se quedar'' @ [225] @ js '' sin plantilla activa hasta que crees o actives otra.'' else [])"

fun templates_enabled :: "templates_page \<Rightarrow> templates_event \<Rightarrow> bool" where
  "templates_enabled s (TemplatesAre ts) = list_all template_schema ts"
| "templates_enabled s (ActiveIs t) = (case t of None \<Rightarrow> True | Some t \<Rightarrow> template_schema t)"
| "templates_enabled s NewTemplate = (tp_mode s = NoForm)"
| "templates_enabled s (EditTemplate t) = (t \<in> set (tp_templates s)
     \<or> tp_active s = Some t \<and> tp_mode s = NoForm)"
| "templates_enabled s (FormTyped f) = (tp_form s \<noteq> None)"
| "templates_enabled s TemplateSubmitted = (tp_form s \<noteq> None
     \<and> (if tp_mode s = CreateMode then TCreate \<notin> set (tp_running s) else TUpdate \<notin> set (tp_running s)))"
| "templates_enabled s TemplateCancelled = (tp_form s \<noteq> None)"
| "templates_enabled s (UseTemplate t) = (t \<in> set (tp_templates s) \<and> \<not> tt_is_active t
     \<and> TActivate \<notin> set (tp_running s))"
| "templates_enabled s (DeletePressed t sure) = (t \<in> set (tp_templates s) \<and> TDelete \<notin> set (tp_running s))"
| "templates_enabled s (TemplateAnswered j outcome) = (j \<in> set (tp_running s))"

section \<open>What is saved can be printed\<close>

lemma printable_width_ints:
  assumes "0 \<le> l" "l \<le> 100" "0 \<le> r" "r \<le> 100"
  shows "printableWidthFromMargins (JsNum (of_int l)) (JsNum (of_int r)) = JsNum (of_int (72 - l - r))"
proof -
  have "rnd (72 - of_int l) = JsNum (of_int (72 - l))" "rnd (of_int (72 - l) - of_int r) = JsNum (of_int (72 - l - r))"
    using rnd_of_int [of "72 - l"] rnd_of_int [of "72 - l - r"] assms by (simp_all add: abs_if)
  then show ?thesis
    by (simp add: printableWidthFromMargins_def THERMAL_HEAD_WIDTH_MM_def minus_jsnum_def)
qed

lemma int_betweenI: "lo \<le> i \<Longrightarrow> i \<le> hi \<Longrightarrow> int_between lo hi (JsNum (of_int i))"
  by (simp add: int_between_def)

definition saved_template_ok :: "template_fields \<Rightarrow> jsstring \<Rightarrow> bool" where
  "saved_template_ok t name \<longleftrightarrow> profile_schema (tf_profile t)
     \<and> pp_printable_width_mm (tf_profile t)
         = printableWidthFromMargins (pp_margin_left_mm (tf_profile t)) (pp_margin_right_mm (tf_profile t))
     \<and> length (tf_layout_template t) \<le> 8000
     \<and> (tf_layout_mode t = CUSTOM \<longrightarrow> js_trim (tf_layout_template t) \<noteq> [])
     \<and> name \<noteq> [] \<and> length name \<le> 100"

fun template_write_ok :: "template_write \<Rightarrow> bool" where
  "template_write_ok (TemplateCreated t name) = saved_template_ok t name"
| "template_write_ok (TemplateUpdated i t name) = saved_template_ok t name"
| "template_write_ok w = True"

lemma template_submit_ok:
  assumes "template_submit f = Inr (t, name)"
  shows "saved_template_ok t name"
proof -
  have faults: "templateFieldsSchema f = []" and name: "js_trim (tm_name f) \<noteq> []" "name = js_trim (tm_name f)"
    and t: "t = (tm_rest f)\<lparr>tf_profile := form_profile f\<rparr>"
    using assms by (auto simp: template_submit_def split: if_splits)
  note parts = faults [unfolded templateFieldsSchema_def Let_def append_is_Nil_conv fault_if_def]
  have nums: "int_between 4 51 (js_Number (tm_left f))" "int_between 4 51 (js_Number (tm_right f))"
    "int_between 6 16 (js_Number (tm_size f))" "int_between 8 24 (js_Number (tm_line f))"
    "int_between 0 20 (js_Number (tm_top f))" "int_between 0 20 (js_Number (tm_bottom f))"
    using parts by (simp_all split: if_split_asm)
  have texts: "length (tf_layout_template (tm_rest f)) \<le> 8000" "length (tm_name f) \<le> 100"
    using parts by (simp_all split: if_split_asm add: not_less)
  have "JsNaN \<notin> set (form_numbers f)" using nums by (auto simp: form_numbers_def int_between_def)
  then have across: "\<not> printableWidthFromMargins (js_Number (tm_left f)) (js_Number (tm_right f)) < JsNum 25"
    "tf_layout_mode (tm_rest f) = CUSTOM \<longrightarrow> js_trim (tf_layout_template (tm_rest f)) \<noteq> []"
    using parts by (simp_all split: if_split_asm)
  obtain l where l: "js_Number (tm_left f) = JsNum (of_int l)" "4 \<le> l" "l \<le> 51" by (rule int_betweenE [OF nums(1)])
  obtain r where r: "js_Number (tm_right f) = JsNum (of_int r)" "4 \<le> r" "r \<le> 51" by (rule int_betweenE [OF nums(2)])
  have w: "printableWidthFromMargins (js_Number (tm_left f)) (js_Number (tm_right f)) = JsNum (of_int (72 - l - r))"
    unfolding l(1) r(1) by (rule printable_width_ints) (use l r in auto)
  have "25 \<le> 72 - l - r"
    using across(1) unfolding w by (simp add: less_jsnum_def)
  then have "profile_schema (form_profile f)"
    using nums(3-6) l r int_betweenI
    by (simp add: profile_schema_def form_profile_def w [unfolded l(1) r(1)] del: of_int_diff)
  moreover have "length name \<le> 100" using name texts(2) length_js_trim [of "tm_name f"] by auto
  ultimately show ?thesis
    using t texts(1) across(2) name by (simp add: saved_template_ok_def form_profile_def)
qed

definition templates_ok :: "templates_page \<Rightarrow> bool" where
  "templates_ok s \<longleftrightarrow> list_all template_write_ok (tp_sent s)"

lemma templates_step_ok: "templates_ok s \<Longrightarrow> templates_ok (templates_step s e)"
  by (cases e) (auto simp: templates_ok_def edit_template_def template_mutate_def close_template_def
      template_success_def Let_def template_submit_ok split: option.splits sum.splits editor_mode.splits
      template_job.splits)

interpretation template_pages: event_machine templates_enabled templates_step templates_init templates_ok
  by unfold_locales (simp add: templates_ok_def templates_init_def, rule templates_step_ok)

text \<open>C39: Whatever is typed and pressed in the page of the ticket templates, a template that it saves has a
name, a layout when it says so, margins that leave its useful width inside the head of the printer, and a
profile whose raster stays inside the head.\<close>

theorem saved_template_prints:
  assumes "reached templates_enabled templates_step templates_init s"
    and "TemplateCreated t name \<in> set (tp_sent s) \<or> (\<exists>i. TemplateUpdated i t name \<in> set (tp_sent s))"
  shows "saved_template_ok t name
    \<and> (\<exists>l w. rg_contentLeftDots (ticketRasterGeometry (tf_profile t) n) = JsNum (of_int l)
        \<and> rg_contentWidthDots (ticketRasterGeometry (tf_profile t) n) = JsNum (of_int w)
        \<and> 0 \<le> l \<and> 1 \<le> w \<and> l + w \<le> 576)"
proof -
  have "saved_template_ok t name"
    using template_pages.inv_reached [OF assms(1)] assms(2) by (auto simp: templates_ok_def list_all_iff)
  then show ?thesis using geometry_content [of "tf_profile t" n] by (auto simp: saved_template_ok_def)
qed

definition sample_template_form :: template_form where
  "sample_template_form = \<lparr>tm_name = js ''Caja '', tm_left = js ''4'', tm_right = js ''6'', tm_family = COURIER_NEW,
     tm_size = js ''9'', tm_line = js ''12'', tm_weight = NORMAL, tm_top = js ''0'', tm_bottom = [],
     tm_rest = default_template\<rparr>"

definition sample_new_template :: "templates_event list" where
  "sample_new_template = [NewTemplate, FormTyped sample_template_form, TemplateSubmitted]"

lemma sample_form_submit:
  "template_submit sample_template_form
     = Inr (default_template\<lparr>tf_profile := form_profile sample_template_form\<rparr>, js ''Caja'')"
  by code_simp

lemma sample_new_template_run:
  "run_ok templates_enabled templates_step templates_init sample_new_template"
  "tp_sent (foldl templates_step templates_init sample_new_template)
     = [TemplateCreated (default_template\<lparr>tf_profile := form_profile sample_template_form\<rparr>) (js ''Caja'')]"
  by (simp_all add: sample_new_template_def templates_init_def sample_form_submit template_mutate_def)

theorem saved_template_prints_witness:
  "saved_template_ok (default_template\<lparr>tf_profile := form_profile sample_template_form\<rparr>) (js ''Caja'')"
proof -
  have "reached templates_enabled templates_step templates_init (foldl templates_step templates_init sample_new_template)"
    by (rule reached_run [OF sample_new_template_run(1)])
  from saved_template_prints [OF this, of _ _ 5] sample_new_template_run(2) show ?thesis by simp
qed

section \<open>A template saved over another\<close>

text \<open>
  With a template open, editing another one of the list leaves the fields of the first on the screen,
  and saving them writes them over the second.
\<close>

lemma edit_other_keeps_fields:
  assumes "tp_mode s = EditMode" "tp_editing s = Some a" "tp_form s = Some f" "template_submit f = Inr (t, name)"
  shows "tp_sent (foldl templates_step s [EditTemplate b, TemplateSubmitted])
    = tp_sent s @ [TemplateUpdated (tt_id b) t name]"
  using assms by (simp add: edit_template_def template_mutate_def)

end
