(* ===== verification/Category_Panels.thy ===== *)
theory Category_Panels
  imports Pricing
begin

text \<open>
  The panels of the catalogue's lists: the categories of products with the editor of one of them
  (\<open>ProductCategoriesPanel.tsx\<close>), the categories of the till (\<open>PosCategoriesPanel.tsx\<close>) and the units
  (\<open>UnitsPanel.tsx\<close>), as event machines. The answer to a question of the browser comes with the press.
\<close>

section \<open>The editor of a category\<close>

record category_typed =
  ct_name :: jsstring
  ct_tracks_stock :: bool
  ct_by_weight :: bool
  ct_unit :: jsstring
  ct_margin :: jsstring
  ct_amount :: jsstring
  ct_formula :: jsstring
  ct_taxes :: "int list"

definition new_category :: category_typed where
  "new_category = \<lparr>ct_name = [], ct_tracks_stock = True, ct_by_weight = False, ct_unit = [], ct_margin = [],
     ct_amount = [], ct_formula = [], ct_taxes = []\<rparr>"

definition text_of :: "jsstring option \<Rightarrow> jsstring" where
  "text_of v = (case v of None \<Rightarrow> [] | Some x \<Rightarrow> x)"

definition category_weighed :: "product_category \<Rightarrow> bool" where
  "category_weighed c \<longleftrightarrow> pcat_is_sold_by_weight c = Some True"

definition category_typed_of :: "product_category \<Rightarrow> category_typed" where
  "category_typed_of c = \<lparr>ct_name = pcat_name c, ct_tracks_stock = pcat_tracks_stock c,
     ct_by_weight = category_weighed c, ct_unit = text_of (pcat_default_unit_name c),
     ct_margin = text_of (pcat_margin_rate c), ct_amount = text_of (pcat_margin_amount c),
     ct_formula = text_of (pcat_price_formula c), ct_taxes = js_set (map ptx_id (pcat_taxes c))\<rparr>"

text \<open>Whether closing it would lose something.\<close>

definition category_isDirty :: "product_category \<Rightarrow> category_typed \<Rightarrow> bool" where
  "category_isDirty c e \<longleftrightarrow> ct_name e \<noteq> pcat_name c \<or> ct_tracks_stock e \<noteq> pcat_tracks_stock c
     \<or> ct_by_weight e \<noteq> category_weighed c \<or> ct_unit e \<noteq> text_of (pcat_default_unit_name c)
     \<or> ct_margin e \<noteq> text_of (pcat_margin_rate c) \<or> ct_amount e \<noteq> text_of (pcat_margin_amount c)
     \<or> ct_formula e \<noteq> text_of (pcat_price_formula c)
     \<or> length (ct_taxes e) \<noteq> length (js_set (map ptx_id (pcat_taxes c)))
     \<or> list_ex (\<lambda>i. i \<notin> ptx_id ` set (pcat_taxes c)) (ct_taxes e)"

text \<open>Whether its details are sent before its prices.\<close>

definition category_details_changed :: "product_category \<Rightarrow> category_typed \<Rightarrow> bool" where
  "category_details_changed c e \<longleftrightarrow> js_trim (ct_name e) \<noteq> pcat_name c \<or> ct_tracks_stock e \<noteq> pcat_tracks_stock c
     \<or> ct_by_weight e \<noteq> category_weighed c \<or> ct_unit e \<noteq> text_of (pcat_default_unit_name c)"

definition some_text :: "jsstring \<Rightarrow> jsstring option" where
  "some_text v = (if v = [] then None else Some v)"

definition category_update :: "category_typed \<Rightarrow> product_category_update" where
  "category_update e = \<lparr>pcu_name = js_trim (ct_name e), pcu_tracks_stock = ct_tracks_stock e,
     pcu_is_sold_by_weight = ct_by_weight e, pcu_default_unit_name = some_text (ct_unit e)\<rparr>"

definition category_pricing :: "category_typed \<Rightarrow> pricing_input" where
  "category_pricing e = \<lparr>pin_margin_rate = Some (blank_inherits (ct_margin e)),
     pin_margin_amount = Some (blank_inherits (ct_amount e)), pin_tax_ids = Some (ct_taxes e), pin_cost = None,
     pin_price_formula = Some (Some (js_trim (ct_formula e)))\<rparr>"

definition category_create :: "category_typed \<Rightarrow> product_category_create" where
  "category_create e = \<lparr>pcu_name = js_trim (ct_name e), pcu_tracks_stock = ct_tracks_stock e,
     pcu_is_sold_by_weight = ct_by_weight e, pcu_default_unit_name = some_text (ct_unit e),
     pcc_margin_rate = blank_inherits (ct_margin e), pcc_margin_amount = blank_inherits (ct_amount e),
     pcc_price_formula = some_text (js_trim (ct_formula e)), pcc_tax_ids = ct_taxes e\<rparr>"

section \<open>The panel of the categories\<close>

text \<open>
  A save is one mutation of one or two calls: while its details are on their way the prices to send
  afterwards are kept. Each job carries the number of the editor that started it (\<open>0\<close> for the form of a
  new category).
\<close>

datatype category_job =
    CreatingCategory
  | SavingDetails int pricing_input
  | SavingPricing int
  | TogglingCategory int
  | DeletingCategory int

record categories_panel =
  kp_categories :: "product_category list"
  kp_new :: category_typed
  kp_error :: "jsstring option"
  kp_editing :: "int option"
  kp_editorDirty :: bool
  kp_editor :: "(nat \<times> category_typed) option"
  kp_opened :: nat
  kp_jobs :: "(nat \<times> category_job) list"
  kp_refetched :: nat
  kp_calls :: "api_call list"

definition categories_init :: categories_panel where
  "categories_init = \<lparr>kp_categories = [], kp_new = new_category, kp_error = None, kp_editing = None,
     kp_editorDirty = False, kp_editor = None, kp_opened = 0, kp_jobs = [], kp_refetched = 0, kp_calls = []\<rparr>"

definition category_named :: "categories_panel \<Rightarrow> product_category option" where
  "category_named s = (case kp_editing s of None \<Rightarrow> None | Some i \<Rightarrow> find (\<lambda>c. pcat_id c = i) (kp_categories s))"

text \<open>
  A drawing: an editor appears with what its category has, stays with what was typed, and goes when
  its category is no longer open; while it is there, what it tells is whether it differs.
\<close>

definition draw_editor :: "categories_panel \<Rightarrow> categories_panel" where
  "draw_editor s =
     (case category_named s of
        None \<Rightarrow> s\<lparr>kp_editor := None\<rparr>
      | Some c \<Rightarrow> (case kp_editor s of
            Some (n, e) \<Rightarrow> s\<lparr>kp_editorDirty := category_isDirty c e\<rparr>
          | None \<Rightarrow> s\<lparr>kp_opened := Suc (kp_opened s), kp_editor := Some (Suc (kp_opened s), category_typed_of c),
              kp_editorDirty := category_isDirty c (category_typed_of c)\<rparr>))"

definition start_job :: "nat \<Rightarrow> category_job \<Rightarrow> api_call \<Rightarrow> categories_panel \<Rightarrow> categories_panel" where
  "start_job n j c s = s\<lparr>kp_jobs := kp_jobs s @ [(n, j)], kp_calls := kp_calls s @ [c]\<rparr>"

text \<open>\<open>closeEditor\<close>, which asks when something typed would be lost.\<close>

definition closeEditor :: "int option \<Rightarrow> bool \<Rightarrow> categories_panel \<Rightarrow> categories_panel" where
  "closeEditor next sure s =
     (if kp_editorDirty s \<and> \<not> sure then s
      else s\<lparr>kp_editorDirty := False, kp_editing := next, kp_editor := None, kp_error := None\<rparr>)"

definition editor_done :: "categories_panel \<Rightarrow> categories_panel" where
  "editor_done s = s\<lparr>kp_editorDirty := False, kp_editing := None, kp_editor := None\<rparr>"

definition refetch_categories :: "categories_panel \<Rightarrow> categories_panel" where
  "refetch_categories s = s\<lparr>kp_refetched := Suc (kp_refetched s)\<rparr>"

definition conflict_failure :: "failure \<Rightarrow> bool" where
  "conflict_failure e = (case e of ApiFailure a \<Rightarrow> ae_code a = js ''conflict'' | OtherFailure m \<Rightarrow> False)"

definition category_word :: "jsstring" where
  "category_word = js ''categor'' @ [237] @ js ''a''"

definition category_exists :: jsstring where
  "category_exists = js ''Ya existe una '' @ category_word @ js '' con ese nombre.''"

definition category_not :: "string \<Rightarrow> jsstring" where
  "category_not verb = js ''No se ha podido '' @ js verb @ js '' la '' @ category_word @ js ''.''"

fun category_failure :: "category_job \<Rightarrow> failure \<Rightarrow> jsstring" where
  "category_failure CreatingCategory e = (if conflict_failure e then category_exists else category_not ''crear'')"
| "category_failure (SavingDetails i p) e = (if conflict_failure e then category_exists else category_not ''guardar'')"
| "category_failure (SavingPricing i) e = (if conflict_failure e then category_exists else category_not ''guardar'')"
| "category_failure (TogglingCategory i) e = category_not ''cambiar''"
| "category_failure (DeletingCategory i) e =
     (case e of ApiFailure a \<Rightarrow> if conflict_failure e then ae_message a else category_not ''borrar''
      | OtherFailure m \<Rightarrow> category_not ''borrar'')"

fun category_success :: "nat \<Rightarrow> category_job \<Rightarrow> categories_panel \<Rightarrow> categories_panel" where
  "category_success n CreatingCategory s = (refetch_categories s)\<lparr>kp_new := new_category, kp_error := None\<rparr>"
| "category_success n (SavingDetails i p) s = start_job n (SavingPricing i) (setCategoryPricing i p) s"
| "category_success n (SavingPricing i) s = editor_done ((refetch_categories s)\<lparr>kp_error := None\<rparr>)"
| "category_success n (TogglingCategory i) s = (refetch_categories s)\<lparr>kp_error := None\<rparr>"
| "category_success n (DeletingCategory i) s = editor_done ((refetch_categories s)\<lparr>kp_error := None\<rparr>)"

datatype categories_event =
    CategoriesCome "product_category list"
  | NewCategoryTyped category_typed
  | NewCategorySubmitted
  | EditorToggled int bool
  | EditorTyped category_typed
  | EditorSaved
  | EditorCancelled bool
  | VisibilityPressed bool
  | DeletionPressed bool
  | CategoryAnswered "nat \<times> category_job" "failure option"

definition with_editor :: "categories_panel \<Rightarrow> (product_category \<Rightarrow> nat \<Rightarrow> category_typed \<Rightarrow> categories_panel)
    \<Rightarrow> categories_panel" where
  "with_editor s f = (case (category_named s, kp_editor s) of (Some c, Some (n, e)) \<Rightarrow> f c n e | _ \<Rightarrow> s)"

fun categories_handle :: "categories_panel \<Rightarrow> categories_event \<Rightarrow> categories_panel" where
  "categories_handle s (CategoriesCome cs) = s\<lparr>kp_categories := cs\<rparr>"
| "categories_handle s (NewCategoryTyped e) = s\<lparr>kp_new := e\<rparr>"
| "categories_handle s NewCategorySubmitted =
     (if js_trim (ct_name (kp_new s)) = [] then s
      else start_job 0 CreatingCategory (createProductCategory (category_create (kp_new s))) s)"
| "categories_handle s (EditorToggled i sure) =
     closeEditor (if kp_editing s = Some i then None else Some i) sure s"
| "categories_handle s (EditorTyped e) = with_editor s (\<lambda>c n old. s\<lparr>kp_editor := Some (n, e)\<rparr>)"
| "categories_handle s EditorSaved = with_editor s (\<lambda>c n e.
     if category_details_changed c e
     then start_job n (SavingDetails (pcat_id c) (category_pricing e))
            (updateProductCategory (pcat_id c) (category_update e)) s
     else start_job n (SavingPricing (pcat_id c)) (setCategoryPricing (pcat_id c) (category_pricing e)) s)"
| "categories_handle s (EditorCancelled sure) = with_editor s (\<lambda>c n e.
     if category_isDirty c e \<and> \<not> sure then s else editor_done s)"
| "categories_handle s (VisibilityPressed sure) = with_editor s (\<lambda>c n e. if \<not> sure then s
     else start_job n (TogglingCategory (pcat_id c))
       (if pcat_is_active c then deactivateProductCategory (pcat_id c) else activateProductCategory (pcat_id c)) s)"
| "categories_handle s (DeletionPressed sure) = with_editor s (\<lambda>c n e. if \<not> sure then s
     else start_job n (DeletingCategory (pcat_id c)) (deleteProductCategory (pcat_id c)) s)"
| "categories_handle s (CategoryAnswered (n, j) outcome) =
     (let s' = s\<lparr>kp_jobs := remove1 (n, j) (kp_jobs s)\<rparr>
      in case outcome of None \<Rightarrow> category_success n j s'
         | Some e \<Rightarrow> s'\<lparr>kp_error := Some (category_failure j e)\<rparr>)"

definition categories_step :: "categories_panel \<Rightarrow> categories_event \<Rightarrow> categories_panel" where
  "categories_step s e = draw_editor (categories_handle s e)"

definition editor_busy :: "categories_panel \<Rightarrow> bool" where
  "editor_busy s \<longleftrightarrow> (case kp_editor s of None \<Rightarrow> False | Some (n, e) \<Rightarrow> n \<in> fst ` set (kp_jobs s))"

fun categories_enabled :: "bool \<Rightarrow> categories_panel \<Rightarrow> categories_event \<Rightarrow> bool" where
  "categories_enabled canManage s (CategoriesCome cs) = distinct (map pcat_id cs)"
| "categories_enabled canManage s (NewCategoryTyped e) = (canManage \<and> kp_editing s = None)"
| "categories_enabled canManage s NewCategorySubmitted = (canManage \<and> kp_editing s = None
     \<and> js_trim (ct_name (kp_new s)) \<noteq> [] \<and> (0, CreatingCategory) \<notin> set (kp_jobs s))"
| "categories_enabled canManage s (EditorToggled i sure) = (canManage \<and> i \<in> pcat_id ` set (kp_categories s))"
| "categories_enabled canManage s (EditorTyped e) = (kp_editor s \<noteq> None)"
| "categories_enabled canManage s EditorSaved = (\<not> editor_busy s
     \<and> (case kp_editor s of None \<Rightarrow> False | Some (n, e) \<Rightarrow> js_trim (ct_name e) \<noteq> []))"
| "categories_enabled canManage s (EditorCancelled sure) = (kp_editor s \<noteq> None)"
| "categories_enabled canManage s (VisibilityPressed sure) = (kp_editor s \<noteq> None \<and> \<not> editor_busy s)"
| "categories_enabled canManage s (DeletionPressed sure) = (kp_editor s \<noteq> None \<and> \<not> editor_busy s)"
| "categories_enabled canManage s (CategoryAnswered job outcome) = (job \<in> set (kp_jobs s))"

subsection \<open>What the editor promises\<close>

text \<open>A category opened and untouched counts as unchanged.\<close>

lemma opened_category_clean: "\<not> category_isDirty c (category_typed_of c)"
  by (simp add: category_isDirty_def category_typed_of_def js_set_def list_ex_iff)

lemma category_isDirty_iff:
  assumes "distinct (ct_taxes e)"
  shows "category_isDirty c e \<longleftrightarrow> e\<lparr>ct_taxes := []\<rparr> \<noteq> (category_typed_of c)\<lparr>ct_taxes := []\<rparr>
    \<or> set (ct_taxes e) \<noteq> ptx_id ` set (pcat_taxes c)"
proof -
  let ?old = "js_set (map ptx_id (pcat_taxes c))"
  have old: "set ?old = ptx_id ` set (pcat_taxes c)" "distinct ?old" by (simp_all add: js_set_def)
  have "length (ct_taxes e) \<noteq> length ?old \<or> list_ex (\<lambda>i. i \<notin> set ?old) (ct_taxes e) \<longleftrightarrow> set (ct_taxes e) \<noteq> set ?old"
    using distinct_card [OF assms] distinct_card [OF old(2)] card_subset_eq [of "set ?old" "set (ct_taxes e)"]
    by (auto simp: list_ex_iff)
  moreover have "e\<lparr>ct_taxes := []\<rparr> \<noteq> (category_typed_of c)\<lparr>ct_taxes := []\<rparr> \<longleftrightarrow> ct_name e \<noteq> pcat_name c
      \<or> ct_tracks_stock e \<noteq> pcat_tracks_stock c \<or> ct_by_weight e \<noteq> category_weighed c
      \<or> ct_unit e \<noteq> text_of (pcat_default_unit_name c) \<or> ct_margin e \<noteq> text_of (pcat_margin_rate c)
      \<or> ct_amount e \<noteq> text_of (pcat_margin_amount c) \<or> ct_formula e \<noteq> text_of (pcat_price_formula c)"
    by (cases e) (auto simp: category_typed_of_def)
  ultimately show ?thesis unfolding category_isDirty_def old(1) [symmetric] by blast
qed

text \<open>The bar between the editor and its panel: what the panel knows of it is true while it is open.\<close>

definition categories_ok :: "categories_panel \<Rightarrow> bool" where
  "categories_ok s \<longleftrightarrow> (case kp_editor s of None \<Rightarrow> True | Some (n, e) \<Rightarrow>
     (\<exists>c. category_named s = Some c \<and> kp_editorDirty s = category_isDirty c e) \<and> 0 < n \<and> n \<le> kp_opened s)"

lemma draw_editor_ok:
  assumes "case kp_editor s of None \<Rightarrow> True | Some (n, e) \<Rightarrow> 0 < n \<and> n \<le> kp_opened s"
  shows "categories_ok (draw_editor s)"
proof (cases "category_named s")
  case None
  then show ?thesis by (simp add: draw_editor_def categories_ok_def)
next
  case (Some c)
  have named: "category_named (s\<lparr>kp_editorDirty := b, kp_editor := x, kp_opened := n\<rparr>) = category_named s"
    "category_named (s\<lparr>kp_editorDirty := b\<rparr>) = category_named s" for b x n
    by (simp_all add: category_named_def cong: option.case_cong)
  show ?thesis
    using Some assms named by (auto simp: draw_editor_def categories_ok_def category_named_def split: option.splits)
qed

lemma kept_editor_number:
  assumes "categories_ok s"
  shows "case kp_editor (categories_handle s e) of None \<Rightarrow> True
    | Some (n, e') \<Rightarrow> 0 < n \<and> n \<le> kp_opened (categories_handle s e)"
proof -
  have s: "case kp_editor s of None \<Rightarrow> True | Some (n, e) \<Rightarrow> 0 < n \<and> n \<le> kp_opened s"
    using assms by (auto simp: categories_ok_def split: option.splits)
  have done_part: "kp_editor (category_success n j t) \<in> {None, kp_editor t}" "kp_opened (category_success n j t) = kp_opened t" for n j t
    by (cases j; simp add: refetch_categories_def start_job_def editor_done_def)+
  show ?thesis
  proof (cases e)
    case (CategoryAnswered job outcome)
    then show ?thesis
      using s done_part [of "fst job" "snd job" "s\<lparr>kp_jobs := remove1 job (kp_jobs s)\<rparr>"]
      by (cases job) (auto simp: Let_def split: option.splits)
  qed (use s in \<open>auto simp: with_editor_def closeEditor_def editor_done_def start_job_def split: option.splits\<close>)
qed

interpretation category_panels: event_machine "categories_enabled canManage" categories_step categories_init categories_ok
  for canManage
proof
  show "categories_ok categories_init" by (simp add: categories_ok_def categories_init_def)
  show "categories_ok (categories_step s e)" if "categories_ok s" for s e
    unfolding categories_step_def by (rule draw_editor_ok [OF kept_editor_number [OF that]])
qed

text \<open>
  So whoever closes an editor or jumps to another category by its buttons, and does not say yes to
  the question, loses nothing that was typed.
\<close>

lemma closing_asks:
  assumes "reached (categories_enabled canManage) categories_step categories_init s"
    and "kp_editor s = Some (n, e)" and "category_named s = Some c" and "category_isDirty c e"
    and "ev = EditorToggled i False \<or> ev = EditorCancelled False"
  shows "kp_editor (categories_step s ev) = Some (n, e)"
proof -
  have "kp_editorDirty s"
    using category_panels.inv_reached [OF assms(1)] assms(2-4) by (auto simp: categories_ok_def)
  then have "categories_handle s ev = s"
    using assms(2-5) by (auto simp: closeEditor_def with_editor_def)
  then show ?thesis using assms(2,3) by (simp add: categories_step_def draw_editor_def)
qed

text \<open>
  An answer asks nothing: the save of one category closes the editor of another opened in the
  meantime, with what was typed there.
\<close>

definition sample_category :: "int \<Rightarrow> string \<Rightarrow> product_category" where
  "sample_category i name = \<lparr>pcat_id = i, pcat_name = js name, pcat_is_active = True, pcat_margin_rate = None,
     pcat_margin_amount = None, pcat_price_formula = None, pcat_tracks_stock = True,
     pcat_is_sold_by_weight = None, pcat_default_unit_name = None, pcat_taxes = []\<rparr>"

definition late_category_save :: "categories_event list" where
  "late_category_save = [CategoriesCome [sample_category 1 ''Fruta'', sample_category 2 ''Pan''],
     EditorToggled 1 False, EditorSaved, EditorToggled 2 False,
     EditorTyped ((category_typed_of (sample_category 2 ''Pan''))\<lparr>ct_name := js ''Panes''\<rparr>),
     CategoryAnswered (1, SavingPricing 1) None]"

lemma late_save_closes_other:
  "run_ok (categories_enabled True) categories_step categories_init late_category_save"
  "kp_editorDirty (foldl categories_step categories_init (butlast late_category_save))"
  "kp_editor (foldl categories_step categories_init late_category_save) = None"
  by code_simp+

section \<open>The categories of the till\<close>

text \<open>\<open>Number(v) || 0\<close>.\<close>

definition number_or_zero :: "jsstring \<Rightarrow> jsnum" where
  "number_or_zero v = (if js_Number v = JsNaN then JsNum 0 else js_Number v)"

record pos_category_draft =
  pd_id :: int
  pd_name :: jsstring
  pd_color :: jsstring
  pd_order :: jsnum
  pd_default :: bool

definition pos_draft_of :: "pos_category \<Rightarrow> pos_category_draft" where
  "pos_draft_of c = \<lparr>pd_id = pc_id c, pd_name = pc_name c, pd_color = pc_color c,
     pd_order = JsNum (of_int (pc_display_order c)), pd_default = (pc_is_default c = Some True)\<rparr>"

definition pos_category_edit :: "pos_category_draft \<Rightarrow> pos_category_create" where
  "pos_category_edit d = \<lparr>pco_name = Some (js_trim (pd_name d)), pco_color = Some (pd_color d),
     pco_display_order = Some (pd_order d), pco_is_default = Some (pd_default d)\<rparr>"

definition pos_category_new :: "jsstring \<Rightarrow> jsstring \<Rightarrow> jsstring \<Rightarrow> pos_category_create" where
  "pos_category_new name color order = \<lparr>pco_name = Some (js_trim name), pco_color = Some color,
     pco_display_order = Some (number_or_zero order), pco_is_default = None\<rparr>"

datatype pos_category_job = PosCreate | PosUpdate | PosToggle | PosDelete

record pos_categories_panel =
  pk_categories :: "pos_category list"
  pk_name :: jsstring
  pk_color :: jsstring
  pk_order :: jsstring
  pk_error :: "jsstring option"
  pk_draft :: "pos_category_draft option"
  pk_jobs :: "pos_category_job list"
  pk_refetched :: nat
  pk_calls :: "api_call list"

definition pos_color_default :: jsstring where
  "pos_color_default = js ''#64748b''"

definition pos_categories_init :: pos_categories_panel where
  "pos_categories_init = \<lparr>pk_categories = [], pk_name = [], pk_color = pos_color_default, pk_order = js ''1'',
     pk_error = None, pk_draft = None, pk_jobs = [], pk_refetched = 0, pk_calls = []\<rparr>"

definition pos_start :: "pos_category_job \<Rightarrow> api_call \<Rightarrow> pos_categories_panel \<Rightarrow> pos_categories_panel" where
  "pos_start j c s = s\<lparr>pk_jobs := pk_jobs s @ [j], pk_calls := pk_calls s @ [c]\<rparr>"

definition pos_category_exists :: jsstring where
  "pos_category_exists = js ''Ya existe una '' @ category_word @ js '' POS con ese nombre.''"

fun pos_category_failure :: "pos_category_job \<Rightarrow> failure \<Rightarrow> jsstring" where
  "pos_category_failure PosCreate e = (if conflict_failure e then pos_category_exists else category_not ''crear'')"
| "pos_category_failure PosUpdate e = (if conflict_failure e then pos_category_exists else category_not ''guardar'')"
| "pos_category_failure PosToggle e = category_not ''cambiar''"
| "pos_category_failure PosDelete e = category_failure (DeletingCategory 0) e"

fun pos_category_success :: "pos_category_job \<Rightarrow> pos_categories_panel \<Rightarrow> pos_categories_panel" where
  "pos_category_success PosCreate s = s\<lparr>pk_name := [], pk_color := pos_color_default, pk_order := js ''1''\<rparr>"
| "pos_category_success PosUpdate s = s\<lparr>pk_draft := None\<rparr>"
| "pos_category_success j s = s"

datatype pos_categories_event =
    PosCategoriesCome "pos_category list"
  | PosNameTyped jsstring
  | PosColorChosen jsstring
  | PosOrderTyped jsstring
  | PosSubmitted
  | PosEditPressed pos_category
  | PosDraftTyped pos_category_draft
  | PosSaved
  | PosCancelled
  | PosVisibility pos_category bool
  | PosDeletion pos_category bool
  | PosAnswered pos_category_job "failure option"

fun pos_categories_step :: "pos_categories_panel \<Rightarrow> pos_categories_event \<Rightarrow> pos_categories_panel" where
  "pos_categories_step s (PosCategoriesCome cs) = s\<lparr>pk_categories := cs\<rparr>"
| "pos_categories_step s (PosNameTyped v) = s\<lparr>pk_name := v\<rparr>"
| "pos_categories_step s (PosColorChosen v) = s\<lparr>pk_color := v\<rparr>"
| "pos_categories_step s (PosOrderTyped v) = s\<lparr>pk_order := v\<rparr>"
| "pos_categories_step s PosSubmitted = (if js_trim (pk_name s) = [] then s
     else pos_start PosCreate (createPosCategory (pos_category_new (pk_name s) (pk_color s) (pk_order s))) s)"
| "pos_categories_step s (PosEditPressed c) = s\<lparr>pk_error := None,
     pk_draft := (if map_option pd_id (pk_draft s) = Some (pc_id c) then None else Some (pos_draft_of c))\<rparr>"
| "pos_categories_step s (PosDraftTyped d) = s\<lparr>pk_draft := Some d\<rparr>"
| "pos_categories_step s PosSaved = (case pk_draft s of None \<Rightarrow> s
     | Some d \<Rightarrow> pos_start PosUpdate (updatePosCategory (pd_id d) (pos_category_edit d)) s)"
| "pos_categories_step s PosCancelled = s\<lparr>pk_draft := None\<rparr>"
| "pos_categories_step s (PosVisibility c sure) = (if \<not> sure then s
     else pos_start PosToggle (if pc_is_active c then deactivatePosCategory (pc_id c) else activatePosCategory (pc_id c)) s)"
| "pos_categories_step s (PosDeletion c sure) = (if \<not> sure then s
     else pos_start PosDelete (deletePosCategory (pc_id c)) s)"
| "pos_categories_step s (PosAnswered j outcome) =
     (let s' = s\<lparr>pk_jobs := remove1 j (pk_jobs s)\<rparr>
      in case outcome of
           None \<Rightarrow> (pos_category_success j s')\<lparr>pk_refetched := Suc (pk_refetched s), pk_error := None\<rparr>
         | Some e \<Rightarrow> s'\<lparr>pk_error := Some (pos_category_failure j e)\<rparr>)"

definition pos_busy :: "pos_categories_panel \<Rightarrow> bool" where
  "pos_busy s \<longleftrightarrow> set (pk_jobs s) \<inter> {PosUpdate, PosToggle, PosDelete} \<noteq> {}"

definition pos_open :: "pos_categories_panel \<Rightarrow> pos_category \<Rightarrow> bool" where
  "pos_open s c \<longleftrightarrow> c \<in> set (pk_categories s) \<and> map_option pd_id (pk_draft s) = Some (pc_id c)"

fun pos_categories_enabled :: "bool \<Rightarrow> pos_categories_panel \<Rightarrow> pos_categories_event \<Rightarrow> bool" where
  "pos_categories_enabled canManage s (PosCategoriesCome cs) = distinct (map pc_id cs)"
| "pos_categories_enabled canManage s PosSubmitted = (canManage \<and> PosCreate \<notin> set (pk_jobs s))"
| "pos_categories_enabled canManage s (PosEditPressed c) = (canManage \<and> c \<in> set (pk_categories s))"
| "pos_categories_enabled canManage s (PosDraftTyped d) = (map_option pd_id (pk_draft s) = Some (pd_id d))"
| "pos_categories_enabled canManage s PosSaved = (\<not> pos_busy s
     \<and> (case pk_draft s of None \<Rightarrow> False | Some d \<Rightarrow> js_trim (pd_name d) \<noteq> []))"
| "pos_categories_enabled canManage s PosCancelled = (pk_draft s \<noteq> None)"
| "pos_categories_enabled canManage s (PosVisibility c sure) = (pos_open s c \<and> \<not> pos_busy s)"
| "pos_categories_enabled canManage s (PosDeletion c sure) = (pos_open s c \<and> \<not> pos_busy s)"
| "pos_categories_enabled canManage s (PosAnswered j outcome) = (j \<in> set (pk_jobs s))"
| "pos_categories_enabled canManage s e = canManage"

section \<open>The units\<close>

text \<open>\<open>upper\<close> is \<open>toUpperCase\<close>, which the browser's Unicode tables define.\<close>

datatype unit_job = UnitCreate | UnitUpdate | UnitDelete

record units_panel =
  up_units :: "unit_of_sale list"
  up_name :: jsstring
  up_editing :: "unit_of_sale option"
  up_editedName :: jsstring
  up_error :: "jsstring option"
  up_jobs :: "unit_job list"
  up_refetched :: nat
  up_categories_refetched :: nat
  up_calls :: "api_call list"

definition units_init :: units_panel where
  "units_init = \<lparr>up_units = [], up_name = [], up_editing = None, up_editedName = [], up_error = None,
     up_jobs = [], up_refetched = 0, up_categories_refetched = 0, up_calls = []\<rparr>"

definition isStandard :: "unit_of_sale \<Rightarrow> bool" where
  "isStandard u \<longleftrightarrow> un_name u \<in> {js ''KG'', js ''L'', js ''UDS''}"

definition unit_start :: "unit_job \<Rightarrow> api_call \<Rightarrow> units_panel \<Rightarrow> units_panel" where
  "unit_start j c s = s\<lparr>up_jobs := up_jobs s @ [j], up_calls := up_calls s @ [c]\<rparr>"

fun unit_failure :: "unit_job \<Rightarrow> failure \<Rightarrow> jsstring" where
  "unit_failure UnitCreate e = (if conflict_failure e then js ''Ya existe una unidad con ese nombre.''
     else js ''No se ha podido crear la unidad.'')"
| "unit_failure UnitUpdate e = (case e of ApiFailure a \<Rightarrow> ae_message a
     | OtherFailure m \<Rightarrow> js ''No se ha podido modificar la unidad.'')"
| "unit_failure UnitDelete e = (case e of ApiFailure a \<Rightarrow> ae_message a
     | OtherFailure m \<Rightarrow> js ''No se ha podido borrar la unidad.'')"

fun unit_success :: "unit_job \<Rightarrow> units_panel \<Rightarrow> units_panel" where
  "unit_success UnitCreate s = s\<lparr>up_name := []\<rparr>"
| "unit_success UnitUpdate s = s\<lparr>up_editing := None, up_editedName := []\<rparr>"
| "unit_success UnitDelete s = s\<lparr>up_categories_refetched := Suc (up_categories_refetched s)\<rparr>"

datatype units_event =
    UnitsCome "unit_of_sale list"
  | UnitNameTyped jsstring
  | UnitSubmitted
  | UnitEdit unit_of_sale
  | UnitEditTyped jsstring
  | UnitSaved unit_of_sale
  | UnitEditCancelled
  | UnitDeletion unit_of_sale bool
  | UnitAnswered unit_job "failure option"

fun units_step :: "(jsstring \<Rightarrow> jsstring) \<Rightarrow> units_panel \<Rightarrow> units_event \<Rightarrow> units_panel" where
  "units_step upper s (UnitsCome us) = s\<lparr>up_units := us\<rparr>"
| "units_step upper s (UnitNameTyped v) = s\<lparr>up_name := v\<rparr>"
| "units_step upper s UnitSubmitted = (if js_trim (up_name s) = [] then s
     else unit_start UnitCreate (createUnit (upper (js_trim (up_name s)))) s)"
| "units_step upper s (UnitEdit u) = s\<lparr>up_editing := Some u, up_editedName := un_name u, up_error := None\<rparr>"
| "units_step upper s (UnitEditTyped v) = s\<lparr>up_editedName := v\<rparr>"
| "units_step upper s (UnitSaved u) =
     unit_start UnitUpdate (updateUnit (un_id u) (upper (js_trim (up_editedName s)))) s"
| "units_step upper s UnitEditCancelled = s\<lparr>up_editing := None, up_editedName := []\<rparr>"
| "units_step upper s (UnitDeletion u sure) =
     (if sure then unit_start UnitDelete (deleteUnit (un_id u)) s else s)"
| "units_step upper s (UnitAnswered j outcome) =
     (let s' = s\<lparr>up_jobs := remove1 j (up_jobs s)\<rparr>
      in case outcome of
           None \<Rightarrow> (unit_success j s')\<lparr>up_refetched := Suc (up_refetched s), up_error := None\<rparr>
         | Some e \<Rightarrow> s'\<lparr>up_error := Some (unit_failure j e)\<rparr>)"

definition units_busy :: "units_panel \<Rightarrow> bool" where
  "units_busy s \<longleftrightarrow> UnitUpdate \<in> set (up_jobs s) \<or> UnitDelete \<in> set (up_jobs s)"

definition unit_open :: "units_panel \<Rightarrow> unit_of_sale \<Rightarrow> bool" where
  "unit_open s u \<longleftrightarrow> map_option un_id (up_editing s) = Some (un_id u)"

fun units_enabled :: "bool \<Rightarrow> units_panel \<Rightarrow> units_event \<Rightarrow> bool" where
  "units_enabled canManage s (UnitsCome us) = distinct (map un_id us)"
| "units_enabled canManage s (UnitNameTyped v) = canManage"
| "units_enabled canManage s UnitSubmitted = (canManage \<and> UnitCreate \<notin> set (up_jobs s))"
| "units_enabled canManage s (UnitEdit u) = (canManage \<and> u \<in> set (up_units s) \<and> \<not> isStandard u
     \<and> \<not> unit_open s u \<and> \<not> units_busy s)"
| "units_enabled canManage s (UnitEditTyped v) = (\<exists>u \<in> set (up_units s). unit_open s u)"
| "units_enabled canManage s (UnitSaved u) = (canManage \<and> u \<in> set (up_units s) \<and> \<not> isStandard u
     \<and> unit_open s u \<and> \<not> units_busy s \<and> js_trim (up_editedName s) \<noteq> [])"
| "units_enabled canManage s UnitEditCancelled = (\<not> units_busy s \<and> (\<exists>u \<in> set (up_units s). unit_open s u))"
| "units_enabled canManage s (UnitDeletion u sure) = (canManage \<and> u \<in> set (up_units s) \<and> \<not> isStandard u
     \<and> \<not> unit_open s u \<and> \<not> units_busy s)"
| "units_enabled canManage s (UnitAnswered j outcome) = (j \<in> set (up_jobs s))"

text \<open>
  At most one change of a unit is on its way at a time.
\<close>

definition units_ok :: "units_panel \<Rightarrow> bool" where
  "units_ok s \<longleftrightarrow> length (filter (\<lambda>j. j \<noteq> UnitCreate) (up_jobs s)) \<le> 1"

lemma units_idle: "\<not> units_busy s \<Longrightarrow> filter (\<lambda>j. j \<noteq> UnitCreate) (up_jobs s) = []"
  unfolding units_busy_def filter_empty_conv by (metis unit_job.exhaust)

lemma units_step_ok:
  assumes "units_ok s" and "units_enabled canManage s e"
  shows "units_ok (units_step upper s e)"
proof (cases e)
  case (UnitAnswered j outcome)
  have "length (filter P (remove1 j js)) \<le> length (filter P js)" for P :: "unit_job \<Rightarrow> bool" and js
    by (induction js) auto
  then have "units_ok (s\<lparr>up_jobs := remove1 j (up_jobs s)\<rparr>)"
    using assms(1) le_trans unfolding units_ok_def by fastforce
  then show ?thesis
    using UnitAnswered by (cases j) (auto simp: units_ok_def Let_def split: option.splits)
qed (use assms units_idle [of s] in \<open>auto simp: units_ok_def unit_start_def\<close>)

interpretation unit_panels: event_machine "units_enabled canManage" "units_step upper" units_init units_ok
  for canManage upper
proof
  show "units_ok units_init" by (simp add: units_ok_def units_init_def)
qed (rule units_step_ok)

lemma one_unit_change:
  assumes "reached (units_enabled canManage) (units_step upper) units_init s"
  shows "length (filter (\<lambda>j. j \<noteq> UnitCreate) (up_jobs s)) \<le> 1"
  using unit_panels.inv_reached [OF assms] by (simp add: units_ok_def)

end
