(* ===== verification/Reports.thy ===== *)
theory Reports
  imports Catalog Lib_Formats
begin

text \<open>
  Reports: the records and calls of \<open>features/reports/api.ts\<close>, the table of a result
  (\<open>ReportResultTable.tsx\<close>, \<open>columnLabels.ts\<close>), its download as a CSV file, and the page that builds,
  runs and saves a report (\<open>pages/admin/ReportsPage.tsx\<close>) as an event machine.
\<close>

section \<open>Records and calls\<close>

datatype report_subject = SALES | PURCHASES | INVENTORY_MOVEMENTS

definition report_subject_name :: "report_subject \<Rightarrow> jsstring" where
  "report_subject_name r = (case r of SALES \<Rightarrow> js ''SALES'' | PURCHASES \<Rightarrow> js ''PURCHASES''
     | INVENTORY_MOVEMENTS \<Rightarrow> js ''INVENTORY_MOVEMENTS'')"

record report_subject_info =
  rsi_subject :: report_subject
  rsi_label :: jsstring
  rsi_dimensions :: "(jsstring \<times> jsstring) list"
  rsi_metrics :: "(jsstring \<times> jsstring) list"
  rsi_filter_keys :: "jsstring list"

definition reportSubjectsQuery :: query_options where
  "reportSubjectsQuery = \<lparr>q_key = [KStr (js ''reports''), KStr (js ''subjects'')],
     q_call = get_call (js ''/report-subjects''), q_enabled = True\<rparr>"

text \<open>A filter is absent, null or has a value.\<close>

record report_filters =
  rf_date_from :: "jsstring option option"
  rf_date_to :: "jsstring option option"
  rf_warehouse_id :: "int option option"
  rf_category_id :: "int option option"
  rf_product_id :: "int option option"
  rf_supplier_id :: "int option option"
  rf_cashier_user_id :: "int option option"
  rf_movement_type :: "jsstring option option"

definition no_filters :: report_filters where
  "no_filters = \<lparr>rf_date_from = None, rf_date_to = None, rf_warehouse_id = None, rf_category_id = None,
     rf_product_id = None, rf_supplier_id = None, rf_cashier_user_id = None, rf_movement_type = None\<rparr>"

definition report_filters_json :: "report_filters \<Rightarrow> json" where
  "report_filters_json f = JObj (opt_field (js ''date_from'') (null_or JStr) (rf_date_from f)
     @ opt_field (js ''date_to'') (null_or JStr) (rf_date_to f)
     @ opt_field (js ''warehouse_id'') (null_or JInt) (rf_warehouse_id f)
     @ opt_field (js ''category_id'') (null_or JInt) (rf_category_id f)
     @ opt_field (js ''product_id'') (null_or JInt) (rf_product_id f)
     @ opt_field (js ''supplier_id'') (null_or JInt) (rf_supplier_id f)
     @ opt_field (js ''cashier_user_id'') (null_or JInt) (rf_cashier_user_id f)
     @ opt_field (js ''movement_type'') (null_or JStr) (rf_movement_type f))"

datatype report_value = RText jsstring | RNumber jsnum | RNull

record report_result =
  rr_columns :: "jsstring list"
  rr_rows :: "(jsstring \<times> report_value) list list"

record report_request =
  rq_subject :: report_subject
  rq_dimensions :: "jsstring list"
  rq_metrics :: "jsstring list"
  rq_filters :: report_filters

definition report_request_fields :: "report_request \<Rightarrow> (jsstring \<times> json) list" where
  "report_request_fields r = [(js ''subject'', JStr (report_subject_name (rq_subject r))),
     (js ''dimensions'', JArr (map JStr (rq_dimensions r))), (js ''metrics'', JArr (map JStr (rq_metrics r))),
     (js ''filters'', report_filters_json (rq_filters r))]"

definition runReport :: "report_request \<Rightarrow> api_call" where
  "runReport r = send_call POST (js ''/reports/run'') [] (Some (JObj (report_request_fields r)))"

text \<open>The filters of a saved report are whatever was stored.\<close>

record report_definition =
  rd_id :: int
  rd_name :: jsstring
  rd_subject :: report_subject
  rd_dimensions :: "jsstring list"
  rd_metrics :: "jsstring list"
  rd_filters :: "(jsstring \<times> json) list"

definition reportDefinitionsQuery :: query_options where
  "reportDefinitionsQuery = \<lparr>q_key = [KStr (js ''reports''), KStr (js ''definitions'')],
     q_call = get_call (js ''/report-definitions''), q_enabled = True\<rparr>"

definition report_definition_path :: "int \<Rightarrow> jsstring \<Rightarrow> jsstring" where
  "report_definition_path i rest = js ''/report-definitions/'' @ int_string i @ rest"

definition createReportDefinition :: "report_request \<Rightarrow> jsstring \<Rightarrow> api_call" where
  "createReportDefinition r name = send_call POST (js ''/report-definitions'') []
     (Some (JObj (report_request_fields r @ [(js ''name'', JStr name)])))"

definition updateReportDefinition :: "int \<Rightarrow> report_request \<Rightarrow> jsstring \<Rightarrow> api_call" where
  "updateReportDefinition i r name = send_call PUT (report_definition_path i []) []
     (Some (JObj (report_request_fields r @ [(js ''name'', JStr name)])))"

definition runReportDefinition :: "int \<Rightarrow> api_call" where
  "runReportDefinition i = send_call POST (report_definition_path i (js ''/run'')) [] None"

definition deleteReportDefinition :: "int \<Rightarrow> api_call" where
  "deleteReportDefinition i = send_call DELETE (report_definition_path i []) [] None"

section \<open>The table of a result\<close>

definition COLUMN_LABELS :: "(jsstring \<times> jsstring) list" where
  "COLUMN_LABELS =
     [(js ''date'', js ''Fecha''), (js ''product_name'', js ''Producto''),
      (js ''category_name'', js ''Categor'' @ [237] @ js ''a''),
      (js ''warehouse_name'', js ''Almac'' @ [233] @ js ''n''), (js ''cashier_name'', js ''Cajero''),
      (js ''supplier_name'', js ''Proveedor''), (js ''movement_type'', js ''Tipo''),
      (js ''quantity'', js ''Cantidad''), (js ''revenue'', js ''Ingresos''),
      (js ''tickets'', js ''N'' @ [186] @ js '' de tickets''),
      (js ''lines'', js ''N'' @ [186] @ js '' de l'' @ [237] @ js ''neas''), (js ''cost'', js ''Coste''),
      (js ''orders'', js ''N'' @ [186] @ js '' de pedidos''),
      (js ''movements'', js ''N'' @ [186] @ js '' de movimientos'')]"

definition columnLabel :: "jsstring \<Rightarrow> jsstring" where
  "columnLabel key = (case map_of COLUMN_LABELS key of None \<Rightarrow> key | Some v \<Rightarrow> v)"

definition MONEY_COLUMNS :: "jsstring list" where "MONEY_COLUMNS = [js ''revenue'', js ''cost'']"
definition QUANTITY_COLUMNS :: "jsstring list" where "QUANTITY_COLUMNS = [js ''quantity'']"

definition INTEGER_COLUMNS :: "jsstring list" where
  "INTEGER_COLUMNS = [js ''tickets'', js ''lines'', js ''orders'', js ''movements'']"

definition SUMMARY_COLUMNS :: "jsstring list" where
  "SUMMARY_COLUMNS = MONEY_COLUMNS @ QUANTITY_COLUMNS @ INTEGER_COLUMNS"

definition row_value :: "(jsstring \<times> report_value) list \<Rightarrow> jsstring \<Rightarrow> report_value" where
  "row_value row column = (case map_of row column of None \<Rightarrow> RNull | Some v \<Rightarrow> v)"

definition report_raw :: "report_value \<Rightarrow> jsstring" where
  "report_raw v = (case v of RText t \<Rightarrow> t | RNumber x \<Rightarrow> js_String x | RNull \<Rightarrow> [])"

definition formatValue :: "jsstring \<Rightarrow> report_value \<Rightarrow> jsstring" where
  "formatValue column v =
     (if v = RNull then [8212]
      else let raw = report_raw v in
        if column \<in> set MONEY_COLUMNS then formatMoney raw
        else if column \<in> set QUANTITY_COLUMNS then formatQuantity raw
        else if column \<in> set INTEGER_COLUMNS then intl_format 0 3 (js_Number raw) else raw)"

datatype report_view = NoData | Summary "(jsstring \<times> jsstring) list"
  | ReportTable "jsstring list" "jsstring list list"

definition report_table :: "report_result \<Rightarrow> report_view" where
  "report_table r =
     (let cells = (\<lambda>row. map (\<lambda>c. formatValue c (row_value row c)) (rr_columns r))
      in case rr_rows r of
           [] \<Rightarrow> NoData
         | [row] \<Rightarrow> if list_all (\<lambda>c. c \<in> set SUMMARY_COLUMNS) (rr_columns r)
             then Summary (zip (map columnLabel (rr_columns r)) (cells row))
             else ReportTable (map columnLabel (rr_columns r)) [cells row]
         | rows \<Rightarrow> ReportTable (map columnLabel (rr_columns r)) (map cells rows))"

section \<open>The download\<close>

abbreviation (input) cu_quote :: nat where "cu_quote \<equiv> 34"
abbreviation (input) cu_semicolon :: nat where "cu_semicolon \<equiv> 59"
abbreviation (input) cu_cr :: nat where "cu_cr \<equiv> 13"

definition csvCell :: "jsstring \<Rightarrow> jsstring" where
  "csvCell v = [cu_quote] @ js_replace_all cu_quote [cu_quote, cu_quote] v @ [cu_quote]"

definition csv_rows :: "report_result \<Rightarrow> jsstring list list" where
  "csv_rows r = map columnLabel (rr_columns r)
     # map (\<lambda>row. map (\<lambda>c. report_raw (row_value row c)) (rr_columns r)) (rr_rows r)"

text \<open>The file: a byte order mark, then the rows.\<close>

definition csv_body :: "jsstring list list \<Rightarrow> jsstring" where
  "csv_body rows = js_join [cu_cr, cu_lf] (map (\<lambda>row. js_join [cu_semicolon] (map csvCell row)) rows)"

definition downloadCsv :: "report_result \<Rightarrow> jsstring" where
  "downloadCsv r = [65279] @ csv_body (csv_rows r)"

text \<open>
  Its name: the titles of the page, in lower case, with a dash for each run of other characters.
\<close>

definition csv_name_char :: "nat \<Rightarrow> bool" where
  "csv_name_char c \<longleftrightarrow> 97 \<le> c \<and> c \<le> 122 \<or> 48 \<le> c \<and> c \<le> 57 \<or> c \<in> {225, 233, 237, 243, 250, 252, 241}"

fun dash_runs :: "bool \<Rightarrow> jsstring \<Rightarrow> jsstring" where
  "dash_runs dashed [] = []"
| "dash_runs dashed (c # s) = (if csv_name_char c then c # dash_runs False s
     else if dashed then dash_runs True s else cu_dash # dash_runs True s)"

definition csv_filename :: "jsstring option \<Rightarrow> jsstring" where
  "csv_filename title = dash_runs False (map (\<lambda>c. if 65 \<le> c \<and> c \<le> 90 then c + 32 else c)
     (case title of None \<Rightarrow> js ''informe'' | Some t \<Rightarrow> t)) @ js ''.csv''"

section \<open>Reading the file back\<close>

text \<open>
  How a spreadsheet reads quoted cells separated by semicolons: \<open>csv_open\<close> expects a cell,
  \<open>csv_inside\<close> is in one, \<open>csv_after\<close> has seen a quote in one, \<open>csv_line\<close> the first half of a line end.
\<close>

fun csv_open :: "jsstring list \<Rightarrow> jsstring list list \<Rightarrow> jsstring \<Rightarrow> jsstring list list option"
  and csv_inside :: "jsstring \<Rightarrow> jsstring list \<Rightarrow> jsstring list list \<Rightarrow> jsstring \<Rightarrow> jsstring list list option"
  and csv_after :: "jsstring \<Rightarrow> jsstring list \<Rightarrow> jsstring list list \<Rightarrow> jsstring \<Rightarrow> jsstring list list option"
  and csv_line :: "jsstring list list \<Rightarrow> jsstring \<Rightarrow> jsstring list list option" where
  "csv_open row rows [] = None"
| "csv_open row rows (c # s) = (if c = cu_quote then csv_inside [] row rows s else None)"
| "csv_inside cell row rows [] = None"
| "csv_inside cell row rows (c # s) =
     (if c = cu_quote then csv_after cell row rows s else csv_inside (cell @ [c]) row rows s)"
| "csv_after cell row rows [] = Some (rows @ [row @ [cell]])"
| "csv_after cell row rows (c # s) =
     (if c = cu_quote then csv_inside (cell @ [cu_quote]) row rows s
      else if c = cu_semicolon then csv_open (row @ [cell]) rows s
      else if c = cu_cr then csv_line (rows @ [row @ [cell]]) s else None)"
| "csv_line rows [] = None"
| "csv_line rows (c # s) = (if c = cu_lf then csv_open [] rows s else None)"

definition read_csv :: "jsstring \<Rightarrow> jsstring list list option" where
  "read_csv s = (case s of c # t \<Rightarrow> if c = 65279 then csv_open [] [] t else csv_open [] [] s | [] \<Rightarrow> None)"

lemma csv_inside_cell:
  assumes "\<forall>t. s \<noteq> cu_quote # t"
  shows "csv_inside cell row rows (js_replace_all cu_quote [cu_quote, cu_quote] v @ cu_quote # s)
    = csv_after (cell @ v) row rows s"
proof (induction v arbitrary: cell)
  case Nil
  then show ?case by (simp add: js_replace_all_def)
next
  case (Cons c v)
  then show ?case by (simp add: js_replace_all_def)
qed

lemma csv_open_cell:
  "\<forall>t. s \<noteq> cu_quote # t \<Longrightarrow> csv_open row rows (csvCell v @ s) = csv_after v row rows s"
  using csv_inside_cell [of s "[]" row rows v] by (simp add: csvCell_def)

lemma csv_open_row:
  assumes "cells \<noteq> []" and "s = [] \<or> (\<exists>t. s = cu_cr # t)"
  shows "csv_open row rows (js_join [cu_semicolon] (map csvCell cells) @ s)
    = (case s of [] \<Rightarrow> Some (rows @ [row @ cells]) | c # t \<Rightarrow> csv_line (rows @ [row @ cells]) t)"
  using assms
proof (induction cells arbitrary: row)
  case (Cons v cells)
  show ?case
  proof (cases cells)
    case Nil
    then show ?thesis using Cons.prems csv_open_cell [of s row rows v] by (auto split: list.splits)
  next
    case (Cons w ws)
    have "csv_open row rows (csvCell v @ cu_semicolon # js_join [cu_semicolon] (map csvCell cells) @ s)
        = csv_open (row @ [v]) rows (js_join [cu_semicolon] (map csvCell cells) @ s)"
      by (subst csv_open_cell) simp_all
    then show ?thesis using Cons.IH [of "row @ [v]"] Cons.prems Cons by (simp split: list.splits)
  qed
qed simp

lemma csv_open_rows:
  "rows \<noteq> [] \<Longrightarrow> [] \<notin> set rows \<Longrightarrow> csv_open [] read (csv_body rows) = Some (read @ rows)"
proof (induction rows arbitrary: read)
  case (Cons row rows)
  show ?case
  proof (cases rows)
    case Nil
    then show ?thesis
      using Cons.prems csv_open_row [of row "[]" "[]" read] by (simp add: csv_body_def)
  next
    case (Cons r rs)
    have "csv_body (row # rows) = js_join [cu_semicolon] (map csvCell row) @ cu_cr # cu_lf # csv_body rows"
      using Cons by (simp add: csv_body_def)
    then show ?thesis
      using Cons.IH [of "read @ [row]"] Cons.prems Cons
        csv_open_row [of row "cu_cr # cu_lf # csv_body rows" "[]" read] by auto
  qed
qed simp

text \<open>C40: Reading the downloaded file back gives the labels of the columns and, row by row, the values of the
result as they came, whatever quotes, semicolons and line ends they hold.\<close>

theorem csv_reads_back:
  assumes "rr_columns r \<noteq> []"
  shows "read_csv (downloadCsv r) = Some (map columnLabel (rr_columns r)
    # map (\<lambda>row. map (\<lambda>c. report_raw (row_value row c)) (rr_columns r)) (rr_rows r))"
proof -
  have "[] \<notin> set (csv_rows r)" using assms by (auto simp: csv_rows_def)
  then have "csv_open [] [] (csv_body (csv_rows r)) = Some (csv_rows r)"
    using csv_open_rows [of "csv_rows r" "[]"] by (simp add: csv_rows_def)
  then show ?thesis by (simp add: read_csv_def downloadCsv_def csv_rows_def)
qed

definition sample_report :: report_result where
  "sample_report = \<lparr>rr_columns = [js ''product_name'', js ''revenue''],
     rr_rows = [[(js ''product_name'', RText (js ''Pan; 1/2'' @ [34, 10])), (js ''revenue'', RText (js ''3.50''))]]\<rparr>"

theorem csv_reads_back_witness:
  "read_csv (downloadCsv sample_report)
     = Some [[js ''Producto'', js ''Ingresos''], [js ''Pan; 1/2'' @ [34, 10], js ''3.50'']]"
proof -
  have "rr_columns sample_report \<noteq> []" by (simp add: sample_report_def)
  moreover have "map columnLabel (rr_columns sample_report)
      # map (\<lambda>row. map (\<lambda>c. report_raw (row_value row c)) (rr_columns sample_report)) (rr_rows sample_report)
    = [[js ''Producto'', js ''Ingresos''], [js ''Pan; 1/2'' @ [34, 10], js ''3.50'']]"
    by code_simp
  ultimately show ?thesis using csv_reads_back [of sample_report] by simp
qed

section \<open>The page\<close>

definition toggle_key :: "jsstring \<Rightarrow> jsstring list \<Rightarrow> jsstring list" where
  "toggle_key key keys = (if key \<in> set keys then removeAll key keys else keys @ [key])"

text \<open>The keys of a list into a \<open>Set\<close>: the first occurrence of each.\<close>

definition key_set :: "jsstring list \<Rightarrow> jsstring list" where
  "key_set keys = rev (remdups (rev keys))"

text \<open>What a stored filter gives when its type is the expected one, and null otherwise.\<close>

definition text_filter :: "(jsstring \<times> json) list \<Rightarrow> string \<Rightarrow> jsstring option option" where
  "text_filter f key = Some (case map_of f (js key) of Some (JStr t) \<Rightarrow> Some t | _ \<Rightarrow> None)"

definition number_filter :: "(jsstring \<times> json) list \<Rightarrow> string \<Rightarrow> int option option" where
  "number_filter f key = Some (case map_of f (js key) of Some (JInt n) \<Rightarrow> Some n | _ \<Rightarrow> None)"

definition filtersFromDefinition :: "(jsstring \<times> json) list \<Rightarrow> report_filters" where
  "filtersFromDefinition f = \<lparr>rf_date_from = text_filter f ''date_from'', rf_date_to = text_filter f ''date_to'',
     rf_warehouse_id = number_filter f ''warehouse_id'', rf_category_id = number_filter f ''category_id'',
     rf_product_id = number_filter f ''product_id'', rf_supplier_id = number_filter f ''supplier_id'',
     rf_cashier_user_id = number_filter f ''cashier_user_id'',
     rf_movement_type = text_filter f ''movement_type''\<rparr>"

datatype report_job = RunJob | SaveJob | RunSavedJob | DeleteJob

record reports_page =
  rep_subjects :: "report_subject_info list"
  rep_definitions :: "report_definition list"
  rep_subject :: "report_subject option"
  rep_dimensions :: "jsstring list"
  rep_metrics :: "jsstring list"
  rep_filters :: report_filters
  rep_result :: "report_result option"
  rep_title :: "jsstring option"
  rep_runError :: "jsstring option"
  rep_name :: jsstring
  rep_editing :: "int option"
  rep_saveError :: "jsstring option"
  rep_jobs :: "report_job list"
  rep_refetched :: nat
  rep_calls :: "api_call list"

definition reports_init :: reports_page where
  "reports_init = \<lparr>rep_subjects = [], rep_definitions = [], rep_subject = None, rep_dimensions = [],
     rep_metrics = [], rep_filters = no_filters, rep_result = None, rep_title = None, rep_runError = None,
     rep_name = [], rep_editing = None, rep_saveError = None, rep_jobs = [], rep_refetched = 0, rep_calls = []\<rparr>"

definition subjectInfo :: "reports_page \<Rightarrow> report_subject_info option" where
  "subjectInfo s = (case rep_subject s of None \<Rightarrow> None
     | Some subject \<Rightarrow> find (\<lambda>i. rsi_subject i = subject) (rep_subjects s))"

definition selectSubject :: "report_subject option \<Rightarrow> reports_page \<Rightarrow> reports_page" where
  "selectSubject v s = s\<lparr>rep_subject := v, rep_dimensions := [], rep_metrics := [], rep_filters := no_filters,
     rep_result := None, rep_title := None, rep_runError := None, rep_editing := None, rep_name := []\<rparr>"

definition editDefinition :: "report_definition \<Rightarrow> reports_page \<Rightarrow> reports_page" where
  "editDefinition d s = s\<lparr>rep_subject := Some (rd_subject d), rep_dimensions := key_set (rd_dimensions d),
     rep_metrics := key_set (rd_metrics d), rep_filters := filtersFromDefinition (rd_filters d),
     rep_name := rd_name d, rep_editing := Some (rd_id d), rep_result := None, rep_title := None,
     rep_runError := None, rep_saveError := None\<rparr>"

definition currentRequest :: "reports_page \<Rightarrow> report_subject \<Rightarrow> report_request" where
  "currentRequest s subject = \<lparr>rq_subject = subject, rq_dimensions = rep_dimensions s,
     rq_metrics = rep_metrics s, rq_filters = rep_filters s\<rparr>"

definition report_start :: "report_job \<Rightarrow> api_call \<Rightarrow> reports_page \<Rightarrow> reports_page" where
  "report_start j c s = s\<lparr>rep_jobs := rep_jobs s @ [j], rep_calls := rep_calls s @ [c]\<rparr>"

text \<open>What the jobs answer: a result, a saved report, or nothing.\<close>

datatype report_answer = Ran report_result | Saved report_definition | RanSaved report_result | Deleted
  | ReportFailed report_job

datatype reports_event =
    SubjectsCome "report_subject_info list"
  | DefinitionsCome "report_definition list"
  | SubjectSelected "report_subject option"
  | DimensionPressed jsstring
  | MetricPressed jsstring
  | FiltersChanged report_filters
  | RunPressed
  | ReportNamed jsstring
  | SavePressed
  | DefinitionEdited report_definition
  | DefinitionRun report_definition
  | DefinitionDeleted report_definition
  | ReportAnswered report_answer

definition report_title :: "string \<Rightarrow> jsstring option" where
  "report_title t = Some (js t)"

fun answer_job :: "report_answer \<Rightarrow> report_job" where
  "answer_job (Ran r) = RunJob"
| "answer_job (Saved d) = SaveJob"
| "answer_job (RanSaved r) = RunSavedJob"
| "answer_job Deleted = DeleteJob"
| "answer_job (ReportFailed j) = j"

fun report_failed :: "report_job \<Rightarrow> reports_page \<Rightarrow> reports_page" where
  "report_failed RunJob s = s\<lparr>rep_runError := Some (js ''No se ha podido ejecutar el informe.'')\<rparr>"
| "report_failed SaveJob s = s\<lparr>rep_saveError := Some (js ''No se ha podido guardar el informe.'')\<rparr>"
| "report_failed RunSavedJob s = s\<lparr>rep_runError := Some (js ''No se ha podido ejecutar el informe guardado.'')\<rparr>"
| "report_failed DeleteJob s = s"

fun report_answered :: "report_answer \<Rightarrow> reports_page \<Rightarrow> reports_page" where
  "report_answered (Ran r) s = s\<lparr>rep_result := Some r, rep_runError := None\<rparr>"
| "report_answered (Saved d) s = s\<lparr>rep_refetched := Suc (rep_refetched s), rep_editing := Some (rd_id d),
     rep_name := rd_name d, rep_saveError := None\<rparr>"
| "report_answered (RanSaved r) s = s\<lparr>rep_result := Some r, rep_title := report_title ''Informe guardado'',
     rep_runError := None\<rparr>"
| "report_answered Deleted s = s\<lparr>rep_refetched := Suc (rep_refetched s)\<rparr>"
| "report_answered (ReportFailed j) s = report_failed j s"

fun reports_step :: "reports_page \<Rightarrow> reports_event \<Rightarrow> reports_page" where
  "reports_step s (SubjectsCome xs) = s\<lparr>rep_subjects := xs\<rparr>"
| "reports_step s (DefinitionsCome ds) = s\<lparr>rep_definitions := ds\<rparr>"
| "reports_step s (SubjectSelected v) = selectSubject v s"
| "reports_step s (DimensionPressed k) = s\<lparr>rep_dimensions := toggle_key k (rep_dimensions s)\<rparr>"
| "reports_step s (MetricPressed k) = s\<lparr>rep_metrics := toggle_key k (rep_metrics s)\<rparr>"
| "reports_step s (FiltersChanged f) = s\<lparr>rep_filters := f\<rparr>"
| "reports_step s RunPressed = (case rep_subject s of None \<Rightarrow> s
     | Some v \<Rightarrow> report_start RunJob (runReport (currentRequest s v))
         (s\<lparr>rep_title := report_title ''Informe a medida''\<rparr>))"
| "reports_step s (ReportNamed v) = s\<lparr>rep_name := v\<rparr>"
| "reports_step s SavePressed = (case rep_subject s of None \<Rightarrow> s
     | Some v \<Rightarrow> report_start SaveJob (case rep_editing s of
           None \<Rightarrow> createReportDefinition (currentRequest s v) (rep_name s)
         | Some i \<Rightarrow> updateReportDefinition i (currentRequest s v) (rep_name s)) s)"
| "reports_step s (DefinitionEdited d) = editDefinition d s"
| "reports_step s (DefinitionRun d) = report_start RunSavedJob (runReportDefinition (rd_id d)) s"
| "reports_step s (DefinitionDeleted d) = report_start DeleteJob (deleteReportDefinition (rd_id d)) s"
| "reports_step s (ReportAnswered a) =
     report_answered a (s\<lparr>rep_jobs := remove1 (answer_job a) (rep_jobs s)\<rparr>)"

fun reports_enabled :: "bool \<Rightarrow> reports_page \<Rightarrow> reports_event \<Rightarrow> bool" where
  "reports_enabled canManage s (SubjectsCome xs) = True"
| "reports_enabled canManage s (DefinitionsCome ds) = distinct (map rd_id ds)"
| "reports_enabled canManage s (SubjectSelected v) =
     (case v of None \<Rightarrow> True | Some x \<Rightarrow> x \<in> rsi_subject ` set (rep_subjects s))"
| "reports_enabled canManage s (DimensionPressed k) =
     (case subjectInfo s of None \<Rightarrow> False | Some i \<Rightarrow> k \<in> fst ` set (rsi_dimensions i))"
| "reports_enabled canManage s (MetricPressed k) =
     (case subjectInfo s of None \<Rightarrow> False | Some i \<Rightarrow> k \<in> fst ` set (rsi_metrics i))"
| "reports_enabled canManage s (FiltersChanged f) = (subjectInfo s \<noteq> None)"
| "reports_enabled canManage s RunPressed =
     (subjectInfo s \<noteq> None \<and> RunJob \<notin> set (rep_jobs s) \<and> rep_metrics s \<noteq> [])"
| "reports_enabled canManage s (ReportNamed v) = (canManage \<and> subjectInfo s \<noteq> None)"
| "reports_enabled canManage s SavePressed = (canManage \<and> subjectInfo s \<noteq> None
     \<and> SaveJob \<notin> set (rep_jobs s) \<and> rep_metrics s \<noteq> [] \<and> js_trim (rep_name s) \<noteq> [])"
| "reports_enabled canManage s (DefinitionEdited d) = (canManage \<and> d \<in> set (rep_definitions s))"
| "reports_enabled canManage s (DefinitionRun d) =
     (d \<in> set (rep_definitions s) \<and> RunSavedJob \<notin> set (rep_jobs s))"
| "reports_enabled canManage s (DefinitionDeleted d) =
     (canManage \<and> d \<in> set (rep_definitions s) \<and> DeleteJob \<notin> set (rep_jobs s))"
| "reports_enabled canManage s (ReportAnswered a) = (answer_job a \<in> set (rep_jobs s))"

definition reports_ok :: "reports_page \<Rightarrow> bool" where
  "reports_ok s \<longleftrightarrow> distinct (rep_dimensions s) \<and> distinct (rep_metrics s)"

lemma report_failed_ok [simp]: "reports_ok (report_failed j s) = reports_ok s"
  by (cases j) (simp_all add: reports_ok_def)

lemma reports_step_ok: "reports_ok s \<Longrightarrow> reports_ok (reports_step s e)"
proof (cases e)
  case (ReportAnswered a)
  then show "reports_ok s \<Longrightarrow> reports_ok (reports_step s e)"
    using report_failed_ok by (cases a) (auto simp: reports_ok_def)
qed (auto simp: reports_ok_def toggle_key_def selectSubject_def editDefinition_def key_set_def report_start_def
    distinct_removeAll split: option.splits)

interpretation report_pages: event_machine "reports_enabled canManage" reports_step reports_init reports_ok
  for canManage
  by unfold_locales (simp add: reports_ok_def reports_init_def, rule reports_step_ok)

text \<open>A report asks for each dimension and each measure once.\<close>

lemma report_keys_distinct:
  "reached (reports_enabled canManage) reports_step reports_init s
     \<Longrightarrow> distinct (rep_dimensions s) \<and> distinct (rep_metrics s)"
  using report_pages.inv_reached by (auto simp: reports_ok_def)

text \<open>
  The answer to a save makes the page edit the report saved, whatever has been chosen since: the next
  save writes another subject over it.
\<close>

definition sample_subject :: "report_subject \<Rightarrow> report_subject_info" where
  "sample_subject v = \<lparr>rsi_subject = v, rsi_label = [], rsi_dimensions = [], rsi_metrics = [(js ''lines'', [])],
     rsi_filter_keys = []\<rparr>"

definition late_report_save :: "reports_event list" where
  "late_report_save = [SubjectsCome [sample_subject SALES, sample_subject PURCHASES], SubjectSelected (Some SALES),
     MetricPressed (js ''lines''), ReportNamed (js ''Ventas''), SavePressed, SubjectSelected (Some PURCHASES),
     MetricPressed (js ''lines''),
     ReportAnswered (Saved \<lparr>rd_id = 5, rd_name = js ''Ventas'', rd_subject = SALES, rd_dimensions = [],
       rd_metrics = [js ''lines''], rd_filters = []\<rparr>), SavePressed]"

lemma late_save_overwrites:
  "run_ok (reports_enabled True) reports_step reports_init late_report_save"
  "last (rep_calls (foldl reports_step reports_init late_report_save))
     = updateReportDefinition 5 \<lparr>rq_subject = PURCHASES, rq_dimensions = [], rq_metrics = [js ''lines''],
         rq_filters = no_filters\<rparr> (js ''Ventas'')"
  by code_simp+

end
