(* ===== verification/Spec2Isabelle.thy ===== *)
theory Spec2Isabelle
  imports Pos_Home Barcode_Scanner Print_Profile Layout_Reference Z_Report Qz_Printer Live_Catalog Print_Surface Close_Till Returns_Page Routes Pos_Frame Images Order_Panel Lots Product_Forms Users Setting_Fields Ticket_Editor Category_Panels Reports
begin

text \<open>
  \<^bold>\<open>The OpenERP point of sale, verified\<close>

  OpenERP is a small-shop system: a Python server and a React frontend with two faces, the till
  (\<open>/pos\<close>) and the back office (\<open>/admin\<close>). This development models the frontend's own logic,
  \<open>frontend/src\<close>: the screens are state machines whose events are what a person, the server, the
  printer or the clock does; the calls to the server are data; the server, the browser and QZ Tray
  are parameters whose answers are events or arguments.

  \<^bold>\<open>Parts and theories\<close>

  \<^item> \<open>Prelude\<close>: strings as lists of UTF-16 code units with the string methods the code calls, decimal
    numerals, documents that fit a width, and the event machine (a locale with the invariant rule,
    interpreted for every screen) that the screens share.
  \<^item> \<open>Js_Number\<close>, \<open>Js_Decimal\<close>: the language's numbers, rounding written out, and their conversion from
    and to text; amounts on a decimal grid survive both.
  \<^item> \<open>Api_Client\<close> (\<open>lib/api.ts\<close>, \<open>lib/queryClient.ts\<close>), \<open>Url_Encoding\<close>, \<open>Pos_Model\<close>
    (\<open>features/pos/api.ts\<close>): requests, answers, errors, retries; every record and call of the till.
  \<^item> \<open>Settings\<close>, \<open>Lib_Formats\<close>: shop settings and the appearance they give; formats and decimals.
  \<^item> \<open>Pos_Home\<close> (\<open>pages/pos/PosHomePage.tsx\<close>): the sale screen. State \<open>home\<close>, events \<open>home_event\<close>,
    transition \<open>home_move\<close> after \<open>handle\<close>; one definition per handler of the component.
  \<^item> \<open>Pos_Pads\<close>, \<open>Barcode_Scanner\<close>: keypads, weight, price and payment dialogs; the key listener.
  \<^item> \<open>Live_Catalog\<close>: the notice between tabs and the catalogue fingerprint.
  \<^item> \<open>Print_Profile\<close>, \<open>Layout_Template\<close>, \<open>Layout_Reference\<close>, \<open>Z_Report\<close>, \<open>Qz_Printer\<close>,
    \<open>Print_Surface\<close>, \<open>Close_Till\<close>: from the template to the paper: the raster, the template engine and
    its meaning, the closing receipts, QZ Tray and the screens that print.
  \<^item> \<open>Returns\<close> (\<open>features/returns\<close>), \<open>Returns_Page\<close>: the form of a return, with its quantities computed as
    the browser does, and the pages around it with their idempotency keys.
  \<^item> \<open>Sessions\<close>, \<open>Routes\<close> (\<open>features/auth\<close>, \<open>routes.tsx\<close>): who is signed in, the route tree with its guards and
    redirects, and the menu; \<open>Pos_Frame\<close>: the register of the browser and the frame of the till;
    \<open>Images\<close>: pictures and their size.
  \<^item> \<open>Catalog\<close>, \<open>Inventory\<close>, \<open>Purchasing\<close> (\<open>features/catalog/api.ts\<close>, \<open>features/inventory\<close>,
    \<open>features/purchasing\<close>): the records and calls of goods, and the forms that adjust, move, order and
    receive stock; \<open>Keyed_Attempts\<close>: the locale \<open>keyed_writer\<close> of the screens that send a key with
    what they write, interpreted for orders, receptions and consumptions; \<open>Order_Panel\<close>, \<open>Lots\<close>: the
    panel of an order with its receptions, and the lots with the consumption by expiration.
  \<^item> \<open>Pricing\<close> (\<open>features/pricing\<close>), \<open>Product_Forms\<close> (\<open>features/catalog\<close>): taxes, formulas, margins and
    the warning before a price changes; the forms of a product and the panel of its packages.
  \<^item> \<open>Category_Panels\<close>: the categories of products and of the till, and the units.
  \<^item> \<open>Users\<close> (\<open>features/users\<close>, \<open>features/roles\<close>): users, their roles and the permissions of a role;
    \<open>Setting_Fields\<close> (\<open>features/settings\<close>): the settings as they are edited; \<open>Ticket_Editor\<close>
    (\<open>TemplateFieldsForm.tsx\<close>, \<open>ticketPreview.ts\<close>): the templates and their sample ticket.
  \<^item> \<open>Reports\<close> (\<open>features/reports\<close>): reports as they are built, run, saved and downloaded.

  \<^bold>\<open>What is shown\<close>

  Money: a key charges one sale, a retry repeats it until an event ends the intention to pay, no
  payment is short, one dialog emits at most one Z, and amounts typed, sent and shown are exact. The
  till: it has a sale to work on, is opening one or offers to, answers reach both the sale and the
  bar, codes read are codes scanned, and every terminal keeps its own last ticket. Paper: rasters stay
  inside the head, rows inside the width, amounts that fit stand whole, the raster document reads back
  as the lines of the ticket, the template engine computes its structural meaning, jobs keep their
  order and settle, receipts go out once.
  Goods: what moves, is ordered or received names places that the lists gave, stays within its order
  (to a millionth) or within what its sale had left when it was added, and goes out under a key that
  stands for that content alone; lots that all have a date are listed by expiration. Products
  and prices: a change of cost is confirmed first, taxes are inherited until somebody chooses,
  products with expiration keep their trace. People: every page is behind its permission and every
  role given was, when it was chosen, within the permissions of who gave it. Settings: a card saves
  what was edited in it and nothing else, and leaves the other cards alone; a template that can be
  saved can be printed.
  Reports: the CSV file of a result reads back as the result.
  Requests: addresses decode to what was meant, headers and errors are as the server expects.

  Where the code does not look again at what has changed since, a lemma shows it beside the property:
  \<open>location_of_former_warehouse\<close>, \<open>typed_lot_lost\<close>, \<open>staged_line_sent_for_other_sale\<close>,
  \<open>late_ticket_offered\<close>, \<open>plan_of_another_quantity\<close>, \<open>role_of_former_list\<close>.

  \<^bold>\<open>Bounds and recursion\<close>

  No fuel is used: the scanners of the template engine and the tokens recurse on the length of the
  text; the engine's expansion loop, which may run forever, is a partial function whose \<open>None\<close> is
  not returning, and is shown to return on every well-formed template whose values hold no braces.
  Event machines are proved over all finite runs.

  \<^bold>\<open>Not modelled\<close>

  Markup and styles; the query library's cache, timers and abort signals; the browser's canvas,
  calendar formats and QZ Tray itself (parameters); the server (another language). Paths are matched
  by their exact letters, where the router also takes other case and a final slash; the idle timer
  of the scanner may go off at any time once set, and a row of a report has each key once. Of the back
  office: the pages of dashboards, notifications, audit and outbox, suppliers, and the
  listings, which show what their API modules give.
\<close>

end
